(* ===== verification/Prelude.thy ===== *)
theory Prelude
  imports Main "HOL-Library.Char_ord" "HOL-Library.List_Lexorder" "HOL-Library.Product_Lexorder"
begin

text \<open>
  Shared vocabulary of the development: Python exceptions as values of a sum type with a
  sequencing combinator, the order-preserving deduplication written
  \<^verbatim>\<open>list(dict.fromkeys(xs))\<close> all over the code, Python's stable \<^verbatim>\<open>sorted\<close> and
  \<^verbatim>\<open>max(..., key=...)\<close>, and the two generic interfaces that several components
  implement: a transition system with an invariant, and the choice of the most specific
  applicable rule.
\<close>

subsection \<open>Collections of facts\<close>

named_theorems err_simps "rewriting of error-valued computations"
named_theorems date_simps "calendar arithmetic"
named_theorems inv_defs "definitions of component invariants"

subsection \<open>Identifiers and instants\<close>

text \<open>
  A \<^verbatim>\<open>uuid.UUID\<close> is only ever compared for equality; a \<^verbatim>\<open>datetime\<close> in UTC is its
  number of microseconds since the epoch, so that subtraction gives a \<^verbatim>\<open>timedelta\<close>
  and its \<^verbatim>\<open>days\<close> attribute is the floored quotient.
\<close>

type_synonym uuid = nat
type_synonym datetime = int
type_synonym timedelta = int

definition day_us :: int where
  "day_us = 86400 * 1000000"

definition td_days :: "timedelta \<Rightarrow> int" where
  "td_days t = t div day_us"

definition seconds_us :: "int \<Rightarrow> timedelta" where
  "seconds_us n = n * 1000000"

lemma day_us_pos [simp]: "0 < day_us"
  by (simp add: day_us_def)

lemma td_days_mono: "a \<le> b \<Longrightarrow> td_days a \<le> td_days b"
  by (simp add: td_days_def zdiv_mono1)

subsection \<open>Python exceptions\<close>

datatype py_error =
    ValueError | OverflowError | TypeError | KeyError | AttributeError | AssertionError

text \<open>
  The application's own exceptions (\<^verbatim>\<open>app/core/exceptions.py\<close>) with the fixed part of
  their message, the database's constraint violation, and any other Python exception that
  escapes an operation.
\<close>

datatype domain_error =
    DomainError string
  | NotFoundError string
  | InvalidStateTransitionError string
  | StateConflictError string
  | IntegrityError
  | Raised py_error

definition bindE :: "('e + 'a) \<Rightarrow> ('a \<Rightarrow> 'e + 'b) \<Rightarrow> 'e + 'b" where
  "bindE m f = (case m of Inl e \<Rightarrow> Inl e | Inr a \<Rightarrow> f a)"

lemma bindE_simps [simp]: "bindE (Inl e) f = Inl e" "bindE (Inr a) f = f a"
  by (simp_all add: bindE_def)

lemma bindE_Inr_iff [err_simps]:
  "bindE m f = Inr b \<longleftrightarrow> (\<exists>a. m = Inr a \<and> f a = Inr b)"
  by (cases m) auto

lemma bindE_Inl_iff [err_simps]:
  "bindE m f = Inl e \<longleftrightarrow> m = Inl e \<or> (\<exists>a. m = Inr a \<and> f a = Inl e)"
  by (cases m) auto

lemma bindE_assoc: "bindE (bindE m f) g = bindE m (\<lambda>a. bindE (f a) g)"
  by (cases m) auto

lemma bindE_cong [fundef_cong]:
  "m = m' \<Longrightarrow> (\<And>a. m' = Inr a \<Longrightarrow> f a = f' a) \<Longrightarrow> bindE m f = bindE m' f'"
  by (cases m') auto

text \<open>A list comprehension over a call that may raise: the first exception wins.\<close>

fun mapE :: "('a \<Rightarrow> 'e + 'b) \<Rightarrow> 'a list \<Rightarrow> 'e + 'b list" where
  "mapE f [] = Inr []"
| "mapE f (x # xs) = bindE (f x) (\<lambda>y. bindE (mapE f xs) (\<lambda>ys. Inr (y # ys)))"

lemma mapE_Inr_length: "mapE f xs = Inr ys \<Longrightarrow> length ys = length xs"
  by (induction xs arbitrary: ys) (auto simp: err_simps)

lemma mapE_Inr_set: "mapE f xs = Inr ys \<Longrightarrow> y \<in> set ys \<Longrightarrow> \<exists>x \<in> set xs. f x = Inr y"
  by (induction xs arbitrary: ys) (auto simp: err_simps)

lemma mapE_pure: "(\<And>x. x \<in> set xs \<Longrightarrow> f x = Inr (g x)) \<Longrightarrow> mapE f xs = Inr (map g xs)"
  by (induction xs) auto

subsection \<open>Strings\<close>

text \<open>\<^verbatim>\<open>str.lower()\<close> on the ASCII strings the code applies it to.\<close>

definition lower_char :: "char \<Rightarrow> char" where
  "lower_char c = (if 65 \<le> (of_char c :: nat) \<and> (of_char c :: nat) \<le> 90
                   then char_of ((of_char c :: nat) + 32) else c)"

definition lower_ascii :: "string \<Rightarrow> string" where
  "lower_ascii s = map lower_char s"

subsection \<open>Order-preserving deduplication\<close>

text \<open>\<^verbatim>\<open>list(dict.fromkeys(xs))\<close> keeps the first occurrence of every element.\<close>

fun dict_fromkeys :: "'a list \<Rightarrow> 'a list" where
  "dict_fromkeys [] = []"
| "dict_fromkeys (x # xs) = x # filter (\<lambda>y. y \<noteq> x) (dict_fromkeys xs)"

text \<open>Item assignment on a dict kept as the list of its items: an existing key keeps its position.\<close>

fun dict_set :: "('k \<times> 'v) list \<Rightarrow> 'k \<Rightarrow> 'v \<Rightarrow> ('k \<times> 'v) list" where
  "dict_set [] k v = [(k, v)]"
| "dict_set ((k', v') # d) k v = (if k' = k then (k, v) # d else (k', v') # dict_set d k v)"

lemma map_of_dict_set [simp]: "map_of (dict_set d k v) = (map_of d)(k \<mapsto> v)"
  by (induction d k v rule: dict_set.induct) auto

lemma keys_dict_set [simp]: "fst ` set (dict_set d k v) = insert k (fst ` set d)"
  by (induction d k v rule: dict_set.induct) auto

lemma distinct_dict_set: "distinct (map fst d) \<Longrightarrow> distinct (map fst (dict_set d k v))"
  by (induction d k v rule: dict_set.induct) auto

lemma set_dict_fromkeys [simp]: "set (dict_fromkeys xs) = set xs"
  by (induction xs) auto

lemma distinct_dict_fromkeys [simp]: "distinct (dict_fromkeys xs)"
  by (induction xs) auto

lemma dict_fromkeys_Nil_iff [simp]: "dict_fromkeys xs = [] \<longleftrightarrow> xs = []"
  by (cases xs) auto

subsection \<open>Stable sorting and extremal elements\<close>

text \<open>
  \<^verbatim>\<open>sorted(xs, key=f)\<close> is the library's stable \<^const>\<open>sort_key\<close>; with
  \<^verbatim>\<open>reverse=True\<close> Python keeps the original order of equal elements too, which is
  the reversal of the stable sort of the reversal. \<^verbatim>\<open>max(xs, key=f)\<close> returns the
  first element of greatest key.
\<close>

definition sorted_reverse :: "('a \<Rightarrow> 'k::linorder) \<Rightarrow> 'a list \<Rightarrow> 'a list" where
  "sorted_reverse f xs = rev (sort_key f (rev xs))"

lemma set_sorted_reverse [simp]: "set (sorted_reverse f xs) = set xs"
  by (simp add: sorted_reverse_def)

lemma sorted_reverse_Nil_iff [simp]: "sorted_reverse f xs = [] \<longleftrightarrow> xs = []"
  by (metis set_sorted_reverse set_empty)

lemma sort_key_hd_le:
  assumes "x \<in> set xs"
  shows "f (hd (sort_key f xs)) \<le> f x"
proof -
  have srt: "sorted (map f (sort_key f xs))" by simp
  from assms have "x \<in> set (sort_key f xs)" by simp
  then show ?thesis using srt by (cases "sort_key f xs") auto
qed

lemma sorted_reverse_hd_ge:
  assumes "x \<in> set xs"
  shows "f x \<le> f (hd (sorted_reverse f xs))"
proof -
  let ?s = "sort_key f (rev xs)"
  have srt: "sorted (map f ?s)" by simp
  from assms have x: "x \<in> set ?s" by simp
  have ne: "?s \<noteq> []" using x by (metis empty_iff empty_set)
  from x obtain i where i: "i < length ?s" "?s ! i = x" by (metis in_set_conv_nth)
  have "map f ?s ! i \<le> map f ?s ! (length ?s - 1)"
    using i by (intro sorted_nth_mono [OF srt]) auto
  then show ?thesis
    using i ne by (simp add: sorted_reverse_def hd_rev last_conv_nth)
qed

fun max_by :: "('a \<Rightarrow> 'k::linorder) \<Rightarrow> 'a \<Rightarrow> 'a list \<Rightarrow> 'a" where
  "max_by f best [] = best"
| "max_by f best (x # xs) = max_by f (if f best < f x then x else best) xs"

lemma max_by_in: "max_by f best xs \<in> insert best (set xs)"
  by (induction xs arbitrary: best) auto

lemma max_by_ge_start: "f best \<le> f (max_by f best xs)"
proof (induction xs arbitrary: best)
  case (Cons y ys)
  have "f best \<le> f (if f best < f y then y else best)" by (simp add: less_imp_le)
  also have "\<dots> \<le> f (max_by f best (y # ys))"
    using Cons.IH [of "if f best < f y then y else best"] by simp
  finally show ?case .
qed simp

lemma max_by_ge: "x \<in> set xs \<Longrightarrow> f x \<le> f (max_by f best xs)"
proof (induction xs arbitrary: best)
  case (Cons y ys)
  have "f y \<le> f (max_by f (if f best < f y then y else best) ys)"
    using max_by_ge_start [of f "if f best < f y then y else best" ys]
    by (auto split: if_splits)
  then show ?case using Cons by auto
qed simp

subsection \<open>Tables\<close>

text \<open>
  A database table is the list of its rows in insertion order; \<^verbatim>\<open>session.get\<close> finds a row
  by its primary key, and an update of a loaded row replaces it in place.
\<close>

definition get_row :: "('a \<Rightarrow> 'k) \<Rightarrow> 'a list \<Rightarrow> 'k \<Rightarrow> 'a option" where
  "get_row key rows i = find (\<lambda>r. key r = i) rows"

definition put_row :: "('a \<Rightarrow> 'k) \<Rightarrow> 'a \<Rightarrow> 'a list \<Rightarrow> 'a list" where
  "put_row key r rows = map (\<lambda>s. if key s = key r then r else s) rows"

lemma get_row_simps [simp]:
  "get_row key [] i = None"
  "get_row key (r # rows) i = (if key r = i then Some r else get_row key rows i)"
  by (simp_all add: get_row_def)

lemma get_row_SomeD: "get_row key rows i = Some r \<Longrightarrow> r \<in> set rows \<and> key r = i"
  by (induction rows) (auto split: if_splits)

lemma get_row_None_iff: "get_row key rows i = None \<longleftrightarrow> i \<notin> key ` set rows"
  by (induction rows) auto

lemma get_row_member: "distinct (map key rows) \<Longrightarrow> r \<in> set rows \<Longrightarrow> get_row key rows (key r) = Some r"
  by (induction rows) (auto simp: rev_image_eqI)

lemma get_row_append:
  "get_row key (rows @ rows') i =
     (case get_row key rows i of None \<Rightarrow> get_row key rows' i | Some r \<Rightarrow> Some r)"
  by (induction rows) auto

lemma keys_put_row [simp]: "map key (put_row key r rows) = map key rows"
  by (induction rows) (auto simp: put_row_def)

lemma set_put_row: "x \<in> set (put_row key r rows) \<Longrightarrow> x = r \<or> (x \<in> set rows \<and> key x \<noteq> key r)"
  by (auto simp: put_row_def split: if_splits)

lemma get_put_row:
  "get_row key (put_row key r rows) i =
     (if i = key r then (case get_row key rows i of None \<Rightarrow> None | Some _ \<Rightarrow> Some r)
      else get_row key rows i)"
  by (induction rows) (auto simp: put_row_def)

subsection \<open>Reachability and invariants\<close>

inductive reach :: "('s \<Rightarrow> bool) \<Rightarrow> ('s \<Rightarrow> 's \<Rightarrow> bool) \<Rightarrow> 's \<Rightarrow> bool"
  for init :: "'s \<Rightarrow> bool" and step :: "'s \<Rightarrow> 's \<Rightarrow> bool" where
  reach_init: "init s \<Longrightarrow> reach init step s"
| reach_step: "reach init step s \<Longrightarrow> step s t \<Longrightarrow> reach init step t"

lemma reach_rtranclp: "step\<^sup>*\<^sup>* s t \<Longrightarrow> reach init step s \<Longrightarrow> reach init step t"
  by (induction rule: rtranclp_induct) (auto intro: reach_step)

text \<open>
  A component that keeps state provides its initial states, its step relation and an
  invariant that every step keeps; its clients obtain the invariant of every reachable
  state and of every finite run.
\<close>

locale invariant_system =
  fixes init :: "'s \<Rightarrow> bool"
    and step :: "'s \<Rightarrow> 's \<Rightarrow> bool"
    and inv :: "'s \<Rightarrow> bool"
  assumes init_inv: "init s \<Longrightarrow> inv s"
    and step_inv: "inv s \<Longrightarrow> step s t \<Longrightarrow> inv t"
begin

lemma reach_inv: "reach init step s \<Longrightarrow> inv s"
  by (induction rule: reach.induct) (auto intro: init_inv step_inv)

lemma run_inv: "step\<^sup>*\<^sup>* s t \<Longrightarrow> inv s \<Longrightarrow> inv t"
  by (induction rule: rtranclp_induct) (auto intro: step_inv)

end

subsection \<open>Choice of the most specific applicable rule\<close>

text \<open>
  Requirement rules and deadline policies are both resolved by filtering the applicable
  candidates and sorting them by a key that puts the narrowest scope first. The interface
  is the applicability test and the key; what it promises its client is that the head of
  the resolution is applicable and that no applicable rule precedes it.
\<close>

locale rule_resolution =
  fixes applicable :: "'r \<Rightarrow> bool"
    and key :: "'r \<Rightarrow> 'k::linorder"
    and resolve :: "'r list \<Rightarrow> 'r list"
  assumes resolve_def: "resolve rs = sort_key key (filter applicable rs)"
begin

lemma set_resolve: "set (resolve rs) = {r \<in> set rs. applicable r}"
  by (auto simp: resolve_def)

lemma resolve_Nil_iff: "resolve rs = [] \<longleftrightarrow> (\<forall>r \<in> set rs. \<not> applicable r)"
  using set_resolve [of rs] by (metis (mono_tags, lifting) empty_Collect_eq set_empty)

lemma hd_resolve_applicable: "resolve rs \<noteq> [] \<Longrightarrow> hd (resolve rs) \<in> set rs \<and> applicable (hd (resolve rs))"
  using set_resolve [of rs] list.set_sel(1) by blast

lemma hd_resolve_minimal: "r \<in> set rs \<Longrightarrow> applicable r \<Longrightarrow> key (hd (resolve rs)) \<le> key r"
  unfolding resolve_def by (rule sort_key_hd_le) simp

lemma resolve_sorted: "sorted (map key (resolve rs))"
  by (simp add: resolve_def)

lemma resolve_stable:
  "filter (\<lambda>r. key r = k) (resolve rs) = filter (\<lambda>r. key r = k) (filter applicable rs)"
  unfolding resolve_def by (simp add: sort_key_stable)

end

subsection \<open>Audited operations\<close>

text \<open>
  The services promise that a successful call leaves exactly one audit row behind the rows
  that were there before. A client that makes a series of calls then finds one row for each
  of them, in their order, and every earlier row untouched.
\<close>

fun run_calls :: "('rq \<Rightarrow> 'db \<Rightarrow> 'e + ('r \<times> 'db)) \<Rightarrow> 'rq list \<Rightarrow> 'db \<Rightarrow> 'e + 'db" where
  "run_calls call [] db = Inr db"
| "run_calls call (rq # rqs) db = bindE (call rq db) (\<lambda>(_, db'). run_calls call rqs db')"

locale audited_operation =
  fixes call :: "'rq \<Rightarrow> 'db \<Rightarrow> 'e + ('r \<times> 'db)"
    and audits :: "'db \<Rightarrow> 'a list"
    and describes :: "'rq \<Rightarrow> 'a \<Rightarrow> bool"
  assumes call_audits: "call rq db = Inr (r, db') \<Longrightarrow> \<exists>a. audits db' = audits db @ [a] \<and> describes rq a"
begin

lemma run_audits:
  "run_calls call rqs db = Inr db' \<Longrightarrow>
     \<exists>as. audits db' = audits db @ as \<and> list_all2 describes rqs as"
proof (induction rqs arbitrary: db)
  case (Cons rq rqs)
  then obtain r db1 where c: "call rq db = Inr (r, db1)" and rest: "run_calls call rqs db1 = Inr db'"
    by (auto simp: err_simps)
  obtain a where a: "audits db1 = audits db @ [a]" "describes rq a" using call_audits [OF c] by blast
  obtain as where "audits db' = audits db1 @ as" "list_all2 describes rqs as"
    using Cons.IH [OF rest] by blast
  with a show ?case by (intro exI [of _ "a # as"]) simp
qed simp

lemma audits_append_only: "run_calls call rqs db = Inr db' \<Longrightarrow> take (length (audits db)) (audits db') = audits db"
  using run_audits by force

end

end
