(* ===== verification/Py_Json.thy ===== *)
theory Py_Json
  imports Complex_Main Prelude
begin

text \<open>
  The values that live in JSONB columns and in the payloads built for them: Python's
  \<^verbatim>\<open>None\<close>, \<^verbatim>\<open>bool\<close>, \<^verbatim>\<open>int\<close>, \<^verbatim>\<open>float\<close> (a finite binary float is the rational it
  denotes), \<^verbatim>\<open>str\<close>, \<^verbatim>\<open>list\<close> and \<^verbatim>\<open>dict\<close>. A dict is the list of its items in
  insertion order. Equality is Python's \<^verbatim>\<open>==\<close>: numbers compare by value across
  \<^verbatim>\<open>bool\<close>, \<^verbatim>\<open>int\<close> and \<^verbatim>\<open>float\<close>, dicts compare regardless of order.
\<close>

datatype json =
    JNull
  | JBool bool
  | JInt int
  | JFloat rat
  | JStr string
  | JList "json list"
  | JObj "(string \<times> json) list"

type_synonym jdict = "(string \<times> json) list"

definition jget :: "jdict \<Rightarrow> string \<Rightarrow> json option" where
  "jget d k = map_of d k"

text \<open>\<^verbatim>\<open>d.get(k)\<close> and \<^verbatim>\<open>d.get(k, default)\<close>.\<close>

definition jget_or :: "jdict \<Rightarrow> string \<Rightarrow> json \<Rightarrow> json" where
  "jget_or d k v = (case jget d k of None \<Rightarrow> v | Some w \<Rightarrow> w)"

text \<open>Item assignment on a dict: an existing key keeps its position.\<close>

fun jset :: "jdict \<Rightarrow> string \<Rightarrow> json \<Rightarrow> jdict" where
  "jset [] k v = [(k, v)]"
| "jset ((k', v') # d) k v = (if k' = k then (k, v) # d else (k', v') # jset d k v)"

lemma jget_jset [simp]: "jget (jset d k v) k' = (if k' = k then Some v else jget d k')"
  by (induction d k v rule: jset.induct) (auto simp: jget_def)

lemma keys_jset: "set (map fst (jset d k v)) = insert k (set (map fst d))"
  by (induction d k v rule: jset.induct) auto

text \<open>Truth value testing.\<close>

fun truthy :: "json \<Rightarrow> bool" where
  "truthy JNull = False"
| "truthy (JBool b) = b"
| "truthy (JInt n) = (n \<noteq> 0)"
| "truthy (JFloat q) = (q \<noteq> 0)"
| "truthy (JStr s) = (s \<noteq> [])"
| "truthy (JList xs) = (xs \<noteq> [])"
| "truthy (JObj d) = (d \<noteq> [])"

text \<open>The numeric value of a number; a boolean is the integer 0 or 1.\<close>

fun num_of :: "json \<Rightarrow> rat option" where
  "num_of (JBool b) = Some (if b then 1 else 0)"
| "num_of (JInt n) = Some (of_int n)"
| "num_of (JFloat q) = Some q"
| "num_of _ = None"

fun json_eq :: "json \<Rightarrow> json \<Rightarrow> bool" where
  "json_eq JNull b = (b = JNull)"
| "json_eq (JStr s) b = (b = JStr s)"
| "json_eq (JList xs) b = (case b of JList ys \<Rightarrow> list_all2 json_eq xs ys | _ \<Rightarrow> False)"
| "json_eq (JObj d) b =
     (case b of
        JObj e \<Rightarrow> length d = length e \<and>
          list_all (\<lambda>(k, v). case map_of e k of None \<Rightarrow> False | Some w \<Rightarrow> json_eq v w) d
      | _ \<Rightarrow> False)"
| "json_eq a b = (case num_of b of None \<Rightarrow> False | Some q \<Rightarrow> num_of a = Some q)"

text \<open>A dict built by Python has distinct keys, at every level.\<close>

fun wf_json :: "json \<Rightarrow> bool" where
  "wf_json (JList xs) = list_all wf_json xs"
| "wf_json (JObj d) = (distinct (map fst d) \<and> list_all (\<lambda>kv. wf_json (snd kv)) d)"
| "wf_json _ = True"

lemma json_eq_refl: "wf_json a \<Longrightarrow> json_eq a a"
proof (induction a)
  case (JList xs)
  then show ?case by (auto simp: list_all_iff intro: list.rel_refl_strong)
next
  case (JObj d)
  have "json_eq v w" if "(k, v) \<in> set d" "map_of d k = Some w" for k v w
  proof -
    have "w = v" using that JObj.prems by (simp add: map_of_is_SomeI)
    moreover have "wf_json v" using that(1) JObj.prems by (auto simp: list_all_iff)
    ultimately show ?thesis using JObj.IH [OF that(1), of v] by (simp add: snds.simps)
  qed
  moreover have "map_of d k \<noteq> None" if "(k, v) \<in> set d" for k v
    using that by (metis map_of_eq_None_iff image_eqI fst_conv)
  ultimately show ?case by (auto simp: list_all_iff split: option.splits)
qed auto

end
