(* ===== verification/Email_State.thy ===== *)
theory Email_State
  imports Py_Json
begin

text \<open>
  The email processing state machine: the transition matrix of
  \<^verbatim>\<open>app/domain/transitions.py\<close> and the atomic transition service of
  \<^verbatim>\<open>app/services/email_state.py\<close>, which updates the row-locked email, appends a
  processing event and an audit event, and for significant targets an outbox row, all in
  one transaction. Every write of \<^verbatim>\<open>processing_state\<close> after discovery goes through this
  service. The theorems are about single calls, about the invariant of the email row, and
  about whole histories.
\<close>

subsection \<open>States and the transition matrix (app/domain)\<close>

datatype ProcessingState =
    DISCOVERED | FETCHED | ATTACHMENTS_SAVED | CLASSIFIED | TASK_CREATED | MOVED | COMPLETED
  | FAILED_RETRYABLE | FAILED_REVIEW

datatype ActorType = HUMAN | SYSTEM | IMPORT

fun state_value :: "ProcessingState \<Rightarrow> string" where
  "state_value DISCOVERED = ''DISCOVERED''"
| "state_value FETCHED = ''FETCHED''"
| "state_value ATTACHMENTS_SAVED = ''ATTACHMENTS_SAVED''"
| "state_value CLASSIFIED = ''CLASSIFIED''"
| "state_value TASK_CREATED = ''TASK_CREATED''"
| "state_value MOVED = ''MOVED''"
| "state_value COMPLETED = ''COMPLETED''"
| "state_value FAILED_RETRYABLE = ''FAILED_RETRYABLE''"
| "state_value FAILED_REVIEW = ''FAILED_REVIEW''"

definition PIPELINE_FAILURES :: "ProcessingState set" where
  "PIPELINE_FAILURES = {FAILED_RETRYABLE, FAILED_REVIEW}"

text \<open>The failure states have no entry in the dictionary: their targets depend on data.\<close>

fun ALLOWED_TRANSITIONS :: "ProcessingState \<Rightarrow> ProcessingState set option" where
  "ALLOWED_TRANSITIONS DISCOVERED = Some ({FETCHED} \<union> PIPELINE_FAILURES)"
| "ALLOWED_TRANSITIONS FETCHED = Some ({ATTACHMENTS_SAVED} \<union> PIPELINE_FAILURES)"
| "ALLOWED_TRANSITIONS ATTACHMENTS_SAVED = Some ({CLASSIFIED} \<union> PIPELINE_FAILURES)"
| "ALLOWED_TRANSITIONS CLASSIFIED = Some ({CLASSIFIED, TASK_CREATED} \<union> PIPELINE_FAILURES)"
| "ALLOWED_TRANSITIONS TASK_CREATED = Some ({MOVED} \<union> PIPELINE_FAILURES)"
| "ALLOWED_TRANSITIONS MOVED = Some ({COMPLETED} \<union> PIPELINE_FAILURES)"
| "ALLOWED_TRANSITIONS COMPLETED = Some {}"
| "ALLOWED_TRANSITIONS _ = None"

definition MANUAL_RESET_TARGETS :: "ProcessingState set" where
  "MANUAL_RESET_TARGETS =
     {DISCOVERED, FETCHED, ATTACHMENTS_SAVED, CLASSIFIED, TASK_CREATED, MOVED}"

definition SIGNIFICANT_STATES :: "ProcessingState set" where
  "SIGNIFICANT_STATES = {CLASSIFIED, TASK_CREATED, COMPLETED, FAILED_REVIEW}"

definition is_significant :: "ProcessingState \<Rightarrow> bool" where
  "is_significant target \<longleftrightarrow> target \<in> SIGNIFICANT_STATES"

definition validate_transition ::
  "ProcessingState \<Rightarrow> ProcessingState \<Rightarrow> ProcessingState option \<Rightarrow> bool \<Rightarrow> domain_error + unit" where
  "validate_transition current target resume_state manual_reset =
     (if current = COMPLETED then Inl (InvalidStateTransitionError ''COMPLETED is terminal'')
      else if current = FAILED_RETRYABLE then
        (if target = FAILED_REVIEW then Inr ()
         else if resume_state \<noteq> None \<and> Some target = resume_state then Inr ()
         else Inl (InvalidStateTransitionError ''FAILED_RETRYABLE may only resume''))
      else if current = FAILED_REVIEW then
        (if manual_reset \<and> target \<in> MANUAL_RESET_TARGETS then Inr ()
         else Inl (InvalidStateTransitionError ''FAILED_REVIEW requires an explicit manual reset''))
      else (case ALLOWED_TRANSITIONS current of
              None \<Rightarrow> Inl (Raised KeyError)
            | Some allowed \<Rightarrow>
                (if target \<notin> allowed
                 then Inl (InvalidStateTransitionError ''Cannot transition directly'')
                 else Inr ())))"

subsection \<open>Rows, tables and the request (app/models, app/services/email_state.py)\<close>

text \<open>
  The columns of \<^verbatim>\<open>Email\<close> that the transition service reads or writes. The record is
  extensible: the columns it never touches are the record extension.
\<close>

record email =
  em_id :: uuid
  em_mailbox_id :: uuid
  processing_state :: ProcessingState
  resume_state :: "ProcessingState option"
  retry_count :: int
  next_retry_at :: "datetime option"
  last_error_code :: "string option"
  last_error_message :: "string option"
  fetched_at :: "datetime option"
  completed_at :: "datetime option"

record actor =
  actor_type :: ActorType
  actor_id :: string

record processing_event =
  ev_id :: uuid
  ev_email_id :: uuid
  ev_from_state :: "ProcessingState option"
  ev_to_state :: ProcessingState
  ev_event_type :: string
  ev_note :: "string option"
  ev_error_code :: "string option"
  ev_error_message :: "string option"
  ev_metadata :: jdict
  ev_correlation_id :: "uuid option"
  ev_occurred_at :: datetime

record audit_event =
  au_actor :: actor
  au_entity_type :: string
  au_entity_id :: uuid
  au_action :: string
  au_before :: "ProcessingState"
  au_after :: "ProcessingState"
  au_metadata :: jdict
  au_correlation_id :: "uuid option"
  au_occurred_at :: datetime

record outbox_event =
  ob_aggregate_id :: uuid
  ob_event_type :: string
  ob_mailbox_id :: uuid
  ob_from_state :: ProcessingState
  ob_to_state :: ProcessingState
  ob_idempotency_key :: "uuid \<times> uuid"
  ob_status :: string
  ob_available_at :: datetime

record email_db =
  db_emails :: "uuid \<rightharpoonup> email"
  db_events :: "processing_event list"
  db_audits :: "audit_event list"
  db_outbox :: "outbox_event list"

record transition_request =
  rq_email_id :: uuid
  rq_target :: ProcessingState
  rq_actor :: actor
  rq_note :: "string option"
  rq_error_code :: "string option"
  rq_error_message :: "string option"
  rq_metadata :: "jdict option"
  rq_expected :: "ProcessingState option"
  rq_manual_reset :: bool
  rq_event_type :: string

text \<open>What the call takes from its environment: the clock, \<^verbatim>\<open>uuid.uuid4()\<close> for the event
  and the correlation id of the current request.\<close>

record txn_env =
  env_now :: datetime
  env_new_id :: uuid
  env_correlation :: "uuid option"

subsection \<open>The transition service\<close>

definition is_failure :: "ProcessingState \<Rightarrow> bool" where
  "is_failure s \<longleftrightarrow> s = FAILED_RETRYABLE \<or> s = FAILED_REVIEW"

text \<open>The assignments to the locked row, in the order of the source.\<close>

definition update_email ::
  "datetime \<Rightarrow> ProcessingState \<Rightarrow> string option \<Rightarrow> string option \<Rightarrow> email \<Rightarrow> email" where
  "update_email now target code msg e =
     (let current = processing_state e;
          e1 = e\<lparr>processing_state := target\<rparr>;
          e2 = (if is_failure target then
                  (let f1 = (if \<not> is_failure current then e1\<lparr>resume_state := Some current\<rparr> else e1);
                       f2 = f1\<lparr>last_error_code := code, last_error_message := msg\<rparr>
                   in if target = FAILED_RETRYABLE
                      then f2\<lparr>retry_count := retry_count f2 + 1\<rparr> else f2)
                else e1\<lparr>resume_state := None, last_error_code := None,
                        last_error_message := None, next_retry_at := None\<rparr>);
          e3 = (if target = COMPLETED then e2\<lparr>completed_at := Some now\<rparr> else e2)
      in if target = FETCHED \<and> fetched_at e3 = None then e3\<lparr>fetched_at := Some now\<rparr> else e3)"

definition mk_event :: "txn_env \<Rightarrow> transition_request \<Rightarrow> email \<Rightarrow> processing_event" where
  "mk_event env rq e =
     \<lparr>ev_id = env_new_id env, ev_email_id = em_id e,
      ev_from_state = Some (processing_state e), ev_to_state = rq_target rq,
      ev_event_type = rq_event_type rq, ev_note = rq_note rq,
      ev_error_code = rq_error_code rq, ev_error_message = rq_error_message rq,
      ev_metadata = (case rq_metadata rq of None \<Rightarrow> [] | Some m \<Rightarrow> m),
      ev_correlation_id = env_correlation env, ev_occurred_at = env_now env\<rparr>"

definition mk_audit :: "txn_env \<Rightarrow> transition_request \<Rightarrow> email \<Rightarrow> audit_event" where
  "mk_audit env rq e =
     \<lparr>au_actor = rq_actor rq, au_entity_type = ''email'', au_entity_id = em_id e,
      au_action = ''state_transition:'' @ state_value (rq_target rq),
      au_before = processing_state e, au_after = rq_target rq,
      au_metadata = (case rq_metadata rq of None \<Rightarrow> [] | Some m \<Rightarrow> m),
      au_correlation_id = env_correlation env, au_occurred_at = env_now env\<rparr>"

definition mk_outbox :: "txn_env \<Rightarrow> transition_request \<Rightarrow> email \<Rightarrow> outbox_event" where
  "mk_outbox env rq e =
     \<lparr>ob_aggregate_id = em_id e,
      ob_event_type = ''email.'' @ lower_ascii (state_value (rq_target rq)),
      ob_mailbox_id = em_mailbox_id e,
      ob_from_state = processing_state e, ob_to_state = rq_target rq,
      ob_idempotency_key = (em_id e, env_new_id env),
      ob_status = ''PENDING'', ob_available_at = env_now env\<rparr>"

text \<open>
  The flush sends the pending rows; the database refuses a second event with the same
  primary key and a second outbox row with the same idempotency key.
\<close>

definition flush_ok :: "email_db \<Rightarrow> txn_env \<Rightarrow> transition_request \<Rightarrow> email \<Rightarrow> bool" where
  "flush_ok db env rq e \<longleftrightarrow>
     env_new_id env \<notin> ev_id ` set (db_events db) \<and>
     (is_significant (rq_target rq) \<longrightarrow>
        (em_id e, env_new_id env) \<notin> ob_idempotency_key ` set (db_outbox db))"

definition transition_locked ::
  "txn_env \<Rightarrow> transition_request \<Rightarrow> email_db \<Rightarrow> domain_error + (processing_event \<times> email_db)" where
  "transition_locked env rq db =
     (case db_emails db (rq_email_id rq) of
        None \<Rightarrow> Inl (NotFoundError ''Email does not exist'')
      | Some e \<Rightarrow>
          (if rq_expected rq \<noteq> None \<and> Some (processing_state e) \<noteq> rq_expected rq
           then Inl (StateConflictError ''Email is not in the expected state'')
           else bindE (validate_transition (processing_state e) (rq_target rq)
                         (resume_state e) (rq_manual_reset rq))
             (\<lambda>_. if \<not> flush_ok db env rq e then Inl IntegrityError
                  else Inr (mk_event env rq e,
                    db\<lparr>db_emails := (db_emails db)(rq_email_id rq \<mapsto>
                          update_email (env_now env) (rq_target rq)
                            (rq_error_code rq) (rq_error_message rq) e),
                       db_events := db_events db @ [mk_event env rq e],
                       db_audits := db_audits db @ [mk_audit env rq e],
                       db_outbox := db_outbox db @
                         (if is_significant (rq_target rq) then [mk_outbox env rq e] else [])\<rparr>))))"

text \<open>One call is one transaction: commit on success, rollback and re-raise otherwise.\<close>

definition transition_email_state ::
  "txn_env \<Rightarrow> transition_request \<Rightarrow> email_db \<Rightarrow> (domain_error + processing_event) \<times> email_db" where
  "transition_email_state env rq db =
     (case transition_locked env rq db of
        Inl err \<Rightarrow> (Inl err, db)
      | Inr (ev, db') \<Rightarrow> (Inr ev, db'))"

subsection \<open>The documented transition table\<close>

text \<open>
  The table of \<^verbatim>\<open>docs/state-machine.md\<close> as a relation: one rule per kind of move.
\<close>

fun next_stage :: "ProcessingState \<Rightarrow> ProcessingState option" where
  "next_stage DISCOVERED = Some FETCHED"
| "next_stage FETCHED = Some ATTACHMENTS_SAVED"
| "next_stage ATTACHMENTS_SAVED = Some CLASSIFIED"
| "next_stage CLASSIFIED = Some TASK_CREATED"
| "next_stage TASK_CREATED = Some MOVED"
| "next_stage MOVED = Some COMPLETED"
| "next_stage _ = None"

inductive permitted ::
  "ProcessingState \<Rightarrow> ProcessingState \<Rightarrow> ProcessingState option \<Rightarrow> bool \<Rightarrow> bool" where
  advance: "next_stage c = Some t \<Longrightarrow> permitted c t r m"
| reclassify: "permitted CLASSIFIED CLASSIFIED r m"
| fail: "next_stage c \<noteq> None \<Longrightarrow> is_failure t \<Longrightarrow> permitted c t r m"
| escalate: "permitted FAILED_RETRYABLE FAILED_REVIEW r m"
| resume: "permitted FAILED_RETRYABLE t (Some t) m"
| reset: "t \<noteq> COMPLETED \<Longrightarrow> \<not> is_failure t \<Longrightarrow> permitted FAILED_REVIEW t r True"

inductive_simps permitted_simps: "permitted c t r m"

lemmas email_matrix_defs = validate_transition_def PIPELINE_FAILURES_def MANUAL_RESET_TARGETS_def
  is_failure_def

lemma validate_iff_permitted: "validate_transition c t r m = Inr () \<longleftrightarrow> permitted c t r m"
  by (cases c; cases t) (auto simp: email_matrix_defs permitted_simps)

lemma validate_error_kind:
  "validate_transition c t r m = Inl err \<Longrightarrow> \<exists>msg. err = InvalidStateTransitionError msg"
  by (cases c) (auto simp: email_matrix_defs split: if_splits)

subsection \<open>One call\<close>

lemma transition_locked_Inr:
  "transition_locked env rq db = Inr (ev, db') \<longleftrightarrow>
     (\<exists>e. db_emails db (rq_email_id rq) = Some e \<and>
        (rq_expected rq = None \<or> rq_expected rq = Some (processing_state e)) \<and>
        permitted (processing_state e) (rq_target rq) (resume_state e) (rq_manual_reset rq) \<and>
        flush_ok db env rq e \<and> ev = mk_event env rq e \<and>
        db' = db\<lparr>db_emails := (db_emails db)(rq_email_id rq \<mapsto>
                    update_email (env_now env) (rq_target rq) (rq_error_code rq) (rq_error_message rq) e),
                 db_events := db_events db @ [mk_event env rq e],
                 db_audits := db_audits db @ [mk_audit env rq e],
                 db_outbox := db_outbox db @
                   (if is_significant (rq_target rq) then [mk_outbox env rq e] else [])\<rparr>)"
  by (auto simp: transition_locked_def err_simps validate_iff_permitted split: option.splits if_splits)

lemma transition_email_state_Inr:
  "transition_email_state env rq db = (Inr ev, db') \<longleftrightarrow> transition_locked env rq db = Inr (ev, db')"
  by (auto simp: transition_email_state_def split: sum.splits)

lemma transition_email_state_Inl:
  "transition_email_state env rq db = (Inl err, db') \<Longrightarrow> db' = db"
  by (auto simp: transition_email_state_def split: sum.splits)

subsection \<open>The row invariant\<close>

definition wf_email :: "email \<Rightarrow> bool" where
  "wf_email e \<longleftrightarrow>
     (is_failure (processing_state e) \<longleftrightarrow> resume_state e \<noteq> None) \<and>
     (\<forall>r. resume_state e = Some r \<longrightarrow> next_stage r \<noteq> None) \<and>
     (\<not> is_failure (processing_state e) \<longrightarrow>
        last_error_code e = None \<and> last_error_message e = None \<and> next_retry_at e = None) \<and>
     (completed_at e \<noteq> None \<longleftrightarrow> processing_state e = COMPLETED)"

lemma update_email_simps [simp]:
  "processing_state (update_email now t c m e) = t"
  "em_id (update_email now t c m e) = em_id e"
  "em_mailbox_id (update_email now t c m e) = em_mailbox_id e"
  by (simp_all add: update_email_def Let_def)

lemma update_email_wf:
  assumes "wf_email e" "permitted (processing_state e) t (resume_state e) m"
  shows "wf_email (update_email now t c msg e)"
  using assms(2,1)
  by (cases rule: permitted.cases)
    (auto simp: wf_email_def update_email_def Let_def is_failure_def split: if_splits)

subsection \<open>Histories\<close>

text \<open>
  A step is one successful call with any request; an automatic step is one without the
  manual-reset flag, which only the operator endpoint sets.
\<close>

inductive email_step :: "email_db \<Rightarrow> email_db \<Rightarrow> bool" where
  "transition_email_state env rq db = (Inr ev, db') \<Longrightarrow> email_step db db'"

inductive auto_step :: "email_db \<Rightarrow> email_db \<Rightarrow> bool" where
  "transition_email_state env rq db = (Inr ev, db') \<Longrightarrow> \<not> rq_manual_reset rq \<Longrightarrow> auto_step db db'"

definition history :: "email_db \<Rightarrow> uuid \<Rightarrow> processing_event list" where
  "history db i = filter (\<lambda>ev. ev_email_id ev = i) (db_events db)"

definition event_key :: "processing_event \<Rightarrow> uuid \<times> uuid" where
  "event_key ev = (ev_email_id ev, ev_id ev)"

definition email_init :: "email_db \<Rightarrow> bool" where
  "email_init db \<longleftrightarrow> db_events db = [] \<and> db_audits db = [] \<and> db_outbox db = [] \<and>
     (\<forall>i e. db_emails db i = Some e \<longrightarrow> em_id e = i \<and> wf_email e \<and> retry_count e = 0)"

text \<open>A row agrees with its history: the events are linked end to end, the last one ends
  in the current state, and the retry counter counts the retryable failures.\<close>

definition row_inv :: "processing_event list \<Rightarrow> email \<Rightarrow> bool" where
  "row_inv h e \<longleftrightarrow> wf_email e \<and>
     successively (\<lambda>a b. ev_from_state b = Some (ev_to_state a)) h \<and>
     (h \<noteq> [] \<longrightarrow> ev_to_state (last h) = processing_state e) \<and>
     retry_count e = int (length (filter (\<lambda>ev. ev_to_state ev = FAILED_RETRYABLE) h))"

definition email_inv :: "email_db \<Rightarrow> bool" where
  "email_inv db \<longleftrightarrow>
     distinct (map ev_id (db_events db)) \<and>
     map ob_idempotency_key (db_outbox db) =
       map event_key (filter (\<lambda>ev. is_significant (ev_to_state ev)) (db_events db)) \<and>
     map (\<lambda>a. (au_entity_id a, Some (au_before a), au_after a)) (db_audits db) =
       map (\<lambda>ev. (ev_email_id ev, ev_from_state ev, ev_to_state ev)) (db_events db) \<and>
     (\<forall>i e. db_emails db i = Some e \<longrightarrow> em_id e = i \<and> row_inv (history db i) e)"

lemma email_init_inv: "email_init db \<Longrightarrow> email_inv db"
  by (simp add: email_init_def email_inv_def row_inv_def history_def)

lemma retry_count_update:
  "retry_count (update_email now t c m e) = retry_count e + (if t = FAILED_RETRYABLE then 1 else 0)"
  by (simp add: update_email_def Let_def is_failure_def)

lemma mk_simps [simp]:
  "ev_email_id (mk_event env rq e) = em_id e" "ev_id (mk_event env rq e) = env_new_id env"
  "ev_to_state (mk_event env rq e) = rq_target rq"
  "ev_from_state (mk_event env rq e) = Some (processing_state e)"
  "ob_idempotency_key (mk_outbox env rq e) = (em_id e, env_new_id env)"
  "au_entity_id (mk_audit env rq e) = em_id e" "au_before (mk_audit env rq e) = processing_state e"
  "au_after (mk_audit env rq e) = rq_target rq"
  by (simp_all add: mk_event_def mk_outbox_def mk_audit_def)

lemma row_inv_step:
  assumes "row_inv h e" "permitted (processing_state e) (rq_target rq) (resume_state e) m"
  shows "row_inv (h @ [mk_event env rq e]) (update_email now (rq_target rq) c msg e)"
  using assms(1) update_email_wf [OF _ assms(2)]
  by (auto simp: row_inv_def retry_count_update successively_append_iff)

lemma transition_inv:
  assumes inv: "email_inv db" and tr: "transition_locked env rq db = Inr (ev, db')"
  shows "email_inv db'"
proof -
  from tr obtain e where e: "db_emails db (rq_email_id rq) = Some e"
    and perm: "permitted (processing_state e) (rq_target rq) (resume_state e) (rq_manual_reset rq)"
    and fl: "flush_ok db env rq e"
    and db': "db' = db\<lparr>db_emails := (db_emails db)(rq_email_id rq \<mapsto>
                    update_email (env_now env) (rq_target rq) (rq_error_code rq) (rq_error_message rq) e),
                 db_events := db_events db @ [mk_event env rq e],
                 db_audits := db_audits db @ [mk_audit env rq e],
                 db_outbox := db_outbox db @
                   (if is_significant (rq_target rq) then [mk_outbox env rq e] else [])\<rparr>"
    by (auto simp: transition_locked_Inr)
  have id: "em_id e = rq_email_id rq" and row: "row_inv (history db (rq_email_id rq)) e"
    using inv e by (auto simp: email_inv_def)
  have h: "history db' i = history db i @ (if i = rq_email_id rq then [mk_event env rq e] else [])" for i
    by (simp add: history_def db' id)
  have rows: "em_id f = i \<and> row_inv (history db' i) f" if f: "db_emails db' i = Some f" for i f
  proof (cases "i = rq_email_id rq")
    case True
    then have "f = update_email (env_now env) (rq_target rq) (rq_error_code rq) (rq_error_message rq) e"
      using f by (simp add: db')
    then show ?thesis using True id row_inv_step [OF row perm] by (simp add: h)
  next
    case False
    then have "db_emails db i = Some f" using f by (simp add: db')
    then show ?thesis using inv False by (simp add: h email_inv_def)
  qed
  have "env_new_id env \<notin> ev_id ` set (db_events db)" using fl by (simp add: flush_ok_def)
  then have "distinct (map ev_id (db_events db'))" using inv by (simp add: db' email_inv_def)
  moreover have "map ob_idempotency_key (db_outbox db') =
      map event_key (filter (\<lambda>ev. is_significant (ev_to_state ev)) (db_events db'))"
    using inv by (simp add: db' email_inv_def event_key_def)
  moreover have "map (\<lambda>a. (au_entity_id a, Some (au_before a), au_after a)) (db_audits db') =
      map (\<lambda>ev. (ev_email_id ev, ev_from_state ev, ev_to_state ev)) (db_events db')"
    using inv by (simp add: db' email_inv_def)
  ultimately show ?thesis unfolding email_inv_def using rows by blast
qed

interpretation email_calls: audited_operation "\<lambda>(env, rq). transition_locked env rq" db_audits
    "\<lambda>(env, rq) a. au_actor a = rq_actor rq \<and> au_after a = rq_target rq \<and>
       au_action a = ''state_transition:'' @ state_value (rq_target rq) \<and> au_occurred_at a = env_now env"
  by unfold_locales (auto simp: transition_locked_Inr mk_audit_def)

interpretation email_sys: invariant_system email_init email_step email_inv
proof
  show "email_init s \<Longrightarrow> email_inv s" for s by (rule email_init_inv)
  show "email_inv s \<Longrightarrow> email_step s t \<Longrightarrow> email_inv t" for s t
    by (auto elim!: email_step.cases simp: transition_email_state_Inr intro: transition_inv)
qed

lemma auto_step_email_step: "auto_step s t \<Longrightarrow> email_step s t"
  by (auto elim!: auto_step.cases intro: email_step.intros)

subsection \<open>Progress through the pipeline\<close>

text \<open>
  The pipeline position of an email is its state, or while it is failed the state it will
  resume from.
\<close>

fun stage_rank :: "ProcessingState \<Rightarrow> nat" where
  "stage_rank DISCOVERED = 0"
| "stage_rank FETCHED = 1"
| "stage_rank ATTACHMENTS_SAVED = 2"
| "stage_rank CLASSIFIED = 3"
| "stage_rank TASK_CREATED = 4"
| "stage_rank MOVED = 5"
| "stage_rank COMPLETED = 6"
| "stage_rank _ = 0"

definition position :: "email \<Rightarrow> ProcessingState" where
  "position e = (if is_failure (processing_state e) then the (resume_state e) else processing_state e)"

lemma next_stage_rank: "next_stage c = Some t \<Longrightarrow> stage_rank t = Suc (stage_rank c)"
  by (cases c) auto

lemma next_stage_not_failure: "next_stage c = Some t \<Longrightarrow> \<not> is_failure t \<and> \<not> is_failure c"
  by (cases c) (auto simp: is_failure_def)

lemma stage_rank_inject: "\<not> is_failure s \<Longrightarrow> \<not> is_failure t \<Longrightarrow> stage_rank s = stage_rank t \<longleftrightarrow> s = t"
  by (cases s; cases t) (auto simp: is_failure_def)

lemma resume_state_update:
  "resume_state (update_email now t c m e) =
     (if is_failure t then (if is_failure (processing_state e) then resume_state e
                            else Some (processing_state e)) else None)"
  by (simp add: update_email_def Let_def)

lemma automatic_position_step:
  assumes "wf_email e" "permitted (processing_state e) t (resume_state e) False"
  shows "position (update_email now t c m e) = position e \<or>
    (t = position (update_email now t c m e) \<and> next_stage (position e) = Some t)"
  using assms(2,1)
  by (cases rule: permitted.cases)
    (auto simp: position_def resume_state_update wf_email_def is_failure_def
      dest: next_stage_not_failure)

definition visited :: "email_db \<Rightarrow> uuid \<Rightarrow> ProcessingState set" where
  "visited db i = ev_to_state ` set (history db i)"

text \<open>What an automatic run establishes about one email: every pipeline state between the
  position it started from and the one it has reached was entered by some event.\<close>

definition covered :: "nat \<Rightarrow> email_db \<Rightarrow> uuid \<Rightarrow> bool" where
  "covered k db i \<longleftrightarrow> (\<exists>e. db_emails db i = Some e \<and> k \<le> stage_rank (position e) \<and>
     (\<forall>s. \<not> is_failure s \<and> k < stage_rank s \<and> stage_rank s \<le> stage_rank (position e) \<longrightarrow>
        s \<in> visited db i))"

lemma covered_step:
  assumes inv: "email_inv db" and cov: "covered k db i"
    and tr: "transition_locked env rq db = Inr (ev, db')" and auto: "\<not> rq_manual_reset rq"
  shows "covered k db' i"
proof -
  from tr obtain e where e: "db_emails db (rq_email_id rq) = Some e"
    and perm: "permitted (processing_state e) (rq_target rq) (resume_state e) False"
    and emails: "db_emails db' = (db_emails db)(rq_email_id rq \<mapsto>
       update_email (env_now env) (rq_target rq) (rq_error_code rq) (rq_error_message rq) e)"
    and events: "db_events db' = db_events db @ [mk_event env rq e]"
    using auto by (auto simp: transition_locked_Inr)
  have id: "em_id e = rq_email_id rq" and wf: "wf_email e"
    using inv e by (auto simp: email_inv_def row_inv_def)
  have vis: "visited db' j = visited db j \<union> (if j = rq_email_id rq then {rq_target rq} else {})" for j
    by (auto simp: visited_def history_def events id)
  show ?thesis
  proof (cases "i = rq_email_id rq")
    case False
    then show ?thesis using cov by (simp add: covered_def emails vis)
  next
    case True
    let ?e' = "update_email (env_now env) (rq_target rq) (rq_error_code rq) (rq_error_message rq) e"
    consider (same) "position ?e' = position e"
      | (adv) "rq_target rq = position ?e'" "next_stage (position e) = Some (rq_target rq)"
      using automatic_position_step [OF wf perm] by blast
    then show ?thesis
    proof cases
      case same
      then show ?thesis using True cov e by (auto simp: covered_def emails vis)
    next
      case adv
      have r: "stage_rank (rq_target rq) = Suc (stage_rank (position e))"
        using adv(2) by (rule next_stage_rank)
      have nf: "\<not> is_failure (rq_target rq)" using next_stage_not_failure [OF adv(2)] by simp
      have "s = rq_target rq" if "\<not> is_failure s" "stage_rank s = Suc (stage_rank (position e))" for s
        using that r nf stage_rank_inject by metis
      then show ?thesis using True cov e adv(1) r
        by (auto simp: covered_def emails vis le_Suc_eq)
    qed
  qed
qed

lemma covered_run:
  assumes "auto_step\<^sup>*\<^sup>* db db'" "email_inv db" "covered k db i"
  shows "email_inv db' \<and> covered k db' i"
  using assms(1)
proof (induction rule: rtranclp_induct)
  case base
  then show ?case using assms by simp
next
  case (step s t)
  then show ?case
    by (auto elim!: auto_step.cases simp: transition_email_state_Inr
        intro: covered_step transition_inv)
qed

lemma completed_frozen:
  assumes "email_step db db'" "db_emails db i = Some e" "processing_state e = COMPLETED"
  shows "db_emails db' i = Some e"
  using assms
  by (auto elim!: email_step.cases simp: transition_email_state_Inr transition_locked_Inr
      permitted_simps is_failure_def)

subsection \<open>Properties\<close>

text \<open>A concrete table with one freshly discovered email, and requests against it, for the
  witnesses below.\<close>

definition ex_actor :: actor where
  "ex_actor = \<lparr>actor_type = SYSTEM, actor_id = ''worker-1''\<rparr>"

definition ex_email :: email where
  "ex_email = \<lparr>em_id = 7, em_mailbox_id = 1, processing_state = DISCOVERED, resume_state = None,
     retry_count = 0, next_retry_at = None, last_error_code = None, last_error_message = None,
     fetched_at = None, completed_at = None\<rparr>"

definition ex_db :: email_db where
  "ex_db = \<lparr>db_emails = [7 \<mapsto> ex_email], db_events = [], db_audits = [], db_outbox = []\<rparr>"

definition ex_env :: "uuid \<Rightarrow> txn_env" where
  "ex_env n = \<lparr>env_now = 1000 + int n, env_new_id = n, env_correlation = None\<rparr>"

definition ex_rq :: "ProcessingState \<Rightarrow> transition_request" where
  "ex_rq t = \<lparr>rq_email_id = 7, rq_target = t, rq_actor = ex_actor, rq_note = None,
     rq_error_code = None, rq_error_message = None, rq_metadata = None, rq_expected = None,
     rq_manual_reset = False, rq_event_type = ''state_transition''\<rparr>"

fun ex_run :: "email_db \<Rightarrow> uuid \<Rightarrow> ProcessingState list \<Rightarrow> email_db" where
  "ex_run db n [] = db"
| "ex_run db n (t # ts) = ex_run (snd (transition_email_state (ex_env n) (ex_rq t) db)) (Suc n) ts"

lemmas ex_email_defs = ex_actor_def ex_email_def ex_db_def ex_env_def ex_rq_def

lemma ex_step:
  assumes "transition_locked (ex_env n) (ex_rq t) db = Inr (ev, db')"
  shows "auto_step db db'"
  using assms
  by (intro auto_step.intros [where env = "ex_env n" and rq = "ex_rq t" and ev = ev])
    (simp_all add: transition_email_state_Inr ex_rq_def)

lemma ex_db_init: "email_init ex_db"
  by (auto simp: email_init_def ex_email_defs wf_email_def is_failure_def)

lemmas ex_eval = transition_email_state_def transition_locked_def validate_transition_def
  flush_ok_def update_email_def mk_event_def mk_audit_def mk_outbox_def is_failure_def
  PIPELINE_FAILURES_def MANUAL_RESET_TARGETS_def is_significant_def SIGNIFICANT_STATES_def
  Let_def ex_email_defs

fun ex_accepted :: "email_db \<Rightarrow> uuid \<Rightarrow> ProcessingState list \<Rightarrow> bool" where
  "ex_accepted db n [] = True"
| "ex_accepted db n (t # ts) =
     (case transition_email_state (ex_env n) (ex_rq t) db of
        (Inl _, _) \<Rightarrow> False | (Inr _, db') \<Rightarrow> ex_accepted db' (Suc n) ts)"

lemma ex_run_steps: "ex_accepted db n ts \<Longrightarrow> auto_step\<^sup>*\<^sup>* db (ex_run db n ts)"
proof (induction ts arbitrary: db n)
  case (Cons t ts)
  obtain r db' where r: "transition_email_state (ex_env n) (ex_rq t) db = (r, db')"
    by fastforce
  then obtain ev where tr: "transition_email_state (ex_env n) (ex_rq t) db = (Inr ev, db')"
    using Cons.prems by (cases r) auto
  then have "auto_step db db'" by (auto simp: transition_email_state_Inr intro: ex_step)
  moreover have "auto_step\<^sup>*\<^sup>* db' (ex_run db' (Suc n) ts)" using Cons tr by simp
  ultimately show ?case using tr by (simp add: converse_rtranclp_into_rtranclp)
qed simp

text \<open>C1. In every database reachable by successful transition calls, every email row is
  well formed (a resume state exactly when failed, error fields only when failed, a
  completion time exactly when completed), its events are linked end to end up to its
  current state, its retry counter counts its retryable failures, and the audit and outbox
  tables hold exactly one row per event and per significant event.\<close>

theorem email_reachable_invariant:
  "reach email_init email_step db \<Longrightarrow> email_inv db"
  by (rule email_sys.reach_inv)

theorem email_reachable_invariant_witness:
  "email_inv (ex_run ex_db 1 [FETCHED, FAILED_RETRYABLE]) \<and>
   length (db_events (ex_run ex_db 1 [FETCHED, FAILED_RETRYABLE])) = 2"
proof -
  have "email_step\<^sup>*\<^sup>* ex_db (ex_run ex_db 1 [FETCHED, FAILED_RETRYABLE])"
    by (rule rtranclp_mono [THEN predicate2D, OF _ ex_run_steps])
      (auto intro: auto_step_email_step simp: ex_eval)
  then have "reach email_init email_step (ex_run ex_db 1 [FETCHED, FAILED_RETRYABLE])"
    by (induction rule: rtranclp_induct) (auto intro: reach.intros ex_db_init)
  then show ?thesis using email_reachable_invariant by (simp add: ex_eval)
qed

text \<open>C8. A transition call is atomic: on any error the database is unchanged; on success
  it changes exactly the addressed row and appends exactly one event and one audit row
  naming the old and the new state, plus one outbox row keyed by the event exactly when
  the target state is significant.\<close>

theorem transition_email_state_atomic:
  "case transition_email_state env rq db of
     (Inl err, db') \<Rightarrow> db' = db
   | (Inr ev, db') \<Rightarrow> (\<exists>e a obs.
        db_emails db (rq_email_id rq) = Some e \<and>
        db_emails db' = (db_emails db)(rq_email_id rq \<mapsto>
          update_email (env_now env) (rq_target rq) (rq_error_code rq) (rq_error_message rq) e) \<and>
        db_events db' = db_events db @ [ev] \<and>
        ev_from_state ev = Some (processing_state e) \<and> ev_to_state ev = rq_target rq \<and>
        db_audits db' = db_audits db @ [a] \<and> au_actor a = rq_actor rq \<and>
        au_before a = processing_state e \<and> au_after a = rq_target rq \<and>
        db_outbox db' = db_outbox db @ obs \<and>
        map ob_idempotency_key obs = (if is_significant (rq_target rq) then [(em_id e, ev_id ev)] else []))"
proof (cases "transition_locked env rq db")
  case (Inl err)
  then show ?thesis by (simp add: transition_email_state_def)
next
  case (Inr p)
  obtain ev db' where p: "p = (ev, db')" by fastforce
  have tr: "transition_email_state env rq db = (Inr ev, db')"
    using Inr p by (simp add: transition_email_state_def)
  from Inr p obtain e where e: "db_emails db (rq_email_id rq) = Some e" "ev = mk_event env rq e"
    and db': "db' = db\<lparr>db_emails := (db_emails db)(rq_email_id rq \<mapsto>
                    update_email (env_now env) (rq_target rq) (rq_error_code rq) (rq_error_message rq) e),
                 db_events := db_events db @ [mk_event env rq e],
                 db_audits := db_audits db @ [mk_audit env rq e],
                 db_outbox := db_outbox db @
                   (if is_significant (rq_target rq) then [mk_outbox env rq e] else [])\<rparr>"
    by (auto simp: transition_locked_Inr)
  show ?thesis unfolding tr prod.case sum.case
    by (rule exI [of _ e], rule exI [of _ "mk_audit env rq e"],
        rule exI [of _ "if is_significant (rq_target rq) then [mk_outbox env rq e] else []"])
      (simp add: e db' mk_audit_def)
qed

text \<open>A retry resumes exactly where the email failed: after a successful move of a
  non-failed email into \<^const>\<open>FAILED_RETRYABLE\<close>, the only later move that is neither an
  escalation nor refused goes back to the state it failed in, and restores the row up to
  the retry counter (and the fetch time, set when it was missing).\<close>

theorem retry_resumes_where_it_failed:
  assumes "email_inv db" "db_emails db i = Some e" "\<not> is_failure (processing_state e)"
    and "rq_email_id rq1 = i" "rq_target rq1 = FAILED_RETRYABLE"
    and "transition_email_state env1 rq1 db = (Inr ev1, db1)"
    and "rq_email_id rq2 = i" "rq_target rq2 \<noteq> FAILED_REVIEW"
    and "transition_email_state env2 rq2 db1 = (Inr ev2, db2)"
  shows "rq_target rq2 = processing_state e \<and>
    db_emails db2 i = Some (e\<lparr>retry_count := retry_count e + 1,
      fetched_at := (if processing_state e = FETCHED \<and> fetched_at e = None
                     then Some (env_now env2) else fetched_at e)\<rparr>)"
proof -
  let ?f = "update_email (env_now env1) FAILED_RETRYABLE (rq_error_code rq1) (rq_error_message rq1) e"
  have wf: "wf_email e" using assms(1,2) by (auto simp: email_inv_def row_inv_def)
  have f: "db_emails db1 i = Some ?f"
    using assms(2,4-6) by (auto simp: transition_email_state_Inr transition_locked_Inr)
  have "permitted FAILED_RETRYABLE (rq_target rq2) (Some (processing_state e)) (rq_manual_reset rq2)"
    and db2: "db_emails db2 i = Some (update_email (env_now env2) (rq_target rq2) (rq_error_code rq2)
      (rq_error_message rq2) ?f)"
    using assms(3,7,9) f
    by (auto simp: transition_email_state_Inr transition_locked_Inr resume_state_update is_failure_def)
  then have t: "rq_target rq2 = processing_state e"
    using assms(8) by (auto simp: permitted_simps is_failure_def)
  have nc: "processing_state e \<noteq> COMPLETED"
    using assms(2,4-6)
    by (auto simp: transition_email_state_Inr transition_locked_Inr permitted_simps)
  show ?thesis
    using t db2 wf assms(3) nc
    by (cases e) (auto simp: update_email_def Let_def is_failure_def wf_email_def)
qed

theorem retry_resumes_where_it_failed_witness:
  "let db1 = ex_run ex_db 1 [FAILED_RETRYABLE] in
     db_emails (ex_run ex_db 1 [FAILED_RETRYABLE, DISCOVERED]) 7 =
       Some (ex_email\<lparr>retry_count := 1, fetched_at := None\<rparr>)"
  using retry_resumes_where_it_failed
    [OF email_init_inv [OF ex_db_init], of 7 ex_email "ex_rq FAILED_RETRYABLE" "ex_env 1"
      "mk_event (ex_env 1) (ex_rq FAILED_RETRYABLE) ex_email" "ex_run ex_db 1 [FAILED_RETRYABLE]"
      "ex_rq DISCOVERED" "ex_env 2"
      "mk_event (ex_env 2) (ex_rq DISCOVERED)
         (the (db_emails (ex_run ex_db 1 [FAILED_RETRYABLE]) 7))"
      "ex_run ex_db 1 [FAILED_RETRYABLE, DISCOVERED]"]
  by (simp add: ex_eval)

text \<open>C34. Without manual resets no stage of the pipeline is skipped: an email that starts as
  discovered and is completed after any run of automatic transitions, failures and retries
  included, has entered every stage in between.\<close>

theorem pipeline_stages_never_skipped:
  assumes "email_inv db" "db_emails db i = Some e" "processing_state e = DISCOVERED"
    and "auto_step\<^sup>*\<^sup>* db db'" "db_emails db' i = Some e'" "processing_state e' = COMPLETED"
  shows "{FETCHED, ATTACHMENTS_SAVED, CLASSIFIED, TASK_CREATED, MOVED, COMPLETED} \<subseteq> visited db' i"
proof -
  have "covered 0 db i" using assms(2,3) by (auto simp: covered_def position_def is_failure_def)
  then have "covered 0 db' i" using covered_run [OF assms(4,1)] by blast
  then show ?thesis using assms(5,6) by (auto simp: covered_def position_def is_failure_def)
qed

theorem pipeline_stages_never_skipped_witness:
  "let db' = ex_run ex_db 1 [FETCHED, ATTACHMENTS_SAVED, FAILED_RETRYABLE, ATTACHMENTS_SAVED,
       CLASSIFIED, TASK_CREATED, MOVED, COMPLETED]
   in {FETCHED, ATTACHMENTS_SAVED, CLASSIFIED, TASK_CREATED, MOVED, COMPLETED} \<subseteq> visited db' 7"
proof -
  let ?ts = "[FETCHED, ATTACHMENTS_SAVED, FAILED_RETRYABLE, ATTACHMENTS_SAVED,
       CLASSIFIED, TASK_CREATED, MOVED, COMPLETED]"
  have run: "auto_step\<^sup>*\<^sup>* ex_db (ex_run ex_db 1 ?ts)" by (rule ex_run_steps) (simp add: ex_eval)
  obtain e' where "db_emails (ex_run ex_db 1 ?ts) 7 = Some e'" "processing_state e' = COMPLETED"
    by (simp add: ex_eval)
  then show ?thesis
    using pipeline_stages_never_skipped [OF email_init_inv [OF ex_db_init] _ _ run]
    by (simp add: ex_db_def ex_email_def)
qed

text \<open>A completed email is frozen: no sequence of calls, manual resets included, changes
  any field of its row.\<close>

theorem completed_email_is_terminal:
  assumes "email_step\<^sup>*\<^sup>* db db'" "db_emails db i = Some e" "processing_state e = COMPLETED"
  shows "db_emails db' i = Some e"
  using assms(1)
proof (induction rule: rtranclp_induct)
  case (step s t)
  then show ?case using completed_frozen assms(3) by blast
qed (rule assms(2))

theorem completed_email_is_terminal_witness:
  "let e = ex_email\<lparr>processing_state := COMPLETED, completed_at := Some 5\<rparr>;
       f = ex_email\<lparr>em_id := 8\<rparr>;
       db = ex_db\<lparr>db_emails := [7 \<mapsto> e, 8 \<mapsto> f]\<rparr>
   in db_emails (snd (transition_email_state (ex_env 1) ((ex_rq FETCHED)\<lparr>rq_email_id := 8\<rparr>) db)) 7 = Some e"
proof -
  let ?e = "ex_email\<lparr>processing_state := COMPLETED, completed_at := Some 5\<rparr>"
  let ?db = "ex_db\<lparr>db_emails := [7 \<mapsto> ?e, 8 \<mapsto> ex_email\<lparr>em_id := 8\<rparr>]\<rparr>"
  let ?tr = "transition_email_state (ex_env 1) ((ex_rq FETCHED)\<lparr>rq_email_id := 8\<rparr>) ?db"
  obtain ev where "?tr = (Inr ev, snd ?tr)" by (simp add: ex_eval)
  then have "email_step ?db (snd ?tr)" by (rule email_step.intros)
  then have "email_step\<^sup>*\<^sup>* ?db (snd ?tr)" by (rule r_into_rtranclp)
  then have "db_emails (snd ?tr) 7 = Some ?e"
    by (rule completed_email_is_terminal) (simp_all add: ex_db_def)
  then show ?thesis by (simp only: Let_def)
qed

text \<open>The executable check accepts exactly the moves of the documented table: the next
  pipeline stage, reclassification, a failure of any unfinished stage, escalation, the
  recorded resume state, and a manual reset out of review into an unfinished stage.\<close>

theorem validate_transition_is_documented_table:
  "validate_transition current target resume manual = Inr () \<longleftrightarrow>
     permitted current target resume manual"
  by (rule validate_iff_permitted)

end
