(* ===== verification/Py_Num.thy ===== *)
theory Py_Num
  imports Complex_Main Prelude
begin

text \<open>
  Rounding to integers as Python does it: \<^verbatim>\<open>round\<close> and \<^verbatim>\<open>timedelta(seconds=x)\<close> take the
  nearest integer and break ties to the even one, \<^verbatim>\<open>int\<close> truncates.
\<close>

definition py_round :: "rat \<Rightarrow> int" where
  "py_round x =
     (let f = floor x; r = x - of_int f
      in if r < 1 / 2 then f else if r > 1 / 2 then f + 1 else if even f then f else f + 1)"

definition py_trunc :: "rat \<Rightarrow> int" where
  "py_trunc x = (if x < 0 then ceiling x else floor x)"

lemma py_round_bounds: "of_int (py_round x) - 1 / 2 \<le> x" "x \<le> of_int (py_round x) + 1 / 2"
  using floor_correct [of x] by (auto simp: py_round_def Let_def) linarith+

lemma py_round_of_int [simp]: "py_round (of_int n) = n"
  by (simp add: py_round_def Let_def)

lemma py_round_mono: "x \<le> y \<Longrightarrow> py_round x \<le> py_round y"
proof -
  assume xy: "x \<le> y"
  then have fl: "floor x \<le> floor y" by (rule floor_mono)
  show ?thesis
  proof (cases "floor x = floor y")
    case True
    then show ?thesis using xy by (auto simp: py_round_def Let_def)
  next
    case False
    then have "floor x + 1 \<le> floor y" using fl by linarith
    then show ?thesis by (auto simp: py_round_def Let_def)
  qed
qed

lemma py_round_eq: "of_int n - 1 / 2 < x \<Longrightarrow> x < of_int n + 1 / 2 \<Longrightarrow> py_round x = n"
proof -
  assume "of_int n - 1 / 2 < x" "x < of_int n + 1 / 2"
  with py_round_bounds [of x] have "of_int n - 1 < (of_int (py_round x) :: rat)"
    "(of_int (py_round x) :: rat) < of_int n + 1" by linarith+
  then have "(of_int (n - 1) :: rat) < of_int (py_round x)" "(of_int (py_round x) :: rat) < of_int (n + 1)"
    by simp_all
  then show ?thesis unfolding of_int_less_iff by linarith
qed

lemma py_round_pos: "1 / 2 < x \<Longrightarrow> 1 \<le> py_round x"
  using py_round_bounds(2) [of x] by linarith

lemma py_round_le: "x \<le> of_int n \<Longrightarrow> py_round x \<le> n"
  using py_round_mono [of x "of_int n"] by simp

lemma py_round_ge: "of_int n \<le> x \<Longrightarrow> n \<le> py_round x"
  using py_round_mono [of "of_int n" x] by simp

lemma py_trunc_mono:
  assumes "x \<le> y"
  shows "py_trunc x \<le> py_trunc y"
proof (cases "x < 0 \<and> 0 \<le> y")
  case True
  then have "ceiling x \<le> 0" "0 \<le> floor y" by (simp_all add: ceiling_le_iff)
  then have "ceiling x \<le> floor y" by (rule order_trans)
  with True show ?thesis by (simp add: py_trunc_def)
qed (use assms in \<open>auto simp: py_trunc_def floor_mono ceiling_mono\<close>)

lemma py_trunc_of_int [simp]: "py_trunc (of_int n) = n"
  by (simp add: py_trunc_def)

text \<open>\<^verbatim>\<open>timedelta(seconds=x)\<close> in microseconds.\<close>

definition td_seconds :: "rat \<Rightarrow> timedelta" where
  "td_seconds x = py_round (x * 1000000)"

lemma td_seconds_mono: "x \<le> y \<Longrightarrow> td_seconds x \<le> td_seconds y"
  by (simp add: td_seconds_def py_round_mono)

lemma td_seconds_0 [simp]: "td_seconds 0 = 0"
  using py_round_of_int [of 0] by (simp add: td_seconds_def)

lemma td_seconds_bounds: "0 \<le> x \<Longrightarrow> x \<le> of_int n \<Longrightarrow> 0 \<le> td_seconds x \<and> td_seconds x \<le> n * 1000000"
  by (auto simp: td_seconds_def intro!: py_round_ge py_round_le)

end
