(* ===== verification/Py_Date.thy ===== *)
theory Py_Date
  imports Prelude
begin

text \<open>
  Python's \<^verbatim>\<open>datetime.date\<close> as far as the deadline engine and the rule language use it:
  construction with the range check, the proleptic Gregorian ordinal and its inverse,
  \<^verbatim>\<open>weekday\<close>, addition of a \<^verbatim>\<open>timedelta\<close> with its overflow, comparison and
  \<^verbatim>\<open>calendar.monthrange\<close>. The main facts are that ordinals and valid dates are in
  bijection and that the order on dates is the order of their ordinals, so that date
  arithmetic in the components is integer arithmetic.
\<close>

subsection \<open>Dates\<close>

datatype date = Date (dt_year: int) (dt_month: int) (dt_day: int)

instantiation date :: linorder
begin

definition less_eq_date :: "date \<Rightarrow> date \<Rightarrow> bool" where
  "less_eq_date d e \<longleftrightarrow>
     (dt_year d, dt_month d, dt_day d) \<le> (dt_year e, dt_month e, dt_day e)"

definition less_date :: "date \<Rightarrow> date \<Rightarrow> bool" where
  "less_date d e \<longleftrightarrow>
     (dt_year d, dt_month d, dt_day d) < (dt_year e, dt_month e, dt_day e)"

instance
  by standard (auto simp: less_eq_date_def less_date_def date.expand)

end

definition is_leap :: "int \<Rightarrow> bool" where
  "is_leap y \<longleftrightarrow> y mod 4 = 0 \<and> (y mod 100 \<noteq> 0 \<or> y mod 400 = 0)"

definition days_in_month :: "int \<Rightarrow> int \<Rightarrow> int" where
  "days_in_month y m =
     (if m = 2 then (if is_leap y then 29 else 28)
      else if m = 4 \<or> m = 6 \<or> m = 9 \<or> m = 11 then 30 else 31)"

definition days_before_month :: "int \<Rightarrow> int \<Rightarrow> int" where
  "days_before_month y m =
     (if m \<le> 1 then 0 else if m = 2 then 31 else if m = 3 then 59 else if m = 4 then 90
      else if m = 5 then 120 else if m = 6 then 151 else if m = 7 then 181
      else if m = 8 then 212 else if m = 9 then 243 else if m = 10 then 273
      else if m = 11 then 304 else 334)
     + (if 2 < m \<and> is_leap y then 1 else 0)"

definition days_before_year :: "int \<Rightarrow> int" where
  "days_before_year y = (y - 1) * 365 + (y - 1) div 4 - (y - 1) div 100 + (y - 1) div 400"

definition toordinal :: "date \<Rightarrow> int" where
  "toordinal d = days_before_year (dt_year d) + days_before_month (dt_year d) (dt_month d) + dt_day d"

definition month_day :: "int \<Rightarrow> int \<Rightarrow> date" where
  "month_day y n =
     (let m = (n + 50) div 32; p = days_before_month y m
      in if n < p then Date y (m - 1) (n - days_before_month y (m - 1) + 1)
         else Date y m (n - p + 1))"

definition ord2ymd :: "int \<Rightarrow> date" where
  "ord2ymd ord =
     (let n = ord - 1;
          n400 = n div 146097; n = n mod 146097;
          n100 = n div 36524; n = n mod 36524;
          n4 = n div 1461; n = n mod 1461;
          n1 = n div 365; n = n mod 365;
          y = n400 * 400 + 1 + n100 * 100 + n4 * 4 + n1
      in if n1 = 4 \<or> n100 = 4 then Date (y - 1) 12 31 else month_day y n)"

definition proper_date :: "date \<Rightarrow> bool" where
  "proper_date d \<longleftrightarrow> 1 \<le> dt_month d \<and> dt_month d \<le> 12 \<and>
     1 \<le> dt_day d \<and> dt_day d \<le> days_in_month (dt_year d) (dt_month d)"

definition valid_date :: "date \<Rightarrow> bool" where
  "valid_date d \<longleftrightarrow> 1 \<le> dt_year d \<and> dt_year d \<le> 9999 \<and> proper_date d"

definition max_ordinal :: int where
  "max_ordinal = 3652059"

definition date_min :: date where
  "date_min = Date 1 1 1"

definition date_max :: date where
  "date_max = Date 9999 12 31"

definition mk_date :: "int \<Rightarrow> int \<Rightarrow> int \<Rightarrow> py_error + date" where
  "mk_date y m d = (if valid_date (Date y m d) then Inr (Date y m d) else Inl ValueError)"

definition weekday :: "date \<Rightarrow> int" where
  "weekday d = (toordinal d + 6) mod 7"

definition add_days :: "date \<Rightarrow> int \<Rightarrow> py_error + date" where
  "add_days d k =
     (let n = toordinal d + k
      in if 1 \<le> n \<and> n \<le> max_ordinal then Inr (ord2ymd n) else Inl OverflowError)"

definition days_between :: "date \<Rightarrow> date \<Rightarrow> int" where
  "days_between d e = toordinal d - toordinal e"

text \<open>\<^verbatim>\<open>calendar.monthrange(y, m)[1]\<close>: raises for a month outside 1..12, and for a year
  whose first weekday it cannot compute.\<close>

definition monthrange_days :: "int \<Rightarrow> int \<Rightarrow> py_error + int" where
  "monthrange_days y m =
     (if 1 \<le> m \<and> m \<le> 12 then Inr (days_in_month y m) else Inl ValueError)"

subsection \<open>Ordinals and dates are in bijection\<close>

lemma div_pred:
  fixes y c :: int
  assumes "0 < c"
  shows "y div c = (y - 1) div c + (if y mod c = 0 then 1 else 0)"
proof -
  define q r where "q = (y - 1) div c" and "r = (y - 1) mod c"
  have y: "y = c * q + (r + 1)" unfolding q_def r_def by (simp add: algebra_simps)
  have r: "0 \<le> r" "r < c" using assms by (simp_all add: r_def)
  show ?thesis
  proof (cases "r + 1 = c")
    case True
    then have "y = c * (q + 1)" using y by (simp add: algebra_simps)
    then have "y mod c = 0" "y div c = q + 1" using assms by simp_all
    then show ?thesis by (simp add: q_def)
  next
    case False
    then have "y div c = q" "y mod c = r + 1"
      using y r by (simp_all add: int_div_pos_eq int_mod_pos_eq)
    then show ?thesis using r by (simp add: q_def)
  qed
qed

lemma mod_400_100_4:
  fixes y :: int
  shows "y mod 400 = 0 \<Longrightarrow> y mod 100 = 0" "y mod 100 = 0 \<Longrightarrow> y mod 4 = 0"
  by (auto simp: mod_eq_0_iff_dvd elim!: dvd_trans [rotated])

lemma mod_eq_0_top:
  fixes t k z :: int
  assumes "1 \<le> t" "t \<le> k"
  shows "(t + k * z) mod k = 0 \<longleftrightarrow> t = k"
  using assms by (cases "t = k") auto

lemma days_before_year_Suc:
  "days_before_year (y + 1) = days_before_year y + (if is_leap y then 366 else 365)"
proof -
  define a b c where "a = (y - 1) div 4" and "b = (y - 1) div 100" and "c = (y - 1) div 400"
  define p4 p100 p400 where "p4 = (y mod 4 = 0)" and "p100 = (y mod 100 = 0)"
    and "p400 = (y mod 400 = 0)"
  have "y div 4 = a + (if p4 then 1 else 0)" by (simp only: a_def p4_def div_pred [of 4 y])
  moreover have "y div 100 = b + (if p100 then 1 else 0)"
    by (simp only: b_def p100_def div_pred [of 100 y])
  moreover have "y div 400 = c + (if p400 then 1 else 0)"
    by (simp only: c_def p400_def div_pred [of 400 y])
  moreover have "days_before_year (y + 1) = y * 365 + y div 4 - y div 100 + y div 400"
    by (simp add: days_before_year_def)
  ultimately have "days_before_year (y + 1) = y * 365 + (a + (if p4 then 1 else 0)) -
    (b + (if p100 then 1 else 0)) + (c + (if p400 then 1 else 0))" by (simp only:)
  moreover have "days_before_year y = (y - 1) * 365 + a - b + c"
    by (simp add: days_before_year_def a_def b_def c_def)
  moreover have "is_leap y = (p4 \<and> (\<not> p100 \<or> p400))"
    by (simp add: is_leap_def p4_def p100_def p400_def)
  moreover have "p400 \<longrightarrow> p100" "p100 \<longrightarrow> p4"
    unfolding p4_def p100_def p400_def using mod_400_100_4 [of y] by blast+
  ultimately show ?thesis by (cases p4; cases p100; cases p400) simp_all
qed

lemma days_before_year_mono: "y \<le> z \<Longrightarrow> days_before_year y \<le> days_before_year z"
proof (induction z rule: int_ge_induct)
  case (step z)
  then show ?case using days_before_year_Suc [of z] by (auto split: if_splits)
qed simp

lemma month_cases:
  assumes "1 \<le> m" "m \<le> (12::int)"
  obtains "m = 1" | "m = 2" | "m = 3" | "m = 4" | "m = 5" | "m = 6"
    | "m = 7" | "m = 8" | "m = 9" | "m = 10" | "m = 11" | "m = 12"
proof -
  have "m = 1 \<or> m = 2 \<or> m = 3 \<or> m = 4 \<or> m = 5 \<or> m = 6 \<or> m = 7 \<or> m = 8 \<or> m = 9 \<or>
    m = 10 \<or> m = 11 \<or> m = 12" using assms by arith
  then show thesis using that by blast
qed

lemma days_before_month_Suc:
  assumes "1 \<le> m" "m < 12"
  shows "days_before_month y (m + 1) = days_before_month y m + days_in_month y m"
proof -
  have "m \<le> 12" using assms(2) by simp
  with assms(1) show ?thesis
    by (rule month_cases) (use assms(2) in \<open>auto simp: days_before_month_def days_in_month_def\<close>)
qed

lemma days_before_month_bound:
  assumes "1 \<le> m" "m \<le> 12"
  shows "0 \<le> days_before_month y m \<and>
    days_before_month y m + days_in_month y m \<le> (if is_leap y then 366 else 365)"
  using assms by (rule month_cases) (auto simp: days_before_month_def days_in_month_def)

lemma days_in_month_bounds: "28 \<le> days_in_month y m" "days_in_month y m \<le> 31"
  by (auto simp: days_in_month_def)

lemma days_before_month_less:
  assumes "1 \<le> m" "m < k" "k \<le> 12"
  shows "days_before_month y m + days_in_month y m \<le> days_before_month y k"
proof -
  have "m + 1 \<le> k" using assms by simp
  then have "days_before_month y (m + 1) \<le> days_before_month y k" using assms(3)
  proof (induction k rule: int_ge_induct)
    case (step k)
    then show ?case
      using assms(1) days_before_month_Suc [of k y] days_in_month_bounds(1) [of y k] by simp
  qed simp
  then show ?thesis using days_before_month_Suc [of m y] assms by simp
qed

lemma proper_day_of_year:
  assumes "proper_date d"
  shows "1 \<le> days_before_month (dt_year d) (dt_month d) + dt_day d"
    and "days_before_month (dt_year d) (dt_month d) + dt_day d \<le> (if is_leap (dt_year d) then 366 else 365)"
  using assms days_before_month_bound [of "dt_month d" "dt_year d"]
  by (auto simp: proper_date_def)

lemma toordinal_strict_mono:
  assumes "proper_date d" "proper_date e" "d < e"
  shows "toordinal d < toordinal e"
proof -
  consider (y) "dt_year d < dt_year e" | (m) "dt_year d = dt_year e" "dt_month d < dt_month e"
    | (day) "dt_year d = dt_year e" "dt_month d = dt_month e" "dt_day d < dt_day e"
    using assms(3) by (auto simp: less_date_def less_prod_def')
  then show ?thesis
  proof cases
    case y
    then have "days_before_year (dt_year d + 1) \<le> days_before_year (dt_year e)"
      by (intro days_before_year_mono) simp
    then show ?thesis
      using proper_day_of_year [OF assms(1)] proper_day_of_year [OF assms(2)]
        days_before_year_Suc [of "dt_year d"]
      by (simp add: toordinal_def)
  next
    case m
    then show ?thesis
      using assms(1,2) days_before_month_less [of "dt_month d" "dt_month e" "dt_year e"]
      by (auto simp: toordinal_def proper_date_def)
  next
    case day
    then show ?thesis by (simp add: toordinal_def)
  qed
qed

lemma toordinal_less_iff:
  "proper_date d \<Longrightarrow> proper_date e \<Longrightarrow> toordinal d < toordinal e \<longleftrightarrow> d < e"
  using toordinal_strict_mono by (metis less_asym linorder_neqE)

lemma toordinal_le_iff:
  "proper_date d \<Longrightarrow> proper_date e \<Longrightarrow> toordinal d \<le> toordinal e \<longleftrightarrow> d \<le> e"
  using toordinal_less_iff by (metis leD leI)

lemma toordinal_inject:
  "proper_date d \<Longrightarrow> proper_date e \<Longrightarrow> toordinal d = toordinal e \<longleftrightarrow> d = e"
  using toordinal_strict_mono by (metis less_irrefl linorder_neqE)

lemma month_day_toordinal:
  assumes "0 \<le> n" "n < 365"
  shows "proper_date (month_day y n)" "toordinal (month_day y n) = days_before_year y + n + 1"
    "dt_year (month_day y n) = y"
proof -
  define m where "m = (n + 50) div 32"
  have m: "32 * m \<le> n + 50" "n + 50 < 32 * m + 32" by (simp_all add: m_def)
  then have "1 \<le> m" "m \<le> 12" using assms by simp_all
  note md = month_day_def [of y n, folded m_def, unfolded Let_def]
  have *: "proper_date (month_day y n) \<and> toordinal (month_day y n) = days_before_year y + n + 1 \<and>
    dt_year (month_day y n) = y"
    using \<open>1 \<le> m\<close> \<open>m \<le> 12\<close>
    by (rule month_cases)
      (use m assms in \<open>auto simp: md proper_date_def toordinal_def days_before_month_def
        days_in_month_def\<close>)
  then show "proper_date (month_day y n)" "toordinal (month_day y n) = days_before_year y + n + 1"
    "dt_year (month_day y n) = y" by simp_all
qed

text \<open>The mixed-radix digits of an ordinal in cycles of 400, 100, 4 and 1 years.\<close>

lemma year_digits:
  fixes a b c e :: int
  assumes "0 \<le> b" "b < 4" "0 \<le> c" "c < 25" "0 \<le> e" "e < 4"
  defines "y \<equiv> a * 400 + 1 + b * 100 + c * 4 + e"
  shows "days_before_year y = 146097 * a + 36524 * b + 1461 * c + 365 * e"
    and "is_leap y \<longleftrightarrow> e = 3 \<and> (c \<noteq> 24 \<or> b = 3)"
proof -
  have "(y - 1) div 4 = 100 * a + 25 * b + c" using assms by (simp add: y_def)
  moreover have "(y - 1) div 100 = 4 * a + b" using assms by (simp add: y_def)
  moreover have "(y - 1) div 400 = a" using assms by (simp add: y_def)
  ultimately show "days_before_year y = 146097 * a + 36524 * b + 1461 * c + 365 * e"
    by (simp add: days_before_year_def y_def)
  have "y = (e + 1) + 4 * (100 * a + 25 * b + c)" by (simp add: y_def)
  then have "y mod 4 = 0 \<longleftrightarrow> e + 1 = 4" using assms by (simp only: mod_eq_0_top)
  moreover have "y = (4 * c + e + 1) + 100 * (4 * a + b)" by (simp add: y_def)
  then have "y mod 100 = 0 \<longleftrightarrow> 4 * c + e + 1 = 100" using assms by (simp only: mod_eq_0_top)
  moreover have "y = (100 * b + 4 * c + e + 1) + 400 * a" by (simp add: y_def)
  then have "y mod 400 = 0 \<longleftrightarrow> 100 * b + 4 * c + e + 1 = 400" using assms by (simp only: mod_eq_0_top)
  moreover have "4 * c + e + 1 = 100 \<longleftrightarrow> c = 24 \<and> e = 3"
    using assms(3-6) by (intro iffI conjI) linarith+
  moreover have "100 * b + 4 * c + e + 1 = 400 \<longleftrightarrow> b = 3 \<and> c = 24 \<and> e = 3"
    using assms(1-6) by (intro iffI conjI) linarith+
  ultimately show "is_leap y \<longleftrightarrow> e = 3 \<and> (c \<noteq> 24 \<or> b = 3)" by (auto simp add: is_leap_def simp del: mod_eq_0_iff_dvd)
qed

lemma ord2ymd_toordinal:
  "proper_date (ord2ymd n)" "toordinal (ord2ymd n) = n"
proof -
  define a r1 where "a = (n - 1) div 146097" and "r1 = (n - 1) mod 146097"
  define b r2 where "b = r1 div 36524" and "r2 = r1 mod 36524"
  define c r3 where "c = r2 div 1461" and "r3 = r2 mod 1461"
  define e r4 where "e = r3 div 365" and "r4 = r3 mod 365"
  define y where "y = a * 400 + 1 + b * 100 + c * 4 + e"
  have n: "n = 146097 * a + r1 + 1" and r1: "0 \<le> r1" "r1 < 146097"
    by (simp_all add: a_def r1_def)
  have b: "r1 = 36524 * b + r2" and r2: "0 \<le> r2" "r2 < 36524" by (simp_all add: b_def r2_def)
  have c: "r2 = 1461 * c + r3" and r3: "0 \<le> r3" "r3 < 1461" by (simp_all add: c_def r3_def)
  have e: "r3 = 365 * e + r4" and r4: "0 \<le> r4" "r4 < 365" by (simp_all add: e_def r4_def)
  have digits: "0 \<le> b" "b \<le> 4" "0 \<le> c" "c < 25" "0 \<le> e" "e \<le> 4"
    using r1 r2 r3 b c e r4 by simp_all
  have ord: "ord2ymd n = (if e = 4 \<or> b = 4 then Date (y - 1) 12 31 else month_day y r4)"
    by (simp add: ord2ymd_def Let_def y_def a_def r1_def b_def r2_def c_def r3_def e_def r4_def)
  have "proper_date (ord2ymd n) \<and> toordinal (ord2ymd n) = n"
  proof (cases "e = 4 \<or> b = 4")
    case False
    then have "b < 4" "e < 4" using digits by simp_all
    then have "days_before_year y = 146097 * a + 36524 * b + 1461 * c + 365 * e"
      unfolding y_def using digits by (intro year_digits) simp_all
    then show ?thesis unfolding ord using False month_day_toordinal [OF r4, of y] n b c e by simp
  next
    case True
    define b' c' e' :: int where "b' = (if b = 4 then 3 else b)" and "c' = (if b = 4 then 24 else c)"
      and "e' = 3"
    have four: "c = 0 \<and> e = 0 \<and> r4 = 0" if "b = 4"
    proof -
      have "r2 = 0" using that r1 r2 b by simp
      then have "c = 0" "r3 = 0" using c r3 digits by simp_all
      then show ?thesis using e r4 digits by simp
    qed
    have r4_0: "r4 = 0" using True four e r3 r4 by auto
    have c': "c = 24 \<Longrightarrow> b \<noteq> 4 \<Longrightarrow> e \<noteq> 4" using c e r2 r4 by auto
    have y': "y - 1 = a * 400 + 1 + b' * 100 + c' * 4 + e'"
      using True four by (auto simp: y_def b'_def c'_def e'_def)
    have dg: "0 \<le> b'" "b' < 4" "0 \<le> c'" "c' < 25" "0 \<le> e'" "e' < 4"
      using digits True by (auto simp: b'_def c'_def e'_def)
    have "days_before_year (y - 1) = 146097 * a + 36524 * b' + 1461 * c' + 365 * e'"
      and "is_leap (y - 1) \<longleftrightarrow> e' = 3 \<and> (c' \<noteq> 24 \<or> b' = 3)"
      unfolding y' using dg by (rule year_digits)+
    then show ?thesis
      unfolding ord using True four n b c e c' r4_0
      by (auto simp: proper_date_def toordinal_def days_in_month_def days_before_month_def
          b'_def c'_def e'_def)
  qed
  then show "proper_date (ord2ymd n)" "toordinal (ord2ymd n) = n" by simp_all
qed

lemma ord2ymd_inverse [simp]: "proper_date d \<Longrightarrow> ord2ymd (toordinal d) = d"
  using ord2ymd_toordinal [of "toordinal d"] toordinal_inject by blast

subsection \<open>The operations the components use\<close>

lemma toordinal_date_max: "toordinal date_max = max_ordinal"
  by (simp add: toordinal_def date_max_def max_ordinal_def days_before_year_def
      days_before_month_def is_leap_def)

lemma toordinal_date_min: "toordinal date_min = 1"
  by (simp add: toordinal_def date_min_def days_before_year_def days_before_month_def)

lemma proper_date_min_max [simp]: "proper_date date_min" "proper_date date_max"
  by (simp_all add: proper_date_def date_min_def date_max_def days_in_month_def)

lemma valid_date_iff_range:
  assumes "proper_date d"
  shows "valid_date d \<longleftrightarrow> 1 \<le> toordinal d \<and> toordinal d \<le> max_ordinal"
proof -
  have "date_min \<le> d \<longleftrightarrow> 1 \<le> dt_year d"
    using assms by (auto simp: less_eq_date_def date_min_def proper_date_def)
  moreover have "d \<le> date_max \<longleftrightarrow> dt_year d \<le> 9999"
    using assms days_in_month_bounds(2) [of "dt_year d" "dt_month d"]
    by (auto simp: less_eq_date_def date_max_def proper_date_def days_in_month_def)
  ultimately show ?thesis
    using assms toordinal_le_iff [of date_min d] toordinal_le_iff [of d date_max]
    by (simp add: valid_date_def toordinal_date_min toordinal_date_max)
qed

lemma valid_imp_proper [simp]: "valid_date d \<Longrightarrow> proper_date d"
  by (simp add: valid_date_def)

lemma add_days_Inr [date_simps]:
  "add_days d k = Inr e \<longleftrightarrow> valid_date e \<and> toordinal e = toordinal d + k"
proof
  assume "add_days d k = Inr e"
  then have r: "1 \<le> toordinal d + k" "toordinal d + k \<le> max_ordinal" "e = ord2ymd (toordinal d + k)"
    by (auto simp: add_days_def Let_def split: if_splits)
  then show "valid_date e \<and> toordinal e = toordinal d + k"
    using ord2ymd_toordinal [of "toordinal d + k"] valid_date_iff_range by simp
next
  assume e: "valid_date e \<and> toordinal e = toordinal d + k"
  then have "1 \<le> toordinal e" "toordinal e \<le> max_ordinal"
    using valid_date_iff_range [of e] by auto
  moreover have "ord2ymd (toordinal e) = e" using e by (intro ord2ymd_inverse) simp
  ultimately show "add_days d k = Inr e" using e by (simp add: add_days_def)
qed

lemma add_days_Inl [date_simps]:
  "add_days d k = Inl x \<longleftrightarrow>
     x = OverflowError \<and> (toordinal d + k < 1 \<or> max_ordinal < toordinal d + k)"
  by (auto simp: add_days_def Let_def)

lemma add_days_defined:
  "1 \<le> toordinal d + k \<Longrightarrow> toordinal d + k \<le> max_ordinal \<Longrightarrow> \<exists>e. add_days d k = Inr e"
  by (simp add: add_days_def)

lemma mk_date_Inr [date_simps]:
  "mk_date y m d = Inr e \<longleftrightarrow> e = Date y m d \<and> valid_date e"
  by (auto simp: mk_date_def)

lemma days_between_less: "proper_date d \<Longrightarrow> proper_date e \<Longrightarrow> days_between d e < 0 \<longleftrightarrow> d < e"
  using toordinal_less_iff [of d e] by (simp add: days_between_def)

lemma weekday_bounds: "0 \<le> weekday d" "weekday d < 7"
  by (simp_all add: weekday_def)

lemma weekday_shift:
  "toordinal e = toordinal d + k \<Longrightarrow> weekday e = (weekday d + k) mod 7"
  by (simp add: weekday_def mod_simps algebra_simps)

lemma toordinal_first_of_next_month:
  assumes "1 \<le> m" "m \<le> 12"
  shows "toordinal (Date (if m = 12 then y + 1 else y) (if m = 12 then 1 else m + 1) 1) =
    toordinal (Date y m 1) + days_in_month y m"
proof (cases "m = 12")
  case True
  then show ?thesis
    using days_before_year_Suc [of y]
    by (simp add: toordinal_def days_before_month_def days_in_month_def)
next
  case False
  then show ?thesis using days_before_month_Suc [of m y] assms by (simp add: toordinal_def)
qed

end
