(* ===== verification/Py_Text.thy ===== *)
theory Py_Text
  imports Py_Date
begin

text \<open>
  The text the services build: decimal and hexadecimal numerals, \<^verbatim>\<open>str(uuid)\<close>,
  \<^verbatim>\<open>str(date)\<close>, the key slug of \<^verbatim>\<open>app/services/license_inventory_service.py\<close> and the
  \<^verbatim>\<open>", ".join\<close> of the messages.
\<close>

definition digit_char :: "nat \<Rightarrow> char" where
  "digit_char n = char_of (if n < 10 then 48 + n else 87 + n)"

text \<open>The last \<^verbatim>\<open>k\<close> digits of \<^verbatim>\<open>n\<close> in base \<^verbatim>\<open>b\<close>, most significant first.\<close>

fun digits_base :: "nat \<Rightarrow> nat \<Rightarrow> nat \<Rightarrow> string" where
  "digits_base b 0 n = []"
| "digits_base b (Suc k) n = digits_base b k (n div b) @ [digit_char (n mod b)]"

fun str_nat :: "nat \<Rightarrow> string" where
  "str_nat n = (if n < 10 then [digit_char n] else str_nat (n div 10) @ [digit_char (n mod 10)])"

declare str_nat.simps [simp del]

definition str_int :: "int \<Rightarrow> string" where
  "str_int i = (if i < 0 then ''-'' @ str_nat (nat (- i)) else str_nat (nat i))"

text \<open>\<^verbatim>\<open>str(uuid)\<close>: the 32 hexadecimal digits in groups of 8, 4, 4, 4 and 12.\<close>

definition str_uuid :: "uuid \<Rightarrow> string" where
  "str_uuid u =
     (let h = digits_base 16 32 u
      in take 8 h @ ''-'' @ take 4 (drop 8 h) @ ''-'' @ take 4 (drop 12 h) @ ''-'' @
         take 4 (drop 16 h) @ ''-'' @ drop 20 h)"

lemma str_uuid_nonempty [simp]: "str_uuid u \<noteq> []"
  by (simp add: str_uuid_def Let_def)

text \<open>\<^verbatim>\<open>str(date)\<close> is the ISO form.\<close>

definition isoformat :: "date \<Rightarrow> string" where
  "isoformat d = digits_base 10 4 (nat (dt_year d)) @ ''-'' @ digits_base 10 2 (nat (dt_month d))
     @ ''-'' @ digits_base 10 2 (nat (dt_day d))"

lemma isoformat_nonempty [simp]: "isoformat d \<noteq> []"
  by (simp add: isoformat_def)

text \<open>
  \<^verbatim>\<open>date.fromisoformat\<close>: the calendar forms \<^verbatim>\<open>YYYY-MM-DD\<close> and \<^verbatim>\<open>YYYYMMDD\<close> and
  the ISO week forms, with \<^verbatim>\<open>None\<close> for its \<^verbatim>\<open>ValueError\<close>.
\<close>

definition digit_val :: "char \<Rightarrow> int option" where
  "digit_val c = (if 48 \<le> (of_char c :: nat) \<and> (of_char c :: nat) \<le> 57
                  then Some (int (of_char c) - 48) else None)"

fun digits_acc :: "int \<Rightarrow> string \<Rightarrow> int option" where
  "digits_acc acc [] = Some acc"
| "digits_acc acc (c # cs) = (case digit_val c of None \<Rightarrow> None | Some v \<Rightarrow> digits_acc (acc * 10 + v) cs)"

definition parse_digits :: "nat \<Rightarrow> string \<Rightarrow> int option" where
  "parse_digits n s = (if length s < n then None else digits_acc 0 (take n s))"

definition hex_val :: "char \<Rightarrow> int option" where
  "hex_val c = (let n = (of_char c :: nat) in
     if 48 \<le> n \<and> n \<le> 57 then Some (int n - 48)
     else if 97 \<le> n \<and> n \<le> 102 then Some (int n - 87)
     else if 65 \<le> n \<and> n \<le> 70 then Some (int n - 55) else None)"

definition week1_monday :: "int \<Rightarrow> int" where
  "week1_monday y =
     (let first = toordinal (Date y 1 1); wd = (first + 6) mod 7
      in first - wd + (if 3 < wd then 7 else 0))"

definition iso_week_date :: "int \<Rightarrow> int \<Rightarrow> int \<Rightarrow> date option" where
  "iso_week_date y w d =
     (let wd = weekday (Date y 1 1);
          long_year = (wd = 3 \<or> (wd = 2 \<and> is_leap y));
          e = ord2ymd (week1_monday y + (w - 1) * 7 + d - 1)
      in if y < 1 \<or> 9999 < y \<or> w \<le> 0 \<or> 53 < w \<or> (w = 53 \<and> \<not> long_year) \<or> d \<le> 0 \<or> 8 \<le> d then None
         else if valid_date e then Some e else None)"

definition fromisoformat :: "string \<Rightarrow> date option" where
  "fromisoformat s =
     (if length s \<notin> {7, 8, 10} then None
      else case parse_digits 4 s of
        None \<Rightarrow> None
      | Some y \<Rightarrow>
        (let sep = (take 1 (drop 4 s) = ''-''); rest = drop (if sep then 5 else 4) s
         in if take 1 rest = ''W'' then
              (case parse_digits 2 (drop 1 rest) of
                 None \<Rightarrow> None
               | Some w \<Rightarrow>
                 (let more = drop 3 rest
                  in if more = [] then iso_week_date y w 1
                     else if sep \<and> take 1 more \<noteq> ''-'' then None
                     else (case parse_digits 1 (if sep then drop 1 more else more) of
                             None \<Rightarrow> None | Some d \<Rightarrow> iso_week_date y w d)))
            else
              (case parse_digits 2 rest of
                 None \<Rightarrow> None
               | Some m \<Rightarrow>
                 (let more = drop 2 rest; day = (if sep then drop 1 more else more)
                  in if sep \<and> take 1 more \<noteq> ''-'' then None
                     else case parse_digits 2 day of
                       None \<Rightarrow> None
                     | Some d \<Rightarrow> (if length day = 2 \<and> valid_date (Date y m d) then Some (Date y m d) else None)))))"

text \<open>\<^verbatim>\<open>s.split(c)\<close> for a separator of one character.\<close>

fun split_on :: "char \<Rightarrow> string \<Rightarrow> string list" where
  "split_on c [] = [[]]"
| "split_on c (d # s) =
     (if d = c then [] # split_on c s
      else case split_on c s of [] \<Rightarrow> [[d]] | p # ps \<Rightarrow> (d # p) # ps)"

fun join_str :: "string \<Rightarrow> string list \<Rightarrow> string" where
  "join_str sep [] = []"
| "join_str sep [x] = x"
| "join_str sep (x # y # xs) = x @ sep @ join_str sep (y # xs)"

text \<open>The substring test \<^verbatim>\<open>s in t\<close>.\<close>

fun is_substr :: "string \<Rightarrow> string \<Rightarrow> bool" where
  "is_substr s [] = (s = [])"
| "is_substr s (c # cs) = (take (length s) (c # cs) = s \<or> is_substr s cs)"

lemma is_substr_iff: "is_substr s t \<longleftrightarrow> (\<exists>a b. t = a @ s @ b)"
proof (induction t)
  case (Cons c cs)
  have "take (length s) (c # cs) = s \<longleftrightarrow> (\<exists>b. c # cs = s @ b)"
    by (metis append_eq_conv_conj append_take_drop_id)
  then show ?case using Cons by (auto simp: Cons_eq_append_conv)
qed simp

subsection \<open>Slugs\<close>

text \<open>
  \<^verbatim>\<open>re.sub("[^a-z0-9]+", "-", value.lower()).strip("-")\<close>: a maximal run of other
  characters becomes one dash.
\<close>

definition key_safe :: "char \<Rightarrow> bool" where
  "key_safe c \<longleftrightarrow> (97 \<le> (of_char c :: nat) \<and> (of_char c :: nat) \<le> 122) \<or>
                 (48 \<le> (of_char c :: nat) \<and> (of_char c :: nat) \<le> 57)"

fun dash_runs :: "bool \<Rightarrow> string \<Rightarrow> string" where
  "dash_runs in_run [] = []"
| "dash_runs in_run (c # cs) =
     (if key_safe c then c # dash_runs False cs
      else if in_run then dash_runs True cs
      else CHR ''-'' # dash_runs True cs)"

definition strip_dash :: "string \<Rightarrow> string" where
  "strip_dash s = rev (dropWhile (\<lambda>c. c = CHR ''-'') (rev (dropWhile (\<lambda>c. c = CHR ''-'') s)))"

definition slugify :: "string \<Rightarrow> string" where
  "slugify value =
     (let cleaned = strip_dash (dash_runs False (lower_ascii value))
      in take 80 (if cleaned = [] then ''item'' else cleaned))"

lemma set_dash_runs: "set (dash_runs b s) \<subseteq> insert (CHR ''-'') {c. key_safe c}"
  by (induction b s rule: dash_runs.induct) auto

lemma set_strip_dash: "set (strip_dash s) \<subseteq> set s"
  unfolding strip_dash_def by (metis set_rev set_dropWhileD subsetI)

lemma key_safe_item: "c \<in> set ''item'' \<Longrightarrow> key_safe c"
  by (auto simp: key_safe_def)

lemma slugify_chars: "c \<in> set (slugify v) \<Longrightarrow> key_safe c \<or> c = CHR ''-''"
proof -
  assume c: "c \<in> set (slugify v)"
  let ?s = "strip_dash (dash_runs False (lower_ascii v))"
  have "c \<in> set ?s \<or> c \<in> set ''item''"
    using c in_set_takeD [of c 80] by (auto simp: slugify_def Let_def split: if_splits dest: in_set_takeD)
  then show ?thesis
    using set_strip_dash set_dash_runs key_safe_item by blast
qed

lemma slugify_length: "slugify v \<noteq> [] \<and> length (slugify v) \<le> 80"
  by (auto simp: slugify_def Let_def)


subsection \<open>Integers from text\<close>

text \<open>\<^verbatim>\<open>int(s)\<close>: surrounding white space, a sign, decimal digits with single underscores between
  them, at most 4300 digits; \<^verbatim>\<open>None\<close> for its \<^verbatim>\<open>ValueError\<close>.\<close>

definition is_space :: "char \<Rightarrow> bool" where
  "is_space c \<longleftrightarrow> c \<in> {CHR '' '', CHR 0x09, CHR 0x0A, CHR 0x0D, CHR 0x0B, CHR 0x0C,
     CHR 0x1C, CHR 0x1D, CHR 0x1E, CHR 0x1F}"

definition py_strip :: "string \<Rightarrow> string" where
  "py_strip s = rev (dropWhile is_space (rev (dropWhile is_space s)))"

fun int_digits :: "bool \<Rightarrow> int \<Rightarrow> string \<Rightarrow> int option" where
  "int_digits after_digit acc [] = (if after_digit then Some acc else None)"
| "int_digits after_digit acc (c # cs) =
     (case digit_val c of
        Some d \<Rightarrow> int_digits True (10 * acc + d) cs
      | None \<Rightarrow> if c = CHR ''_'' \<and> after_digit then int_digits False acc cs else None)"

definition parse_int :: "string \<Rightarrow> int option" where
  "parse_int s =
     (let t = py_strip s;
          (neg, body) = (case t of
             c # cs \<Rightarrow> if c = CHR ''-'' then (True, cs) else if c = CHR ''+'' then (False, cs) else (False, t)
           | [] \<Rightarrow> (False, t))
      in if 4300 < length (filter (\<lambda>c. digit_val c \<noteq> None) body) then None
         else map_option (\<lambda>n. if neg then - n else n) (int_digits False 0 body))"

subsection \<open>Numerals and identifiers are injective\<close>

lemma length_digits_base [simp]: "length (digits_base b k n) = k"
  by (induction k arbitrary: n) simp_all

lemma digit_char_inject: "m < 16 \<Longrightarrow> n < 16 \<Longrightarrow> digit_char m = digit_char n \<longleftrightarrow> m = n"
proof
  assume b: "m < 16" "n < 16" and e: "digit_char m = digit_char n"
  have c: "of_char (digit_char k) = (if k < 10 then 48 + k else 87 + k)" if "k < 16" for k :: nat
    using that by (simp add: digit_char_def)
  have "(of_char (digit_char m) :: nat) = of_char (digit_char n)" by (simp only: e)
  then have "(if m < 10 then 48 + m else 87 + m) = (if n < 10 then 48 + n else 87 + n)"
    unfolding c [OF b(1)] c [OF b(2)] .
  with b show "m = n" by (simp split: if_splits)
qed simp

lemma digits_base_inject:
  assumes "b \<le> 16" "digits_base b k m = digits_base b k n" "m < b ^ k" "n < b ^ k"
  shows "m = n"
  using assms(2-4)
proof (induction k arbitrary: m n)
  case (Suc k)
  have b: "0 < b" using Suc.prems(2) by (cases b) auto
  have "m mod b < 16" "n mod b < 16" using b assms(1) by (meson mod_less_divisor order_less_le_trans)+
  then have "m mod b = n mod b" using Suc.prems(1) digit_char_inject by simp
  moreover have "m div b = n div b"
    using Suc.prems b by (intro Suc.IH) (simp_all add: less_mult_imp_div_less mult.commute)
  ultimately show ?case by (metis div_mult_mod_eq)
qed simp

lemma length_str_uuid [simp]: "length (str_uuid u) = 36"
  by (simp add: str_uuid_def Let_def)

lemma str_uuid_inject:
  assumes "u < 16 ^ 32" "v < 16 ^ 32" "str_uuid u = str_uuid v"
  shows "u = v"
proof -
  let ?h = "digits_base 16 32 u" and ?k = "digits_base 16 32 v"
  have parts: "take 8 ?h = take 8 ?k" "take 4 (drop 8 ?h) = take 4 (drop 8 ?k)" "take 4 (drop 12 ?h) = take 4 (drop 12 ?k)"
    "take 4 (drop 16 ?h) = take 4 (drop 16 ?k)" "drop 20 ?h = drop 20 ?k"
    using assms(3) by (simp_all add: str_uuid_def Let_def)
  have split: "h = take 8 h @ take 4 (drop 8 h) @ take 4 (drop 12 h) @ take 4 (drop 16 h) @ drop 20 h" for h :: string
    using append_take_drop_id [of 8 h] append_take_drop_id [of 4 "drop 8 h"] append_take_drop_id [of 4 "drop 12 h"]
      append_take_drop_id [of 4 "drop 16 h"] by (simp add: drop_drop)
  have "?h = ?k" using split [of ?h] split [of ?k] parts by metis
  then show ?thesis using digits_base_inject [of 16 32 u v] assms(1,2) by simp
qed

lemma length_isoformat [simp]: "length (isoformat d) = 10"
  by (simp add: isoformat_def)

lemma isoformat_inject:
  assumes "valid_date d" "valid_date e" "isoformat d = isoformat e"
  shows "d = e"
proof -
  have r: "nat (dt_year x) < 10 ^ 4 \<and> nat (dt_month x) < 10 ^ 2 \<and> nat (dt_day x) < 10 ^ 2 \<and>
      1 \<le> dt_year x \<and> 1 \<le> dt_month x \<and> 1 \<le> dt_day x" if "valid_date x" for x
    using that days_in_month_bounds(2) [of "dt_year x" "dt_month x"] by (auto simp: valid_date_def proper_date_def)
  have "digits_base 10 4 (nat (dt_year d)) = digits_base 10 4 (nat (dt_year e))"
    "digits_base 10 2 (nat (dt_month d)) = digits_base 10 2 (nat (dt_month e))"
    "digits_base 10 2 (nat (dt_day d)) = digits_base 10 2 (nat (dt_day e))"
    using assms(3) by (simp_all add: isoformat_def)
  then have "nat (dt_year d) = nat (dt_year e)" "nat (dt_month d) = nat (dt_month e)" "nat (dt_day d) = nat (dt_day e)"
    using r [OF assms(1)] r [OF assms(2)] digits_base_inject [of 10 4 "nat (dt_year d)" "nat (dt_year e)"]
      digits_base_inject [of 10 2 "nat (dt_month d)" "nat (dt_month e)"]
      digits_base_inject [of 10 2 "nat (dt_day d)" "nat (dt_day e)"] by simp_all
  then have "dt_year d = dt_year e" "dt_month d = dt_month e" "dt_day d = dt_day e"
    using r [OF assms(1)] r [OF assms(2)] by linarith+
  then show ?thesis by (intro date.expand) simp
qed

lemma append_sep_inject:
  "c \<notin> set a \<Longrightarrow> c \<notin> set b \<Longrightarrow> a @ c # x = b @ c # y \<longleftrightarrow> a = b \<and> x = y"
  using takeWhile_append2 [of a "\<lambda>d. d \<noteq> c" "c # x"] takeWhile_append2 [of b "\<lambda>d. d \<noteq> c" "c # y"]
  by fastforce

end
