(* ===== verification/Job_Queue.thy ===== *)
theory Job_Queue
  imports Py_Num Py_Text Py_Json
begin

text \<open>
  The PostgreSQL-backed job queue: \<^verbatim>\<open>app/jobs/enums.py\<close>, \<^verbatim>\<open>app/jobs/repository.py\<close>,
  \<^verbatim>\<open>app/jobs/service.py\<close>, \<^verbatim>\<open>app/jobs/leasing.py\<close>, the backoff of
  \<^verbatim>\<open>app/graph/retry.py\<close>, and the unique constraints of \<^verbatim>\<open>app/models/job.py\<close> that the
  code relies on. An operation is one transaction on the table; the interleaving that
  matters, another transaction committing between the reads and the insert of an enqueue, is
  an argument of the enqueue.
\<close>

subsection \<open>Rows\<close>

datatype JobType =
    ENSURE_SUBSCRIPTION | RENEW_SUBSCRIPTION | RECREATE_SUBSCRIPTION | SYNC_FOLDER
  | INGEST_EMAIL | CLASSIFY_EMAIL

datatype JobStatus =
    PENDING | RUNNING | COMPLETED | FAILED_RETRYABLE | FAILED_REVIEW | CANCELLED

definition ACTIVE_JOB_STATUSES :: "JobStatus list" where
  "ACTIVE_JOB_STATUSES = [PENDING, RUNNING]"

definition COALESCED_BY_FOLDER :: "JobType list" where
  "COALESCED_BY_FOLDER = [SYNC_FOLDER, ENSURE_SUBSCRIPTION, RENEW_SUBSCRIPTION, RECREATE_SUBSCRIPTION]"

record job =
  job_id :: uuid
  job_type :: JobType
  job_mailbox_id :: "uuid option"
  job_folder_id :: "uuid option"
  job_email_id :: "uuid option"
  job_reason :: "string option"
  job_payload :: jdict
  job_status :: JobStatus
  job_priority :: int
  job_idempotency_key :: string
  job_attempts :: int
  job_max_attempts :: int
  job_available_at :: datetime
  job_lease_owner :: "string option"
  job_lease_expires_at :: "datetime option"
  job_started_at :: "datetime option"
  job_completed_at :: "datetime option"
  job_last_error_code :: "string option"
  job_last_error_message :: "string option"
  job_correlation_id :: "uuid option"
  job_created_at :: datetime

type_synonym job_table = "job list"

definition is_active :: "job \<Rightarrow> bool" where
  "is_active j \<longleftrightarrow> job_status j \<in> set ACTIVE_JOB_STATUSES"

text \<open>
  The key under which an active row is indexed: one active SYNC_FOLDER per folder, one
  active INGEST_EMAIL and one active CLASSIFY_EMAIL per email. A null column is never equal
  to another, so such a row has no entry.
\<close>

definition index_key :: "job \<Rightarrow> (JobType \<times> uuid) option" where
  "index_key j =
     (if \<not> is_active j then None
      else case job_type j of
        SYNC_FOLDER \<Rightarrow> map_option (\<lambda>f. (SYNC_FOLDER, f)) (job_folder_id j)
      | INGEST_EMAIL \<Rightarrow> map_option (\<lambda>e. (INGEST_EMAIL, e)) (job_email_id j)
      | CLASSIFY_EMAIL \<Rightarrow> map_option (\<lambda>e. (CLASSIFY_EMAIL, e)) (job_email_id j)
      | _ \<Rightarrow> None)"

definition index_entries :: "job_table \<Rightarrow> (JobType \<times> uuid) list" where
  "index_entries t = List.map_filter index_key t"

text \<open>The primary key, the idempotency key and the partial unique indexes.\<close>

definition constraints_ok :: "job_table \<Rightarrow> bool" where
  "constraints_ok t \<longleftrightarrow> distinct (map job_id t) \<and> distinct (map job_idempotency_key t) \<and>
     distinct (index_entries t)"

subsection \<open>Enqueue\<close>

record enqueue_request =
  eq_job_type :: JobType
  eq_idempotency_key :: string
  eq_max_attempts :: int
  eq_mailbox_id :: "uuid option"
  eq_folder_id :: "uuid option"
  eq_email_id :: "uuid option"
  eq_reason :: "string option"
  eq_payload :: "jdict option"
  eq_priority :: int
  eq_delay_seconds :: rat
  eq_correlation_id :: "uuid option"

record EnqueueResult =
  er_job :: job
  er_created :: bool
  er_coalesced :: bool

definition find_active_for_target ::
  "JobType \<Rightarrow> uuid option \<Rightarrow> uuid option \<Rightarrow> job_table \<Rightarrow> job option" where
  "find_active_for_target jt folder email t =
     (if jt \<in> {INGEST_EMAIL, CLASSIFY_EMAIL} then
        (if email = None then None
         else find (\<lambda>j. job_type j = jt \<and> is_active j \<and> job_email_id j = email) t)
      else if jt \<in> set COALESCED_BY_FOLDER then
        (if folder = None then None
         else find (\<lambda>j. job_type j = jt \<and> is_active j \<and> job_folder_id j = folder) t)
      else None)"

definition coalesce_into :: "string option \<Rightarrow> int \<Rightarrow> job \<Rightarrow> job" where
  "coalesce_into reason priority j =
     (let j1 = (case reason of
                  Some (c # r) \<Rightarrow>
                    (let old = (case job_reason j of None \<Rightarrow> [] | Some x \<Rightarrow> x)
                     in if is_substr (c # r) old then j
                        else j\<lparr>job_reason := Some (take 500
                               (if old = [] then c # r else old @ ''; '' @ (c # r)))\<rparr>)
                | _ \<Rightarrow> j)
      in if priority < job_priority j1 then j1\<lparr>job_priority := priority\<rparr> else j1)"

definition new_job :: "datetime \<Rightarrow> uuid \<Rightarrow> enqueue_request \<Rightarrow> job" where
  "new_job now i rq =
     \<lparr>job_id = i, job_type = eq_job_type rq, job_mailbox_id = eq_mailbox_id rq,
      job_folder_id = eq_folder_id rq, job_email_id = eq_email_id rq, job_reason = eq_reason rq,
      job_payload = (case eq_payload rq of None \<Rightarrow> [] | Some d \<Rightarrow> d), job_status = PENDING,
      job_priority = eq_priority rq, job_idempotency_key = eq_idempotency_key rq,
      job_attempts = 0, job_max_attempts = eq_max_attempts rq,
      job_available_at = now + td_seconds (eq_delay_seconds rq), job_lease_owner = None,
      job_lease_expires_at = None, job_started_at = None, job_completed_at = None,
      job_last_error_code = None, job_last_error_message = None,
      job_correlation_id = eq_correlation_id rq, job_created_at = now\<rparr>"

definition find_key :: "string \<Rightarrow> job_table \<Rightarrow> job option" where
  "find_key k t = get_row job_idempotency_key t k"

text \<open>
  The reads see \<^verbatim>\<open>t0\<close>; by the time the insert is flushed the committed table is
  \<^verbatim>\<open>t\<close>. The savepoint limits the rollback of a refused insert to that insert, and the
  reads are then repeated. Without a concurrent commit the two tables are the same.
\<close>

definition enqueue ::
  "datetime \<Rightarrow> uuid \<Rightarrow> enqueue_request \<Rightarrow> job_table \<Rightarrow> job_table \<Rightarrow>
     domain_error + (EnqueueResult \<times> job_table)" where
  "enqueue now i rq t0 t =
     (let found = (\<lambda>j. \<lparr>er_job = j, er_created = False, er_coalesced = False\<rparr>);
          coalesced = (\<lambda>j. let j' = coalesce_into (eq_reason rq) (eq_priority rq) j
                           in Inr (\<lparr>er_job = j', er_created = False, er_coalesced = True\<rparr>,
                                   put_row job_id j' t));
          active = find_active_for_target (eq_job_type rq) (eq_folder_id rq) (eq_email_id rq) in
      case find_key (eq_idempotency_key rq) t0 of
        Some j \<Rightarrow> Inr (found j, t)
      | None \<Rightarrow>
        (case active t0 of
           Some j \<Rightarrow> coalesced j
         | None \<Rightarrow>
           (let job = new_job now i rq
            in if constraints_ok (t @ [job])
               then Inr (\<lparr>er_job = job, er_created = True, er_coalesced = False\<rparr>, t @ [job])
               else (case find_key (eq_idempotency_key rq) t of
                       Some winner \<Rightarrow> Inr (found winner, t)
                     | None \<Rightarrow> (case active t of
                         Some j \<Rightarrow> coalesced j
                       | None \<Rightarrow> Inl IntegrityError)))))"

subsection \<open>Claim and lease\<close>

definition claimable :: "datetime \<Rightarrow> JobType list \<Rightarrow> (uuid \<Rightarrow> bool) \<Rightarrow> job \<Rightarrow> bool" where
  "claimable now types locked j \<longleftrightarrow>
     (job_status j = PENDING \<or> job_status j = FAILED_RETRYABLE) \<and> job_available_at j \<le> now \<and>
     (types = [] \<or> job_type j \<in> set types) \<and> \<not> locked (job_id j)"

definition claim_key :: "job \<Rightarrow> int \<times> int \<times> int" where
  "claim_key j = (job_priority j, job_available_at j, job_created_at j)"

definition claim_order :: "datetime \<Rightarrow> JobType list \<Rightarrow> (uuid \<Rightarrow> bool) \<Rightarrow> job_table \<Rightarrow> job list" where
  "claim_order now types locked t = sort_key claim_key (filter (claimable now types locked) t)"

definition start_job :: "datetime \<Rightarrow> string \<Rightarrow> int \<Rightarrow> job \<Rightarrow> job" where
  "start_job now worker lease_seconds j =
     j\<lparr>job_status := RUNNING, job_lease_owner := Some worker,
       job_lease_expires_at := Some (now + seconds_us lease_seconds),
       job_attempts := job_attempts j + 1,
       job_started_at := (case job_started_at j of None \<Rightarrow> Some now | Some s \<Rightarrow> Some s)\<rparr>"

text \<open>
  \<^verbatim>\<open>SELECT ... FOR UPDATE SKIP LOCKED LIMIT 1\<close>: the rows that other transactions hold
  locked are passed over. The commit fails when the row becomes active beside another active
  row of the same target.
\<close>

definition claim_next ::
  "datetime \<Rightarrow> string \<Rightarrow> int \<Rightarrow> JobType list \<Rightarrow> (uuid \<Rightarrow> bool) \<Rightarrow> job_table \<Rightarrow>
     domain_error + (job option \<times> job_table)" where
  "claim_next now worker lease_seconds types locked t =
     (case claim_order now types locked t of
        [] \<Rightarrow> Inr (None, t)
      | j # _ \<Rightarrow>
        (let j' = start_job now worker lease_seconds j; t' = put_row job_id j' t
         in if constraints_ok t' then Inr (Some j', t') else Inl IntegrityError))"

definition extend_lease :: "datetime \<Rightarrow> uuid \<Rightarrow> string \<Rightarrow> int \<Rightarrow> job_table \<Rightarrow> bool \<times> job_table" where
  "extend_lease now i worker lease_seconds t =
     (let hit = (\<lambda>j. job_id j = i \<and> job_lease_owner j = Some worker \<and> job_status j = RUNNING)
      in (list_ex hit t,
          map (\<lambda>j. if hit j then j\<lparr>job_lease_expires_at := Some (now + seconds_us lease_seconds)\<rparr> else j) t))"

subsection \<open>Outcomes\<close>

definition completed_job :: "datetime \<Rightarrow> job \<Rightarrow> job" where
  "completed_job now j = j\<lparr>job_status := COMPLETED, job_completed_at := Some now,
     job_lease_owner := None, job_lease_expires_at := None,
     job_last_error_code := None, job_last_error_message := None\<rparr>"

definition mark_completed :: "datetime \<Rightarrow> job \<Rightarrow> job_table \<Rightarrow> job_table" where
  "mark_completed now j t = put_row job_id (completed_job now j) t"

text \<open>
  Bounded exponential backoff with full jitter; \<^verbatim>\<open>uniform\<close> is
  \<^verbatim>\<open>random.uniform\<close>.
\<close>

definition backoff_delay ::
  "(rat \<Rightarrow> rat \<Rightarrow> rat) \<Rightarrow> int \<Rightarrow> rat \<Rightarrow> rat \<Rightarrow> rat option \<Rightarrow> rat" where
  "backoff_delay uniform attempt base_seconds max_seconds retry_after =
     (case retry_after of
        Some r \<Rightarrow> min r max_seconds
      | None \<Rightarrow> uniform 0 (min (base_seconds * 2 ^ nat (max (attempt - 1) 0)) max_seconds))"

definition retryable_job :: "datetime \<Rightarrow> rat \<Rightarrow> string \<Rightarrow> string \<Rightarrow> job \<Rightarrow> job" where
  "retryable_job now delay code msg j =
     j\<lparr>job_status := FAILED_RETRYABLE, job_available_at := now + td_seconds delay,
       job_lease_owner := None, job_lease_expires_at := None,
       job_last_error_code := Some (take 100 code), job_last_error_message := Some (take 500 msg)\<rparr>"

definition review_job :: "datetime \<Rightarrow> string \<Rightarrow> string \<Rightarrow> job \<Rightarrow> job" where
  "review_job now code msg j =
     j\<lparr>job_status := FAILED_REVIEW, job_lease_owner := None, job_lease_expires_at := None,
       job_completed_at := Some now,
       job_last_error_code := Some (take 100 code), job_last_error_message := Some (take 500 msg)\<rparr>"

definition mark_retryable_failure ::
  "(rat \<Rightarrow> rat \<Rightarrow> rat) \<Rightarrow> datetime \<Rightarrow> rat \<Rightarrow> rat \<Rightarrow> string \<Rightarrow> string \<Rightarrow> job \<Rightarrow> job_table \<Rightarrow> job_table" where
  "mark_retryable_failure uniform now base_s max_s code msg j t =
     put_row job_id (retryable_job now (backoff_delay uniform (job_attempts j) base_s max_s None) code msg j) t"

definition mark_review_failure ::
  "datetime \<Rightarrow> string \<Rightarrow> string \<Rightarrow> job \<Rightarrow> job_table \<Rightarrow> job_table" where
  "mark_review_failure now code msg j t = put_row job_id (review_job now code msg j) t"

text \<open>The escalation policy writes an audit row and an outbox row beside the job.\<close>

record job_notice =
  jn_job_id :: uuid
  jn_attempts :: int
  jn_error_code :: string
  jn_actor :: string
  jn_at :: datetime

record job_db =
  jobs :: job_table
  job_audits :: "job_notice list"
  job_outbox :: "job_notice list"

definition record_failure ::
  "(rat \<Rightarrow> rat \<Rightarrow> rat) \<Rightarrow> datetime \<Rightarrow> rat \<Rightarrow> rat \<Rightarrow> string \<Rightarrow> string \<Rightarrow> bool \<Rightarrow> job \<Rightarrow> job_db \<Rightarrow>
     domain_error + job_db" where
  "record_failure uniform now base_s max_s code msg retryable j db =
     (if retryable \<and> job_attempts j < job_max_attempts j
      then Inr (db\<lparr>jobs := mark_retryable_failure uniform now base_s max_s code msg j (jobs db)\<rparr>)
      else
        (let final_code = (if \<not> retryable then code else ''max_attempts_exhausted'');
             notice = \<lparr>jn_job_id = job_id j, jn_attempts = job_attempts j, jn_error_code = final_code,
               jn_actor = (case job_lease_owner j of Some (c # w) \<Rightarrow> c # w | _ \<Rightarrow> ''graph-worker''),
               jn_at = now\<rparr>
         in if (job_id j, job_attempts j) \<in> set (map (\<lambda>n. (jn_job_id n, jn_attempts n)) (job_outbox db))
            then Inl IntegrityError
            else Inr (db\<lparr>jobs := mark_review_failure now final_code msg j (jobs db),
                        job_audits := job_audits db @ [notice],
                        job_outbox := job_outbox db @ [notice]\<rparr>)))"

definition lease_expired :: "datetime \<Rightarrow> job \<Rightarrow> bool" where
  "lease_expired now j \<longleftrightarrow> job_status j = RUNNING \<and>
     (case job_lease_expires_at j of None \<Rightarrow> False | Some e \<Rightarrow> e < now)"

definition recovered_job :: "job \<Rightarrow> job" where
  "recovered_job j = j\<lparr>job_status := PENDING, job_lease_owner := None, job_lease_expires_at := None,
     job_last_error_code := Some ''lease_expired'',
     job_last_error_message := Some ''Worker lease expired; job returned to the queue.''\<rparr>"

definition recover_expired_leases :: "datetime \<Rightarrow> job_table \<Rightarrow> nat \<times> job_table" where
  "recover_expired_leases now t =
     (length (filter (lease_expired now) t),
      map (\<lambda>j. if lease_expired now j then recovered_job j else j) t)"

subsection \<open>The per-folder synchronisation lease (app/jobs/leasing.py)\<close>

record sync_state =
  ss_id :: uuid
  ss_lease_owner :: "string option"
  ss_lease_expires_at :: "datetime option"

text \<open>A comparison with a null column is not true.\<close>

definition lease_free :: "datetime \<Rightarrow> string \<Rightarrow> sync_state \<Rightarrow> bool" where
  "lease_free now owner s \<longleftrightarrow>
     ss_lease_owner s = None \<or> (case ss_lease_expires_at s of None \<Rightarrow> False | Some e \<Rightarrow> e < now) \<or>
     ss_lease_owner s = Some owner"

definition acquire_sync_lease ::
  "datetime \<Rightarrow> uuid \<Rightarrow> string \<Rightarrow> int \<Rightarrow> sync_state list \<Rightarrow> bool \<times> sync_state list" where
  "acquire_sync_lease now i owner lease_seconds ss =
     (let hit = (\<lambda>s. ss_id s = i \<and> lease_free now owner s)
      in (list_ex hit ss,
          map (\<lambda>s. if hit s then s\<lparr>ss_lease_owner := Some owner,
                                   ss_lease_expires_at := Some (now + seconds_us lease_seconds)\<rparr> else s) ss))"

definition release_sync_lease :: "uuid \<Rightarrow> string \<Rightarrow> sync_state list \<Rightarrow> sync_state list" where
  "release_sync_lease i owner ss =
     map (\<lambda>s. if ss_id s = i \<and> ss_lease_owner s = Some owner
              then s\<lparr>ss_lease_owner := None, ss_lease_expires_at := None\<rparr> else s) ss"

subsection \<open>The unique indexes\<close>

lemma map_filter_append: "List.map_filter f (xs @ ys) = List.map_filter f xs @ List.map_filter f ys"
  by (induction xs) (auto simp: map_filter_simps split: option.splits)

lemma set_index_entries: "k \<in> set (index_entries t) \<longleftrightarrow> (\<exists>j \<in> set t. index_key j = Some k)"
  by (induction t) (auto simp: index_entries_def map_filter_simps split: option.splits)

lemma index_entries_same:
  "(\<And>j. j \<in> set t \<Longrightarrow> index_key (f j) = index_key j) \<Longrightarrow> index_entries (map f t) = index_entries t"
  by (induction t) (auto simp: index_entries_def map_filter_simps split: option.splits)

lemma index_entries_fewer:
  "(\<And>j. j \<in> set t \<Longrightarrow> index_key (f j) = index_key j \<or> index_key (f j) = None) \<Longrightarrow>
     distinct (index_entries t) \<Longrightarrow>
     distinct (index_entries (map f t)) \<and> set (index_entries (map f t)) \<subseteq> set (index_entries t)"
proof (induction t)
  case (Cons j t)
  then have IH: "distinct (index_entries (map f t)) \<and> set (index_entries (map f t)) \<subseteq> set (index_entries t)"
    by (auto simp: index_entries_def map_filter_simps split: option.splits)
  have "index_key (f j) = index_key j \<or> index_key (f j) = None" using Cons.prems by simp
  with IH Cons.prems(2) show ?case
    by (cases "index_key j") (auto simp: index_entries_def map_filter_simps split: option.splits)
qed (simp add: index_entries_def map_filter_simps)

lemma constraints_single [simp]: "constraints_ok [j]"
  by (cases "index_key j") (simp_all add: constraints_ok_def index_entries_def map_filter_simps)

text \<open>An update of rows that keeps the keys and frees at most index entries is accepted.\<close>

lemma constraints_map:
  assumes "constraints_ok t"
    and "\<And>j. j \<in> set t \<Longrightarrow> job_id (f j) = job_id j \<and> job_idempotency_key (f j) = job_idempotency_key j \<and>
           (index_key (f j) = index_key j \<or> index_key (f j) = None)"
  shows "constraints_ok (map f t)"
proof -
  have "map job_id (map f t) = map job_id t" "map job_idempotency_key (map f t) = map job_idempotency_key t"
    using assms(2) by auto
  moreover have "distinct (index_entries (map f t))"
    using index_entries_fewer [of t f] assms by (simp add: constraints_ok_def)
  ultimately show ?thesis using assms(1) by (simp only: constraints_ok_def)
qed

lemma put_row_as_map:
  assumes "distinct (map job_id t)" "get_row job_id t (job_id j) = Some k"
  shows "put_row job_id j t = map (\<lambda>x. if x = k then j else x) t"
proof -
  have "x = k \<longleftrightarrow> job_id x = job_id j" if "x \<in> set t" for x
    using get_row_member [OF assms(1) that] assms(2) get_row_SomeD [OF assms(2)] by auto
  then show ?thesis by (simp add: put_row_def)
qed

lemma constraints_put:
  assumes "constraints_ok t" "get_row job_id t (job_id k) = Some k"
    and "job_id j = job_id k" "job_idempotency_key j = job_idempotency_key k"
    and "index_key j = index_key k \<or> index_key j = None"
  shows "constraints_ok (put_row job_id j t)"
proof -
  have "put_row job_id j t = map (\<lambda>x. if x = k then j else x) t"
    using assms by (intro put_row_as_map) (auto simp: constraints_ok_def)
  then show ?thesis using assms by (auto intro!: constraints_map split: if_splits)
qed

lemma find_active_SomeD:
  "find_active_for_target jt f e t = Some j \<Longrightarrow> j \<in> set t \<and> job_type j = jt \<and> is_active j \<and>
     (if jt \<in> {INGEST_EMAIL, CLASSIFY_EMAIL} then job_email_id j = e else job_folder_id j = f)"
  by (auto simp: find_active_for_target_def find_Some_iff split: if_splits)

lemma find_active_indexed:
  assumes "j \<in> set t" "index_key j = Some (jt, u)"
  shows "find_active_for_target jt f e t \<noteq> None \<or>
     (jt = SYNC_FOLDER \<and> f \<noteq> Some u) \<or> (jt \<noteq> SYNC_FOLDER \<and> e \<noteq> Some u)"
  using assms
  by (cases "job_type j")
    (auto simp: index_key_def find_active_for_target_def COALESCED_BY_FOLDER_def find_None_iff
       split: if_splits)

lemma new_job_simps [simp]:
  "job_id (new_job now i rq) = i" "job_idempotency_key (new_job now i rq) = eq_idempotency_key rq"
  "job_type (new_job now i rq) = eq_job_type rq" "job_status (new_job now i rq) = PENDING"
  "job_folder_id (new_job now i rq) = eq_folder_id rq" "job_email_id (new_job now i rq) = eq_email_id rq"
  by (simp_all add: new_job_def)

text \<open>An insert with a fresh primary key is refused only because of the idempotency key or of
  an active row for the same target.\<close>

lemma insert_refused:
  assumes ok: "constraints_ok t" and i: "i \<notin> job_id ` set t"
    and "\<not> constraints_ok (t @ [new_job now i rq])" and k: "find_key (eq_idempotency_key rq) t = None"
  shows "find_active_for_target (eq_job_type rq) (eq_folder_id rq) (eq_email_id rq) t \<noteq> None"
proof -
  let ?j = "new_job now i rq"
  have "eq_idempotency_key rq \<notin> job_idempotency_key ` set t"
    using k by (simp add: find_key_def get_row_None_iff)
  with assms have "\<not> distinct (index_entries (t @ [?j]))" by (auto simp: constraints_ok_def)
  then obtain kk where kk: "index_key ?j = Some kk" "kk \<in> set (index_entries t)"
    using ok by (auto simp: constraints_ok_def index_entries_def map_filter_append map_filter_simps
        split: option.splits)
  then obtain x where x: "x \<in> set t" "index_key x = Some kk" by (auto simp: set_index_entries)
  obtain u where u: "kk = (eq_job_type rq, u)"
    using kk(1) by (auto simp: index_key_def split: if_splits JobType.splits)
  show ?thesis
    using find_active_indexed [OF x(1), of "eq_job_type rq" u "eq_folder_id rq" "eq_email_id rq"] x(2) kk(1) u
    by (auto simp: index_key_def split: if_splits JobType.splits)
qed

lemma coalesce_simps [simp]:
  "job_id (coalesce_into r p j) = job_id j"
  "job_idempotency_key (coalesce_into r p j) = job_idempotency_key j"
  "job_type (coalesce_into r p j) = job_type j" "job_status (coalesce_into r p j) = job_status j"
  "job_folder_id (coalesce_into r p j) = job_folder_id j" "job_email_id (coalesce_into r p j) = job_email_id j"
  "job_priority (coalesce_into r p j) = min p (job_priority j)"
  "job_attempts (coalesce_into r p j) = job_attempts j"
  "job_max_attempts (coalesce_into r p j) = job_max_attempts j"
  "job_lease_owner (coalesce_into r p j) = job_lease_owner j"
  "job_lease_expires_at (coalesce_into r p j) = job_lease_expires_at j"
  "job_started_at (coalesce_into r p j) = job_started_at j"
  "job_completed_at (coalesce_into r p j) = job_completed_at j"
  by (auto simp: coalesce_into_def Let_def split: option.splits list.splits)

lemma coalesce_index [simp]:
  "index_key (coalesce_into r p j) = index_key j" "is_active (coalesce_into r p j) = is_active j"
  by (cases "job_type j"; simp add: index_key_def is_active_def)+

subsection \<open>Enqueue never fails and never duplicates\<close>

definition request_served :: "enqueue_request \<Rightarrow> EnqueueResult \<Rightarrow> job_table \<Rightarrow> bool" where
  "request_served rq r t \<longleftrightarrow>
     er_job r \<in> set t \<and>
     (if er_coalesced r
      then er_job r \<in> {j. job_type j = eq_job_type rq \<and> is_active j \<and> job_priority j \<le> eq_priority rq \<and>
             (if eq_job_type rq \<in> {INGEST_EMAIL, CLASSIFY_EMAIL} then job_email_id j = eq_email_id rq
              else job_folder_id j = eq_folder_id rq)}
      else job_idempotency_key (er_job r) = eq_idempotency_key rq)"

lemma coalesce_served:
  assumes ok: "constraints_ok t" and j: "j \<in> set t"
    and f: "find_active_for_target (eq_job_type rq) (eq_folder_id rq) (eq_email_id rq) s = Some j"
  defines "j' \<equiv> coalesce_into (eq_reason rq) (eq_priority rq) j"
  shows "constraints_ok (put_row job_id j' t)" "map job_id (put_row job_id j' t) = map job_id t"
    "request_served rq \<lparr>er_job = j', er_created = False, er_coalesced = True\<rparr> (put_row job_id j' t)"
proof -
  have g: "get_row job_id t (job_id j) = Some j"
    using ok j get_row_member by (auto simp: constraints_ok_def)
  show "constraints_ok (put_row job_id j' t)"
    by (rule constraints_put [OF ok g]) (simp_all add: j'_def)
  show "map job_id (put_row job_id j' t) = map job_id t" by simp
  have "get_row job_id (put_row job_id j' t) (job_id j) = Some j'" by (simp add: get_put_row g j'_def)
  then have "j' \<in> set (put_row job_id j' t)" using get_row_SomeD by metis
  then show "request_served rq \<lparr>er_job = j', er_created = False, er_coalesced = True\<rparr> (put_row job_id j' t)"
    using find_active_SomeD [OF f] by (auto simp: request_served_def j'_def)
qed

lemma find_key_SomeD: "find_key k t = Some j \<Longrightarrow> j \<in> set t \<and> job_idempotency_key j = k"
  unfolding find_key_def by (rule get_row_SomeD)

lemma enqueue_outcome:
  assumes ok: "constraints_ok t" and i: "i \<notin> job_id ` set t" and sub: "set t0 \<subseteq> set t"
  shows "\<exists>r t'. enqueue now i rq t0 t = Inr (r, t') \<and> constraints_ok t' \<and> request_served rq r t' \<and>
     (if er_created r then t' = t @ [new_job now i rq] \<and> er_job r = new_job now i rq
      else map job_id t' = map job_id t)"
proof (cases "find_key (eq_idempotency_key rq) t0")
  case (Some j)
  then have "j \<in> set t" "job_idempotency_key j = eq_idempotency_key rq" using find_key_SomeD sub by blast+
  then show ?thesis using Some ok by (simp add: enqueue_def Let_def request_served_def)
next
  case None
  let ?act = "find_active_for_target (eq_job_type rq) (eq_folder_id rq) (eq_email_id rq)"
  show ?thesis
  proof (cases "?act t0")
    case (Some j)
    then have "j \<in> set t" using find_active_SomeD sub by blast
    with coalesce_served [OF ok this Some] None Some show ?thesis by (simp add: enqueue_def Let_def)
  next
    case none: None
    show ?thesis
    proof (cases "constraints_ok (t @ [new_job now i rq])")
      case True
      then show ?thesis using None none by (simp add: enqueue_def Let_def request_served_def)
    next
      case refused: False
      show ?thesis
      proof (cases "find_key (eq_idempotency_key rq) t")
        case (Some w)
        with find_key_SomeD [OF Some] None none refused ok show ?thesis
          by (simp add: enqueue_def Let_def request_served_def)
      next
        case nokey: None
        then obtain j where j: "?act t = Some j" using insert_refused [OF ok i refused] by blast
        then have "j \<in> set t" using find_active_SomeD by blast
        with coalesce_served [OF ok this j] None none refused nokey j show ?thesis
          by (simp add: enqueue_def Let_def)
      qed
    qed
  qed
qed

lemma enqueue_again:
  assumes "enqueue now i rq t t = Inr (r, t')" "er_created r"
  shows "enqueue now' i' (rq\<lparr>eq_reason := r', eq_priority := p'\<rparr>) t' t' =
     Inr (\<lparr>er_job = er_job r, er_created = False, er_coalesced = False\<rparr>, t')"
proof -
  from assms have k: "find_key (eq_idempotency_key rq) t = None" and
    t': "t' = t @ [new_job now i rq]" "er_job r = new_job now i rq"
    by (auto simp: enqueue_def Let_def split: option.splits if_splits)
  then have "find_key (eq_idempotency_key rq) t' = Some (new_job now i rq)"
    by (simp add: find_key_def get_row_append)
  then show ?thesis by (simp add: enqueue_def Let_def t'(2))
qed

subsection \<open>Claiming\<close>

interpretation claims: rule_resolution "claimable now types locked" claim_key "claim_order now types locked"
  for now types locked
  by unfold_locales (simp add: claim_order_def)

lemma start_job_simps [simp]:
  "job_id (start_job now w l j) = job_id j" "job_status (start_job now w l j) = RUNNING"
  "job_idempotency_key (start_job now w l j) = job_idempotency_key j"
  "job_attempts (start_job now w l j) = job_attempts j + 1"
  "job_lease_owner (start_job now w l j) = Some w"
  "job_type (start_job now w l j) = job_type j" "job_email_id (start_job now w l j) = job_email_id j"
  "job_folder_id (start_job now w l j) = job_folder_id j"
  "job_completed_at (start_job now w l j) = job_completed_at j"
  "job_max_attempts (start_job now w l j) = job_max_attempts j"
  by (simp_all add: start_job_def)

lemma claim_next_Some:
  assumes "claim_next now w l types locked t = Inr (Some j', t')"
  obtains j where "j \<in> set t" "claimable now types locked j" "j' = start_job now w l j"
    "t' = put_row job_id j' t" "constraints_ok t'"
    "\<And>k. k \<in> set t \<Longrightarrow> claimable now types locked k \<Longrightarrow> claim_key j \<le> claim_key k"
proof (cases "claim_order now types locked t")
  case Nil
  with assms that show thesis by (simp add: claim_next_def)
next
  case (Cons j js)
  then have hd: "hd (claim_order now types locked t) = j" "claim_order now types locked t \<noteq> []" by simp_all
  show thesis
  proof (rule that [of j])
    show "j \<in> set t" "claimable now types locked j"
      using claims.hd_resolve_applicable [OF hd(2)] hd(1) by auto
    show "claim_key j \<le> claim_key k" if "k \<in> set t" "claimable now types locked k" for k
      using claims.hd_resolve_minimal [OF that] hd(1) by simp
  qed (use assms Cons in \<open>auto simp: claim_next_def Let_def split: if_splits\<close>)
qed

lemma claim_next_None:
  "claim_next now w l types locked t = Inr (None, t') \<longleftrightarrow>
     t' = t \<and> (\<forall>j \<in> set t. \<not> claimable now types locked j)"
  using claims.resolve_Nil_iff [of now types locked t]
  by (auto simp: claim_next_def Let_def split: list.splits)

subsection \<open>The invariant of the table\<close>

definition wf_job :: "job \<Rightarrow> bool" where
  "wf_job j \<longleftrightarrow>
     (job_status j = RUNNING \<longleftrightarrow> job_lease_owner j \<noteq> None) \<and>
     (job_lease_owner j \<noteq> None \<longleftrightarrow> job_lease_expires_at j \<noteq> None) \<and>
     (job_completed_at j \<noteq> None \<longleftrightarrow> job_status j = COMPLETED \<or> job_status j = FAILED_REVIEW) \<and>
     0 \<le> job_attempts j \<and>
     (job_status j = RUNNING \<longrightarrow> 1 \<le> job_attempts j) \<and>
     (job_status j = FAILED_RETRYABLE \<longrightarrow> job_attempts j < job_max_attempts j)"

definition job_inv :: "job_db \<Rightarrow> bool" where
  "job_inv db \<longleftrightarrow> constraints_ok (jobs db) \<and> list_all wf_job (jobs db)"

definition job_init :: "job_db \<Rightarrow> bool" where
  "job_init db \<longleftrightarrow> jobs db = []"

text \<open>
  One step is one committed transaction. A worker reports the outcome of a job it is running;
  the row it writes is the row it claimed.
\<close>

inductive job_step :: "job_db \<Rightarrow> job_db \<Rightarrow> bool" where
  step_enqueue: "enqueue now i rq (jobs db) (jobs db) = Inr (r, t') \<Longrightarrow> i \<notin> job_id ` set (jobs db) \<Longrightarrow>
     job_step db (db\<lparr>jobs := t'\<rparr>)"
| step_claim: "claim_next now w l types locked (jobs db) = Inr (r, t') \<Longrightarrow> job_step db (db\<lparr>jobs := t'\<rparr>)"
| step_extend: "extend_lease now i w l (jobs db) = (ok, t') \<Longrightarrow> job_step db (db\<lparr>jobs := t'\<rparr>)"
| step_complete: "j \<in> set (jobs db) \<Longrightarrow> job_status j = RUNNING \<Longrightarrow>
     job_step db (db\<lparr>jobs := mark_completed now j (jobs db)\<rparr>)"
| step_fail: "j \<in> set (jobs db) \<Longrightarrow> job_status j = RUNNING \<Longrightarrow>
     record_failure uniform now base_s max_s code msg retryable j db = Inr db' \<Longrightarrow> job_step db db'"
| step_recover: "recover_expired_leases now (jobs db) = (n, t') \<Longrightarrow> job_step db (db\<lparr>jobs := t'\<rparr>)"

lemma job_inv_put:
  assumes inv: "job_inv db" and j: "j \<in> set (jobs db)"
    and j': "job_id j' = job_id j" "job_idempotency_key j' = job_idempotency_key j"
      "index_key j' = index_key j \<or> index_key j' = None" "wf_job j'"
    and db': "jobs db' = put_row job_id j' (jobs db)"
  shows "job_inv db'"
proof -
  have "get_row job_id (jobs db) (job_id j) = Some j"
    using inv j get_row_member by (auto simp: job_inv_def constraints_ok_def)
  then have "constraints_ok (put_row job_id j' (jobs db))"
    using constraints_put [of "jobs db" j j'] inv j' by (simp add: job_inv_def)
  moreover have "wf_job x" if "x \<in> set (put_row job_id j' (jobs db))" for x
    using set_put_row [OF that] inv j'(4) by (auto simp: job_inv_def list_all_iff)
  ultimately show ?thesis by (simp add: job_inv_def db' list_all_iff)
qed

lemma job_inv_map:
  assumes "job_inv db" and "jobs db' = map f (jobs db)"
    and "\<And>j. wf_job j \<Longrightarrow> wf_job (f j) \<and> job_id (f j) = job_id j \<and>
           job_idempotency_key (f j) = job_idempotency_key j \<and> index_key (f j) = index_key j"
  shows "job_inv db'"
  using assms constraints_map [of "jobs db" f] by (auto simp: job_inv_def list_all_iff)

lemma wf_new_job: "wf_job (new_job now i rq)"
  by (simp add: wf_job_def new_job_def)

lemma enqueue_inv:
  assumes inv: "job_inv db" and e: "enqueue now i rq (jobs db) (jobs db) = Inr (r, t')"
    and i: "i \<notin> job_id ` set (jobs db)"
  shows "job_inv (db\<lparr>jobs := t'\<rparr>)"
proof -
  have ok: "constraints_ok t'"
    using enqueue_outcome [of "jobs db" i "jobs db" now rq] inv i e by (auto simp: job_inv_def)
  have "t' = jobs db \<or> t' = jobs db @ [new_job now i rq] \<or>
      (\<exists>j \<in> set (jobs db). t' = put_row job_id (coalesce_into (eq_reason rq) (eq_priority rq) j) (jobs db))"
    using e find_active_SomeD
    by (auto simp: enqueue_def Let_def split: option.splits if_splits)
  then have "list_all wf_job t'"
  proof (elim disjE bexE)
    fix j assume j: "j \<in> set (jobs db)"
      and t': "t' = put_row job_id (coalesce_into (eq_reason rq) (eq_priority rq) j) (jobs db)"
    have "wf_job j" using j inv by (simp add: job_inv_def list_all_iff)
    then have "wf_job (coalesce_into (eq_reason rq) (eq_priority rq) j)" by (simp add: wf_job_def)
    then show ?thesis using set_put_row [of _ job_id "coalesce_into (eq_reason rq) (eq_priority rq) j"] inv
      unfolding t' list_all_iff job_inv_def by metis
  qed (use inv wf_new_job in \<open>auto simp: job_inv_def\<close>)
  with ok show ?thesis by (simp add: job_inv_def)
qed

lemma claim_inv:
  assumes inv: "job_inv db" and c: "claim_next now w l types locked (jobs db) = Inr (r, t')"
  shows "job_inv (db\<lparr>jobs := t'\<rparr>)"
proof (cases r)
  case None
  with c inv claim_next_None show ?thesis by (metis (full_types) job_db.surjective job_db.update_convs(1))
next
  case (Some j')
  show ?thesis
  proof (rule claim_next_Some [OF c [unfolded Some]])
    fix j assume j: "j \<in> set (jobs db)" "claimable now types locked j" "j' = start_job now w l j"
      and t': "t' = put_row job_id j' (jobs db)" "constraints_ok t'"
    have "wf_job j" using j inv by (simp add: job_inv_def list_all_iff)
    then have "wf_job j'" using j(2,3) by (auto simp: wf_job_def start_job_def claimable_def)
    then have "list_all wf_job t'"
      using set_put_row [of _ job_id j' "jobs db"] inv unfolding t'(1) list_all_iff job_inv_def by metis
    with t'(2) show ?thesis by (simp add: job_inv_def)
  qed
qed

lemma inactive_no_index: "\<not> is_active j \<Longrightarrow> index_key j = None"
  by (simp add: index_key_def)

lemma fail_inv:
  assumes inv: "job_inv db" and j: "j \<in> set (jobs db)" "job_status j = RUNNING"
    and f: "record_failure uniform now base_s max_s code msg retryable j db = Inr db'"
  shows "job_inv db'"
proof -
  have wf: "wf_job j" using j inv by (simp add: job_inv_def list_all_iff)
  show ?thesis
  proof (cases "retryable \<and> job_attempts j < job_max_attempts j")
    case True
    then have "jobs db' = put_row job_id
        (retryable_job now (backoff_delay uniform (job_attempts j) base_s max_s None) code msg j) (jobs db)"
      using f by (auto simp: record_failure_def mark_retryable_failure_def)
    then show ?thesis
      by (rule job_inv_put [OF inv j(1), rotated 4])
        (use wf j True in \<open>auto simp: wf_job_def retryable_job_def is_active_def ACTIVE_JOB_STATUSES_def
           intro!: inactive_no_index\<close>)
  next
    case False
    then obtain fc where "jobs db' = put_row job_id (review_job now fc msg j) (jobs db)"
      using f by (auto simp: record_failure_def mark_review_failure_def Let_def split: if_splits)
    then show ?thesis
      by (rule job_inv_put [OF inv j(1), rotated 4])
        (use wf j in \<open>auto simp: wf_job_def review_job_def is_active_def ACTIVE_JOB_STATUSES_def
           intro!: inactive_no_index\<close>)
  qed
qed

lemma recovered_index: "job_status j = RUNNING \<Longrightarrow> index_key (recovered_job j) = index_key j"
  by (cases "job_type j") (simp_all add: index_key_def is_active_def recovered_job_def ACTIVE_JOB_STATUSES_def)

lemma extended_index: "index_key (j\<lparr>job_lease_expires_at := e\<rparr>) = index_key j"
  by (cases "job_type j") (simp_all add: index_key_def is_active_def)

lemma job_step_inv: "job_step db db' \<Longrightarrow> job_inv db \<Longrightarrow> job_inv db'"
proof (induction rule: job_step.induct)
  case (step_extend now i w l db ok t')
  show ?case
    by (rule job_inv_map [where f = "\<lambda>j. if job_id j = i \<and> job_lease_owner j = Some w \<and> job_status j = RUNNING
          then j\<lparr>job_lease_expires_at := Some (now + seconds_us l)\<rparr> else j"])
      (use step_extend in \<open>auto simp: extend_lease_def Let_def wf_job_def extended_index\<close>)
next
  case (step_complete j db now)
  then have "wf_job j" by (simp add: job_inv_def list_all_iff)
  then show ?case
    by - (rule job_inv_put [of db j "completed_job now j"],
      use step_complete in \<open>auto simp: mark_completed_def completed_job_def wf_job_def is_active_def
        ACTIVE_JOB_STATUSES_def intro!: inactive_no_index\<close>)
next
  case (step_recover now db n t')
  have "wf_job j \<Longrightarrow> lease_expired now j \<Longrightarrow> wf_job (recovered_job j)" for j
    by (auto simp: wf_job_def recovered_job_def lease_expired_def)
  moreover have "job_id (recovered_job j) = job_id j" "job_idempotency_key (recovered_job j) = job_idempotency_key j" for j
    by (simp_all add: recovered_job_def)
  ultimately show ?case
    by - (rule job_inv_map [where f = "\<lambda>j. if lease_expired now j then recovered_job j else j"],
      use step_recover recovered_index in \<open>auto simp: recover_expired_leases_def lease_expired_def\<close>)
qed (blast intro: enqueue_inv claim_inv fail_inv)+

lemma job_init_inv: "job_init db \<Longrightarrow> job_inv db"
  by (simp add: job_init_def job_inv_def constraints_ok_def index_entries_def map_filter_simps)

interpretation job_sys: invariant_system job_init job_step job_inv
  by unfold_locales (blast intro: job_init_inv job_step_inv)+

subsection \<open>Properties\<close>

definition ex_request :: "string \<Rightarrow> enqueue_request" where
  "ex_request key = \<lparr>eq_job_type = INGEST_EMAIL, eq_idempotency_key = key, eq_max_attempts = 3,
     eq_mailbox_id = None, eq_folder_id = None, eq_email_id = Some 1, eq_reason = None,
     eq_payload = None, eq_priority = 100, eq_delay_seconds = 0, eq_correlation_id = None\<rparr>"




definition ex_jobs :: job_db where
  "ex_jobs = \<lparr>jobs = [new_job 0 7 (ex_request ''a'')], job_audits = [], job_outbox = []\<rparr>"

lemma ex_jobs_reach: "reach job_init job_step ex_jobs"
proof -
  let ?e = "\<lparr>jobs = [], job_audits = [], job_outbox = []\<rparr> :: job_db"
  have "enqueue 0 7 (ex_request ''a'') [] [] =
      Inr (\<lparr>er_job = new_job 0 7 (ex_request ''a''), er_created = True, er_coalesced = False\<rparr>,
           [new_job 0 7 (ex_request ''a'')])"
    by (simp add: enqueue_def Let_def find_key_def find_active_for_target_def ex_request_def)
  then have "job_step ?e ex_jobs"
    using step_enqueue [of 0 7 "ex_request ''a''" ?e] by (simp add: ex_jobs_def)
  moreover have "job_init ?e" by (simp add: job_init_def)
  ultimately show ?thesis by (blast intro: reach.intros)
qed


text \<open>C36. A successful claim returns a due job that no other due, unlocked job of the requested
  types precedes in (priority, availability, creation) order, marks it running under the
  worker's lease with one more attempt, and leaves every other row as it was; a second worker that
  claims next gets a different job.\<close>

theorem claim_is_ordered_and_exclusive:
  assumes "constraints_ok t" and "claim_next now w l types locked t = Inr (Some j', t')"
  shows "(\<exists>j \<in> set t. claimable now types locked j \<and> j' = start_job now w l j \<and>
        (\<forall>k \<in> set t. claimable now types locked k \<longrightarrow> claim_key j \<le> claim_key k)) \<and>
     (\<forall>i. i \<noteq> job_id j' \<longrightarrow> get_row job_id t' i = get_row job_id t i) \<and>
     get_row job_id t' (job_id j') = Some j' \<and>
     (\<forall>now2 w2 l2 types2 locked2 k t''.
        claim_next now2 w2 l2 types2 locked2 t' = Inr (Some k, t'') \<longrightarrow> job_id k \<noteq> job_id j')"
  using assms(2)
proof (rule claim_next_Some)
  fix j
  assume j: "j \<in> set t" "claimable now types locked j" "j' = start_job now w l j"
    and t': "t' = put_row job_id j' t" "constraints_ok t'"
    and min: "\<And>k. k \<in> set t \<Longrightarrow> claimable now types locked k \<Longrightarrow> claim_key j \<le> claim_key k"
  have g: "get_row job_id t' (job_id j') = Some j'"
    using get_row_member [of job_id t j] assms(1) j by (simp add: t' get_put_row constraints_ok_def)
  have "job_id k \<noteq> job_id j'"
    if "claim_next now2 w2 l2 types2 locked2 t' = Inr (Some k, t'')" for now2 w2 l2 types2 locked2 k t''
    using that
  proof (rule claim_next_Some)
    fix k0 assume k0: "k0 \<in> set t'" "claimable now2 types2 locked2 k0" "k = start_job now2 w2 l2 k0"
    have "k0 \<noteq> j'" using k0(2) j(3) by (auto simp: claimable_def)
    moreover have "get_row job_id t' (job_id k0) = Some k0"
      using get_row_member k0(1) t'(2) by (auto simp: constraints_ok_def)
    ultimately show "job_id k \<noteq> job_id j'" using g k0(3) by auto
  qed
  then show ?thesis using j min g t'(1) by (auto simp: get_put_row)
qed

theorem claim_is_ordered_and_exclusive_witness:
  "\<exists>j' t'. claim_next 1 ''w'' 60 [] (\<lambda>_. False) (jobs ex_jobs) = Inr (Some j', t') \<and> job_id j' = 7 \<and>
     (\<forall>k t''. claim_next 2 ''v'' 60 [] (\<lambda>_. False) t' = Inr (Some k, t'') \<longrightarrow> job_id k \<noteq> 7)"
proof -
  have ok: "constraints_ok (jobs ex_jobs)" using job_sys.reach_inv [OF ex_jobs_reach] by (simp add: job_inv_def)
  have "claim_order 1 [] (\<lambda>_. False) (jobs ex_jobs) = jobs ex_jobs"
    by (simp add: claim_order_def ex_jobs_def claimable_def new_job_def ex_request_def)
  then obtain j' t' where c: "claim_next 1 ''w'' 60 [] (\<lambda>_. False) (jobs ex_jobs) = Inr (Some j', t')"
    "job_id j' = 7"
    by (auto simp: claim_next_def ex_jobs_def Let_def put_row_def)
  with claim_is_ordered_and_exclusive [OF ok c(1)] show ?thesis by metis
qed

text \<open>The retry policy. A retryable failure with attempts left puts the job back with a delay
  between zero and the configured maximum; any other failure parks it for review and writes
  exactly one audit and one outbox row, whose code is the error's own or that the attempts are
  exhausted. The random delay is any function that returns a value of its interval.\<close>

theorem retry_policy:
  assumes "\<forall>a b. a \<le> b \<longrightarrow> a \<le> uniform a b \<and> uniform a b \<le> b" and "0 \<le> base_s" and "0 \<le> max_s"
    and "get_row job_id (jobs db) (job_id j) = Some j"
    and "record_failure uniform now base_s max_s code msg retryable j db = Inr db'"
  shows "if retryable \<and> job_attempts j < job_max_attempts j
     then (\<exists>j'. get_row job_id (jobs db') (job_id j) = Some j' \<and> job_status j' = FAILED_RETRYABLE \<and>
             job_attempts j' = job_attempts j \<and>
             now \<le> job_available_at j' \<and> job_available_at j' \<le> now + td_seconds max_s) \<and>
          job_audits db' = job_audits db \<and> job_outbox db' = job_outbox db
     else (\<exists>j' n. get_row job_id (jobs db') (job_id j) = Some j' \<and> job_status j' = FAILED_REVIEW \<and>
             job_audits db' = job_audits db @ [n] \<and> job_outbox db' = job_outbox db @ [n] \<and>
             jn_error_code n = (if retryable then ''max_attempts_exhausted'' else code))"
proof -
  let ?m = "min (base_s * 2 ^ nat (max (job_attempts j - 1) 0)) max_s"
  let ?d = "backoff_delay uniform (job_attempts j) base_s max_s None"
  have "0 \<le> ?m" using assms(2,3) by simp
  then have "0 \<le> ?d \<and> ?d \<le> ?m" using assms(1) unfolding backoff_delay_def option.case by blast
  then have "0 \<le> ?d" "?d \<le> max_s" by simp_all
  then have d: "0 \<le> td_seconds ?d" "td_seconds ?d \<le> td_seconds max_s"
    using td_seconds_mono [of 0 ?d] td_seconds_mono [of ?d max_s] by simp_all
  show ?thesis using assms(4,5) d
    by (auto simp: record_failure_def mark_retryable_failure_def mark_review_failure_def get_put_row
        retryable_job_def review_job_def Let_def split: if_splits)
qed

theorem retry_policy_witness:
  "\<exists>db' j'. record_failure (\<lambda>a b. (a + b) / 2) 9 2 60 ''c'' ''m'' True
     (new_job 0 7 (ex_request ''a'')) ex_jobs = Inr db' \<and>
     get_row job_id (jobs db') 7 = Some j' \<and> job_status j' = FAILED_RETRYABLE"
proof -
  let ?j = "new_job 0 7 (ex_request ''a'')"
  have lt: "job_attempts ?j < job_max_attempts ?j" by (simp add: new_job_def ex_request_def)
  then obtain db' where r: "record_failure (\<lambda>a b. (a + b) / 2) 9 2 60 ''c'' ''m'' True ?j ex_jobs = Inr db'"
    by (simp add: record_failure_def)
  have u: "\<forall>a b :: rat. a \<le> b \<longrightarrow> a \<le> (a + b) / 2 \<and> (a + b) / 2 \<le> b" by simp
  have g: "get_row job_id (jobs ex_jobs) (job_id ?j) = Some ?j" by (simp add: ex_jobs_def)
  have "0 \<le> (2::rat)" "0 \<le> (60::rat)" by simp_all
  from retry_policy [OF u this g r] lt r show ?thesis by auto
qed

text \<open>A retry can be superseded and then blocks the queue: while an ingestion waits for its
  retry, a second one for the same email may be enqueued, because the waiting row is not active.
  Once the retry is due it comes first, and its claim violates the unique index on every attempt,
  although the other job is due as well.\<close>

theorem superseded_retry_blocks_claims:
  "\<exists>db j. reach job_init job_step db \<and> j \<in> set (jobs db) \<and> claimable 100 [] (\<lambda>_. False) j \<and>
     job_status j = PENDING \<and> (\<forall>w l. claim_next 100 w l [] (\<lambda>_. False) (jobs db) = Inl IntegrityError)"
proof -
  let ?a = "new_job 0 7 (ex_request ''a'')" and ?b = "new_job 10 8 (ex_request ''b'')"
  let ?r = "start_job 1 ''w'' 60 ?a"
  let ?f = "retryable_job 2 0 ''c'' ''m'' ?r"
  let ?u = "\<lambda>(a::rat) b. a"
  note ev = ex_request_def new_job_def
  have c: "claim_next 1 ''w'' 60 [] (\<lambda>_. False) (jobs ex_jobs) = Inr (Some ?r, [?r])"
    by (simp add: claim_next_def claim_order_def claimable_def ex_jobs_def put_row_def Let_def ev)
  have s1: "job_step ex_jobs (ex_jobs\<lparr>jobs := [?r]\<rparr>)" by (rule step_claim [OF c])
  have f: "record_failure ?u 2 1 60 ''c'' ''m'' True ?r (ex_jobs\<lparr>jobs := [?r]\<rparr>) =
      Inr (ex_jobs\<lparr>jobs := [?f]\<rparr>)"
    by (simp add: record_failure_def mark_retryable_failure_def backoff_delay_def put_row_def
        retryable_job_def start_job_def ev)
  have s2: "job_step (ex_jobs\<lparr>jobs := [?r]\<rparr>) (ex_jobs\<lparr>jobs := [?f]\<rparr>)"
    by (rule step_fail [OF _ _ f]) simp_all
  have "constraints_ok [?f, ?b]"
    by (simp add: constraints_ok_def index_entries_def map_filter_simps index_key_def is_active_def
        ACTIVE_JOB_STATUSES_def retryable_job_def start_job_def ev)
  then have e: "enqueue 10 8 (ex_request ''b'') (jobs (ex_jobs\<lparr>jobs := [?f]\<rparr>)) (jobs (ex_jobs\<lparr>jobs := [?f]\<rparr>)) =
      Inr (\<lparr>er_job = ?b, er_created = True, er_coalesced = False\<rparr>, [?f, ?b])"
    by (simp add: enqueue_def Let_def find_key_def find_active_for_target_def is_active_def
        ACTIVE_JOB_STATUSES_def retryable_job_def start_job_def ev)
  have s3: "job_step (ex_jobs\<lparr>jobs := [?f]\<rparr>) (ex_jobs\<lparr>jobs := [?f, ?b]\<rparr>)"
    using step_enqueue [OF e] by (simp add: retryable_job_def start_job_def)
  have r: "reach job_init job_step (ex_jobs\<lparr>jobs := [?f, ?b]\<rparr>)"
    using ex_jobs_reach s1 s2 s3 by (blast intro: reach_step)
  have "claim_next 100 w l [] (\<lambda>_. False) [?f, ?b] = Inl IntegrityError" for w l
    by (simp add: claim_next_def claim_order_def claimable_def claim_key_def put_row_def Let_def
        constraints_ok_def index_entries_def map_filter_simps index_key_def is_active_def
        ACTIVE_JOB_STATUSES_def retryable_job_def start_job_def ev)
  moreover have "claimable 100 [] (\<lambda>_. False) ?b" by (simp add: claimable_def ev)
  ultimately show ?thesis using r by (intro exI [of _ "ex_jobs\<lparr>jobs := [?f, ?b]\<rparr>"] exI [of _ ?b]) simp
qed

text \<open>The synchronisation lease excludes: while the lease a worker acquired has not expired,
  another worker's attempt on the same folder fails and changes nothing, and once the holder has
  released it, it succeeds.\<close>

theorem sync_lease_excludes:
  assumes "acquire_sync_lease now i a lease_seconds ss = (True, ss')" and "distinct (map ss_id ss)"
    and "b \<noteq> a" and "now2 \<le> now + seconds_us lease_seconds"
  shows "acquire_sync_lease now2 i b l2 ss' = (False, ss') \<and>
     fst (acquire_sync_lease now2 i b l2 (release_sync_lease i a ss'))"
proof -
  from assms(1) obtain s where s: "s \<in> set ss" "ss_id s = i" "lease_free now a s"
    by (auto simp: acquire_sync_lease_def Let_def list_ex_iff)
  have one: "x = s" if "x \<in> set ss" "ss_id x = i" for x
    using that s assms(2) by (metis distinct_map inj_onD)
  define f where "f = (\<lambda>y. if ss_id y = i \<and> lease_free now a y then y\<lparr>ss_lease_owner := Some a,
      ss_lease_expires_at := Some (now + seconds_us lease_seconds)\<rparr> else y)"
  have ss': "ss' = map f ss" using assms(1) by (simp add: acquire_sync_lease_def Let_def f_def)
  have f_id: "ss_id (f y) = ss_id y" for y by (simp add: f_def)
  have held: "ss_lease_owner x = Some a \<and> ss_lease_expires_at x = Some (now + seconds_us lease_seconds)"
    if x: "x \<in> set ss'" "ss_id x = i" for x
  proof -
    obtain y where y: "y \<in> set ss" "x = f y" using x(1) ss' by auto
    then have "y = s" using one f_id x(2) by metis
    then show ?thesis using y(2) s by (simp add: f_def)
  qed
  have mem: "\<exists>x \<in> set ss'. ss_id x = i"
    using s f_id by (force simp: ss')
  have "\<not> (ss_id x = i \<and> lease_free now2 b x)" if "x \<in> set ss'" for x
    using held [OF that] assms(3,4) by (auto simp: lease_free_def)
  then have "acquire_sync_lease now2 i b l2 ss' = (False, ss')"
    unfolding acquire_sync_lease_def Let_def by (auto simp: list_ex_iff) (rule map_idI, auto)
  moreover have "fst (acquire_sync_lease now2 i b l2 (release_sync_lease i a ss'))"
  proof -
    obtain x where x: "x \<in> set ss'" "ss_id x = i" using mem by blast
    let ?x = "x\<lparr>ss_lease_owner := None, ss_lease_expires_at := None\<rparr>"
    have "?x \<in> set (release_sync_lease i a ss')"
      unfolding release_sync_lease_def set_map using x held [OF x] by (intro image_eqI [of _ _ x]) auto
    then show ?thesis using x(2)
      by (auto simp: acquire_sync_lease_def Let_def list_ex_iff lease_free_def intro!: bexI [of _ ?x])
  qed
  ultimately show ?thesis by blast
qed

theorem sync_lease_excludes_witness:
  "fst (acquire_sync_lease 2 1 ''b'' 60 (snd (acquire_sync_lease 0 1 ''a'' 60
      [\<lparr>ss_id = 1, ss_lease_owner = None, ss_lease_expires_at = None\<rparr>]))) = False"
proof -
  let ?s = "[\<lparr>ss_id = 1, ss_lease_owner = None, ss_lease_expires_at = None\<rparr>] :: sync_state list"
  have "acquire_sync_lease 0 1 ''a'' 60 ?s = (True, snd (acquire_sync_lease 0 1 ''a'' 60 ?s))"
    by (simp add: acquire_sync_lease_def Let_def lease_free_def)
  from sync_lease_excludes [OF this, of "''b''" 2 60] show ?thesis by (simp add: seconds_us_def)
qed

end
