(* ===== verification/Conditions.thy ===== *)
theory Conditions
  imports Py_Json Py_Text
begin

text \<open>
  The constrained rule language of \<^verbatim>\<open>app/requirements/conditions.py\<close>: validation of a
  JSON condition, the fact paths it references, the lookup of a dotted path, and evaluation in
  three-valued logic with a trace of the facts consulted. Strings are ASCII, so that
  \<^verbatim>\<open>casefold\<close> is lowering. The regular expression engine and \<^verbatim>\<open>str\<close> of a float, a
  list or a dict are parameters.
\<close>

subsection \<open>Vocabulary\<close>

definition MAX_DEPTH :: int where
  "MAX_DEPTH = 12"

definition MAX_NODES :: int where
  "MAX_NODES = 400"

datatype Truth = TRUE | FALSE | UNKNOWN

definition LOGICAL_KEYS :: "string list" where
  "LOGICAL_KEYS = [''all'', ''any'', ''none'', ''not'']"

text \<open>Every operator with whether it requires a value.\<close>

definition OPERATORS :: "(string \<times> bool) list" where
  "OPERATORS =
     [(''eq'', True), (''ne'', True), (''in'', True), (''not_in'', True), (''contains'', True),
      (''not_contains'', True), (''contains_any'', True), (''contains_all'', True), (''gt'', True),
      (''gte'', True), (''lt'', True), (''lte'', True), (''matches'', True), (''before'', True),
      (''after'', True), (''is_true'', False), (''is_false'', False), (''is_present'', False),
      (''is_absent'', False), (''is_empty'', False), (''is_not_empty'', False)]"

datatype condition_error = RuleValidationError string | CondRaised py_error

text \<open>The facts a rule consulted: \<^verbatim>\<open>facts_used\<close> is a dict, \<^verbatim>\<open>missing_facts\<close> a list
  without repetition.\<close>

record EvaluationTrace =
  facts_used :: jdict
  missing_facts :: "string list"

definition empty_trace :: EvaluationTrace where
  "empty_trace = \<lparr>facts_used = [], missing_facts = []\<rparr>"

definition note_used :: "string \<Rightarrow> json \<Rightarrow> EvaluationTrace \<Rightarrow> EvaluationTrace" where
  "note_used path v tr = tr\<lparr>facts_used := jset (facts_used tr) path v\<rparr>"

definition note_missing :: "string \<Rightarrow> EvaluationTrace \<Rightarrow> EvaluationTrace" where
  "note_missing path tr =
     (if path \<in> set (missing_facts tr) then tr
      else tr\<lparr>missing_facts := missing_facts tr @ [path]\<rparr>)"

record rule_lib =
  re_search :: "string \<Rightarrow> string \<Rightarrow> bool \<Rightarrow> bool"
  re_compiles :: "string \<Rightarrow> bool"
  str_other :: "json \<Rightarrow> string"

definition py_str :: "rule_lib \<Rightarrow> json \<Rightarrow> string" where
  "py_str lib j =
     (case j of
        JStr s \<Rightarrow> s
      | JNull \<Rightarrow> ''None''
      | JBool b \<Rightarrow> (if b then ''True'' else ''False'')
      | JInt n \<Rightarrow> str_int n
      | _ \<Rightarrow> str_other lib j)"

subsection \<open>Fact paths\<close>

definition is_lower :: "char \<Rightarrow> bool" where
  "is_lower c \<longleftrightarrow> 97 \<le> (of_char c :: nat) \<and> (of_char c :: nat) \<le> 122"

definition is_digit :: "char \<Rightarrow> bool" where
  "is_digit c \<longleftrightarrow> 48 \<le> (of_char c :: nat) \<and> (of_char c :: nat) \<le> 57"

text \<open>\<^verbatim>\<open>path.split(".")\<close>: never empty.\<close>

fun split_dots :: "string \<Rightarrow> string list" where
  "split_dots [] = [[]]"
| "split_dots (c # cs) =
     (if c = CHR ''.'' then [] # split_dots cs
      else (case split_dots cs of [] \<Rightarrow> [[c]] | s # ss \<Rightarrow> (c # s) # ss))"

definition segment_ok :: "string \<Rightarrow> bool" where
  "segment_ok s = (case s of [] \<Rightarrow> False
     | c # cs \<Rightarrow> is_lower c \<and> list_all (\<lambda>d. is_lower d \<or> is_digit d \<or> d = CHR ''_'') cs)"

text \<open>The pattern's \<^verbatim>\<open>$\<close> also matches before a final newline.\<close>

definition fact_path_ok :: "string \<Rightarrow> bool" where
  "fact_path_ok s \<longleftrightarrow>
     list_all segment_ok (split_dots s) \<or>
     (s \<noteq> [] \<and> last s = CHR 0x0A \<and> list_all segment_ok (split_dots (butlast s)))"

fun resolve_segments :: "json \<Rightarrow> string list \<Rightarrow> json option" where
  "resolve_segments cur [] = Some cur"
| "resolve_segments cur (seg # segs) =
     (case cur of
        JObj d \<Rightarrow> (case jget d seg of None \<Rightarrow> None | Some v \<Rightarrow> resolve_segments v segs)
      | _ \<Rightarrow> None)"

text \<open>\<^verbatim>\<open>resolve_fact\<close> returns \<^verbatim>\<open>(False, None)\<close> for an absent path.\<close>

definition resolve_fact :: "jdict \<Rightarrow> string \<Rightarrow> bool \<times> json" where
  "resolve_fact facts path =
     (case resolve_segments (JObj facts) (split_dots path) of
        None \<Rightarrow> (False, JNull) | Some v \<Rightarrow> (True, v))"

subsection \<open>Validation\<close>

definition logical_key :: "jdict \<Rightarrow> string option" where
  "logical_key d = find (\<lambda>k. k \<in> set LOGICAL_KEYS) (map fst d)"

definition hashable :: "json \<Rightarrow> bool" where
  "hashable j = (case j of JList _ \<Rightarrow> False | JObj _ \<Rightarrow> False | _ \<Rightarrow> True)"

definition rule_error :: "string \<Rightarrow> condition_error + 'a" where
  "rule_error msg = Inl (RuleValidationError msg)"

text \<open>The checks of a comparison node.\<close>

definition validate_comparison :: "rule_lib \<Rightarrow> jdict \<Rightarrow> condition_error + unit" where
  "validate_comparison lib d =
     (if \<not> list_all (\<lambda>k. k \<in> {''fact'', ''op'', ''value'', ''case_sensitive''}) (map fst d)
        then rule_error ''Unsupported condition keys''
      else case jget d ''fact'' of
        Some (JStr path) \<Rightarrow>
          (if \<not> fact_path_ok path then rule_error ''Fact paths must be lowercase dotted identifiers''
           else let op = jget_or d ''op'' JNull in
             if \<not> hashable op then Inl (CondRaised TypeError)
             else case (case op of JStr s \<Rightarrow> map_of OPERATORS s | _ \<Rightarrow> None) of
               None \<Rightarrow> rule_error ''Unsupported operator''
             | Some needs \<Rightarrow>
                 (if needs \<and> jget d ''value'' = None then rule_error ''Operator requires a value''
                  else if \<not> needs \<and> jget d ''value'' \<noteq> None
                    then rule_error ''Operator must not carry a value''
                  else if op \<in> {JStr ''in'', JStr ''not_in'', JStr ''contains_any'', JStr ''contains_all''} \<and>
                          (case jget_or d ''value'' JNull of JList _ \<Rightarrow> False | _ \<Rightarrow> True)
                    then rule_error ''Operator requires a list value''
                  else if op = JStr ''matches'' then
                    (case jget_or d ''value'' JNull of
                       JStr pat \<Rightarrow>
                         (if 200 < length pat then rule_error ''Regex patterns are limited to 200 characters''
                          else if \<not> re_compiles lib pat then rule_error ''Invalid regex pattern''
                          else Inr ())
                     | _ \<Rightarrow> rule_error ''Operator matches requires a string pattern'')
                  else Inr ()))
      | _ \<Rightarrow> rule_error ''Fact paths must be lowercase dotted identifiers'')"

lemma size_list_snd: "(k, v) \<in> set d \<Longrightarrow> size v < Suc (size_list (size_prod (\<lambda>_. 0) size) d)"
proof -
  assume "(k, v) \<in> set d"
  then have "size_prod (\<lambda>_. 0) size (k, v) \<le> size_list (size_prod (\<lambda>_. 0) size) d"
    by (simp add: size_list_estimation')
  then show ?thesis by simp
qed

lemma jget_size [termination_simp]:
  "jget d k = Some v \<Longrightarrow> size v < Suc (size_list (size_prod (\<lambda>_. 0) size) d)"
  using size_list_snd map_of_SomeD unfolding jget_def by fastforce

text \<open>The node counter is threaded through the recursion.\<close>

function validate_conditions :: "rule_lib \<Rightarrow> json \<Rightarrow> int \<Rightarrow> int \<Rightarrow> condition_error + int"
and validate_list :: "rule_lib \<Rightarrow> json list \<Rightarrow> int \<Rightarrow> int \<Rightarrow> condition_error + int" where
  "validate_conditions lib node depth counter0 =
     (let counter = counter0 + 1 in
      if MAX_NODES < counter then rule_error ''Rule exceeds the maximum number of nodes''
      else if MAX_DEPTH < depth then rule_error ''Rule nests too deeply''
      else (case node of
        JObj d \<Rightarrow>
          (if d = [] then rule_error ''Condition nodes must not be empty''
           else (case logical_key d of
             Some key \<Rightarrow>
               (if length d \<noteq> 1 then rule_error ''Logical node must hold exactly one key''
                else (case jget d key of
                  None \<Rightarrow> Inl (CondRaised KeyError)
                | Some child \<Rightarrow>
                    (if key = ''not'' then validate_conditions lib child (depth + 1) counter
                     else (case child of
                       JList items \<Rightarrow>
                         (if items = [] then rule_error ''requires a non-empty list of conditions''
                          else validate_list lib items (depth + 1) counter)
                     | _ \<Rightarrow> rule_error ''requires a non-empty list of conditions''))))
           | None \<Rightarrow> bindE (validate_comparison lib d) (\<lambda>_. Inr counter)))
      | _ \<Rightarrow> rule_error ''Condition nodes must be objects''))"
| "validate_list lib [] depth counter = Inr counter"
| "validate_list lib (x # xs) depth counter =
     bindE (validate_conditions lib x depth counter) (\<lambda>c. validate_list lib xs depth c)"
  by pat_completeness auto

termination
  by (relation "measure (case_sum (\<lambda>(_, n, _, _). size n) (\<lambda>(_, xs, _, _). size_list size xs))")
    (auto dest: jget_size)

definition valid_rule :: "rule_lib \<Rightarrow> json \<Rightarrow> bool" where
  "valid_rule lib node \<longleftrightarrow> (\<exists>c. validate_conditions lib node 0 0 = Inr c)"

subsection \<open>Referenced paths\<close>

function collect_fact_paths :: "json \<Rightarrow> string list"
and collect_list :: "json list \<Rightarrow> string list" where
  "collect_fact_paths node =
     (case node of
        JObj d \<Rightarrow>
          (case logical_key d of
             Some key \<Rightarrow>
               (case jget d key of
                  None \<Rightarrow> []
                | Some child \<Rightarrow>
                    (if key = ''not'' then collect_fact_paths child
                     else (case child of JList items \<Rightarrow> collect_list items | _ \<Rightarrow> [])))
           | None \<Rightarrow> (case jget d ''fact'' of Some (JStr f) \<Rightarrow> [f] | _ \<Rightarrow> []))
      | _ \<Rightarrow> [])"
| "collect_list [] = []"
| "collect_list (x # xs) = collect_fact_paths x @ collect_list xs"
  by pat_completeness auto

termination
  by (relation "measure (case_sum size (size_list size))") (auto dest: jget_size)

subsection \<open>Comparison\<close>

definition norm :: "bool \<Rightarrow> json \<Rightarrow> json" where
  "norm case_sensitive v =
     (if \<not> case_sensitive then (case v of JStr s \<Rightarrow> JStr (lower_ascii s) | _ \<Rightarrow> v) else v)"

definition norm_seq :: "bool \<Rightarrow> json \<Rightarrow> json list" where
  "norm_seq case_sensitive v = map (norm case_sensitive) (case v of JList xs \<Rightarrow> xs | _ \<Rightarrow> [v])"

definition json_in :: "json \<Rightarrow> json list \<Rightarrow> bool" where
  "json_in x xs = list_ex (json_eq x) xs"

text \<open>
  \<^verbatim>\<open>a < b\<close> on JSON values: numbers, strings and lists are ordered (lists by the first
  elements that differ); \<^verbatim>\<open>None\<close> is the \<^verbatim>\<open>TypeError\<close> of any other pair.
\<close>

fun json_lt :: "bool \<Rightarrow> json \<Rightarrow> json \<Rightarrow> bool option"
and json_lt_list :: "bool \<Rightarrow> json list \<Rightarrow> json list \<Rightarrow> bool option" where
  "json_lt eq_ok a b =
     (case (a, b) of
        (JStr s, JStr t) \<Rightarrow> Some (s < t \<or> (eq_ok \<and> s = t))
      | (JList xs, JList ys) \<Rightarrow> json_lt_list eq_ok xs ys
      | _ \<Rightarrow> (case (num_of a, num_of b) of
               (Some p, Some q) \<Rightarrow> Some (p < q \<or> (eq_ok \<and> p = q))
             | _ \<Rightarrow> None))"
| "json_lt_list eq_ok [] ys = Some (ys \<noteq> [] \<or> eq_ok)"
| "json_lt_list eq_ok (x # xs) [] = Some False"
| "json_lt_list eq_ok (x # xs) (y # ys) =
     (if json_eq x y then json_lt_list eq_ok xs ys else json_lt eq_ok x y)"

text \<open>Operands of the ordering operators: an ISO date string is compared as a date.\<close>

definition as_date :: "json \<Rightarrow> date option" where
  "as_date v = (case v of JStr s \<Rightarrow> fromisoformat s | _ \<Rightarrow> None)"

definition ordered :: "bool \<Rightarrow> json \<Rightarrow> json \<Rightarrow> bool option" where
  "ordered eq_ok a b =
     (case (as_date a, as_date b) of
        (Some d, Some e) \<Rightarrow> Some (d < e \<or> (eq_ok \<and> d = e))
      | (None, None) \<Rightarrow> json_lt eq_ok a b
      | _ \<Rightarrow> None)"

definition truth_of :: "bool \<Rightarrow> Truth" where
  "truth_of b = (if b then TRUE else FALSE)"

definition truth_opt :: "bool option \<Rightarrow> Truth" where
  "truth_opt b = (case b of None \<Rightarrow> UNKNOWN | Some x \<Rightarrow> truth_of x)"

definition is_list :: "json \<Rightarrow> bool" where
  "is_list v = (case v of JList _ \<Rightarrow> True | _ \<Rightarrow> False)"

definition contains_present :: "bool \<Rightarrow> json \<Rightarrow> json \<Rightarrow> bool option" where
  "contains_present cs actual expected =
     (case actual of
        JList xs \<Rightarrow> Some (json_in (norm cs expected) (norm_seq cs actual))
      | _ \<Rightarrow> (case (norm cs actual, norm cs expected) of
               (JStr hay, JStr needle) \<Rightarrow> Some (is_substr needle hay)
             | _ \<Rightarrow> None))"

definition compare_op :: "rule_lib \<Rightarrow> string \<Rightarrow> json \<Rightarrow> json \<Rightarrow> bool \<Rightarrow> py_error + Truth" where
  "compare_op lib op actual expected cs =
     (if op = ''eq'' then Inr (truth_of (json_eq (norm cs actual) (norm cs expected)))
      else if op = ''ne'' then Inr (truth_of (\<not> json_eq (norm cs actual) (norm cs expected)))
      else if op = ''in'' then Inr (truth_of (json_in (norm cs actual) (norm_seq cs expected)))
      else if op = ''not_in'' then Inr (truth_of (\<not> json_in (norm cs actual) (norm_seq cs expected)))
      else if op = ''contains'' then Inr (truth_opt (contains_present cs actual expected))
      else if op = ''not_contains'' then Inr (truth_opt (map_option Not (contains_present cs actual expected)))
      else if op \<in> {''contains_any'', ''contains_all''} then
        (if \<not> is_list actual then Inr UNKNOWN
         else let haystack = norm_seq cs actual; wanted = norm_seq cs expected in
           if \<not> list_all hashable haystack \<or> \<not> list_all hashable wanted then Inl TypeError
           else if op = ''contains_any'' then Inr (truth_of (list_ex (\<lambda>h. json_in h wanted) haystack))
           else Inr (truth_of (list_all (\<lambda>w. json_in w haystack) wanted)))
      else if op \<in> {''gt'', ''after''} then Inr (truth_opt (ordered False expected actual))
      else if op = ''gte'' then Inr (truth_opt (ordered True expected actual))
      else if op \<in> {''lt'', ''before''} then Inr (truth_opt (ordered False actual expected))
      else if op = ''lte'' then Inr (truth_opt (ordered True actual expected))
      else if op = ''matches'' then
        (case actual of JStr s \<Rightarrow> Inr (truth_of (re_search lib (py_str lib expected) s cs)) | _ \<Rightarrow> Inr UNKNOWN)
      else Inr UNKNOWN)"

subsection \<open>Evaluation\<close>

definition truth_not :: "Truth \<Rightarrow> Truth" where
  "truth_not t = (case t of UNKNOWN \<Rightarrow> UNKNOWN | TRUE \<Rightarrow> FALSE | FALSE \<Rightarrow> TRUE)"

definition combine :: "string \<Rightarrow> Truth list \<Rightarrow> Truth" where
  "combine key results =
     (if key = ''all'' then
        (if FALSE \<in> set results then FALSE else if UNKNOWN \<in> set results then UNKNOWN else TRUE)
      else if key = ''any'' then
        (if TRUE \<in> set results then TRUE else if UNKNOWN \<in> set results then UNKNOWN else FALSE)
      else
        (if TRUE \<in> set results then FALSE else if UNKNOWN \<in> set results then UNKNOWN else TRUE))"

definition has_len :: "json \<Rightarrow> nat option" where
  "has_len v = (case v of JStr s \<Rightarrow> Some (length s) | JList xs \<Rightarrow> Some (length xs)
                | JObj d \<Rightarrow> Some (length d) | _ \<Rightarrow> None)"

definition eval_comparison ::
  "rule_lib \<Rightarrow> jdict \<Rightarrow> jdict \<Rightarrow> EvaluationTrace \<Rightarrow> py_error + (Truth \<times> EvaluationTrace)" where
  "eval_comparison lib node facts tr =
     (case (jget node ''fact'', jget node ''op'') of
        (Some pj, Some oj) \<Rightarrow>
          (let path = py_str lib pj; op = py_str lib oj;
               fv = resolve_fact facts path; found = fst fv; v = snd fv;
               cs = truthy (jget_or node ''case_sensitive'' (JBool False))
           in if op = ''is_present'' then
                Inr (truth_of (found \<and> v \<noteq> JNull), note_used path (if found then v else JNull) tr)
              else if op = ''is_absent'' then
                Inr (truth_of (\<not> found \<or> v = JNull), note_used path (if found then v else JNull) tr)
              else if \<not> found \<or> v = JNull then Inr (UNKNOWN, note_missing path tr)
              else
                (let tr' = note_used path v tr
                 in if op = ''is_true'' then Inr (truth_of (v = JBool True), tr')
                    else if op = ''is_false'' then Inr (truth_of (v = JBool False), tr')
                    else if op = ''is_empty'' then
                      (case has_len v of None \<Rightarrow> Inl TypeError | Some n \<Rightarrow> Inr (truth_of (n = 0), tr'))
                    else if op = ''is_not_empty'' then
                      (case has_len v of None \<Rightarrow> Inr (UNKNOWN, tr') | Some n \<Rightarrow> Inr (truth_of (0 < n), tr'))
                    else bindE (compare_op lib op v (jget_or node ''value'' JNull) cs) (\<lambda>t. Inr (t, tr'))))
      | _ \<Rightarrow> Inl KeyError)"

text \<open>
  A node that is not a dict has no \<^verbatim>\<open>keys\<close>; the children of a logical node are what
  iterating its value yields.
\<close>

function evaluate ::
  "rule_lib \<Rightarrow> jdict \<Rightarrow> json \<Rightarrow> EvaluationTrace \<Rightarrow> py_error + (Truth \<times> EvaluationTrace)"
and evaluate_list ::
  "rule_lib \<Rightarrow> jdict \<Rightarrow> json list \<Rightarrow> EvaluationTrace \<Rightarrow> py_error + (Truth list \<times> EvaluationTrace)" where
  "evaluate lib facts node tr =
     (case node of
        JObj d \<Rightarrow>
          (case logical_key d of
             None \<Rightarrow> eval_comparison lib d facts tr
           | Some key \<Rightarrow>
             (case jget d key of
                None \<Rightarrow> Inl KeyError
              | Some child \<Rightarrow>
                (if key = ''not'' then
                   bindE (evaluate lib facts child tr) (\<lambda>(t, tr'). Inr (truth_not t, tr'))
                 else case child of
                   JList items \<Rightarrow>
                     bindE (evaluate_list lib facts items tr) (\<lambda>(ts, tr'). Inr (combine key ts, tr'))
                 | JStr s \<Rightarrow> (if s = [] then Inr (combine key [], tr) else Inl AttributeError)
                 | JObj e \<Rightarrow> (if e = [] then Inr (combine key [], tr) else Inl AttributeError)
                 | _ \<Rightarrow> Inl TypeError)))
      | _ \<Rightarrow> Inl AttributeError)"
| "evaluate_list lib facts [] tr = Inr ([], tr)"
| "evaluate_list lib facts (x # xs) tr =
     bindE (evaluate lib facts x tr) (\<lambda>(t, tr1).
     bindE (evaluate_list lib facts xs tr1) (\<lambda>(ts, tr2). Inr (t # ts, tr2)))"
  by pat_completeness auto

termination
  by (relation "measure (case_sum (\<lambda>(_, _, n, _). size n) (\<lambda>(_, _, xs, _). size_list size xs))")
    (auto dest: jget_size)

declare validate_conditions.simps(1) [simp del] evaluate.simps(1) [simp del]
  collect_fact_paths.simps(1) [simp del]

subsection \<open>The structure of a rule\<close>

definition items_of :: "json \<Rightarrow> json list" where
  "items_of j = (case j of JList items \<Rightarrow> items | _ \<Rightarrow> [])"

lemma items_of_size: "x \<in> set (items_of j) \<Longrightarrow> size x < size j"
proof -
  assume "x \<in> set (items_of j)"
  then obtain items where "j = JList items" "x \<in> set items" by (cases j) (auto simp: items_of_def)
  moreover have "x \<in> set items \<Longrightarrow> size x \<le> size_list size items" by (simp add: size_list_estimation')
  ultimately show ?thesis by simp
qed

definition children :: "json \<Rightarrow> json list" where
  "children node =
     (case node of
        JObj d \<Rightarrow>
          (case logical_key d of
             None \<Rightarrow> []
           | Some key \<Rightarrow>
             (case jget d key of
                None \<Rightarrow> []
              | Some child \<Rightarrow>
                (if key = ''not'' then [child] else items_of child)))
      | _ \<Rightarrow> [])"

lemma children_cases:
  assumes x: "x \<in> set (children node)"
  obtains d key child where "node = JObj d" "logical_key d = Some key" "jget d key = Some child"
    "if key = ''not'' then x = child else x \<in> set (items_of child)"
proof -
  from x obtain d where d: "node = JObj d" by (cases node) (auto simp: children_def)
  with x obtain key where k: "logical_key d = Some key"
    by (cases "logical_key d") (auto simp: children_def)
  with x d obtain child where c: "jget d key = Some child"
    by (cases "jget d key") (auto simp: children_def)
  show thesis by (rule that [OF d k c]) (use x d k c in \<open>auto simp: children_def split: if_splits\<close>)
qed

lemma children_size [termination_simp]:
  assumes "x \<in> set (children node)"
  shows "size x < size node"
  using assms
proof (rule children_cases)
  fix d key child
  assume d: "node = JObj d" and c: "jget d key = Some child"
    and x: "if key = ''not'' then x = child else x \<in> set (items_of child)"
  have "size child < size node" using jget_size [OF c] d by simp
  then show ?thesis using x items_of_size by (fastforce split: if_splits)
qed

lemma rule_induct [case_names node]:
  assumes "\<And>node. (\<And>x. x \<in> set (children node) \<Longrightarrow> P x) \<Longrightarrow> P node"
  shows "P node"
proof (induction "size node" arbitrary: node rule: less_induct)
  case less
  then show ?case using assms children_size by blast
qed

fun rule_nodes :: "json \<Rightarrow> int" where
  "rule_nodes node = 1 + sum_list (map rule_nodes (children node))"

fun rule_height :: "json \<Rightarrow> int" where
  "rule_height node = foldr max (map (\<lambda>x. rule_height x + 1) (children node)) 0"

text \<open>Local well-formedness of a node, and of every node below it.\<close>

definition node_ok :: "rule_lib \<Rightarrow> json \<Rightarrow> bool" where
  "node_ok lib node =
     (case node of
        JObj d \<Rightarrow>
          (case logical_key d of
             Some key \<Rightarrow> length d = 1 \<and> children node \<noteq> []
           | None \<Rightarrow> d \<noteq> [] \<and> validate_comparison lib d = Inr ())
      | _ \<Rightarrow> False)"

fun rule_ok :: "rule_lib \<Rightarrow> json \<Rightarrow> bool" where
  "rule_ok lib node \<longleftrightarrow> node_ok lib node \<and> list_all (rule_ok lib) (children node)"

declare rule_nodes.simps [simp del] rule_height.simps [simp del] rule_ok.simps [simp del]

lemma foldr_max_le: "foldr max xs (0::int) \<le> b \<longleftrightarrow> 0 \<le> b \<and> (\<forall>x \<in> set xs. x \<le> b)"
  by (induction xs) auto

lemma rule_nodes_pos: "1 \<le> rule_nodes node"
proof (induction node rule: rule_induct)
  case (node node)
  have "(\<And>x. x \<in> set xs \<Longrightarrow> 1 \<le> rule_nodes x) \<Longrightarrow> 0 \<le> sum_list (map rule_nodes xs)" for xs
    by (induction xs) (auto intro!: add_nonneg_nonneg order_trans [of 0 1 "rule_nodes _"])
  with node show ?case by (simp add: rule_nodes.simps [of node])
qed

lemma rule_nodes_sum: "0 \<le> sum_list (map rule_nodes xs)"
  by (induction xs) (auto intro!: add_nonneg_nonneg order_trans [OF _ rule_nodes_pos])

text \<open>What validation returns, on the structure.\<close>

definition validated :: "rule_lib \<Rightarrow> json \<Rightarrow> int \<Rightarrow> int \<Rightarrow> int \<Rightarrow> bool" where
  "validated lib node depth c c' \<longleftrightarrow> rule_ok lib node \<and> c' = c + rule_nodes node \<and>
     c' \<le> MAX_NODES \<and> depth + rule_height node \<le> MAX_DEPTH"

lemma validate_list_iff:
  assumes "\<And>x c c'. x \<in> set xs \<Longrightarrow> validate_conditions lib x depth c = Inr c' \<longleftrightarrow> validated lib x depth c c'"
  shows "validate_list lib xs depth c = Inr c' \<longleftrightarrow>
     list_all (rule_ok lib) xs \<and> c' = c + sum_list (map rule_nodes xs) \<and>
     (xs \<noteq> [] \<longrightarrow> c' \<le> MAX_NODES) \<and> (\<forall>x \<in> set xs. depth + rule_height x \<le> MAX_DEPTH)"
  using assms
proof (induction xs arbitrary: c)
  case (Cons x xs)
  have IH: "validate_list lib xs depth k = Inr c' \<longleftrightarrow>
     list_all (rule_ok lib) xs \<and> c' = k + sum_list (map rule_nodes xs) \<and>
     (xs \<noteq> [] \<longrightarrow> c' \<le> MAX_NODES) \<and> (\<forall>x \<in> set xs. depth + rule_height x \<le> MAX_DEPTH)" for k
    by (rule Cons.IH) (use Cons.prems in auto)
  show ?case using Cons.prems [of x] rule_nodes_sum [of xs]
    by (auto simp: err_simps IH validated_def)
qed auto

lemma rule_height_le:
  "depth + rule_height node \<le> b \<longleftrightarrow>
     depth \<le> b \<and> (\<forall>x \<in> set (children node). depth + 1 + rule_height x \<le> b)"
  using foldr_max_le [of "map (\<lambda>x. rule_height x + 1) (children node)" "b - depth"]
  by (auto simp: rule_height.simps [of node] algebra_simps)

lemma validate_node:
  "validate_conditions lib node depth c = Inr c' \<longleftrightarrow>
      c + 1 \<le> MAX_NODES \<and> depth \<le> MAX_DEPTH \<and> node_ok lib node \<and>
      validate_list lib (children node) (depth + 1) (c + 1) = Inr c'"
proof (cases node)
  case (JObj d)
  show ?thesis
  proof (cases "logical_key d")
    case None
    then show ?thesis using JObj
      by (auto simp: validate_conditions.simps(1) [of lib "JObj d"] node_ok_def children_def Let_def
          rule_error_def err_simps)
  next
    case (Some key)
    note k = this
    show ?thesis
    proof (cases "jget d key")
      case None
      then show ?thesis using JObj k
        by (auto simp: validate_conditions.simps(1) [of lib "JObj d"] node_ok_def children_def Let_def rule_error_def)
    next
      case (Some child)
      then show ?thesis using JObj k
        by (cases child) (auto simp: validate_conditions.simps(1) [of lib "JObj d"] node_ok_def children_def
            items_of_def Let_def rule_error_def bindE_def logical_key_def split: sum.splits)
    qed
  qed
qed (simp_all add: validate_conditions.simps(1) node_ok_def Let_def rule_error_def)

lemma validate_iff: "validate_conditions lib node depth c = Inr c' \<longleftrightarrow> validated lib node depth c c'"
proof (induction node arbitrary: depth c c' rule: rule_induct)
  case (node node)
  have vl: "validate_list lib (children node) k c = Inr c' \<longleftrightarrow>
     list_all (rule_ok lib) (children node) \<and> c' = c + sum_list (map rule_nodes (children node)) \<and>
     (children node \<noteq> [] \<longrightarrow> c' \<le> MAX_NODES) \<and> (\<forall>x \<in> set (children node). k + rule_height x \<le> MAX_DEPTH)" for k c
    by (rule validate_list_iff) (use node in auto)
  have "validate_conditions lib node depth c = Inr c' \<longleftrightarrow>
      c + 1 \<le> MAX_NODES \<and> depth \<le> MAX_DEPTH \<and> node_ok lib node \<and>
      validate_list lib (children node) (depth + 1) (c + 1) = Inr c'"
    by (rule validate_node)
  then show ?case using rule_nodes_sum [of "children node"]
    by (auto simp: vl validated_def rule_ok.simps [of lib node] rule_nodes.simps [of node] rule_height_le [of depth node])
qed

subsection \<open>Kleene logic\<close>

text \<open>The truth order FALSE, UNKNOWN, TRUE: conjunction is the minimum, disjunction the maximum.\<close>

fun truth_rank :: "Truth \<Rightarrow> int" where
  "truth_rank FALSE = 0"
| "truth_rank UNKNOWN = 1"
| "truth_rank TRUE = 2"

definition kleene_and :: "Truth \<Rightarrow> Truth \<Rightarrow> Truth" where
  "kleene_and a b = (if truth_rank a \<le> truth_rank b then a else b)"

definition kleene_or :: "Truth \<Rightarrow> Truth \<Rightarrow> Truth" where
  "kleene_or a b = (if truth_rank a \<le> truth_rank b then b else a)"

lemma combine_Cons:
  "combine ''all'' (t # ts) = kleene_and t (combine ''all'' ts)"
  "combine ''any'' (t # ts) = kleene_or t (combine ''any'' ts)"
  by (cases t; auto simp: combine_def kleene_and_def kleene_or_def)+

lemma combine_kleene:
  "combine ''all'' ts = foldr kleene_and ts TRUE"
  "combine ''any'' ts = foldr kleene_or ts FALSE"
  "combine ''none'' ts = truth_not (combine ''any'' ts)"
proof -
  show "combine ''all'' ts = foldr kleene_and ts TRUE"
    by (induction ts) (simp_all add: combine_Cons, simp add: combine_def)
  show "combine ''any'' ts = foldr kleene_or ts FALSE"
    by (induction ts) (simp_all add: combine_Cons, simp add: combine_def)
  show "combine ''none'' ts = truth_not (combine ''any'' ts)"
    by (simp add: combine_def truth_not_def)
qed

text \<open>The information order: UNKNOWN may be refined, an answer may not change.\<close>

definition refines :: "Truth \<Rightarrow> Truth \<Rightarrow> bool" where
  "refines t t' \<longleftrightarrow> t = UNKNOWN \<or> t' = t"

lemma refines_not: "refines t t' \<Longrightarrow> refines (truth_not t) (truth_not t')"
  by (auto simp: refines_def truth_not_def)

lemma refines_and: "refines a a' \<Longrightarrow> refines b b' \<Longrightarrow> refines (kleene_and a b) (kleene_and a' b')"
  by (cases a; cases a'; cases b; cases b') (auto simp: refines_def kleene_and_def)

lemma refines_or: "refines a a' \<Longrightarrow> refines b b' \<Longrightarrow> refines (kleene_or a b) (kleene_or a' b')"
  by (cases a; cases a'; cases b; cases b') (auto simp: refines_def kleene_or_def)

lemma combine_other: "key \<noteq> ''all'' \<Longrightarrow> key \<noteq> ''any'' \<Longrightarrow> combine key ts = combine ''none'' ts"
  by (simp add: combine_def)

lemma refines_combine: "list_all2 refines ts ts' \<Longrightarrow> refines (combine key ts) (combine key ts')"
proof -
  assume l: "list_all2 refines ts ts'"
  have all: "refines (combine ''all'' ts) (combine ''all'' ts')"
    using l by (induction rule: list_all2_induct) (auto simp: combine_Cons refines_and, simp add: refines_def)
  have any: "refines (combine ''any'' ts) (combine ''any'' ts')"
    using l by (induction rule: list_all2_induct) (auto simp: combine_Cons refines_or, simp add: refines_def)
  from any have "refines (combine ''none'' ts) (combine ''none'' ts')"
    by (simp add: combine_kleene(3) refines_not)
  with all any combine_other [of key] show ?thesis by metis
qed

subsection \<open>Evaluation of a well-formed rule\<close>

text \<open>A leaf of the rule has string fact and operator.\<close>

definition leaf_path :: "jdict \<Rightarrow> string" where
  "leaf_path d = (case jget d ''fact'' of Some (JStr p) \<Rightarrow> p | _ \<Rightarrow> [])"

definition leaf_op :: "jdict \<Rightarrow> string" where
  "leaf_op d = (case jget d ''op'' of Some (JStr o') \<Rightarrow> o' | _ \<Rightarrow> [])"

fun leaf_ops :: "json \<Rightarrow> string list" where
  "leaf_ops node =
     (case node of JObj d \<Rightarrow> (if logical_key d = None then [leaf_op d] else []) | _ \<Rightarrow> []) @
     concat (map leaf_ops (children node))"

declare leaf_ops.simps [simp del]

lemma validate_comparison_leaf:
  assumes "validate_comparison lib d = Inr ()"
  shows "jget d ''fact'' = Some (JStr (leaf_path d))" "jget d ''op'' = Some (JStr (leaf_op d))"
proof -
  from assms obtain p where p: "jget d ''fact'' = Some (JStr p)"
    by (auto simp: validate_comparison_def rule_error_def split: if_splits option.splits json.splits)
  with assms have "\<exists>o'. jget_or d ''op'' JNull = JStr o'"
    by (cases "jget_or d ''op'' JNull")
      (auto simp: validate_comparison_def rule_error_def Let_def hashable_def split: if_splits)
  with p show "jget d ''fact'' = Some (JStr (leaf_path d))" "jget d ''op'' = Some (JStr (leaf_op d))"
    by (auto simp: leaf_path_def leaf_op_def jget_or_def split: option.splits)
qed

lemma collect_list_concat: "collect_list xs = concat (map collect_fact_paths xs)"
  by (induction xs) auto

lemma collect_children:
  assumes "x \<in> set (children node)"
  shows "set (collect_fact_paths x) \<subseteq> set (collect_fact_paths node)"
  using assms
proof (rule children_cases)
  fix d key child
  assume d: "node = JObj d" "logical_key d = Some key" "jget d key = Some child"
    and x: "if key = ''not'' then x = child else x \<in> set (items_of child)"
  show ?thesis
    using x d by (cases child) (auto simp: items_of_def collect_list_concat
        collect_fact_paths.simps(1) [of "JObj d"] split: if_splits)
qed

text \<open>The three shapes of a well-formed node.\<close>

lemma rule_ok_cases:
  assumes "rule_ok lib node"
  obtains (leaf) d where "node = JObj d" "logical_key d = None" "validate_comparison lib d = Inr ()"
      "children node = []"
  | (neg) d child where "node = JObj d" "logical_key d = Some ''not''" "jget d ''not'' = Some child"
      "children node = [child]" "rule_ok lib child"
  | (multi) d key items where "node = JObj d" "logical_key d = Some key" "key \<noteq> ''not''"
      "jget d key = Some (JList items)" "children node = items" "list_all (rule_ok lib) items"
proof -
  have ok: "node_ok lib node" "list_all (rule_ok lib) (children node)"
    using assms by (simp_all add: rule_ok.simps [of lib node])
  from ok(1) obtain d where d: "node = JObj d" by (cases node) (auto simp: node_ok_def)
  show thesis
  proof (cases "logical_key d")
    case None
    then show thesis using ok d leaf by (auto simp: node_ok_def children_def)
  next
    case (Some key)
    then obtain child where c: "jget d key = Some child" "children node \<noteq> []"
      using ok d by (auto simp: node_ok_def children_def split: option.splits)
    show thesis
    proof (cases "key = ''not''")
      case True
      then show thesis using Some c d ok neg [of d child] by (auto simp: children_def)
    next
      case False
      then have "children node = items_of child" using Some c d by (simp add: children_def)
      then obtain items where "child = JList items" "children node = items"
        using c(2) by (cases child) (auto simp: items_of_def)
      then show thesis using Some c d ok False multi [of d key items] by auto
    qed
  qed
qed

lemma evaluate_simps:
  "logical_key d = None \<Longrightarrow> evaluate lib facts (JObj d) tr = eval_comparison lib d facts tr"
  "logical_key d = Some ''not'' \<Longrightarrow> jget d ''not'' = Some child \<Longrightarrow> evaluate lib facts (JObj d) tr =
     bindE (evaluate lib facts child tr) (\<lambda>(t, tr'). Inr (truth_not t, tr'))"
  "logical_key d = Some key \<Longrightarrow> key \<noteq> ''not'' \<Longrightarrow> jget d key = Some (JList items) \<Longrightarrow>
     evaluate lib facts (JObj d) tr =
       bindE (evaluate_list lib facts items tr) (\<lambda>(ts, tr'). Inr (combine key ts, tr'))"
  by (simp_all add: evaluate.simps(1) [of lib facts "JObj d"])

text \<open>What a leaf does, with its path and operator read off.\<close>

lemma eval_leaf:
  assumes "validate_comparison lib d = Inr ()" "eval_comparison lib d facts tr = Inr (t, tr')"
  shows "if leaf_op d \<in> {''is_present'', ''is_absent''} then
       tr' = note_used (leaf_path d) (snd (resolve_fact facts (leaf_path d))) tr
     else if snd (resolve_fact facts (leaf_path d)) = JNull then t = UNKNOWN \<and> tr' = note_missing (leaf_path d) tr
     else tr' = note_used (leaf_path d) (snd (resolve_fact facts (leaf_path d))) tr"
proof -
  have "\<not> fst (resolve_fact facts p) \<Longrightarrow> snd (resolve_fact facts p) = JNull" for p
    by (simp add: resolve_fact_def split: option.splits)
  then show ?thesis
    using assms(2) validate_comparison_leaf [OF assms(1)]
    by (auto simp: eval_comparison_def Let_def py_str_def err_simps split: if_splits option.splits)
qed

subsection \<open>More facts only refine an answer\<close>

definition more_facts :: "jdict \<Rightarrow> jdict \<Rightarrow> bool" where
  "more_facts facts facts' \<longleftrightarrow>
     (\<forall>p. snd (resolve_fact facts p) \<noteq> JNull \<longrightarrow> resolve_fact facts' p = resolve_fact facts p)"

lemma leaf_refines:
  assumes ok: "validate_comparison lib d = Inr ()" and more: "more_facts facts facts'"
    and op: "leaf_op d \<notin> {''is_present'', ''is_absent''}"
    and e: "eval_comparison lib d facts tr = Inr (t, tr1)" "eval_comparison lib d facts' tr' = Inr (t', tr1')"
  shows "refines t t'"
proof (cases "snd (resolve_fact facts (leaf_path d)) = JNull")
  case True
  then have "t = UNKNOWN" using eval_leaf [OF ok e(1)] op by simp
  then show ?thesis by (simp add: refines_def)
next
  case False
  then have "resolve_fact facts' (leaf_path d) = resolve_fact facts (leaf_path d)"
    using more by (simp add: more_facts_def)
  then have "t' = t"
    using e validate_comparison_leaf [OF ok] op False
    by (auto simp: eval_comparison_def Let_def py_str_def err_simps split: if_splits option.splits)
  then show ?thesis by (simp add: refines_def)
qed

lemma evaluate_list_refines:
  assumes "\<And>x t tr tr1 t' tr' tr1'. x \<in> set xs \<Longrightarrow> evaluate lib facts x tr = Inr (t, tr1) \<Longrightarrow>
       evaluate lib facts' x tr' = Inr (t', tr1') \<Longrightarrow> refines t t'"
    and "evaluate_list lib facts xs tr = Inr (ts, tr1)" "evaluate_list lib facts' xs tr' = Inr (ts', tr1')"
  shows "list_all2 refines ts ts'"
  using assms
proof (induction xs arbitrary: ts ts' tr tr' )
  case (Cons x xs)
  from Cons.prems(2,3) obtain t r us s t' r' us' s' where
    e: "evaluate lib facts x tr = Inr (t, r)" "evaluate_list lib facts xs r = Inr (us, s)" "ts = t # us"
      "evaluate lib facts' x tr' = Inr (t', r')" "evaluate_list lib facts' xs r' = Inr (us', s')" "ts' = t' # us'"
      "s = tr1" "s' = tr1'"
    by (auto simp: err_simps)
  have "list_all2 refines us us'"
    using Cons.IH [of r us r' us'] Cons.prems(1) e by (meson list.set_intros(2))
  moreover have "refines t t'" using Cons.prems(1) e by (meson list.set_intros(1))
  ultimately show ?case using e by simp
qed simp

lemma evaluate_refines:
  assumes "rule_ok lib node" "more_facts facts facts'"
    and "set (leaf_ops node) \<inter> {''is_present'', ''is_absent''} = {}"
    and "evaluate lib facts node tr = Inr (t, tr1)" "evaluate lib facts' node tr' = Inr (t', tr1')"
  shows "refines t t'"
  using assms
proof (induction node arbitrary: t t' tr tr1 tr' tr1' rule: rule_induct)
  case (node node)
  have ops: "set (leaf_ops x) \<inter> {''is_present'', ''is_absent''} = {}" if "x \<in> set (children node)" for x
    using node.prems(3) that by (auto simp: leaf_ops.simps [of node])
  from node.prems(1) show ?case
  proof (cases rule: rule_ok_cases)
    case (leaf d)
    then have "leaf_op d \<notin> {''is_present'', ''is_absent''}"
      using node.prems(3) by (auto simp: leaf_ops.simps [of "JObj d"])
    with leaf node.prems show ?thesis
      using leaf_refines [of lib d facts facts' tr t tr1 tr' t' tr1'] by (simp add: evaluate_simps(1))
  next
    case (neg d child)
    then obtain u u' where "evaluate lib facts child tr = Inr (u, tr1)" "t = truth_not u"
      "evaluate lib facts' child tr' = Inr (u', tr1')" "t' = truth_not u'"
      using node.prems by (auto simp: evaluate_simps(2) err_simps)
    moreover have "refines u u'"
      using node.IH [of child tr u tr1 tr' u' tr1'] neg node.prems ops calculation by simp
    ultimately show ?thesis by (simp add: refines_not)
  next
    case (multi d key items)
    then obtain us us' where e: "evaluate_list lib facts items tr = Inr (us, tr1)" "t = combine key us"
      "evaluate_list lib facts' items tr' = Inr (us', tr1')" "t' = combine key us'"
      using node.prems by (auto simp: evaluate_simps(3) err_simps)
    have "list_all2 refines us us'"
      by (rule evaluate_list_refines [OF _ e(1,3)])
        (use node.IH multi ops node.prems(2) in \<open>auto simp: list_all_iff\<close>)
    then show ?thesis using e by (simp add: refines_combine)
  qed
qed

subsection \<open>The trace\<close>

definition trace_ok :: "jdict \<Rightarrow> string set \<Rightarrow> EvaluationTrace \<Rightarrow> bool" where
  "trace_ok facts paths tr \<longleftrightarrow>
     distinct (missing_facts tr) \<and>
     (\<forall>p \<in> set (missing_facts tr). p \<in> paths \<and> snd (resolve_fact facts p) = JNull) \<and>
     (\<forall>p v. jget (facts_used tr) p = Some v \<longrightarrow> p \<in> paths \<and> v = snd (resolve_fact facts p))"

lemma trace_note:
  assumes "trace_ok facts paths tr" "p \<in> paths"
  shows "trace_ok facts paths (note_used p (snd (resolve_fact facts p)) tr)"
    "snd (resolve_fact facts p) = JNull \<Longrightarrow> trace_ok facts paths (note_missing p tr)"
  using assms by (auto simp: trace_ok_def note_used_def note_missing_def)

lemma leaf_trace:
  assumes "validate_comparison lib d = Inr ()" "eval_comparison lib d facts tr = Inr (t, tr')"
    and "trace_ok facts paths tr" "leaf_path d \<in> paths"
  shows "trace_ok facts paths tr'"
  using eval_leaf [OF assms(1,2)] trace_note [OF assms(3,4)] by (auto split: if_splits)

lemma evaluate_list_trace:
  assumes "\<And>x tr t tr'. x \<in> set xs \<Longrightarrow> evaluate lib facts x tr = Inr (t, tr') \<Longrightarrow> trace_ok facts P tr \<Longrightarrow>
       trace_ok facts P tr'"
    and "evaluate_list lib facts xs tr = Inr (ts, tr')" "trace_ok facts P tr"
  shows "trace_ok facts P tr'"
  using assms
proof (induction xs arbitrary: ts tr)
  case (Cons x xs)
  from Cons.prems(2) obtain t r us where
    "evaluate lib facts x tr = Inr (t, r)" "evaluate_list lib facts xs r = Inr (us, tr')"
    by (auto simp: err_simps)
  with Cons.prems Cons.IH show ?case by (meson list.set_intros)
qed simp

lemma collect_leaf:
  assumes "logical_key d = None" "validate_comparison lib d = Inr ()"
  shows "collect_fact_paths (JObj d) = [leaf_path d]"
  using assms validate_comparison_leaf(1) [OF assms(2)]
  by (simp add: collect_fact_paths.simps(1))

lemma evaluate_trace:
  assumes "rule_ok lib node" "set (collect_fact_paths node) \<subseteq> P"
    and "evaluate lib facts node tr = Inr (t, tr')" "trace_ok facts P tr"
  shows "trace_ok facts P tr'"
  using assms
proof (induction node arbitrary: t tr tr' rule: rule_induct)
  case (node node)
  have sub: "set (collect_fact_paths x) \<subseteq> P" if "x \<in> set (children node)" for x
    using collect_children [OF that] node.prems(2) by blast
  from node.prems(1) show ?case
  proof (cases rule: rule_ok_cases)
    case (leaf d)
    with node.prems leaf_trace [of lib d facts tr t tr' P] collect_leaf [of d lib] show ?thesis
      by (simp add: evaluate_simps(1))
  next
    case (neg d child)
    then obtain u where "evaluate lib facts child tr = Inr (u, tr')"
      using node.prems by (auto simp: evaluate_simps(2) err_simps)
    with node.IH [of child tr u tr'] neg sub node.prems show ?thesis by simp
  next
    case (multi d key items)
    then obtain us where e: "evaluate_list lib facts items tr = Inr (us, tr')"
      using node.prems by (auto simp: evaluate_simps(3) err_simps)
    show ?thesis
      by (rule evaluate_list_trace [OF _ e node.prems(4)])
        (use node.IH multi sub in \<open>auto simp: list_all_iff\<close>)
  qed
qed

subsection \<open>When evaluation returns\<close>

definition partial_ops :: "string set" where
  "partial_ops = {''is_empty'', ''contains_any'', ''contains_all''}"

lemma leaf_returns:
  assumes "validate_comparison lib d = Inr ()" "leaf_op d \<notin> partial_ops"
  shows "\<exists>r. eval_comparison lib d facts tr = Inr r"
proof -
  have "\<exists>t. compare_op lib (leaf_op d) v e cs = Inr t" for v e cs
    using assms(2) by (simp add: compare_op_def partial_ops_def split: json.split)
  then show ?thesis
    using assms(2) validate_comparison_leaf [OF assms(1)]
    by (auto simp: eval_comparison_def Let_def py_str_def partial_ops_def err_simps split: option.splits)
qed

lemma evaluate_list_returns:
  "(\<And>x tr. x \<in> set xs \<Longrightarrow> \<exists>r. evaluate lib facts x tr = Inr r) \<Longrightarrow>
     \<exists>r. evaluate_list lib facts xs tr = Inr r"
proof (induction xs arbitrary: tr)
  case (Cons x xs)
  obtain t tr1 where "evaluate lib facts x tr = Inr (t, tr1)" using Cons.prems [of x tr] by auto
  moreover obtain ts tr2 where "evaluate_list lib facts xs tr1 = Inr (ts, tr2)"
    using Cons.IH [of tr1] Cons.prems by auto
  ultimately show ?case by simp
qed simp

lemma evaluate_returns:
  assumes "rule_ok lib node" "set (leaf_ops node) \<inter> partial_ops = {}"
  shows "\<exists>r. evaluate lib facts node tr = Inr r"
  using assms
proof (induction node arbitrary: tr rule: rule_induct)
  case (node node)
  have ops: "set (leaf_ops x) \<inter> partial_ops = {}" if "x \<in> set (children node)" for x
    using node.prems(2) that by (auto simp: leaf_ops.simps [of node])
  from node.prems(1) show ?case
  proof (cases rule: rule_ok_cases)
    case (leaf d)
    then have "leaf_op d \<notin> partial_ops" using node.prems(2) by (auto simp: leaf_ops.simps [of "JObj d"])
    with leaf leaf_returns show ?thesis by (simp add: evaluate_simps(1))
  next
    case (neg d child)
    with node.IH [of child tr] ops show ?thesis by (auto simp: evaluate_simps(2))
  next
    case (multi d key items)
    have "\<exists>r. evaluate_list lib facts items tr = Inr r"
      by (rule evaluate_list_returns) (use node.IH multi ops in \<open>auto simp: list_all_iff\<close>)
    with multi show ?thesis by (auto simp: evaluate_simps(3))
  qed
qed

subsection \<open>Properties\<close>

definition ex_lib :: rule_lib where
  "ex_lib = \<lparr>re_search = (\<lambda>p s cs. is_substr p s), re_compiles = (\<lambda>_. True), str_other = (\<lambda>_. [])\<rparr>"

definition ex_rule :: json where
  "ex_rule = JObj [(''any'', JList
     [JObj [(''fact'', JStr ''a.b''), (''op'', JStr ''gte''), (''value'', JInt 5)],
      JObj [(''not'', JObj [(''fact'', JStr ''c''), (''op'', JStr ''is_true'')])]])]"

definition ex_facts :: jdict where
  "ex_facts = [(''a'', JObj [(''b'', JInt 7)])]"

lemma ex_rule_valid: "valid_rule ex_lib ex_rule"
proof -
  have "\<not> isl (validate_conditions ex_lib ex_rule 0 0)" by code_simp
  then show ?thesis unfolding valid_rule_def by (cases "validate_conditions ex_lib ex_rule 0 0") auto
qed

text \<open>C29. Validation accepts exactly the rules that are well-formed at every node and stay within
  400 nodes and 12 levels below the root.\<close>

theorem validation_is_exact:
  "valid_rule lib node \<longleftrightarrow> rule_ok lib node \<and> rule_nodes node \<le> 400 \<and> rule_height node \<le> 12"
  by (auto simp: valid_rule_def validate_iff validated_def MAX_NODES_def MAX_DEPTH_def)

lemma valid_rule_ok: "valid_rule lib node \<Longrightarrow> rule_ok lib node"
  by (auto simp: valid_rule_def validate_iff validated_def)


lemma ex_evaluates:
  "\<exists>tr. evaluate ex_lib ex_facts ex_rule empty_trace = Inr (TRUE, tr)"
  "\<exists>tr. evaluate ex_lib (ex_facts @ [(''c'', JBool True)]) ex_rule empty_trace = Inr (TRUE, tr)"
proof -
  have "(case evaluate ex_lib ex_facts ex_rule empty_trace of Inr (TRUE, _) \<Rightarrow> True | _ \<Rightarrow> False)" by code_simp
  then show "\<exists>tr. evaluate ex_lib ex_facts ex_rule empty_trace = Inr (TRUE, tr)"
    by (auto split: sum.splits Truth.splits)
  have "(case evaluate ex_lib (ex_facts @ [(''c'', JBool True)]) ex_rule empty_trace of
      Inr (TRUE, _) \<Rightarrow> True | _ \<Rightarrow> False)" by code_simp
  then show "\<exists>tr. evaluate ex_lib (ex_facts @ [(''c'', JBool True)]) ex_rule empty_trace = Inr (TRUE, tr)"
    by (auto split: sum.splits Truth.splits)
qed

lemma resolve_append:
  "jget d k \<noteq> None \<Longrightarrow> jget (d @ e) k = jget d k"
  by (auto simp: jget_def map_add_Some_iff split: option.splits)

lemma more_facts_append: "more_facts d (d @ e)"
proof -
  have "resolve_segments (JObj d) segs = Some v \<Longrightarrow> segs \<noteq> [] \<Longrightarrow>
      resolve_segments (JObj (d @ e)) segs = Some v" for segs v
    using resolve_append [of d _ e] by (cases segs) (auto split: option.splits)
  moreover have "split_dots p \<noteq> []" for p by (cases p) (auto split: list.splits)
  ultimately show ?thesis
    unfolding more_facts_def resolve_fact_def by (auto split: option.splits)
qed


text \<open>The trace of a validated rule is exact about what it lists: a missing fact is referenced by
  the rule and absent or null, it is listed once, and a used fact is referenced by the rule and
  recorded with the value the facts hold.\<close>

theorem evaluation_trace_sound:
  assumes "valid_rule lib node" and "evaluate lib facts node empty_trace = Inr (t, tr)"
  shows "distinct (missing_facts tr) \<and>
     (\<forall>p \<in> set (missing_facts tr). p \<in> set (collect_fact_paths node) \<and> snd (resolve_fact facts p) = JNull) \<and>
     (\<forall>p v. jget (facts_used tr) p = Some v \<longrightarrow>
        p \<in> set (collect_fact_paths node) \<and> v = snd (resolve_fact facts p))"
proof -
  have "trace_ok facts (set (collect_fact_paths node)) empty_trace"
    by (simp add: trace_ok_def empty_trace_def jget_def)
  from evaluate_trace [OF valid_rule_ok [OF assms(1)] subset_refl assms(2) this] show ?thesis
    by (simp add: trace_ok_def)
qed

theorem evaluation_trace_sound_witness:
  "\<exists>t tr. evaluate ex_lib ex_facts ex_rule empty_trace = Inr (t, tr) \<and> distinct (missing_facts tr)"
proof -
  obtain tr where e: "evaluate ex_lib ex_facts ex_rule empty_trace = Inr (TRUE, tr)"
    using ex_evaluates by blast
  from evaluation_trace_sound [OF ex_rule_valid e] e show ?thesis by blast
qed

text \<open>A validated rule always evaluates, on any facts, unless it uses one of the three operators
  that can raise on a value of the wrong type.\<close>

theorem validated_rule_evaluates:
  assumes "valid_rule lib node"
    and "set (leaf_ops node) \<inter> {''is_empty'', ''contains_any'', ''contains_all''} = {}"
  shows "\<exists>t tr'. evaluate lib facts node tr = Inr (t, tr')"
  using evaluate_returns [OF valid_rule_ok [OF assms(1)]] assms(2) by (simp add: partial_ops_def)

theorem validated_rule_evaluates_witness:
  "\<exists>t tr'. evaluate ex_lib [(''c'', JInt 1)] ex_rule empty_trace = Inr (t, tr')"
proof -
  have "set (leaf_ops ex_rule) \<inter> {''is_empty'', ''contains_any'', ''contains_all''} = {}" by code_simp
  from validated_rule_evaluates [OF ex_rule_valid this] show ?thesis .
qed

text \<open>The operator is_empty raises TypeError on a number, where its last branch means to answer
  UNKNOWN: the length is taken before the test that the value has one.\<close>

theorem is_empty_raises_on_number:
  "valid_rule lib (JObj [(''fact'', JStr ''n''), (''op'', JStr ''is_empty'')]) \<and>
   evaluate lib [(''n'', JInt k)] (JObj [(''fact'', JStr ''n''), (''op'', JStr ''is_empty'')]) tr = Inl TypeError"
proof -
  let ?d = "[(''fact'', JStr ''n''), (''op'', JStr ''is_empty'')]"
  have lk: "logical_key ?d = None" by code_simp
  have vc: "validate_comparison lib ?d = Inr ()"
  proof -
    have "fact_path_ok ''n''" by code_simp
    then show ?thesis
      by (simp add: validate_comparison_def jget_def jget_or_def hashable_def OPERATORS_def)
  qed
  have "rule_ok lib (JObj ?d)"
    using lk vc by (simp add: rule_ok.simps [of lib "JObj ?d"] node_ok_def children_def)
  moreover have "children (JObj ?d) = []" using lk by (simp add: children_def)
  ultimately have "valid_rule lib (JObj ?d)"
    by (simp add: valid_rule_def validate_iff validated_def rule_nodes.simps [of "JObj ?d"]
        rule_height.simps [of "JObj ?d"] MAX_NODES_def MAX_DEPTH_def)
  moreover have "resolve_fact [(''n'', JInt k)] ''n'' = (True, JInt k)"
    by (simp add: resolve_fact_def jget_def)
  then have "eval_comparison lib ?d [(''n'', JInt k)] tr = Inl TypeError"
    by (simp add: eval_comparison_def jget_def Let_def py_str_def has_len_def)
  ultimately show ?thesis using evaluate_simps(1) [OF lk] by simp
qed

end
