(* ===== verification/Py_Float.thy ===== *)
theory Py_Float
  imports Py_Num
begin

text \<open>
  Binary64 rounding. The code computes a few products and quotients in floating point before
  it rounds or truncates them to days; \<^verbatim>\<open>fl\<close> is the nearest value with a 53-bit
  significand, ties to even, for the normal range (no overflow, no subnormal numbers).
\<close>

subsection \<open>Exponents\<close>

lemma nat_floor_half: "2 \<le> (x::rat) \<Longrightarrow> nat (floor (x / 2)) < nat (floor x)"
proof -
  assume x: "2 \<le> x"
  have "floor (x / 2) < floor x"
  proof -
    have "of_int (floor (x / 2)) \<le> x / 2" by (rule of_int_floor_le)
    moreover have "x / 2 < of_int (floor x)"
      using x floor_correct [of x] by (simp add: field_simps)
    ultimately have "(of_int (floor (x / 2)) :: rat) < of_int (floor x)" by linarith
    then show ?thesis by simp
  qed
  moreover have "0 \<le> floor (x / 2)" using x by simp
  ultimately show ?thesis by linarith
qed

function log2_up :: "rat \<Rightarrow> nat" where
  "log2_up x = (if x < 2 then 0 else Suc (log2_up (x / 2)))"
  by pat_completeness auto

termination
  by (relation "measure (\<lambda>x. nat (floor x))") (use nat_floor_half in \<open>auto simp del: nat_less_eq_zless\<close>)

declare log2_up.simps [simp del]

lemma log2_up_bounds: "1 \<le> x \<Longrightarrow> 2 ^ log2_up x \<le> x \<and> x < 2 ^ Suc (log2_up x)"
proof (induction x rule: log2_up.induct)
  case (1 x)
  show ?case
  proof (cases "x < 2")
    case True
    then show ?thesis using 1 by (simp add: log2_up.simps [of x])
  next
    case False
    then have "2 ^ log2_up (x / 2) \<le> x / 2 \<and> x / 2 < 2 ^ Suc (log2_up (x / 2))" using 1 by simp
    then show ?thesis using False by (simp add: log2_up.simps [of x])
  qed
qed

fun log2_down :: "nat \<Rightarrow> rat \<Rightarrow> nat" where
  "log2_down 0 x = 0"
| "log2_down (Suc n) x = (if 1 \<le> x then 0 else Suc (log2_down n (2 * x)))"

lemma log2_down_bounds:
  "0 < x \<Longrightarrow> x < 1 \<Longrightarrow> 1 \<le> x * 2 ^ n \<Longrightarrow> 1 \<le> x * 2 ^ log2_down n x \<and> x * 2 ^ log2_down n x < 2"
proof (induction n arbitrary: x)
  case (Suc n)
  show ?case
  proof (cases "2 * x < 1")
    case True
    then have "1 \<le> 2 * x * 2 ^ log2_down n (2 * x) \<and> 2 * x * 2 ^ log2_down n (2 * x) < 2"
      using Suc by (intro Suc.IH) (auto simp: mult.assoc mult.left_commute)
    then show ?thesis using Suc.prems by (simp add: mult.assoc mult.left_commute mult.commute)
  next
    case False
    then have "log2_down n (2 * x) = 0" by (cases n) auto
    then show ?thesis using Suc.prems False by simp
  qed
qed simp

text \<open>The exponent of a positive number of the normal range.\<close>

definition normal :: "rat \<Rightarrow> bool" where
  "normal x \<longleftrightarrow> 0 < x \<and> 1 \<le> x * 2 ^ 1022"

definition expo :: "rat \<Rightarrow> int" where
  "expo x = (if 1 \<le> x then int (log2_up x) else - int (log2_down 1022 x))"

definition pow2 :: "int \<Rightarrow> rat" where
  "pow2 e = (if 0 \<le> e then 2 ^ nat e else 1 / 2 ^ nat (- e))"

lemma pow2_pos [simp]: "0 < pow2 e"
  by (simp add: pow2_def)

lemma pow2_powi: "pow2 e = 2 powi e"
  by (simp add: pow2_def power_int_def field_simps)

lemma pow2_add: "pow2 (a + b) = pow2 a * pow2 b"
  by (simp add: pow2_powi power_int_add)

lemma pow2_mono: "a \<le> b \<Longrightarrow> pow2 a \<le> pow2 b"
  by (simp add: pow2_powi power_int_increasing)

lemma pow2_strict: "pow2 a < pow2 b \<Longrightarrow> a < b"
  using pow2_mono [of b a] by linarith

lemma expo_bounds:
  assumes "normal x"
  shows "pow2 (expo x) \<le> x" "x < pow2 (expo x + 1)"
proof -
  have "pow2 (expo x) \<le> x \<and> x < pow2 (expo x + 1)"
  proof (cases "1 \<le> x")
    case True
    then show ?thesis using log2_up_bounds [OF True]
      by (simp add: expo_def pow2_def nat_add_distrib)
  next
    case False
    let ?s = "log2_down 1022 x"
    have b: "1 \<le> x * 2 ^ ?s" "x * 2 ^ ?s < 2"
      using log2_down_bounds [of x 1022] assms False by (auto simp: normal_def)
    have e: "pow2 (expo x) = 1 / 2 ^ ?s" using False by (simp add: expo_def pow2_powi power_int_minus field_simps)
    have e1: "pow2 (expo x + 1) = 2 / 2 ^ ?s" by (simp add: pow2_add e) (simp add: pow2_def)
    show ?thesis unfolding e e1 using b by (simp add: field_simps)
  qed
  then show "pow2 (expo x) \<le> x" "x < pow2 (expo x + 1)" by auto
qed

lemma expo_mono:
  assumes "normal x" "normal y" "x \<le> y"
  shows "expo x \<le> expo y"
proof -
  have "pow2 (expo x) < pow2 (expo y + 1)"
    using expo_bounds [OF assms(1)] expo_bounds [OF assms(2)] assms(3) by linarith
  from pow2_strict [OF this] show ?thesis by linarith
qed

lemma expo_eq:
  assumes "normal x" "pow2 e \<le> x" "x < pow2 (e + 1)"
  shows "expo x = e"
proof -
  have "pow2 e < pow2 (expo x + 1)" "pow2 (expo x) < pow2 (e + 1)"
    using expo_bounds [OF assms(1)] assms(2,3) by linarith+
  from this [THEN pow2_strict] show ?thesis by linarith
qed

subsection \<open>Rounding\<close>

definition fl :: "rat \<Rightarrow> rat" where
  "fl x = (if x = 0 then 0
           else let u = pow2 (expo \<bar>x\<bar> - 52) in of_int (py_round (x / u)) * u)"

text \<open>Evaluation of a rounding: give the exponent and the rounded significand.\<close>

lemma fl_eq:
  assumes "normal x" "pow2 e \<le> x" "x < pow2 (e + 1)"
    and "of_int n - 1 / 2 < x / pow2 (e - 52)" "x / pow2 (e - 52) < of_int n + 1 / 2"
  shows "fl x = of_int n * pow2 (e - 52)"
proof -
  have "0 < x" using assms(1) by (simp add: normal_def)
  then show ?thesis
    using expo_eq [OF assms(1-3)] py_round_eq [OF assms(4,5)] by (simp add: fl_def Let_def)
qed

lemma fl_range:
  assumes "normal x"
  shows "pow2 (expo x) \<le> fl x" "fl x \<le> pow2 (expo x + 1)"
proof -
  let ?u = "pow2 (expo x - 52)"
  have x: "0 < x" using assms by (simp add: normal_def)
  have lo: "pow2 (expo x) = of_int (2 ^ 52) * ?u" and hi: "pow2 (expo x + 1) = of_int (2 ^ 53) * ?u"
    using pow2_add [of 52 "expo x - 52"] pow2_add [of 53 "expo x - 52"] by (simp_all add: pow2_def add.commute)
  have f: "fl x = of_int (py_round (x / ?u)) * ?u" using x by (simp add: fl_def Let_def)
  have "of_int (2 ^ 52) \<le> x / ?u" using expo_bounds(1) [OF assms] lo by (simp add: field_simps)
  then have "2 ^ 52 \<le> py_round (x / ?u)" by (rule py_round_ge)
  then have "(of_int (2 ^ 52) :: rat) \<le> of_int (py_round (x / ?u))" by (simp only: of_int_le_iff)
  then show "pow2 (expo x) \<le> fl x" unfolding f lo by (intro mult_right_mono) (auto intro: less_imp_le)
  have "x / ?u \<le> of_int (2 ^ 53)" using expo_bounds(2) [OF assms] hi by (simp add: field_simps)
  then have "py_round (x / ?u) \<le> 2 ^ 53" by (rule py_round_le)
  then have "(of_int (py_round (x / ?u)) :: rat) \<le> of_int (2 ^ 53)" by (simp only: of_int_le_iff)
  then show "fl x \<le> pow2 (expo x + 1)" unfolding f hi by (intro mult_right_mono) (auto intro: less_imp_le)
qed

lemma fl_mono:
  assumes "normal x" "normal y" "x \<le> y"
  shows "fl x \<le> fl y"
proof (cases "expo x = expo y")
  case True
  have p: "0 < x" "0 < y" using assms by (simp_all add: normal_def)
  let ?u = "pow2 (expo y - 52)"
  have "x / ?u \<le> y / ?u" using assms(3) by (simp add: divide_right_mono less_imp_le)
  then have "py_round (x / ?u) \<le> py_round (y / ?u)" by (rule py_round_mono)
  then have "(of_int (py_round (x / ?u)) :: rat) * ?u \<le> of_int (py_round (y / ?u)) * ?u"
    by (intro mult_right_mono) (auto intro: less_imp_le)
  then show ?thesis using True p by (simp add: fl_def Let_def)
next
  case False
  then have "expo x + 1 \<le> expo y" using expo_mono [OF assms] by linarith
  then have "pow2 (expo x + 1) \<le> pow2 (expo y)" by (rule pow2_mono)
  then show ?thesis using fl_range(2) [OF assms(1)] fl_range(1) [OF assms(2)] by linarith
qed

lemma fl_0 [simp]: "fl 0 = 0"
  by (simp add: fl_def)

end
