(* ===== verification/Requirements.thy ===== *)
theory Requirements
  imports Conditions Py_Float
begin

text \<open>
  The advisory requirement matrix: effective rules (\<^verbatim>\<open>app/requirements/rules.py\<close>), source
  freshness (\<^verbatim>\<open>freshness.py\<close>), the outcomes of \<^verbatim>\<open>taxonomy.py\<close> and the reconciliation of
  all applicable rules for one jurisdiction (\<^verbatim>\<open>evaluator.py\<close>). The explanation text of a
  result is not modelled; everything else of the result is.
\<close>

subsection \<open>Outcomes and authority (taxonomy.py)\<close>

datatype RequirementOutcome =
    LIKELY_REQUIRED | POSSIBLY_REQUIRED | LIKELY_NOT_REQUIRED | COUNSEL_REVIEW | OUT_OF_SCOPE
  | INSUFFICIENT_INFORMATION

fun OUTCOME_CAUTION_RANK :: "RequirementOutcome \<Rightarrow> int" where
  "OUTCOME_CAUTION_RANK OUT_OF_SCOPE = 0"
| "OUTCOME_CAUTION_RANK LIKELY_NOT_REQUIRED = 1"
| "OUTCOME_CAUTION_RANK INSUFFICIENT_INFORMATION = 2"
| "OUTCOME_CAUTION_RANK POSSIBLY_REQUIRED = 3"
| "OUTCOME_CAUTION_RANK LIKELY_REQUIRED = 4"
| "OUTCOME_CAUTION_RANK COUNSEL_REVIEW = 5"

definition AUTHORITATIVE_LEVELS :: "string list" where
  "AUTHORITATIVE_LEVELS = [''OFFICIAL_PRIMARY'', ''OFFICIAL_GUIDANCE'', ''APPROVED_COUNSEL'']"

subsection \<open>Rules (rules.py)\<close>

record SourceCitation =
  ci_source_id :: "uuid option"
  ci_snapshot_id :: "uuid option"
  ci_title :: string
  ci_authority_level :: string
  ci_source_type :: string
  ci_official_url :: "string option"
  ci_snapshot_version :: "int option"
  ci_last_verified_at :: "string option"
  ci_effective_date :: "string option"
  ci_citation_detail :: "string option"
  ci_freshness_status :: "string option"

record Rule =
  rl_id :: uuid
  rl_rule_key :: string
  rl_outcome :: RequirementOutcome
  rl_conditions :: json
  rl_priority :: int
  rl_jurisdiction_id :: "uuid option"
  rl_license_type_id :: "uuid option"
  rl_filing_channels :: "string list"
  rl_required_facts :: "string list"
  rl_effective_from :: "date option"
  rl_effective_to :: "date option"
  rl_requires_counsel_review :: bool
  rl_enabled :: bool
  rl_citations :: "SourceCitation list"

definition effective_between :: "date option \<Rightarrow> date option \<Rightarrow> date \<Rightarrow> bool" where
  "effective_between from_d to_d d \<longleftrightarrow>
     (case from_d of None \<Rightarrow> True | Some f \<Rightarrow> f \<le> d) \<and>
     (case to_d of None \<Rightarrow> True | Some t \<Rightarrow> d \<le> t)"

definition specificity_of :: "uuid option \<Rightarrow> uuid option \<Rightarrow> int" where
  "specificity_of j l = (if j \<noteq> None then 1 else 0) + (if l \<noteq> None then 1 else 0)"

definition in_scope_of :: "uuid option \<Rightarrow> uuid option \<Rightarrow> bool" where
  "in_scope_of wanted given \<longleftrightarrow> wanted = None \<or> wanted = given"

definition is_effective_on :: "Rule \<Rightarrow> date \<Rightarrow> bool" where
  "is_effective_on r d = effective_between (rl_effective_from r) (rl_effective_to r) d"

definition specificity :: "Rule \<Rightarrow> int" where
  "specificity r = specificity_of (rl_jurisdiction_id r) (rl_license_type_id r)"

definition rule_applicable :: "date \<Rightarrow> uuid option \<Rightarrow> uuid option \<Rightarrow> Rule \<Rightarrow> bool" where
  "rule_applicable d jurisdiction license_type r \<longleftrightarrow>
     rl_enabled r \<and> is_effective_on r d \<and>
     in_scope_of (rl_jurisdiction_id r) jurisdiction \<and> in_scope_of (rl_license_type_id r) license_type"

definition rule_sort_key :: "Rule \<Rightarrow> int \<times> int \<times> string" where
  "rule_sort_key r = (- specificity r, rl_priority r, rl_rule_key r)"

definition resolve_effective_rules ::
  "date \<Rightarrow> uuid option \<Rightarrow> uuid option \<Rightarrow> Rule list \<Rightarrow> Rule list" where
  "resolve_effective_rules d jurisdiction license_type rules =
     sort_key rule_sort_key (filter (rule_applicable d jurisdiction license_type) rules)"

definition rule_validate :: "rule_lib \<Rightarrow> string \<Rightarrow> Rule \<Rightarrow> condition_error + unit" where
  "rule_validate lib explanation_template r =
     bindE (validate_conditions lib (rl_conditions r) 0 0) (\<lambda>_.
       if list_all (\<lambda>c. c \<in> {CHR '' '', CHR 0x09, CHR 0x0A, CHR 0x0D, CHR 0x0B, CHR 0x0C,
                              CHR 0x1C, CHR 0x1D, CHR 0x1E, CHR 0x1F}) explanation_template
       then rule_error ''Every rule must carry an explanation template'' else Inr ())"

interpretation rules: rule_resolution "rule_applicable d j l" rule_sort_key "resolve_effective_rules d j l"
  for d j l
  by unfold_locales (simp add: resolve_effective_rules_def)

subsection \<open>Freshness (freshness.py)\<close>

definition DEFAULT_FRESHNESS_DAYS :: "(string \<times> int) list" where
  "DEFAULT_FRESHNESS_DAYS =
     [(''NMLS_CHECKLIST'', 365), (''NMLS_RENEWAL_CHECKLIST'', 180), (''REGULATOR_WEBPAGE'', 180),
      (''REGULATOR_PDF'', 365), (''STATUTE'', 730), (''REGULATION'', 730),
      (''REGULATOR_GUIDANCE'', 365), (''COUNSEL_MEMO'', 730), (''VENDOR_CHECKLIST'', 90),
      (''INTERNAL_POLICY'', 365), (''OTHER'', 180)]"

definition DUE_SOON_RATIO :: rat where
  "DUE_SOON_RATIO = fl (8 / 10)"

record FreshnessAssessment =
  fa_status :: string
  fa_age_days :: "int option"
  fa_window_days :: int
  fa_forces_counsel_review :: bool

definition positive_opt :: "int option \<Rightarrow> int option" where
  "positive_opt x = (case x of Some n \<Rightarrow> if 0 < n then Some n else None | None \<Rightarrow> None)"

definition window_for :: "string \<Rightarrow> int option \<Rightarrow> int option \<Rightarrow> int" where
  "window_for source_type override_days default_days =
     (case positive_opt override_days of
        Some n \<Rightarrow> n
      | None \<Rightarrow> (case map_of DEFAULT_FRESHNESS_DAYS source_type of
          Some n \<Rightarrow> n
        | None \<Rightarrow> (case positive_opt default_days of Some n \<Rightarrow> n | None \<Rightarrow> 180)))"

definition due_threshold :: "int \<Rightarrow> int" where
  "due_threshold window = py_trunc (fl (of_int window * DUE_SOON_RATIO))"

definition assess_source ::
  "string \<Rightarrow> string \<Rightarrow> datetime option \<Rightarrow> datetime option \<Rightarrow> int option \<Rightarrow> int option \<Rightarrow> datetime \<Rightarrow>
     FreshnessAssessment" where
  "assess_source source_type authority_level last_verified_at expiry_date override_days default_days moment =
     (let window = window_for source_type override_days default_days in
      if (case expiry_date of None \<Rightarrow> False | Some e \<Rightarrow> e \<le> moment) then
        \<lparr>fa_status = ''STALE'', fa_age_days = None, fa_window_days = window,
         fa_forces_counsel_review = True\<rparr>
      else case last_verified_at of
        None \<Rightarrow>
          \<lparr>fa_status = ''UNKNOWN'', fa_age_days = None, fa_window_days = window,
           fa_forces_counsel_review = (authority_level \<in> {''VENDOR_OPERATIONAL'', ''UNVERIFIED''})\<rparr>
      | Some v \<Rightarrow>
        (let age = td_days (moment - v) in
         if window \<le> age then
           \<lparr>fa_status = ''STALE'', fa_age_days = Some age, fa_window_days = window,
            fa_forces_counsel_review = True\<rparr>
         else if due_threshold window \<le> age then
           \<lparr>fa_status = ''DUE_FOR_VERIFICATION'', fa_age_days = Some age, fa_window_days = window,
            fa_forces_counsel_review = False\<rparr>
         else
           \<lparr>fa_status = ''FRESH'', fa_age_days = Some age, fa_window_days = window,
            fa_forces_counsel_review = False\<rparr>))"

definition SEVERITY :: "string \<Rightarrow> int" where
  "SEVERITY s = (case map_of [(''NO_SOURCE'', 4), (''STALE'', 3), (''UNKNOWN'', 2),
      (''DUE_FOR_VERIFICATION'', 1), (''FRESH'', 0)] s of None \<Rightarrow> 2 | Some n \<Rightarrow> n)"

definition summarize :: "string list \<Rightarrow> string" where
  "summarize statuses = (case statuses of [] \<Rightarrow> ''NO_SOURCE'' | s # ss \<Rightarrow> max_by SEVERITY s ss)"

subsection \<open>Reconciliation (evaluator.py)\<close>

record EvaluationSettings =
  require_human_review :: bool
  require_counsel_for_not_required :: bool
  escalate_non_authoritative_sources :: bool

record JurisdictionResult =
  jr_jurisdiction_id :: uuid
  jr_license_type_id :: "uuid option"
  jr_outcome :: RequirementOutcome
  jr_filing_channels :: "string list"
  jr_facts_used :: jdict
  jr_missing_facts :: "string list"
  jr_matched_rule_ids :: "uuid list"
  jr_conflicting_rule_ids :: "uuid list"
  jr_source_citations :: "SourceCitation list"
  jr_source_freshness_status :: string
  jr_requires_human_review :: bool
  jr_requires_counsel_review :: bool
  jr_notes :: "string list"

definition more_cautious :: "RequirementOutcome \<Rightarrow> RequirementOutcome \<Rightarrow> RequirementOutcome" where
  "more_cautious a b = (if OUTCOME_CAUTION_RANK b \<le> OUTCOME_CAUTION_RANK a then a else b)"

text \<open>The loop over the effective rules: one shared trace, matched and unresolved rules.\<close>

fun evaluate_rules ::
  "rule_lib \<Rightarrow> jdict \<Rightarrow> Rule list \<Rightarrow> EvaluationTrace \<Rightarrow>
     py_error + (Rule list \<times> Rule list \<times> EvaluationTrace)" where
  "evaluate_rules lib facts [] tr = Inr ([], [], tr)"
| "evaluate_rules lib facts (r # rs) tr =
     bindE (evaluate lib facts (rl_conditions r) tr) (\<lambda>(t, tr1).
     bindE (evaluate_rules lib facts rs tr1) (\<lambda>(ms, us, tr2).
     Inr (if t = TRUE then (r # ms, us, tr2)
          else if t = Truth.UNKNOWN then (ms, r # us, tr2) else (ms, us, tr2))))"

definition conflict_peers :: "Rule \<Rightarrow> Rule list \<Rightarrow> Rule list" where
  "conflict_peers primary matches =
     filter (\<lambda>m. specificity m = specificity primary \<and> rl_priority m = rl_priority primary \<and>
                 rl_outcome m \<noteq> rl_outcome primary) matches"

text \<open>The outcome before sources are considered, with the chosen rules, the conflicting
  ids and the notes.\<close>

definition reconcile ::
  "Rule list \<Rightarrow> Rule list \<Rightarrow> Rule list \<Rightarrow> RequirementOutcome \<times> Rule list \<times> uuid list \<times> string list" where
  "reconcile effective matches unknown_matches =
     (if effective = [] then (INSUFFICIENT_INFORMATION, [], [], [''no_rules_in_scope''])
      else case matches of
        primary # _ \<Rightarrow>
          (let peers = conflict_peers primary matches;
               o1 = (if peers \<noteq> []
                     then more_cautious (fold (\<lambda>p o'. more_cautious o' (rl_outcome p)) peers (rl_outcome primary))
                            COUNSEL_REVIEW
                     else rl_outcome primary);
               ids = (if peers \<noteq> [] then rl_id primary # map rl_id peers else []);
               n1 = (if peers \<noteq> [] then [''conflicting_rules_equal_precedence''] else []);
               down = (unknown_matches \<noteq> [] \<and> o1 = LIKELY_NOT_REQUIRED)
           in (if down then POSSIBLY_REQUIRED else o1, matches, ids,
               n1 @ (if down then [''downgraded_by_unresolved_rule''] else [])))
      | [] \<Rightarrow>
          (if unknown_matches \<noteq> []
           then (INSUFFICIENT_INFORMATION, unknown_matches, [], [''all_candidate_rules_unresolved''])
           else (LIKELY_NOT_REQUIRED, [], [], [])))"

definition collect_channels :: "Rule list \<Rightarrow> string list" where
  "collect_channels chosen = dict_fromkeys (concat (map rl_filing_channels chosen))"

definition citation_key :: "SourceCitation \<Rightarrow> uuid option \<times> uuid option" where
  "citation_key c = (ci_source_id c, ci_snapshot_id c)"

definition citation_status :: "(uuid \<rightharpoonup> string) \<Rightarrow> SourceCitation \<Rightarrow> string" where
  "citation_status freshness_map c =
     (case (case ci_snapshot_id c of None \<Rightarrow> None | Some s \<Rightarrow> freshness_map s) of
        Some (ch # st) \<Rightarrow> ch # st
      | _ \<Rightarrow> (case ci_freshness_status c of Some (ch # st) \<Rightarrow> ch # st | _ \<Rightarrow> ''UNKNOWN''))"

text \<open>The first citation of every (source, snapshot) pair.\<close>

fun first_citations ::
  "(uuid option \<times> uuid option) list \<Rightarrow> SourceCitation list \<Rightarrow> SourceCitation list" where
  "first_citations seen [] = []"
| "first_citations seen (c # cs) =
     (if citation_key c \<in> set seen then first_citations seen cs
      else c # first_citations (citation_key c # seen) cs)"

definition confident :: "RequirementOutcome \<Rightarrow> bool" where
  "confident out \<longleftrightarrow> out = LIKELY_REQUIRED \<or> out = LIKELY_NOT_REQUIRED"

definition evaluate_jurisdiction ::
  "rule_lib \<Rightarrow> EvaluationSettings \<Rightarrow> (uuid \<rightharpoonup> string) \<Rightarrow> bool \<Rightarrow> uuid \<Rightarrow> uuid option \<Rightarrow> jdict \<Rightarrow> Rule list \<Rightarrow>
     date \<Rightarrow> py_error + JurisdictionResult" where
  "evaluate_jurisdiction lib policy freshness_map in_scope jid lid facts rules d =
     (if \<not> in_scope then
        Inr \<lparr>jr_jurisdiction_id = jid, jr_license_type_id = lid, jr_outcome = OUT_OF_SCOPE,
             jr_filing_channels = [], jr_facts_used = [], jr_missing_facts = [],
             jr_matched_rule_ids = [], jr_conflicting_rule_ids = [], jr_source_citations = [],
             jr_source_freshness_status = ''NO_SOURCE'',
             jr_requires_human_review = require_human_review policy,
             jr_requires_counsel_review = False, jr_notes = []\<rparr>
      else
        (let effective = resolve_effective_rules d (Some jid) lid rules in
         bindE (evaluate_rules lib facts effective empty_trace) (\<lambda>(matches, unknown_matches, trace).
         (let declared = filter (\<lambda>p. jget (facts_used trace) p = None)
                           (concat (map rl_required_facts effective));
              missing = sort (dict_fromkeys (missing_facts trace @ declared));
              (o0, chosen, conflict_ids, n0) = reconcile effective matches unknown_matches;
              cited = first_citations [] (concat (map rl_citations chosen));
              statuses = map (citation_status freshness_map) cited;
              fresh = summarize statuses;
              citations = map (\<lambda>c. c\<lparr>ci_freshness_status := Some (citation_status freshness_map c)\<rparr>) cited;
              has_authoritative = list_ex (\<lambda>c. ci_authority_level c \<in> set AUTHORITATIVE_LEVELS) cited;
              counsel0 = (list_ex rl_requires_counsel_review chosen \<or> o0 = COUNSEL_REVIEW);
              stale = (fresh \<in> {''STALE'', ''NO_SOURCE''} \<and> confident o0);
              o1 = (if stale then (if o0 = LIKELY_REQUIRED then POSSIBLY_REQUIRED else COUNSEL_REVIEW) else o0);
              weak = (escalate_non_authoritative_sources policy \<and> chosen \<noteq> [] \<and> citations \<noteq> [] \<and>
                      \<not> has_authoritative \<and> confident o1);
              o2 = (if weak then POSSIBLY_REQUIRED else o1);
              counsel = (counsel0 \<or> stale \<or> weak \<or>
                         (require_counsel_for_not_required policy \<and> o2 = LIKELY_NOT_REQUIRED))
          in Inr \<lparr>jr_jurisdiction_id = jid, jr_license_type_id = lid, jr_outcome = o2,
                  jr_filing_channels = collect_channels chosen, jr_facts_used = facts_used trace,
                  jr_missing_facts = missing, jr_matched_rule_ids = map rl_id chosen,
                  jr_conflicting_rule_ids = conflict_ids, jr_source_citations = citations,
                  jr_source_freshness_status = fresh,
                  jr_requires_human_review = (require_human_review policy \<or> counsel),
                  jr_requires_counsel_review = counsel,
                  jr_notes = n0 @ (if stale then [''downgraded_by_source_freshness''] else []) @
                    (if weak then [''no_authoritative_source''] else [])\<rparr>))))"

subsection \<open>Lemmas\<close>

lemma more_cautious_counsel [simp]: "more_cautious a COUNSEL_REVIEW = COUNSEL_REVIEW"
  by (cases a) (simp_all add: more_cautious_def)

lemma evaluate_rules_returns:
  "(\<And>r tr. r \<in> set rs \<Longrightarrow> \<exists>x. evaluate lib facts (rl_conditions r) tr = Inr x) \<Longrightarrow>
     \<exists>x. evaluate_rules lib facts rs tr = Inr x"
proof (induction rs arbitrary: tr)
  case (Cons r rs)
  obtain t tr1 where "evaluate lib facts (rl_conditions r) tr = Inr (t, tr1)"
    using Cons.prems [of r tr] by auto
  moreover obtain ms us tr2 where "evaluate_rules lib facts rs tr1 = Inr (ms, us, tr2)"
    using Cons.IH [of tr1] Cons.prems by auto
  ultimately show ?case by simp
qed simp

lemma evaluate_rules_subset:
  "evaluate_rules lib facts rs tr = Inr (ms, us, tr') \<Longrightarrow> set ms \<subseteq> set rs \<and> set us \<subseteq> set rs"
  by (induction rs arbitrary: ms us tr) (auto simp: err_simps split: if_splits, blast+)

lemma first_citations_key:
  "c \<in> set (first_citations seen cs) \<Longrightarrow> c \<in> set cs \<and> citation_key c \<notin> set seen"
  by (induction seen cs rule: first_citations.induct) (auto split: if_splits)

lemma distinct_first_citations: "distinct (map citation_key (first_citations seen cs))"
proof (induction seen cs rule: first_citations.induct)
  case (2 seen c cs)
  have "citation_key c \<notin> citation_key ` set (first_citations (citation_key c # seen) cs)"
    using first_citations_key by fastforce
  with 2 show ?case by auto
qed simp

lemma SEVERITY_simps [simp]:
  "SEVERITY ''NO_SOURCE'' = 4" "SEVERITY ''STALE'' = 3" "SEVERITY ''UNKNOWN'' = 2"
  "SEVERITY ''DUE_FOR_VERIFICATION'' = 1" "SEVERITY ''FRESH'' = 0"
  by (simp_all add: SEVERITY_def)

text \<open>The warning threshold of the default windows is exactly four fifths of the window, in spite
  of the inexact factor.\<close>

lemma due_soon_ratio: "DUE_SOON_RATIO = 7205759403792794 / 2 ^ 53"
  unfolding DUE_SOON_RATIO_def
  by (subst fl_eq [where e = "- 1" and n = 7205759403792794]) (simp_all add: normal_def pow2_def)

lemma due_threshold_defaults:
  "due_threshold 90 = 72" "due_threshold 180 = 144" "due_threshold 365 = 292" "due_threshold 730 = 584"
proof -
  have "fl (90 * (7205759403792794 / 2 ^ 53)) = 72" "fl (180 * (7205759403792794 / 2 ^ 53)) = 144"
    by (subst fl_eq [where e = 6 and n = 5066549580791808],
        (simp_all add: normal_def pow2_def)[6],
        subst fl_eq [where e = 7 and n = 5066549580791808], simp_all add: normal_def pow2_def)
  moreover have "fl (365 * (7205759403792794 / 2 ^ 53)) = 292" "fl (730 * (7205759403792794 / 2 ^ 53)) = 584"
    by (subst fl_eq [where e = 8 and n = 5136918324969472],
        (simp_all add: normal_def pow2_def)[6],
        subst fl_eq [where e = 9 and n = 5136918324969472], simp_all add: normal_def pow2_def)
  ultimately show "due_threshold 90 = 72" "due_threshold 180 = 144" "due_threshold 365 = 292" "due_threshold 730 = 584"
    using py_trunc_of_int [of 72] py_trunc_of_int [of 144] py_trunc_of_int [of 292] py_trunc_of_int [of 584]
    by (simp_all add: due_threshold_def due_soon_ratio)
qed

subsection \<open>Properties\<close>

text \<open>Rule resolution returns exactly the enabled, in-force, in-scope rules, and the rule that
  is considered first is at least as specific as every other and, among those as specific, of at
  most their priority number.\<close>

theorem effective_rules_specific_first:
  "set (resolve_effective_rules d j l rules) = {r \<in> set rules. rule_applicable d j l r} \<and>
   (\<forall>r \<in> set (resolve_effective_rules d j l rules).
      specificity r \<le> specificity (hd (resolve_effective_rules d j l rules)) \<and>
      (specificity r = specificity (hd (resolve_effective_rules d j l rules)) \<longrightarrow>
         rl_priority (hd (resolve_effective_rules d j l rules)) \<le> rl_priority r))"
proof -
  have "rule_sort_key (hd (resolve_effective_rules d j l rules)) \<le> rule_sort_key r"
    if "r \<in> set (resolve_effective_rules d j l rules)" for r
    using that rules.hd_resolve_minimal [of r rules] by (simp add: rules.set_resolve)
  then have "specificity r \<le> specificity (hd (resolve_effective_rules d j l rules)) \<and>
      (specificity r = specificity (hd (resolve_effective_rules d j l rules)) \<longrightarrow>
         rl_priority (hd (resolve_effective_rules d j l rules)) \<le> rl_priority r)"
    if "r \<in> set (resolve_effective_rules d j l rules)" for r
    using that by (fastforce simp: rule_sort_key_def less_eq_prod_def)
  then show ?thesis using rules.set_resolve by blast
qed

definition ex_citation :: SourceCitation where
  "ex_citation = \<lparr>ci_source_id = Some 1, ci_snapshot_id = None, ci_title = ''Statute'',
     ci_authority_level = ''OFFICIAL_PRIMARY'', ci_source_type = ''STATUTE'', ci_official_url = None,
     ci_snapshot_version = None, ci_last_verified_at = None, ci_effective_date = None,
     ci_citation_detail = None, ci_freshness_status = None\<rparr>"

definition ex_req_rule :: "nat \<Rightarrow> RequirementOutcome \<Rightarrow> Rule" where
  "ex_req_rule i out = \<lparr>rl_id = i, rl_rule_key = ''r'', rl_outcome = out,
     rl_conditions = JObj [(''fact'', JStr ''a''), (''op'', JStr ''is_true'')], rl_priority = 100,
     rl_jurisdiction_id = None, rl_license_type_id = None, rl_filing_channels = [''NMLS''],
     rl_required_facts = [''b''], rl_effective_from = None, rl_effective_to = None,
     rl_requires_counsel_review = False, rl_enabled = True, rl_citations = [ex_citation]\<rparr>"

theorem effective_rules_specific_first_witness:
  "resolve_effective_rules (Date 2026 1 1) (Some 5) None
     [ex_req_rule 3 LIKELY_REQUIRED, (ex_req_rule 2 LIKELY_REQUIRED)\<lparr>rl_jurisdiction_id := Some 5\<rparr>] \<noteq> [] \<and>
   specificity (hd (resolve_effective_rules (Date 2026 1 1) (Some 5) None
     [ex_req_rule 3 LIKELY_REQUIRED, (ex_req_rule 2 LIKELY_REQUIRED)\<lparr>rl_jurisdiction_id := Some 5\<rparr>])) \<ge> 1"
proof -
  let ?rs = "[ex_req_rule 3 LIKELY_REQUIRED, (ex_req_rule 2 LIKELY_REQUIRED)\<lparr>rl_jurisdiction_id := Some 5\<rparr>]"
  have r: "rule_applicable (Date 2026 1 1) (Some 5) None (?rs ! 1)" "specificity (?rs ! 1) = 1"
    by (simp_all add: ex_req_rule_def rule_applicable_def is_effective_on_def effective_between_def
        in_scope_of_def specificity_def specificity_of_def)
  then have m: "?rs ! 1 \<in> set (resolve_effective_rules (Date 2026 1 1) (Some 5) None ?rs)"
    using effective_rules_specific_first [of "Date 2026 1 1" "Some 5" None ?rs] by simp
  then have "resolve_effective_rules (Date 2026 1 1) (Some 5) None ?rs \<noteq> []" by (metis empty_iff empty_set)
  with m r effective_rules_specific_first [of "Date 2026 1 1" "Some 5" None ?rs] show ?thesis by fastforce
qed

text \<open>Freshness only degrades: for one source, the assessment at a later moment is never better
  than at an earlier one.\<close>

theorem freshness_only_degrades:
  assumes "m \<le> m'"
  shows "SEVERITY (fa_status (assess_source ty al v e od dd m)) \<le>
         SEVERITY (fa_status (assess_source ty al v e od dd m'))"
proof -
  have "td_days (m - x) \<le> td_days (m' - x)" for x using assms by (intro td_days_mono) simp
  then show ?thesis using assms
    by (auto simp: assess_source_def Let_def split: option.splits dest: order_trans)
qed

theorem freshness_only_degrades_witness:
  "SEVERITY (fa_status (assess_source ''STATUTE'' ''OFFICIAL_PRIMARY'' (Some 0) None None None 0)) \<le>
   SEVERITY (fa_status (assess_source ''STATUTE'' ''OFFICIAL_PRIMARY'' (Some 0) None None None (800 * day_us)))"
  by (rule freshness_only_degrades) (simp add: day_us_def)

text \<open>C10. The answer that a licence is likely not required is given only when the jurisdiction is in
  scope, the first matching rule says so with no rule of equal precedence disagreeing and no rule left
  unresolved, the cited sources are not stale or absent, one of them is authoritative when the policy
  asks for that, and counsel review is set when the policy asks for that.\<close>

theorem not_required_is_guarded:
  assumes "evaluate_jurisdiction lib policy fm in_scope jid lid facts rules d = Inr res"
    and "jr_outcome res = LIKELY_NOT_REQUIRED"
  shows "in_scope \<and>
     (\<exists>m ms tr. evaluate_rules lib facts (resolve_effective_rules d (Some jid) lid rules) empty_trace =
          Inr (m # ms, [], tr) \<and> rl_outcome m = LIKELY_NOT_REQUIRED \<and> conflict_peers m (m # ms) = []) \<and>
     jr_source_citations res \<noteq> [] \<and> jr_source_freshness_status res \<notin> {''STALE'', ''NO_SOURCE''} \<and>
     (escalate_non_authoritative_sources policy \<longrightarrow>
        (\<exists>c \<in> set (jr_source_citations res). ci_authority_level c \<in> set AUTHORITATIVE_LEVELS)) \<and>
     (require_counsel_for_not_required policy \<longrightarrow> jr_requires_counsel_review res)"
proof -
  let ?eff = "resolve_effective_rules d (Some jid) lid rules"
  have sc: in_scope using assms by (auto simp: evaluate_jurisdiction_def split: if_splits)
  with assms(1) obtain ms us tr where ev: "evaluate_rules lib facts ?eff empty_trace = Inr (ms, us, tr)"
    by (auto simp: evaluate_jurisdiction_def Let_def err_simps)
  obtain o0 chosen ids n0 where rec: "reconcile ?eff ms us = (o0, chosen, ids, n0)"
    by (cases "reconcile ?eff ms us")
  let ?cited = "first_citations [] (concat (map rl_citations chosen))"
  let ?fresh = "summarize (map (citation_status fm) ?cited)"
  have res: "o0 = LIKELY_NOT_REQUIRED" "?fresh \<notin> {''STALE'', ''NO_SOURCE''}"
    "jr_source_freshness_status res = ?fresh"
    "jr_source_citations res = map (\<lambda>c. c\<lparr>ci_freshness_status := Some (citation_status fm c)\<rparr>) ?cited"
    "escalate_non_authoritative_sources policy \<Longrightarrow> chosen = [] \<or> ?cited = [] \<or>
       list_ex (\<lambda>c. ci_authority_level c \<in> set AUTHORITATIVE_LEVELS) ?cited"
    "require_counsel_for_not_required policy \<Longrightarrow> jr_requires_counsel_review res"
    using assms sc ev rec
    by (auto simp: evaluate_jurisdiction_def Let_def confident_def split: if_splits)
  have ne: "?cited \<noteq> []" using res(2) by (auto simp: summarize_def)
  then have ch: "chosen \<noteq> []" by auto
  have "us = [] \<and> (\<exists>m ms'. ms = m # ms' \<and> rl_outcome m = LIKELY_NOT_REQUIRED \<and> conflict_peers m ms = [])"
    using rec res(1) ch
    by (auto simp: reconcile_def Let_def split: if_splits list.splits)
  moreover have "\<exists>c \<in> set (jr_source_citations res). ci_authority_level c \<in> set AUTHORITATIVE_LEVELS"
    if "escalate_non_authoritative_sources policy"
    using res(4) res(5) [OF that] ne ch by (auto simp: list_ex_iff)
  ultimately show ?thesis using sc ev res ne by auto
qed

text \<open>C37. Disagreement at equal precedence is never arbitrated: when a matching rule of the
  specificity and priority of the first one has another outcome, the result is counsel review, counsel
  review is required, and both rules are recorded as conflicting.\<close>

theorem conflicts_escalate_to_counsel:
  assumes "evaluate_rules lib facts (resolve_effective_rules d (Some jid) lid rules) empty_trace = Inr (m # ms, us, tr)"
    and "p \<in> set ms" and "specificity p = specificity m" and "rl_priority p = rl_priority m"
    and "rl_outcome p \<noteq> rl_outcome m"
  shows "\<exists>res. evaluate_jurisdiction lib policy fm True jid lid facts rules d = Inr res \<and>
     jr_outcome res = COUNSEL_REVIEW \<and> jr_requires_counsel_review res \<and> jr_requires_human_review res \<and>
     {rl_id m, rl_id p} \<subseteq> set (jr_conflicting_rule_ids res)"
proof -
  let ?eff = "resolve_effective_rules d (Some jid) lid rules"
  have ne: "?eff \<noteq> []" using assms(1) by (cases ?eff) auto
  have peer: "p \<in> set (conflict_peers m (m # ms))" using assms by (simp add: conflict_peers_def)
  then have pne: "conflict_peers m (m # ms) \<noteq> []" by auto
  obtain ch n where rec: "reconcile ?eff (m # ms) us =
      (COUNSEL_REVIEW, ch, rl_id m # map rl_id (conflict_peers m (m # ms)), n)"
    using ne pne by (simp add: reconcile_def Let_def)
  show ?thesis using peer
    by (simp add: evaluate_jurisdiction_def assms(1) rec Let_def confident_def)
qed

text \<open>C38. With validated rules whose operators cannot raise, every jurisdiction gets a result.\<close>

theorem jurisdiction_always_gets_result:
  assumes "\<forall>r \<in> set rules. valid_rule lib (rl_conditions r) \<and>
       set (leaf_ops (rl_conditions r)) \<inter> {''is_empty'', ''contains_any'', ''contains_all''} = {}"
  shows "\<exists>res. evaluate_jurisdiction lib policy fm in_scope jid lid facts rules d = Inr res"
proof (cases in_scope)
  case True
  have "\<exists>x. evaluate_rules lib facts (resolve_effective_rules d (Some jid) lid rules) empty_trace = Inr x"
    by (rule evaluate_rules_returns)
      (use assms evaluate_returns [OF valid_rule_ok] in \<open>auto simp: rules.set_resolve partial_ops_def\<close>)
  then obtain ms us tr where
    "evaluate_rules lib facts (resolve_effective_rules d (Some jid) lid rules) empty_trace = Inr (ms, us, tr)"
    by (metis prod_cases3)
  with True show ?thesis
    by (simp add: evaluate_jurisdiction_def Let_def split: prod.split)
qed (simp add: evaluate_jurisdiction_def)

subsection \<open>Witnesses and boundary behaviour\<close>

definition ex_policy :: EvaluationSettings where
  "ex_policy = \<lparr>require_human_review = True, require_counsel_for_not_required = True,
     escalate_non_authoritative_sources = True\<rparr>"

definition ex_known :: jdict where
  "ex_known = [(''a'', JBool True), (''b'', JBool True)]"

definition ex_result :: "Rule list \<Rightarrow> py_error + JurisdictionResult" where
  "ex_result rules = evaluate_jurisdiction ex_lib ex_policy (\<lambda>_. None) True 5 None ex_known rules (Date 2026 1 1)"

lemma ex_evaluate: "evaluate ex_lib ex_known (JObj [(''fact'', JStr ''a''), (''op'', JStr ''is_true'')]) tr =
    Inr (TRUE, note_used ''a'' (JBool True) tr)"
proof -
  have "logical_key [(''fact'', JStr ''a''), (''op'', JStr ''is_true'')] = None" by code_simp
  from evaluate_simps(1) [OF this] show ?thesis
    by (simp add: eval_comparison_def jget_def Let_def py_str_def resolve_fact_def ex_known_def truth_of_def)
qed

lemma ex_rules_valid:
  "valid_rule ex_lib (JObj [(''fact'', JStr ''a''), (''op'', JStr ''is_true'')])"
  "set (leaf_ops (JObj [(''fact'', JStr ''a''), (''op'', JStr ''is_true'')])) \<inter>
     {''is_empty'', ''contains_any'', ''contains_all''} = {}"
proof -
  let ?n = "JObj [(''fact'', JStr ''a''), (''op'', JStr ''is_true'')]"
  have "\<not> isl (validate_conditions ex_lib ?n 0 0)" by code_simp
  then show "valid_rule ex_lib ?n" unfolding valid_rule_def by (cases "validate_conditions ex_lib ?n 0 0") auto
  show "set (leaf_ops ?n) \<inter> {''is_empty'', ''contains_any'', ''contains_all''} = {}" by code_simp
qed

lemma ex_effective:
  "resolve_effective_rules (Date 2026 1 1) (Some 5) None [ex_req_rule i out] = [ex_req_rule i out]"
  "resolve_effective_rules (Date 2026 1 1) (Some 5) None [ex_req_rule i out, ex_req_rule k out'] =
     [ex_req_rule i out, ex_req_rule k out']"
  by (simp_all add: resolve_effective_rules_def rule_applicable_def is_effective_on_def effective_between_def
      in_scope_of_def ex_req_rule_def rule_sort_key_def specificity_def)

lemma ex_rules_evaluate:
  "\<exists>tr. evaluate_rules ex_lib ex_known [ex_req_rule i out] empty_trace = Inr ([ex_req_rule i out], [], tr) \<and>
     facts_used tr = [(''a'', JBool True)] \<and> missing_facts tr = []"
  "\<exists>tr. evaluate_rules ex_lib ex_known [ex_req_rule i out, ex_req_rule k out'] empty_trace =
     Inr ([ex_req_rule i out, ex_req_rule k out'], [], tr)"
proof -
  have c: "rl_conditions (ex_req_rule i out) = JObj [(''fact'', JStr ''a''), (''op'', JStr ''is_true'')]" for i out
    by (simp add: ex_req_rule_def)
  show "\<exists>tr. evaluate_rules ex_lib ex_known [ex_req_rule i out] empty_trace = Inr ([ex_req_rule i out], [], tr) \<and>
     facts_used tr = [(''a'', JBool True)] \<and> missing_facts tr = []"
    by (simp add: c ex_evaluate note_used_def empty_trace_def)
  show "\<exists>tr. evaluate_rules ex_lib ex_known [ex_req_rule i out, ex_req_rule k out'] empty_trace =
     Inr ([ex_req_rule i out, ex_req_rule k out'], [], tr)"
    by (simp add: c ex_evaluate)
qed

lemma ex_outcome:
  assumes "confident out"
  shows "\<exists>res. ex_result [ex_req_rule 3 out] = Inr res \<and> jr_outcome res = out \<and>
     jr_missing_facts res = [''b''] \<and> jr_source_freshness_status res = ''UNKNOWN''"
proof -
  obtain tr where tr: "evaluate_rules ex_lib ex_known [ex_req_rule 3 out] empty_trace = Inr ([ex_req_rule 3 out], [], tr)"
    "facts_used tr = [(''a'', JBool True)]" "missing_facts tr = []" using ex_rules_evaluate(1) by blast
  have rec: "reconcile [ex_req_rule 3 out] [ex_req_rule 3 out] [] = (out, [ex_req_rule 3 out], [], [])"
    by (simp add: reconcile_def conflict_peers_def ex_req_rule_def)
  have p: "rl_citations (ex_req_rule 3 out) = [ex_citation]" "rl_required_facts (ex_req_rule 3 out) = [''b'']"
    "\<not> rl_requires_counsel_review (ex_req_rule 3 out)"
    by (simp_all add: ex_req_rule_def)
  have st: "citation_status (\<lambda>_. None) ex_citation = ''UNKNOWN''" "ci_authority_level ex_citation \<in> set AUTHORITATIVE_LEVELS"
    by (simp_all add: citation_status_def ex_citation_def AUTHORITATIVE_LEVELS_def)
  show ?thesis using assms
    by (simp add: ex_result_def evaluate_jurisdiction_def ex_effective(1) tr rec Let_def p jget_def summarize_def st
        del: evaluate_rules.simps)
qed

theorem not_required_is_guarded_witness:
  "\<exists>res. ex_result [ex_req_rule 3 LIKELY_NOT_REQUIRED] = Inr res \<and> jr_source_citations res \<noteq> [] \<and>
     jr_requires_counsel_review res"
proof -
  obtain res where r: "ex_result [ex_req_rule 3 LIKELY_NOT_REQUIRED] = Inr res" "jr_outcome res = LIKELY_NOT_REQUIRED"
    using ex_outcome by (auto simp: confident_def)
  from not_required_is_guarded [OF r(1) [unfolded ex_result_def] r(2)] r(1) show ?thesis
    by (auto simp: ex_policy_def)
qed

theorem conflicts_escalate_to_counsel_witness:
  "\<exists>res. ex_result [ex_req_rule 3 LIKELY_NOT_REQUIRED, ex_req_rule 2 LIKELY_REQUIRED] = Inr res \<and>
     jr_outcome res = COUNSEL_REVIEW"
proof -
  let ?a = "ex_req_rule 3 LIKELY_NOT_REQUIRED" and ?b = "ex_req_rule 2 LIKELY_REQUIRED"
  obtain tr where "evaluate_rules ex_lib ex_known (resolve_effective_rules (Date 2026 1 1) (Some 5) None [?a, ?b])
      empty_trace = Inr (?a # [?b], [], tr)"
    unfolding ex_effective(2) using ex_rules_evaluate(2) by blast
  from conflicts_escalate_to_counsel [OF this, of ?b] show ?thesis
    by (auto simp: ex_result_def ex_req_rule_def specificity_def)
qed

theorem jurisdiction_always_gets_result_witness:
  "\<exists>res. evaluate_jurisdiction ex_lib ex_policy (\<lambda>_. None) True 5 None [] [ex_req_rule 3 LIKELY_REQUIRED] (Date 2026 1 1)
     = Inr res"
  by (rule jurisdiction_always_gets_result) (use ex_rules_valid in \<open>simp add: ex_req_rule_def\<close>)

text \<open>A fact that a rule declares as required is reported as missing although it was supplied,
  when the rule's conditions do not consult it: the code compares the declared facts with the facts
  consulted, not with the facts supplied.\<close>

theorem supplied_fact_reported_missing:
  "\<exists>res. evaluate_jurisdiction ex_lib ex_policy (\<lambda>_. None) True 5 None ex_known [ex_req_rule 3 LIKELY_REQUIRED]
       (Date 2026 1 1) = Inr res \<and>
     ''b'' \<in> set (jr_missing_facts res) \<and> resolve_fact ex_known ''b'' = (True, JBool True)"
proof -
  have "resolve_fact ex_known ''b'' = (True, JBool True)"
    by (simp add: resolve_fact_def ex_known_def jget_def)
  then show ?thesis using ex_outcome [of LIKELY_REQUIRED] by (auto simp: confident_def ex_result_def)
qed

text \<open>A result backed only by a source that was never verified keeps its confident outcome: the
  guard lists stale and absent sources, not unverified ones.\<close>

theorem never_verified_source_stays_confident:
  "\<exists>res. evaluate_jurisdiction ex_lib ex_policy (\<lambda>_. None) True 5 None ex_known [ex_req_rule 3 LIKELY_REQUIRED]
       (Date 2026 1 1) = Inr res \<and>
     jr_outcome res = LIKELY_REQUIRED \<and> jr_source_freshness_status res = ''UNKNOWN''"
  using ex_outcome [of LIKELY_REQUIRED] by (auto simp: confident_def ex_result_def)

end
