(* ===== verification/Recurrence.thy ===== *)
theory Recurrence
  imports Py_Date Py_Json Py_Text Py_Num
begin

text \<open>
  Recurrence expansion (\<^verbatim>\<open>app/deadlines/recurrence.py\<close>): the next due date of an obligation
  under one of ten recurrence types, and the list of occurrences in a planning window.
\<close>

subsection \<open>Configuration values\<close>

text \<open>\<^verbatim>\<open>isinstance(v, int)\<close> holds of booleans, which are the integers 0 and 1.\<close>

fun int_instance :: "json \<Rightarrow> int option" where
  "int_instance (JInt n) = Some n"
| "int_instance (JBool b) = Some (if b then 1 else 0)"
| "int_instance _ = None"

text \<open>\<^verbatim>\<open>int(v)\<close>.\<close>

fun py_int :: "json \<Rightarrow> py_error + int" where
  "py_int (JInt n) = Inr n"
| "py_int (JBool b) = Inr (if b then 1 else 0)"
| "py_int (JFloat q) = Inr (py_trunc q)"
| "py_int (JStr s) = (case parse_int s of None \<Rightarrow> Inl ValueError | Some n \<Rightarrow> Inr n)"
| "py_int _ = Inl TypeError"

datatype recurrence_error = RecurrenceError string | RecRaised py_error

definition rec_py :: "py_error + 'a \<Rightarrow> recurrence_error + 'a" where
  "rec_py m = (case m of Inl e \<Rightarrow> Inl (RecRaised e) | Inr a \<Rightarrow> Inr a)"

lemma rec_py_simps [simp]: "rec_py (Inl e) = Inl (RecRaised e)" "rec_py (Inr a) = Inr a"
  by (simp_all add: rec_py_def)

lemma rec_py_Inr [err_simps]: "rec_py m = Inr a \<longleftrightarrow> m = Inr a"
  by (cases m) simp_all

record RecurrenceContext =
  rc_issue_date :: "date option"
  rc_effective_date :: "date option"
  rc_expiration_date :: "date option"
  rc_regulator_supplied_due_date :: "date option"
  rc_bond_expiration_date :: "date option"
  rc_annual_report_date :: "date option"
  rc_last_completed_date :: "date option"
  rc_case_event_date :: "date option"
  rc_manual_date :: "date option"

subsection \<open>Dates\<close>

definition safe_date :: "int \<Rightarrow> int \<Rightarrow> int \<Rightarrow> py_error + date" where
  "safe_date year month day =
     bindE (monthrange_days year month) (\<lambda>last'. mk_date year month (min day last'))"

definition reached :: "date \<Rightarrow> bool \<Rightarrow> date \<Rightarrow> bool" where
  "reached after inclusive d \<longleftrightarrow> after < d \<or> (d = after \<and> inclusive)"

definition next_annual :: "int \<Rightarrow> int \<Rightarrow> date \<Rightarrow> bool \<Rightarrow> py_error + date" where
  "next_annual anchor_month anchor_day after inclusive =
     bindE (safe_date (dt_year after) anchor_month anchor_day) (\<lambda>candidate.
       if candidate < after \<or> (candidate = after \<and> \<not> inclusive)
       then safe_date (dt_year after + 1) anchor_month anchor_day else Inr candidate)"

definition or_date :: "date option \<Rightarrow> date option \<Rightarrow> date option" where
  "or_date a b = (case a of None \<Rightarrow> b | Some d \<Rightarrow> Some d)"

definition config_int :: "jdict \<Rightarrow> string \<Rightarrow> int \<Rightarrow> recurrence_error + int" where
  "config_int config k d = rec_py (py_int (jget_or config k (JInt d)))"

definition month_and_day :: "jdict \<Rightarrow> (int \<times> int) option" where
  "month_and_day config =
     (case (int_instance (jget_or config ''month'' JNull), int_instance (jget_or config ''day'' JNull)) of
        (Some m, Some d) \<Rightarrow> Some (m, d) | _ \<Rightarrow> None)"

text \<open>One step of the custom interval: months first, then days; either is skipped when zero.\<close>

definition advance_interval :: "int \<Rightarrow> int \<Rightarrow> date \<Rightarrow> py_error + date" where
  "advance_interval months days c =
     bindE (if months \<noteq> 0
            then (let total = dt_month c - 1 + months
                  in safe_date (dt_year c + total div 12) (total mod 12 + 1) (dt_day c))
            else Inr c) (\<lambda>c1.
       if days \<noteq> 0 then add_days c1 days else Inr c1)"

fun custom_loop :: "nat \<Rightarrow> int \<Rightarrow> int \<Rightarrow> date \<Rightarrow> bool \<Rightarrow> date \<Rightarrow> py_error + date option" where
  "custom_loop 0 months days after inclusive c = Inr None"
| "custom_loop (Suc n) months days after inclusive c =
     bindE (advance_interval months days c) (\<lambda>c'.
       if reached after inclusive c' then Inr (Some c') else custom_loop n months days after inclusive c')"

definition next_occurrence ::
  "string \<Rightarrow> jdict \<Rightarrow> RecurrenceContext \<Rightarrow> date \<Rightarrow> bool \<Rightarrow> recurrence_error + date option" where
  "next_occurrence rtype config ctx after inclusive =
     (let only_if_reached = (\<lambda>d. Inr (case d of None \<Rightarrow> None
                                  | Some x \<Rightarrow> if reached after inclusive x then Some x else None)) in
      if rtype = ''FIXED_ANNUAL_DATE'' then
        (case month_and_day config of
           None \<Rightarrow> Inl (RecurrenceError ''FIXED_ANNUAL_DATE requires integer month and day'')
         | Some (m, d) \<Rightarrow> bindE (rec_py (next_annual m d after inclusive)) (\<lambda>x. Inr (Some x)))
      else if rtype = ''ISSUE_ANNIVERSARY'' then
        (case or_date (rc_issue_date ctx) (rc_effective_date ctx) of
           None \<Rightarrow> Inr None
         | Some anchor \<Rightarrow>
           bindE (config_int config ''interval_years'' 1) (\<lambda>interval.
           bindE (rec_py (safe_date (dt_year after) (dt_month anchor) (dt_day anchor))) (\<lambda>candidate.
             if candidate < after \<or> (candidate = after \<and> \<not> inclusive)
             then bindE (rec_py (safe_date (dt_year after + interval) (dt_month anchor) (dt_day anchor)))
                    (\<lambda>x. Inr (Some x))
             else Inr (Some candidate))))
      else if rtype = ''EXPIRATION_ANNIVERSARY'' then
        (case rc_expiration_date ctx of
           None \<Rightarrow> Inr None
         | Some anchor \<Rightarrow>
           (if reached after inclusive anchor then Inr (Some anchor)
            else bindE (config_int config ''interval_years'' 1) (\<lambda>interval.
                 bindE (rec_py (safe_date (dt_year anchor + interval) (dt_month anchor) (dt_day anchor)))
                   (\<lambda>x. Inr (Some x)))))
      else if rtype = ''REGULATOR_SUPPLIED'' then only_if_reached (rc_regulator_supplied_due_date ctx)
      else if rtype = ''NMLS_ANNUAL_RENEWAL_WINDOW'' then
        bindE (config_int config ''window_end_month'' 12) (\<lambda>m.
        bindE (config_int config ''window_end_day'' 31) (\<lambda>d.
        bindE (rec_py (next_annual m d after inclusive)) (\<lambda>x. Inr (Some x))))
      else if rtype = ''BOND_EXPIRATION'' then only_if_reached (rc_bond_expiration_date ctx)
      else if rtype = ''ANNUAL_REPORT_DATE'' then
        (case (case rc_annual_report_date ctx of
                 None \<Rightarrow> None | Some a \<Rightarrow> if reached after inclusive a then Some a else None) of
           Some a \<Rightarrow> Inr (Some a)
         | None \<Rightarrow>
           (case month_and_day config of
              Some (m, d) \<Rightarrow> bindE (rec_py (next_annual m d after inclusive)) (\<lambda>x. Inr (Some x))
            | None \<Rightarrow>
              (case rc_annual_report_date ctx of
                 None \<Rightarrow> Inr None
               | Some a \<Rightarrow> bindE (rec_py (safe_date (dt_year after + 1) (dt_month a) (dt_day a)))
                            (\<lambda>x. Inr (Some x)))))
      else if rtype = ''RELATIVE_TO_CASE_EVENT'' then
        (case rc_case_event_date ctx of
           None \<Rightarrow> Inr None
         | Some anchor \<Rightarrow>
           bindE (config_int config ''offset_days'' 0) (\<lambda>offset.
           bindE (rec_py (add_days anchor offset)) (\<lambda>x. Inr (Some x))))
      else if rtype = ''CUSTOM_INTERVAL'' then
        (case or_date (rc_last_completed_date ctx) (or_date (rc_expiration_date ctx)
                (or_date (rc_effective_date ctx) (rc_issue_date ctx))) of
           None \<Rightarrow> Inr None
         | Some anchor \<Rightarrow>
           bindE (config_int config ''interval_months'' 0) (\<lambda>months.
           bindE (config_int config ''interval_days'' 0) (\<lambda>days.
             if months \<le> 0 \<and> days \<le> 0
             then Inl (RecurrenceError ''CUSTOM_INTERVAL requires a positive interval_months or interval_days'')
             else rec_py (custom_loop 400 months days after inclusive anchor))))
      else if rtype = ''MANUAL_DATE'' then
        (case rc_manual_date ctx of
           Some m \<Rightarrow> only_if_reached (Some m)
         | None \<Rightarrow>
           (case jget_or config ''date'' JNull of
              JStr s \<Rightarrow> (case fromisoformat s of
                 None \<Rightarrow> Inl (RecurrenceError ''MANUAL_DATE has an invalid date'')
               | Some m \<Rightarrow> only_if_reached (Some m))
            | _ \<Rightarrow> Inr None))
      else Inl (RecurrenceError ''Unsupported recurrence type''))"

subsection \<open>Expansion\<close>

definition SINGLE_SHOT :: "string list" where
  "SINGLE_SHOT = [''REGULATOR_SUPPLIED'', ''BOND_EXPIRATION'', ''MANUAL_DATE'', ''RELATIVE_TO_CASE_EVENT'']"

fun expand_loop ::
  "nat \<Rightarrow> string \<Rightarrow> jdict \<Rightarrow> RecurrenceContext \<Rightarrow> date \<Rightarrow> date \<Rightarrow> bool \<Rightarrow> recurrence_error + date list" where
  "expand_loop 0 rtype config ctx horizon_end cursor inclusive = Inr []"
| "expand_loop (Suc n) rtype config ctx horizon_end cursor inclusive =
     bindE (next_occurrence rtype config ctx cursor inclusive) (\<lambda>nxt.
       case nxt of
         None \<Rightarrow> Inr []
       | Some d \<Rightarrow>
         (if horizon_end < d then Inr []
          else if rtype \<in> set SINGLE_SHOT then Inr [d]
          else bindE (expand_loop n rtype config ctx horizon_end d False) (\<lambda>ds. Inr (d # ds))))"

definition expand ::
  "string \<Rightarrow> jdict \<Rightarrow> RecurrenceContext \<Rightarrow> date \<Rightarrow> date \<Rightarrow> int \<Rightarrow> recurrence_error + date list" where
  "expand rtype config ctx start horizon_end limit =
     expand_loop (nat limit) rtype config ctx horizon_end start True"

subsection \<open>Occurrences move forward\<close>

definition clamp :: "int \<Rightarrow> int \<Rightarrow> int \<Rightarrow> date" where
  "clamp y m d = Date y m (min d (days_in_month y m))"

lemma clamp_sel [simp]: "dt_year (clamp y m d) = y" "dt_month (clamp y m d) = m"
  by (simp_all add: clamp_def)

lemma safe_date_Inr [err_simps]:
  "safe_date y m d = Inr x \<longleftrightarrow> 1 \<le> y \<and> y \<le> 9999 \<and> 1 \<le> m \<and> m \<le> 12 \<and> 1 \<le> d \<and> x = clamp y m d"
  using days_in_month_bounds(1) [of y m]
  by (auto simp: safe_date_def monthrange_days_def mk_date_def valid_date_def proper_date_def clamp_def)

lemma valid_clamp: "1 \<le> y \<Longrightarrow> y \<le> 9999 \<Longrightarrow> 1 \<le> m \<Longrightarrow> m \<le> 12 \<Longrightarrow> 1 \<le> d \<Longrightarrow> valid_date (clamp y m d)"
  using days_in_month_bounds(1) [of y m] by (simp add: clamp_def valid_date_def proper_date_def)

lemma less_year: "dt_year a < dt_year b \<Longrightarrow> a < b"
  by (simp add: less_date_def)

lemma le_year: "a \<le> b \<Longrightarrow> dt_year a \<le> dt_year b"
  by (auto simp: less_eq_date_def)

lemma next_annual_Inr:
  "next_annual m d after inclusive = Inr x \<Longrightarrow> reached after inclusive x \<and> valid_date x"
  using less_year [of after x]
  by (auto simp: next_annual_def err_simps reached_def valid_clamp not_less split: if_splits)

lemma next_annual_defined:
  assumes "1 \<le> dt_year after" "dt_year after \<le> 9998" "1 \<le> m" "m \<le> 12" "1 \<le> d"
  shows "next_annual m d after inclusive =
    Inr (if reached after inclusive (clamp (dt_year after) m d) then clamp (dt_year after) m d
         else clamp (dt_year after + 1) m d)"
proof -
  have "safe_date (dt_year after) m d = Inr (clamp (dt_year after) m d)"
    "safe_date (dt_year after + 1) m d = Inr (clamp (dt_year after + 1) m d)"
    using assms by (simp_all add: safe_date_Inr)
  then show ?thesis by (auto simp: next_annual_def reached_def)
qed

lemma custom_loop_reached:
  "custom_loop n months days after inclusive c = Inr (Some x) \<Longrightarrow> reached after inclusive x"
  by (induction n arbitrary: c) (auto simp: err_simps split: if_splits)

text \<open>The anchored types for which the next date depends on the given day.\<close>

definition forward_type :: "string \<Rightarrow> jdict \<Rightarrow> bool" where
  "forward_type rtype config \<longleftrightarrow>
     rtype \<noteq> ''EXPIRATION_ANNIVERSARY'' \<and> rtype \<noteq> ''RELATIVE_TO_CASE_EVENT'' \<and>
     (rtype = ''ISSUE_ANNIVERSARY'' \<longrightarrow> (\<exists>n \<ge> 1. config_int config ''interval_years'' 1 = Inr n))"

lemma not_reached: "d < after \<or> (d = after \<and> \<not> inclusive) \<longleftrightarrow> \<not> reached after inclusive d"
  by (auto simp: reached_def)

lemma reached_later_year: "dt_year after < dt_year d \<Longrightarrow> reached after inclusive d"
  by (simp add: reached_def less_year)

lemma next_occurrence_reached:
  assumes "forward_type rtype config" "next_occurrence rtype config ctx after inclusive = Inr (Some x)"
  shows "reached after inclusive x"
  using assms
  by (auto simp: next_occurrence_def forward_type_def Let_def err_simps not_reached reached_later_year
      dest: next_annual_Inr custom_loop_reached split: if_splits option.splits json.splits prod.splits)

lemma expand_loop_sorted:
  assumes "forward_type rtype config"
  shows "expand_loop n rtype config ctx h c inclusive = Inr ds \<Longrightarrow>
    sorted_wrt (<) ds \<and> length ds \<le> n \<and> (\<forall>d \<in> set ds. reached c inclusive d \<and> d \<le> h)"
proof (induction n arbitrary: c inclusive ds)
  case (Suc n)
  then consider "ds = []" | x where "next_occurrence rtype config ctx c inclusive = Inr (Some x)" "x \<le> h" "ds = [x]"
    | x ds' where "next_occurrence rtype config ctx c inclusive = Inr (Some x)" "x \<le> h"
        "expand_loop n rtype config ctx h x False = Inr ds'" "ds = x # ds'"
    by (auto simp: err_simps not_less split: option.splits if_splits)
  then show ?case
  proof cases
    case (3 x ds')
    then have "sorted_wrt (<) ds' \<and> length ds' \<le> n \<and> (\<forall>d \<in> set ds'. x < d \<and> d \<le> h)"
      using Suc.IH [OF 3(3)] by (auto simp: reached_def)
    moreover have "reached c inclusive x" using next_occurrence_reached [OF assms 3(1)] .
    ultimately show ?thesis using 3 by (auto simp: reached_def dest: order.strict_trans)
  qed (use next_occurrence_reached [OF assms] in auto)
qed simp

subsection \<open>Fixed annual dates\<close>

text \<open>The reference: the anniversaries of all years of the window that lie in the window.\<close>

definition anniversaries :: "int \<Rightarrow> int \<Rightarrow> (date \<Rightarrow> bool) \<Rightarrow> int \<Rightarrow> int \<Rightarrow> date list" where
  "anniversaries m d P a b = filter P (map (\<lambda>y. clamp y m d) [a..b])"

lemma anniversaries_Cons:
  "a \<le> b \<Longrightarrow> anniversaries m d P a b =
    (if P (clamp a m d) then [clamp a m d] else []) @ anniversaries m d P (a + 1) b"
  by (simp add: anniversaries_def upto_rec1)

lemma anniversaries_empty: "b < a \<Longrightarrow> anniversaries m d P a b = []"
  by (simp add: anniversaries_def)

lemma anniversaries_cong:
  "(\<And>y. a \<le> y \<Longrightarrow> y \<le> b \<Longrightarrow> P (clamp y m d) = Q (clamp y m d)) \<Longrightarrow>
    anniversaries m d P a b = anniversaries m d Q a b"
  unfolding anniversaries_def by (intro filter_cong) auto

lemma anniversaries_next:
  assumes x: "x = (if reached c inc (clamp (dt_year c) m d) then clamp (dt_year c) m d else clamp (dt_year c + 1) m d)"
  shows "anniversaries m d (\<lambda>z. reached c inc z \<and> z \<le> h) (dt_year c) (dt_year h) =
    (if h < x then [] else x # anniversaries m d (\<lambda>z. reached x False z \<and> z \<le> h) (dt_year x) (dt_year h))"
proof -
  let ?P = "\<lambda>z. reached c inc z \<and> z \<le> h" and ?Q = "\<lambda>z. reached x False z \<and> z \<le> h"
  have later: "anniversaries m d ?P (dt_year x + 1) b = anniversaries m d ?Q (dt_year x + 1) b" for b
  proof (rule anniversaries_cong)
    fix y assume "dt_year x + 1 \<le> y"
    then have "x < clamp y m d" "c < clamp y m d" using x by (auto intro!: less_year split: if_splits)
    then show "?P (clamp y m d) = ?Q (clamp y m d)" by (simp add: reached_def)
  qed
  have rx: "reached c inc x" using x less_year [of c "clamp (dt_year c + 1) m d"] by (auto simp: reached_def)
  have cx: "x = clamp (dt_year x) m d" using x by auto
  have first: "anniversaries m d ?P (dt_year x) (dt_year h) =
    (if h < x then [] else x # anniversaries m d ?Q (dt_year x + 1) (dt_year h))"
  proof (cases "dt_year x \<le> dt_year h")
    case True
    have "anniversaries m d ?Q (dt_year x + 1) (dt_year h) = []" if "h < x"
    proof -
      have "anniversaries m d ?Q (dt_year x + 1) (dt_year h) = anniversaries m d (\<lambda>_. False) (dt_year x + 1) (dt_year h)"
        using that by (intro anniversaries_cong) (auto simp: reached_def dest: order.strict_trans order_less_le_trans)
      then show ?thesis by (simp add: anniversaries_def)
    qed
    then show ?thesis using True rx cx later by (auto simp: anniversaries_Cons not_less)
  next
    case False
    then have "h < x" by (intro less_year) simp
    then show ?thesis using False by (simp add: anniversaries_empty)
  qed
  have "anniversaries m d ?P (dt_year c) (dt_year h) = anniversaries m d ?P (dt_year x) (dt_year h)"
    using x by (cases "dt_year c \<le> dt_year h")
      (auto simp: anniversaries_Cons anniversaries_empty)
  moreover have "anniversaries m d ?Q (dt_year x) (dt_year h) = anniversaries m d ?Q (dt_year x + 1) (dt_year h)"
    using cx by (cases "dt_year x \<le> dt_year h") (auto simp: anniversaries_Cons anniversaries_empty reached_def)
  ultimately show ?thesis using first by simp
qed

lemma expand_loop_annual:
  assumes "month_and_day config = Some (m, d)" "1 \<le> m" "m \<le> 12" "1 \<le> d" "dt_year h \<le> 9998"
  shows "1 \<le> dt_year c \<Longrightarrow> dt_year c \<le> 9998 \<Longrightarrow>
    expand_loop n ''FIXED_ANNUAL_DATE'' config ctx h c inc =
      Inr (take n (anniversaries m d (\<lambda>z. reached c inc z \<and> z \<le> h) (dt_year c) (dt_year h)))"
proof (induction n arbitrary: c inc)
  case (Suc n)
  define x where "x = (if reached c inc (clamp (dt_year c) m d) then clamp (dt_year c) m d else clamp (dt_year c + 1) m d)"
  have nx: "next_occurrence ''FIXED_ANNUAL_DATE'' config ctx c inc = Inr (Some x)"
    using next_annual_defined [OF Suc.prems assms(2-4)] assms(1) by (simp add: next_occurrence_def x_def)
  have "1 \<le> dt_year x" using Suc.prems by (simp add: x_def)
  moreover have "dt_year x \<le> 9998" if "\<not> h < x" using that le_year [of x h] assms(5) by (simp add: not_less)
  ultimately show ?case
    using Suc.IH nx anniversaries_next [OF x_def, of h] by (simp add: SINGLE_SHOT_def)
qed simp

subsection \<open>Properties\<close>

text \<open>For every recurrence type except the expiration anniversary and the case-event offset (and for
  the issue anniversary with a positive interval), the expansion lists strictly increasing dates inside
  the planning window, at most as many as the limit.\<close>

theorem expand_strictly_increasing:
  assumes "forward_type rtype config" and "expand rtype config ctx start horizon_end limit = Inr ds"
  shows "sorted_wrt (<) ds \<and> length ds \<le> nat limit \<and> (\<forall>d \<in> set ds. start \<le> d \<and> d \<le> horizon_end)"
  using expand_loop_sorted [OF assms(1) assms(2) [unfolded expand_def]] by (auto simp: reached_def)

definition ex_context :: RecurrenceContext where
  "ex_context = \<lparr>rc_issue_date = None, rc_effective_date = None, rc_expiration_date = Some (Date 2026 2 28),
     rc_regulator_supplied_due_date = None, rc_bond_expiration_date = None, rc_annual_report_date = None,
     rc_last_completed_date = None, rc_case_event_date = None, rc_manual_date = None\<rparr>"

theorem expand_strictly_increasing_witness:
  "sorted_wrt (<) [Date 2026 5 28, Date 2026 8 28, Date 2026 11 28]"
proof -
  have "forward_type ''CUSTOM_INTERVAL'' [(''interval_months'', JInt 3)]" by (simp add: forward_type_def)
  moreover have "expand ''CUSTOM_INTERVAL'' [(''interval_months'', JInt 3)] ex_context (Date 2026 3 1) (Date 2027 1 1) 6 =
      Inr [Date 2026 5 28, Date 2026 8 28, Date 2026 11 28]" by code_simp
  ultimately show ?thesis using expand_strictly_increasing by blast
qed

text \<open>A fixed annual date expands to exactly the anniversaries that fall into the window, clamped to
  the end of the month, in order and cut at the limit; nothing is skipped and nothing raises.\<close>

theorem fixed_annual_expansion_exact:
  assumes "month_and_day config = Some (m, d)" and "1 \<le> m" and "m \<le> 12" and "1 \<le> d"
    and "1 \<le> dt_year start" and "dt_year start \<le> 9998" and "dt_year horizon_end \<le> 9998"
  shows "expand ''FIXED_ANNUAL_DATE'' config ctx start horizon_end limit =
    Inr (take (nat limit) (filter (\<lambda>x. start \<le> x \<and> x \<le> horizon_end)
      (map (\<lambda>y. Date y m (min d (days_in_month y m))) [dt_year start..dt_year horizon_end])))"
proof -
  have "(\<lambda>x. reached start True x \<and> x \<le> horizon_end) = (\<lambda>x. start \<le> x \<and> x \<le> horizon_end)"
    by (auto simp: reached_def)
  then show ?thesis using expand_loop_annual [OF assms(1-4,7) assms(5,6), of "nat limit" ctx True]
    by (simp add: expand_def anniversaries_def clamp_def)
qed

theorem fixed_annual_expansion_exact_witness:
  "expand ''FIXED_ANNUAL_DATE'' [(''month'', JInt 2), (''day'', JInt 31)] ex_context (Date 2027 3 1) (Date 2029 2 28) 6 =
     Inr [Date 2028 2 29, Date 2029 2 28]"
proof -
  have "month_and_day [(''month'', JInt 2), (''day'', JInt 31)] = Some (2, 31)" by code_simp
  from fixed_annual_expansion_exact [OF this, of "Date 2027 3 1" "Date 2029 2 28" ex_context 6]
  have "expand ''FIXED_ANNUAL_DATE'' [(''month'', JInt 2), (''day'', JInt 31)] ex_context (Date 2027 3 1) (Date 2029 2 28) 6 =
    Inr (take (nat 6) (filter (\<lambda>x. Date 2027 3 1 \<le> x \<and> x \<le> Date 2029 2 28)
      (map (\<lambda>y. Date y 2 (min 31 (days_in_month y 2))) [2027..2029])))" by simp
  moreover have "take (nat 6) (filter (\<lambda>x. Date 2027 3 1 \<le> x \<and> x \<le> Date 2029 2 28)
      (map (\<lambda>y. Date y 2 (min 31 (days_in_month y 2))) [2027..2029])) = [Date 2028 2 29, Date 2029 2 28]"
    by code_simp
  ultimately show ?thesis by simp
qed

text \<open>The expiration anniversary does not advance: after the expiration date itself the expansion
  repeats the date one interval later until the limit is used up.\<close>

theorem expiration_anniversary_repeats:
  assumes "rc_expiration_date ctx = Some a" and "valid_date a" and "dt_year a \<le> 9998" and "start \<le> a"
    and "Date (dt_year a + 1) (dt_month a) (min (dt_day a) (days_in_month (dt_year a + 1) (dt_month a))) \<le> horizon_end"
    and "1 \<le> limit"
  shows "expand ''EXPIRATION_ANNIVERSARY'' [] ctx start horizon_end limit =
    Inr (a # replicate (nat limit - 1)
      (Date (dt_year a + 1) (dt_month a) (min (dt_day a) (days_in_month (dt_year a + 1) (dt_month a)))))"
proof -
  let ?b = "clamp (dt_year a + 1) (dt_month a) (dt_day a)"
  have b: "safe_date (dt_year a + 1) (dt_month a) (dt_day a) = Inr ?b"
    using assms(2,3) by (auto simp: safe_date_Inr valid_date_def proper_date_def)
  have ab: "a < ?b" by (intro less_year) simp
  have nx: "next_occurrence ''EXPIRATION_ANNIVERSARY'' [] ctx c False = Inr (Some ?b)" if "a \<le> c" for c
    using that assms(1) b by (auto simp: next_occurrence_def reached_def config_int_def jget_or_def jget_def)
  have rest: "expand_loop n ''EXPIRATION_ANNIVERSARY'' [] ctx horizon_end c False = Inr (replicate n ?b)" if "a \<le> c" for n c
    using that
  proof (induction n arbitrary: c)
    case (Suc n)
    then show ?case using nx assms(5) ab by (simp add: SINGLE_SHOT_def clamp_def [symmetric] not_less)
  qed simp
  obtain n where n: "nat limit = Suc n" using assms(6) by (cases "nat limit") auto
  have "next_occurrence ''EXPIRATION_ANNIVERSARY'' [] ctx start True = Inr (Some a)"
    using assms(1,4) by (auto simp: next_occurrence_def reached_def)
  moreover have "\<not> horizon_end < a" using ab assms(5) by (simp add: clamp_def [symmetric] not_less)
  ultimately show ?thesis using rest [of a n] n by (simp add: expand_def SINGLE_SHOT_def clamp_def)
qed

theorem expiration_anniversary_repeats_witness:
  "expand ''EXPIRATION_ANNIVERSARY'' [] ex_context (Date 2026 1 1) (Date 2027 6 30) 6 =
     Inr [Date 2026 2 28, Date 2027 2 28, Date 2027 2 28, Date 2027 2 28, Date 2027 2 28, Date 2027 2 28]"
proof -
  have "rc_expiration_date ex_context = Some (Date 2026 2 28)" "valid_date (Date 2026 2 28)" "Date 2026 1 1 \<le> Date 2026 2 28"
    "Date (2026 + 1) 2 (min 28 (days_in_month (2026 + 1) 2)) \<le> Date 2027 6 30" by code_simp+
  with expiration_anniversary_repeats [of ex_context "Date 2026 2 28" "Date 2026 1 1" "Date 2027 6 30" 6]
  show ?thesis by (simp add: days_in_month_def is_leap_def numeral_eq_Suc)
qed

end
