(* ===== verification/Deadline_Rules.thy ===== *)
theory Deadline_Rules
  imports Recurrence Requirements
begin

text \<open>
  Deadline policies (\<^verbatim>\<open>app/deadlines/rules.py\<close>, \<^verbatim>\<open>app/deadlines/enums.py\<close>): the milestone
  ladder scaled to the lead time, the escalation ladder and alert windows read from configuration, the
  validation of configurations, and the choice of the policy of an obligation.
\<close>

subsection \<open>Enumerations and defaults\<close>

definition RecurrenceType :: "string list" where
  "RecurrenceType = [''FIXED_ANNUAL_DATE'', ''ISSUE_ANNIVERSARY'', ''EXPIRATION_ANNIVERSARY'',
     ''REGULATOR_SUPPLIED'', ''NMLS_ANNUAL_RENEWAL_WINDOW'', ''BOND_EXPIRATION'', ''ANNUAL_REPORT_DATE'',
     ''RELATIVE_TO_CASE_EVENT'', ''CUSTOM_INTERVAL'', ''MANUAL_DATE'']"

definition AdjustmentPolicy :: "string list" where
  "AdjustmentPolicy = [''NONE'', ''PREVIOUS_BUSINESS_DAY'', ''NEXT_BUSINESS_DAY'', ''JURISDICTION_SPECIFIC'',
     ''MANUAL_REVIEW'']"

definition DeadlineType :: "string list" where
  "DeadlineType = [''INTERNAL_START'', ''VENDOR_OUTREACH'', ''INFORMATION_DUE'', ''DOCUMENT_PACKET_DUE'',
     ''FORM_COMPLETION_DUE'', ''SIGNATURE_DUE'', ''SUBMISSION_DUE'', ''STATUTORY_DUE'', ''BOND_EXPIRY'',
     ''ANNUAL_REPORT_DUE'', ''DOCUMENT_EXPIRY'', ''FOLLOW_UP'']"

definition INTERNAL_DEADLINE_TYPES :: "string list" where
  "INTERNAL_DEADLINE_TYPES = [''INTERNAL_START'', ''VENDOR_OUTREACH'', ''INFORMATION_DUE'', ''DOCUMENT_PACKET_DUE'',
     ''FORM_COMPLETION_DUE'', ''SIGNATURE_DUE'', ''SUBMISSION_DUE'', ''FOLLOW_UP'']"

definition DEFAULT_ALERT_WINDOWS :: "int list" where
  "DEFAULT_ALERT_WINDOWS = [120, 90, 60, 30, 14, 7, 3, 0]"

definition DEFAULT_MILESTONE_OFFSETS :: "(string \<times> int) list" where
  "DEFAULT_MILESTONE_OFFSETS =
     [(''INTERNAL_START'', 30), (''VENDOR_OUTREACH'', 28), (''INFORMATION_DUE'', 21),
      (''DOCUMENT_PACKET_DUE'', 16), (''FORM_COMPLETION_DUE'', 10), (''SIGNATURE_DUE'', 6),
      (''SUBMISSION_DUE'', 3)]"

definition DEFAULT_ESCALATION_LADDER :: "(int \<times> string) list" where
  "DEFAULT_ESCALATION_LADDER =
     [(120, ''OWNER''), (90, ''OWNER''), (60, ''OWNER''), (30, ''REVIEWER''), (14, ''REVIEWER''),
      (7, ''MANAGER''), (3, ''MANAGER''), (0, ''MANAGER'')]"

subsection \<open>Policies\<close>

datatype rule_config_error = DeadlineRuleConfigError string | RuleRaised py_error

record DeadlinePolicy =
  pol_id :: "uuid option"
  pol_rule_key :: string
  pol_obligation_type :: string
  pol_recurrence_type :: string
  pol_recurrence_config :: jdict
  pol_adjustment_policy :: string
  pol_lead_time_days :: "int option"
  pol_milestone_offsets :: "(string \<times> int) list"
  pol_escalation_policy :: jdict
  pol_jurisdiction_id :: "uuid option"
  pol_license_type_id :: "uuid option"
  pol_effective_from :: "date option"
  pol_effective_to :: "date option"
  pol_priority :: int

definition policy_effective_on :: "DeadlinePolicy \<Rightarrow> date \<Rightarrow> bool" where
  "policy_effective_on p d = effective_between (pol_effective_from p) (pol_effective_to p) d"

definition policy_specificity :: "DeadlinePolicy \<Rightarrow> int" where
  "policy_specificity p = specificity_of (pol_jurisdiction_id p) (pol_license_type_id p)"

definition policy_lead :: "DeadlinePolicy \<Rightarrow> int \<Rightarrow> int" where
  "policy_lead p default_lead_days = (case pol_lead_time_days p of None \<Rightarrow> default_lead_days | Some n \<Rightarrow> n)"

text \<open>\<^verbatim>\<open>round(offset * (lead / 30))\<close> in binary64, kept between one day and the lead.\<close>

definition scaled_offset :: "int \<Rightarrow> int \<Rightarrow> int" where
  "scaled_offset lead offset =
     max 1 (min (py_round (fl (of_int offset * fl (of_int lead / 30)))) lead)"

definition offsets :: "DeadlinePolicy \<Rightarrow> int \<Rightarrow> (string \<times> int) list" where
  "offsets p default_lead_days =
     (if pol_milestone_offsets p \<noteq> [] then pol_milestone_offsets p
      else let lead = policy_lead p default_lead_days in
        if lead \<le> 0 then []
        else if lead = 30 then DEFAULT_MILESTONE_OFFSETS
        else dict_set (map (\<lambda>(k, offset). (k, scaled_offset lead offset)) DEFAULT_MILESTONE_OFFSETS)
               ''INTERNAL_START'' lead)"

fun ladder_of :: "rule_lib \<Rightarrow> jdict \<Rightarrow> (int \<times> string) list \<Rightarrow> rule_config_error + (int \<times> string) list" where
  "ladder_of lib [] acc = Inr acc"
| "ladder_of lib ((days, level) # rest) acc =
     (case parse_int days of
        None \<Rightarrow> Inl (DeadlineRuleConfigError ''Escalation ladder keys must be integer day counts'')
      | Some n \<Rightarrow> ladder_of lib rest (dict_set acc n (py_str lib level)))"

definition escalation_ladder :: "rule_lib \<Rightarrow> DeadlinePolicy \<Rightarrow> rule_config_error + (int \<times> string) list" where
  "escalation_ladder lib p =
     (case jget_or (pol_escalation_policy p) ''ladder'' JNull of
        JObj (x # xs) \<Rightarrow> ladder_of lib (x # xs) []
      | _ \<Rightarrow> Inr DEFAULT_ESCALATION_LADDER)"

definition alert_windows :: "DeadlinePolicy \<Rightarrow> py_error + int list" where
  "alert_windows p =
     (case jget_or (pol_escalation_policy p) ''alert_windows_days'' JNull of
        JList (x # xs) \<Rightarrow> bindE (mapE py_int (x # xs)) (\<lambda>ns. Inr (rev (sort (remdups ns))))
      | _ \<Rightarrow> Inr DEFAULT_ALERT_WINDOWS)"

subsection \<open>Validation\<close>

definition int_or_zero :: "jdict \<Rightarrow> string \<Rightarrow> rule_config_error + int" where
  "int_or_zero config k =
     (let v = jget_or config k (JInt 0)
      in case py_int (if truthy v then v else JInt 0) of Inl e \<Rightarrow> Inl (RuleRaised e) | Inr n \<Rightarrow> Inr n)"

definition int_between :: "json \<Rightarrow> int \<Rightarrow> int \<Rightarrow> bool" where
  "int_between v lo hi = (case int_instance v of None \<Rightarrow> False | Some n \<Rightarrow> lo \<le> n \<and> n \<le> hi)"

definition config_check :: "bool \<Rightarrow> string \<Rightarrow> rule_config_error + unit" where
  "config_check ok msg = (if ok then Inr () else Inl (DeadlineRuleConfigError msg))"

definition validate_recurrence_config :: "string \<Rightarrow> jdict \<Rightarrow> rule_config_error + unit" where
  "validate_recurrence_config rtype config =
     bindE (config_check (rtype \<in> set RecurrenceType) ''Unsupported recurrence type'') (\<lambda>_.
     if rtype = ''FIXED_ANNUAL_DATE'' then
       bindE (config_check (int_between (jget_or config ''month'' JNull) 1 12)
                ''FIXED_ANNUAL_DATE requires month between 1 and 12'') (\<lambda>_.
       config_check (int_between (jget_or config ''day'' JNull) 1 31)
                ''FIXED_ANNUAL_DATE requires day between 1 and 31'')
     else if rtype = ''CUSTOM_INTERVAL'' then
       bindE (int_or_zero config ''interval_months'') (\<lambda>months.
       bindE (int_or_zero config ''interval_days'') (\<lambda>days.
       config_check (\<not> (months \<le> 0 \<and> days \<le> 0))
                ''CUSTOM_INTERVAL requires a positive interval_months or interval_days''))
     else if rtype = ''NMLS_ANNUAL_RENEWAL_WINDOW'' then
       config_check (int_between (jget_or config ''window_end_month'' (JInt 12)) 1 12)
                ''NMLS window window_end_month must be 1-12''
     else Inr ())"

fun validate_milestone_offsets :: "jdict \<Rightarrow> rule_config_error + unit" where
  "validate_milestone_offsets [] = Inr ()"
| "validate_milestone_offsets ((k, v) # rest) =
     bindE (config_check (k \<in> set DeadlineType) ''Unknown deadline type in milestone offsets'') (\<lambda>_.
     bindE (config_check (case int_instance v of None \<Rightarrow> False | Some n \<Rightarrow> 0 \<le> n)
              ''Milestone offset must be a non-negative integer'') (\<lambda>_.
     validate_milestone_offsets rest))"

subsection \<open>Resolution\<close>

definition policy_applicable :: "string \<Rightarrow> date \<Rightarrow> uuid option \<Rightarrow> uuid option \<Rightarrow> DeadlinePolicy \<Rightarrow> bool" where
  "policy_applicable obligation_type d jurisdiction license_type p \<longleftrightarrow>
     pol_obligation_type p = obligation_type \<and> policy_effective_on p d \<and>
     in_scope_of (pol_jurisdiction_id p) jurisdiction \<and> in_scope_of (pol_license_type_id p) license_type"

definition policy_sort_key :: "DeadlinePolicy \<Rightarrow> int \<times> int \<times> string" where
  "policy_sort_key p = (- policy_specificity p, pol_priority p, pol_rule_key p)"

definition candidate_policies :: "string \<Rightarrow> date \<Rightarrow> uuid option \<Rightarrow> uuid option \<Rightarrow> DeadlinePolicy list \<Rightarrow> DeadlinePolicy list" where
  "candidate_policies obligation_type d j l ps =
     sort_key policy_sort_key (filter (policy_applicable obligation_type d j l) ps)"

definition resolve_policy ::
  "string \<Rightarrow> date \<Rightarrow> uuid option \<Rightarrow> uuid option \<Rightarrow> DeadlinePolicy list \<Rightarrow> DeadlinePolicy option" where
  "resolve_policy obligation_type d j l ps =
     (case candidate_policies obligation_type d j l ps of [] \<Rightarrow> None | p # _ \<Rightarrow> Some p)"

interpretation policies: rule_resolution "policy_applicable ty d j l" policy_sort_key "candidate_policies ty d j l"
  for ty d j l
  by unfold_locales (simp add: candidate_policies_def)

subsection \<open>Lemmas\<close>

lemma normal_ge: "1 / 60 \<le> x \<Longrightarrow> normal x"
proof -
  assume x: "1 / 60 \<le> x"
  then have "1 / 60 * 2 ^ 1022 \<le> x * 2 ^ 1022" by (intro mult_right_mono) simp_all
  moreover have "(1 :: rat) \<le> 1 / 60 * 2 ^ 1022" by simp
  ultimately show ?thesis using x unfolding normal_def by (intro conjI) linarith+
qed

lemma fl_half: "normal x \<Longrightarrow> x / 2 \<le> fl x"
  using fl_range(1) [of x] expo_bounds(2) [of x] by (simp add: pow2_add) (simp add: pow2_def)

lemma scaled_offset_mono:
  assumes "1 \<le> lead" "1 \<le> a" "a \<le> b"
  shows "scaled_offset lead a \<le> scaled_offset lead b"
proof -
  let ?s = "fl (of_int lead / 30)"
  have l: "(1 :: rat) / 30 \<le> of_int lead / 30" using assms(1) by simp
  then have "1 / 60 \<le> ?s" using fl_half [of "of_int lead / 30"] normal_ge [of "of_int lead / 30"] by simp
  moreover from this have "1 * ?s \<le> of_int a * ?s" "of_int a * ?s \<le> of_int b * ?s"
    using assms(2,3) by (intro mult_right_mono; simp)+
  ultimately have "fl (of_int a * ?s) \<le> fl (of_int b * ?s)" by (intro fl_mono normal_ge) linarith+
  then have "py_round (fl (of_int a * ?s)) \<le> py_round (fl (of_int b * ?s))" by (rule py_round_mono)
  then show ?thesis by (auto simp: scaled_offset_def)
qed

lemma scaled_offset_bounds: "1 \<le> lead \<Longrightarrow> 1 \<le> scaled_offset lead a \<and> scaled_offset lead a \<le> lead"
  by (auto simp: scaled_offset_def)

lemma resolve_policy_Some:
  "resolve_policy ty d j l ps = Some p \<longleftrightarrow>
     candidate_policies ty d j l ps \<noteq> [] \<and> hd (candidate_policies ty d j l ps) = p"
  by (auto simp: resolve_policy_def split: list.splits)

subsection \<open>Properties\<close>

text \<open>The default milestone ladder stays ordered and actionable at every lead time: it has the
  seven milestones in their order, the first at the lead time itself, none later than one day before and
  none earlier than the lead time, and the distances to the due date never increase along the sequence.\<close>

theorem milestone_ladder_ordered:
  assumes "pol_milestone_offsets p = []" and "1 \<le> policy_lead p default_lead_days"
  shows "map fst (offsets p default_lead_days) = map fst DEFAULT_MILESTONE_OFFSETS \<and>
     map_of (offsets p default_lead_days) ''INTERNAL_START'' = Some (policy_lead p default_lead_days) \<and>
     sorted_wrt (\<ge>) (map snd (offsets p default_lead_days)) \<and>
     (\<forall>n \<in> set (map snd (offsets p default_lead_days)). 1 \<le> n \<and> n \<le> policy_lead p default_lead_days)"
proof (cases "policy_lead p default_lead_days = 30")
  case True
  then show ?thesis using assms by (simp add: offsets_def DEFAULT_MILESTONE_OFFSETS_def)
next
  case False
  let ?l = "policy_lead p default_lead_days"
  have "offsets p default_lead_days =
    [(''INTERNAL_START'', ?l), (''VENDOR_OUTREACH'', scaled_offset ?l 28), (''INFORMATION_DUE'', scaled_offset ?l 21),
     (''DOCUMENT_PACKET_DUE'', scaled_offset ?l 16), (''FORM_COMPLETION_DUE'', scaled_offset ?l 10),
     (''SIGNATURE_DUE'', scaled_offset ?l 6), (''SUBMISSION_DUE'', scaled_offset ?l 3)]"
    using assms False by (simp add: offsets_def DEFAULT_MILESTONE_OFFSETS_def Let_def)
  then show ?thesis
    using scaled_offset_bounds [OF assms(2)] scaled_offset_mono [OF assms(2)] assms(2)
    by (simp add: DEFAULT_MILESTONE_OFFSETS_def)
qed

definition ex_deadline_policy :: DeadlinePolicy where
  "ex_deadline_policy = \<lparr>pol_id = Some 9, pol_rule_key = ''annual'', pol_obligation_type = ''LICENSE_RENEWAL'',
     pol_recurrence_type = ''FIXED_ANNUAL_DATE'', pol_recurrence_config = [(''month'', JInt 7), (''day'', JInt 4)],
     pol_adjustment_policy = ''NONE'', pol_lead_time_days = Some 10, pol_milestone_offsets = [],
     pol_escalation_policy = [], pol_jurisdiction_id = None, pol_license_type_id = None,
     pol_effective_from = None, pol_effective_to = None, pol_priority = 100\<rparr>"

theorem milestone_ladder_ordered_witness:
  "sorted_wrt (\<ge>) (map snd (offsets ex_deadline_policy 30)) \<and> map fst (offsets ex_deadline_policy 30) \<noteq> []"
  using milestone_ladder_ordered [of ex_deadline_policy 30]
  by (simp add: ex_deadline_policy_def policy_lead_def DEFAULT_MILESTONE_OFFSETS_def)

text \<open>Policy resolution is exact: it answers None exactly when no policy applies to the obligation,
  and otherwise an applicable policy that no applicable one precedes in (specificity, priority, key).\<close>

theorem resolve_policy_exact:
  "case resolve_policy ty d j l ps of
     None \<Rightarrow> (\<forall>q \<in> set ps. \<not> policy_applicable ty d j l q)
   | Some p \<Rightarrow> p \<in> set ps \<and> policy_applicable ty d j l p \<and>
       (\<forall>q \<in> set ps. policy_applicable ty d j l q \<longrightarrow>
          policy_specificity q < policy_specificity p \<or>
          policy_specificity q = policy_specificity p \<and>
            (pol_priority p, pol_rule_key p) \<le> (pol_priority q, pol_rule_key q))"
proof (cases "resolve_policy ty d j l ps")
  case None
  then show ?thesis using policies.resolve_Nil_iff [of ty d j l ps] by (simp add: resolve_policy_def split: list.splits)
next
  case (Some p)
  then have ne: "candidate_policies ty d j l ps \<noteq> []" "hd (candidate_policies ty d j l ps) = p"
    by (simp_all add: resolve_policy_Some)
  have "policy_sort_key p \<le> policy_sort_key q" if "q \<in> set ps" "policy_applicable ty d j l q" for q
    using policies.hd_resolve_minimal [OF that] ne(2) by simp
  then show ?thesis using Some policies.hd_resolve_applicable [OF ne(1)] ne(2)
    by (fastforce simp: policy_sort_key_def less_eq_prod_def)
qed

theorem resolve_policy_exact_witness:
  "\<exists>p. resolve_policy ''LICENSE_RENEWAL'' (Date 2026 1 1) (Some 5) None [ex_deadline_policy] = Some p \<and>
     p \<in> set [ex_deadline_policy]"
proof -
  have "policy_applicable ''LICENSE_RENEWAL'' (Date 2026 1 1) (Some 5) None ex_deadline_policy"
    by (simp add: policy_applicable_def ex_deadline_policy_def policy_effective_on_def effective_between_def in_scope_of_def)
  with resolve_policy_exact [where ty = "''LICENSE_RENEWAL''" and d = "Date 2026 1 1" and j = "Some 5" and l = None
      and ps = "[ex_deadline_policy]"]
  show ?thesis by (auto split: option.splits)
qed

end
