(* ===== verification/Escalation.thy ===== *)
theory Escalation
  imports Deadline_Rules
begin

text \<open>
  The escalation ladder (\<^verbatim>\<open>app/deadlines/escalation.py\<close>): whether a deadline has crossed into a
  window of a higher level than the last one notified, and who is told.
\<close>

subsection \<open>Instants and calendar days\<close>

text \<open>\<^verbatim>\<open>dt.date()\<close> of an instant in UTC; the first of January 1970 is day 719163.\<close>

definition utc_date :: "datetime \<Rightarrow> date" where
  "utc_date t = ord2ymd (719163 + td_days t)"

subsection \<open>Ladders\<close>

definition DEFAULT_OVERDUE_LADDER :: "(int \<times> string) list" where
  "DEFAULT_OVERDUE_LADDER = [(0, ''MANAGER''), (3, ''MANAGER''), (7, ''COUNSEL''), (14, ''EXECUTIVE'')]"

definition LEVEL_ORDER :: "(string \<times> int) list" where
  "LEVEL_ORDER = [(''OWNER'', 1), (''BACKUP_OWNER'', 2), (''REVIEWER'', 3), (''MANAGER'', 4), (''COUNSEL'', 5),
     (''EXECUTIVE'', 6)]"

record EscalationDecision =
  should_notify :: bool
  ed_level :: "string option"
  ed_window_days :: "int option"
  ed_days_remaining :: int
  ed_is_overdue :: bool
  ed_severity :: string
  ed_reason :: string

definition opt_text :: "string option \<Rightarrow> string" where
  "opt_text s = (case s of None \<Rightarrow> ''None'' | Some x \<Rightarrow> x)"

definition notification_key_suffix :: "EscalationDecision \<Rightarrow> string" where
  "notification_key_suffix d =
     (if ed_is_overdue d then ''overdue-'' else ''upcoming-'') @ opt_text (map_option str_int (ed_window_days d))"

definition level_rank :: "string option \<Rightarrow> int" where
  "level_rank level =
     (case map_of LEVEL_ORDER (case level of None \<Rightarrow> [] | Some l \<Rightarrow> l) of None \<Rightarrow> 0 | Some n \<Rightarrow> n)"

definition ladder_or :: "(int \<times> string) list option \<Rightarrow> (int \<times> string) list \<Rightarrow> (int \<times> string) list" where
  "ladder_or l d = (case l of Some (x # xs) \<Rightarrow> x # xs | _ \<Rightarrow> d)"

definition quiet :: "int \<Rightarrow> bool \<Rightarrow> string \<Rightarrow> string \<Rightarrow> EscalationDecision" where
  "quiet delta overdue severity reason =
     \<lparr>should_notify = False, ed_level = None, ed_window_days = None, ed_days_remaining = delta,
      ed_is_overdue = overdue, ed_severity = severity, ed_reason = reason\<rparr>"

text \<open>The decision on the number of days from the present day to the due day.\<close>

definition escalation_of ::
  "string option \<Rightarrow> (int \<times> string) list \<Rightarrow> (int \<times> string) list \<Rightarrow> bool \<Rightarrow> int \<Rightarrow> EscalationDecision" where
  "escalation_of last_level upcoming overdue overdue_enabled delta =
     (if delta < 0 then
        (if \<not> overdue_enabled
         then quiet delta True ''REGULATORY_RISK'' ''Overdue escalation is disabled by configuration.''
         else let days_past = \<bar>delta\<bar>;
                  crossed = filter (\<lambda>threshold. threshold \<le> days_past) (sort (map fst overdue)) in
           if crossed = [] then quiet delta True ''REGULATORY_RISK'' ''No overdue threshold reached.''
           else let threshold = last crossed; level = map_of overdue threshold;
                    should = (level_rank last_level < level_rank level) in
             \<lparr>should_notify = should, ed_level = level, ed_window_days = Some threshold,
              ed_days_remaining = delta, ed_is_overdue = True, ed_severity = ''REGULATORY_RISK'',
              ed_reason = (if should
                then ''Overdue by '' @ str_int days_past @ '' day(s); escalating to '' @ opt_text level @ ''.''
                else ''Already escalated to '' @ opt_text last_level @ ''.'')\<rparr>)
      else
        (let entered = filter (\<lambda>window. delta \<le> window) (sort (map fst upcoming)) in
         if entered = [] then quiet delta False ''INFORMATIONAL'' ''Outside every alert window.''
         else let window = hd entered; level = map_of upcoming window;
                  should = (level_rank last_level < level_rank level) in
           \<lparr>should_notify = should, ed_level = level, ed_window_days = Some window,
            ed_days_remaining = delta, ed_is_overdue = False,
            ed_severity = (if delta \<le> 3 then ''CRITICAL'' else if delta \<le> 14 then ''IMPORTANT'' else ''NORMAL''),
            ed_reason = (if should
              then str_int delta @ '' day(s) remaining; entered the '' @ str_int window @ ''-day window for '' @
                opt_text level @ ''.''
              else ''Already notified at or above '' @ opt_text last_level @ ''.'')\<rparr>))"

definition evaluate_escalation ::
  "datetime \<Rightarrow> string option \<Rightarrow> (int \<times> string) list option \<Rightarrow> (int \<times> string) list option \<Rightarrow> bool \<Rightarrow> datetime \<Rightarrow>
     EscalationDecision" where
  "evaluate_escalation due_at last_level ladder overdue_ladder overdue_enabled now =
     escalation_of last_level (ladder_or ladder DEFAULT_ESCALATION_LADDER)
       (ladder_or overdue_ladder DEFAULT_OVERDUE_LADDER) overdue_enabled
       (days_between (utc_date due_at) (utc_date now))"

subsection \<open>Recipients\<close>

definition first_truthy :: "string option list \<Rightarrow> string option" where
  "first_truthy xs = (case filter (\<lambda>x. x \<noteq> None \<and> x \<noteq> Some []) xs of [] \<Rightarrow> None | x # _ \<Rightarrow> x)"

definition resolve_recipient ::
  "string \<Rightarrow> string option \<Rightarrow> string option \<Rightarrow> string option \<Rightarrow> string option \<Rightarrow> string option \<Rightarrow> string option \<Rightarrow>
     string option" where
  "resolve_recipient level owner backup_owner reviewer manager counsel executive =
     first_truthy
       (case map_of [(''OWNER'', [owner, backup_owner, manager]), (''BACKUP_OWNER'', [backup_owner, owner, manager]),
          (''REVIEWER'', [reviewer, manager, owner]), (''MANAGER'', [manager, reviewer, owner]),
          (''COUNSEL'', [counsel, manager]), (''EXECUTIVE'', [executive, manager, counsel])] level of
          None \<Rightarrow> [owner] | Some chain \<Rightarrow> chain)"

subsection \<open>Lemmas\<close>

lemma level_rank_range: "0 \<le> level_rank l \<and> level_rank l \<le> 6"
  by (auto simp: level_rank_def LEVEL_ORDER_def split: option.splits if_splits)

lemma should_notify_rank:
  "should_notify (escalation_of last_level up over en delta) \<Longrightarrow>
     level_rank last_level < level_rank (ed_level (escalation_of last_level up over en delta))"
  by (auto simp: escalation_of_def quiet_def Let_def split: if_splits)

lemma days_between_utc: "days_between (utc_date a) (utc_date b) = td_days a - td_days b"
  by (simp add: days_between_def utc_date_def ord2ymd_toordinal)

text \<open>The level of the default ladders by the number of days left.\<close>

lemma default_level:
  "ed_level (escalation_of l DEFAULT_ESCALATION_LADDER DEFAULT_OVERDUE_LADDER True delta) =
     (if delta \<le> - 14 then Some ''EXECUTIVE'' else if delta \<le> - 7 then Some ''COUNSEL''
      else if delta \<le> 7 then Some ''MANAGER'' else if delta \<le> 30 then Some ''REVIEWER''
      else if delta \<le> 120 then Some ''OWNER'' else None)"
proof (cases "delta < 0")
  case True
  have "sort (map fst DEFAULT_OVERDUE_LADDER) = [0, 3, 7, 14]" by code_simp
  with True show ?thesis
    by (simp add: escalation_of_def DEFAULT_OVERDUE_LADDER_def Let_def quiet_def)
next
  case False
  have "sort (map fst DEFAULT_ESCALATION_LADDER) = [0, 3, 7, 14, 30, 60, 90, 120]" by code_simp
  with False show ?thesis
    by (simp add: escalation_of_def DEFAULT_ESCALATION_LADDER_def Let_def quiet_def)
qed

text \<open>The levels notified by sweeps at the given moments, each remembering the last level.\<close>

fun sweep_levels ::
  "datetime \<Rightarrow> (int \<times> string) list option \<Rightarrow> (int \<times> string) list option \<Rightarrow> bool \<Rightarrow> string option \<Rightarrow> datetime list \<Rightarrow>
     string option list" where
  "sweep_levels due ladder over en last_level [] = []"
| "sweep_levels due ladder over en last_level (now # later) =
     (let d = evaluate_escalation due last_level ladder over en now
      in if should_notify d then ed_level d # sweep_levels due ladder over en (ed_level d) later
         else sweep_levels due ladder over en last_level later)"

lemma sweep_levels_sorted:
  "sorted_wrt (<) (level_rank last_level # map level_rank (sweep_levels due ladder over en last_level moments))"
proof (induction moments arbitrary: last_level)
  case (Cons now later)
  let ?d = "evaluate_escalation due last_level ladder over en now"
  have "level_rank last_level < level_rank (ed_level ?d)" if "should_notify ?d"
    using that unfolding evaluate_escalation_def by (rule should_notify_rank)
  then show ?case using Cons.IH [of "ed_level ?d"] Cons.IH [of last_level]
    by (auto simp: Let_def dest: order.strict_trans)
qed simp

lemma sorted_wrt_less_length:
  "sorted_wrt (<) (xs :: int list) \<Longrightarrow> \<forall>x \<in> set xs. a \<le> x \<and> x \<le> b \<Longrightarrow> length xs \<le> nat (b - a + 1)"
proof -
  assume s: "sorted_wrt (<) xs" and r: "\<forall>x \<in> set xs. a \<le> x \<and> x \<le> b"
  have "distinct xs" using s by (simp add: strict_sorted_iff)
  then have "length xs = card (set xs)" by (simp add: distinct_card)
  also have "\<dots> \<le> card {a..b}" using r by (intro card_mono) auto
  finally show ?thesis by simp
qed

subsection \<open>Properties\<close>

text \<open>Escalation never repeats itself: whatever the ladders are and whenever the sweeps run, the
  levels notified for one deadline rise strictly above the last recorded one, so that no deadline is
  ever notified more than six times.\<close>

theorem escalation_never_repeats:
  "sorted_wrt (<) (level_rank last_level # map level_rank (sweep_levels due ladder over en last_level moments)) \<and>
   length (sweep_levels due ladder over en last_level moments) \<le> 6"
proof -
  have "length (level_rank last_level # map level_rank (sweep_levels due ladder over en last_level moments)) \<le> nat (6 - 0 + 1)"
    using level_rank_range by (intro sorted_wrt_less_length sweep_levels_sorted) auto
  then show ?thesis using sweep_levels_sorted by simp
qed

text \<open>With the default ladders the level only rises as time passes: the level that applies at a
  later moment is never below the one at an earlier moment, and two weeks after the due day it is the
  executive level.\<close>

theorem default_escalation_monotone:
  assumes "now \<le> now'"
  shows "level_rank (ed_level (evaluate_escalation due l None None True now)) \<le>
         level_rank (ed_level (evaluate_escalation due l None None True now')) \<and>
     (td_days due + 14 \<le> td_days now' \<longrightarrow>
        ed_level (evaluate_escalation due l None None True now') = Some ''EXECUTIVE'')"
  using td_days_mono [OF assms]
  by (auto simp: evaluate_escalation_def ladder_or_def default_level days_between_utc level_rank_def LEVEL_ORDER_def)

theorem default_escalation_monotone_witness:
  "ed_level (evaluate_escalation 0 None None None True (20 * day_us)) = Some ''EXECUTIVE''"
  using default_escalation_monotone [of 0 "20 * day_us" 0 None] by (simp add: td_days_def day_us_def)

end
