(* ===== verification/Business_Days.thy ===== *)
theory Business_Days
  imports Py_Date
begin

text \<open>
  Business-day arithmetic (\<^verbatim>\<open>app/deadlines/business_days.py\<close>): the computed federal holidays
  and the calendar that shifts dates over weekends and holidays. Every date operation may leave
  the range of Python's \<^verbatim>\<open>date\<close>, so the results are error values.
\<close>

subsection \<open>Federal holidays\<close>

definition WEEKEND :: "int list" where
  "WEEKEND = [5, 6]"

definition nth_weekday :: "int \<Rightarrow> int \<Rightarrow> int \<Rightarrow> int \<Rightarrow> py_error + date" where
  "nth_weekday year month wd n =
     bindE (mk_date year month 1) (\<lambda>first.
       add_days first ((wd - weekday first) mod 7 + 7 * (n - 1)))"

definition last_weekday :: "int \<Rightarrow> int \<Rightarrow> int \<Rightarrow> py_error + date" where
  "last_weekday year month wd =
     bindE (mk_date (year + (if month = 12 then 1 else 0)) (month mod 12 + 1) 1) (\<lambda>next_month.
     bindE (add_days next_month (- 1)) (\<lambda>last'.
       add_days last' (- ((weekday last' - wd) mod 7))))"

definition observed :: "date \<Rightarrow> py_error + date" where
  "observed day =
     (if weekday day = 5 then add_days day (- 1)
      else if weekday day = 6 then add_days day 1
      else Inr day)"

definition us_federal_holidays :: "int \<Rightarrow> py_error + date list" where
  "us_federal_holidays year =
     bindE (mapE (\<lambda>(m, d). mk_date year m d) [(1, 1), (6, 19), (7, 4), (11, 11), (12, 25)]) (\<lambda>fixed.
     bindE (nth_weekday year 1 0 3) (\<lambda>mlk.
     bindE (nth_weekday year 2 0 3) (\<lambda>washington.
     bindE (last_weekday year 5 0) (\<lambda>memorial.
     bindE (nth_weekday year 9 0 1) (\<lambda>labor.
     bindE (nth_weekday year 10 0 2) (\<lambda>columbus.
     bindE (nth_weekday year 11 3 4) (\<lambda>thanksgiving.
     bindE (mapE observed fixed) (\<lambda>obs.
       Inr (obs @ [mlk, washington, memorial, labor, columbus, thanksgiving])))))))))"

subsection \<open>The calendar\<close>

record BusinessCalendar =
  extra_holidays :: "date list"
  observe_federal :: bool
  weekend :: "int list"

definition DEFAULT_CALENDAR :: BusinessCalendar where
  "DEFAULT_CALENDAR = \<lparr>extra_holidays = [], observe_federal = True, weekend = WEEKEND\<rparr>"

definition is_holiday :: "BusinessCalendar \<Rightarrow> date \<Rightarrow> py_error + bool" where
  "is_holiday cal day =
     (if day \<in> set (extra_holidays cal) then Inr True
      else if observe_federal cal
        then bindE (us_federal_holidays (dt_year day)) (\<lambda>hs. Inr (day \<in> set hs))
      else Inr False)"

definition is_business_day :: "BusinessCalendar \<Rightarrow> date \<Rightarrow> py_error + bool" where
  "is_business_day cal day =
     (if weekday day \<in> set (weekend cal) then Inr False
      else bindE (is_holiday cal day) (\<lambda>b. Inr (\<not> b)))"

text \<open>The bounded search of \<^verbatim>\<open>next_business_day\<close> and \<^verbatim>\<open>previous_business_day\<close>: after the last
  round the candidate is returned unchecked.\<close>

fun seek_business_day :: "nat \<Rightarrow> BusinessCalendar \<Rightarrow> int \<Rightarrow> date \<Rightarrow> py_error + date" where
  "seek_business_day 0 cal step candidate = Inr candidate"
| "seek_business_day (Suc n) cal step candidate =
     bindE (is_business_day cal candidate) (\<lambda>b.
       if b then Inr candidate
       else bindE (add_days candidate step) (seek_business_day n cal step))"

definition next_business_day :: "BusinessCalendar \<Rightarrow> date \<Rightarrow> bool \<Rightarrow> py_error + date" where
  "next_business_day cal day inclusive =
     bindE (if inclusive then Inr day else add_days day 1) (seek_business_day 30 cal 1)"

definition previous_business_day :: "BusinessCalendar \<Rightarrow> date \<Rightarrow> bool \<Rightarrow> py_error + date" where
  "previous_business_day cal day inclusive =
     bindE (if inclusive then Inr day else add_days day (- 1)) (seek_business_day 30 cal (- 1))"

text \<open>The unbounded loop of \<^verbatim>\<open>add_business_days\<close>: it ends because the candidate leaves the range of
  dates at the latest.\<close>

function business_walk :: "BusinessCalendar \<Rightarrow> bool \<Rightarrow> nat \<Rightarrow> date \<Rightarrow> py_error + date" where
  "business_walk cal forward remaining candidate =
     (if remaining = 0 then Inr candidate
      else case add_days candidate (if forward then 1 else - 1) of
        Inl e \<Rightarrow> Inl e
      | Inr c \<Rightarrow> bindE (is_business_day cal c) (\<lambda>b.
          business_walk cal forward (if b then remaining - 1 else remaining) c))"
  by pat_completeness auto
termination
proof (relation "measure (\<lambda>(cal, forward, remaining, c).
    if forward then nat (max_ordinal - toordinal c) else nat (toordinal c))", goal_cases)
  case (2 cal forward remaining candidate c b)
  then have "valid_date c" "toordinal c = toordinal candidate + (if forward then 1 else - 1)"
    by (simp_all add: add_days_Inr)
  with valid_date_iff_range [of c] show ?case by auto
qed simp

declare business_walk.simps [simp del]

lemma business_walk_0 [simp]: "business_walk cal forward 0 c = Inr c"
  by (simp add: business_walk.simps)

definition add_business_days :: "BusinessCalendar \<Rightarrow> date \<Rightarrow> int \<Rightarrow> py_error + date" where
  "add_business_days cal day count =
     (if count = 0 then next_business_day cal day True
      else business_walk cal (0 < count) (nat \<bar>count\<bar>) day)"

text \<open>The adjustment policies of \<^verbatim>\<open>enums.AdjustmentPolicy\<close>, by value.\<close>

definition apply_adjustment ::
  "BusinessCalendar \<Rightarrow> date \<Rightarrow> string \<Rightarrow> py_error + (date \<times> string option)" where
  "apply_adjustment cal day policy =
     bindE (if policy = ''NONE'' then Inr True else is_business_day cal day) (\<lambda>keep.
       if keep then Inr (day, None)
       else if policy = ''NEXT_BUSINESS_DAY''
         then bindE (next_business_day cal day False) (\<lambda>d. Inr (d, Some policy))
       else if policy = ''PREVIOUS_BUSINESS_DAY''
         then bindE (previous_business_day cal day False) (\<lambda>d. Inr (d, Some policy))
       else if policy = ''JURISDICTION_SPECIFIC'' then Inr (day, Some policy)
       else if policy = ''MANUAL_REVIEW'' then Inr (day, Some policy)
       else Inr (day, None))"

subsection \<open>The shape of the federal calendar\<close>

lemma valid_in_month:
  "1 \<le> y \<Longrightarrow> y \<le> 9999 \<Longrightarrow> 1 \<le> m \<Longrightarrow> m \<le> 12 \<Longrightarrow> 1 \<le> d \<Longrightarrow> d \<le> 28 \<Longrightarrow> valid_date (Date y m d)"
  using days_in_month_bounds(1) [of y m] by (simp add: valid_date_def proper_date_def)

lemma toordinal_range: "valid_date d \<Longrightarrow> 1 \<le> toordinal d \<and> toordinal d \<le> max_ordinal"
  using valid_date_iff_range [of d] by simp

lemma nth_weekday_range:
  assumes "1 \<le> y" "y \<le> 9999" "1 \<le> m" "m \<le> 12" "1 \<le> n" "n \<le> 4"
  shows "\<exists>d. nth_weekday y m wd n = Inr d \<and> valid_date d \<and>
    toordinal (Date y m (7 * n - 6)) \<le> toordinal d \<and> toordinal d \<le> toordinal (Date y m (7 * n))"
proof -
  let ?k = "(wd - weekday (Date y m 1)) mod 7 + 7 * (n - 1)"
  have k: "7 * (n - 1) \<le> ?k" "?k \<le> 7 * (n - 1) + 6"
    using pos_mod_bound [of 7 "wd - weekday (Date y m 1)"] by simp_all
  have "1 \<le> toordinal (Date y m 1)" "toordinal (Date y m 28) \<le> max_ordinal"
    using toordinal_range [OF valid_in_month] assms by simp_all
  then have "1 \<le> toordinal (Date y m 1) + ?k" "toordinal (Date y m 1) + ?k \<le> max_ordinal"
    using k assms by (simp_all add: toordinal_def)
  then obtain d where d: "add_days (Date y m 1) ?k = Inr d" using add_days_defined by blast
  then show ?thesis
    using k valid_in_month [of y m 1] assms
    by (intro exI [of _ d]) (auto simp: nth_weekday_def mk_date_def add_days_Inr toordinal_def)
qed

lemma last_monday_of_may:
  assumes "1 \<le> y" "y \<le> 9999"
  shows "\<exists>d. last_weekday y 5 0 = Inr d \<and> valid_date d \<and>
    toordinal (Date y 5 25) \<le> toordinal d \<and> toordinal d \<le> toordinal (Date y 5 31)"
proof -
  have r: "1 \<le> toordinal (Date y 5 1)" "toordinal (Date y 6 1) \<le> max_ordinal"
    using toordinal_range [OF valid_in_month] assms by simp_all
  have n: "toordinal (Date y 6 1) = toordinal (Date y 5 1) + 31"
    using toordinal_first_of_next_month [of 5 y] by (simp add: days_in_month_def)
  then obtain l where l: "add_days (Date y 6 1) (- 1) = Inr l"
    using add_days_defined [of "Date y 6 1" "- 1"] r by auto
  then have tl: "toordinal l = toordinal (Date y 5 1) + 30" using n by (simp add: add_days_Inr)
  let ?k = "weekday l mod 7"
  have k: "0 \<le> ?k" "?k \<le> 6" using weekday_bounds [of l] by auto
  then have "1 \<le> toordinal l + - ?k" "toordinal l + - ?k \<le> max_ordinal" using tl r n by linarith+
  then obtain d where d: "add_days l (- ?k) = Inr d" using add_days_defined by blast
  have "last_weekday y 5 0 = Inr d"
    using l d valid_in_month [of y 6 1] assms by (simp add: last_weekday_def mk_date_def)
  moreover have "valid_date d" "toordinal d = toordinal l - ?k" using d by (simp_all add: add_days_Inr)
  moreover have "toordinal (Date y 5 25) = toordinal (Date y 5 1) + 24" "toordinal (Date y 5 31) = toordinal (Date y 5 1) + 30"
    by (simp_all add: toordinal_def)
  ultimately show ?thesis using k tl by (intro exI [of _ d]) linarith
qed

lemma observed_range:
  assumes "valid_date d" "1 < toordinal d" "toordinal d < max_ordinal"
  shows "\<exists>e. observed d = Inr e \<and> valid_date e \<and> toordinal d - 1 \<le> toordinal e \<and> toordinal e \<le> toordinal d + 1"
proof -
  obtain a b where "add_days d (- 1) = Inr a" "add_days d 1 = Inr b"
    using add_days_defined [of d "- 1"] add_days_defined [of d 1] assms by auto
  then show ?thesis using assms(1) by (auto simp: observed_def add_days_Inr)
qed

lemma observed_new_year:
  assumes "1 \<le> y" "y \<le> 9999"
  shows "\<exists>e. observed (Date y 1 1) = Inr e \<and> valid_date e \<and>
    toordinal (Date y 1 1) - 1 \<le> toordinal e \<and> toordinal e \<le> toordinal (Date y 1 1) + 1"
proof (cases "y = 1")
  case True
  have "weekday (Date 1 1 1) = 0" by code_simp
  then show ?thesis using True valid_in_month [of y 1 1] by (simp add: observed_def)
next
  case False
  have "1 < toordinal (Date y 1 1)" "toordinal (Date y 1 1) < max_ordinal"
    using False assms toordinal_strict_mono [of "Date 1 1 1" "Date y 1 1"]
      toordinal_range [OF valid_in_month [of y 1 2]] valid_in_month [of y 1 1] valid_in_month [of 1 1 1]
    by (auto simp: less_date_def toordinal_def days_before_year_def days_before_month_def)
  then show ?thesis using observed_range valid_in_month [of y 1 1] assms by simp
qed

text \<open>All federal holidays of a year: at least ten days lie between any two of them, none is later
  than the 26th of December, none earlier than the day before the first of January.\<close>

lemma spaced_pairwise:
  assumes "successively (\<lambda>a b. toordinal a + 10 \<le> toordinal b) xs" "h \<in> set xs" "k \<in> set xs" "h \<noteq> k"
  shows "10 \<le> \<bar>toordinal h - toordinal k\<bar>"
proof -
  have "transp (\<lambda>a b. toordinal a + 10 \<le> toordinal b)" by (auto intro: transpI)
  then have "sorted_wrt (\<lambda>a b. toordinal a + 10 \<le> toordinal b) xs"
    using assms(1) by (simp add: successively_conv_sorted_wrt)
  then show ?thesis using assms(2-) by (induction xs) auto
qed

lemma federal_holidays_spaced:
  assumes y: "1 \<le> y" "y \<le> 9999"
  shows "\<exists>hs. us_federal_holidays y = Inr hs \<and>
    (\<forall>h \<in> set hs. valid_date h \<and> toordinal (Date y 1 1) - 1 \<le> toordinal h \<and> toordinal h \<le> toordinal (Date y 12 26)) \<and>
    (\<forall>h \<in> set hs. \<forall>k \<in> set hs. h \<noteq> k \<longrightarrow> 10 \<le> \<bar>toordinal h - toordinal k\<bar>)"
proof -
  have fx: "\<exists>e. observed (Date y m d) = Inr e \<and> valid_date e \<and> toordinal (Date y m d) - 1 \<le> toordinal e \<and> toordinal e \<le> toordinal (Date y m d) + 1"
    if "1 < m" "m \<le> 12" "1 < d" "d < 28" for m d
  proof (rule observed_range)
    have v: "valid_date (Date y m d)" "valid_date (Date y m (d - 1))" "valid_date (Date y m (d + 1))"
      using y that by (auto intro!: valid_in_month)
    show "valid_date (Date y m d)" by (rule v)
    show "1 < toordinal (Date y m d)" "toordinal (Date y m d) < max_ordinal"
      using toordinal_range [OF v(2)] toordinal_range [OF v(3)] by (simp_all add: toordinal_def)
  qed
  obtain o1 where o1: "observed (Date y 1 1) = Inr o1" "valid_date o1" "toordinal (Date y 1 1) - 1 \<le> toordinal o1" "toordinal o1 \<le> toordinal (Date y 1 1) + 1"
    using observed_new_year y by blast
  obtain o2 where o2: "observed (Date y 6 19) = Inr o2" "valid_date o2" "toordinal (Date y 6 19) - 1 \<le> toordinal o2" "toordinal o2 \<le> toordinal (Date y 6 19) + 1"
    using fx [of 6 19] by auto
  obtain o3 where o3: "observed (Date y 7 4) = Inr o3" "valid_date o3" "toordinal (Date y 7 4) - 1 \<le> toordinal o3" "toordinal o3 \<le> toordinal (Date y 7 4) + 1"
    using fx [of 7 4] by auto
  obtain o4 where o4: "observed (Date y 11 11) = Inr o4" "valid_date o4" "toordinal (Date y 11 11) - 1 \<le> toordinal o4" "toordinal o4 \<le> toordinal (Date y 11 11) + 1"
    using fx [of 11 11] by auto
  obtain o5 where o5: "observed (Date y 12 25) = Inr o5" "valid_date o5" "toordinal (Date y 12 25) - 1 \<le> toordinal o5" "toordinal o5 \<le> toordinal (Date y 12 25) + 1"
    using fx [of 12 25] by auto
  obtain f1 where f1: "nth_weekday y 1 0 3 = Inr f1" "valid_date f1"
    "toordinal (Date y 1 15) \<le> toordinal f1" "toordinal f1 \<le> toordinal (Date y 1 21)"
    using nth_weekday_range [of y 1 3 0] y by auto
  obtain f2 where f2: "nth_weekday y 2 0 3 = Inr f2" "valid_date f2"
    "toordinal (Date y 2 15) \<le> toordinal f2" "toordinal f2 \<le> toordinal (Date y 2 21)"
    using nth_weekday_range [of y 2 3 0] y by auto
  obtain f3 where f3: "last_weekday y 5 0 = Inr f3" "valid_date f3"
    "toordinal (Date y 5 25) \<le> toordinal f3" "toordinal f3 \<le> toordinal (Date y 5 31)"
    using last_monday_of_may y by auto
  obtain f4 where f4: "nth_weekday y 9 0 1 = Inr f4" "valid_date f4"
    "toordinal (Date y 9 1) \<le> toordinal f4" "toordinal f4 \<le> toordinal (Date y 9 7)"
    using nth_weekday_range [of y 9 1 0] y by auto
  obtain f5 where f5: "nth_weekday y 10 0 2 = Inr f5" "valid_date f5"
    "toordinal (Date y 10 8) \<le> toordinal f5" "toordinal f5 \<le> toordinal (Date y 10 14)"
    using nth_weekday_range [of y 10 2 0] y by auto
  obtain f6 where f6: "nth_weekday y 11 3 4 = Inr f6" "valid_date f6"
    "toordinal (Date y 11 22) \<le> toordinal f6" "toordinal f6 \<le> toordinal (Date y 11 28)"
    using nth_weekday_range [of y 11 4 3] y by auto
  let ?hs = "[o1, o2, o3, o4, o5, f1, f2, f3, f4, f5, f6]"
  have mk: "mk_date y 1 1 = Inr (Date y 1 1)" "mk_date y 6 19 = Inr (Date y 6 19)"
    "mk_date y 7 4 = Inr (Date y 7 4)" "mk_date y 11 11 = Inr (Date y 11 11)" "mk_date y 12 25 = Inr (Date y 12 25)"
    using valid_in_month y by (simp_all add: mk_date_def)
  have "us_federal_holidays y = Inr ?hs"
    by (simp add: us_federal_holidays_def mk o1(1) o2(1) o3(1) o4(1) o5(1) f1(1) f2(1) f3(1) f4(1) f5(1) f6(1))
  moreover define b l where "b = days_before_year y" and "l = (if is_leap y then 1 else 0 :: int)"
  then have l: "0 \<le> l" by simp
  have ords: "toordinal (Date y 1 d) = b + d" "toordinal (Date y 2 d) = b + 31 + d"
    "toordinal (Date y 5 d) = b + 120 + l + d" "toordinal (Date y 6 d) = b + 151 + l + d"
    "toordinal (Date y 7 d) = b + 181 + l + d" "toordinal (Date y 9 d) = b + 243 + l + d"
    "toordinal (Date y 10 d) = b + 273 + l + d" "toordinal (Date y 11 d) = b + 304 + l + d"
    "toordinal (Date y 12 d) = b + 334 + l + d" for d
    by (simp_all add: toordinal_def days_before_month_def b_def l_def)
  note bounds = o1(3,4) o2(3,4) o3(3,4) o4(3,4) o5(3,4) f1(3,4) f2(3,4) f3(3,4) f4(3,4) f5(3,4) f6(3,4)
  note bounds' = bounds [unfolded ords]
  have "\<forall>h \<in> set ?hs. valid_date h"
    using o1(2) o2(2) o3(2) o4(2) o5(2) f1(2) f2(2) f3(2) f4(2) f5(2) f6(2) by simp
  moreover have "\<forall>h \<in> set ?hs. toordinal (Date y 1 1) - 1 \<le> toordinal h \<and> toordinal h \<le> toordinal (Date y 12 26)"
    unfolding ords list.set ball_simps
    using bounds' l by (intro conjI TrueI) linarith+
  moreover have "successively (\<lambda>a b. toordinal a + 10 \<le> toordinal b) [o1, f1, f2, f3, o2, o3, f4, f5, o4, f6, o5]"
    unfolding successively.simps using bounds' l by (intro conjI TrueI) linarith+
  then have "\<forall>h \<in> set ?hs. \<forall>k \<in> set ?hs. h \<noteq> k \<longrightarrow> 10 \<le> \<bar>toordinal h - toordinal k\<bar>"
    by (intro ballI impI, elim spaced_pairwise) auto
  ultimately show ?thesis by blast
qed

subsection \<open>Business days\<close>

lemma is_business_day_total: "valid_date d \<Longrightarrow> \<exists>b. is_business_day cal d = Inr b"
  using federal_holidays_spaced [of "dt_year d"]
  by (auto simp: is_business_day_def is_holiday_def valid_date_def)

lemma not_business_day: "valid_date d \<Longrightarrow> is_business_day cal d \<noteq> Inr True \<longleftrightarrow> is_business_day cal d = Inr False"
  using is_business_day_total [of d cal] by auto

lemma default_weekday_off:
  assumes "valid_date d" "is_business_day DEFAULT_CALENDAR d \<noteq> Inr True" "weekday d \<notin> {5, 6}"
  shows "\<exists>hs. us_federal_holidays (dt_year d) = Inr hs \<and> d \<in> set hs"
  using assms federal_holidays_spaced [of "dt_year d"]
  by (auto simp: is_business_day_def is_holiday_def valid_date_def DEFAULT_CALENDAR_def WEEKEND_def)

lemma default_no_adjacent_holidays:
  assumes "valid_date a" "valid_date b" "weekday a \<notin> {5, 6}" "weekday b \<notin> {5, 6}"
    and "toordinal a < toordinal b" "toordinal b \<le> toordinal a + 3"
  shows "is_business_day DEFAULT_CALENDAR a = Inr True \<or> is_business_day DEFAULT_CALENDAR b = Inr True"
proof (rule ccontr)
  assume "\<not> ?thesis"
  then obtain ha hb where h: "us_federal_holidays (dt_year a) = Inr ha" "a \<in> set ha"
    "us_federal_holidays (dt_year b) = Inr hb" "b \<in> set hb"
    using default_weekday_off [of a] default_weekday_off [of b] assms by auto
  have y: "1 \<le> dt_year a" "dt_year a \<le> 9999" "1 \<le> dt_year b" "dt_year b \<le> 9999"
    using assms(1,2) by (auto simp: valid_date_def)
  have "a < b" using assms toordinal_less_iff [of a b] by simp
  then have "dt_year a \<le> dt_year b" by (auto simp: less_date_def)
  then consider "dt_year a = dt_year b" | "dt_year a + 1 \<le> dt_year b" by linarith
  then show False
  proof cases
    case 1
    then show False using h assms(5,6) federal_holidays_spaced [OF y(1,2)] by force
  next
    case 2
    have "toordinal a \<le> toordinal (Date (dt_year a) 12 26)"
      using h(1,2) federal_holidays_spaced [OF y(1,2)] by auto
    moreover have "toordinal (Date (dt_year a) 12 26) + 6 = toordinal (Date (dt_year a + 1) 1 1)"
      using toordinal_first_of_next_month [of 12 "dt_year a"]
      by (simp add: toordinal_def days_in_month_def)
    moreover have "toordinal (Date (dt_year a + 1) 1 1) \<le> toordinal b"
      using days_before_year_mono [OF 2] proper_day_of_year(1) [of b] assms(2)
      by (simp add: toordinal_def days_before_month_def)
    ultimately show False using assms(6) by simp
  qed
qed

text \<open>Among four consecutive days two are working days of the week, so one is a business day.\<close>

lemma two_working_days:
  assumes "0 \<le> w" "w < 7" "s = 1 \<or> s = - 1"
  shows "\<exists>i j. i < j \<and> j \<le> (3 :: nat) \<and> (w + s * int i) mod 7 \<notin> {5, 6} \<and> (w + s * int j) mod 7 \<notin> {5, 6 :: int}"
proof -
  have "w \<in> {0, 1, 2, 3, 4, 5, 6}" using assms by auto
  then have "\<exists>p \<in> {(0, 1), (0, 3), (2, 3), (1, 2 :: nat)}.
      (w + s * int (fst p)) mod 7 \<notin> {5, 6} \<and> (w + s * int (snd p)) mod 7 \<notin> {5, 6}"
    using assms(3) by (elim insertE disjE) simp_all
  then obtain p where p: "p \<in> {(0, 1), (0, 3), (2, 3), (1, 2 :: nat)}"
      "(w + s * int (fst p)) mod 7 \<notin> {5, 6}" "(w + s * int (snd p)) mod 7 \<notin> {5, 6}" by blast
  have "fst p < snd p" "snd p \<le> 3" using p(1) by auto
  with p(2,3) show ?thesis by blast
qed

lemma default_window:
  assumes d: "valid_date d" and m: "1 \<le> toordinal d + 3 * s" "toordinal d + 3 * s \<le> max_ordinal" and s: "s = 1 \<or> s = - 1"
  shows "\<exists>k \<le> 3. \<exists>e. add_days d (s * int k) = Inr e \<and> is_business_day DEFAULT_CALENDAR e = Inr True"
proof -
  have "\<exists>e. add_days d (s * int k) = Inr e" if "k \<le> 3" for k
    using that s m toordinal_range [OF d] by (intro add_days_defined) auto
  then obtain f where f: "\<And>k. k \<le> 3 \<Longrightarrow> add_days d (s * int k) = Inr (f k)" by metis
  then have v: "valid_date (f k)" "toordinal (f k) = toordinal d + s * int k" if "k \<le> 3" for k
    using that by (simp_all add: add_days_Inr)
  have w: "weekday (f k) = (weekday d + s * int k) mod 7" if "k \<le> 3" for k
    using v [OF that] by (intro weekday_shift)
  obtain i j where ij: "i < j" "j \<le> 3" "weekday (f i) \<notin> {5, 6}" "weekday (f j) \<notin> {5, 6}"
    using two_working_days [OF weekday_bounds s, of d] w by (metis less_imp_le order_trans)
  have "is_business_day DEFAULT_CALENDAR (f i) = Inr True \<or> is_business_day DEFAULT_CALENDAR (f j) = Inr True"
    using s default_no_adjacent_holidays [of "f i" "f j"] default_no_adjacent_holidays [of "f j" "f i"]
      v [of i] v [of j] ij by auto
  then show ?thesis using f [of i] f [of j] ij by (meson less_imp_le order_trans)
qed

lemma seek_first:
  assumes "valid_date c" "k < n" "add_days c (s * int k) = Inr e" "is_business_day cal e = Inr True"
    "s = 1 \<or> s = - 1"
  shows "\<exists>j \<le> k. \<exists>r. add_days c (s * int j) = Inr r \<and> seek_business_day n cal s c = Inr r \<and>
     is_business_day cal r = Inr True \<and>
     (\<forall>i < j. \<forall>x. add_days c (s * int i) = Inr x \<longrightarrow> is_business_day cal x = Inr False)"
  using assms(1-4)
proof (induction n arbitrary: c k)
  case (Suc n)
  have c0: "add_days c 0 = Inr c" using Suc.prems(1) by (simp add: add_days_Inr)
  show ?case
  proof (cases "is_business_day cal c = Inr True")
    case True
    then show ?thesis using c0 by (intro exI [of _ 0]) auto
  next
    case False
    then have off: "is_business_day cal c = Inr False" using not_business_day [OF Suc.prems(1)] by simp
    obtain k' where k: "k = Suc k'" using False Suc.prems(3,4) c0 by (cases k) auto
    have "1 \<le> toordinal c + s" "toordinal c + s \<le> max_ordinal"
      using Suc.prems(1,3) k assms(5) toordinal_range [of c] toordinal_range [of e]
      by (auto simp: add_days_Inr)
    then obtain c' where c': "add_days c s = Inr c'" using add_days_defined by blast
    then have "toordinal c' = toordinal c + s" by (simp add: add_days_Inr)
    then have shift: "add_days c (s * int (Suc i)) = add_days c' (s * int i)" for i
      by (simp add: add_days_def algebra_simps)
    have vc: "valid_date c'" using c' by (simp add: add_days_Inr)
    have e': "add_days c' (s * int k') = Inr e" using Suc.prems(3) k shift by simp
    obtain j r where "j \<le> k'" "add_days c' (s * int j) = Inr r" "seek_business_day n cal s c' = Inr r"
      "is_business_day cal r = Inr True"
      "\<forall>i < j. \<forall>x. add_days c' (s * int i) = Inr x \<longrightarrow> is_business_day cal x = Inr False"
      using Suc.IH [OF _ _ e' Suc.prems(4)] vc Suc.prems(2) k by auto
    moreover have "is_business_day cal x = Inr False"
      if "i < Suc j" "add_days c (s * int i) = Inr x" for i x
      using that calculation(5) c0 off shift by (cases i) auto
    ultimately show ?thesis using k off c' shift [of j]
      by (intro exI [of _ "Suc j"]) auto
  qed
qed simp

lemma finite_valid_dates: "finite {x. valid_date x}"
proof (rule finite_subset)
  show "{x. valid_date x} \<subseteq> ord2ymd ` {1..max_ordinal}"
  proof
    fix x assume "x \<in> {x. valid_date x}"
    then have "x = ord2ymd (toordinal x)" "toordinal x \<in> {1..max_ordinal}" using toordinal_range by simp_all
    then show "x \<in> ord2ymd ` {1..max_ordinal}" by blast
  qed
qed simp

lemma add_one_less: "valid_date d \<Longrightarrow> add_days d 1 = Inr e \<Longrightarrow> d < x \<longleftrightarrow> e \<le> x" if "valid_date x"
  using that toordinal_less_iff [of d x] toordinal_le_iff [of e x] by (auto simp: add_days_Inr)

lemma sub_one_less: "valid_date d \<Longrightarrow> add_days d (- 1) = Inr e \<Longrightarrow> x < d \<longleftrightarrow> x \<le> e" if "valid_date x"
  using that toordinal_less_iff [of x d] toordinal_le_iff [of x e] by (auto simp: add_days_Inr)

text \<open>The business days that a walk from \<^term>\<open>c\<close> to \<^term>\<open>r\<close> counts.\<close>

definition walked :: "BusinessCalendar \<Rightarrow> bool \<Rightarrow> date \<Rightarrow> date \<Rightarrow> date set" where
  "walked cal forward c r = {x. valid_date x \<and> is_business_day cal x = Inr True \<and>
     (if forward then c < x \<and> x \<le> r else r \<le> x \<and> x < c)}"

lemma finite_walked: "finite (walked cal forward c r)"
  by (rule finite_subset [OF _ finite_valid_dates]) (auto simp: walked_def)

lemma walked_refl [simp]: "walked cal forward c c = {}"
  by (auto simp: walked_def)

lemma walked_step:
  assumes "valid_date c" "add_days c (if forward then 1 else - 1) = Inr c'" "if forward then c' \<le> r else r \<le> c'"
  shows "card (walked cal forward c r) =
    (if is_business_day cal c' = Inr True then 1 else 0) + card (walked cal forward c' r)"
proof -
  have v: "valid_date c'" using assms(2) by (simp add: add_days_Inr)
  have "walked cal forward c r =
      (if is_business_day cal c' = Inr True then {c'} else {}) \<union> walked cal forward c' r"
    using assms v add_one_less [of _ c c'] sub_one_less [of _ c c']
    by (auto simp: walked_def less_le split: if_splits)
  moreover have "c' \<notin> walked cal forward c' r" by (simp add: walked_def)
  ultimately show ?thesis by (simp add: finite_walked)
qed

lemma business_walk_counts:
  "business_walk cal forward n c = Inr r \<Longrightarrow> valid_date c \<Longrightarrow>
     valid_date r \<and> (if forward then c \<le> r else r \<le> c) \<and> card (walked cal forward c r) = n \<and>
     (0 < n \<longrightarrow> is_business_day cal r = Inr True)"
proof (induction cal forward n c rule: business_walk.induct)
  case (1 cal forward n c)
  show ?case
  proof (cases "n = 0")
    case True
    then show ?thesis using "1.prems" by auto
  next
    case False
    then obtain c' b where c': "add_days c (if forward then 1 else - 1) = Inr c'"
      "is_business_day cal c' = Inr b"
      "business_walk cal forward (if b then n - 1 else n) c' = Inr r"
      using "1.prems"(1) by (auto simp: business_walk.simps [of _ _ n] err_simps split: sum.splits)
    have v: "valid_date c'" using c'(1) by (simp add: add_days_Inr)
    note IH = "1.IH" [OF False c'(1,2,3) v]
    moreover have "is_business_day cal r = Inr True"
      using IH c'(2,3) False by (cases "b \<and> n = 1") (auto split: if_splits)
    moreover have "if forward then c < c' else c' < c"
      using c'(1) "1.prems"(2) v add_one_less [of c' c c'] sub_one_less [of c' c c'] by auto
    ultimately show ?thesis
      using walked_step [OF "1.prems"(2) c'(1), of r cal] c'(2) False
      by (cases b) (auto split: if_splits)
  qed
qed

text \<open>A walk proceeds to the next business day, if there is one ahead.\<close>

lemma business_walk_advances:
  assumes "add_days c (s * int (Suc k)) = Inr e" "is_business_day cal e = Inr True"
    "s = (if forward then 1 else - 1)" "valid_date c"
  shows "\<exists>j e'. j \<le> k \<and> add_days c (s * int (Suc j)) = Inr e' \<and>
    business_walk cal forward (Suc n) c = business_walk cal forward n e'"
  using assms(1,2,4)
proof (induction k arbitrary: c)
  case 0
  then show ?case using assms(3)
    by (intro exI [of _ 0] exI [of _ e]) (simp add: business_walk.simps [of _ _ "Suc n"])
next
  case (Suc k)
  have "1 \<le> toordinal c + s" "toordinal c + s \<le> max_ordinal"
    using Suc.prems assms(3) toordinal_range [of c] toordinal_range [of e] by (auto simp: add_days_Inr split: if_splits)
  then obtain c' where c': "add_days c s = Inr c'" using add_days_defined by blast
  then have v: "valid_date c'" "toordinal c' = toordinal c + s" by (simp_all add: add_days_Inr)
  then have shift: "add_days c (s * int (Suc (Suc i))) = add_days c' (s * int (Suc i))" for i
    by (simp add: add_days_def algebra_simps)
  obtain b where b: "is_business_day cal c' = Inr b" using is_business_day_total v by blast
  have w: "business_walk cal forward (Suc n) c = business_walk cal forward (if b then n else Suc n) c'"
    using c' b assms(3) by (simp add: business_walk.simps [of _ _ "Suc n" c])
  show ?case
  proof (cases b)
    case True
    then show ?thesis using w c' by (intro exI [of _ 0] exI [of _ c']) simp
  next
    case False
    obtain j e' where "j \<le> k" "add_days c' (s * int (Suc j)) = Inr e'"
      "business_walk cal forward (Suc n) c' = business_walk cal forward n e'"
      using Suc.IH [OF _ Suc.prems(2) v(1)] Suc.prems(1) shift by auto
    then show ?thesis using w False shift by (intro exI [of _ "Suc j"] exI [of _ e']) simp
  qed
qed

lemma default_business_day_ahead:
  assumes "valid_date c" "s = 1 \<or> s = - 1" "1 \<le> toordinal c + 4 * s" "toordinal c + 4 * s \<le> max_ordinal"
  shows "\<exists>k \<le> 3. \<exists>e. add_days c (s * int (Suc k)) = Inr e \<and> is_business_day DEFAULT_CALENDAR e = Inr True"
proof -
  have "1 \<le> toordinal c + s" "toordinal c + s \<le> max_ordinal"
    using assms toordinal_range [OF assms(1)] by auto
  then obtain c' where c': "add_days c s = Inr c'" using add_days_defined by blast
  then have v: "valid_date c'" "toordinal c' = toordinal c + s" by (simp_all add: add_days_Inr)
  then have "add_days c (s * int (Suc i)) = add_days c' (s * int i)" for i
    by (simp add: add_days_def algebra_simps)
  then show ?thesis using default_window [OF v(1) _ _ assms(2)] v(2) assms(3,4) by simp
qed

lemma default_walk_returns:
  assumes "valid_date c" "s = (if forward then 1 else - 1)"
    "1 \<le> toordinal c + 4 * s * int n" "toordinal c + 4 * s * int n \<le> max_ordinal"
  shows "\<exists>r. business_walk DEFAULT_CALENDAR forward n c = Inr r \<and> \<bar>toordinal r - toordinal c\<bar> \<le> 4 * int n"
  using assms(1,3,4)
proof (induction n arbitrary: c)
  case (Suc n)
  have s: "s = 1 \<or> s = - 1" using assms(2) by auto
  then have "1 \<le> toordinal c + 4 * s" "toordinal c + 4 * s \<le> max_ordinal"
    using Suc.prems toordinal_range [of c] by auto
  from default_business_day_ahead [OF Suc.prems(1) s this] obtain k e where "k \<le> 3"
    "add_days c (s * int (Suc k)) = Inr e" "is_business_day DEFAULT_CALENDAR e = Inr True" by blast
  from business_walk_advances [OF this(2,3) assms(2) Suc.prems(1), of n] \<open>k \<le> 3\<close>
  obtain j e' where j: "j \<le> 3" "add_days c (s * int (Suc j)) = Inr e'"
    "business_walk DEFAULT_CALENDAR forward (Suc n) c = business_walk DEFAULT_CALENDAR forward n e'"
    by (meson order_trans)
  then have e: "valid_date e'" "toordinal e' = toordinal c + s * int (Suc j)" by (simp_all add: add_days_Inr)
  have "1 \<le> toordinal e' + 4 * s * int n" "toordinal e' + 4 * s * int n \<le> max_ordinal"
    using s e j(1) Suc.prems(2,3) toordinal_range [OF Suc.prems(1)] toordinal_range [OF e(1)] by auto
  from Suc.IH [OF e(1) this] j e(2) s show ?case by auto
qed simp

lemma next_business_day_first:
  assumes "valid_date day" and "toordinal day + 3 \<le> max_ordinal"
  shows "\<exists>r. next_business_day DEFAULT_CALENDAR day True = Inr r \<and>
     is_business_day DEFAULT_CALENDAR r = Inr True \<and> day \<le> r \<and> days_between r day \<le> 3 \<and>
     (\<forall>x. valid_date x \<longrightarrow> day \<le> x \<longrightarrow> x < r \<longrightarrow> is_business_day DEFAULT_CALENDAR x = Inr False)"
proof -
  have "1 \<le> toordinal day + 3 * 1" "toordinal day + 3 * 1 \<le> max_ordinal"
    using assms toordinal_range [of day] by simp_all
  from default_window [OF assms(1) this] obtain k e where "k \<le> 3" "add_days day (1 * int k) = Inr e"
    "is_business_day DEFAULT_CALENDAR e = Inr True" by blast
  with seek_first [OF assms(1), of k 30 1 e DEFAULT_CALENDAR] obtain j r where
    j: "j \<le> k" "add_days day (1 * int j) = Inr r" "seek_business_day 30 DEFAULT_CALENDAR 1 day = Inr r"
      "is_business_day DEFAULT_CALENDAR r = Inr True"
      "\<forall>i < j. \<forall>x. add_days day (1 * int i) = Inr x \<longrightarrow> is_business_day DEFAULT_CALENDAR x = Inr False"
    by auto
  have r: "valid_date r" "toordinal r = toordinal day + int j" using j(2) by (simp_all add: add_days_Inr)
  have "is_business_day DEFAULT_CALENDAR x = Inr False" if "valid_date x" "day \<le> x" "x < r" for x
  proof -
    have "toordinal day \<le> toordinal x" "toordinal x < toordinal r"
      using that r(1) assms(1) by (simp_all add: toordinal_le_iff toordinal_less_iff)
    then obtain i where "toordinal x = toordinal day + int i" "i < j"
      using r(2) by (metis add_less_cancel_left of_nat_less_iff zle_iff_zadd)
    then show ?thesis using j(5) that(1) by (auto simp: add_days_Inr)
  qed
  then show ?thesis
    using j r \<open>k \<le> 3\<close> toordinal_le_iff [of day r] assms(1)
    by (auto simp: next_business_day_def days_between_def)
qed

subsection \<open>Properties\<close>

text \<open>C35. On the federal calendar \<^verbatim>\<open>next_business_day\<close> always returns the first business day on or
  after the given day, at most three days later; the loop bound of thirty is never reached.\<close>

theorem next_business_day_default:
  assumes "valid_date day" and "toordinal day + 3 \<le> max_ordinal"
  shows "\<exists>r. next_business_day DEFAULT_CALENDAR day True = Inr r \<and>
     is_business_day DEFAULT_CALENDAR r = Inr True \<and> day \<le> r \<and> days_between r day \<le> 3 \<and>
     (\<forall>x. valid_date x \<longrightarrow> day \<le> x \<longrightarrow> x < r \<longrightarrow> is_business_day DEFAULT_CALENDAR x = Inr False)"
  using assms by (rule next_business_day_first)

theorem next_business_day_default_witness:
  "\<exists>r. next_business_day DEFAULT_CALENDAR (Date 2026 7 3) True = Inr r \<and> Date 2026 7 3 \<le> r \<and>
     is_business_day DEFAULT_CALENDAR r = Inr True"
proof -
  have "valid_date (Date 2026 7 3)" "toordinal (Date 2026 7 3) + 3 \<le> max_ordinal" by code_simp+
  from next_business_day_default [OF this] show ?thesis by blast
qed

text \<open>Moving by \<^verbatim>\<open>count\<close> business days on the federal calendar always returns, within four
  calendar days per business day, and ends on a business day with exactly \<^verbatim>\<open>count\<close> business days
  passed, in either direction.\<close>

theorem add_business_days_counts:
  assumes "valid_date day" and "count \<noteq> 0"
    and "1 \<le> toordinal day + 4 * count" and "toordinal day + 4 * count \<le> max_ordinal"
  shows "\<exists>r. add_business_days DEFAULT_CALENDAR day count = Inr r \<and>
     is_business_day DEFAULT_CALENDAR r = Inr True \<and> \<bar>days_between r day\<bar> \<le> 4 * \<bar>count\<bar> \<and>
     card {x. valid_date x \<and> is_business_day DEFAULT_CALENDAR x = Inr True \<and>
              (if 0 < count then day < x \<and> x \<le> r else r \<le> x \<and> x < day)} = nat \<bar>count\<bar>"
proof -
  define s :: int where "s = (if 0 < count then 1 else - 1)"
  have "4 * s * int (nat \<bar>count\<bar>) = 4 * count" by (simp add: s_def)
  with default_walk_returns [OF assms(1) s_def, of "nat \<bar>count\<bar>"] assms obtain r where
    r: "business_walk DEFAULT_CALENDAR (0 < count) (nat \<bar>count\<bar>) day = Inr r"
      "\<bar>toordinal r - toordinal day\<bar> \<le> 4 * \<bar>count\<bar>" by auto
  from business_walk_counts [OF r(1) assms(1)] r assms(2) show ?thesis
    by (simp add: add_business_days_def days_between_def walked_def)
qed

theorem add_business_days_counts_witness:
  "\<exists>r. add_business_days DEFAULT_CALENDAR (Date 2026 7 2) (- 5) = Inr r \<and>
     is_business_day DEFAULT_CALENDAR r = Inr True"
proof -
  have "valid_date (Date 2026 7 2)" "1 \<le> toordinal (Date 2026 7 2) + 4 * (- 5)"
    "toordinal (Date 2026 7 2) + 4 * (- 5) \<le> max_ordinal" by code_simp+
  from add_business_days_counts [OF this(1) _ this(2,3)] show ?thesis by auto
qed

lemma seek_direction:
  "seek_business_day n cal s c = Inr r \<Longrightarrow> valid_date c \<Longrightarrow>
     valid_date r \<and> (\<exists>k \<le> n. toordinal r = toordinal c + s * int k)"
proof (induction n arbitrary: c)
  case (Suc n)
  show ?case
  proof (cases "is_business_day cal c = Inr True")
    case True
    then show ?thesis using Suc.prems by (auto intro!: exI [of _ 0])
  next
    case False
    then obtain c' where c': "add_days c s = Inr c'" "seek_business_day n cal s c' = Inr r"
      using Suc.prems(1) by (auto simp: err_simps split: if_splits)
    then have v: "valid_date c'" "toordinal c' = toordinal c + s" by (simp_all add: add_days_Inr)
    obtain k where "valid_date r" "k \<le> n" "toordinal r = toordinal c' + s * int k"
      using Suc.IH [OF c'(2) v(1)] by blast
    then show ?thesis using v by (intro conjI exI [of _ "Suc k"]) (simp_all add: algebra_simps)
  qed
qed (auto intro: exI [of _ 0])

text \<open>A statutory date is moved only as its rule says: whatever the calendar, the adjusted date
  differs from the given one only if that is not a business day, and then the policy is one of the two
  shifting policies, it is reported, and the date moved in its direction. A date that would be shifted
  out of the supported range is the only failure.\<close>

theorem adjustment_moves_only_as_told:
  assumes "valid_date day" and "apply_adjustment cal day policy = Inr (d, applied)" and "d \<noteq> day"
  shows "is_business_day cal day = Inr False \<and> applied = Some policy \<and>
     (policy = ''NEXT_BUSINESS_DAY'' \<and> day < d \<or> policy = ''PREVIOUS_BUSINESS_DAY'' \<and> d < day)"
proof -
  obtain b where b: "is_business_day cal day = Inr b" using is_business_day_total [OF assms(1)] by blast
  have fwd: "day < d" if "next_business_day cal day False = Inr d"
  proof -
    obtain c where c: "add_days day 1 = Inr c" "seek_business_day 30 cal 1 c = Inr d"
      using \<open>next_business_day cal day False = Inr d\<close> by (auto simp: next_business_day_def err_simps)
    then have "valid_date c" "toordinal c = toordinal day + 1" by (simp_all add: add_days_Inr)
    with seek_direction [OF c(2)] assms(1) show ?thesis by (auto simp: toordinal_less_iff [symmetric])
  qed
  have bwd: "d < day" if "previous_business_day cal day False = Inr d"
  proof -
    obtain c where c: "add_days day (- 1) = Inr c" "seek_business_day 30 cal (- 1) c = Inr d"
      using \<open>previous_business_day cal day False = Inr d\<close> by (auto simp: previous_business_day_def err_simps)
    then have "valid_date c" "toordinal c = toordinal day - 1" by (simp_all add: add_days_Inr)
    with seek_direction [OF c(2)] assms(1) show ?thesis by (auto simp: toordinal_less_iff [symmetric])
  qed
  show ?thesis using assms(2,3) b fwd bwd
    by (auto simp: apply_adjustment_def err_simps split: if_splits)
qed

theorem adjustment_moves_only_as_told_witness:
  "is_business_day DEFAULT_CALENDAR (Date 2026 7 4) = Inr False \<and> Date 2026 7 4 < Date 2026 7 6"
proof -
  have "valid_date (Date 2026 7 4)" "Date 2026 7 6 \<noteq> Date 2026 7 4"
    "apply_adjustment DEFAULT_CALENDAR (Date 2026 7 4) ''NEXT_BUSINESS_DAY'' =
       Inr (Date 2026 7 6, Some ''NEXT_BUSINESS_DAY'')" by code_simp+
  from adjustment_moves_only_as_told [OF this(1) this(3) this(2)] show ?thesis by simp
qed

text \<open>When the first of January is a Saturday, its observed day is in the previous year, whose
  list does not hold it: the last day of 2021 was an observed federal holiday of 2022 and counts as a
  business day.\<close>

theorem observed_new_year_is_missed:
  "\<exists>hs. us_federal_holidays 2022 = Inr hs \<and> Date 2021 12 31 \<in> set hs \<and>
     is_holiday DEFAULT_CALENDAR (Date 2021 12 31) = Inr False \<and>
     is_business_day DEFAULT_CALENDAR (Date 2021 12 31) = Inr True"
proof -
  have "\<not> isl (us_federal_holidays 2022) \<and> Date 2021 12 31 \<in> set (projr (us_federal_holidays 2022))"
    by code_simp
  moreover have "is_holiday DEFAULT_CALENDAR (Date 2021 12 31) = Inr False"
    "is_business_day DEFAULT_CALENDAR (Date 2021 12 31) = Inr True" by code_simp+
  ultimately show ?thesis by (cases "us_federal_holidays 2022") auto
qed

end
