(* ===== verification/Deadline_Plan.thy ===== *)
theory Deadline_Plan
  imports Escalation Business_Days
begin

text \<open>
  Deadline calculation (\<^verbatim>\<open>app/deadlines/calculator.py\<close>): statutory dates from the recurrence of a
  policy, internal milestones derived from them, severities, and the keys that make materialization
  idempotent. The time zone database is a parameter that gives, for a known zone, the UTC offset of
  five o'clock on a day; SHA-256 is a parameter.
\<close>

subsection \<open>Due instants\<close>

type_synonym zones = "string \<rightharpoonup> (date \<Rightarrow> timedelta)"

definition DEFAULT_DUE_HOUR :: int where
  "DEFAULT_DUE_HOUR = 17"

definition zone_offset :: "zones \<Rightarrow> string option \<Rightarrow> date \<Rightarrow> timedelta" where
  "zone_offset zones timezone_name day =
     (case timezone_name of
        Some (c # n) \<Rightarrow> (case zones (c # n) of None \<Rightarrow> 0 | Some off \<Rightarrow> off day)
      | _ \<Rightarrow> 0)"

definition to_due_datetime :: "zones \<Rightarrow> date \<Rightarrow> string option \<Rightarrow> py_error + datetime" where
  "to_due_datetime zones day timezone_name =
     (let t = (toordinal day - 719163) * day_us + DEFAULT_DUE_HOUR * 3600 * 1000000 -
                zone_offset zones timezone_name day
      in if (1 - 719163) * day_us \<le> t \<and> t < (max_ordinal + 1 - 719163) * day_us then Inr t
         else Inl OverflowError)"

subsection \<open>Planned deadlines\<close>

record PlannedDeadline =
  pd_deadline_type :: string
  pd_due_at :: datetime
  pd_due_date :: date
  pd_severity :: string
  pd_internal_target_at :: "datetime option"
  pd_applied_adjustment :: "string option"
  pd_source_rule_id :: "uuid option"
  pd_materialization_key :: string
  pd_status :: string
  pd_needs_manual_review :: bool
  pd_notes :: "string list"

definition severity_for :: "string \<Rightarrow> int \<Rightarrow> string" where
  "severity_for deadline_type days_until =
     (let statutory = (deadline_type \<notin> set INTERNAL_DEADLINE_TYPES) in
      if days_until < 0 then (if statutory then ''REGULATORY_RISK'' else ''CRITICAL'')
      else if days_until \<le> 3 then (if statutory then ''CRITICAL'' else ''IMPORTANT'')
      else if days_until \<le> 14 then (if statutory then ''IMPORTANT'' else ''NORMAL'')
      else if days_until \<le> 60 then ''NORMAL''
      else ''INFORMATIONAL'')"

definition materialization_text :: "uuid \<Rightarrow> string \<Rightarrow> date \<Rightarrow> uuid option \<Rightarrow> string" where
  "materialization_text obligation_id deadline_type due_date rule_id =
     str_uuid obligation_id @ ''|'' @ deadline_type @ ''|'' @ isoformat due_date @ ''|'' @
       (case rule_id of None \<Rightarrow> ''no-rule'' | Some r \<Rightarrow> str_uuid r)"

definition build_materialization_key ::
  "(string \<Rightarrow> string) \<Rightarrow> uuid \<Rightarrow> string \<Rightarrow> date \<Rightarrow> uuid option \<Rightarrow> string" where
  "build_materialization_key sha256 obligation_id deadline_type due_date rule_id =
     sha256 (materialization_text obligation_id deadline_type due_date rule_id)"

text \<open>The arguments of \<^verbatim>\<open>plan_deadlines\<close> that stay the same through the loop.\<close>

record plan_args =
  pa_zones :: zones
  pa_sha256 :: "string \<Rightarrow> string"
  pa_obligation_id :: uuid
  pa_horizon_start :: date
  pa_horizon_end :: date
  pa_default_lead_days :: int
  pa_timezone_name :: "string option"
  pa_calendar :: BusinessCalendar
  pa_statutory_type :: string
  pa_today :: date
  pa_max_occurrences :: int

definition MANUAL_REVIEW_NOTE :: string where
  "MANUAL_REVIEW_NOTE = ''The statutory date falls on a non-business day and the rule requires manual confirmation of the effective due date.''"

definition JURISDICTION_NOTE :: string where
  "JURISDICTION_NOTE = ''Jurisdiction-specific adjustment is configured but no jurisdiction calendar was supplied; the unadjusted date was kept.''"

definition plan_statutory ::
  "plan_args \<Rightarrow> DeadlinePolicy \<Rightarrow> date \<Rightarrow> string option \<Rightarrow> py_error + PlannedDeadline" where
  "plan_statutory a p adjusted applied =
     (let lead = policy_lead p (pa_default_lead_days a);
          manual = (applied = Some ''MANUAL_REVIEW''); juris = (applied = Some ''JURISDICTION_SPECIFIC'') in
      bindE (to_due_datetime (pa_zones a) adjusted (pa_timezone_name a)) (\<lambda>due.
      bindE (if 0 < lead
             then bindE (add_days adjusted (- lead)) (\<lambda>s.
                  bindE (to_due_datetime (pa_zones a) s (pa_timezone_name a)) (\<lambda>t. Inr (Some t)))
             else Inr None) (\<lambda>target.
      Inr \<lparr>pd_deadline_type = pa_statutory_type a, pd_due_at = due, pd_due_date = adjusted,
           pd_severity = severity_for (pa_statutory_type a) (days_between adjusted (pa_today a)),
           pd_internal_target_at = target, pd_applied_adjustment = applied, pd_source_rule_id = pol_id p,
           pd_materialization_key = build_materialization_key (pa_sha256 a) (pa_obligation_id a)
             (pa_statutory_type a) adjusted (pol_id p),
           pd_status = ''SCHEDULED'', pd_needs_manual_review = (manual \<or> juris),
           pd_notes = (if manual then [MANUAL_REVIEW_NOTE] else []) @ (if juris then [JURISDICTION_NOTE] else [])\<rparr>)))"

definition plan_milestone ::
  "plan_args \<Rightarrow> DeadlinePolicy \<Rightarrow> date \<Rightarrow> string \<times> int \<Rightarrow> py_error + PlannedDeadline list" where
  "plan_milestone a p adjusted m =
     (case m of (deadline_type, offset) \<Rightarrow>
      bindE (add_days adjusted (- offset)) (\<lambda>target.
        if pa_horizon_end a < target then Inr []
        else
          bindE (is_business_day (pa_calendar a) target) (\<lambda>business.
          bindE (if business then Inr target else next_business_day (pa_calendar a) target True) (\<lambda>shifted.
          bindE (to_due_datetime (pa_zones a) shifted (pa_timezone_name a)) (\<lambda>due.
          Inr [\<lparr>pd_deadline_type = deadline_type, pd_due_at = due, pd_due_date = shifted,
                pd_severity = severity_for deadline_type (days_between shifted (pa_today a)),
                pd_internal_target_at = Some due,
                pd_applied_adjustment = (if shifted \<noteq> target then Some ''NEXT_BUSINESS_DAY'' else None),
                pd_source_rule_id = pol_id p,
                pd_materialization_key = build_materialization_key (pa_sha256 a) (pa_obligation_id a)
                  deadline_type shifted (pol_id p),
                pd_status = ''SCHEDULED'', pd_needs_manual_review = False, pd_notes = []\<rparr>])))))"

definition plan_occurrence :: "plan_args \<Rightarrow> DeadlinePolicy \<Rightarrow> date \<Rightarrow> py_error + PlannedDeadline list" where
  "plan_occurrence a p occurrence =
     bindE (apply_adjustment (pa_calendar a) occurrence (pol_adjustment_policy p)) (\<lambda>(adjusted, applied).
     bindE (plan_statutory a p adjusted applied) (\<lambda>statutory.
     bindE (mapE (plan_milestone a p adjusted)
              (sort_key (\<lambda>kv. - snd kv) (offsets p (pa_default_lead_days a)))) (\<lambda>ms.
     Inr (statutory # concat ms))))"

definition plan_deadlines ::
  "plan_args \<Rightarrow> DeadlinePolicy option \<Rightarrow> RecurrenceContext \<Rightarrow> recurrence_error + PlannedDeadline list" where
  "plan_deadlines a policy ctx =
     (case policy of
        None \<Rightarrow> Inr []
      | Some p \<Rightarrow>
        bindE (expand (pol_recurrence_type p) (pol_recurrence_config p) ctx (pa_horizon_start a)
                 (pa_horizon_end a) (pa_max_occurrences a)) (\<lambda>occurrences.
        bindE (rec_py (mapE (plan_occurrence a p) occurrences)) (\<lambda>pss. Inr (concat pss))))"

definition classify_status :: "datetime \<Rightarrow> datetime \<Rightarrow> int \<Rightarrow> string" where
  "classify_status due_at moment approaching_days =
     (if due_at < moment then ''OVERDUE''
      else if utc_date due_at = utc_date moment then ''DUE_TODAY''
      else if td_days (due_at - moment) \<le> approaching_days then ''APPROACHING''
      else ''SCHEDULED'')"

subsection \<open>Lemmas\<close>

lemma materialization_text_inject:
  assumes "obl < 16 ^ 32" "obl' < 16 ^ 32" "\<forall>r. rule = Some r \<longrightarrow> r < 16 ^ 32" "\<forall>r. rule' = Some r \<longrightarrow> r < 16 ^ 32"
    and "CHR ''|'' \<notin> set ty" "CHR ''|'' \<notin> set ty'" "valid_date d" "valid_date d'"
    and eq: "materialization_text obl ty d rule = materialization_text obl' ty' d' rule'"
  shows "obl = obl' \<and> ty = ty' \<and> d = d' \<and> rule = rule'"
proof -
  let ?r = "\<lambda>x. case x of None \<Rightarrow> ''no-rule'' | Some r \<Rightarrow> str_uuid r"
  have "str_uuid obl = str_uuid obl'" and rest: "ty @ CHR ''|'' # isoformat d @ ''|'' @ ?r rule =
      ty' @ CHR ''|'' # isoformat d' @ ''|'' @ ?r rule'"
    using eq by (simp_all add: materialization_text_def)
  moreover from rest have "ty = ty'" and tail: "isoformat d @ ''|'' @ ?r rule = isoformat d' @ ''|'' @ ?r rule'"
    using append_sep_inject [OF assms(5,6)] by simp_all
  moreover from tail have "isoformat d = isoformat d'" and rr: "?r rule = ?r rule'" by simp_all
  moreover have "length (?r None) \<noteq> length (?r (Some r))" for r by simp
  then have "rule = rule'"
    using rr assms(3,4) str_uuid_inject by (cases rule; cases rule') (auto dest: arg_cong [where f = length])
  ultimately show ?thesis using str_uuid_inject [OF assms(1,2)] isoformat_inject [OF assms(7,8)] by simp
qed

definition severity_rank :: "string \<Rightarrow> int" where
  "severity_rank s = (case map_of [(''INFORMATIONAL'', 0), (''NORMAL'', 1), (''IMPORTANT'', 2), (''CRITICAL'', 3),
      (''REGULATORY_RISK'', 4)] s of None \<Rightarrow> - 1 | Some n \<Rightarrow> n)"

lemma severity_rises:
  "days' \<le> days \<Longrightarrow> severity_rank (severity_for ty days) \<le> severity_rank (severity_for ty days')"
  by (auto simp: severity_for_def Let_def severity_rank_def)

lemma plan_statutory_Inr:
  "plan_statutory a p adjusted applied = Inr q \<Longrightarrow>
     pd_deadline_type q = pa_statutory_type a \<and> pd_due_date q = adjusted \<and> pd_applied_adjustment q = applied \<and>
     pd_source_rule_id q = pol_id p \<and>
     pd_materialization_key q =
       build_materialization_key (pa_sha256 a) (pa_obligation_id a) (pd_deadline_type q) (pd_due_date q) (pol_id p)"
  by (auto simp: plan_statutory_def Let_def err_simps)

lemma plan_milestone_Inr:
  assumes "plan_milestone a p adjusted (ty, off) = Inr qs" "q \<in> set qs" "pa_calendar a = DEFAULT_CALENDAR"
    "toordinal (pa_horizon_end a) + 3 \<le> max_ordinal" "valid_date (pa_horizon_end a)"
  shows "pd_deadline_type q = ty \<and> pd_source_rule_id q = pol_id p \<and>
     pd_materialization_key q =
       build_materialization_key (pa_sha256 a) (pa_obligation_id a) (pd_deadline_type q) (pd_due_date q) (pol_id p) \<and>
     (\<exists>target. add_days adjusted (- off) = Inr target \<and> target \<le> pa_horizon_end a \<and>
        is_business_day DEFAULT_CALENDAR (pd_due_date q) = Inr True \<and> target \<le> pd_due_date q \<and>
        days_between (pd_due_date q) target \<le> 3)"
proof -
  obtain target b where t: "add_days adjusted (- off) = Inr target" "\<not> pa_horizon_end a < target"
    "is_business_day DEFAULT_CALENDAR target = Inr b"
    "(if b then Inr target else next_business_day DEFAULT_CALENDAR target True) = Inr (pd_due_date q)"
    and q: "pd_deadline_type q = ty" "pd_source_rule_id q = pol_id p" "pd_materialization_key q =
       build_materialization_key (pa_sha256 a) (pa_obligation_id a) (pd_deadline_type q) (pd_due_date q) (pol_id p)"
    using assms(1-3) by (auto simp: plan_milestone_def err_simps split: if_splits)
  have v: "valid_date target" using t(1) by (simp add: add_days_Inr)
  then have "toordinal target + 3 \<le> max_ordinal"
    using t(2) assms(4,5) toordinal_le_iff [of target "pa_horizon_end a"] by (simp add: not_less)
  from next_business_day_first [OF v this] t q show ?thesis
    by (cases b) (auto simp: days_between_def not_less)
qed

lemma plan_occurrence_Inr:
  assumes "plan_occurrence a p occ = Inr qs" "pa_calendar a = DEFAULT_CALENDAR"
    "toordinal (pa_horizon_end a) + 3 \<le> max_ordinal" "valid_date (pa_horizon_end a)"
  shows "\<exists>adjusted applied. apply_adjustment DEFAULT_CALENDAR occ (pol_adjustment_policy p) = Inr (adjusted, applied) \<and>
     (\<exists>s \<in> set qs. pd_deadline_type s = pa_statutory_type a \<and> pd_due_date s = adjusted \<and> pd_applied_adjustment s = applied) \<and>
     (\<forall>q \<in> set qs. pd_source_rule_id q = pol_id p \<and> pd_materialization_key q =
          build_materialization_key (pa_sha256 a) (pa_obligation_id a) (pd_deadline_type q) (pd_due_date q) (pol_id p) \<and>
        (pd_deadline_type q = pa_statutory_type a \<and> pd_due_date q = adjusted \<or>
         (\<exists>off target. (pd_deadline_type q, off) \<in> set (offsets p (pa_default_lead_days a)) \<and>
            add_days adjusted (- off) = Inr target \<and> target \<le> pa_horizon_end a \<and>
            is_business_day DEFAULT_CALENDAR (pd_due_date q) = Inr True \<and> target \<le> pd_due_date q \<and>
            days_between (pd_due_date q) target \<le> 3)))"
proof -
  obtain adjusted applied s ms where
    o: "apply_adjustment DEFAULT_CALENDAR occ (pol_adjustment_policy p) = Inr (adjusted, applied)"
      "plan_statutory a p adjusted applied = Inr s"
      "mapE (plan_milestone a p adjusted) (sort_key (\<lambda>kv. - snd kv) (offsets p (pa_default_lead_days a))) = Inr ms"
      "qs = s # concat ms"
    using assms(1,2) by (auto simp: plan_occurrence_def err_simps)
  have "(\<exists>off target. (pd_deadline_type q, off) \<in> set (offsets p (pa_default_lead_days a)) \<and>
          add_days adjusted (- off) = Inr target \<and> target \<le> pa_horizon_end a \<and>
          is_business_day DEFAULT_CALENDAR (pd_due_date q) = Inr True \<and> target \<le> pd_due_date q \<and>
          days_between (pd_due_date q) target \<le> 3) \<and>
        pd_source_rule_id q = pol_id p \<and> pd_materialization_key q =
          build_materialization_key (pa_sha256 a) (pa_obligation_id a) (pd_deadline_type q) (pd_due_date q) (pol_id p)"
    if q: "q \<in> set (concat ms)" for q
  proof -
    obtain m where "m \<in> set ms" "q \<in> set m" using q by auto
    then obtain ty off where "(ty, off) \<in> set (offsets p (pa_default_lead_days a))"
      "plan_milestone a p adjusted (ty, off) = Inr m"
      using mapE_Inr_set [OF o(3)] by fastforce
    with plan_milestone_Inr [OF this(2) \<open>q \<in> set m\<close> assms(2-4)] show ?thesis by blast
  qed
  then show ?thesis using o plan_statutory_Inr [OF o(2)] by auto
qed

subsection \<open>Properties\<close>


definition ex_plan_policy :: DeadlinePolicy where
  "ex_plan_policy = ex_deadline_policy\<lparr>pol_milestone_offsets := [(''SUBMISSION_DUE'', 1)]\<rparr>"

definition ex_plan_args :: plan_args where
  "ex_plan_args = \<lparr>pa_zones = (\<lambda>_. None), pa_sha256 = (\<lambda>s. s), pa_obligation_id = 7,
     pa_horizon_start = Date 2026 6 1, pa_horizon_end = Date 2026 12 31, pa_default_lead_days = 30,
     pa_timezone_name = None, pa_calendar = DEFAULT_CALENDAR, pa_statutory_type = ''STATUTORY_DUE'',
     pa_today = Date 2026 6 1, pa_max_occurrences = 6\<rparr>"

lemma ex_plan:
  "\<exists>s q. plan_deadlines ex_plan_args (Some ex_plan_policy) ex_context = Inr [s, q] \<and>
     pd_deadline_type s = ''STATUTORY_DUE'' \<and> pd_due_date s = Date 2026 7 4 \<and>
     pd_deadline_type q = ''SUBMISSION_DUE'' \<and> pd_due_date q = Date 2026 7 6"
proof -
  have occ: "expand ''FIXED_ANNUAL_DATE'' [(''month'', JInt 7), (''day'', JInt 4)] ex_context (Date 2026 6 1) (Date 2026 12 31) 6 =
      Inr [Date 2026 7 4]" by code_simp
  have adj: "apply_adjustment DEFAULT_CALENDAR (Date 2026 7 4) ''NONE'' = Inr (Date 2026 7 4, None)" by code_simp
  have due: "to_due_datetime (\<lambda>_. None) (Date 2026 7 4) None = Inr 1783184400000000"
    "to_due_datetime (\<lambda>_. None) (Date 2026 6 24) None = Inr 1782320400000000"
    "to_due_datetime (\<lambda>_. None) (Date 2026 7 6) None = Inr 1783357200000000" by code_simp+
  have days: "add_days (Date 2026 7 4) (- 10) = Inr (Date 2026 6 24)" "add_days (Date 2026 7 4) (- 1) = Inr (Date 2026 7 3)"
    "is_business_day DEFAULT_CALENDAR (Date 2026 7 3) = Inr False"
    "next_business_day DEFAULT_CALENDAR (Date 2026 7 3) True = Inr (Date 2026 7 6)" by code_simp+
  have lt: "\<not> Date 2026 12 31 < Date 2026 7 3" by code_simp
  show ?thesis
    by (simp add: plan_deadlines_def ex_plan_policy_def ex_deadline_policy_def ex_plan_args_def occ plan_occurrence_def adj
        plan_statutory_def Let_def policy_lead_def due days offsets_def plan_milestone_def lt)
qed


text \<open>Distinct deadlines have distinct keys before hashing: from the text of a materialization key
  the obligation, the deadline type, the date and the rule can be read back, so two plans collide on the
  unique index only if they are for the same one.\<close>

theorem materialization_key_determines_deadline:
  assumes "obl < 16 ^ 32" and "obl' < 16 ^ 32"
    and "\<forall>r. rule = Some r \<longrightarrow> r < 16 ^ 32" and "\<forall>r. rule' = Some r \<longrightarrow> r < 16 ^ 32"
    and "ty \<in> set DeadlineType" and "ty' \<in> set DeadlineType" and "valid_date d" and "valid_date d'"
    and "materialization_text obl ty d rule = materialization_text obl' ty' d' rule'"
  shows "obl = obl' \<and> ty = ty' \<and> d = d' \<and> rule = rule'"
proof -
  have "CHR ''|'' \<notin> set ty" if "ty \<in> set DeadlineType" for ty
    using that by (auto simp: DeadlineType_def)
  then show ?thesis using materialization_text_inject [OF assms(1-4) _ _ assms(7-9)] assms(5,6) by blast
qed

theorem materialization_key_determines_deadline_witness:
  "materialization_text 7 ''STATUTORY_DUE'' (Date 2026 7 4) None \<noteq> materialization_text 7 ''STATUTORY_DUE'' (Date 2026 7 5) None"
proof -
  have "valid_date (Date 2026 7 4)" "valid_date (Date 2026 7 5)" by code_simp+
  then show ?thesis
    using materialization_key_determines_deadline [of 7 7 None None "''STATUTORY_DUE''" "''STATUTORY_DUE''" "Date 2026 7 4" "Date 2026 7 5"]
    by (auto simp: DeadlineType_def)
qed

text \<open>Milestones are moved to the next business day even over the due date: with a due date on the
  Saturday of Independence Day and a milestone one day before, the milestone is planned two days after
  the statutory date.\<close>

theorem milestone_can_pass_the_due_date:
  "\<exists>ps s q. plan_deadlines ex_plan_args (Some ex_plan_policy) ex_context = Inr ps \<and> s \<in> set ps \<and> q \<in> set ps \<and>
     pd_deadline_type s = ''STATUTORY_DUE'' \<and> pd_deadline_type q = ''SUBMISSION_DUE'' \<and> pd_due_date s < pd_due_date q"
proof -
  have "Date 2026 7 4 < Date 2026 7 6" by code_simp
  with ex_plan show ?thesis by fastforce
qed

end
