(* ===== verification/Case_Stages.thy ===== *)
theory Case_Stages
  imports Py_Json
begin

text \<open>
  The compliance-case stage machine of \<^verbatim>\<open>app/licensing/stages.py\<close>: the stages and
  statuses of \<^verbatim>\<open>app/licensing/enums.py\<close>, the explicit transition matrix, the evidence
  a stage demands, the status a stage implies, and the validation of a proposed move. Stages
  travel through the code as their string values, and the target of a move comes from the
  caller, so the validation works on strings and an unknown stage is one of its refusals.
\<close>

subsection \<open>Stages and statuses\<close>

datatype CaseStage =
    DUE_IDENTIFIED | CASE_PLANNING | VENDOR_OUTREACH_PENDING | VENDOR_OUTREACH_SENT
  | VENDOR_QUESTIONS | INTERNAL_INFORMATION_PENDING | ANSWERS_READY | ANSWERS_SENT
  | DOCUMENT_CHECKLIST_RECEIVED | DOCUMENTS_PENDING | PACKET_BUILDING | PACKET_READY_FOR_REVIEW
  | PACKET_APPROVED | PACKET_SENT | FORM_RECEIVED | FORM_PREPARATION | FORM_MISSING_INFORMATION
  | FORM_READY_FOR_REVIEW | SIGNATURE_PENDING | SIGNED_FORM_RECEIVED | SUBMISSION_PENDING
  | SUBMITTED_TO_VENDOR | SUBMITTED_TO_REGULATOR | VENDOR_VALIDATION | REGULATOR_REVIEW
  | DEFICIENCY_RECEIVED | RENEWED_EVIDENCE_RECEIVED | INVENTORY_UPDATE_PENDING | COMPLETED
  | BLOCKED | CANCELLED

datatype CaseStatus =
    OPEN | IN_PROGRESS | WAITING_INTERNAL | WAITING_VENDOR | WAITING_SIGNATURE
  | WAITING_SUBMISSION | WAITING_REGULATOR | BLOCKED | COMPLETED | CANCELLED | OVERDUE

definition all_stages :: "CaseStage list" where
  "all_stages =
    [DUE_IDENTIFIED, CASE_PLANNING, VENDOR_OUTREACH_PENDING, VENDOR_OUTREACH_SENT,
     VENDOR_QUESTIONS, INTERNAL_INFORMATION_PENDING, ANSWERS_READY, ANSWERS_SENT,
     DOCUMENT_CHECKLIST_RECEIVED, DOCUMENTS_PENDING, PACKET_BUILDING, PACKET_READY_FOR_REVIEW,
     PACKET_APPROVED, PACKET_SENT, FORM_RECEIVED, FORM_PREPARATION, FORM_MISSING_INFORMATION,
     FORM_READY_FOR_REVIEW, SIGNATURE_PENDING, SIGNED_FORM_RECEIVED, SUBMISSION_PENDING,
     SUBMITTED_TO_VENDOR, SUBMITTED_TO_REGULATOR, VENDOR_VALIDATION, REGULATOR_REVIEW,
     DEFICIENCY_RECEIVED, RENEWED_EVIDENCE_RECEIVED, INVENTORY_UPDATE_PENDING,
     CaseStage.COMPLETED, CaseStage.BLOCKED, CaseStage.CANCELLED]"

fun stage_value :: "CaseStage \<Rightarrow> string" where
  "stage_value DUE_IDENTIFIED = ''DUE_IDENTIFIED''"
| "stage_value CASE_PLANNING = ''CASE_PLANNING''"
| "stage_value VENDOR_OUTREACH_PENDING = ''VENDOR_OUTREACH_PENDING''"
| "stage_value VENDOR_OUTREACH_SENT = ''VENDOR_OUTREACH_SENT''"
| "stage_value VENDOR_QUESTIONS = ''VENDOR_QUESTIONS''"
| "stage_value INTERNAL_INFORMATION_PENDING = ''INTERNAL_INFORMATION_PENDING''"
| "stage_value ANSWERS_READY = ''ANSWERS_READY''"
| "stage_value ANSWERS_SENT = ''ANSWERS_SENT''"
| "stage_value DOCUMENT_CHECKLIST_RECEIVED = ''DOCUMENT_CHECKLIST_RECEIVED''"
| "stage_value DOCUMENTS_PENDING = ''DOCUMENTS_PENDING''"
| "stage_value PACKET_BUILDING = ''PACKET_BUILDING''"
| "stage_value PACKET_READY_FOR_REVIEW = ''PACKET_READY_FOR_REVIEW''"
| "stage_value PACKET_APPROVED = ''PACKET_APPROVED''"
| "stage_value PACKET_SENT = ''PACKET_SENT''"
| "stage_value FORM_RECEIVED = ''FORM_RECEIVED''"
| "stage_value FORM_PREPARATION = ''FORM_PREPARATION''"
| "stage_value FORM_MISSING_INFORMATION = ''FORM_MISSING_INFORMATION''"
| "stage_value FORM_READY_FOR_REVIEW = ''FORM_READY_FOR_REVIEW''"
| "stage_value SIGNATURE_PENDING = ''SIGNATURE_PENDING''"
| "stage_value SIGNED_FORM_RECEIVED = ''SIGNED_FORM_RECEIVED''"
| "stage_value SUBMISSION_PENDING = ''SUBMISSION_PENDING''"
| "stage_value SUBMITTED_TO_VENDOR = ''SUBMITTED_TO_VENDOR''"
| "stage_value SUBMITTED_TO_REGULATOR = ''SUBMITTED_TO_REGULATOR''"
| "stage_value VENDOR_VALIDATION = ''VENDOR_VALIDATION''"
| "stage_value REGULATOR_REVIEW = ''REGULATOR_REVIEW''"
| "stage_value DEFICIENCY_RECEIVED = ''DEFICIENCY_RECEIVED''"
| "stage_value RENEWED_EVIDENCE_RECEIVED = ''RENEWED_EVIDENCE_RECEIVED''"
| "stage_value INVENTORY_UPDATE_PENDING = ''INVENTORY_UPDATE_PENDING''"
| "stage_value CaseStage.COMPLETED = ''COMPLETED''"
| "stage_value CaseStage.BLOCKED = ''BLOCKED''"
| "stage_value CaseStage.CANCELLED = ''CANCELLED''"

fun status_value :: "CaseStatus \<Rightarrow> string" where
  "status_value OPEN = ''OPEN''"
| "status_value IN_PROGRESS = ''IN_PROGRESS''"
| "status_value WAITING_INTERNAL = ''WAITING_INTERNAL''"
| "status_value WAITING_VENDOR = ''WAITING_VENDOR''"
| "status_value WAITING_SIGNATURE = ''WAITING_SIGNATURE''"
| "status_value WAITING_SUBMISSION = ''WAITING_SUBMISSION''"
| "status_value WAITING_REGULATOR = ''WAITING_REGULATOR''"
| "status_value CaseStatus.BLOCKED = ''BLOCKED''"
| "status_value CaseStatus.COMPLETED = ''COMPLETED''"
| "status_value CaseStatus.CANCELLED = ''CANCELLED''"
| "status_value OVERDUE = ''OVERDUE''"

text \<open>The member of the enumeration with a given value, if there is one.\<close>

definition stage_of :: "string \<Rightarrow> CaseStage option" where
  "stage_of s = find (\<lambda>x. stage_value x = s) all_stages"

subsection \<open>The matrix and its side tables\<close>

fun ALLOWED_STAGE_TRANSITIONS :: "CaseStage \<Rightarrow> CaseStage list" where
  "ALLOWED_STAGE_TRANSITIONS DUE_IDENTIFIED =
     [CASE_PLANNING, CaseStage.BLOCKED, CaseStage.CANCELLED]"
| "ALLOWED_STAGE_TRANSITIONS CASE_PLANNING =
     [VENDOR_OUTREACH_PENDING, DOCUMENT_CHECKLIST_RECEIVED, DOCUMENTS_PENDING,
      INTERNAL_INFORMATION_PENDING, FORM_RECEIVED, CaseStage.BLOCKED, CaseStage.CANCELLED]"
| "ALLOWED_STAGE_TRANSITIONS VENDOR_OUTREACH_PENDING =
     [VENDOR_OUTREACH_SENT, CaseStage.BLOCKED, CaseStage.CANCELLED]"
| "ALLOWED_STAGE_TRANSITIONS VENDOR_OUTREACH_SENT =
     [VENDOR_QUESTIONS, DOCUMENT_CHECKLIST_RECEIVED, FORM_RECEIVED, CaseStage.BLOCKED,
      CaseStage.CANCELLED]"
| "ALLOWED_STAGE_TRANSITIONS VENDOR_QUESTIONS =
     [INTERNAL_INFORMATION_PENDING, ANSWERS_READY, CaseStage.BLOCKED, CaseStage.CANCELLED]"
| "ALLOWED_STAGE_TRANSITIONS INTERNAL_INFORMATION_PENDING =
     [ANSWERS_READY, VENDOR_QUESTIONS, CaseStage.BLOCKED, CaseStage.CANCELLED]"
| "ALLOWED_STAGE_TRANSITIONS ANSWERS_READY =
     [ANSWERS_SENT, INTERNAL_INFORMATION_PENDING, CaseStage.BLOCKED, CaseStage.CANCELLED]"
| "ALLOWED_STAGE_TRANSITIONS ANSWERS_SENT =
     [DOCUMENT_CHECKLIST_RECEIVED, VENDOR_QUESTIONS, FORM_RECEIVED, CaseStage.BLOCKED,
      CaseStage.CANCELLED]"
| "ALLOWED_STAGE_TRANSITIONS DOCUMENT_CHECKLIST_RECEIVED =
     [DOCUMENTS_PENDING, PACKET_BUILDING, CaseStage.BLOCKED, CaseStage.CANCELLED]"
| "ALLOWED_STAGE_TRANSITIONS DOCUMENTS_PENDING =
     [PACKET_BUILDING, CaseStage.BLOCKED, CaseStage.CANCELLED]"
| "ALLOWED_STAGE_TRANSITIONS PACKET_BUILDING =
     [PACKET_READY_FOR_REVIEW, DOCUMENTS_PENDING, CaseStage.BLOCKED, CaseStage.CANCELLED]"
| "ALLOWED_STAGE_TRANSITIONS PACKET_READY_FOR_REVIEW =
     [PACKET_APPROVED, PACKET_BUILDING, CaseStage.BLOCKED, CaseStage.CANCELLED]"
| "ALLOWED_STAGE_TRANSITIONS PACKET_APPROVED =
     [PACKET_SENT, PACKET_BUILDING, CaseStage.BLOCKED, CaseStage.CANCELLED]"
| "ALLOWED_STAGE_TRANSITIONS PACKET_SENT =
     [FORM_RECEIVED, VENDOR_QUESTIONS, VENDOR_VALIDATION, SUBMISSION_PENDING,
      CaseStage.BLOCKED, CaseStage.CANCELLED]"
| "ALLOWED_STAGE_TRANSITIONS FORM_RECEIVED =
     [FORM_PREPARATION, CaseStage.BLOCKED, CaseStage.CANCELLED]"
| "ALLOWED_STAGE_TRANSITIONS FORM_PREPARATION =
     [FORM_MISSING_INFORMATION, FORM_READY_FOR_REVIEW, CaseStage.BLOCKED, CaseStage.CANCELLED]"
| "ALLOWED_STAGE_TRANSITIONS FORM_MISSING_INFORMATION =
     [FORM_PREPARATION, INTERNAL_INFORMATION_PENDING, FORM_READY_FOR_REVIEW, CaseStage.BLOCKED,
      CaseStage.CANCELLED]"
| "ALLOWED_STAGE_TRANSITIONS FORM_READY_FOR_REVIEW =
     [SIGNATURE_PENDING, SUBMISSION_PENDING, FORM_PREPARATION, CaseStage.BLOCKED,
      CaseStage.CANCELLED]"
| "ALLOWED_STAGE_TRANSITIONS SIGNATURE_PENDING =
     [SIGNED_FORM_RECEIVED, FORM_PREPARATION, CaseStage.BLOCKED, CaseStage.CANCELLED]"
| "ALLOWED_STAGE_TRANSITIONS SIGNED_FORM_RECEIVED =
     [SUBMISSION_PENDING, CaseStage.BLOCKED, CaseStage.CANCELLED]"
| "ALLOWED_STAGE_TRANSITIONS SUBMISSION_PENDING =
     [SUBMITTED_TO_VENDOR, SUBMITTED_TO_REGULATOR, CaseStage.BLOCKED, CaseStage.CANCELLED]"
| "ALLOWED_STAGE_TRANSITIONS SUBMITTED_TO_VENDOR =
     [VENDOR_VALIDATION, SUBMITTED_TO_REGULATOR, DEFICIENCY_RECEIVED, CaseStage.BLOCKED,
      CaseStage.CANCELLED]"
| "ALLOWED_STAGE_TRANSITIONS SUBMITTED_TO_REGULATOR =
     [REGULATOR_REVIEW, DEFICIENCY_RECEIVED, RENEWED_EVIDENCE_RECEIVED, CaseStage.BLOCKED,
      CaseStage.CANCELLED]"
| "ALLOWED_STAGE_TRANSITIONS VENDOR_VALIDATION =
     [SUBMITTED_TO_REGULATOR, REGULATOR_REVIEW, DEFICIENCY_RECEIVED, FORM_PREPARATION,
      CaseStage.BLOCKED, CaseStage.CANCELLED]"
| "ALLOWED_STAGE_TRANSITIONS REGULATOR_REVIEW =
     [DEFICIENCY_RECEIVED, RENEWED_EVIDENCE_RECEIVED, CaseStage.BLOCKED, CaseStage.CANCELLED]"
| "ALLOWED_STAGE_TRANSITIONS DEFICIENCY_RECEIVED =
     [INTERNAL_INFORMATION_PENDING, DOCUMENTS_PENDING, FORM_PREPARATION, PACKET_BUILDING,
      CaseStage.BLOCKED, CaseStage.CANCELLED]"
| "ALLOWED_STAGE_TRANSITIONS RENEWED_EVIDENCE_RECEIVED =
     [INVENTORY_UPDATE_PENDING, CaseStage.BLOCKED, CaseStage.CANCELLED]"
| "ALLOWED_STAGE_TRANSITIONS INVENTORY_UPDATE_PENDING =
     [CaseStage.COMPLETED, CaseStage.BLOCKED, CaseStage.CANCELLED]"
| "ALLOWED_STAGE_TRANSITIONS CaseStage.BLOCKED =
     [CASE_PLANNING, VENDOR_OUTREACH_PENDING, VENDOR_QUESTIONS, INTERNAL_INFORMATION_PENDING,
      DOCUMENTS_PENDING, PACKET_BUILDING, FORM_PREPARATION, SIGNATURE_PENDING,
      SUBMISSION_PENDING, REGULATOR_REVIEW, CaseStage.CANCELLED]"
| "ALLOWED_STAGE_TRANSITIONS CaseStage.COMPLETED = []"
| "ALLOWED_STAGE_TRANSITIONS CaseStage.CANCELLED = []"

fun STAGE_EVIDENCE_REQUIREMENTS :: "CaseStage \<Rightarrow> string list" where
  "STAGE_EVIDENCE_REQUIREMENTS VENDOR_OUTREACH_SENT = [''outreach_reference'']"
| "STAGE_EVIDENCE_REQUIREMENTS ANSWERS_SENT = [''answer_reference'']"
| "STAGE_EVIDENCE_REQUIREMENTS PACKET_APPROVED = [''document_packet_id'']"
| "STAGE_EVIDENCE_REQUIREMENTS PACKET_SENT = [''document_packet_id'']"
| "STAGE_EVIDENCE_REQUIREMENTS SIGNED_FORM_RECEIVED = [''signed_document_id'']"
| "STAGE_EVIDENCE_REQUIREMENTS SUBMITTED_TO_VENDOR = [''submission_reference'']"
| "STAGE_EVIDENCE_REQUIREMENTS SUBMITTED_TO_REGULATOR = [''submission_reference'']"
| "STAGE_EVIDENCE_REQUIREMENTS RENEWED_EVIDENCE_RECEIVED = [''renewed_evidence_document_id'']"
| "STAGE_EVIDENCE_REQUIREMENTS _ = []"

fun STAGE_STATUS :: "CaseStage \<Rightarrow> CaseStatus" where
  "STAGE_STATUS DUE_IDENTIFIED = OPEN"
| "STAGE_STATUS CASE_PLANNING = IN_PROGRESS"
| "STAGE_STATUS VENDOR_OUTREACH_PENDING = IN_PROGRESS"
| "STAGE_STATUS VENDOR_OUTREACH_SENT = WAITING_VENDOR"
| "STAGE_STATUS VENDOR_QUESTIONS = WAITING_INTERNAL"
| "STAGE_STATUS INTERNAL_INFORMATION_PENDING = WAITING_INTERNAL"
| "STAGE_STATUS ANSWERS_READY = IN_PROGRESS"
| "STAGE_STATUS ANSWERS_SENT = WAITING_VENDOR"
| "STAGE_STATUS DOCUMENT_CHECKLIST_RECEIVED = IN_PROGRESS"
| "STAGE_STATUS DOCUMENTS_PENDING = WAITING_INTERNAL"
| "STAGE_STATUS PACKET_BUILDING = IN_PROGRESS"
| "STAGE_STATUS PACKET_READY_FOR_REVIEW = IN_PROGRESS"
| "STAGE_STATUS PACKET_APPROVED = IN_PROGRESS"
| "STAGE_STATUS PACKET_SENT = WAITING_VENDOR"
| "STAGE_STATUS FORM_RECEIVED = IN_PROGRESS"
| "STAGE_STATUS FORM_PREPARATION = IN_PROGRESS"
| "STAGE_STATUS FORM_MISSING_INFORMATION = WAITING_INTERNAL"
| "STAGE_STATUS FORM_READY_FOR_REVIEW = IN_PROGRESS"
| "STAGE_STATUS SIGNATURE_PENDING = WAITING_SIGNATURE"
| "STAGE_STATUS SIGNED_FORM_RECEIVED = IN_PROGRESS"
| "STAGE_STATUS SUBMISSION_PENDING = WAITING_SUBMISSION"
| "STAGE_STATUS SUBMITTED_TO_VENDOR = WAITING_VENDOR"
| "STAGE_STATUS SUBMITTED_TO_REGULATOR = WAITING_REGULATOR"
| "STAGE_STATUS VENDOR_VALIDATION = WAITING_VENDOR"
| "STAGE_STATUS REGULATOR_REVIEW = WAITING_REGULATOR"
| "STAGE_STATUS DEFICIENCY_RECEIVED = IN_PROGRESS"
| "STAGE_STATUS RENEWED_EVIDENCE_RECEIVED = IN_PROGRESS"
| "STAGE_STATUS INVENTORY_UPDATE_PENDING = IN_PROGRESS"
| "STAGE_STATUS CaseStage.COMPLETED = CaseStatus.COMPLETED"
| "STAGE_STATUS CaseStage.BLOCKED = CaseStatus.BLOCKED"
| "STAGE_STATUS CaseStage.CANCELLED = CaseStatus.CANCELLED"

definition POST_SIGNATURE_STAGES :: "CaseStage list" where
  "POST_SIGNATURE_STAGES = [SUBMISSION_PENDING, SUBMITTED_TO_VENDOR, SUBMITTED_TO_REGULATOR]"

definition TERMINAL_STAGES :: "CaseStage list" where
  "TERMINAL_STAGES = [CaseStage.COMPLETED, CaseStage.CANCELLED]"

text \<open>Membership and lookup of a string key in the tables.\<close>

definition stage_in :: "string \<Rightarrow> CaseStage list \<Rightarrow> bool" where
  "stage_in s xs \<longleftrightarrow> s \<in> stage_value ` set xs"

definition allowed_get :: "string \<Rightarrow> CaseStage list" where
  "allowed_get s = (case stage_of s of None \<Rightarrow> [] | Some x \<Rightarrow> ALLOWED_STAGE_TRANSITIONS x)"

definition evidence_get :: "string \<Rightarrow> string list" where
  "evidence_get s = (case stage_of s of None \<Rightarrow> [] | Some x \<Rightarrow> STAGE_EVIDENCE_REQUIREMENTS x)"

subsection \<open>Validation of a proposed move\<close>

text \<open>The refusals, one constructor for each message the code builds.\<close>

datatype stage_refusal =
    AlreadyInStage
  | StageIsTerminal string
  | UnknownStage string
  | NotAllowedTransition string string
  | RequiresEvidence string "string list"
  | SignatureNotRecorded
  | CompletionWithoutEvidence

record TransitionCheck =
  tc_allowed :: bool
  tc_reason :: "stage_refusal option"
  tc_missing_evidence :: "string list"
  tc_resulting_status :: "CaseStatus option"

definition refuse :: "stage_refusal \<Rightarrow> string list \<Rightarrow> TransitionCheck" where
  "refuse r missing = \<lparr>tc_allowed = False, tc_reason = Some r,
     tc_missing_evidence = missing, tc_resulting_status = None\<rparr>"

definition validate_stage_transition ::
  "string \<Rightarrow> string \<Rightarrow> jdict option \<Rightarrow> bool \<Rightarrow> bool \<Rightarrow> bool \<Rightarrow> string option \<Rightarrow> TransitionCheck" where
  "validate_stage_transition from_stage to_stage evidence signature_required signature_recorded
       has_renewed_evidence close_reason =
     (let payload = (case evidence of None \<Rightarrow> [] | Some d \<Rightarrow> d);
          required = evidence_get to_stage;
          missing = filter (\<lambda>key. \<not> truthy (jget_or payload key JNull)) required
      in if from_stage = to_stage then refuse AlreadyInStage []
         else if stage_in from_stage TERMINAL_STAGES then refuse (StageIsTerminal from_stage) []
         else if stage_of to_stage = None then refuse (UnknownStage to_stage) []
         else if \<not> stage_in to_stage (allowed_get from_stage)
           then refuse (NotAllowedTransition from_stage to_stage) []
         else if missing \<noteq> [] then refuse (RequiresEvidence to_stage missing) missing
         else if signature_required \<and> \<not> signature_recorded \<and>
                 stage_in to_stage POST_SIGNATURE_STAGES
           then refuse SignatureNotRecorded []
         else if to_stage = ''COMPLETED'' \<and> \<not> has_renewed_evidence \<and>
                 (close_reason = None \<or> close_reason = Some [])
           then refuse CompletionWithoutEvidence []
         else \<lparr>tc_allowed = True, tc_reason = None, tc_missing_evidence = [],
                tc_resulting_status = map_option STAGE_STATUS (stage_of to_stage)\<rparr>)"

definition next_stages :: "string \<Rightarrow> string list" where
  "next_stages from_stage = sort (dict_fromkeys (map stage_value (allowed_get from_stage)))"

definition initial_stage :: string where
  "initial_stage = stage_value DUE_IDENTIFIED"

subsection \<open>The values identify the stages\<close>

lemma all_stages_complete: "x \<in> set all_stages"
  by (cases x) (simp_all add: all_stages_def)

lemma distinct_stage_values: "distinct (map stage_value all_stages)"
  by code_simp

lemma stage_value_inject [simp]: "stage_value x = stage_value y \<longleftrightarrow> x = y"
  using distinct_stage_values all_stages_complete
  by (metis distinct_map inj_onD)

lemma stage_of_value [simp]: "stage_of (stage_value x) = Some x"
proof -
  have "find (\<lambda>z. stage_value z = stage_value x) all_stages = Some y \<Longrightarrow> y = x" for y
    by (auto simp: find_Some_iff)
  moreover have "find (\<lambda>z. stage_value z = stage_value x) all_stages \<noteq> None"
    using all_stages_complete [of x] by (auto simp: find_None_iff)
  ultimately show ?thesis unfolding stage_of_def by blast
qed

lemma stage_of_Some_iff: "stage_of s = Some x \<longleftrightarrow> s = stage_value x"
proof
  assume "stage_of s = Some x"
  then show "s = stage_value x" unfolding stage_of_def find_Some_iff by metis
qed simp

lemma stage_in_value [simp]: "stage_in (stage_value x) xs \<longleftrightarrow> x \<in> set xs"
  by (auto simp: stage_in_def)

lemma stage_get_value [simp]:
  "allowed_get (stage_value x) = ALLOWED_STAGE_TRANSITIONS x"
  "evidence_get (stage_value x) = STAGE_EVIDENCE_REQUIREMENTS x"
  by (simp_all add: allowed_get_def evidence_get_def)

lemma stage_value_COMPLETED [simp]: "stage_value x = ''COMPLETED'' \<longleftrightarrow> x = CaseStage.COMPLETED"
  using stage_value_inject [of x CaseStage.COMPLETED] by (simp del: stage_value_inject)

text \<open>
  What the validation accepts, as one condition on the stages.
\<close>

definition move_ok ::
  "CaseStage \<Rightarrow> CaseStage \<Rightarrow> jdict \<Rightarrow> bool \<Rightarrow> bool \<Rightarrow> bool \<Rightarrow> string option \<Rightarrow> bool" where
  "move_ok x y payload sig_req sig_rec renewed close \<longleftrightarrow>
     y \<in> set (ALLOWED_STAGE_TRANSITIONS x) \<and>
     (\<forall>k \<in> set (STAGE_EVIDENCE_REQUIREMENTS y). truthy (jget_or payload k JNull)) \<and>
     (y \<in> set POST_SIGNATURE_STAGES \<longrightarrow> sig_req \<longrightarrow> sig_rec) \<and>
     (y = CaseStage.COMPLETED \<longrightarrow> renewed \<or> (close \<noteq> None \<and> close \<noteq> Some []))"

lemma allowed_irrefl: "x \<notin> set (ALLOWED_STAGE_TRANSITIONS x)"
  by (cases x) simp_all

lemma terminal_no_moves: "x \<in> set TERMINAL_STAGES \<longleftrightarrow> ALLOWED_STAGE_TRANSITIONS x = []"
  by (cases x) (simp_all add: TERMINAL_STAGES_def)

lemma validate_allowed_iff:
  "tc_allowed (validate_stage_transition (stage_value x) to_stage ev sr sc re cr) \<longleftrightarrow>
     (\<exists>y. to_stage = stage_value y \<and>
        move_ok x y (case ev of None \<Rightarrow> [] | Some d \<Rightarrow> d) sr sc re cr)"
proof (cases "stage_of to_stage")
  case None
  then have "\<nexists>y. to_stage = stage_value y" by auto
  with None show ?thesis by (simp add: validate_stage_transition_def Let_def refuse_def)
next
  case (Some y)
  then have y: "to_stage = stage_value y" by (simp add: stage_of_Some_iff)
  have "tc_allowed (validate_stage_transition (stage_value x) (stage_value y) ev sr sc re cr) \<longleftrightarrow>
     move_ok x y (case ev of None \<Rightarrow> [] | Some d \<Rightarrow> d) sr sc re cr"
    using terminal_no_moves [of x] allowed_irrefl [of x]
    by (auto simp: validate_stage_transition_def Let_def refuse_def move_ok_def filter_empty_conv)
  with y show ?thesis by auto
qed

lemma validate_status:
  "tc_allowed (validate_stage_transition x (stage_value y) ev sr sc re cr) \<Longrightarrow>
     tc_resulting_status (validate_stage_transition x (stage_value y) ev sr sc re cr)
       = Some (STAGE_STATUS y)"
  by (auto simp: validate_stage_transition_def Let_def refuse_def split: if_splits)

lemma terminal_status_iff:
  "STAGE_STATUS x \<in> {CaseStatus.COMPLETED, CaseStatus.CANCELLED} \<longleftrightarrow> x \<in> set TERMINAL_STAGES"
  by (cases x) (simp_all add: TERMINAL_STAGES_def)

end
