(* ===== verification/Alerts.thy ===== *)
theory Alerts
  imports Py_Json Py_Text
begin

text \<open>
  Internal notifications: the drafts built by \<^verbatim>\<open>app/deadlines/alerts.py\<close> with their
  deterministic keys, and \<^verbatim>\<open>record_notification\<close> of \<^verbatim>\<open>app/licensing/audit.py\<close>, which
  writes a notification row and an outbox row unless the key is already taken. SHA-256 is a
  parameter.
\<close>

subsection \<open>Text\<close>

definition upper_char :: "char \<Rightarrow> char" where
  "upper_char c = (if 97 \<le> (of_char c :: nat) \<and> (of_char c :: nat) \<le> 122 then char_of ((of_char c :: nat) - 32) else c)"

definition is_alpha :: "char \<Rightarrow> bool" where
  "is_alpha c \<longleftrightarrow> (65 \<le> (of_char c :: nat) \<and> (of_char c :: nat) \<le> 90) \<or> (97 \<le> (of_char c :: nat) \<and> (of_char c :: nat) \<le> 122)"

text \<open>\<^verbatim>\<open>str.title()\<close> on ASCII: a letter after a letter is lowered, any other letter raised.\<close>

fun title_from :: "bool \<Rightarrow> string \<Rightarrow> string" where
  "title_from inside [] = []"
| "title_from inside (c # cs) = (if inside then lower_char c else upper_char c) # title_from (is_alpha c) cs"

definition humanize :: "string \<Rightarrow> string" where
  "humanize s = title_from False (map (\<lambda>c. if c = CHR ''_'' then CHR '' '' else c) s)"

subsection \<open>Drafts\<close>

record NotificationDraft =
  nd_type :: string
  nd_severity :: string
  nd_recipient :: string
  nd_title :: string
  nd_body :: "string option"
  nd_entity_type :: string
  nd_entity_id :: string
  nd_idempotency_key :: string
  nd_payload :: jdict
  nd_escalation_level :: "string option"

definition json_opt :: "string option \<Rightarrow> json" where
  "json_opt s = (case s of None \<Rightarrow> JNull | Some x \<Rightarrow> JStr x)"

definition key_text :: "string option list \<Rightarrow> string" where
  "key_text parts = join_str ''|'' (map (\<lambda>p. case p of Some (c # s) \<Rightarrow> c # s | _ \<Rightarrow> ''-'') parts)"

definition build_idempotency_key :: "(string \<Rightarrow> string) \<Rightarrow> string option list \<Rightarrow> string" where
  "build_idempotency_key sha256 parts = sha256 (key_text parts)"

definition deadline_alert ::
  "(string \<Rightarrow> string) \<Rightarrow> uuid \<Rightarrow> uuid \<Rightarrow> string \<Rightarrow> string \<Rightarrow> string \<Rightarrow> string option \<Rightarrow> int \<Rightarrow> bool \<Rightarrow> string \<Rightarrow>
     uuid option \<Rightarrow> NotificationDraft" where
  "deadline_alert sha256 deadline_id obligation_id deadline_type recipient severity level days_remaining
       is_overdue window_suffix case_id =
     \<lparr>nd_type = (if is_overdue then ''OVERDUE_ESCALATION'' else ''DEADLINE_WARNING''),
      nd_severity = severity, nd_recipient = recipient,
      nd_title = (if is_overdue
        then ''Overdue: '' @ humanize deadline_type @ '' ('' @ str_int \<bar>days_remaining\<bar> @ ''d past)''
        else ''Due in '' @ str_int days_remaining @ ''d: '' @ humanize deadline_type),
      nd_body = Some (''Open the compliance calendar to review this obligation. '' @
        ''Dates and ownership are shown in the case workspace.''),
      nd_entity_type = ''compliance_deadline'', nd_entity_id = str_uuid deadline_id,
      nd_idempotency_key = build_idempotency_key sha256
        [Some ''deadline'', Some (str_uuid deadline_id), Some window_suffix, level],
      nd_payload = [(''deadline_id'', JStr (str_uuid deadline_id)), (''obligation_id'', JStr (str_uuid obligation_id)),
        (''compliance_case_id'', json_opt (map_option str_uuid case_id)), (''deadline_type'', JStr deadline_type),
        (''days_remaining'', JInt days_remaining), (''is_overdue'', JBool is_overdue),
        (''escalation_level'', json_opt level)],
      nd_escalation_level = level\<rparr>"

definition information_request_alert ::
  "(string \<Rightarrow> string) \<Rightarrow> uuid \<Rightarrow> uuid \<Rightarrow> string \<Rightarrow> string \<Rightarrow> bool \<Rightarrow> string option \<Rightarrow> NotificationDraft" where
  "information_request_alert sha256 request_id case_id recipient severity overdue information_key =
     \<lparr>nd_type = (if overdue then ''UNANSWERED_INFORMATION'' else ''ASSIGNMENT''),
      nd_severity = severity, nd_recipient = recipient,
      nd_title = (if overdue then ''Information request overdue'' else ''Information request assigned to you''),
      nd_body = Some ''Answer the request in the portal. Approved answers are reused automatically.'',
      nd_entity_type = ''case_information_request'', nd_entity_id = str_uuid request_id,
      nd_idempotency_key = build_idempotency_key sha256
        [Some ''info-request'', Some (str_uuid request_id), Some (if overdue then ''overdue'' else ''assigned'')],
      nd_payload = [(''case_information_request_id'', JStr (str_uuid request_id)),
        (''compliance_case_id'', JStr (str_uuid case_id)), (''information_key'', json_opt information_key),
        (''overdue'', JBool overdue)],
      nd_escalation_level = None\<rparr>"

definition stale_source_alert ::
  "(string \<Rightarrow> string) \<Rightarrow> uuid \<Rightarrow> string \<Rightarrow> string \<Rightarrow> string \<Rightarrow> NotificationDraft" where
  "stale_source_alert sha256 source_id recipient source_type freshness_status =
     \<lparr>nd_type = ''STALE_SOURCE'', nd_severity = ''IMPORTANT'', nd_recipient = recipient,
      nd_title = ''Requirement source needs verification ('' @ freshness_status @ '')'',
      nd_body = Some ''Verify the source and record a new snapshot before relying on it again.'',
      nd_entity_type = ''requirement_source'', nd_entity_id = str_uuid source_id,
      nd_idempotency_key = build_idempotency_key sha256
        [Some ''stale-source'', Some (str_uuid source_id), Some freshness_status],
      nd_payload = [(''requirement_source_id'', JStr (str_uuid source_id)), (''source_type'', JStr source_type),
        (''freshness_status'', JStr freshness_status)],
      nd_escalation_level = None\<rparr>"

definition source_change_alert ::
  "(string \<Rightarrow> string) \<Rightarrow> uuid \<Rightarrow> uuid \<Rightarrow> string \<Rightarrow> string \<Rightarrow> NotificationDraft" where
  "source_change_alert sha256 snapshot_id source_id recipient source_type =
     \<lparr>nd_type = ''SOURCE_CHANGE_REVIEW'', nd_severity = ''IMPORTANT'', nd_recipient = recipient,
      nd_title = ''Requirement source changed and needs review'',
      nd_body = Some (''A new snapshot is pending review. Active rules are unchanged until a '' @
        ''reviewer decides whether they are affected.''),
      nd_entity_type = ''requirement_source_snapshot'', nd_entity_id = str_uuid snapshot_id,
      nd_idempotency_key = build_idempotency_key sha256 [Some ''source-change'', Some (str_uuid snapshot_id)],
      nd_payload = [(''requirement_source_snapshot_id'', JStr (str_uuid snapshot_id)),
        (''requirement_source_id'', JStr (str_uuid source_id)), (''source_type'', JStr source_type)],
      nd_escalation_level = None\<rparr>"

definition missing_document_alert ::
  "(string \<Rightarrow> string) \<Rightarrow> uuid \<Rightarrow> uuid \<Rightarrow> string \<Rightarrow> int \<Rightarrow> NotificationDraft" where
  "missing_document_alert sha256 packet_id case_id recipient missing_count =
     \<lparr>nd_type = ''MISSING_DOCUMENT'', nd_severity = ''IMPORTANT'', nd_recipient = recipient,
      nd_title = ''Packet is missing '' @ str_int missing_count @ '' document(s)'',
      nd_body = Some ''Open the packet builder to supply or override the outstanding items.'',
      nd_entity_type = ''document_packet'', nd_entity_id = str_uuid packet_id,
      nd_idempotency_key = build_idempotency_key sha256
        [Some ''packet-missing'', Some (str_uuid packet_id), Some (str_int missing_count)],
      nd_payload = [(''document_packet_id'', JStr (str_uuid packet_id)),
        (''compliance_case_id'', JStr (str_uuid case_id)), (''missing_count'', JInt missing_count)],
      nd_escalation_level = None\<rparr>"

definition signature_pending_alert ::
  "(string \<Rightarrow> string) \<Rightarrow> uuid \<Rightarrow> uuid \<Rightarrow> string \<Rightarrow> NotificationDraft" where
  "signature_pending_alert sha256 form_instance_id case_id recipient =
     \<lparr>nd_type = ''SIGNATURE_PENDING'', nd_severity = ''IMPORTANT'', nd_recipient = recipient,
      nd_title = ''Form is awaiting an authorised signature'',
      nd_body = Some (''The draft is approved for signature. Signing happens outside this '' @
        ''system; record the signed copy when it is returned.''),
      nd_entity_type = ''form_instance'', nd_entity_id = str_uuid form_instance_id,
      nd_idempotency_key = build_idempotency_key sha256 [Some ''signature-pending'', Some (str_uuid form_instance_id)],
      nd_payload = [(''form_instance_id'', JStr (str_uuid form_instance_id)),
        (''compliance_case_id'', JStr (str_uuid case_id))],
      nd_escalation_level = None\<rparr>"

definition stale_information_alert ::
  "(string \<Rightarrow> string) \<Rightarrow> uuid \<Rightarrow> string \<Rightarrow> string \<Rightarrow> string \<Rightarrow> NotificationDraft" where
  "stale_information_alert sha256 value_id recipient information_key status =
     \<lparr>nd_type = ''STALE_INFORMATION'', nd_severity = ''NORMAL'', nd_recipient = recipient,
      nd_title = ''Reusable answer needs refreshing ('' @ status @ '')'',
      nd_body = Some ''Confirm or update the value so it can continue to prefill forms.'',
      nd_entity_type = ''information_value'', nd_entity_id = str_uuid value_id,
      nd_idempotency_key = build_idempotency_key sha256
        [Some ''stale-information'', Some (str_uuid value_id), Some status],
      nd_payload = [(''information_value_id'', JStr (str_uuid value_id)),
        (''information_key'', JStr information_key), (''freshness_status'', JStr status)],
      nd_escalation_level = None\<rparr>"

subsection \<open>Recording\<close>

record notice_outbox =
  no_aggregate_type :: string
  no_aggregate_id :: string
  no_event_type :: string
  no_payload :: jdict
  no_idempotency_key :: string
  no_available_at :: datetime

record notice_db =
  notices :: "NotificationDraft list"
  notice_outbox :: "notice_outbox list"

definition notice_outbox_row :: "datetime \<Rightarrow> NotificationDraft \<Rightarrow> notice_outbox" where
  "notice_outbox_row now n =
     \<lparr>no_aggregate_type = nd_entity_type n, no_aggregate_id = nd_entity_id n,
      no_event_type = ''LICENSING_NOTIFICATION_'' @ nd_type n,
      no_payload = [(''notification_type'', JStr (nd_type n)), (''severity'', JStr (nd_severity n)),
        (''recipient_actor'', JStr (nd_recipient n)), (''entity_type'', JStr (nd_entity_type n)),
        (''entity_id'', JStr (nd_entity_id n)), (''escalation_level'', json_opt (nd_escalation_level n))],
      no_idempotency_key = ''licensing-notification:'' @ nd_idempotency_key n,
      no_available_at = now\<rparr>"

definition record_notification :: "datetime \<Rightarrow> NotificationDraft \<Rightarrow> notice_db \<Rightarrow> bool \<times> notice_db" where
  "record_notification now n db =
     (if nd_idempotency_key n \<in> nd_idempotency_key ` set (notices db) then (False, db)
      else (True, db\<lparr>notices := notices db @ [n\<lparr>nd_title := take 300 (nd_title n)\<rparr>],
                     notice_outbox := Alerts.notice_outbox db @ [notice_outbox_row now n]\<rparr>))"

text \<open>Keys stay unique, and every notification has its outbox row.\<close>

definition notices_ok :: "notice_db \<Rightarrow> bool" where
  "notices_ok db \<longleftrightarrow> distinct (map nd_idempotency_key (notices db)) \<and>
     map no_idempotency_key (Alerts.notice_outbox db) =
       map (\<lambda>n. ''licensing-notification:'' @ nd_idempotency_key n) (notices db)"

lemma record_notification_ok: "notices_ok db \<Longrightarrow> notices_ok (snd (record_notification now n db))"
  by (auto simp: notices_ok_def record_notification_def notice_outbox_row_def)

lemma record_notification_key:
  "nd_idempotency_key n \<in> nd_idempotency_key ` set (notices (snd (record_notification now n db)))"
  by (auto simp: record_notification_def)

lemma record_notification_again:
  "nd_idempotency_key m = nd_idempotency_key n \<Longrightarrow>
     record_notification now' m (snd (record_notification now n db)) = (False, snd (record_notification now n db))"
  using record_notification_key [of n now db] by (simp add: record_notification_def [of now' m])

end
