(* ===== verification/Case_Service.thy ===== *)
theory Case_Service
  imports Case_Stages Alerts
begin

text \<open>
  Obligations, compliance cases, their stage history and information requests:
  \<^verbatim>\<open>app/services/compliance_case_service.py\<close> over the tables of
  \<^verbatim>\<open>app/models/licensing.py\<close>. An operation maps the database to an error or to its
  result and the database after the commit; an error rolls the session back, so an error
  value carries no database. Enumerated columns hold the string values of their enumeration,
  except the stage and the status of a case, whose CHECK constraints make them the members
  of the enumerations of the stage machine.
\<close>

subsection \<open>Enumerations (app/licensing/enums.py)\<close>

definition ObligationType :: "string list" where
  "ObligationType = [''LICENSE_RENEWAL'', ''BOND_RENEWAL'', ''ANNUAL_REPORT'', ''FINANCIAL_DOCUMENT'',
     ''CERTIFICATE_RENEWAL'', ''INITIAL_APPLICATION'', ''AMENDMENT'', ''DEFICIENCY_RESPONSE'',
     ''INFORMATION_RESPONSE'', ''SURRENDER'', ''OTHER'']"

definition ObligationStatus :: "string list" where
  "ObligationStatus = [''PLANNED'', ''ACTIVE'', ''IN_CASE'', ''SATISFIED'', ''WAIVED'',
     ''NOT_APPLICABLE'', ''SUPERSEDED'', ''CANCELLED'']"

definition CasePriority :: "string list" where
  "CasePriority = [''LOW'', ''NORMAL'', ''HIGH'', ''CRITICAL'']"

definition CaseInformationRequestStatus :: "string list" where
  "CaseInformationRequestStatus = [''OPEN'', ''REQUESTED'', ''ANSWER_PROPOSED'', ''ANSWER_REVIEW'',
     ''ANSWER_APPROVED'', ''PROVIDED_TO_VENDOR'', ''NOT_APPLICABLE'', ''CANCELLED'']"

definition CASE_TYPE_FOR_OBLIGATION :: "(string \<times> string) list" where
  "CASE_TYPE_FOR_OBLIGATION =
     [(''LICENSE_RENEWAL'', ''LICENSE_RENEWAL''), (''BOND_RENEWAL'', ''BOND_RENEWAL''),
      (''ANNUAL_REPORT'', ''ANNUAL_REPORT''), (''FINANCIAL_DOCUMENT'', ''FINANCIAL_DOCUMENT''),
      (''CERTIFICATE_RENEWAL'', ''OTHER''), (''INITIAL_APPLICATION'', ''INITIAL_LICENSE''),
      (''AMENDMENT'', ''LICENSE_AMENDMENT''), (''DEFICIENCY_RESPONSE'', ''DEFICIENCY_RESPONSE''),
      (''INFORMATION_RESPONSE'', ''INFORMATION_RESPONSE''), (''SURRENDER'', ''SURRENDER''),
      (''OTHER'', ''OTHER'')]"

subsection \<open>Tables (app/models/licensing.py)\<close>

record obligation =
  obl_id :: uuid
  obligation_key :: string
  obl_legal_entity_id :: uuid
  obl_license_id :: "uuid option"
  obl_bond_id :: "uuid option"
  obl_jurisdiction_id :: "uuid option"
  obligation_type :: string
  obl_title :: string
  obl_status :: string
  recurrence_rule :: "jdict option"
  obl_statutory_due_date :: "date option"
  next_due_date :: "date option"
  internal_start_date :: "date option"
  responsible_owner :: "string option"
  obl_vendor :: "uuid option"
  obl_regulator :: "uuid option"
  requirement_source_ids :: "uuid list"
  predecessor_obligation_id :: "uuid option"
  obl_notes :: "string option"

record compliance_case =
  case_id :: uuid
  case_key :: string
  case_obligation_id :: uuid
  case_legal_entity_id :: uuid
  case_license_id :: "uuid option"
  case_bond_id :: "uuid option"
  case_type :: string
  current_stage :: CaseStage
  case_status :: CaseStatus
  case_priority :: string
  case_statutory_due_date :: "date option"
  internal_target_date :: "date option"
  assigned_owner :: "string option"
  case_vendor :: "uuid option"
  case_regulator :: "uuid option"
  primary_conversation_id :: "string option"
  close_reason :: "string option"
  blocked_reason :: "string option"
  created_by_actor :: "string option"
  stage_entered_at :: "datetime option"
  case_completed_at :: "datetime option"
  case_created_at :: datetime

record stage_event =
  sev_case_id :: uuid
  sev_from_stage :: "CaseStage option"
  sev_to_stage :: CaseStage
  sev_actor_id :: string
  sev_reason :: "string option"
  sev_evidence :: jdict
  sev_seconds_in_previous_stage :: "int option"
  sev_occurred_at :: datetime

record information_request =
  ir_id :: uuid
  ir_case_id :: uuid
  ir_definition_id :: "uuid option"
  ir_question_text :: string
  ir_requested_from :: "string option"
  ir_status :: string
  ir_due_at :: "datetime option"
  ir_response_value_id :: "uuid option"
  ir_source_email_id :: "uuid option"
  ir_source_vendor_question :: "string option"
  ir_provided_to_vendor_at :: "datetime option"
  ir_resolution_note :: "string option"

text \<open>The rows of other services that this one reads.\<close>

record form_instance =
  fi_case_id :: uuid
  fi_signature_required :: bool
  fi_signed_document_id :: "uuid option"

record document_packet =
  dp_id :: uuid
  dp_case_id :: uuid
  dp_status :: string
  dp_version :: int

record license_row =
  lic_legal_entity_id :: uuid
  lic_jurisdiction_id :: uuid
  lic_license_type_id :: uuid
  lic_issue_date :: "date option"
  lic_effective_date :: "date option"
  lic_expiration_date :: "date option"

record bond_row =
  bond_legal_entity_id :: uuid
  bond_license_id :: "uuid option"
  bond_jurisdiction_id :: "uuid option"
  bond_expiration_date :: "date option"

text \<open>
  An actor of the request; a worker passes none. Audit rows carry their before and after
  data as the values handed to the JSONB column.
\<close>

record case_actor =
  actor_type :: string
  actor_id :: string

datatype attr = ANone | AStr string | ADate date | AUuid uuid | AJson json

type_synonym attrs = "(string \<times> attr) list"

record lic_audit =
  la_actor_type :: string
  la_actor_id :: string
  la_entity_type :: string
  la_entity_id :: string
  la_action :: string
  la_before :: "attrs option"
  la_after :: "attrs option"
  la_occurred_at :: datetime

record case_db =
  obligations :: "obligation list"
  cases :: "compliance_case list"
  stage_events :: "stage_event list"
  info_requests :: "information_request list"
  case_audits :: "lic_audit list"
  notifications :: notice_db
  entities :: "uuid \<rightharpoonup> string"
  licenses :: "uuid \<rightharpoonup> license_row"
  bonds :: "uuid \<rightharpoonup> bond_row"
  jurisdictions :: "uuid \<Rightarrow> bool"
  organizations :: "uuid \<Rightarrow> bool"
  form_instances :: "form_instance list"
  packets :: "document_packet list"

text \<open>
  What a call takes from its surroundings: the clock (read once per call here), the primary
  key of the row it inserts, the six random hexadecimal characters of a key, today's date,
  the \<^verbatim>\<open>created_at\<close> default, and SHA-256.
\<close>

record case_env =
  ce_now :: datetime
  ce_today :: date
  ce_new_id :: uuid
  ce_suffix :: string
  ce_sha256 :: "string \<Rightarrow> string"

subsection \<open>Audit rows (app/licensing/audit.py)\<close>

definition licensing_audit ::
  "case_env \<Rightarrow> case_actor option \<Rightarrow> string \<Rightarrow> uuid \<Rightarrow> string \<Rightarrow> attrs option \<Rightarrow> attrs option \<Rightarrow> lic_audit" where
  "licensing_audit env actor entity_type entity_id action before after =
     \<lparr>la_actor_type = (case actor of None \<Rightarrow> ''SYSTEM'' | Some a \<Rightarrow> actor_type a),
      la_actor_id = (case actor of None \<Rightarrow> ''licensing-worker'' | Some a \<Rightarrow> actor_id a),
      la_entity_type = entity_type, la_entity_id = str_uuid entity_id, la_action = action,
      la_before = before, la_after = after, la_occurred_at = ce_now env\<rparr>"

definition add_licensing_audit :: "lic_audit \<Rightarrow> case_db \<Rightarrow> case_db" where
  "add_licensing_audit a db = db\<lparr>case_audits := case_audits db @ [a]\<rparr>"

text \<open>
  The JSONB columns are bound with \<^verbatim>\<open>json.dumps\<close>, which raises \<^verbatim>\<open>TypeError\<close> on a
  date or a UUID; the flush of the audit row then fails and the transaction is rolled back.
\<close>

fun json_serializable :: "attr \<Rightarrow> bool" where
  "json_serializable (ADate d) = False"
| "json_serializable (AUuid u) = False"
| "json_serializable _ = True"

definition audit_serializable :: "lic_audit \<Rightarrow> bool" where
  "audit_serializable a \<longleftrightarrow>
     list_all json_serializable (map snd (case la_before a of None \<Rightarrow> [] | Some d \<Rightarrow> d)) \<and>
     list_all json_serializable (map snd (case la_after a of None \<Rightarrow> [] | Some d \<Rightarrow> d))"

subsection \<open>Obligations\<close>

text \<open>The keyword arguments of \<^verbatim>\<open>create_obligation\<close>.\<close>

record obligation_fields =
  of_obligation_key :: "string option"
  of_legal_entity_id :: uuid
  of_license_id :: "uuid option"
  of_bond_id :: "uuid option"
  of_jurisdiction_id :: "uuid option"
  of_obligation_type :: string
  of_title :: string
  of_status :: "string option"
  of_recurrence_rule :: "jdict option"
  of_statutory_due_date :: "date option"
  of_next_due_date :: "date option"
  of_internal_start_date :: "date option"
  of_responsible_owner :: "string option"
  of_vendor :: "uuid option"
  of_regulator :: "uuid option"
  of_requirement_source_ids :: "uuid list"
  of_predecessor :: "uuid option"
  of_notes :: "string option"

definition check :: "bool \<Rightarrow> domain_error \<Rightarrow> domain_error + unit" where
  "check ok e = (if ok then Inr () else Inl e)"

lemma check_simps [simp]:
  "check True e = Inr ()" "check False e = Inl e"
  by (simp_all add: check_def)

lemma check_Inr [err_simps]: "check ok e = Inr u \<longleftrightarrow> ok"
  by (simp add: check_def)

lemma check_Inl [err_simps]: "check ok e = Inl e' \<longleftrightarrow> \<not> ok \<and> e' = e"
  by (auto simp: check_def)

definition opt_all :: "('a \<Rightarrow> bool) \<Rightarrow> 'a option \<Rightarrow> bool" where
  "opt_all P x = (case x of None \<Rightarrow> True | Some y \<Rightarrow> P y)"

lemma opt_all_simps [simp]: "opt_all P None" "opt_all P (Some y) = P y"
  by (simp_all add: opt_all_def)

definition lookup_opt :: "('k \<rightharpoonup> 'v) \<Rightarrow> 'k option \<Rightarrow> 'v option" where
  "lookup_opt m k = (case k of None \<Rightarrow> None | Some i \<Rightarrow> m i)"

definition validate_obligation_links :: "case_db \<Rightarrow> obligation_fields \<Rightarrow> domain_error + unit" where
  "validate_obligation_links db f =
     (let entity_id = of_legal_entity_id f; license_id = of_license_id f; bond_id = of_bond_id f;
          jurisdiction_id = of_jurisdiction_id f;
          license = lookup_opt (licenses db) license_id; bond = lookup_opt (bonds db) bond_id in
      bindE (check (entities db entity_id \<noteq> None) (NotFoundError ''Legal entity not found'')) (\<lambda>_.
      bindE (check (license_id = None \<or> license \<noteq> None) (NotFoundError ''License not found'')) (\<lambda>_.
      bindE (check (opt_all (\<lambda>l. lic_legal_entity_id l = entity_id) license)
               (StateConflictError ''License and obligation must belong to the same legal entity'')) (\<lambda>_.
      bindE (check (bond_id = None \<or> bond \<noteq> None) (NotFoundError ''Bond not found'')) (\<lambda>_.
      bindE (check (opt_all (\<lambda>b. bond_legal_entity_id b = entity_id) bond)
               (StateConflictError ''Bond and obligation must belong to the same legal entity'')) (\<lambda>_.
      bindE (check (opt_all (\<lambda>b. license_id = None \<or> bond_license_id b = None \<or>
                                 bond_license_id b = license_id) bond)
               (StateConflictError ''Bond is not associated with the selected license'')) (\<lambda>_.
      bindE (check (opt_all (jurisdictions db) jurisdiction_id)
               (NotFoundError ''Jurisdiction not found'')) (\<lambda>_.
      bindE (check (opt_all (\<lambda>l. opt_all (\<lambda>j. lic_jurisdiction_id l = j) jurisdiction_id) license)
               (StateConflictError ''License and obligation must reference the same jurisdiction'')) (\<lambda>_.
      bindE (check (opt_all (\<lambda>b. opt_all (\<lambda>j. bond_jurisdiction_id b \<in> {None, Some j}) jurisdiction_id) bond)
               (StateConflictError ''Bond and obligation must reference the same jurisdiction'')) (\<lambda>_.
      bindE (check (opt_all (organizations db) (of_vendor f))
               (NotFoundError ''Vendor Organization not found'')) (\<lambda>_.
      check (opt_all (organizations db) (of_regulator f))
               (NotFoundError ''Regulator Organization not found''))))))))))))"

definition obligation_key_of :: "case_env \<Rightarrow> string \<Rightarrow> obligation_fields \<Rightarrow> string" where
  "obligation_key_of env entity_key f =
     (case of_obligation_key f of
        Some (c # k) \<Rightarrow> c # k
      | _ \<Rightarrow> take 120 (join_str ''-''
          [entity_key, slugify (of_obligation_type f),
           slugify (isoformat (case of_next_due_date f of None \<Rightarrow> ce_today env | Some d \<Rightarrow> d)),
           ce_suffix env]))"

definition create_obligation ::
  "case_env \<Rightarrow> case_actor option \<Rightarrow> obligation_fields \<Rightarrow> case_db \<Rightarrow> domain_error + (obligation \<times> case_db)" where
  "create_obligation env actor f db =
     bindE (validate_obligation_links db f) (\<lambda>_.
     case entities db (of_legal_entity_id f) of
       None \<Rightarrow> Inl (Raised AssertionError)
     | Some entity_key \<Rightarrow>
       bindE (check (of_obligation_type f \<in> set ObligationType)
                (StateConflictError ''Unknown obligation type'')) (\<lambda>_.
       let status = (case of_status f of Some (c # s) \<Rightarrow> c # s | _ \<Rightarrow> ''PLANNED'') in
       bindE (check (status \<in> set ObligationStatus)
                (StateConflictError ''Unknown obligation status'')) (\<lambda>_.
       let key = obligation_key_of env entity_key f;
           row = \<lparr>obl_id = ce_new_id env, obligation_key = key,
             obl_legal_entity_id = of_legal_entity_id f, obl_license_id = of_license_id f,
             obl_bond_id = of_bond_id f, obl_jurisdiction_id = of_jurisdiction_id f,
             obligation_type = of_obligation_type f, obl_title = of_title f, obl_status = status,
             recurrence_rule = of_recurrence_rule f,
             obl_statutory_due_date = of_statutory_due_date f, next_due_date = of_next_due_date f,
             internal_start_date = of_internal_start_date f,
             responsible_owner = of_responsible_owner f, obl_vendor = of_vendor f,
             obl_regulator = of_regulator f,
             requirement_source_ids = of_requirement_source_ids f,
             predecessor_obligation_id = of_predecessor f, obl_notes = of_notes f\<rparr>
       in bindE (check (ce_new_id env \<notin> set (map obl_id (obligations db)) \<and>
                        key \<notin> set (map obligation_key (obligations db))) IntegrityError) (\<lambda>_.
          Inr (row, add_licensing_audit
            (licensing_audit env actor ''compliance_obligation'' (ce_new_id env) ''obligation_created''
               None (Some [(''type'', AStr (of_obligation_type f)),
                           (''due'', AStr (case of_next_due_date f of None \<Rightarrow> ''None''
                                            | Some d \<Rightarrow> isoformat d))]))
            (db\<lparr>obligations := obligations db @ [row]\<rparr>))))))"

text \<open>The fields the API lets a caller change, with the value set for each.\<close>

datatype obligation_change =
    SetTitle "string option" | SetObligationStatus "string option" | SetNextDueDate "date option"
  | SetInternalStartDate "date option" | SetResponsibleOwner "string option"
  | SetRecurrenceRule "jdict option" | SetNotes "string option"

definition attr_str :: "string option \<Rightarrow> attr" where
  "attr_str x = (case x of None \<Rightarrow> ANone | Some s \<Rightarrow> AStr s)"

definition attr_date :: "date option \<Rightarrow> attr" where
  "attr_date x = (case x of None \<Rightarrow> ANone | Some d \<Rightarrow> ADate d)"

definition attr_uuid :: "uuid option \<Rightarrow> attr" where
  "attr_uuid x = (case x of None \<Rightarrow> ANone | Some u \<Rightarrow> AUuid u)"

definition attr_json :: "jdict option \<Rightarrow> attr" where
  "attr_json x = (case x of None \<Rightarrow> ANone | Some j \<Rightarrow> AJson (JObj j))"

text \<open>
  \<^verbatim>\<open>setattr\<close> and \<^verbatim>\<open>getattr\<close> for one changed field. A null title or status is
  refused by the NOT NULL column when the row is flushed.
\<close>

fun apply_obligation_change :: "obligation_change \<Rightarrow> obligation \<Rightarrow> obligation" where
  "apply_obligation_change (SetTitle v) ob = ob\<lparr>obl_title := (case v of None \<Rightarrow> [] | Some t \<Rightarrow> t)\<rparr>"
| "apply_obligation_change (SetObligationStatus v) ob = ob\<lparr>obl_status := (case v of None \<Rightarrow> [] | Some t \<Rightarrow> t)\<rparr>"
| "apply_obligation_change (SetNextDueDate v) ob = ob\<lparr>next_due_date := v\<rparr>"
| "apply_obligation_change (SetInternalStartDate v) ob = ob\<lparr>internal_start_date := v\<rparr>"
| "apply_obligation_change (SetResponsibleOwner v) ob = ob\<lparr>responsible_owner := v\<rparr>"
| "apply_obligation_change (SetRecurrenceRule v) ob = ob\<lparr>recurrence_rule := v\<rparr>"
| "apply_obligation_change (SetNotes v) ob = ob\<lparr>obl_notes := v\<rparr>"

fun obligation_field_attr :: "obligation \<Rightarrow> obligation_change \<Rightarrow> string \<times> attr" where
  "obligation_field_attr ob (SetTitle v) = (''title'', AStr (obl_title ob))"
| "obligation_field_attr ob (SetObligationStatus v) = (''status'', AStr (obl_status ob))"
| "obligation_field_attr ob (SetNextDueDate v) = (''next_due_date'', attr_date (next_due_date ob))"
| "obligation_field_attr ob (SetInternalStartDate v) = (''internal_start_date'', attr_date (internal_start_date ob))"
| "obligation_field_attr ob (SetResponsibleOwner v) = (''responsible_owner'', attr_str (responsible_owner ob))"
| "obligation_field_attr ob (SetRecurrenceRule v) = (''recurrence_rule'', attr_json (recurrence_rule ob))"
| "obligation_field_attr ob (SetNotes v) = (''notes'', attr_str (obl_notes ob))"

definition update_obligation ::
  "case_env \<Rightarrow> case_actor \<Rightarrow> uuid \<Rightarrow> obligation_change list \<Rightarrow> case_db \<Rightarrow> domain_error + (obligation \<times> case_db)" where
  "update_obligation env actor oid changes db =
     (case get_row obl_id (obligations db) oid of
        None \<Rightarrow> Inl (NotFoundError ''Obligation not found'')
      | Some ob \<Rightarrow>
        bindE (check (list_all (\<lambda>c. case c of SetObligationStatus v \<Rightarrow>
                         (case v of None \<Rightarrow> False | Some s \<Rightarrow> s \<in> set ObligationStatus) | _ \<Rightarrow> True) changes)
                 (StateConflictError ''Unknown obligation status'')) (\<lambda>_.
        let ob' = fold apply_obligation_change changes ob;
            audit = licensing_audit env (Some actor) ''compliance_obligation'' oid ''obligation_updated''
              (Some (map (obligation_field_attr ob) changes)) (Some (map (obligation_field_attr ob') changes))
        in bindE (check (audit_serializable audit) (Raised TypeError)) (\<lambda>_.
           bindE (check (SetTitle None \<notin> set changes) IntegrityError) (\<lambda>_.
           Inr (ob', add_licensing_audit audit
                  (db\<lparr>obligations := put_row obl_id ob' (obligations db)\<rparr>))))))"

text \<open>
  The next cycle falls one year later; 29 February and the last representable year fall back
  to 365 days, which may overflow in turn.
\<close>

definition next_cycle_date :: "date \<Rightarrow> py_error + date" where
  "next_cycle_date d =
     (case mk_date (dt_year d + 1) (dt_month d) (dt_day d) of
        Inr d' \<Rightarrow> Inr d'
      | Inl _ \<Rightarrow> add_days d 365)"

definition lift_py :: "py_error + 'a \<Rightarrow> domain_error + 'a" where
  "lift_py x = (case x of Inl e \<Rightarrow> Inl (Raised e) | Inr a \<Rightarrow> Inr a)"

definition successor_fields :: "obligation \<Rightarrow> date option \<Rightarrow> obligation_fields" where
  "successor_fields prev due =
     \<lparr>of_obligation_key = None, of_legal_entity_id = obl_legal_entity_id prev,
      of_license_id = obl_license_id prev, of_bond_id = obl_bond_id prev,
      of_jurisdiction_id = obl_jurisdiction_id prev,
      of_obligation_type = obligation_type prev, of_title = obl_title prev,
      of_status = Some ''PLANNED'', of_recurrence_rule = recurrence_rule prev,
      of_statutory_due_date = None, of_next_due_date = due,
      of_internal_start_date = None, of_responsible_owner = responsible_owner prev,
      of_vendor = obl_vendor prev, of_regulator = obl_regulator prev,
      of_requirement_source_ids = requirement_source_ids prev,
      of_predecessor = Some (obl_id prev), of_notes = None\<rparr>"

lemma successor_fields_simps [simp]:
  "of_predecessor (successor_fields prev due) = Some (obl_id prev)"
  "of_next_due_date (successor_fields prev due) = due"
  by (simp_all add: successor_fields_def)

definition create_next_obligation ::
  "case_env \<Rightarrow> case_actor option \<Rightarrow> date option \<Rightarrow> uuid \<Rightarrow> case_db \<Rightarrow>
     domain_error + (obligation option \<times> case_db)" where
  "create_next_obligation env actor given oid db =
     (case get_row obl_id (obligations db) oid of
        None \<Rightarrow> Inl (NotFoundError ''Obligation not found'')
      | Some prev \<Rightarrow>
        if recurrence_rule prev = None \<or> recurrence_rule prev = Some [] then Inr (None, db)
        else if list_ex (\<lambda>ob. predecessor_obligation_id ob = Some oid) (obligations db)
          then Inr (None, db)
        else bindE (case given of
                      Some d \<Rightarrow> Inr (Some d)
                    | None \<Rightarrow> (case next_due_date prev of
                        None \<Rightarrow> Inr None
                      | Some d \<Rightarrow> bindE (lift_py (next_cycle_date d)) (\<lambda>d'. Inr (Some d')))) (\<lambda>due.
             bindE (create_obligation env actor (successor_fields prev due) db)
               (\<lambda>(row, db'). Inr (Some row, db'))))"

subsection \<open>Cases\<close>

definition is_closed :: "compliance_case \<Rightarrow> bool" where
  "is_closed c \<longleftrightarrow> case_status c = CaseStatus.COMPLETED \<or> case_status c = CaseStatus.CANCELLED"

definition open_cases :: "uuid \<Rightarrow> case_db \<Rightarrow> compliance_case list" where
  "open_cases oid db = filter (\<lambda>c. case_obligation_id c = oid \<and> \<not> is_closed c) (cases db)"

definition actor_or_worker :: "case_actor option \<Rightarrow> string" where
  "actor_or_worker actor = (case actor of None \<Rightarrow> ''licensing-worker'' | Some a \<Rightarrow> actor_id a)"

definition or_else :: "string option \<Rightarrow> string option \<Rightarrow> string option" where
  "or_else x y = (if x = None \<or> x = Some [] then y else x)"

definition new_case ::
  "case_env \<Rightarrow> case_actor option \<Rightarrow> string option \<Rightarrow> string option \<Rightarrow> string \<Rightarrow> obligation \<Rightarrow> compliance_case" where
  "new_case env actor owner priority key ob =
     \<lparr>case_id = ce_new_id env, case_key = key, case_obligation_id = obl_id ob,
      case_legal_entity_id = obl_legal_entity_id ob, case_license_id = obl_license_id ob,
      case_bond_id = obl_bond_id ob,
      case_type = (case map_of CASE_TYPE_FOR_OBLIGATION (obligation_type ob) of
                     None \<Rightarrow> ''OTHER'' | Some t \<Rightarrow> t),
      current_stage = DUE_IDENTIFIED, case_status = OPEN,
      case_priority = (case or_else priority None of None \<Rightarrow> ''NORMAL'' | Some p \<Rightarrow> p),
      case_statutory_due_date =
        (case obl_statutory_due_date ob of None \<Rightarrow> next_due_date ob | Some d \<Rightarrow> Some d),
      internal_target_date = internal_start_date ob,
      assigned_owner = or_else owner (responsible_owner ob),
      case_vendor = obl_vendor ob, case_regulator = obl_regulator ob,
      primary_conversation_id = None, close_reason = None, blocked_reason = None,
      created_by_actor = Some (actor_or_worker actor), stage_entered_at = Some (ce_now env),
      case_completed_at = None, case_created_at = ce_now env\<rparr>"

definition open_case ::
  "case_env \<Rightarrow> case_actor option \<Rightarrow> string option \<Rightarrow> string option \<Rightarrow> uuid \<Rightarrow> case_db \<Rightarrow>
     domain_error + (compliance_case \<times> case_db)" where
  "open_case env actor owner priority oid db =
     (case get_row obl_id (obligations db) oid of
        None \<Rightarrow> Inl (NotFoundError ''Obligation not found'')
      | Some ob \<Rightarrow>
        (case open_cases oid db of
           existing # _ \<Rightarrow> Inr (existing, db)
         | [] \<Rightarrow>
           (let entity_key = (case entities db (obl_legal_entity_id ob) of None \<Rightarrow> ''entity'' | Some k \<Rightarrow> k);
                key = take 120 (join_str ''-'' [entity_key, slugify (obligation_type ob),
                        filter (\<lambda>ch. ch \<noteq> CHR ''-'') (isoformat (ce_today env)), ce_suffix env]);
                c = new_case env actor owner priority key ob;
                ev = \<lparr>sev_case_id = case_id c, sev_from_stage = None, sev_to_stage = current_stage c,
                      sev_actor_id = actor_or_worker actor, sev_reason = Some ''Case opened.'',
                      sev_evidence = [(''obligation_id'', JStr (str_uuid (obl_id ob)))],
                      sev_seconds_in_previous_stage = None, sev_occurred_at = ce_now env\<rparr>
            in bindE (check (ce_new_id env \<notin> set (map case_id (cases db)) \<and>
                             key \<notin> set (map case_key (cases db)) \<and>
                             case_priority c \<in> set CasePriority) IntegrityError) (\<lambda>_.
               Inr (c, add_licensing_audit
                 (licensing_audit env actor ''compliance_case'' (case_id c) ''case_opened'' None
                    (Some [(''case_type'', AStr (case_type c)),
                           (''stage'', AStr (stage_value (current_stage c)))]))
                 (db\<lparr>cases := cases db @ [c], stage_events := stage_events db @ [ev],
                     obligations := put_row obl_id (ob\<lparr>obl_status := ''IN_CASE''\<rparr>) (obligations db)\<rparr>))))))"

datatype case_change =
    SetAssignedOwner "string option" | SetPriority "string option" | SetTargetDate "date option"
  | SetVendor "uuid option" | SetRegulator "uuid option" | SetConversation "string option"

fun apply_case_change :: "case_change \<Rightarrow> compliance_case \<Rightarrow> compliance_case" where
  "apply_case_change (SetAssignedOwner v) c = c\<lparr>assigned_owner := v\<rparr>"
| "apply_case_change (SetPriority v) c = c\<lparr>case_priority := (case v of None \<Rightarrow> [] | Some p \<Rightarrow> p)\<rparr>"
| "apply_case_change (SetTargetDate v) c = c\<lparr>internal_target_date := v\<rparr>"
| "apply_case_change (SetVendor v) c = c\<lparr>case_vendor := v\<rparr>"
| "apply_case_change (SetRegulator v) c = c\<lparr>case_regulator := v\<rparr>"
| "apply_case_change (SetConversation v) c = c\<lparr>primary_conversation_id := v\<rparr>"

fun case_field_attr :: "compliance_case \<Rightarrow> case_change \<Rightarrow> string \<times> attr" where
  "case_field_attr c (SetAssignedOwner v) = (''assigned_owner'', attr_str (assigned_owner c))"
| "case_field_attr c (SetPriority v) = (''priority'', AStr (case_priority c))"
| "case_field_attr c (SetTargetDate v) = (''internal_target_date'', attr_date (internal_target_date c))"
| "case_field_attr c (SetVendor v) = (''vendor_organization_id'', attr_uuid (case_vendor c))"
| "case_field_attr c (SetRegulator v) = (''regulator_organization_id'', attr_uuid (case_regulator c))"
| "case_field_attr c (SetConversation v) = (''primary_conversation_id'', attr_str (primary_conversation_id c))"

definition update_case ::
  "case_env \<Rightarrow> case_actor \<Rightarrow> uuid \<Rightarrow> case_change list \<Rightarrow> case_db \<Rightarrow> domain_error + (compliance_case \<times> case_db)" where
  "update_case env actor cid changes db =
     (case get_row case_id (cases db) cid of
        None \<Rightarrow> Inl (NotFoundError ''Compliance case not found'')
      | Some c \<Rightarrow>
        bindE (check (list_all (\<lambda>x. case x of SetPriority v \<Rightarrow> opt_all (\<lambda>p. p \<in> set CasePriority) v
                                              | _ \<Rightarrow> True) changes)
                 (StateConflictError ''Unknown case priority'')) (\<lambda>_.
        bindE (check (list_all (\<lambda>x. case x of SetVendor v \<Rightarrow> opt_all (organizations db) v
                                              | _ \<Rightarrow> True) changes)
                 (NotFoundError ''Vendor Organization not found'')) (\<lambda>_.
        bindE (check (list_all (\<lambda>x. case x of SetRegulator v \<Rightarrow> opt_all (organizations db) v
                                              | _ \<Rightarrow> True) changes)
                 (NotFoundError ''Regulator Organization not found'')) (\<lambda>_.
        let c' = fold apply_case_change changes c;
            audit = licensing_audit env (Some actor) ''compliance_case'' cid ''case_updated''
              (Some (map (case_field_attr c) changes)) (Some (map (case_field_attr c') changes))
        in bindE (check (audit_serializable audit) (Raised TypeError)) (\<lambda>_.
           bindE (check (SetPriority None \<notin> set changes) IntegrityError) (\<lambda>_.
           Inr (c', add_licensing_audit audit (db\<lparr>cases := put_row case_id c' (cases db)\<rparr>))))))))"

subsection \<open>The stage transition\<close>

record case_request =
  cq_case_id :: uuid
  cq_to_stage :: string
  cq_reason :: "string option"
  cq_evidence :: "jdict option"
  cq_close_reason :: "string option"
  cq_actor :: case_actor

definition case_instances :: "uuid \<Rightarrow> case_db \<Rightarrow> form_instance list" where
  "case_instances cid db = filter (\<lambda>i. fi_case_id i = cid) (form_instances db)"

definition signature_required :: "uuid \<Rightarrow> case_db \<Rightarrow> bool" where
  "signature_required cid db \<longleftrightarrow> list_ex fi_signature_required (case_instances cid db)"

definition signature_recorded :: "uuid \<Rightarrow> case_db \<Rightarrow> bool" where
  "signature_recorded cid db \<longleftrightarrow>
     list_ex (\<lambda>i. fi_signature_required i \<and> fi_signed_document_id i \<noteq> None) (case_instances cid db)"

definition has_renewed_evidence :: "uuid \<Rightarrow> jdict \<Rightarrow> case_db \<Rightarrow> bool" where
  "has_renewed_evidence cid payload db \<longleftrightarrow>
     truthy (jget_or payload ''renewed_evidence_document_id'' JNull) \<or>
     list_ex (\<lambda>ev. sev_case_id ev = cid \<and> sev_to_stage ev = RENEWED_EVIDENCE_RECEIVED) (stage_events db)"

text \<open>The approved packet of the highest version, when there is one.\<close>

definition approved_packet :: "uuid \<Rightarrow> case_db \<Rightarrow> uuid option" where
  "approved_packet cid db =
     (case filter (\<lambda>p. dp_case_id p = cid \<and> dp_status p = ''APPROVED'') (packets db) of
        [] \<Rightarrow> None
      | p # ps \<Rightarrow> Some (dp_id (max_by dp_version p ps)))"

text \<open>Evidence that the service fills in itself when the caller did not supply it.\<close>

definition complete_payload :: "uuid \<Rightarrow> string \<Rightarrow> case_db \<Rightarrow> jdict \<Rightarrow> jdict" where
  "complete_payload cid to_stage db payload =
     (let p1 = (if to_stage \<in> {''PACKET_APPROVED'', ''PACKET_SENT''} \<and>
                   \<not> truthy (jget_or payload ''document_packet_id'' JNull)
                then (case approved_packet cid db of
                        None \<Rightarrow> payload
                      | Some u \<Rightarrow> jset payload ''document_packet_id'' (JStr (str_uuid u)))
                else payload)
      in if to_stage = ''SIGNED_FORM_RECEIVED'' \<and> \<not> truthy (jget_or p1 ''signed_document_id'' JNull)
         then (case find (\<lambda>d. d \<noteq> None) (map fi_signed_document_id (case_instances cid db)) of
                 Some (Some u) \<Rightarrow> jset p1 ''signed_document_id'' (JStr (str_uuid u))
               | _ \<Rightarrow> p1)
         else p1)"

text \<open>\<^verbatim>\<open>int(delta.total_seconds())\<close> truncates towards zero.\<close>

definition whole_seconds :: "timedelta \<Rightarrow> int" where
  "whole_seconds t = (if t < 0 then - ((- t) div 1000000) else t div 1000000)"

definition advance_case ::
  "case_env \<Rightarrow> CaseStage \<Rightarrow> CaseStatus option \<Rightarrow> string option \<Rightarrow> string option \<Rightarrow> compliance_case \<Rightarrow> compliance_case" where
  "advance_case env y status reason close c =
     (let c1 = c\<lparr>current_stage := y,
                 case_status := (case status of None \<Rightarrow> case_status c | Some st \<Rightarrow> st),
                 stage_entered_at := Some (ce_now env)\<rparr>;
          c2 = (case or_else close None of None \<Rightarrow> c1 | Some r \<Rightarrow> c1\<lparr>close_reason := Some (take 500 r)\<rparr>);
          c3 = (if y = CaseStage.BLOCKED
                then c2\<lparr>blocked_reason := Some (take 500
                       (case or_else reason None of None \<Rightarrow> ''Blocked'' | Some r \<Rightarrow> r))\<rparr>
                else if current_stage c = CaseStage.BLOCKED then c2\<lparr>blocked_reason := None\<rparr>
                else c2)
      in if y = CaseStage.COMPLETED then c3\<lparr>case_completed_at := Some (ce_now env)\<rparr> else c3)"

definition satisfy_obligation :: "CaseStage \<Rightarrow> uuid \<Rightarrow> obligation list \<Rightarrow> obligation list" where
  "satisfy_obligation y oid obs =
     (if y = CaseStage.COMPLETED then
        (case get_row obl_id obs oid of
           None \<Rightarrow> obs
         | Some ob \<Rightarrow> put_row obl_id (ob\<lparr>obl_status := ''SATISFIED''\<rparr>) obs)
      else obs)"

text \<open>
  The whole handler. A refused move raises with the refusal of the validation, which the
  model keeps as the reason of the error; a stage outside the enumeration would be refused by
  the CHECK constraint of its column.
\<close>

datatype case_error = CaseError domain_error | MoveRefused "stage_refusal option" "string list"

definition case_transition ::
  "case_env \<Rightarrow> case_request \<Rightarrow> case_db \<Rightarrow> case_error + (compliance_case \<times> case_db)" where
  "case_transition env rq db =
     (case get_row case_id (cases db) (cq_case_id rq) of
        None \<Rightarrow> Inl (CaseError (NotFoundError ''Compliance case not found''))
      | Some c \<Rightarrow>
        (let payload0 = (case cq_evidence rq of None \<Rightarrow> [] | Some d \<Rightarrow> d);
             payload = complete_payload (case_id c) (cq_to_stage rq) db payload0;
             chk = validate_stage_transition (stage_value (current_stage c)) (cq_to_stage rq)
                (Some payload) (signature_required (case_id c) db) (signature_recorded (case_id c) db)
                (has_renewed_evidence (case_id c) payload0 db)
                (or_else (cq_close_reason rq) (close_reason c))
         in if \<not> tc_allowed chk then Inl (MoveRefused (tc_reason chk) (tc_missing_evidence chk))
            else case stage_of (cq_to_stage rq) of
              None \<Rightarrow> Inl (CaseError IntegrityError)
            | Some y \<Rightarrow>
                (let entered = (case stage_entered_at c of None \<Rightarrow> case_created_at c | Some t \<Rightarrow> t);
                     c' = advance_case env y (tc_resulting_status chk) (cq_reason rq) (cq_close_reason rq) c;
                     ev = \<lparr>sev_case_id = case_id c, sev_from_stage = Some (current_stage c),
                           sev_to_stage = y, sev_actor_id = actor_id (cq_actor rq),
                           sev_reason = cq_reason rq, sev_evidence = payload,
                           sev_seconds_in_previous_stage = Some (whole_seconds (ce_now env - entered)),
                           sev_occurred_at = ce_now env\<rparr>
                 in Inr (c', add_licensing_audit
                      (licensing_audit env (Some (cq_actor rq)) ''compliance_case'' (case_id c)
                         ''case_stage_changed''
                         (Some [(''stage'', AStr (stage_value (current_stage c)))])
                         (Some [(''stage'', AStr (cq_to_stage rq)),
                                (''status'', AStr (status_value (case_status c')))]))
                      (db\<lparr>cases := put_row case_id c' (cases db),
                          stage_events := stage_events db @ [ev],
                          obligations := satisfy_obligation y (case_obligation_id c) (obligations db)\<rparr>)))))"

definition timeline :: "uuid \<Rightarrow> case_db \<Rightarrow> stage_event list" where
  "timeline cid db = sort_key sev_occurred_at (filter (\<lambda>ev. sev_case_id ev = cid) (stage_events db))"

definition available_transitions :: "uuid \<Rightarrow> case_db \<Rightarrow> domain_error + string list" where
  "available_transitions cid db =
     (case get_row case_id (cases db) cid of
        None \<Rightarrow> Inl (NotFoundError ''Compliance case not found'')
      | Some c \<Rightarrow> Inr (next_stages (stage_value (current_stage c))))"

subsection \<open>Information requests\<close>

definition create_information_request ::
  "case_env \<Rightarrow> case_actor \<Rightarrow> uuid \<Rightarrow> string \<Rightarrow> uuid option \<Rightarrow> string option \<Rightarrow> datetime option \<Rightarrow>
     uuid option \<Rightarrow> string option \<Rightarrow> case_db \<Rightarrow> domain_error + (information_request \<times> case_db)" where
  "create_information_request env actor cid question definition_id requested_from due_at
       source_email vendor_question db =
     (case get_row case_id (cases db) cid of
        None \<Rightarrow> Inl (NotFoundError ''Compliance case not found'')
      | Some c \<Rightarrow>
        (let asked = or_else requested_from None;
             request = \<lparr>ir_id = ce_new_id env, ir_case_id = cid, ir_definition_id = definition_id,
               ir_question_text = take 4000 question, ir_requested_from = requested_from,
               ir_status = (if asked = None then ''OPEN'' else ''REQUESTED''), ir_due_at = due_at,
               ir_response_value_id = None, ir_source_email_id = source_email,
               ir_source_vendor_question = or_else vendor_question None,
               ir_provided_to_vendor_at = None, ir_resolution_note = None\<rparr>;
             db1 = db\<lparr>info_requests := info_requests db @ [request]\<rparr>;
             db2 = (case asked of None \<Rightarrow> db1
                    | Some a \<Rightarrow> db1\<lparr>notifications := snd (record_notification (ce_now env)
                        (information_request_alert (ce_sha256 env) (ce_new_id env) cid a ''NORMAL'' False None)
                        (notifications db1))\<rparr>)
         in bindE (check (ce_new_id env \<notin> set (map ir_id (info_requests db))) IntegrityError) (\<lambda>_.
            Inr (request, add_licensing_audit
              (licensing_audit env (Some actor) ''case_information_request'' (ir_id request)
                 ''information_request_created'' None (Some [(''status'', AStr (ir_status request))])) db2))))"

definition update_information_request ::
  "case_env \<Rightarrow> case_actor \<Rightarrow> uuid \<Rightarrow> string option \<Rightarrow> string option \<Rightarrow> uuid option \<Rightarrow> string option \<Rightarrow>
     case_db \<Rightarrow> domain_error + (information_request \<times> case_db)" where
  "update_information_request env actor rid status requested_from response_value note db =
     (case get_row ir_id (info_requests db) rid of
        None \<Rightarrow> Inl (NotFoundError ''Information request not found'')
      | Some r0 \<Rightarrow>
        bindE (case status of
            None \<Rightarrow> Inr r0
          | Some st \<Rightarrow>
              bindE (check (st \<in> set CaseInformationRequestStatus)
                       (StateConflictError ''Unknown request status'')) (\<lambda>_.
              bindE (check (st = ''ANSWER_APPROVED'' \<longrightarrow>
                              response_value \<noteq> None \<or> ir_response_value_id r0 \<noteq> None)
                       (StateConflictError ''An approved answer must reference an approved information value'')) (\<lambda>_.
              let r = r0\<lparr>ir_status := st\<rparr>
              in Inr (if st = ''PROVIDED_TO_VENDOR''
                      then r\<lparr>ir_provided_to_vendor_at := Some (ce_now env)\<rparr> else r)))) (\<lambda>r1.
        let r2 = (if requested_from \<noteq> None then r1\<lparr>ir_requested_from := requested_from\<rparr> else r1);
            r3 = (if response_value \<noteq> None then r2\<lparr>ir_response_value_id := response_value\<rparr> else r2);
            r4 = (case note of None \<Rightarrow> r3 | Some t \<Rightarrow> r3\<lparr>ir_resolution_note := Some (take 2000 t)\<rparr>)
        in Inr (r4, add_licensing_audit
             (licensing_audit env (Some actor) ''case_information_request'' rid
                ''information_request_updated'' (Some [(''status'', AStr (ir_status r0))])
                (Some [(''status'', AStr (ir_status r4))]))
             (db\<lparr>info_requests := put_row ir_id r4 (info_requests db)\<rparr>))))"

subsection \<open>Lemmas on single operations\<close>

lemma stage_of_mem: "stage_of s = Some y \<Longrightarrow> s = stage_value y"
  by (simp add: stage_of_Some_iff)

lemma advance_case_simps [simp]:
  "case_id (advance_case env y st r cl c) = case_id c"
  "case_obligation_id (advance_case env y st r cl c) = case_obligation_id c"
  "case_key (advance_case env y st r cl c) = case_key c"
  "current_stage (advance_case env y st r cl c) = y"
  "case_status (advance_case env y st r cl c) = (case st of None \<Rightarrow> case_status c | Some s \<Rightarrow> s)"
  by (simp_all add: advance_case_def Let_def split: option.splits)

definition the_payload :: "case_request \<Rightarrow> case_db \<Rightarrow> jdict" where
  "the_payload rq db = complete_payload (cq_case_id rq) (cq_to_stage rq) db
     (case cq_evidence rq of None \<Rightarrow> [] | Some d \<Rightarrow> d)"

definition transition_event ::
  "case_env \<Rightarrow> case_request \<Rightarrow> case_db \<Rightarrow> CaseStage \<Rightarrow> compliance_case \<Rightarrow> stage_event" where
  "transition_event env rq db y c =
     \<lparr>sev_case_id = case_id c, sev_from_stage = Some (current_stage c),
      sev_to_stage = y, sev_actor_id = actor_id (cq_actor rq),
      sev_reason = cq_reason rq, sev_evidence = the_payload rq db,
      sev_seconds_in_previous_stage = Some (whole_seconds (ce_now env -
        (case stage_entered_at c of None \<Rightarrow> case_created_at c | Some t \<Rightarrow> t))),
      sev_occurred_at = ce_now env\<rparr>"

lemma transition_event_simps [simp]:
  "sev_case_id (transition_event env rq db y c) = case_id c"
  "sev_from_stage (transition_event env rq db y c) = Some (current_stage c)"
  "sev_to_stage (transition_event env rq db y c) = y"
  "sev_evidence (transition_event env rq db y c) = the_payload rq db"
  by (simp_all add: transition_event_def)

text \<open>What a successful move has checked, and everything it writes.\<close>

lemma case_transition_Inr:
  assumes "case_transition env rq db = Inr (c', db')"
  obtains c y where "get_row case_id (cases db) (cq_case_id rq) = Some c"
    and "cq_to_stage rq = stage_value y"
    and "move_ok (current_stage c) y (the_payload rq db) (signature_required (case_id c) db)
           (signature_recorded (case_id c) db)
           (has_renewed_evidence (case_id c) (case cq_evidence rq of None \<Rightarrow> [] | Some d \<Rightarrow> d) db)
           (or_else (cq_close_reason rq) (close_reason c))"
    and "c' = advance_case env y (Some (STAGE_STATUS y)) (cq_reason rq) (cq_close_reason rq) c"
    and "\<exists>a. la_action a = ''case_stage_changed'' \<and> la_entity_id a = str_uuid (case_id c) \<and>
           la_before a = Some [(''stage'', AStr (stage_value (current_stage c)))] \<and>
           la_after a = Some [(''stage'', AStr (stage_value y)), (''status'', AStr (status_value (STAGE_STATUS y)))] \<and>
           la_actor_id a = actor_id (cq_actor rq) \<and>
           db' = add_licensing_audit a (db\<lparr>cases := put_row case_id c' (cases db),
                   stage_events := stage_events db @ [transition_event env rq db y c],
                   obligations := satisfy_obligation y (case_obligation_id c) (obligations db)\<rparr>)"
proof -
  obtain c where c: "get_row case_id (cases db) (cq_case_id rq) = Some c"
    using assms by (cases "get_row case_id (cases db) (cq_case_id rq)") (auto simp: case_transition_def)
  then have cid: "case_id c = cq_case_id rq" using get_row_SomeD by fastforce
  let ?chk = "validate_stage_transition (stage_value (current_stage c)) (cq_to_stage rq)
       (Some (the_payload rq db)) (signature_required (case_id c) db) (signature_recorded (case_id c) db)
       (has_renewed_evidence (case_id c) (case cq_evidence rq of None \<Rightarrow> [] | Some d \<Rightarrow> d) db)
       (or_else (cq_close_reason rq) (close_reason c))"
  note unf = case_transition_def c Let_def the_payload_def cid
  have al: "tc_allowed ?chk"
    using assms by (simp add: unf split: if_splits)
  then obtain y where y: "cq_to_stage rq = stage_value y"
    and ok: "move_ok (current_stage c) y (the_payload rq db) (signature_required (case_id c) db)
           (signature_recorded (case_id c) db)
           (has_renewed_evidence (case_id c) (case cq_evidence rq of None \<Rightarrow> [] | Some d \<Rightarrow> d) db)
           (or_else (cq_close_reason rq) (close_reason c))"
    by (auto simp: validate_allowed_iff)
  have st: "tc_resulting_status ?chk = Some (STAGE_STATUS y)"
    using validate_status al unfolding y by blast
  show thesis
  proof (rule that [OF c y ok])
    show "c' = advance_case env y (Some (STAGE_STATUS y)) (cq_reason rq) (cq_close_reason rq) c"
      using assms al st y by (auto simp: unf)
    then show "\<exists>a. la_action a = ''case_stage_changed'' \<and> la_entity_id a = str_uuid (case_id c) \<and>
           la_before a = Some [(''stage'', AStr (stage_value (current_stage c)))] \<and>
           la_after a = Some [(''stage'', AStr (stage_value y)), (''status'', AStr (status_value (STAGE_STATUS y)))] \<and>
           la_actor_id a = actor_id (cq_actor rq) \<and>
           db' = add_licensing_audit a (db\<lparr>cases := put_row case_id c' (cases db),
                   stage_events := stage_events db @ [transition_event env rq db y c],
                   obligations := satisfy_obligation y (case_obligation_id c) (obligations db)\<rparr>)"
      using assms al st y
      by (intro exI [of _ "licensing_audit env (Some (cq_actor rq)) ''compliance_case'' (case_id c)
             ''case_stage_changed'' (Some [(''stage'', AStr (stage_value (current_stage c)))])
             (Some [(''stage'', AStr (stage_value y)), (''status'', AStr (status_value (STAGE_STATUS y)))])"])
        (auto simp: unf transition_event_def licensing_audit_def)
  qed
qed

subsection \<open>The invariant of cases and their histories\<close>

definition case_history :: "case_db \<Rightarrow> uuid \<Rightarrow> stage_event list" where
  "case_history db i = filter (\<lambda>ev. sev_case_id ev = i) (stage_events db)"

definition event_ok :: "stage_event \<Rightarrow> bool" where
  "event_ok ev \<longleftrightarrow>
     (case sev_from_stage ev of
        None \<Rightarrow> sev_to_stage ev = DUE_IDENTIFIED
      | Some x \<Rightarrow> sev_to_stage ev \<in> set (ALLOWED_STAGE_TRANSITIONS x) \<and>
          list_all (\<lambda>k. truthy (jget_or (sev_evidence ev) k JNull))
            (STAGE_EVIDENCE_REQUIREMENTS (sev_to_stage ev)))"

definition linked :: "stage_event \<Rightarrow> stage_event \<Rightarrow> bool" where
  "linked a b \<longleftrightarrow> sev_from_stage b = Some (sev_to_stage a)"

definition case_ok :: "stage_event list \<Rightarrow> compliance_case \<Rightarrow> bool" where
  "case_ok h c \<longleftrightarrow>
     case_status c = STAGE_STATUS (current_stage c) \<and>
     (case_completed_at c \<noteq> None \<longleftrightarrow> current_stage c = CaseStage.COMPLETED) \<and>
     (blocked_reason c \<noteq> None \<longleftrightarrow> current_stage c = CaseStage.BLOCKED) \<and>
     h \<noteq> [] \<and> sev_from_stage (hd h) = None \<and> successively linked h \<and> list_all event_ok h \<and>
     sev_to_stage (last h) = current_stage c"

definition case_inv :: "case_db \<Rightarrow> bool" where
  "case_inv db \<longleftrightarrow>
     distinct (map case_id (cases db)) \<and> distinct (map obl_id (obligations db)) \<and>
     (\<forall>ev \<in> set (stage_events db). sev_case_id ev \<in> case_id ` set (cases db)) \<and>
     (\<forall>c \<in> set (cases db). case_ok (case_history db (case_id c)) c) \<and>
     (\<forall>oid. length (open_cases oid db) \<le> 1) \<and>
     (\<forall>p. length (filter (\<lambda>ob. predecessor_obligation_id ob = Some p) (obligations db)) \<le> 1)"

definition case_init :: "case_db \<Rightarrow> bool" where
  "case_init db \<longleftrightarrow> cases db = [] \<and> obligations db = [] \<and> stage_events db = []"

text \<open>
  One step is one committed call of the service. A caller of the API cannot set the
  predecessor of an obligation it creates. Other services change the tables this one only
  reads.
\<close>

inductive case_step :: "case_db \<Rightarrow> case_db \<Rightarrow> bool" where
  step_create: "create_obligation env actor f db = Inr (ob, db') \<Longrightarrow> of_predecessor f = None \<Longrightarrow> case_step db db'"
| step_update_obligation: "update_obligation env a oid chs db = Inr (ob, db') \<Longrightarrow> case_step db db'"
| step_roll: "create_next_obligation env actor d oid db = Inr (r, db') \<Longrightarrow> case_step db db'"
| step_open: "open_case env actor owner prio oid db = Inr (c, db') \<Longrightarrow> case_step db db'"
| step_update_case: "update_case env a cid cchs db = Inr (c, db') \<Longrightarrow> case_step db db'"
| step_move: "case_transition env rq db = Inr (c, db') \<Longrightarrow> case_step db db'"
| step_ask: "create_information_request env a cid q d rf due se vq db = Inr (ir, db') \<Longrightarrow> case_step db db'"
| step_answer: "update_information_request env a rid st rf rv n db = Inr (ir, db') \<Longrightarrow> case_step db db'"
| step_others: "case_step db (db\<lparr>form_instances := fs, packets := ps, entities := es, licenses := ls,
     bonds := bs, jurisdictions := js, organizations := os\<rparr>)"

text \<open>The invariant reads only three tables.\<close>

lemma case_inv_cong:
  "cases db' = cases db \<Longrightarrow> obligations db' = obligations db \<Longrightarrow> stage_events db' = stage_events db \<Longrightarrow>
     case_inv db' = case_inv db"
  by (simp add: case_inv_def open_cases_def case_history_def)

lemma add_audit_simps [simp]:
  "cases (add_licensing_audit a db) = cases db"
  "obligations (add_licensing_audit a db) = obligations db"
  "stage_events (add_licensing_audit a db) = stage_events db"
  "case_audits (add_licensing_audit a db) = case_audits db @ [a]"
  "info_requests (add_licensing_audit a db) = info_requests db"
  by (simp_all add: add_licensing_audit_def)

lemma add_audit_inv [simp]: "case_inv (add_licensing_audit a db) = case_inv db"
  by (rule case_inv_cong) simp_all

text \<open>Rewriting the obligations keeps the invariant when keys and predecessors stay.\<close>

lemma case_inv_obligations:
  assumes "case_inv db" "map obl_id obs = map obl_id (obligations db)"
    and "map predecessor_obligation_id obs = map predecessor_obligation_id (obligations db)"
    and "cases db' = cases db" "stage_events db' = stage_events db" "obligations db' = obs"
  shows "case_inv db'"
proof -
  have len: "length (filter (\<lambda>ob. predecessor_obligation_id ob = Some p) xs) =
        length (filter (\<lambda>q. q = Some p) (map predecessor_obligation_id xs))" for p xs
    by (simp add: filter_map o_def)
  show ?thesis using assms unfolding case_inv_def len
    by (simp add: open_cases_def case_history_def)
qed

lemma put_obligation_keeps:
  assumes "get_row obl_id obs i = Some ob" "obl_id ob' = obl_id ob"
    "predecessor_obligation_id ob' = predecessor_obligation_id ob" "distinct (map obl_id obs)"
  shows "map predecessor_obligation_id (put_row obl_id ob' obs) = map predecessor_obligation_id obs"
proof -
  have "predecessor_obligation_id (if obl_id s = obl_id ob' then ob' else s) =
        predecessor_obligation_id s" if "s \<in> set obs" for s
    using that assms get_row_member [OF assms(4) that] get_row_SomeD [OF assms(1)] by auto
  then show ?thesis by (simp add: put_row_def)
qed

lemma fold_obligation_change [simp]:
  "obl_id (fold apply_obligation_change chs ob) = obl_id ob"
  "predecessor_obligation_id (fold apply_obligation_change chs ob) = predecessor_obligation_id ob"
proof -
  have "obl_id (apply_obligation_change ch o1) = obl_id o1 \<and>
        predecessor_obligation_id (apply_obligation_change ch o1) = predecessor_obligation_id o1" for ch o1
    by (cases ch) simp_all
  then show "obl_id (fold apply_obligation_change chs ob) = obl_id ob"
    "predecessor_obligation_id (fold apply_obligation_change chs ob) = predecessor_obligation_id ob"
    by (induction chs arbitrary: ob) simp_all
qed

lemma fold_case_change [simp]:
  "case_id (fold apply_case_change chs c) = case_id c"
  "case_obligation_id (fold apply_case_change chs c) = case_obligation_id c"
  "current_stage (fold apply_case_change chs c) = current_stage c"
  "case_status (fold apply_case_change chs c) = case_status c"
  "case_completed_at (fold apply_case_change chs c) = case_completed_at c"
  "blocked_reason (fold apply_case_change chs c) = blocked_reason c"
proof -
  have "case_id (apply_case_change ch c1) = case_id c1 \<and>
        case_obligation_id (apply_case_change ch c1) = case_obligation_id c1 \<and>
        current_stage (apply_case_change ch c1) = current_stage c1 \<and>
        case_status (apply_case_change ch c1) = case_status c1 \<and>
        case_completed_at (apply_case_change ch c1) = case_completed_at c1 \<and>
        blocked_reason (apply_case_change ch c1) = blocked_reason c1" for ch c1
    by (cases ch) simp_all
  then show "case_id (fold apply_case_change chs c) = case_id c"
    "case_obligation_id (fold apply_case_change chs c) = case_obligation_id c"
    "current_stage (fold apply_case_change chs c) = current_stage c"
    "case_status (fold apply_case_change chs c) = case_status c"
    "case_completed_at (fold apply_case_change chs c) = case_completed_at c"
    "blocked_reason (fold apply_case_change chs c) = blocked_reason c"
    by (induction chs arbitrary: c) simp_all
qed

lemma fold_target_date:
  "\<forall>w. SetTargetDate w \<in> set chs \<longrightarrow> w = v \<Longrightarrow>
     internal_target_date (fold apply_case_change chs d) =
       (if SetTargetDate v \<in> set chs then v else internal_target_date d)"
proof (induction chs arbitrary: d)
  case (Cons x xs)
  then have "internal_target_date (fold apply_case_change xs (apply_case_change x d)) =
      (if SetTargetDate v \<in> set xs then v else internal_target_date (apply_case_change x d))"
    by (meson list.set_intros(2))
  moreover have "x = SetTargetDate w \<Longrightarrow> w = v" for w using Cons.prems by simp
  ultimately show ?case by (cases x) simp_all
qed simp

lemma length_filter_map_le:
  "(\<And>x. x \<in> set xs \<Longrightarrow> P (f x) \<Longrightarrow> Q x) \<Longrightarrow> length (filter P (map f xs)) \<le> length (filter Q xs)"
proof (induction xs)
  case (Cons x xs)
  then have "length (filter P (map f xs)) \<le> length (filter Q xs)" by simp
  moreover have "P (f x) \<Longrightarrow> Q x" using Cons.prems by simp
  ultimately show ?case by auto
qed simp

text \<open>Replacing a case by one that is open only if the old one was.\<close>

lemma open_cases_put:
  assumes "get_row case_id (cases db) i = Some c" "distinct (map case_id (cases db))"
    and "case_id c' = case_id c" "case_obligation_id c' = case_obligation_id c"
    and "\<not> is_closed c' \<Longrightarrow> \<not> is_closed c"
    and "cases db' = put_row case_id c' (cases db)"
  shows "length (open_cases oid db') \<le> length (open_cases oid db)"
proof -
  have eq: "s = c" if "s \<in> set (cases db)" "case_id s = case_id c'" for s
    using that assms get_row_member [OF assms(2) that(1)] get_row_SomeD [OF assms(1)] by auto
  show ?thesis unfolding open_cases_def assms(6) put_row_def
    by (rule length_filter_map_le) (use assms(4,5) eq in \<open>auto split: if_splits\<close>)
qed

subsection \<open>Every operation keeps the invariant\<close>

lemma create_obligation_Inr:
  assumes "create_obligation env actor f db = Inr (ob, db')"
  shows "cases db' = cases db" "stage_events db' = stage_events db"
    "obligations db' = obligations db @ [ob]" "obl_id ob \<notin> set (map obl_id (obligations db))"
    "predecessor_obligation_id ob = of_predecessor f" "next_due_date ob = of_next_due_date f"
    "validate_obligation_links db f = Inr ()" "obl_id ob = ce_new_id env"
    "\<exists>a. case_audits db' = case_audits db @ [a]"
  using assms by (auto simp: create_obligation_def err_simps Let_def split: option.splits)

lemma create_obligation_inv:
  assumes "case_inv db" "create_obligation env actor f db = Inr (ob, db')"
    and pre: "\<And>p. of_predecessor f = Some p \<Longrightarrow>
           \<not> list_ex (\<lambda>ob. predecessor_obligation_id ob = Some p) (obligations db)"
  shows "case_inv db'"
proof -
  note cr = create_obligation_Inr [OF assms(2)]
  have "length (filter (\<lambda>ob. predecessor_obligation_id ob = Some p) (obligations db')) \<le> 1" for p
  proof (cases "of_predecessor f = Some p")
    case True
    then have "filter (\<lambda>ob. predecessor_obligation_id ob = Some p) (obligations db) = []"
      using pre by (auto simp: filter_empty_conv list_ex_iff)
    then show ?thesis by (simp add: cr)
  next
    case False
    then show ?thesis using assms(1) by (simp add: cr case_inv_def)
  qed
  then show ?thesis using assms(1) cr by (simp add: case_inv_def open_cases_def case_history_def)
qed

lemma create_next_obligation_Inr:
  assumes "create_next_obligation env actor d oid db = Inr (r, db')"
  shows "(r = None \<and> db' = db) \<or>
     (\<exists>f ob. create_obligation env actor f db = Inr (ob, db') \<and> r = Some ob \<and>
        of_predecessor f = Some oid \<and>
        \<not> list_ex (\<lambda>ob. predecessor_obligation_id ob = Some oid) (obligations db))"
proof (cases "get_row obl_id (obligations db) oid")
  case (Some prev)
  then have "obl_id prev = oid" using get_row_SomeD by fastforce
  with Some assms show ?thesis
    by (force simp: create_next_obligation_def err_simps split: if_splits)
qed (use assms in \<open>simp add: create_next_obligation_def\<close>)

lemma create_next_obligation_inv:
  assumes "case_inv db" "create_next_obligation env actor d oid db = Inr (r, db')"
  shows "case_inv db'"
  using create_next_obligation_Inr [OF assms(2)] assms(1) create_obligation_inv by (metis option.inject)

lemma update_obligation_inv:
  assumes "case_inv db" "update_obligation env a oid chs db = Inr (ob, db')"
  shows "case_inv db'"
proof -
  from assms(2) obtain o1 where o1: "get_row obl_id (obligations db) oid = Some o1"
    and db': "cases db' = cases db" "stage_events db' = stage_events db"
      "obligations db' = put_row obl_id (fold apply_obligation_change chs o1) (obligations db)"
    by (auto simp: update_obligation_def err_simps Let_def split: option.splits)
  have "map predecessor_obligation_id (obligations db') = map predecessor_obligation_id (obligations db)"
    unfolding db' by (rule put_obligation_keeps [OF o1]) (use assms(1) in \<open>simp_all add: case_inv_def\<close>)
  then show ?thesis using case_inv_obligations [OF assms(1) _ _ db'(1,2) refl] db'(3) by simp
qed

lemma open_case_Inr:
  assumes "open_case env actor owner prio oid db = Inr (c, db')"
  shows "(db' = db \<and> c \<in> set (open_cases oid db)) \<or>
    (\<exists>ob key ev. get_row obl_id (obligations db) oid = Some ob \<and> open_cases oid db = [] \<and>
       c = new_case env actor owner prio key ob \<and> case_id c \<notin> set (map case_id (cases db)) \<and>
       sev_case_id ev = case_id c \<and> sev_from_stage ev = None \<and> sev_to_stage ev = DUE_IDENTIFIED \<and>
       cases db' = cases db @ [c] \<and> stage_events db' = stage_events db @ [ev] \<and>
       obligations db' = put_row obl_id (ob\<lparr>obl_status := ''IN_CASE''\<rparr>) (obligations db))"
proof -
  from assms obtain ob where ob: "get_row obl_id (obligations db) oid = Some ob"
    by (cases "get_row obl_id (obligations db) oid") (auto simp: open_case_def)
  show ?thesis
  proof (cases "open_cases oid db")
    case Nil
    with assms ob show ?thesis
      by (auto simp: open_case_def err_simps Let_def new_case_def)
  next
    case (Cons x xs)
    with assms ob show ?thesis by (auto simp: open_case_def)
  qed
qed

lemma new_case_simps [simp]:
  "case_id (new_case env actor owner prio key ob) = ce_new_id env"
  "case_obligation_id (new_case env actor owner prio key ob) = obl_id ob"
  "current_stage (new_case env actor owner prio key ob) = DUE_IDENTIFIED"
  "case_status (new_case env actor owner prio key ob) = OPEN"
  "case_completed_at (new_case env actor owner prio key ob) = None"
  "blocked_reason (new_case env actor owner prio key ob) = None"
  by (simp_all add: new_case_def)

lemma open_case_inv:
  assumes inv: "case_inv db" and op: "open_case env actor owner prio oid db = Inr (c, db')"
  shows "case_inv db'"
  using open_case_Inr [OF op]
proof (elim disjE exE conjE)
  fix ob key ev
  assume ob: "get_row obl_id (obligations db) oid = Some ob" and none: "open_cases oid db = []"
    and c: "c = new_case env actor owner prio key ob"
    and new: "case_id c \<notin> set (map case_id (cases db))"
    and ev: "sev_case_id ev = case_id c" "sev_from_stage ev = None" "sev_to_stage ev = DUE_IDENTIFIED"
    and db': "cases db' = cases db @ [c]" "stage_events db' = stage_events db @ [ev]"
      "obligations db' = put_row obl_id (ob\<lparr>obl_status := ''IN_CASE''\<rparr>) (obligations db)"
  let ?db = "db\<lparr>obligations := obligations db'\<rparr>"
  have oid: "obl_id ob = oid" using get_row_SomeD [OF ob] by simp
  have pred: "map predecessor_obligation_id (obligations db') = map predecessor_obligation_id (obligations db)"
    unfolding db' by (rule put_obligation_keeps [OF ob]) (use inv in \<open>simp_all add: case_inv_def\<close>)
  have inv': "case_inv ?db"
    by (rule case_inv_obligations [OF inv _ pred]) (simp_all add: db')
  have hist: "case_history db' i = case_history db i @ (if i = case_id c then [ev] else [])" for i
    by (simp add: case_history_def db' ev)
  have fresh: "case_history db (case_id c) = []"
    using inv new unfolding case_inv_def case_history_def filter_empty_conv by (metis set_map)
  have "case_ok (case_history db' (case_id c)) c"
    using fresh by (simp add: hist case_ok_def c ev event_ok_def)
  moreover have "case_ok (case_history db' (case_id d)) d" if "d \<in> set (cases db)" for d
  proof -
    have "case_id d \<noteq> case_id c" using that new by (metis image_eqI set_map)
    then show ?thesis using that inv by (simp add: hist case_inv_def)
  qed
  moreover have "length (open_cases i db') \<le> 1" for i
    using inv none oid by (auto simp: case_inv_def open_cases_def db' c)
  moreover have "length (filter (\<lambda>ob. predecessor_obligation_id ob = Some p) (obligations db')) \<le> 1" for p
    using inv' by (simp add: case_inv_def)
  moreover have "distinct (map obl_id (obligations db'))" using inv' by (simp add: case_inv_def)
  ultimately show ?thesis using inv new
    by (auto simp: case_inv_def db' ev)
qed (use inv in simp)

lemma update_case_Inr:
  assumes "update_case env a cid chs db = Inr (c', db')"
  obtains c where "get_row case_id (cases db) cid = Some c" "c' = fold apply_case_change chs c"
    "cases db' = put_row case_id c' (cases db)" "stage_events db' = stage_events db"
    "obligations db' = obligations db"
    "list_all (\<lambda>x. json_serializable (snd (case_field_attr c x))) chs"
    "list_all (\<lambda>x. json_serializable (snd (case_field_attr c' x))) chs"
proof -
  from assms obtain c where "get_row case_id (cases db) cid = Some c"
    by (cases "get_row case_id (cases db) cid") (auto simp: update_case_def)
  with assms show thesis
    by (intro that) (auto simp: update_case_def err_simps Let_def audit_serializable_def
        licensing_audit_def list.pred_map o_def)
qed

text \<open>A case replaced in place: the other cases keep their histories.\<close>

lemma put_case_ok:
  assumes inv: "case_inv db" and c: "get_row case_id (cases db) i = Some c"
    and c': "case_id c' = case_id c" "case_obligation_id c' = case_obligation_id c"
    and cl: "\<not> is_closed c' \<Longrightarrow> \<not> is_closed c"
    and ok: "case_ok (case_history db' (case_id c)) c'"
    and other: "\<And>j. j \<noteq> case_id c \<Longrightarrow> case_history db' j = case_history db j"
    and db': "cases db' = put_row case_id c' (cases db)"
      "set (stage_events db') \<subseteq> set (stage_events db) \<union> {ev. sev_case_id ev = case_id c}"
    and obs: "distinct (map obl_id (obligations db'))"
      "\<And>p. length (filter (\<lambda>ob. predecessor_obligation_id ob = Some p) (obligations db')) \<le> 1"
  shows "case_inv db'"
proof -
  have d: "distinct (map case_id (cases db))" using inv by (simp add: case_inv_def)
  have mem: "c \<in> set (cases db)" "case_id c = i" using get_row_SomeD [OF c] by auto
  have keys: "case_id ` set (cases db') = case_id ` set (cases db)"
    unfolding db' by (metis keys_put_row set_map)
  have "length (open_cases oid db') \<le> 1" for oid
    using open_cases_put [OF c d c' cl db'(1), of oid] inv
    by (meson case_inv_def le_trans)
  moreover have "case_ok (case_history db' (case_id x)) x" if "x \<in> set (cases db')" for x
    using set_put_row [of x case_id c' "cases db"] that other inv ok c'
    by (auto simp: db' case_inv_def)
  moreover have "sev_case_id ev \<in> case_id ` set (cases db')" if "ev \<in> set (stage_events db')" for ev
    using that db'(2) inv mem unfolding keys by (auto simp: case_inv_def)
  ultimately show ?thesis using obs d by (simp add: case_inv_def db')
qed

lemma update_case_inv:
  assumes inv: "case_inv db" and up: "update_case env a cid chs db = Inr (c', db')"
  shows "case_inv db'"
proof -
  obtain c where c: "get_row case_id (cases db) cid = Some c" "c' = fold apply_case_change chs c"
    and db': "cases db' = put_row case_id c' (cases db)" "stage_events db' = stage_events db"
      "obligations db' = obligations db"
    by (rule update_case_Inr [OF up])
  have mem: "c \<in> set (cases db)" using get_row_SomeD [OF c(1)] by simp
  have h: "case_history db' i = case_history db i" for i by (simp add: case_history_def db')
  show ?thesis
    by (rule put_case_ok [OF inv c(1)])
      (use inv mem in \<open>auto simp: c db' h is_closed_def case_inv_def case_ok_def\<close>)
qed

lemma advance_case_ok:
  assumes ok: "case_ok h c" and mv: "move_ok (current_stage c) y (sev_evidence ev) sr sc re cr"
    and ev: "sev_from_stage ev = Some (current_stage c)" "sev_to_stage ev = y"
  shows "case_ok (h @ [ev]) (advance_case env y (Some (STAGE_STATUS y)) r cl c)"
proof -
  have live: "current_stage c \<noteq> CaseStage.COMPLETED" "y \<noteq> current_stage c"
    using mv allowed_irrefl by (auto simp: move_ok_def)
  have "event_ok ev" using mv ev by (simp add: event_ok_def move_ok_def list_all_iff)
  moreover have "case_completed_at (advance_case env y (Some (STAGE_STATUS y)) r cl c) \<noteq> None
      \<longleftrightarrow> y = CaseStage.COMPLETED"
    using ok live by (auto simp: advance_case_def Let_def case_ok_def split: option.splits)
  moreover have "blocked_reason (advance_case env y (Some (STAGE_STATUS y)) r cl c) \<noteq> None
      \<longleftrightarrow> y = CaseStage.BLOCKED"
    using ok live by (auto simp: advance_case_def Let_def case_ok_def split: option.splits)
  ultimately show ?thesis using ok ev
    by (auto simp: case_ok_def successively_append_iff linked_def)
qed

lemma satisfy_obligation_keeps:
  assumes "distinct (map obl_id obs)"
  shows "map obl_id (satisfy_obligation y oid obs) = map obl_id obs"
    "map predecessor_obligation_id (satisfy_obligation y oid obs) = map predecessor_obligation_id obs"
  using put_obligation_keeps [OF _ _ _ assms]
  by (auto simp: satisfy_obligation_def split: option.splits)

lemma case_transition_inv:
  assumes inv: "case_inv db" and tr: "case_transition env rq db = Inr (c', db')"
  shows "case_inv db'"
  using tr
proof (rule case_transition_Inr)
  fix c y
  assume c: "get_row case_id (cases db) (cq_case_id rq) = Some c"
    and mv: "move_ok (current_stage c) y (the_payload rq db) (signature_required (case_id c) db)
           (signature_recorded (case_id c) db)
           (has_renewed_evidence (case_id c) (case cq_evidence rq of None \<Rightarrow> [] | Some d \<Rightarrow> d) db)
           (or_else (cq_close_reason rq) (close_reason c))"
    and c': "c' = advance_case env y (Some (STAGE_STATUS y)) (cq_reason rq) (cq_close_reason rq) c"
    and "\<exists>a. la_action a = ''case_stage_changed'' \<and> la_entity_id a = str_uuid (case_id c) \<and>
           la_before a = Some [(''stage'', AStr (stage_value (current_stage c)))] \<and>
           la_after a = Some [(''stage'', AStr (stage_value y)), (''status'', AStr (status_value (STAGE_STATUS y)))] \<and>
           la_actor_id a = actor_id (cq_actor rq) \<and>
           db' = add_licensing_audit a (db\<lparr>cases := put_row case_id c' (cases db),
                   stage_events := stage_events db @ [transition_event env rq db y c],
                   obligations := satisfy_obligation y (case_obligation_id c) (obligations db)\<rparr>)"
  then have db': "cases db' = put_row case_id c' (cases db)"
      "stage_events db' = stage_events db @ [transition_event env rq db y c]"
      "obligations db' = satisfy_obligation y (case_obligation_id c) (obligations db)"
    by auto
  have mem: "c \<in> set (cases db)" using get_row_SomeD [OF c] by simp
  have h: "case_history db' i =
      case_history db i @ (if i = case_id c then [transition_event env rq db y c] else [])" for i
    by (simp add: case_history_def db')
  have d: "distinct (map obl_id (obligations db))" using inv by (simp add: case_inv_def)
  have inv_obs: "case_inv (db\<lparr>obligations := obligations db'\<rparr>)"
    by (rule case_inv_obligations [OF inv]) (simp_all add: db' satisfy_obligation_keeps [OF d])
  have ok: "case_ok (case_history db (case_id c)) c" using inv mem by (simp add: case_inv_def)
  have live: "\<not> is_closed c"
    using ok mv terminal_status_iff [of "current_stage c"] terminal_no_moves [of "current_stage c"]
    by (auto simp: is_closed_def case_ok_def move_ok_def)
  show "case_inv db'"
  proof (rule put_case_ok [OF inv c])
    show "case_ok (case_history db' (case_id c)) c'"
      using advance_case_ok [OF ok, of y "transition_event env rq db y c"] mv by (simp add: h c')
    show "length (filter (\<lambda>ob. predecessor_obligation_id ob = Some p) (obligations db')) \<le> 1" for p
      using inv_obs by (simp add: case_inv_def)
    show "distinct (map obl_id (obligations db'))" using inv_obs by (simp add: case_inv_def)
  qed (use live in \<open>auto simp: c' db' h\<close>)
qed

lemma information_request_frames:
  "create_information_request env a cid q d rf due se vq db = Inr (ir, db') \<Longrightarrow>
     cases db' = cases db \<and> obligations db' = obligations db \<and> stage_events db' = stage_events db"
  "update_information_request env a rid st rf rv n db = Inr (ir, db') \<Longrightarrow>
     cases db' = cases db \<and> obligations db' = obligations db \<and> stage_events db' = stage_events db"
   apply (auto simp: create_information_request_def err_simps Let_def
      split: option.splits if_splits) [1]
  apply (cases "get_row ir_id (info_requests db) rid")
   apply (auto simp: update_information_request_def err_simps Let_def)
  done

lemma case_step_inv: "case_step db db' \<Longrightarrow> case_inv db \<Longrightarrow> case_inv db'"
proof (induction rule: case_step.induct)
  case (step_create env actor f db ob db')
  then show ?case using create_obligation_inv [of db env actor f ob db'] by simp
next
  case (step_ask env a cid q d rf due se vq db ir db')
  then show ?case using information_request_frames(1) case_inv_cong by metis
next
  case (step_answer env a rid st rf rv n db ir db')
  then show ?case using information_request_frames(2) case_inv_cong by metis
next
  case (step_others db fs ps es ls bs js os)
  then show ?case by (subst case_inv_cong [of _ db]) simp_all
qed (blast intro: update_obligation_inv create_next_obligation_inv open_case_inv update_case_inv
    case_transition_inv)+

lemma case_init_inv: "case_init db \<Longrightarrow> case_inv db"
  by (simp add: case_init_def case_inv_def open_cases_def)

interpretation case_sys: invariant_system case_init case_step case_inv
  by unfold_locales (blast intro: case_init_inv case_step_inv)+

interpretation case_moves: audited_operation "case_transition env" case_audits
    "\<lambda>rq a. la_action a = ''case_stage_changed'' \<and> la_entity_id a = str_uuid (cq_case_id rq)
       \<and> la_actor_id a = actor_id (cq_actor rq)"
  for env
proof unfold_locales
  fix rq db r db'
  assume "case_transition env rq db = Inr (r, db')"
  then show "\<exists>a. case_audits db' = case_audits db @ [a] \<and> la_action a = ''case_stage_changed'' \<and>
     la_entity_id a = str_uuid (cq_case_id rq) \<and> la_actor_id a = actor_id (cq_actor rq)"
  proof (rule case_transition_Inr)
    fix c y
    assume c: "get_row case_id (cases db) (cq_case_id rq) = Some c"
      and "\<exists>a. la_action a = ''case_stage_changed'' \<and> la_entity_id a = str_uuid (case_id c) \<and>
           la_before a = Some [(''stage'', AStr (stage_value (current_stage c)))] \<and>
           la_after a = Some [(''stage'', AStr (stage_value y)), (''status'', AStr (status_value (STAGE_STATUS y)))] \<and>
           la_actor_id a = actor_id (cq_actor rq) \<and>
           db' = add_licensing_audit a (db\<lparr>cases := put_row case_id r (cases db),
                   stage_events := stage_events db @ [transition_event env rq db y c],
                   obligations := satisfy_obligation y (case_obligation_id c) (obligations db)\<rparr>)"
    moreover have "case_id c = cq_case_id rq" using get_row_SomeD [OF c] by simp
    ultimately show ?thesis by auto
  qed
qed

subsection \<open>Histories: every stage was entered from the one before\<close>

lemma linked_predecessor:
  assumes "successively linked h" "h \<noteq> []" "sev_from_stage (hd h) = None"
    and "ev \<in> set h" "sev_from_stage ev = Some x"
  shows "\<exists>ev' \<in> set h. sev_to_stage ev' = x"
proof -
  from assms(4) obtain i where i: "i < length h" "h ! i = ev" by (auto simp: in_set_conv_nth)
  with assms have "i \<noteq> 0" by (metis hd_conv_nth option.distinct(1))
  then obtain j where j: "i = Suc j" by (cases i) auto
  have "linked (h ! j) (h ! Suc j)"
    using assms(1) i unfolding successively_conv_nth j by blast
  then show ?thesis using i j assms(5) by (intro bexI [of _ "h ! j"]) (auto simp: linked_def)
qed

lemma entered_from:
  assumes ok: "case_ok h c" and ev: "ev \<in> set h" "sev_to_stage ev = y" and y: "y \<noteq> DUE_IDENTIFIED"
  shows "\<exists>ev' \<in> set h. y \<in> set (ALLOWED_STAGE_TRANSITIONS (sev_to_stage ev')) \<and>
     list_all (\<lambda>k. truthy (jget_or (sev_evidence ev) k JNull)) (STAGE_EVIDENCE_REQUIREMENTS y)"
proof -
  have "event_ok ev" using ok ev by (auto simp: case_ok_def list_all_iff)
  with ev y obtain x where x: "sev_from_stage ev = Some x" "y \<in> set (ALLOWED_STAGE_TRANSITIONS x)"
    "list_all (\<lambda>k. truthy (jget_or (sev_evidence ev) k JNull)) (STAGE_EVIDENCE_REQUIREMENTS y)"
    by (auto simp: event_ok_def split: option.splits)
  with ok ev linked_predecessor [of h ev x] show ?thesis by (auto simp: case_ok_def)
qed

lemma into_completed: "CaseStage.COMPLETED \<in> set (ALLOWED_STAGE_TRANSITIONS x) \<longleftrightarrow> x = INVENTORY_UPDATE_PENDING"
  by (cases x) simp_all

lemma into_inventory_update:
  "INVENTORY_UPDATE_PENDING \<in> set (ALLOWED_STAGE_TRANSITIONS x) \<longleftrightarrow> x = RENEWED_EVIDENCE_RECEIVED"
  by (cases x) simp_all

lemma completed_history:
  assumes ok: "case_ok h c" and "current_stage c = CaseStage.COMPLETED"
  shows "\<exists>ev \<in> set h. sev_to_stage ev = RENEWED_EVIDENCE_RECEIVED \<and>
     truthy (jget_or (sev_evidence ev) ''renewed_evidence_document_id'' JNull)"
proof -
  have "last h \<in> set h" "sev_to_stage (last h) = CaseStage.COMPLETED"
    using assms by (auto simp: case_ok_def)
  from entered_from [OF ok this] obtain e1 where
    "e1 \<in> set h" "sev_to_stage e1 = INVENTORY_UPDATE_PENDING" by (auto simp: into_completed)
  from entered_from [OF ok this] obtain e2 where
    e2: "e2 \<in> set h" "sev_to_stage e2 = RENEWED_EVIDENCE_RECEIVED" by (auto simp: into_inventory_update)
  from entered_from [OF ok e2] e2 show ?thesis by auto
qed

subsection \<open>Closed cases\<close>

definition same_case :: "case_db \<Rightarrow> case_db \<Rightarrow> uuid \<Rightarrow> bool" where
  "same_case db db' i \<longleftrightarrow>
     map_option (\<lambda>c. (current_stage c, case_status c, case_completed_at c, case_obligation_id c))
       (get_row case_id (cases db') i) =
     map_option (\<lambda>c. (current_stage c, case_status c, case_completed_at c, case_obligation_id c))
       (get_row case_id (cases db) i) \<and>
     case_history db' i = case_history db i"

lemma same_case_frame:
  "cases db' = cases db \<Longrightarrow> stage_events db' = stage_events db \<Longrightarrow> same_case db db' i"
  by (simp add: same_case_def case_history_def)

lemma step_closed_case:
  assumes "case_step db db'" "case_inv db"
    and c: "get_row case_id (cases db) i = Some c" and t: "current_stage c \<in> set TERMINAL_STAGES"
  shows "same_case db db' i"
  using assms(1,2) c
proof (induction rule: case_step.induct)
  case (step_create env actor f db ob db')
  then show ?case using create_obligation_Inr by (intro same_case_frame) blast+
next
  case (step_update_obligation env a oid chs db ob db')
  then show ?case
    by (intro same_case_frame)
      (auto simp: update_obligation_def err_simps Let_def split: option.splits)
next
  case (step_roll env actor d oid db r db')
  then show ?case using create_next_obligation_Inr [OF step_roll(1)] create_obligation_Inr
    by (intro same_case_frame) metis+
next
  case (step_open env actor owner prio oid db d db')
  have "i \<in> set (map case_id (cases db))" using get_row_SomeD [OF step_open(3)] by auto
  with open_case_Inr [OF step_open(1)] step_open(3) show ?case
    by (auto simp: same_case_def case_history_def get_row_append)
next
  case (step_update_case env a cid cchs db d db')
  show ?case
    by (rule update_case_Inr [OF step_update_case(1)])
      (use get_row_SomeD [of case_id "cases db" cid] in
        \<open>auto simp: same_case_def case_history_def get_put_row split: option.splits\<close>)
next
  case (step_move env rq db d db')
  show ?case
  proof (rule case_transition_Inr [OF step_move(1)])
    fix x y
    assume x: "get_row case_id (cases db) (cq_case_id rq) = Some x"
      and mv: "move_ok (current_stage x) y (the_payload rq db) (signature_required (case_id x) db)
           (signature_recorded (case_id x) db)
           (has_renewed_evidence (case_id x) (case cq_evidence rq of None \<Rightarrow> [] | Some d \<Rightarrow> d) db)
           (or_else (cq_close_reason rq) (close_reason x))"
      and d: "d = advance_case env y (Some (STAGE_STATUS y)) (cq_reason rq) (cq_close_reason rq) x"
      and db': "\<exists>a. la_action a = ''case_stage_changed'' \<and> la_entity_id a = str_uuid (case_id x) \<and>
           la_before a = Some [(''stage'', AStr (stage_value (current_stage x)))] \<and>
           la_after a = Some [(''stage'', AStr (stage_value y)), (''status'', AStr (status_value (STAGE_STATUS y)))] \<and>
           la_actor_id a = actor_id (cq_actor rq) \<and>
           db' = add_licensing_audit a (db\<lparr>cases := put_row case_id d (cases db),
                   stage_events := stage_events db @ [transition_event env rq db y x],
                   obligations := satisfy_obligation y (case_obligation_id x) (obligations db)\<rparr>)"
    have "x \<noteq> c" using mv t terminal_no_moves by (auto simp: move_ok_def)
    then have "case_id x \<noteq> i" using x step_move(3) get_row_SomeD [OF x] by auto
    with d db' show ?thesis
      by (auto simp: same_case_def case_history_def get_put_row)
  qed
qed (auto intro!: same_case_frame dest: information_request_frames)

lemma run_closed_case:
  assumes "case_step\<^sup>*\<^sup>* db db'" "case_inv db"
    and c: "get_row case_id (cases db) i = Some c" "current_stage c \<in> set TERMINAL_STAGES"
  shows "same_case db db' i"
  using assms(1)
proof (induction rule: rtranclp_induct)
  case (step db1 db2)
  have "case_inv db1" using case_sys.run_inv step(1) assms(2) .
  moreover obtain c1 where "get_row case_id (cases db1) i = Some c1" "current_stage c1 = current_stage c"
    using step(3) c by (auto simp: same_case_def)
  ultimately have "same_case db1 db2 i" using step_closed_case [OF step(2)] c(2) by auto
  with step(3) show ?case by (simp add: same_case_def)
qed (simp add: same_case_def)

subsection \<open>Completing a case\<close>

lemma case_transition_succeeds:
  assumes c: "get_row case_id (cases db) (cq_case_id rq) = Some c"
  shows "(\<exists>r. case_transition env rq db = Inr r) \<longleftrightarrow>
     (\<exists>y. cq_to_stage rq = stage_value y \<and>
        move_ok (current_stage c) y (the_payload rq db) (signature_required (cq_case_id rq) db)
           (signature_recorded (cq_case_id rq) db)
           (has_renewed_evidence (cq_case_id rq) (case cq_evidence rq of None \<Rightarrow> [] | Some d \<Rightarrow> d) db)
           (or_else (cq_close_reason rq) (close_reason c)))"
proof -
  have cid: "case_id c = cq_case_id rq" using get_row_SomeD [OF c] by simp
  show ?thesis
    using validate_allowed_iff [of "current_stage c" "cq_to_stage rq" "Some (the_payload rq db)"]
    by (auto simp: case_transition_def c Let_def cid the_payload_def split: option.splits)
qed

text \<open>A request that carries the renewed evidence.\<close>

definition evidence_request :: "case_actor \<Rightarrow> uuid \<Rightarrow> CaseStage \<Rightarrow> case_request" where
  "evidence_request actor i y =
     \<lparr>cq_case_id = i, cq_to_stage = stage_value y, cq_reason = None,
      cq_evidence = Some [(''renewed_evidence_document_id'', JStr ''doc'')],
      cq_close_reason = None, cq_actor = actor\<rparr>"

definition closing_stages :: "CaseStage list" where
  "closing_stages = [CaseStage.BLOCKED, REGULATOR_REVIEW, RENEWED_EVIDENCE_RECEIVED,
     INVENTORY_UPDATE_PENDING, CaseStage.COMPLETED]"

lemma closing_step:
  assumes c: "get_row case_id (cases db) i = Some c"
    and y: "y \<in> set (ALLOWED_STAGE_TRANSITIONS (current_stage c))" "y \<in> set closing_stages"
  shows "\<exists>c' db'. case_transition env (evidence_request actor i y) db = Inr (c', db') \<and>
     get_row case_id (cases db') i = Some c' \<and> current_stage c' = y \<and>
     (\<exists>ev. stage_events db' = stage_events db @ [ev] \<and> sev_to_stage ev = y)"
proof -
  let ?rq = "evidence_request actor i y"
  have p: "the_payload ?rq db = [(''renewed_evidence_document_id'', JStr ''doc'')]"
    using y(2) by (auto simp: the_payload_def evidence_request_def complete_payload_def Let_def
        closing_stages_def)
  have "move_ok (current_stage c) y (the_payload ?rq db) (signature_required i db)
     (signature_recorded i db) (has_renewed_evidence i (the_payload ?rq db) db) cr" for cr
    using y by (auto simp: move_ok_def p closing_stages_def jget_or_def jget_def
        has_renewed_evidence_def POST_SIGNATURE_STAGES_def)
  then obtain c' db' where tr: "case_transition env ?rq db = Inr (c', db')"
    using case_transition_succeeds [of db ?rq c env] c
    by (auto simp: p) (auto simp: evidence_request_def)
  moreover have "get_row case_id (cases db') i = Some c' \<and> current_stage c' = y \<and>
     (\<exists>ev. stage_events db' = stage_events db @ [ev] \<and> sev_to_stage ev = y)"
    by (rule case_transition_Inr [OF tr])
      (use c get_row_SomeD [OF c] in \<open>auto simp: evidence_request_def get_put_row\<close>)
  ultimately show ?thesis by blast
qed

text \<open>A path of closing stages is a series of successful calls.\<close>

lemma closing_run:
  assumes "get_row case_id (cases db) i = Some c" "set ys \<subseteq> set closing_stages"
    and "successively (\<lambda>x y. y \<in> set (ALLOWED_STAGE_TRANSITIONS x)) (current_stage c # ys)"
  shows "\<exists>c' db' evs. run_calls (case_transition env) (map (evidence_request actor i) ys) db = Inr db' \<and>
     get_row case_id (cases db') i = Some c' \<and> current_stage c' = last (current_stage c # ys) \<and>
     stage_events db' = stage_events db @ evs \<and> map sev_to_stage evs = ys"
  using assms
proof (induction ys arbitrary: db c)
  case (Cons y ys)
  then obtain c1 db1 ev where s: "case_transition env (evidence_request actor i y) db = Inr (c1, db1)"
    "get_row case_id (cases db1) i = Some c1" "current_stage c1 = y"
    "stage_events db1 = stage_events db @ [ev]" "sev_to_stage ev = y"
    using closing_step [of db i c y env actor] by auto
  obtain c' db' evs where "run_calls (case_transition env) (map (evidence_request actor i) ys) db1 = Inr db'"
    "get_row case_id (cases db') i = Some c'" "current_stage c' = last (y # ys)"
    "stage_events db' = stage_events db1 @ evs" "map sev_to_stage evs = ys"
    using Cons.IH [OF s(2)] Cons.prems s(3) by auto
  with s show ?case by (intro exI [of _ c'] exI [of _ db'] exI [of _ "ev # evs"]) auto
qed simp

lemma live_can_block:
  "x \<notin> set TERMINAL_STAGES \<Longrightarrow> x \<noteq> CaseStage.BLOCKED \<Longrightarrow>
     CaseStage.BLOCKED \<in> set (ALLOWED_STAGE_TRANSITIONS x)"
  by (cases x) (simp_all add: TERMINAL_STAGES_def)

lemma closing_path:
  assumes "x \<notin> set TERMINAL_STAGES"
  shows "\<exists>ys. set ys \<subseteq> set closing_stages \<and> length ys \<le> 5 \<and> last (x # ys) = CaseStage.COMPLETED \<and>
     successively (\<lambda>x y. y \<in> set (ALLOWED_STAGE_TRANSITIONS x)) (x # ys)"
proof (cases "x = CaseStage.BLOCKED")
  case True
  then show ?thesis by (intro exI [of _ "tl closing_stages"]) (simp add: closing_stages_def)
next
  case False
  with assms live_can_block show ?thesis
    by (intro exI [of _ closing_stages]) (simp add: closing_stages_def)
qed

subsection \<open>Rolling an obligation forward\<close>

lemma next_cycle_later:
  assumes v: "valid_date d" and n: "next_cycle_date d = Inr d'"
  shows "d < d' \<and> valid_date d'"
proof (cases "mk_date (dt_year d + 1) (dt_month d) (dt_day d)")
  case (Inl e)
  with n have "add_days d 365 = Inr d'" by (simp add: next_cycle_date_def)
  then have "valid_date d' \<and> toordinal d' = toordinal d + 365"
    using v by (simp add: add_days_Inr)
  then show ?thesis using v toordinal_less_iff [of d d'] by (simp add: valid_date_def)
next
  case (Inr e)
  with n have "d' = e" by (simp add: next_cycle_date_def)
  then show ?thesis using Inr v
    by (cases d; cases e) (auto simp: mk_date_def less_date_def less_eq_date_def split: if_splits)
qed

subsection \<open>A concrete case\<close>

lemma run_calls_steps:
  "run_calls (case_transition env) rqs db = Inr db' \<Longrightarrow> case_step\<^sup>*\<^sup>* db db'"
proof (induction rqs arbitrary: db)
  case (Cons rq rqs)
  then obtain c db1 where "case_transition env rq db = Inr (c, db1)"
    "run_calls (case_transition env) rqs db1 = Inr db'" by (auto simp: err_simps)
  then show ?case using Cons.IH step_move by (meson converse_rtranclp_into_rtranclp)
qed simp

definition ex_env :: "nat \<Rightarrow> case_env" where
  "ex_env n = \<lparr>ce_now = int n, ce_today = Date 2026 1 5, ce_new_id = n, ce_suffix = ''a1b2c3'',
     ce_sha256 = id\<rparr>"

definition ex_actor :: case_actor where
  "ex_actor = \<lparr>actor_type = ''HUMAN'', actor_id = ''reviewer''\<rparr>"

definition ex_fields :: obligation_fields where
  "ex_fields = \<lparr>of_obligation_key = Some ''k'', of_legal_entity_id = 1, of_license_id = None,
     of_bond_id = None, of_jurisdiction_id = None, of_obligation_type = ''LICENSE_RENEWAL'',
     of_title = ''Renewal'', of_status = None, of_recurrence_rule = Some [(''type'', JStr ''ANNUAL_FIXED_DATE'')],
     of_statutory_due_date = None, of_next_due_date = Some (Date 2028 2 29),
     of_internal_start_date = None, of_responsible_owner = None, of_vendor = None,
     of_regulator = None, of_requirement_source_ids = [], of_predecessor = None, of_notes = None\<rparr>"

text \<open>A case with a form that requires a signature nobody has given.\<close>

definition ex_db0 :: case_db where
  "ex_db0 = \<lparr>obligations = [], cases = [], stage_events = [], info_requests = [], case_audits = [],
     notifications = \<lparr>notices = [], notice_outbox = []\<rparr>, entities = [1 \<mapsto> ''astra''], licenses = (\<lambda>_. None), bonds = (\<lambda>_. None),
     jurisdictions = (\<lambda>_. False), organizations = (\<lambda>_. False),
     form_instances = [\<lparr>fi_case_id = 7, fi_signature_required = True, fi_signed_document_id = None\<rparr>],
     packets = []\<rparr>"

definition ex_db1 :: case_db where
  "ex_db1 = snd (projr (create_obligation (ex_env 5) None ex_fields ex_db0))"

definition ex_db2 :: case_db where
  "ex_db2 = snd (projr (open_case (ex_env 7) None None None 5 ex_db1))"

definition ex_db3 :: case_db where
  "ex_db3 = projr (run_calls (case_transition (ex_env 9)) (map (evidence_request ex_actor 7) closing_stages) ex_db2)"

lemma ex_created: "\<exists>ob. create_obligation (ex_env 5) None ex_fields ex_db0 = Inr (ob, ex_db1)"
proof -
  have "\<not> isl (create_obligation (ex_env 5) None ex_fields ex_db0)" by code_simp
  then show ?thesis unfolding ex_db1_def
    by (cases "create_obligation (ex_env 5) None ex_fields ex_db0") auto
qed

lemma ex_opened: "\<exists>c. open_case (ex_env 7) None None None 5 ex_db1 = Inr (c, ex_db2)"
proof -
  obtain ob where ob: "create_obligation (ex_env 5) None ex_fields ex_db0 = Inr (ob, ex_db1)"
    using ex_created by blast
  have "obligations ex_db1 = [ob]" "obl_id ob = 5" "cases ex_db1 = []"
    using create_obligation_Inr [OF ob] by (simp_all add: ex_db0_def ex_env_def)
  then have "\<exists>r. open_case (ex_env 7) None None None 5 ex_db1 = Inr r"
    by (simp add: open_case_def Let_def open_cases_def new_case_def or_else_def CasePriority_def)
  then show ?thesis by (auto simp: ex_db2_def)
qed

lemma ex_reach1: "reach case_init case_step ex_db1"
proof -
  have "case_init ex_db0" by (simp add: case_init_def ex_db0_def)
  moreover have "case_step ex_db0 ex_db1"
    using ex_created step_create by (metis ex_fields_def obligation_fields.select_convs(17))
  ultimately show ?thesis by (blast intro: reach.intros)
qed

lemma ex_reach2: "reach case_init case_step ex_db2"
  using ex_reach1 ex_opened by (blast intro: reach_step step_open)

lemma ex_case2:
  "\<exists>c. cases ex_db2 = [c] \<and> case_id c = 7 \<and> case_obligation_id c = 5 \<and> current_stage c = DUE_IDENTIFIED"
proof -
  obtain ob where ob: "create_obligation (ex_env 5) None ex_fields ex_db0 = Inr (ob, ex_db1)"
    using ex_created by blast
  obtain c where c: "open_case (ex_env 7) None None None 5 ex_db1 = Inr (c, ex_db2)"
    using ex_opened by blast
  have no: "cases ex_db1 = []" using create_obligation_Inr(1) [OF ob] by (simp add: ex_db0_def)
  with open_case_Inr [OF c] obtain ob1 key where
    "get_row obl_id (obligations ex_db1) 5 = Some ob1" "c = new_case (ex_env 7) None None None key ob1"
    "cases ex_db2 = [c]"
    by (auto simp: open_cases_def)
  moreover from this(1) have "obl_id ob1 = 5" by (rule get_row_SomeD [THEN conjunct2])
  ultimately show ?thesis by (simp add: ex_env_def)
qed

lemma ex_closed:
  "run_calls (case_transition (ex_env 9)) (map (evidence_request ex_actor 7) closing_stages) ex_db2 = Inr ex_db3"
  "\<exists>c. get_row case_id (cases ex_db3) 7 = Some c \<and> current_stage c = CaseStage.COMPLETED \<and>
     c \<in> set (cases ex_db3) \<and> case_id c = 7"
proof -
  obtain c where c: "cases ex_db2 = [c]" "case_id c = 7" "current_stage c = DUE_IDENTIFIED"
    using ex_case2 by blast
  then have r: "\<exists>c. run_calls (case_transition (ex_env 9)) (map (evidence_request ex_actor 7) closing_stages) ex_db2
      = Inr ex_db3 \<and> get_row case_id (cases ex_db3) 7 = Some c \<and> current_stage c = CaseStage.COMPLETED"
    using closing_run [of ex_db2 7 c closing_stages "ex_env 9" ex_actor]
    by (auto simp: closing_stages_def ex_db3_def)
  then show "run_calls (case_transition (ex_env 9)) (map (evidence_request ex_actor 7) closing_stages) ex_db2
      = Inr ex_db3" by blast
  from r obtain c where "get_row case_id (cases ex_db3) 7 = Some c" "current_stage c = CaseStage.COMPLETED"
    by blast
  with get_row_SomeD [OF this(1)] show "\<exists>c. get_row case_id (cases ex_db3) 7 = Some c \<and>
      current_stage c = CaseStage.COMPLETED \<and> c \<in> set (cases ex_db3) \<and> case_id c = 7" by blast
qed

lemma ex_reach3: "reach case_init case_step ex_db3"
  by (rule reach_rtranclp [OF run_calls_steps [OF ex_closed(1)] ex_reach2])

subsection \<open>Properties\<close>

text \<open>C2. In every reachable database the status of a case is the one its stage implies, the
  completion time is set exactly in COMPLETED and the blocked reason exactly in BLOCKED, and
  the stage history starts at the opening, is linked end to end, ends in the current stage and
  contains only moves of the matrix that carried their required evidence.\<close>

theorem case_reachable_invariant:
  assumes "reach case_init case_step db" and "c \<in> set (cases db)"
  shows "case_status c = STAGE_STATUS (current_stage c) \<and>
     (case_completed_at c \<noteq> None \<longleftrightarrow> current_stage c = CaseStage.COMPLETED) \<and>
     (blocked_reason c \<noteq> None \<longleftrightarrow> current_stage c = CaseStage.BLOCKED) \<and>
     sev_from_stage (hd (case_history db (case_id c))) = None \<and>
     successively linked (case_history db (case_id c)) \<and>
     list_all event_ok (case_history db (case_id c)) \<and>
     sev_to_stage (last (case_history db (case_id c))) = current_stage c"
  using case_sys.reach_inv [OF assms(1)] assms(2) by (simp add: case_inv_def case_ok_def)

theorem case_reachable_invariant_witness:
  "\<exists>c. get_row case_id (cases ex_db3) 7 = Some c \<and> case_status c = CaseStatus.COMPLETED \<and>
     case_completed_at c \<noteq> None \<and> blocked_reason c = None"
proof -
  obtain c where c: "get_row case_id (cases ex_db3) 7 = Some c" "current_stage c = CaseStage.COMPLETED"
    and "c \<in> set (cases ex_db3)" using ex_closed(2) by blast
  from case_reachable_invariant [OF ex_reach3 this(3)] c show ?thesis by auto
qed

text \<open>C32. A case that is COMPLETED has, in its history, the receipt of renewed evidence with the
  identifier of the evidence document. The close reason alone never completes a case.\<close>

theorem completed_case_has_renewed_evidence:
  assumes "reach case_init case_step db" and "c \<in> set (cases db)"
    and "case_status c = CaseStatus.COMPLETED"
  shows "\<exists>ev \<in> set (case_history db (case_id c)). sev_to_stage ev = RENEWED_EVIDENCE_RECEIVED \<and>
     truthy (jget_or (sev_evidence ev) ''renewed_evidence_document_id'' JNull)"
proof -
  have ok: "case_ok (case_history db (case_id c)) c"
    using case_sys.reach_inv [OF assms(1)] assms(2) by (simp add: case_inv_def)
  have "current_stage c = CaseStage.COMPLETED"
    using ok assms(3) by (cases "current_stage c") (simp_all add: case_ok_def)
  then show ?thesis by (rule completed_history [OF ok])
qed

theorem completed_case_has_renewed_evidence_witness:
  "\<exists>ev \<in> set (case_history ex_db3 7). sev_to_stage ev = RENEWED_EVIDENCE_RECEIVED"
proof -
  obtain c where c: "get_row case_id (cases ex_db3) 7 = Some c" "current_stage c = CaseStage.COMPLETED"
    and mem: "c \<in> set (cases ex_db3)" "case_id c = 7" using ex_closed(2) by blast
  have "case_status c = CaseStatus.COMPLETED"
    using case_sys.reach_inv [OF ex_reach3] mem(1) c(2) by (auto simp: case_inv_def case_ok_def)
  from completed_case_has_renewed_evidence [OF ex_reach3 mem(1) this] mem(2) show ?thesis by auto
qed

text \<open>An obligation never has two open cases.\<close>

theorem one_open_case_per_obligation:
  assumes "reach case_init case_step db" and "c \<in> set (cases db)" "d \<in> set (cases db)"
    and "case_obligation_id c = case_obligation_id d" and "\<not> is_closed c" "\<not> is_closed d"
  shows "c = d"
proof -
  have "length (open_cases (case_obligation_id d) db) \<le> 1"
    using case_sys.reach_inv [OF assms(1)] by (simp add: case_inv_def)
  moreover have "c \<in> set (open_cases (case_obligation_id d) db)" "d \<in> set (open_cases (case_obligation_id d) db)"
    using assms by (auto simp: open_cases_def)
  ultimately show ?thesis
    by (cases "open_cases (case_obligation_id d) db") (auto simp: le_Suc_eq)
qed

theorem one_open_case_per_obligation_witness:
  "\<exists>c d. c \<in> set (cases ex_db2) \<and> \<not> is_closed c \<and> (d \<in> set (cases ex_db2) \<and> \<not> is_closed d \<and>
     case_obligation_id c = case_obligation_id d) \<and> c = d"
proof -
  obtain c where c: "cases ex_db2 = [c]" "current_stage c = DUE_IDENTIFIED" using ex_case2 by blast
  have "case_status c = OPEN"
    using case_sys.reach_inv [OF ex_reach2] c by (simp add: case_inv_def case_ok_def)
  then have cl: "\<not> is_closed c" by (simp add: is_closed_def)
  have mem: "c \<in> set (cases ex_db2)" using c by simp
  from one_open_case_per_obligation [OF ex_reach2 mem mem refl cl cl] mem cl show ?thesis by blast
qed

text \<open>A closed case is final: whatever calls follow, its stage, status, completion time and
  history stay what they were when it was completed or cancelled.\<close>

theorem closed_case_is_final:
  assumes "reach case_init case_step db" and "case_step\<^sup>*\<^sup>* db db'"
    and "get_row case_id (cases db) i = Some c" and "is_closed c"
  shows "(\<exists>c'. get_row case_id (cases db') i = Some c' \<and> current_stage c' = current_stage c \<and>
       case_status c' = case_status c \<and> case_completed_at c' = case_completed_at c) \<and>
     case_history db' i = case_history db i"
proof -
  have inv: "case_inv db" by (rule case_sys.reach_inv [OF assms(1)])
  have "c \<in> set (cases db)" using get_row_SomeD [OF assms(3)] by simp
  then have "current_stage c \<in> set TERMINAL_STAGES"
    using inv assms(4) terminal_status_iff [of "current_stage c"]
    by (auto simp: case_inv_def case_ok_def is_closed_def)
  from run_closed_case [OF assms(2) inv assms(3) this] assms(3) show ?thesis
    by (auto simp: same_case_def)
qed

theorem closed_case_is_final_witness:
  "\<exists>c c'. get_row case_id (cases ex_db3) 7 = Some c \<and>
     get_row case_id (cases (ex_db3\<lparr>packets := []\<rparr>)) 7 = Some c' \<and> current_stage c' = current_stage c"
proof -
  obtain c where c: "get_row case_id (cases ex_db3) 7 = Some c" "current_stage c = CaseStage.COMPLETED"
    and mem: "c \<in> set (cases ex_db3)" using ex_closed(2) by blast
  have cl: "is_closed c"
    using case_sys.reach_inv [OF ex_reach3] mem c(2) by (auto simp: case_inv_def case_ok_def is_closed_def)
  have "case_step\<^sup>*\<^sup>* ex_db3 (ex_db3\<lparr>packets := []\<rparr>)"
    using step_others [where db = ex_db3 and fs = "form_instances ex_db3" and ps = "[]"
        and es = "entities ex_db3" and ls = "licenses ex_db3" and bs = "bonds ex_db3"
        and js = "jurisdictions ex_db3" and os = "organizations ex_db3"]
    by (intro r_into_rtranclp) simp
  from closed_case_is_final [OF ex_reach3 this c(1) cl] c(1) show ?thesis by blast
qed

text \<open>C9. The control points of a stage move, exactly. For an existing case the move succeeds
  if and only if the target is a stage that the matrix allows from the current one, the payload
  (completed from the approved packet and the signed form) carries every evidence the target
  demands, a submission stage is entered only when no form of the case requires a signature or
  a signed form is on record, and completion comes with renewed evidence or a close reason.\<close>

theorem case_move_succeeds_iff_controls_pass:
  assumes "get_row case_id (cases db) (cq_case_id rq) = Some c"
  shows "(\<exists>r. case_transition env rq db = Inr r) \<longleftrightarrow>
     (\<exists>y. cq_to_stage rq = stage_value y \<and> y \<in> set (ALLOWED_STAGE_TRANSITIONS (current_stage c)) \<and>
        list_all (\<lambda>k. truthy (jget_or (the_payload rq db) k JNull)) (STAGE_EVIDENCE_REQUIREMENTS y) \<and>
        (y \<in> set POST_SIGNATURE_STAGES \<and> signature_required (cq_case_id rq) db
           \<longrightarrow> signature_recorded (cq_case_id rq) db) \<and>
        (y = CaseStage.COMPLETED \<longrightarrow>
           has_renewed_evidence (cq_case_id rq) (case cq_evidence rq of None \<Rightarrow> [] | Some d \<Rightarrow> d) db \<or>
           or_else (cq_close_reason rq) (close_reason c) \<notin> {None, Some []}))"
  unfolding case_transition_succeeds [OF assms] move_ok_def by (auto simp: list_all_iff)

theorem case_move_succeeds_iff_controls_pass_witness:
  "(\<exists>r. case_transition (ex_env 9) (evidence_request ex_actor 7 CASE_PLANNING) ex_db2 = Inr r) \<and>
   \<not> (\<exists>r. case_transition (ex_env 9) (evidence_request ex_actor 7 SUBMISSION_PENDING) ex_db2 = Inr r)"
proof -
  obtain c where "cases ex_db2 = [c]" "case_id c = 7" "current_stage c = DUE_IDENTIFIED"
    using ex_case2 by blast
  then have c: "get_row case_id (cases ex_db2) 7 = Some c" "current_stage c = DUE_IDENTIFIED" by simp_all
  show ?thesis
    using case_move_succeeds_iff_controls_pass [of ex_db2 "evidence_request ex_actor 7 CASE_PLANNING" c "ex_env 9"]
      case_move_succeeds_iff_controls_pass [of ex_db2 "evidence_request ex_actor 7 SUBMISSION_PENDING" c "ex_env 9"]
      c by (simp add: evidence_request_def POST_SIGNATURE_STAGES_def del: stage_value.simps)
qed

text \<open>C33. No open case is stuck: at most five calls complete it, whatever its forms are. The
  series enters no submission stage, so it also shows that the matrix, through BLOCKED, lets a
  case complete without a submission and without the signature a form requires.\<close>

theorem open_case_can_always_be_completed:
  assumes "reach case_init case_step db" and "get_row case_id (cases db) i = Some c" and "\<not> is_closed c"
  shows "\<exists>rqs db' c' evs. length rqs \<le> 5 \<and> run_calls (case_transition env) rqs db = Inr db' \<and>
     get_row case_id (cases db') i = Some c' \<and> current_stage c' = CaseStage.COMPLETED \<and>
     stage_events db' = stage_events db @ evs \<and>
     (\<forall>ev \<in> set evs. sev_to_stage ev \<notin> set POST_SIGNATURE_STAGES)"
proof -
  have "c \<in> set (cases db)" using get_row_SomeD [OF assms(2)] by simp
  then have "current_stage c \<notin> set TERMINAL_STAGES"
    using case_sys.reach_inv [OF assms(1)] assms(3) terminal_status_iff [of "current_stage c"]
    by (auto simp: case_inv_def case_ok_def is_closed_def)
  then obtain ys where ys: "set ys \<subseteq> set closing_stages" "length ys \<le> 5"
    "last (current_stage c # ys) = CaseStage.COMPLETED"
    "successively (\<lambda>x y. y \<in> set (ALLOWED_STAGE_TRANSITIONS x)) (current_stage c # ys)"
    using closing_path by blast
  obtain c' db' evs where r: "run_calls (case_transition env) (map (evidence_request ex_actor i) ys) db = Inr db'"
    "get_row case_id (cases db') i = Some c'" "current_stage c' = last (current_stage c # ys)"
    "stage_events db' = stage_events db @ evs" "map sev_to_stage evs = ys"
    using closing_run [OF assms(2) ys(1,4)] by blast
  have "sev_to_stage ev \<notin> set POST_SIGNATURE_STAGES" if "ev \<in> set evs" for ev
  proof -
    have "sev_to_stage ev \<in> set closing_stages" using that r(5) ys(1) by auto
    then show ?thesis by (auto simp: closing_stages_def POST_SIGNATURE_STAGES_def)
  qed
  then show ?thesis using r ys
    by (intro exI [of _ "map (evidence_request ex_actor i) ys"] exI [of _ db'] exI [of _ c'] exI [of _ evs]) auto
qed

theorem open_case_can_always_be_completed_witness:
  "\<exists>rqs db' c'. length rqs \<le> 5 \<and> run_calls (case_transition (ex_env 9)) rqs ex_db2 = Inr db' \<and>
     get_row case_id (cases db') 7 = Some c' \<and> current_stage c' = CaseStage.COMPLETED"
proof -
  obtain c where c: "cases ex_db2 = [c]" "case_id c = 7" "current_stage c = DUE_IDENTIFIED"
    using ex_case2 by blast
  then have "get_row case_id (cases ex_db2) 7 = Some c" by simp
  moreover have "\<not> is_closed c"
    using case_sys.reach_inv [OF ex_reach2] c by (simp add: case_inv_def case_ok_def is_closed_def)
  ultimately show ?thesis using open_case_can_always_be_completed [OF ex_reach2] by meson
qed

text \<open>An update of the internal target date never commits when the old or the new value is a
  date: the audit row holds the raw value, which the JSONB column cannot serialise, so the call
  fails and the case keeps its old date.\<close>

theorem target_date_update_never_commits:
  assumes "get_row case_id (cases db) i = Some c" and "SetTargetDate v \<in> set changes"
    and "v \<noteq> None \<or> internal_target_date c \<noteq> None"
    and "\<forall>w. SetTargetDate w \<in> set changes \<longrightarrow> w = v"
  shows "\<exists>e. update_case env actor i changes db = Inl e"
proof (rule ccontr)
  assume "\<nexists>e. update_case env actor i changes db = Inl e"
  then obtain c' db' where up: "update_case env actor i changes db = Inr (c', db')"
    by (cases "update_case env actor i changes db") auto
  obtain c0 where c0: "get_row case_id (cases db) i = Some c0" "c' = fold apply_case_change changes c0"
    "list_all (\<lambda>x. json_serializable (snd (case_field_attr c0 x))) changes"
    "list_all (\<lambda>x. json_serializable (snd (case_field_attr c' x))) changes"
    by (rule update_case_Inr [OF up])
  have "json_serializable (attr_date (internal_target_date c0))"
    "json_serializable (attr_date (internal_target_date c'))"
    using c0(3,4) assms(2) unfolding list_all_iff by fastforce+
  moreover have "internal_target_date c' = v" using fold_target_date [OF assms(4)] assms(2) c0(2) by simp
  ultimately show False using assms(1,3) c0(1) by (auto simp: attr_date_def split: option.splits)
qed

theorem target_date_update_never_commits_witness:
  "\<exists>e. update_case (ex_env 9) ex_actor 7 [SetTargetDate (Some (Date 2026 3 1))] ex_db2 = Inl e"
proof -
  obtain c where "cases ex_db2 = [c]" "case_id c = 7" using ex_case2 by blast
  then have "get_row case_id (cases ex_db2) 7 = Some c" by simp
  then show ?thesis
    using target_date_update_never_commits [of ex_db2 7 c "Some (Date 2026 3 1)"
        "[SetTargetDate (Some (Date 2026 3 1))]"] by simp
qed

text \<open>Rolling an obligation forward creates a successor that names it as predecessor and, when
  no date is given, falls due strictly later; doing it again creates nothing.\<close>

theorem next_obligation_once_and_later:
  assumes "create_next_obligation env actor None oid db = Inr (Some ob, db')"
    and "get_row obl_id (obligations db) oid = Some prev" and "next_due_date prev = Some d" and "valid_date d"
  shows "predecessor_obligation_id ob = Some oid \<and>
     (\<exists>d'. next_due_date ob = Some d' \<and> valid_date d' \<and> d < d') \<and>
     create_next_obligation env' actor' given oid db' = Inr (None, db')"
proof -
  have pid: "obl_id prev = oid" using get_row_SomeD [OF assms(2)] by simp
  from assms(1-3) obtain d' where d': "next_cycle_date d = Inr d'"
    and cr: "create_obligation env actor (successor_fields prev (Some d')) db = Inr (ob, db')"
    by (auto simp: create_next_obligation_def err_simps lift_py_def split: if_splits sum.splits)
  note crs = create_obligation_Inr [OF cr]
  have "get_row obl_id (obligations db') oid = Some prev" "list_ex (\<lambda>ob. predecessor_obligation_id ob = Some oid) (obligations db')"
    using assms(2) crs pid by (simp_all add: get_row_append)
  then have "create_next_obligation env' actor' given oid db' = Inr (None, db')"
    by (simp add: create_next_obligation_def)
  then show ?thesis using next_cycle_later [OF assms(4) d'] crs pid by simp
qed

theorem next_obligation_once_and_later_witness:
  "\<exists>ob db'. create_next_obligation (ex_env 8) None None 5 ex_db1 = Inr (Some ob, db') \<and>
     (\<exists>d'. next_due_date ob = Some d' \<and> Date 2028 2 29 < d') \<and>
     create_next_obligation (ex_env 9) None None 5 db' = Inr (None, db')"
proof -
  obtain prev where p: "create_obligation (ex_env 5) None ex_fields ex_db0 = Inr (prev, ex_db1)"
    using ex_created by blast
  note crs = create_obligation_Inr [OF p]
  have rows: "obligations ex_db1 = [prev]" "obl_id prev = 5" "next_due_date prev = Some (Date 2028 2 29)"
    using crs by (simp_all add: ex_db0_def ex_env_def ex_fields_def)
  have "1 \<le> toordinal (Date 2028 2 29) + 365 \<and> toordinal (Date 2028 2 29) + 365 \<le> max_ordinal"
    by code_simp
  then have "\<exists>ob db'. create_next_obligation (ex_env 8) None None 5 ex_db1 = Inr (Some ob, db')"
    by (auto simp: ex_db1_def create_next_obligation_def create_obligation_def validate_obligation_links_def
        ex_db0_def ex_env_def ex_fields_def successor_fields_def obligation_key_of_def lookup_opt_def
        ObligationType_def ObligationStatus_def next_cycle_date_def add_days_def lift_py_def Let_def
        add_licensing_audit_def mk_date_def)
  then obtain ob db' where c: "create_next_obligation (ex_env 8) None None 5 ex_db1 = Inr (Some ob, db')"
    by blast
  have "valid_date (Date 2028 2 29)" by code_simp
  with next_obligation_once_and_later [OF c, of prev "Date 2028 2 29" "ex_env 9" None None] rows c
  show ?thesis by auto
qed

end
