(* ===== verification/Deadline_Service.thy ===== *)
theory Deadline_Service
  imports Deadline_Plan Case_Service
begin

text \<open>
  Materialization, status refresh, escalation, override and completion of deadlines
  (\<^verbatim>\<open>app/services/deadline_service.py\<close>) over the tables of \<^verbatim>\<open>app/models/deadlines.py\<close>. The
  service shares the obligations, the audit rows and the notifications with the case service, whose
  database is a field of the one here.
\<close>

subsection \<open>Rows\<close>

record DeadlineRule =
  dr_id :: uuid
  dr_rule_key :: string
  dr_obligation_type :: string
  dr_jurisdiction_id :: "uuid option"
  dr_license_type_id :: "uuid option"
  dr_recurrence_type :: string
  dr_recurrence_config :: jdict
  dr_lead_time_days :: "int option"
  dr_adjustment_policy :: string
  dr_escalation_policy :: jdict
  dr_milestone_offsets :: jdict
  dr_effective_from :: "date option"
  dr_effective_to :: "date option"
  dr_status :: string
  dr_priority :: int

record ComplianceDeadline =
  cd_id :: uuid
  cd_obligation_id :: uuid
  cd_case_id :: "uuid option"
  cd_deadline_type :: string
  cd_due_at :: datetime
  cd_internal_target_at :: "datetime option"
  cd_status :: string
  cd_severity :: string
  cd_assigned_owner :: "string option"
  cd_backup_owner :: "string option"
  cd_source_rule_id :: "uuid option"
  cd_manually_overridden :: bool
  cd_override_reason :: "string option"
  cd_materialization_key :: "string option"
  cd_last_escalation_level :: "string option"
  cd_last_escalated_at :: "datetime option"
  cd_applied_adjustment :: "string option"
  cd_completed_at :: "datetime option"
  cd_completed_by_actor :: "string option"

record DeadlineEvent =
  de_deadline_id :: uuid
  de_event_type :: string
  de_previous_due_at :: "datetime option"
  de_new_due_at :: "datetime option"
  de_actor_id :: "string option"
  de_reason :: "string option"
  de_occurred_at :: datetime

definition OPEN_DEADLINE_STATUSES :: "string list" where
  "OPEN_DEADLINE_STATUSES = [''SCHEDULED'', ''APPROACHING'', ''DUE_TODAY'', ''OVERDUE'']"

record deadline_db =
  dl_case :: case_db
  dl_rules :: "DeadlineRule list"
  dl_timezones :: "uuid \<rightharpoonup> string"
  dl_deadlines :: "ComplianceDeadline list"
  dl_events :: "DeadlineEvent list"

text \<open>
  What a call takes from its surroundings: the clock, the keys of the rows it inserts in order, the time
  zones, SHA-256, \<^verbatim>\<open>str\<close> of other JSON values, and the settings.
\<close>

record deadline_env =
  dv_now :: datetime
  dv_new_id :: "nat \<Rightarrow> uuid"
  dv_zones :: zones
  dv_sha256 :: "string \<Rightarrow> string"
  dv_lib :: rule_lib
  dv_horizon_days :: int
  dv_default_lead_days :: int
  dv_default_timezone :: string
  dv_overdue_enabled :: bool

definition dv_today :: "deadline_env \<Rightarrow> date" where
  "dv_today env = utc_date (dv_now env)"

definition raise_py :: "py_error + 'a \<Rightarrow> domain_error + 'a" where
  "raise_py m = (case m of Inl e \<Rightarrow> Inl (Raised e) | Inr a \<Rightarrow> Inr a)"

text \<open>\<^verbatim>\<open>RecurrenceError\<close> and \<^verbatim>\<open>DeadlineRuleConfigError\<close> are value errors.\<close>

definition raise_rec :: "recurrence_error + 'a \<Rightarrow> domain_error + 'a" where
  "raise_rec m = (case m of Inl (RecurrenceError s) \<Rightarrow> Inl (Raised ValueError) | Inl (RecRaised e) \<Rightarrow> Inl (Raised e)
     | Inr a \<Rightarrow> Inr a)"

definition raise_rule :: "rule_config_error + 'a \<Rightarrow> domain_error + 'a" where
  "raise_rule m = (case m of Inl (DeadlineRuleConfigError s) \<Rightarrow> Inl (Raised ValueError) | Inl (RuleRaised e) \<Rightarrow> Inl (Raised e)
     | Inr a \<Rightarrow> Inr a)"

subsection \<open>Policies\<close>

definition to_policy :: "DeadlineRule \<Rightarrow> py_error + DeadlinePolicy" where
  "to_policy r =
     bindE (mapE (\<lambda>(k, v). bindE (py_int v) (\<lambda>n. Inr (k, n))) (dr_milestone_offsets r)) (\<lambda>offs.
     Inr \<lparr>pol_id = Some (dr_id r), pol_rule_key = dr_rule_key r, pol_obligation_type = dr_obligation_type r,
          pol_recurrence_type = dr_recurrence_type r, pol_recurrence_config = dr_recurrence_config r,
          pol_adjustment_policy = dr_adjustment_policy r, pol_lead_time_days = dr_lead_time_days r,
          pol_milestone_offsets = offs, pol_escalation_policy = dr_escalation_policy r,
          pol_jurisdiction_id = dr_jurisdiction_id r, pol_license_type_id = dr_license_type_id r,
          pol_effective_from = dr_effective_from r, pol_effective_to = dr_effective_to r,
          pol_priority = dr_priority r\<rparr>)"

definition active_policies :: "deadline_db \<Rightarrow> py_error + DeadlinePolicy list" where
  "active_policies db = mapE to_policy (filter (\<lambda>r. dr_status r = ''ACTIVE'') (dl_rules db))"

subsection \<open>Materialization\<close>

definition recurrence_context :: "license_row option \<Rightarrow> bond_row option \<Rightarrow> obligation \<Rightarrow> RecurrenceContext" where
  "recurrence_context licence bond ob =
     \<lparr>rc_issue_date = Option.bind licence lic_issue_date, rc_effective_date = Option.bind licence lic_effective_date,
      rc_expiration_date = Option.bind licence lic_expiration_date,
      rc_regulator_supplied_due_date = obl_statutory_due_date ob,
      rc_bond_expiration_date = Option.bind bond bond_expiration_date,
      rc_annual_report_date = next_due_date ob, rc_last_completed_date = None,
      rc_case_event_date = None, rc_manual_date = None\<rparr>"

definition statutory_type_of :: "string \<Rightarrow> string" where
  "statutory_type_of ty =
     (if ty = ''BOND_RENEWAL'' then ''BOND_EXPIRY''
      else if ty = ''ANNUAL_REPORT'' then ''ANNUAL_REPORT_DUE''
      else ''STATUTORY_DUE'')"

text \<open>The policy that applies and the plan it gives; None when no policy applies.\<close>

definition obligation_plan ::
  "deadline_env \<Rightarrow> int option \<Rightarrow> obligation \<Rightarrow> deadline_db \<Rightarrow> domain_error + (DeadlinePolicy \<times> PlannedDeadline list) option" where
  "obligation_plan env horizon_days ob db =
     (let licence = lookup_opt (licenses (dl_case db)) (obl_license_id ob);
          bond = lookup_opt (bonds (dl_case db)) (obl_bond_id ob);
          zone = lookup_opt (dl_timezones db) (obl_jurisdiction_id ob);
          horizon = (case horizon_days of None \<Rightarrow> dv_horizon_days env
                     | Some n \<Rightarrow> if n = 0 then dv_horizon_days env else n) in
      bindE (raise_py (active_policies db)) (\<lambda>ps.
      case resolve_policy (obligation_type ob) (dv_today env) (obl_jurisdiction_id ob)
             (map_option lic_license_type_id licence) ps of
        None \<Rightarrow> Inr None
      | Some p \<Rightarrow>
        bindE (raise_py (add_days (dv_today env) horizon)) (\<lambda>horizon_end.
        bindE (raise_rec (plan_deadlines
           \<lparr>pa_zones = dv_zones env, pa_sha256 = dv_sha256 env, pa_obligation_id = obl_id ob,
            pa_horizon_start = dv_today env, pa_horizon_end = horizon_end,
            pa_default_lead_days = dv_default_lead_days env,
            pa_timezone_name = or_else zone (Some (dv_default_timezone env)),
            pa_calendar = DEFAULT_CALENDAR, pa_statutory_type = statutory_type_of (obligation_type ob),
            pa_today = dv_today env, pa_max_occurrences = 6\<rparr>
           (Some p) (recurrence_context licence bond ob))) (\<lambda>planned.
        Inr (Some (p, planned))))))"

definition new_deadline :: "deadline_env \<Rightarrow> uuid \<Rightarrow> obligation \<Rightarrow> PlannedDeadline \<Rightarrow> ComplianceDeadline" where
  "new_deadline env i ob plan =
     \<lparr>cd_id = i, cd_obligation_id = obl_id ob, cd_case_id = None, cd_deadline_type = pd_deadline_type plan,
      cd_due_at = pd_due_at plan, cd_internal_target_at = pd_internal_target_at plan,
      cd_status = classify_status (pd_due_at plan) (dv_now env) 30, cd_severity = pd_severity plan,
      cd_assigned_owner = responsible_owner ob, cd_backup_owner = None, cd_source_rule_id = pd_source_rule_id plan,
      cd_manually_overridden = False,
      cd_override_reason = (if pd_needs_manual_review plan \<and> pd_notes plan \<noteq> []
        then Some (join_str ''; '' (pd_notes plan)) else None),
      cd_materialization_key = Some (pd_materialization_key plan), cd_last_escalation_level = None,
      cd_last_escalated_at = None, cd_applied_adjustment = pd_applied_adjustment plan, cd_completed_at = None,
      cd_completed_by_actor = None\<rparr>"

text \<open>
  The insertion loop. The keys found in the table are read once, before the loop; each flush checks the
  primary key, the unique index on the key, and the enumeration of the type.
\<close>

fun create_planned ::
  "deadline_env \<Rightarrow> obligation \<Rightarrow> string set \<Rightarrow> nat \<Rightarrow> PlannedDeadline list \<Rightarrow> ComplianceDeadline list \<Rightarrow>
     domain_error + ComplianceDeadline list" where
  "create_planned env ob existing n [] table = Inr []"
| "create_planned env ob existing n (plan # plans) table =
     (if pd_materialization_key plan \<in> existing then create_planned env ob existing n plans table
      else let d = new_deadline env (dv_new_id env n) ob plan in
        if cd_id d \<in> cd_id ` set table \<or> cd_materialization_key d \<in> cd_materialization_key ` set table \<or>
           cd_deadline_type d \<notin> set DeadlineType
        then Inl IntegrityError
        else bindE (create_planned env ob existing (Suc n) plans (table @ [d])) (\<lambda>ds. Inr (d # ds)))"

definition created_event :: "deadline_env \<Rightarrow> case_actor option \<Rightarrow> DeadlinePolicy \<Rightarrow> ComplianceDeadline \<Rightarrow> DeadlineEvent" where
  "created_event env actor p d =
     \<lparr>de_deadline_id = cd_id d, de_event_type = ''CREATED'', de_previous_due_at = None,
      de_new_due_at = Some (cd_due_at d),
      de_actor_id = Some (case actor of None \<Rightarrow> ''deadline-worker'' | Some a \<Rightarrow> actor_id a),
      de_reason = Some (''Materialized from rule '' @ pol_rule_key p @ ''.''), de_occurred_at = dv_now env\<rparr>"

text \<open>The obligation takes the date of the earliest statutory deadline of the plan.\<close>

definition earliest :: "PlannedDeadline list \<Rightarrow> PlannedDeadline option" where
  "earliest ps = (case ps of [] \<Rightarrow> None
     | q # qs \<Rightarrow> Some (fold (\<lambda>x best. if pd_due_date x < pd_due_date best then x else best) qs q))"

definition refresh_obligation :: "PlannedDeadline list \<Rightarrow> obligation \<Rightarrow> obligation" where
  "refresh_obligation planned ob =
     (case earliest (filter (\<lambda>q. pd_deadline_type q = statutory_type_of (obligation_type ob)) planned) of
        None \<Rightarrow> ob
      | Some e \<Rightarrow>
        (let ob1 = ob\<lparr>next_due_date := Some (pd_due_date e)\<rparr>;
             ob2 = (case pd_internal_target_at e of None \<Rightarrow> ob1
                    | Some t \<Rightarrow> ob1\<lparr>internal_start_date := Some (utc_date t)\<rparr>)
         in if obl_status ob2 = ''PLANNED'' then ob2\<lparr>obl_status := ''ACTIVE''\<rparr> else ob2))"

definition deadline_audit ::
  "deadline_env \<Rightarrow> case_actor option \<Rightarrow> string \<Rightarrow> uuid \<Rightarrow> string \<Rightarrow> attrs option \<Rightarrow> attrs option \<Rightarrow> lic_audit" where
  "deadline_audit env actor entity_type entity_id action before after =
     licensing_audit \<lparr>ce_now = dv_now env, ce_today = dv_today env, ce_new_id = 0, ce_suffix = [],
       ce_sha256 = dv_sha256 env\<rparr> actor entity_type entity_id action before after"

definition materialize_for_obligation ::
  "deadline_env \<Rightarrow> case_actor option \<Rightarrow> int option \<Rightarrow> uuid \<Rightarrow> deadline_db \<Rightarrow>
     domain_error + (ComplianceDeadline list \<times> deadline_db)" where
  "materialize_for_obligation env actor horizon_days oid db =
     (case get_row obl_id (obligations (dl_case db)) oid of
        None \<Rightarrow> Inl (NotFoundError ''Obligation not found'')
      | Some ob \<Rightarrow>
        bindE (obligation_plan env horizon_days ob db) (\<lambda>r.
          case r of
            None \<Rightarrow> Inr ([], db)
          | Some (p, planned) \<Rightarrow>
            (if planned = [] then Inr ([], db)
             else
               bindE (create_planned env ob
                   (set (List.map_filter cd_materialization_key (dl_deadlines db))) 0 planned (dl_deadlines db)) (\<lambda>created.
               let cdb = (dl_case db)\<lparr>obligations := put_row obl_id (refresh_obligation planned ob)
                            (obligations (dl_case db))\<rparr>;
                   cdb' = (if created = [] then cdb else add_licensing_audit
                     (deadline_audit env actor ''compliance_obligation'' (obl_id ob) ''deadlines_materialized'' None
                        (Some [(''created'', AJson (JInt (int (length created)))), (''rule_key'', AStr (pol_rule_key p))])) cdb)
               in Inr (created, db\<lparr>dl_case := cdb', dl_deadlines := dl_deadlines db @ created,
                                   dl_events := dl_events db @ map (created_event env actor p) created\<rparr>)))))"

text \<open>The sweep over the planned and active obligations that the query returned.\<close>

fun materialize_loop ::
  "(nat \<Rightarrow> deadline_env) \<Rightarrow> case_actor option \<Rightarrow> nat \<Rightarrow> uuid list \<Rightarrow> deadline_db \<Rightarrow> domain_error + (nat \<times> deadline_db)" where
  "materialize_loop envs actor i [] db = Inr (0, db)"
| "materialize_loop envs actor i (oid # oids) db =
     bindE (materialize_for_obligation (envs i) actor None oid db) (\<lambda>(created, db1).
     bindE (materialize_loop envs actor (Suc i) oids db1) (\<lambda>(n, db2). Inr (length created + n, db2)))"

definition materialize_all ::
  "(nat \<Rightarrow> deadline_env) \<Rightarrow> case_actor option \<Rightarrow> nat \<Rightarrow> deadline_db \<Rightarrow> domain_error + ((nat \<times> nat) \<times> deadline_db)" where
  "materialize_all envs actor limit db =
     (let oids = take limit (map obl_id (filter (\<lambda>ob. obl_status ob \<in> {''PLANNED'', ''ACTIVE''}) (obligations (dl_case db))))
      in bindE (materialize_loop envs actor 0 oids db) (\<lambda>(n, db'). Inr ((length oids, n), db')))"

subsection \<open>Status refresh\<close>

definition is_open :: "ComplianceDeadline \<Rightarrow> bool" where
  "is_open d \<longleftrightarrow> cd_status d \<in> set OPEN_DEADLINE_STATUSES"

definition refresh_one :: "datetime \<Rightarrow> ComplianceDeadline \<Rightarrow> ComplianceDeadline" where
  "refresh_one now d = (if is_open d then d\<lparr>cd_status := classify_status (cd_due_at d) now 30\<rparr> else d)"

definition refresh_statuses :: "datetime \<Rightarrow> deadline_db \<Rightarrow> nat \<times> deadline_db" where
  "refresh_statuses now db =
     (length (filter (\<lambda>d. cd_status (refresh_one now d) \<noteq> cd_status d) (dl_deadlines db)),
      db\<lparr>dl_deadlines := map (refresh_one now) (dl_deadlines db)\<rparr>)"

subsection \<open>Escalation\<close>

definition deadline_ladder :: "deadline_env \<Rightarrow> ComplianceDeadline \<Rightarrow> deadline_db \<Rightarrow> domain_error + (int \<times> string) list option" where
  "deadline_ladder env d db =
     (case (case cd_source_rule_id d of None \<Rightarrow> None | Some r \<Rightarrow> get_row dr_id (dl_rules db) r) of
        None \<Rightarrow> Inr None
      | Some r \<Rightarrow> bindE (raise_py (to_policy r)) (\<lambda>p.
                  bindE (raise_rule (escalation_ladder (dv_lib env) p)) (\<lambda>l. Inr (Some l))))"

definition escalated :: "deadline_env \<Rightarrow> EscalationDecision \<Rightarrow> ComplianceDeadline \<Rightarrow> ComplianceDeadline" where
  "escalated env dec d = d\<lparr>cd_last_escalation_level := ed_level dec, cd_last_escalated_at := Some (dv_now env),
     cd_severity := ed_severity dec\<rparr>"

definition escalated_event :: "deadline_env \<Rightarrow> EscalationDecision \<Rightarrow> ComplianceDeadline \<Rightarrow> DeadlineEvent" where
  "escalated_event env dec d =
     \<lparr>de_deadline_id = cd_id d, de_event_type = ''ESCALATED'', de_previous_due_at = None, de_new_due_at = None,
      de_actor_id = Some ''deadline-worker'', de_reason = Some (ed_reason dec), de_occurred_at = dv_now env\<rparr>"

text \<open>One deadline of the sweep: whether it was notified, its row, its events, and the notifications.\<close>

definition escalate_one ::
  "deadline_env \<Rightarrow> string option \<Rightarrow> deadline_db \<Rightarrow> ComplianceDeadline \<Rightarrow> notice_db \<Rightarrow>
     domain_error + (nat \<times> ComplianceDeadline \<times> DeadlineEvent list \<times> notice_db)" where
  "escalate_one env manager db d notes =
     bindE (deadline_ladder env d db) (\<lambda>ladder.
       let dec = evaluate_escalation (cd_due_at d) (cd_last_escalation_level d) ladder None (dv_overdue_enabled env) (dv_now env)
       in case (if should_notify dec then ed_level dec else None) of
            None \<Rightarrow> Inr (0, d, [], notes)
          | Some level \<Rightarrow>
            (case resolve_recipient level (cd_assigned_owner d) (cd_backup_owner d) None manager None None of
               None \<Rightarrow> Inr (0, d, [], notes)
             | Some recipient \<Rightarrow>
               (let draft = deadline_alert (dv_sha256 env) (cd_id d) (cd_obligation_id d) (cd_deadline_type d) recipient
                      (ed_severity dec) (Some level) (ed_days_remaining dec) (ed_is_overdue dec)
                      (notification_key_suffix dec) (cd_case_id d)
                in case record_notification (dv_now env) draft notes of
                     (True, notes') \<Rightarrow> Inr (1, escalated env dec d, [escalated_event env dec d], notes')
                   | (False, notes') \<Rightarrow> Inr (0, d, [], notes'))))"

fun escalate_all ::
  "deadline_env \<Rightarrow> string option \<Rightarrow> deadline_db \<Rightarrow> ComplianceDeadline list \<Rightarrow> notice_db \<Rightarrow>
     domain_error + (nat \<times> ComplianceDeadline list \<times> DeadlineEvent list \<times> notice_db)" where
  "escalate_all env manager db [] notes = Inr (0, [], [], notes)"
| "escalate_all env manager db (d # ds) notes =
     (if \<not> is_open d
      then bindE (escalate_all env manager db ds notes) (\<lambda>(n, ds', evs, notes'). Inr (n, d # ds', evs, notes'))
      else
        bindE (escalate_one env manager db d notes) (\<lambda>(k, d', ev, notes1).
        bindE (escalate_all env manager db ds notes1) (\<lambda>(n, ds', evs, notes2).
        Inr (k + n, d' # ds', ev @ evs, notes2))))"

definition run_escalations :: "deadline_env \<Rightarrow> string option \<Rightarrow> deadline_db \<Rightarrow> domain_error + (nat \<times> deadline_db)" where
  "run_escalations env manager db =
     bindE (escalate_all env manager db (dl_deadlines db) (notifications (dl_case db))) (\<lambda>(n, ds, evs, notes).
     Inr (n, db\<lparr>dl_case := (dl_case db)\<lparr>notifications := notes\<rparr>, dl_deadlines := ds, dl_events := dl_events db @ evs\<rparr>))"

subsection \<open>Override and completion\<close>

text \<open>\<^verbatim>\<open>str(datetime)\<close> is a parameter of the audit text only.\<close>

definition override_deadline ::
  "deadline_env \<Rightarrow> (datetime \<Rightarrow> string) \<Rightarrow> case_actor \<Rightarrow> uuid \<Rightarrow> datetime option \<Rightarrow> string option \<Rightarrow> string \<Rightarrow> deadline_db \<Rightarrow>
     domain_error + (ComplianceDeadline \<times> deadline_db)" where
  "override_deadline env str_dt actor did new_due_at owner reason db =
     (case get_row cd_id (dl_deadlines db) did of
        None \<Rightarrow> Inl (NotFoundError ''Deadline not found'')
      | Some d \<Rightarrow>
        (if length (py_strip reason) < 5
         then Inl (StateConflictError ''A deadline override requires a substantive reason'')
         else
           (let d1 = (case new_due_at of None \<Rightarrow> d
                      | Some t \<Rightarrow> d\<lparr>cd_due_at := t, cd_manually_overridden := True,
                                    cd_status := classify_status t (dv_now env) 30, cd_materialization_key := None\<rparr>);
                d2 = (case owner of None \<Rightarrow> d1 | Some w \<Rightarrow> d1\<lparr>cd_assigned_owner := Some w\<rparr>);
                d3 = d2\<lparr>cd_override_reason := Some (take 500 (py_strip reason))\<rparr>;
                ev = \<lparr>de_deadline_id = cd_id d,
                      de_event_type = (if new_due_at \<noteq> None then ''MANUALLY_OVERRIDDEN'' else ''OWNER_CHANGED''),
                      de_previous_due_at = Some (cd_due_at d), de_new_due_at = Some (cd_due_at d3),
                      de_actor_id = Some (actor_id actor), de_reason = Some (take 500 (py_strip reason)),
                      de_occurred_at = dv_now env\<rparr>
            in Inr (d3, db\<lparr>dl_deadlines := put_row cd_id d3 (dl_deadlines db), dl_events := dl_events db @ [ev],
                 dl_case := add_licensing_audit
                   (deadline_audit env (Some actor) ''compliance_deadline'' (cd_id d) ''deadline_overridden''
                      (Some [(''due_at'', AStr (str_dt (cd_due_at d)))])
                      (Some [(''due_at'', AStr (str_dt (cd_due_at d3)))])) (dl_case db)\<rparr>))))"

definition complete_deadline ::
  "deadline_env \<Rightarrow> case_actor \<Rightarrow> uuid \<Rightarrow> string option \<Rightarrow> deadline_db \<Rightarrow> domain_error + (ComplianceDeadline \<times> deadline_db)" where
  "complete_deadline env actor did note db =
     (case get_row cd_id (dl_deadlines db) did of
        None \<Rightarrow> Inl (NotFoundError ''Deadline not found'')
      | Some d \<Rightarrow>
        (if cd_status d = ''COMPLETED'' then Inr (d, db)
         else
           (let d' = d\<lparr>cd_status := ''COMPLETED'', cd_completed_at := Some (dv_now env),
                       cd_completed_by_actor := Some (actor_id actor)\<rparr>;
                ev = \<lparr>de_deadline_id = cd_id d, de_event_type = ''COMPLETED'', de_previous_due_at = None,
                      de_new_due_at = None, de_actor_id = Some (actor_id actor), de_reason = note,
                      de_occurred_at = dv_now env\<rparr>
            in Inr (d', db\<lparr>dl_deadlines := put_row cd_id d' (dl_deadlines db), dl_events := dl_events db @ [ev]\<rparr>))))"

subsection \<open>The calendar and the gauges\<close>

record calendar_row =
  cr_deadline :: ComplianceDeadline
  cr_legal_entity_id :: uuid
  cr_jurisdiction_id :: "uuid option"
  cr_obligation_type :: string
  cr_title :: string
  cr_is_statutory :: bool

definition calendar_row_of :: "ComplianceDeadline \<times> obligation \<Rightarrow> calendar_row" where
  "calendar_row_of r =
     (case r of (d, ob) \<Rightarrow>
       \<lparr>cr_deadline = d, cr_legal_entity_id = obl_legal_entity_id ob, cr_jurisdiction_id = obl_jurisdiction_id ob,
        cr_obligation_type = obligation_type ob, cr_title = obl_title ob,
        cr_is_statutory = (cd_deadline_type d \<in> {''STATUTORY_DUE'', ''BOND_EXPIRY'', ''ANNUAL_REPORT_DUE''})\<rparr>)"

definition calendar ::
  "date \<Rightarrow> date \<Rightarrow> uuid option \<Rightarrow> string option \<Rightarrow> string option \<Rightarrow> bool \<Rightarrow> deadline_db \<Rightarrow> calendar_row list" where
  "calendar start end_d entity owner obligation_ty include_completed db =
     map calendar_row_of (sort_key (\<lambda>(d, ob). cd_due_at d)
       (filter (\<lambda>(d, ob). start \<le> utc_date (cd_due_at d) \<and> utc_date (cd_due_at d) \<le> end_d \<and>
           (include_completed \<or> is_open d) \<and>
           (case entity of None \<Rightarrow> True | Some e \<Rightarrow> obl_legal_entity_id ob = e) \<and>
           (case owner of Some (c # w) \<Rightarrow> cd_assigned_owner d = Some (c # w) | _ \<Rightarrow> True) \<and>
           (case obligation_ty of Some (c # t) \<Rightarrow> obligation_type ob = c # t | _ \<Rightarrow> True))
         (List.map_filter (\<lambda>d. map_option (Pair d) (get_row obl_id (obligations (dl_case db)) (cd_obligation_id d)))
            (dl_deadlines db))))"

text \<open>Gauges by deadline type; a label that has no open deadline is not written.\<close>

record deadline_gauges =
  g_due :: "string \<rightharpoonup> nat"
  g_overdue :: "string \<rightharpoonup> nat"
  g_overdue_obligations :: nat

definition set_counts :: "(string \<rightharpoonup> nat) \<Rightarrow> ComplianceDeadline list \<Rightarrow> (string \<rightharpoonup> nat)" where
  "set_counts g ds = (\<lambda>ty. let n = length (filter (\<lambda>d. cd_deadline_type d = ty) ds) in if n = 0 then g ty else Some n)"

definition refresh_metrics :: "date \<Rightarrow> deadline_db \<Rightarrow> deadline_gauges \<Rightarrow> deadline_gauges" where
  "refresh_metrics today db g =
     (let ds = filter is_open (dl_deadlines db) in
      \<lparr>g_due = set_counts (g_due g) ds,
       g_overdue = set_counts (g_overdue g) (filter (\<lambda>d. cd_status d = ''OVERDUE'') ds),
       g_overdue_obligations = length (filter (\<lambda>ob. obl_status ob = ''ACTIVE'' \<and>
          (case next_due_date ob of None \<Rightarrow> False | Some d \<Rightarrow> d < today)) (obligations (dl_case db)))\<rparr>)"

subsection \<open>What the plan depends on\<close>

lemma raise_Inr [err_simps]:
  "raise_py m = Inr a \<longleftrightarrow> m = Inr a" "raise_rec n = Inr b \<longleftrightarrow> n = Inr b" "raise_rule k = Inr c \<longleftrightarrow> k = Inr c"
  by (auto simp: raise_py_def raise_rec_def raise_rule_def split: sum.splits recurrence_error.splits rule_config_error.splits)

lemma expand_loop_ignores_annual:
  assumes "rtype \<noteq> ''ANNUAL_REPORT_DATE''"
  shows "expand_loop n rtype config (ctx\<lparr>rc_annual_report_date := x\<rparr>) h c i = expand_loop n rtype config ctx h c i"
proof -
  have "next_occurrence rtype config (ctx\<lparr>rc_annual_report_date := x\<rparr>) c i = next_occurrence rtype config ctx c i" for c i
    using assms by (simp add: next_occurrence_def)
  then show ?thesis by (induction n arbitrary: c i) (simp_all add: bindE_def split: sum.split option.split)
qed

lemma plan_deadlines_annual:
  "pol_recurrence_type p \<noteq> ''ANNUAL_REPORT_DATE'' \<Longrightarrow>
     plan_deadlines a (Some p) (ctx\<lparr>rc_annual_report_date := x\<rparr>) = plan_deadlines a (Some p) ctx"
  by (simp add: plan_deadlines_def expand_def expand_loop_ignores_annual)

definition no_annual_rules :: "deadline_db \<Rightarrow> bool" where
  "no_annual_rules db \<longleftrightarrow> list_all (\<lambda>r. dr_recurrence_type r \<noteq> ''ANNUAL_REPORT_DATE'') (dl_rules db)"

lemma resolved_not_annual:
  assumes "no_annual_rules db" "active_policies db = Inr ps" "resolve_policy ty when j l ps = Some p"
  shows "pol_recurrence_type p \<noteq> ''ANNUAL_REPORT_DATE''"
proof -
  have "p \<in> set ps" using assms(3) by (auto simp: resolve_policy_def candidate_policies_def split: list.splits
      dest!: arg_cong [where f = set])
  then obtain r where "r \<in> set (dl_rules db)" "to_policy r = Inr p"
    using mapE_Inr_set [OF assms(2) [unfolded active_policies_def]] by auto
  then show ?thesis using assms(1) by (auto simp: no_annual_rules_def list_all_iff to_policy_def err_simps)
qed

text \<open>
  Apart from the date an annual report reads, the plan of a day depends on nothing that materialization
  changes.
\<close>

definition same_day :: "deadline_env \<Rightarrow> deadline_env \<Rightarrow> bool" where
  "same_day env env' \<longleftrightarrow> dv_today env' = dv_today env \<and>
     (\<exists>now ids. env' = env\<lparr>dv_now := now, dv_new_id := ids\<rparr>)"

lemma obligation_plan_cong:
  assumes "no_annual_rules db" "same_day env env'"
    and "dl_rules db' = dl_rules db" "dl_timezones db' = dl_timezones db"
    and "licenses (dl_case db') = licenses (dl_case db)" "bonds (dl_case db') = bonds (dl_case db)"
    and "ob' = ob\<lparr>next_due_date := d, internal_start_date := s, obl_status := st\<rparr>"
  shows "obligation_plan env' h ob' db' = obligation_plan env h ob db"
proof -
  obtain now ids where env': "env' = env\<lparr>dv_now := now, dv_new_id := ids\<rparr>" "dv_today env' = dv_today env"
    using assms(2) by (auto simp: same_day_def)
  have ctx: "recurrence_context l b ob' = (recurrence_context l b ob)\<lparr>rc_annual_report_date := d\<rparr>" for l b
    by (simp add: recurrence_context_def assms(7))
  have pol: "active_policies db' = active_policies db" by (simp add: active_policies_def assms(3))
  show ?thesis
    unfolding obligation_plan_def Let_def pol ctx env'(2)
    by (rule bindE_cong) (auto simp: assms env'(1) raise_Inr plan_deadlines_annual dest: resolved_not_annual [OF assms(1)]
        split: option.split)
qed

subsection \<open>The insertion loop\<close>

abbreviation plan_keys :: "PlannedDeadline list \<Rightarrow> string list" where
  "plan_keys \<equiv> map pd_materialization_key"

lemma new_deadline_sel [simp]:
  "cd_id (new_deadline env i ob q) = i" "cd_materialization_key (new_deadline env i ob q) = Some (pd_materialization_key q)"
  "cd_deadline_type (new_deadline env i ob q) = pd_deadline_type q" "cd_due_at (new_deadline env i ob q) = pd_due_at q"
  "cd_obligation_id (new_deadline env i ob q) = obl_id ob"
  by (simp_all add: new_deadline_def)

lemma create_planned_Inr:
  "create_planned env ob E n plans table = Inr ds \<Longrightarrow>
     map cd_materialization_key ds = map Some (filter (\<lambda>k. k \<notin> E) (plan_keys plans)) \<and>
     distinct (map cd_materialization_key ds) \<and> distinct (map cd_id ds) \<and>
     (\<forall>d \<in> set ds. cd_id d \<notin> cd_id ` set table \<and> cd_materialization_key d \<notin> cd_materialization_key ` set table \<and>
        cd_deadline_type d \<in> set DeadlineType \<and> (\<exists>i. \<exists>q \<in> set plans. d = new_deadline env i ob q))"
proof (induction plans arbitrary: n table ds)
  case (Cons q plans)
  show ?case
  proof (cases "pd_materialization_key q \<in> E")
    case True
    with Cons.prems Cons.IH [of n table ds] show ?thesis by (auto; blast)
  next
    case False
    let ?d = "new_deadline env (dv_new_id env n) ob q"
    obtain ds' where ds: "create_planned env ob E (Suc n) plans (table @ [?d]) = Inr ds'" "ds = ?d # ds'"
      and ok: "cd_id ?d \<notin> cd_id ` set table" "cd_materialization_key ?d \<notin> cd_materialization_key ` set table"
        "cd_deadline_type ?d \<in> set DeadlineType"
      using Cons.prems False by (auto simp: Let_def err_simps split: if_splits)
    note IH = Cons.IH [OF ds(1)]
    have "cd_materialization_key d \<noteq> Some (pd_materialization_key q)" "cd_id d \<noteq> dv_new_id env n" if "d \<in> set ds'" for d
      using IH that by auto
    then have "Some (pd_materialization_key q) \<notin> set (map cd_materialization_key ds')" "dv_new_id env n \<notin> set (map cd_id ds')"
      by (fastforce simp: image_iff)+
    moreover have "distinct (map cd_materialization_key ds')" "distinct (map cd_id ds')" using IH by blast+
    ultimately have "distinct (map cd_materialization_key ds)" "distinct (map cd_id ds)" by (simp_all add: ds(2))
    moreover have "map cd_materialization_key ds = map Some (filter (\<lambda>k. k \<notin> E) (plan_keys (q # plans)))"
      using IH False ds(2) by simp
    moreover have "cd_id d \<notin> cd_id ` set table \<and> cd_materialization_key d \<notin> cd_materialization_key ` set table \<and>
        cd_deadline_type d \<in> set DeadlineType \<and> (\<exists>i. \<exists>q' \<in> set (q # plans). d = new_deadline env i ob q')"
      if "d \<in> set ds" for d
    proof (cases "d = ?d")
      case True
      with ok show ?thesis by auto
    next
      case False
      then have "d \<in> set ds'" using that ds(2) by simp
      with IH show ?thesis by (auto; blast)
    qed
    ultimately show ?thesis by blast
  qed
qed simp

lemma create_planned_none:
  "set (plan_keys plans) \<subseteq> E \<Longrightarrow> create_planned env ob E n plans table = Inr []"
  by (induction plans) auto

lemma create_planned_one:
  assumes "filter (\<lambda>q. pd_materialization_key q \<notin> E) plans = [q]"
    and "dv_new_id env n \<notin> cd_id ` set table" "Some (pd_materialization_key q) \<notin> cd_materialization_key ` set table"
    and "pd_deadline_type q \<in> set DeadlineType"
  shows "create_planned env ob E n plans table = Inr [new_deadline env (dv_new_id env n) ob q]"
  using assms
proof (induction plans)
  case (Cons x plans)
  show ?case
  proof (cases "pd_materialization_key x \<in> E")
    case False
    then have "set (plan_keys plans) \<subseteq> E" "x = q"
      using Cons.prems(1) by (auto simp: filter_empty_conv)
    then show ?thesis using Cons.prems False by (auto simp: Let_def create_planned_none)
  qed (use Cons in auto)
qed simp

lemma filter_eq_single: "distinct xs \<Longrightarrow> k \<in> set xs \<Longrightarrow> filter (\<lambda>x. x = k) xs = [k]"
  by (induction xs) (auto simp: filter_empty_conv)

lemma map_single: "map f ys = [k] \<Longrightarrow> q \<in> set ys \<Longrightarrow> ys = [q]"
  by (cases ys) auto

lemma created_once:
  assumes "create_planned env ob E n plans table = Inr ds" "d \<in> set ds"
  shows "\<exists>i q. d = new_deadline env i ob q \<and> filter (\<lambda>q'. pd_materialization_key q' = pd_materialization_key q) plans = [q]"
proof -
  note cp = create_planned_Inr [OF assms(1)]
  obtain i q where q: "d = new_deadline env i ob q" "q \<in> set plans" using cp assms(2) by blast
  let ?k = "pd_materialization_key q"
  have "Some ?k \<in> set (map cd_materialization_key ds)" using assms(2) q(1) by force
  moreover have "distinct (map cd_materialization_key ds)" using cp by blast
  ultimately have k: "?k \<in> set (filter (\<lambda>k. k \<notin> E) (plan_keys plans))" "distinct (filter (\<lambda>k. k \<notin> E) (plan_keys plans))"
    using conjunct1 [OF cp] by (auto simp: distinct_map)
  have "filter (\<lambda>x. x = ?k) (plan_keys plans) = filter (\<lambda>x. x = ?k) (filter (\<lambda>k. k \<notin> E) (plan_keys plans))"
    unfolding filter_filter by (rule filter_cong [OF refl]) (use k(1) in auto)
  also have "\<dots> = [?k]" by (rule filter_eq_single [OF k(2,1)])
  finally have "filter (\<lambda>x. x = ?k) (plan_keys plans) = [?k]" .
  then have "map pd_materialization_key (filter (\<lambda>q'. pd_materialization_key q' = ?k) plans) = [?k]"
    by (simp add: filter_map o_def)
  moreover have "q \<in> set (filter (\<lambda>q'. pd_materialization_key q' = ?k) plans)" using q(2) by simp
  ultimately have "filter (\<lambda>q'. pd_materialization_key q' = ?k) plans = [q]" by (rule map_single)
  with q(1) show ?thesis by blast
qed

lemma key_table: "k \<in> set (List.map_filter f xs) \<longleftrightarrow> Some k \<in> f ` set xs"
  by (auto simp: map_filter_def image_iff) (metis option.sel)+

subsection \<open>One materialization\<close>

lemma earliest_in: "earliest qs = Some e \<Longrightarrow> e \<in> set qs"
proof -
  have "fold (\<lambda>x best. if pd_due_date x < pd_due_date best then x else best) xs q \<in> insert q (set xs)" for xs q
    by (induction xs arbitrary: q) auto
  then show "earliest qs = Some e \<Longrightarrow> e \<in> set qs" by (auto simp: earliest_def split: list.splits)
qed

lemma refresh_obligation_form:
  "\<exists>d s st. refresh_obligation planned ob = ob\<lparr>next_due_date := d, internal_start_date := s, obl_status := st\<rparr>"
proof -
  let ?r = "refresh_obligation planned ob"
  have "?r = ob\<lparr>next_due_date := next_due_date ?r, internal_start_date := internal_start_date ?r, obl_status := obl_status ?r\<rparr>"
    by (simp add: refresh_obligation_def Let_def split: option.split)
  then show ?thesis by blast
qed

lemma refresh_obligation_sel [simp]:
  "obl_id (refresh_obligation planned ob) = obl_id ob"
  "predecessor_obligation_id (refresh_obligation planned ob) = predecessor_obligation_id ob"
  "obligation_type (refresh_obligation planned ob) = obligation_type ob"
  using refresh_obligation_form [of planned ob] by auto

lemma refresh_obligation_again: "refresh_obligation planned (refresh_obligation planned ob) = refresh_obligation planned ob"
  by (simp add: refresh_obligation_def Let_def split: option.split)

lemma put_row_again: "put_row key r (put_row key r rows) = put_row key r rows"
  by (simp add: put_row_def)

text \<open>The database after a call that planned deadlines and inserted the given ones.\<close>

definition materialized ::
  "deadline_env \<Rightarrow> case_actor option \<Rightarrow> obligation \<Rightarrow> DeadlinePolicy \<Rightarrow> PlannedDeadline list \<Rightarrow> ComplianceDeadline list \<Rightarrow>
     deadline_db \<Rightarrow> deadline_db" where
  "materialized env actor ob p planned created db =
     (let cdb = (dl_case db)\<lparr>obligations := put_row obl_id (refresh_obligation planned ob) (obligations (dl_case db))\<rparr>;
          cdb' = (if created = [] then cdb else add_licensing_audit
            (deadline_audit env actor ''compliance_obligation'' (obl_id ob) ''deadlines_materialized'' None
               (Some [(''created'', AJson (JInt (int (length created)))), (''rule_key'', AStr (pol_rule_key p))])) cdb)
      in db\<lparr>dl_case := cdb', dl_deadlines := dl_deadlines db @ created,
            dl_events := dl_events db @ map (created_event env actor p) created\<rparr>)"

lemma materialized_sel [simp]:
  "dl_rules (materialized env actor ob p planned created db) = dl_rules db"
  "dl_timezones (materialized env actor ob p planned created db) = dl_timezones db"
  "licenses (dl_case (materialized env actor ob p planned created db)) = licenses (dl_case db)"
  "bonds (dl_case (materialized env actor ob p planned created db)) = bonds (dl_case db)"
  "cases (dl_case (materialized env actor ob p planned created db)) = cases (dl_case db)"
  "stage_events (dl_case (materialized env actor ob p planned created db)) = stage_events (dl_case db)"
  "notifications (dl_case (materialized env actor ob p planned created db)) = notifications (dl_case db)"
  "obligations (dl_case (materialized env actor ob p planned created db)) =
     put_row obl_id (refresh_obligation planned ob) (obligations (dl_case db))"
  "dl_deadlines (materialized env actor ob p planned created db) = dl_deadlines db @ created"
  "dl_events (materialized env actor ob p planned created db) = dl_events db @ map (created_event env actor p) created"
  by (simp_all add: materialized_def Let_def add_licensing_audit_def)

lemma materialize_Inr:
  assumes "materialize_for_obligation env actor h oid db = Inr (created, db')"
  obtains (skipped) ob where "get_row obl_id (obligations (dl_case db)) oid = Some ob" "created = []" "db' = db"
      "obligation_plan env h ob db = Inr None \<or> (\<exists>p. obligation_plan env h ob db = Inr (Some (p, [])))"
  | (planned) ob p planned where "get_row obl_id (obligations (dl_case db)) oid = Some ob"
      "obligation_plan env h ob db = Inr (Some (p, planned))" "planned \<noteq> []"
      "create_planned env ob (set (List.map_filter cd_materialization_key (dl_deadlines db))) 0 planned (dl_deadlines db) =
         Inr created"
      "db' = materialized env actor ob p planned created db"
proof -
  obtain ob r where ob: "get_row obl_id (obligations (dl_case db)) oid = Some ob" "obligation_plan env h ob db = Inr r"
    using assms by (auto simp: materialize_for_obligation_def err_simps split: option.splits)
  show thesis
  proof (cases "r = None \<or> (\<exists>p. r = Some (p, []))")
    case True
    then have "created = []" "db' = db" using assms ob by (auto simp: materialize_for_obligation_def)
    with ob True show ?thesis using skipped by auto
  next
    case False
    then obtain p planned where r: "r = Some (p, planned)" "planned \<noteq> []" by (cases r) auto
    then obtain cs where cs: "create_planned env ob (set (List.map_filter cd_materialization_key (dl_deadlines db))) 0 planned
        (dl_deadlines db) = Inr cs" "created = cs" "db' = materialized env actor ob p planned cs db"
      using assms ob by (auto simp: materialize_for_obligation_def materialized_def err_simps Let_def)
    then show ?thesis using planned ob r by simp
  qed
qed

lemma materialize_planned:
  assumes "get_row obl_id (obligations (dl_case db)) oid = Some ob" "obligation_plan env h ob db = Inr (Some (p, planned))"
    "planned \<noteq> []" "create_planned env ob (set (List.map_filter cd_materialization_key (dl_deadlines db))) 0 planned
       (dl_deadlines db) = Inr created"
  shows "materialize_for_obligation env actor h oid db = Inr (created, materialized env actor ob p planned created db)"
  using assms by (simp add: materialize_for_obligation_def materialized_def Let_def)

subsection \<open>Repeated runs\<close>

text \<open>What a second run on the same day finds.\<close>

lemma plan_after_materialize:
  assumes "no_annual_rules db" "same_day env env'"
    and "get_row obl_id (obligations (dl_case db)) oid = Some ob"
    and "obligation_plan env h ob db = Inr r"
    and "dl_rules db' = dl_rules db" "dl_timezones db' = dl_timezones db"
      "licenses (dl_case db') = licenses (dl_case db)" "bonds (dl_case db') = bonds (dl_case db)"
      "obligations (dl_case db') = put_row obl_id (refresh_obligation planned ob) (obligations (dl_case db))"
  shows "get_row obl_id (obligations (dl_case db')) oid = Some (refresh_obligation planned ob) \<and>
     obligation_plan env' h (refresh_obligation planned ob) db' = Inr r"
proof -
  obtain d s st where "refresh_obligation planned ob = ob\<lparr>next_due_date := d, internal_start_date := s, obl_status := st\<rparr>"
    using refresh_obligation_form by blast
  from obligation_plan_cong [OF assms(1,2,5-8) this, of h] show ?thesis
    using assms(3,4,9) get_row_SomeD [OF assms(3)] by (simp add: get_put_row)
qed

text \<open>C7. Materialization is idempotent: when a call for an obligation has succeeded, a second call on the
  same day, by whatever actor and with whatever row keys, inserts nothing and leaves the whole database
  as it is, audit rows and events included, unless a rule recurs on the annual report date, which
  materialization itself moves.\<close>

theorem materialize_idempotent:
  assumes "materialize_for_obligation env actor h oid db = Inr (created, db')"
    and "no_annual_rules db" and "same_day env env'"
  shows "materialize_for_obligation env' actor' h oid db' = Inr ([], db')"
  using assms(1)
proof (cases rule: materialize_Inr)
  case (skipped ob)
  have "ob = ob\<lparr>next_due_date := next_due_date ob, internal_start_date := internal_start_date ob, obl_status := obl_status ob\<rparr>"
    by simp
  from obligation_plan_cong [OF assms(2,3) refl refl refl refl this] skipped show ?thesis
    by (auto simp: materialize_for_obligation_def)
next
  case (planned ob p planned)
  let ?ob = "refresh_obligation planned ob"
  have again: "get_row obl_id (obligations (dl_case db')) oid = Some ?ob" "obligation_plan env' h ?ob db' = Inr (Some (p, planned))"
    using plan_after_materialize [OF assms(2,3) planned(1,2), where db' = db' and planned = planned]
    by (simp_all add: planned(5))
  have "pd_materialization_key q \<in> set (List.map_filter cd_materialization_key (dl_deadlines db'))" if "q \<in> set planned" for q
  proof -
    have "Some (pd_materialization_key q) \<in> cd_materialization_key ` set (dl_deadlines db) \<union> cd_materialization_key ` set created"
      using create_planned_Inr [OF planned(4)] that key_table [of "pd_materialization_key q" cd_materialization_key "dl_deadlines db"]
      by (auto simp: image_Un dest!: arg_cong [where f = set])
    then show ?thesis by (simp add: key_table planned(5) image_Un)
  qed
  then have "materialize_for_obligation env' actor' h oid db' = Inr ([], materialized env' actor' ?ob p planned [] db')"
    by (intro materialize_planned [OF again planned(3)] create_planned_none) auto
  then show ?thesis
    by (simp add: materialized_def planned(5) Let_def refresh_obligation_again put_row_again)
qed

definition ex_dl_env :: "datetime \<Rightarrow> nat \<Rightarrow> deadline_env" where
  "ex_dl_env now n = \<lparr>dv_now = now, dv_new_id = (\<lambda>i. n + i), dv_zones = (\<lambda>_. None), dv_sha256 = id, dv_lib = ex_lib,
     dv_horizon_days = 213, dv_default_lead_days = 30, dv_default_timezone = ''UTC'', dv_overdue_enabled = True\<rparr>"

definition ex_dl_rule :: DeadlineRule where
  "ex_dl_rule = \<lparr>dr_id = 9, dr_rule_key = ''annual'', dr_obligation_type = ''LICENSE_RENEWAL'', dr_jurisdiction_id = None,
     dr_license_type_id = None, dr_recurrence_type = ''FIXED_ANNUAL_DATE'',
     dr_recurrence_config = [(''month'', JInt 7), (''day'', JInt 4)], dr_lead_time_days = Some 10,
     dr_adjustment_policy = ''NONE'', dr_escalation_policy = [], dr_milestone_offsets = [(''SUBMISSION_DUE'', JInt 1)],
     dr_effective_from = None, dr_effective_to = None, dr_status = ''ACTIVE'', dr_priority = 100\<rparr>"

definition ex_dl_ob :: obligation where
  "ex_dl_ob = \<lparr>obl_id = 5, obligation_key = ''k'', obl_legal_entity_id = 1, obl_license_id = None, obl_bond_id = None,
     obl_jurisdiction_id = None, obligation_type = ''LICENSE_RENEWAL'', obl_title = ''Renewal'', obl_status = ''PLANNED'',
     recurrence_rule = None, obl_statutory_due_date = None, next_due_date = None, internal_start_date = None,
     responsible_owner = Some ''owner'', obl_vendor = None, obl_regulator = None, requirement_source_ids = [],
     predecessor_obligation_id = None, obl_notes = None\<rparr>"

definition ex_dl_fields :: obligation_fields where
  "ex_dl_fields = ex_fields\<lparr>of_recurrence_rule := None, of_next_due_date := None, of_responsible_owner := Some ''owner''\<rparr>"

definition ex_dl_db :: deadline_db where
  "ex_dl_db = \<lparr>dl_case = add_licensing_audit (licensing_audit (ex_env 5) None ''compliance_obligation'' 5 ''obligation_created''
       None (Some [(''type'', AStr ''LICENSE_RENEWAL''), (''due'', AStr ''None'')])) (ex_db0\<lparr>obligations := [ex_dl_ob]\<rparr>),
     dl_rules = [ex_dl_rule], dl_timezones = (\<lambda>_. None), dl_deadlines = [], dl_events = []\<rparr>"

lemma ex_dl_created: "create_obligation (ex_env 5) None ex_dl_fields ex_db0 = Inr (ex_dl_ob, dl_case ex_dl_db)"
  by (simp add: create_obligation_def validate_obligation_links_def ex_dl_fields_def ex_fields_def ex_db0_def ex_dl_db_def
      ex_dl_ob_def ex_env_def obligation_key_of_def check_def ObligationType_def ObligationStatus_def lookup_opt_def Let_def)

text \<open>Noon on the first of June 2026.\<close>

definition ex_noon :: datetime where
  "ex_noon = 20605 * day_us + 43200000000"

lemma ex_dl_plan:
  "\<exists>s q. obligation_plan (ex_dl_env ex_noon n) None ex_dl_ob ex_dl_db = Inr (Some (ex_plan_policy, [s, q])) \<and>
     pd_deadline_type s = ''STATUTORY_DUE'' \<and> pd_deadline_type q = ''SUBMISSION_DUE'' \<and>
     pd_materialization_key s \<noteq> pd_materialization_key q"
proof -
  have pol: "active_policies ex_dl_db = Inr [ex_plan_policy]"
    by (simp add: active_policies_def ex_dl_db_def ex_dl_rule_def to_policy_def ex_plan_policy_def ex_deadline_policy_def)
  have day: "dv_today (ex_dl_env ex_noon n) = Date 2026 6 1" unfolding dv_today_def ex_dl_env_def
    by simp code_simp
  have res: "resolve_policy ''LICENSE_RENEWAL'' (Date 2026 6 1) None None [ex_plan_policy] = Some ex_plan_policy"
    by code_simp
  have hor: "add_days (Date 2026 6 1) 213 = Inr (Date 2026 12 31)" by code_simp
  have occ: "expand ''FIXED_ANNUAL_DATE'' [(''month'', JInt 7), (''day'', JInt 4)]
      (recurrence_context None None ex_dl_ob) (Date 2026 6 1) (Date 2026 12 31) 6 = Inr [Date 2026 7 4]" by code_simp
  have adj: "apply_adjustment DEFAULT_CALENDAR (Date 2026 7 4) ''NONE'' = Inr (Date 2026 7 4, None)" by code_simp
  have due: "to_due_datetime (\<lambda>_. None) (Date 2026 7 4) (Some ''UTC'') = Inr 1783184400000000"
    "to_due_datetime (\<lambda>_. None) (Date 2026 6 24) (Some ''UTC'') = Inr 1782320400000000"
    "to_due_datetime (\<lambda>_. None) (Date 2026 7 6) (Some ''UTC'') = Inr 1783357200000000" by code_simp+
  have days: "add_days (Date 2026 7 4) (- 10) = Inr (Date 2026 6 24)" "add_days (Date 2026 7 4) (- 1) = Inr (Date 2026 7 3)"
    "is_business_day DEFAULT_CALENDAR (Date 2026 7 3) = Inr False"
    "next_business_day DEFAULT_CALENDAR (Date 2026 7 3) True = Inr (Date 2026 7 6)" by code_simp+
  have lt: "\<not> Date 2026 12 31 < Date 2026 7 3" by code_simp
  have ob: "obl_id ex_dl_ob = 5" "obl_license_id ex_dl_ob = None" "obl_bond_id ex_dl_ob = None"
    "obl_jurisdiction_id ex_dl_ob = None" "obligation_type ex_dl_ob = ''LICENSE_RENEWAL''"
    by (simp_all add: ex_dl_ob_def)
  have env: "dv_zones (ex_dl_env ex_noon n) = (\<lambda>_. None)" "dv_sha256 (ex_dl_env ex_noon n) = id"
    "dv_horizon_days (ex_dl_env ex_noon n) = 213" "dv_default_timezone (ex_dl_env ex_noon n) = ''UTC''"
    by (simp_all add: ex_dl_env_def)
  have "obligation_plan (ex_dl_env ex_noon n) None ex_dl_ob ex_dl_db =
      bindE (raise_rec (plan_deadlines \<lparr>pa_zones = (\<lambda>_. None), pa_sha256 = id, pa_obligation_id = 5,
          pa_horizon_start = Date 2026 6 1, pa_horizon_end = Date 2026 12 31,
          pa_default_lead_days = dv_default_lead_days (ex_dl_env ex_noon n), pa_timezone_name = Some ''UTC'',
          pa_calendar = DEFAULT_CALENDAR, pa_statutory_type = ''STATUTORY_DUE'', pa_today = Date 2026 6 1,
          pa_max_occurrences = 6\<rparr> (Some ex_plan_policy) (recurrence_context None None ex_dl_ob)))
        (\<lambda>planned. Inr (Some (ex_plan_policy, planned)))"
    by (simp add: obligation_plan_def Let_def pol day ob res hor raise_py_def env lookup_opt_def or_else_def statutory_type_of_def)
  then show ?thesis
    by (simp add: raise_rec_def plan_deadlines_def ex_plan_policy_def ex_deadline_policy_def occ plan_occurrence_def adj
        plan_statutory_def Let_def policy_lead_def due days offsets_def plan_milestone_def lt build_materialization_key_def
        materialization_text_def)
qed

definition ex_dl_run :: "ComplianceDeadline list \<times> deadline_db" where
  "ex_dl_run = projr (materialize_for_obligation (ex_dl_env ex_noon 100) None None 5 ex_dl_db)"

lemma ex_materialized:
  "materialize_for_obligation (ex_dl_env ex_noon 100) None None 5 ex_dl_db = Inr (fst ex_dl_run, snd ex_dl_run) \<and>
   map cd_deadline_type (fst ex_dl_run) = [''STATUTORY_DUE'', ''SUBMISSION_DUE''] \<and> map cd_id (fst ex_dl_run) = [100, 101] \<and>
   dl_deadlines (snd ex_dl_run) = fst ex_dl_run"
proof -
  obtain s q where pl: "obligation_plan (ex_dl_env ex_noon 100) None ex_dl_ob ex_dl_db = Inr (Some (ex_plan_policy, [s, q]))"
    "pd_deadline_type s = ''STATUTORY_DUE''" "pd_deadline_type q = ''SUBMISSION_DUE''"
    "pd_materialization_key s \<noteq> pd_materialization_key q" using ex_dl_plan by blast
  let ?ds = "[new_deadline (ex_dl_env ex_noon 100) 100 ex_dl_ob s, new_deadline (ex_dl_env ex_noon 100) 101 ex_dl_ob q]"
  have "create_planned (ex_dl_env ex_noon 100) ex_dl_ob {} 0 [s, q] [] = Inr ?ds"
    using pl by (simp add: Let_def ex_dl_env_def DeadlineType_def)
  then have "materialize_for_obligation (ex_dl_env ex_noon 100) None None 5 ex_dl_db =
      Inr (?ds, materialized (ex_dl_env ex_noon 100) None ex_dl_ob ex_plan_policy [s, q] ?ds ex_dl_db)"
    by (intro materialize_planned [OF _ pl(1)]) (simp_all add: ex_dl_db_def ex_dl_ob_def map_filter_simps)
  then show ?thesis using pl by (simp add: ex_dl_run_def) (simp add: ex_dl_db_def)
qed

lemma ex_no_annual: "no_annual_rules ex_dl_db"
  by (simp add: no_annual_rules_def ex_dl_db_def ex_dl_rule_def)

lemma ex_same_day: "same_day (ex_dl_env ex_noon 100) (ex_dl_env (ex_noon + 1) 200)"
proof -
  have "dv_today (ex_dl_env (ex_noon + 1) 200) = dv_today (ex_dl_env ex_noon 100)" by code_simp
  moreover have "ex_dl_env (ex_noon + 1) 200 = (ex_dl_env ex_noon 100)\<lparr>dv_now := ex_noon + 1, dv_new_id := (\<lambda>i. 200 + i)\<rparr>"
    by (simp add: ex_dl_env_def)
  ultimately show ?thesis unfolding same_day_def by blast
qed

theorem materialize_idempotent_witness:
  "map cd_deadline_type (fst ex_dl_run) = [''STATUTORY_DUE'', ''SUBMISSION_DUE''] \<and>
   materialize_for_obligation (ex_dl_env (ex_noon + 1) 200) (Some ex_actor) None 5 (snd ex_dl_run) = Inr ([], snd ex_dl_run)"
  using materialize_idempotent [OF conjunct1 [OF ex_materialized] ex_no_annual ex_same_day] ex_materialized by blast

text \<open>An override rewrites the row of the deadline.\<close>

lemma override_Inr:
  assumes "override_deadline env str_dt who did (Some t) owner reason db = Inr (d', db')"
    and "distinct (map cd_id (dl_deadlines db))" "d \<in> set (dl_deadlines db)" "cd_id d = did"
  shows "cd_id d' = did" "cd_due_at d' = t" "cd_materialization_key d' = None" "cd_manually_overridden d'"
    "dl_deadlines db' = put_row cd_id d' (dl_deadlines db)" "dl_rules db' = dl_rules db" "dl_timezones db' = dl_timezones db"
    "licenses (dl_case db') = licenses (dl_case db)" "bonds (dl_case db') = bonds (dl_case db)"
    "obligations (dl_case db') = obligations (dl_case db)"
  using assms get_row_member [OF assms(2,3)]
  by (auto simp: override_deadline_def Let_def add_licensing_audit_def split: if_splits option.splits)

lemma set_put_row_eq:
  "distinct (map key rows) \<Longrightarrow> r \<in> set rows \<Longrightarrow> key r' = key r \<Longrightarrow> set (put_row key r' rows) = insert r' (set rows - {r})"
  by (auto simp: put_row_def distinct_map inj_on_def image_iff)

lemma materialized_ids:
  assumes "distinct (map cd_id (dl_deadlines db))"
    "create_planned env ob E n plans (dl_deadlines db) = Inr created"
  shows "distinct (map cd_id (dl_deadlines db @ created))"
proof -
  have "distinct (map cd_id created)" "\<forall>d \<in> set created. cd_id d \<notin> cd_id ` set (dl_deadlines db)"
    using create_planned_Inr [OF assms(2)] by blast+
  then show ?thesis using assms(1) by (fastforce simp: image_iff)
qed

text \<open>An overridden deadline comes back: overriding the date of a deadline that a materialization
  created clears its key, and the next materialization on the same day therefore inserts a deadline with
  the original key, type and date beside the overridden one.\<close>

theorem override_recreated_by_materialization:
  assumes mat: "materialize_for_obligation env actor h oid db = Inr (created, db1)" and d: "d \<in> set created"
    and ids: "distinct (map cd_id (dl_deadlines db))"
    and ann: "no_annual_rules db" and day: "same_day env env'"
    and ov: "override_deadline env1 str_dt who (cd_id d) (Some t) owner reason db1 = Inr (d1, db2)"
    and fresh: "dv_new_id env' 0 \<notin> cd_id ` set (dl_deadlines db2)"
  shows "\<exists>d2 db3. materialize_for_obligation env' actor' h oid db2 = Inr ([d2], db3) \<and>
     cd_materialization_key d2 = cd_materialization_key d \<and> cd_deadline_type d2 = cd_deadline_type d \<and>
     cd_due_at d2 = cd_due_at d \<and> cd_due_at d1 = t \<and> cd_id d1 = cd_id d \<and> {d1, d2} \<subseteq> set (dl_deadlines db3)"
  using mat
proof (cases rule: materialize_Inr)
  case (skipped ob)
  with d show ?thesis by simp
next
  case (planned ob p planned)
  let ?ob = "refresh_obligation planned ob" and ?K = "cd_materialization_key" and ?R = "dl_deadlines db @ created"
  note cp = create_planned_Inr [OF planned(4)]
  have ids1: "distinct (map cd_id ?R)" by (rule materialized_ids [OF ids planned(4)])
  have db1: "distinct (map cd_id (dl_deadlines db1))" "d \<in> set (dl_deadlines db1)" using ids1 d by (simp_all add: planned(5))
  note o = override_Inr [OF ov db1 refl, unfolded planned(5) materialized_sel]
  obtain i q where q: "d = new_deadline env i ob q" "filter (\<lambda>q'. pd_materialization_key q' = pd_materialization_key q) planned = [q]"
    using created_once [OF planned(4) d] by blast
  have rows: "set (dl_deadlines db2) = insert d1 (set ?R - {d})"
    unfolding o(5) using ids1 d o(1) by (intro set_put_row_eq) auto
  have uniq: "x = d" if "x \<in> set ?R" "?K x = ?K d" for x
  proof -
    have "distinct (map ?K created)" "?K d \<notin> ?K ` set (dl_deadlines db)" using cp d by blast+
    with that d show ?thesis by (auto simp: distinct_map inj_on_def image_iff)
  qed
  have none: "Some (pd_materialization_key q) \<notin> ?K ` set (dl_deadlines db2)"
    using uniq o(3) q(1) unfolding rows by auto
  have covered: "Some (pd_materialization_key q') \<in> ?K ` set ?R" if "q' \<in> set planned" for q'
    using cp that key_table [of "pd_materialization_key q'" ?K "dl_deadlines db"]
    by (auto simp: image_Un dest!: arg_cong [where f = set])
  have "pd_materialization_key q' \<notin> set (List.map_filter ?K (dl_deadlines db2)) \<longleftrightarrow>
      pd_materialization_key q' = pd_materialization_key q" if "q' \<in> set planned" for q'
    using covered [OF that] none q(1) unfolding key_table rows by auto
  then have sel: "filter (\<lambda>q'. pd_materialization_key q' \<notin> set (List.map_filter ?K (dl_deadlines db2))) planned = [q]"
    using q(2) by (metis (mono_tags, lifting) filter_cong)
  have "cd_deadline_type d \<in> set DeadlineType" using cp d by blast
  then have ty: "pd_deadline_type q \<in> set DeadlineType" by (simp add: q(1))
  note again = plan_after_materialize [OF ann day planned(1,2) o(6-10)]
  note run = materialize_planned [OF again [THEN conjunct1] again [THEN conjunct2] planned(3)
      create_planned_one [OF sel fresh none ty], of actor']
  then show ?thesis by (intro exI) (use o rows q(1) in \<open>auto simp: materialized_def Let_def\<close>)
qed

theorem override_recreated_by_materialization_witness:
  "\<exists>d1 db2 d2 db3. override_deadline (ex_dl_env ex_noon 0) (\<lambda>_. []) ex_actor 100 (Some 0) None ''agreed later'' (snd ex_dl_run) = Inr (d1, db2) \<and>
     materialize_for_obligation (ex_dl_env (ex_noon + 1) 200) None None 5 db2 = Inr ([d2], db3)"
proof -
  obtain d ds where d: "fst ex_dl_run = d # ds" "cd_id d = 100" using ex_materialized by (cases "fst ex_dl_run") auto
  have get: "get_row cd_id (dl_deadlines (snd ex_dl_run)) 100 = Some d" using ex_materialized d by simp
  have "\<not> length (py_strip ''agreed later'') < 5" by code_simp
  then obtain d1 db2 where ov: "override_deadline (ex_dl_env ex_noon 0) (\<lambda>_. []) ex_actor 100 (Some 0) None ''agreed later'' (snd ex_dl_run) =
      Inr (d1, db2)" "dl_deadlines db2 = put_row cd_id d1 (fst ex_dl_run)"
    using get ex_materialized by (simp add: override_deadline_def Let_def)
  have "cd_id ` set (dl_deadlines db2) = set (map cd_id (fst ex_dl_run))" by (metis ov(2) keys_put_row set_map)
  then have "dv_new_id (ex_dl_env (ex_noon + 1) 200) 0 \<notin> cd_id ` set (dl_deadlines db2)"
    using ex_materialized by (simp add: ex_dl_env_def)
  with override_recreated_by_materialization [OF conjunct1 [OF ex_materialized], of d, OF _ _ ex_no_annual ex_same_day] ov(1) d
  show ?thesis by (fastforce simp: ex_dl_db_def)
qed

subsection \<open>Plans that repeat a deadline\<close>

lemma create_planned_Inl: "create_planned env ob E n plans table = Inl e \<Longrightarrow> e = IntegrityError"
  by (induction plans arbitrary: n table) (auto simp: Let_def err_simps split: if_splits)

text \<open>C39. The existing keys are read once, before the insertions, so a plan that contains a new key twice
  cannot be materialized: the second insertion violates the unique index, the call fails with an
  integrity error and stores nothing, and so does the sweep over all obligations that reaches it.\<close>

theorem repeated_plan_aborts_materialization:
  assumes "get_row obl_id (obligations (dl_case db)) oid = Some ob"
    and "obligation_plan (envs i) None ob db = Inr (Some (p, planned))"
    and "\<not> distinct (filter (\<lambda>k. Some k \<notin> cd_materialization_key ` set (dl_deadlines db)) (plan_keys planned))"
  shows "materialize_for_obligation (envs i) actor None oid db = Inl IntegrityError \<and>
     materialize_loop envs actor i (oid # oids) db = Inl IntegrityError"
proof -
  let ?E = "set (List.map_filter cd_materialization_key (dl_deadlines db))"
  have "create_planned (envs i) ob ?E 0 planned (dl_deadlines db) \<noteq> Inr ds" for ds
  proof
    assume "create_planned (envs i) ob ?E 0 planned (dl_deadlines db) = Inr ds"
    from create_planned_Inr [OF this] have "distinct (map Some (filter (\<lambda>k. k \<notin> ?E) (plan_keys planned)))" by metis
    then show False using assms(3) by (simp add: key_table distinct_map)
  qed
  then have "create_planned (envs i) ob ?E 0 planned (dl_deadlines db) = Inl IntegrityError"
    using create_planned_Inl by (cases "create_planned (envs i) ob ?E 0 planned (dl_deadlines db)") blast+
  then have "materialize_for_obligation (envs i) actor None oid db = Inl IntegrityError"
    using assms by (auto simp: materialize_for_obligation_def)
  then show ?thesis by simp
qed

text \<open>A licence that expired in February 2026, planned on its expiration anniversary.\<close>

definition ex_anniversary_rule :: DeadlineRule where
  "ex_anniversary_rule = ex_dl_rule\<lparr>dr_recurrence_type := ''EXPIRATION_ANNIVERSARY'', dr_recurrence_config := []\<rparr>"

definition ex_anniversary_policy :: DeadlinePolicy where
  "ex_anniversary_policy = ex_plan_policy\<lparr>pol_recurrence_type := ''EXPIRATION_ANNIVERSARY'', pol_recurrence_config := []\<rparr>"

definition ex_anniversary_ob :: obligation where
  "ex_anniversary_ob = ex_dl_ob\<lparr>obl_license_id := Some 3\<rparr>"

definition ex_anniversary_db :: deadline_db where
  "ex_anniversary_db = \<lparr>dl_case = ex_db0\<lparr>obligations := [ex_anniversary_ob], licenses := [3 \<mapsto> \<lparr>lic_legal_entity_id = 1,
       lic_jurisdiction_id = 2, lic_license_type_id = 8, lic_issue_date = None,
       lic_effective_date = None, lic_expiration_date = Some (Date 2026 2 28)\<rparr>]\<rparr>,
     dl_rules = [ex_anniversary_rule], dl_timezones = (\<lambda>_. None), dl_deadlines = [], dl_events = []\<rparr>"

definition ex_anniversary_env :: deadline_env where
  "ex_anniversary_env = (ex_dl_env ex_noon 0)\<lparr>dv_horizon_days := 365\<rparr>"

lemma ex_anniversary_plan:
  "\<exists>s q rest. obligation_plan ex_anniversary_env None ex_anniversary_ob ex_anniversary_db =
     Inr (Some (ex_anniversary_policy, s # q # s # rest))"
proof -
  have pol: "active_policies ex_anniversary_db = Inr [ex_anniversary_policy]"
    by (simp add: active_policies_def ex_anniversary_db_def ex_anniversary_rule_def ex_dl_rule_def to_policy_def
        ex_anniversary_policy_def ex_plan_policy_def ex_deadline_policy_def)
  have day: "dv_today ex_anniversary_env = Date 2026 6 1" by code_simp
  have res: "resolve_policy ''LICENSE_RENEWAL'' (Date 2026 6 1) None (Some 8) [ex_anniversary_policy] = Some ex_anniversary_policy"
    by code_simp
  have hor: "add_days (Date 2026 6 1) 365 = Inr (Date 2027 6 1)" by code_simp
  have ctx: "recurrence_context (licenses (dl_case ex_anniversary_db) 3) None ex_anniversary_ob = ex_context"
    by (simp add: recurrence_context_def ex_anniversary_db_def ex_anniversary_ob_def ex_dl_ob_def ex_context_def)
  have occ: "expand ''EXPIRATION_ANNIVERSARY'' [] ex_context (Date 2026 6 1) (Date 2027 6 1) 6 =
      Inr (replicate 6 (Date 2027 2 28))" by code_simp
  have adj: "apply_adjustment DEFAULT_CALENDAR (Date 2027 2 28) ''NONE'' = Inr (Date 2027 2 28, None)" by code_simp
  have due: "to_due_datetime (\<lambda>_. None) (Date 2027 2 28) (Some ''UTC'') = Inr 1803834000000000"
    "to_due_datetime (\<lambda>_. None) (Date 2027 2 18) (Some ''UTC'') = Inr 1802970000000000"
    "to_due_datetime (\<lambda>_. None) (Date 2027 3 1) (Some ''UTC'') = Inr 1803920400000000" by code_simp+
  have days: "add_days (Date 2027 2 28) (- 10) = Inr (Date 2027 2 18)" "add_days (Date 2027 2 28) (- 1) = Inr (Date 2027 2 27)"
    "is_business_day DEFAULT_CALENDAR (Date 2027 2 27) = Inr False"
    "next_business_day DEFAULT_CALENDAR (Date 2027 2 27) True = Inr (Date 2027 3 1)" by code_simp+
  have lt: "\<not> Date 2027 6 1 < Date 2027 2 27" by code_simp
  have ob: "obl_id ex_anniversary_ob = 5" "obl_license_id ex_anniversary_ob = Some 3" "obl_bond_id ex_anniversary_ob = None"
    "obl_jurisdiction_id ex_anniversary_ob = None" "obligation_type ex_anniversary_ob = ''LICENSE_RENEWAL''"
    by (simp_all add: ex_anniversary_ob_def ex_dl_ob_def)
  have env: "dv_zones ex_anniversary_env = (\<lambda>_. None)" "dv_sha256 ex_anniversary_env = id"
    "dv_horizon_days ex_anniversary_env = 365" "dv_default_timezone ex_anniversary_env = ''UTC''"
    by (simp_all add: ex_anniversary_env_def ex_dl_env_def)
  have lic: "map_option lic_license_type_id (licenses (dl_case ex_anniversary_db) 3) = Some 8"
    by (simp add: ex_anniversary_db_def)
  have "obligation_plan ex_anniversary_env None ex_anniversary_ob ex_anniversary_db =
      bindE (raise_rec (plan_deadlines \<lparr>pa_zones = (\<lambda>_. None), pa_sha256 = id, pa_obligation_id = 5,
          pa_horizon_start = Date 2026 6 1, pa_horizon_end = Date 2027 6 1,
          pa_default_lead_days = dv_default_lead_days ex_anniversary_env, pa_timezone_name = Some ''UTC'',
          pa_calendar = DEFAULT_CALENDAR, pa_statutory_type = ''STATUTORY_DUE'', pa_today = Date 2026 6 1,
          pa_max_occurrences = 6\<rparr> (Some ex_anniversary_policy) ex_context))
        (\<lambda>planned. Inr (Some (ex_anniversary_policy, planned)))"
    by (simp add: obligation_plan_def Let_def pol day ob res hor raise_py_def env lookup_opt_def or_else_def statutory_type_of_def lic ctx)
  moreover have "\<exists>s q. plan_occurrence \<lparr>pa_zones = (\<lambda>_. None), pa_sha256 = id, pa_obligation_id = 5,
          pa_horizon_start = Date 2026 6 1, pa_horizon_end = Date 2027 6 1,
          pa_default_lead_days = dv_default_lead_days ex_anniversary_env, pa_timezone_name = Some ''UTC'',
          pa_calendar = DEFAULT_CALENDAR, pa_statutory_type = ''STATUTORY_DUE'', pa_today = Date 2026 6 1,
          pa_max_occurrences = 6\<rparr> ex_anniversary_policy (Date 2027 2 28) = Inr [s, q]"
    by (simp add: plan_occurrence_def adj ex_anniversary_policy_def ex_plan_policy_def ex_deadline_policy_def
        plan_statutory_def Let_def policy_lead_def due days offsets_def plan_milestone_def lt)
  moreover have "pol_recurrence_type ex_anniversary_policy = ''EXPIRATION_ANNIVERSARY''" "pol_recurrence_config ex_anniversary_policy = []"
    by (simp_all add: ex_anniversary_policy_def)
  ultimately show ?thesis by (auto simp: plan_deadlines_def occ raise_rec_def numeral_eq_Suc)
qed

theorem repeated_plan_aborts_materialization_witness:
  "materialize_for_obligation ex_anniversary_env None None 5 ex_anniversary_db = Inl IntegrityError"
proof -
  obtain s q rest where "obligation_plan ex_anniversary_env None ex_anniversary_ob ex_anniversary_db =
      Inr (Some (ex_anniversary_policy, s # q # s # rest))" using ex_anniversary_plan by blast
  then show ?thesis
    using repeated_plan_aborts_materialization [of ex_anniversary_db 5 ex_anniversary_ob "\<lambda>_. ex_anniversary_env" 0]
    by (simp add: ex_anniversary_db_def) (simp add: ex_anniversary_ob_def ex_dl_ob_def)
qed

end
