(* ===== verification/Deadline_Invariant.thy ===== *)
theory Deadline_Invariant
  imports Deadline_Service
begin

text \<open>
  The escalation sweep and the histories of deadlines: a sweep notifies a deadline once for a day, and in
  every state that the calls of the two services reach, the append-only events tell how every deadline
  came to its present date.
\<close>

subsection \<open>The escalation sweep\<close>

lemma escalation_level_indep: "ed_level (escalation_of l up over en delta) = ed_level (escalation_of l' up over en delta)"
  by (simp add: escalation_of_def Let_def quiet_def)

lemma escalation_settled:
  "\<not> should_notify (escalation_of (ed_level (escalation_of l up over en delta)) up over en delta)"
  using should_notify_rank [of "ed_level (escalation_of l up over en delta)" up over en delta]
    escalation_level_indep [of l up over en delta "ed_level (escalation_of l up over en delta)"] by auto

abbreviation notice_keys :: "notice_db \<Rightarrow> string set" where
  "notice_keys nt \<equiv> nd_idempotency_key ` set (notices nt)"

lemma record_notification_cases:
  "record_notification now n nt = (b, nt') \<Longrightarrow>
     notice_keys nt \<subseteq> notice_keys nt' \<and> nd_idempotency_key n \<in> notice_keys nt' \<and>
     (\<not> b \<longrightarrow> nt' = nt)"
  by (auto simp: record_notification_def split: if_splits)

definition escalation_draft ::
  "deadline_env \<Rightarrow> EscalationDecision \<Rightarrow> string \<Rightarrow> string \<Rightarrow> ComplianceDeadline \<Rightarrow> NotificationDraft" where
  "escalation_draft env dec level recipient d =
     deadline_alert (dv_sha256 env) (cd_id d) (cd_obligation_id d) (cd_deadline_type d) recipient (ed_severity dec)
       (Some level) (ed_days_remaining dec) (ed_is_overdue dec) (notification_key_suffix dec) (cd_case_id d)"

text \<open>What the sweep does to one deadline.\<close>

abbreviation decision_of :: "deadline_env \<Rightarrow> (int \<times> string) list option \<Rightarrow> ComplianceDeadline \<Rightarrow> EscalationDecision" where
  "decision_of env ladder d \<equiv>
     evaluate_escalation (cd_due_at d) (cd_last_escalation_level d) ladder None (dv_overdue_enabled env) (dv_now env)"

abbreviation recipient_of :: "string option \<Rightarrow> ComplianceDeadline \<Rightarrow> string \<Rightarrow> string option" where
  "recipient_of manager d level \<equiv> resolve_recipient level (cd_assigned_owner d) (cd_backup_owner d) None manager None None"

lemma escalate_one_Inr:
  assumes "escalate_one env manager db d nt = Inr (k, d', evs, nt')"
  obtains (silent) ladder where "deadline_ladder env d db = Inr ladder" "k = 0" "d' = d" "evs = []" "nt' = nt"
      "\<And>level recipient. should_notify (decision_of env ladder d) \<Longrightarrow> ed_level (decision_of env ladder d) = Some level \<Longrightarrow>
         recipient_of manager d level = Some recipient \<Longrightarrow>
         nd_idempotency_key (escalation_draft env (decision_of env ladder d) level recipient d) \<in> notice_keys nt"
  | (notified) ladder level n where "deadline_ladder env d db = Inr ladder" "k = 1"
      "ed_level (decision_of env ladder d) = Some level" "d' = escalated env (decision_of env ladder d) d"
      "evs = [escalated_event env (decision_of env ladder d) d]" "record_notification (dv_now env) n nt = (True, nt')"
proof -
  obtain ladder where l: "deadline_ladder env d db = Inr ladder" using assms by (auto simp: escalate_one_def err_simps)
  let ?dec = "decision_of env ladder d"
  show thesis
  proof (cases "\<exists>level recipient. should_notify ?dec \<and> ed_level ?dec = Some level \<and> recipient_of manager d level = Some recipient")
    case False
    then have "k = 0 \<and> d' = d \<and> evs = [] \<and> nt' = nt"
      using assms by (auto simp: escalate_one_def l Let_def split: option.splits if_splits)
    with False l show ?thesis using silent by blast
  next
    case True
    then obtain level recipient where to: "should_notify ?dec" "ed_level ?dec = Some level"
      "recipient_of manager d level = Some recipient" by blast
    let ?n = "escalation_draft env ?dec level recipient d"
    have run: "(case record_notification (dv_now env) ?n nt of
        (True, nt1) \<Rightarrow> Inr (1, escalated env ?dec d, [escalated_event env ?dec d], nt1)
      | (False, nt1) \<Rightarrow> Inr (0, d, [], nt1)) =
        (Inr (k, d', evs, nt') :: domain_error + nat \<times> ComplianceDeadline \<times> DeadlineEvent list \<times> notice_db)"
      using assms by (simp add: escalate_one_def l Let_def to escalation_draft_def)
    show ?thesis
    proof (cases "nd_idempotency_key ?n \<in> notice_keys nt")
      case True
      then show ?thesis using run to l by (intro silent) (auto simp: record_notification_def)
    next
      case False
      then show ?thesis using run to l by (intro notified) (auto simp: record_notification_def)
    qed
  qed
qed

lemma escalate_one_keys:
  assumes "escalate_one env manager db d nt = Inr (k, d', evs, nt')"
  shows "notice_keys nt \<subseteq> notice_keys nt' \<and> (notices_ok nt \<longrightarrow> notices_ok nt')"
  using assms
proof (cases rule: escalate_one_Inr)
  case (notified ladder level n)
  then show ?thesis using record_notification_cases [OF notified(6)] record_notification_ok [of nt "dv_now env" n] by simp
qed simp

text \<open>The same sweep later the same day finds nothing to do for the deadline.\<close>

definition same_sweep :: "deadline_env \<Rightarrow> deadline_env \<Rightarrow> bool" where
  "same_sweep env env' \<longleftrightarrow> utc_date (dv_now env') = utc_date (dv_now env) \<and> dv_sha256 env' = dv_sha256 env \<and>
     dv_lib env' = dv_lib env \<and> dv_overdue_enabled env' = dv_overdue_enabled env"

lemma escalate_one_again:
  assumes "escalate_one env manager db d nt = Inr (k, d', evs, nt')" "same_sweep env env'" "dl_rules db' = dl_rules db"
    "notice_keys nt' \<subseteq> notice_keys later"
  shows "escalate_one env' manager db' d' later = Inr (0, d', [], later)"
proof -
  have env: "dv_lib env' = dv_lib env" "dv_sha256 env' = dv_sha256 env" using assms(2) by (simp_all add: same_sweep_def)
  have dec: "decision_of env' ladder x = decision_of env ladder x" for ladder x
    using assms(2) by (simp add: evaluate_escalation_def same_sweep_def)
  have ladder: "deadline_ladder env' x db' = deadline_ladder env x db" for x
    unfolding deadline_ladder_def assms(3) env ..
  show ?thesis using assms(1)
  proof (cases rule: escalate_one_Inr)
    case (silent ladder)
    have "nd_idempotency_key (escalation_draft env (decision_of env ladder d) level recipient d) \<in> notice_keys later"
      if "should_notify (decision_of env ladder d)" "ed_level (decision_of env ladder d) = Some level"
        "recipient_of manager d level = Some recipient" for level recipient
      using silent(5,6) assms(4) that by blast
    then show ?thesis unfolding silent(3) escalate_one_def ladder dec
      by (auto simp: silent(1) Let_def escalation_draft_def env record_notification_def split: option.split)
  next
    case (notified ladder level n)
    let ?dec = "decision_of env ladder d"
    have d': "cd_due_at d' = cd_due_at d" "cd_last_escalation_level d' = ed_level ?dec"
      "deadline_ladder env d' db = Inr ladder"
      using notified(1) by (simp_all add: notified(4) escalated_def deadline_ladder_def)
    have "\<not> should_notify (decision_of env ladder d')"
      unfolding d' evaluate_escalation_def by (rule escalation_settled)
    then show ?thesis unfolding escalate_one_def ladder dec by (simp add: d'(3))
  qed
qed

lemma escalate_all_again:
  "escalate_all env manager db ds nt = Inr (n, ds', evs, nt') \<Longrightarrow> same_sweep env env' \<Longrightarrow> dl_rules db' = dl_rules db \<Longrightarrow>
     notice_keys nt' \<subseteq> notice_keys later \<Longrightarrow>
     escalate_all env' manager db' ds' later = Inr (0, ds', [], later) \<and> notice_keys nt \<subseteq> notice_keys nt'"
proof (induction ds arbitrary: nt n ds' evs)
  case (Cons d ds)
  show ?case
  proof (cases "is_open d")
    case False
    with Cons show ?thesis by (force simp: err_simps)
  next
    case True
    then obtain k d1 ev nt1 m ds1 evs1 where one: "escalate_one env manager db d nt = Inr (k, d1, ev, nt1)"
      and rest: "escalate_all env manager db ds nt1 = Inr (m, ds1, evs1, nt')" and ds': "ds' = d1 # ds1"
      using Cons.prems(1) by (auto simp: err_simps)
    note IH = Cons.IH [OF rest Cons.prems(2-4)]
    have "is_open d1" using one True by (cases rule: escalate_one_Inr) (simp_all add: is_open_def escalated_def)
    moreover have "escalate_one env' manager db' d1 later = Inr (0, d1, [], later)"
      using IH Cons.prems(4) by (intro escalate_one_again [OF one Cons.prems(2,3)]) blast
    moreover have "notice_keys nt \<subseteq> notice_keys nt'" using IH escalate_one_keys [OF one] by blast
    ultimately show ?thesis using IH ds' by simp
  qed
qed simp

text \<open>C31. A sweep does not repeat itself: after an escalation sweep has run, a second sweep on the same
  day notifies nobody and changes nothing, whatever the ladders are and whichever deadlines had no
  recipient.\<close>

theorem run_escalations_idempotent:
  assumes "run_escalations env manager db = Inr (n, db')" and "same_sweep env env'"
  shows "run_escalations env' manager db' = Inr (0, db')"
proof -
  obtain ds evs nt where r: "escalate_all env manager db (dl_deadlines db) (notifications (dl_case db)) = Inr (n, ds, evs, nt)"
    "db' = db\<lparr>dl_case := (dl_case db)\<lparr>notifications := nt\<rparr>, dl_deadlines := ds, dl_events := dl_events db @ evs\<rparr>"
    using assms(1) by (auto simp: run_escalations_def err_simps)
  have "dl_rules db' = dl_rules db" by (simp add: r(2))
  then have "escalate_all env' manager db' ds nt = Inr (0, ds, [], nt)"
    using escalate_all_again [OF r(1) assms(2) _ subset_refl] by blast
  then show ?thesis by (simp add: run_escalations_def r(2))
qed

text \<open>Three days before the due date the reviewer level applies; the manager is told.\<close>

definition ex_sweep_db :: deadline_db where
  "ex_sweep_db = ex_dl_db\<lparr>dl_deadlines := [\<lparr>cd_id = 100, cd_obligation_id = 5, cd_case_id = None,
     cd_deadline_type = ''STATUTORY_DUE'', cd_due_at = ex_noon + 3 * day_us, cd_internal_target_at = None,
     cd_status = ''APPROACHING'', cd_severity = ''NORMAL'', cd_assigned_owner = Some ''owner'', cd_backup_owner = None,
     cd_source_rule_id = None, cd_manually_overridden = False, cd_override_reason = None,
     cd_materialization_key = Some ''k'', cd_last_escalation_level = None, cd_last_escalated_at = None,
     cd_applied_adjustment = None, cd_completed_at = None, cd_completed_by_actor = None\<rparr>]\<rparr>"

theorem run_escalations_idempotent_witness:
  "\<exists>db'. run_escalations (ex_dl_env ex_noon 0) None ex_sweep_db = Inr (1, db') \<and>
     run_escalations (ex_dl_env (ex_noon + 1) 0) None db' = Inr (0, db')"
proof -
  have "map_sum id fst (run_escalations (ex_dl_env ex_noon 0) None ex_sweep_db) = Inr 1" by code_simp
  then obtain db' where r: "run_escalations (ex_dl_env ex_noon 0) None ex_sweep_db = Inr (1, db')"
    by (cases "run_escalations (ex_dl_env ex_noon 0) None ex_sweep_db") auto
  have "utc_date (ex_noon + 1) = utc_date ex_noon" by code_simp
  then have "same_sweep (ex_dl_env ex_noon 0) (ex_dl_env (ex_noon + 1) 0)"
    by (simp add: same_sweep_def ex_dl_env_def)
  with run_escalations_idempotent [OF r] r show ?thesis by blast
qed

subsection \<open>Histories of deadlines\<close>

definition deadline_history :: "DeadlineEvent list \<Rightarrow> uuid \<Rightarrow> DeadlineEvent list" where
  "deadline_history evs i = filter (\<lambda>ev. de_deadline_id ev = i) evs"

definition dated :: "DeadlineEvent list \<Rightarrow> DeadlineEvent list" where
  "dated h = filter (\<lambda>ev. de_new_due_at ev \<noteq> None) h"

definition date_linked :: "DeadlineEvent \<Rightarrow> DeadlineEvent \<Rightarrow> bool" where
  "date_linked a b \<longleftrightarrow> de_previous_due_at b = de_new_due_at a"

abbreviation event_types :: "DeadlineEvent list \<Rightarrow> string set" where
  "event_types h \<equiv> de_event_type ` set h"

text \<open>
  The history of a deadline starts with its creation; its dated events form a chain that ends at the
  present due date; and overrides, escalations and completions of the row are backed by an event.
\<close>

definition history_ok :: "DeadlineEvent list \<Rightarrow> datetime \<Rightarrow> bool" where
  "history_ok h due \<longleftrightarrow>
     h \<noteq> [] \<and> de_event_type (hd h) = ''CREATED'' \<and> ''CREATED'' \<notin> event_types (tl h) \<and>
     dated h \<noteq> [] \<and> successively date_linked (dated h) \<and> de_new_due_at (last (dated h)) = Some due"

definition deadline_ok :: "DeadlineEvent list \<Rightarrow> ComplianceDeadline \<Rightarrow> bool" where
  "deadline_ok h d \<longleftrightarrow>
     cd_deadline_type d \<in> set DeadlineType \<and> (is_open d \<or> cd_status d = ''COMPLETED'') \<and> history_ok h (cd_due_at d) \<and>
     (cd_status d = ''COMPLETED'' \<longrightarrow> cd_completed_at d \<noteq> None \<and> ''COMPLETED'' \<in> event_types h) \<and>
     (cd_manually_overridden d \<longleftrightarrow> cd_materialization_key d = None) \<and>
     (cd_manually_overridden d \<longleftrightarrow> ''MANUALLY_OVERRIDDEN'' \<in> event_types h) \<and>
     (cd_last_escalation_level d \<noteq> None \<longleftrightarrow> ''ESCALATED'' \<in> event_types h)"

definition keys_unique :: "ComplianceDeadline list \<Rightarrow> bool" where
  "keys_unique ds \<longleftrightarrow> (\<forall>a \<in> set ds. \<forall>b \<in> set ds. cd_materialization_key a \<noteq> None \<longrightarrow>
     cd_materialization_key a = cd_materialization_key b \<longrightarrow> cd_id a = cd_id b)"

definition deadline_inv :: "deadline_db \<Rightarrow> bool" where
  "deadline_inv db \<longleftrightarrow>
     distinct (map cd_id (dl_deadlines db)) \<and> keys_unique (dl_deadlines db) \<and>
     (\<forall>ev \<in> set (dl_events db). de_deadline_id ev \<in> cd_id ` set (dl_deadlines db)) \<and>
     (\<forall>d \<in> set (dl_deadlines db). deadline_ok (deadline_history (dl_events db) (cd_id d)) d) \<and>
     notices_ok (notifications (dl_case db)) \<and> case_inv (dl_case db)"

definition deadline_init :: "deadline_db \<Rightarrow> bool" where
  "deadline_init db \<longleftrightarrow> case_init (dl_case db) \<and> dl_deadlines db = [] \<and> dl_events db = [] \<and>
     notifications (dl_case db) = \<lparr>notices = [], notice_outbox = []\<rparr>"

text \<open>
  A step is a committed call of the deadline service, a step of the case service on the tables they
  share, or a change of the rules and time zones by other services.
\<close>

inductive deadline_step :: "deadline_db \<Rightarrow> deadline_db \<Rightarrow> bool" where
  step_materialize: "materialize_for_obligation env actor h oid db = Inr (created, db') \<Longrightarrow> deadline_step db db'"
| step_refresh: "deadline_step db (snd (refresh_statuses now db))"
| step_escalate: "run_escalations env manager db = Inr (n, db') \<Longrightarrow> deadline_step db db'"
| step_override: "override_deadline env str_dt who did due owner reason db = Inr (d, db') \<Longrightarrow> deadline_step db db'"
| step_complete: "complete_deadline env who did note db = Inr (d, db') \<Longrightarrow> deadline_step db db'"
| step_case: "case_step (dl_case db) c \<Longrightarrow> deadline_step db (db\<lparr>dl_case := c\<rparr>)"
| step_settings: "deadline_step db (db\<lparr>dl_rules := rs, dl_timezones := tz\<rparr>)"

subsection \<open>Every call keeps the histories\<close>

lemma history_simps [simp]:
  "deadline_history [] i = []" "deadline_history (evs @ evs') i = deadline_history evs i @ deadline_history evs' i"
  "dated (h @ h') = dated h @ dated h'"
  "deadline_history [ev] i = (if de_deadline_id ev = i then [ev] else [])"
  by (simp_all add: deadline_history_def dated_def)

lemma history_none: "(\<And>ev. ev \<in> set evs \<Longrightarrow> de_deadline_id ev \<noteq> i) \<Longrightarrow> deadline_history evs i = []"
  by (simp add: deadline_history_def filter_empty_conv)

lemma classify_open: "classify_status due now n \<in> set OPEN_DEADLINE_STATUSES"
  by (simp add: classify_status_def OPEN_DEADLINE_STATUSES_def)

lemma open_not_completed: "is_open d \<Longrightarrow> cd_status d \<noteq> ''COMPLETED''"
  by (auto simp: is_open_def OPEN_DEADLINE_STATUSES_def)

lemma history_ok_undated:
  "history_ok h due \<Longrightarrow> de_new_due_at ev = None \<Longrightarrow> de_event_type ev \<noteq> ''CREATED'' \<Longrightarrow> history_ok (h @ [ev]) due"
  by (simp add: history_ok_def) (simp add: dated_def)

lemma history_ok_dated:
  assumes "history_ok h due" "de_previous_due_at ev = Some due" "de_new_due_at ev = Some due'" "de_event_type ev \<noteq> ''CREATED''"
  shows "history_ok (h @ [ev]) due'"
proof -
  have "dated (h @ [ev]) = dated h @ [ev]" using assms(3) by (simp add: dated_def)
  then show ?thesis using assms by (auto simp del: history_simps simp: history_ok_def successively_append_iff date_linked_def)
qed

text \<open>Appending an event that carries no date.\<close>

lemma undated_event_ok:
  assumes "deadline_ok h d" "de_new_due_at ev = None" "de_event_type ev \<noteq> ''CREATED''" "de_event_type ev \<noteq> ''MANUALLY_OVERRIDDEN''"
    and "cd_deadline_type d' = cd_deadline_type d" "cd_due_at d' = cd_due_at d"
      "cd_manually_overridden d' = cd_manually_overridden d" "cd_materialization_key d' = cd_materialization_key d"
    and "is_open d' \<or> cd_status d' = ''COMPLETED''"
    and "cd_status d' = ''COMPLETED'' \<longrightarrow> cd_completed_at d' \<noteq> None \<and> ''COMPLETED'' \<in> event_types (h @ [ev])"
    and "cd_last_escalation_level d' \<noteq> None \<longleftrightarrow> ''ESCALATED'' \<in> event_types (h @ [ev])"
  shows "deadline_ok (h @ [ev]) d'"
  using assms history_ok_undated [of h "cd_due_at d" ev] unfolding deadline_ok_def by auto

lemma rewritten_sel [simp]:
  "cd_id (escalated env dec d) = cd_id d" "cd_materialization_key (escalated env dec d) = cd_materialization_key d"
  "cd_id (refresh_one now d) = cd_id d" "cd_materialization_key (refresh_one now d) = cd_materialization_key d"
  by (simp_all add: escalated_def refresh_one_def)

lemma escalated_ok:
  "deadline_ok h d \<Longrightarrow> ed_level dec = Some level \<Longrightarrow> deadline_ok (h @ [escalated_event env dec d]) (escalated env dec d)"
  by (rule undated_event_ok) (auto simp: escalated_def escalated_event_def deadline_ok_def is_open_def)

lemma refresh_ok: "deadline_ok h d \<Longrightarrow> deadline_ok h (refresh_one now d)"
  using classify_open [of "cd_due_at d" now 30] open_not_completed [of d] open_not_completed [of "refresh_one now d"]
  by (auto simp: refresh_one_def deadline_ok_def is_open_def)

text \<open>The dated event of an override.\<close>

lemma dated_event_ok:
  assumes "deadline_ok h d" "de_new_due_at ev = Some (cd_due_at d')" "de_previous_due_at ev = Some (cd_due_at d)"
    and "de_event_type ev \<noteq> ''CREATED''" "de_event_type ev \<noteq> ''ESCALATED''"
    and "cd_deadline_type d' = cd_deadline_type d" "cd_last_escalation_level d' = cd_last_escalation_level d"
      "cd_completed_at d' = cd_completed_at d" "cd_status d' = cd_status d \<or> is_open d'"
    and "cd_manually_overridden d' \<longleftrightarrow> cd_materialization_key d' = None"
      "cd_manually_overridden d' \<longleftrightarrow> ''MANUALLY_OVERRIDDEN'' \<in> event_types (h @ [ev])"
  shows "deadline_ok (h @ [ev]) d'"
  using assms history_ok_dated [of h "cd_due_at d" ev "cd_due_at d'"] open_not_completed [of d'] unfolding deadline_ok_def
  by (auto simp: is_open_def)

text \<open>Rows are rewritten and events appended.\<close>

lemma list_all2_set2: "list_all2 R xs ys \<Longrightarrow> y \<in> set ys \<Longrightarrow> \<exists>x \<in> set xs. R x y"
  by (induction rule: list_all2_induct) auto

lemma deadline_inv_update:
  assumes inv: "deadline_inv db"
    and rows: "list_all2 (\<lambda>d d'. cd_id d' = cd_id d \<and>
        (cd_materialization_key d' = None \<or> cd_materialization_key d' = cd_materialization_key d) \<and>
        (deadline_ok (deadline_history (dl_events db) (cd_id d)) d \<longrightarrow>
         deadline_ok (deadline_history (dl_events db') (cd_id d)) d')) (dl_deadlines db) (dl_deadlines db')"
    and evs: "\<And>ev. ev \<in> set (dl_events db') \<Longrightarrow> ev \<in> set (dl_events db) \<or> de_deadline_id ev \<in> cd_id ` set (dl_deadlines db)"
    and shared: "notices_ok (notifications (dl_case db'))" "case_inv (dl_case db')"
  shows "deadline_inv db'"
proof -
  have ids: "map cd_id (dl_deadlines db') = map cd_id (dl_deadlines db)"
    using rows by (induction rule: list_all2_induct) auto
  have set_ids: "cd_id ` set (dl_deadlines db') = cd_id ` set (dl_deadlines db)" using ids by (metis set_map)
  have old: "\<exists>d \<in> set (dl_deadlines db). cd_id d' = cd_id d \<and>
      (cd_materialization_key d' = None \<or> cd_materialization_key d' = cd_materialization_key d) \<and>
      deadline_ok (deadline_history (dl_events db') (cd_id d)) d'" if "d' \<in> set (dl_deadlines db')" for d'
    using list_all2_set2 [OF rows that] inv by (auto simp: deadline_inv_def)
  have "keys_unique (dl_deadlines db')"
    unfolding keys_unique_def
  proof (intro ballI impI)
    fix a b
    assume ab: "a \<in> set (dl_deadlines db')" "b \<in> set (dl_deadlines db')" "cd_materialization_key a \<noteq> None"
      "cd_materialization_key a = cd_materialization_key b"
    obtain a0 b0 where "a0 \<in> set (dl_deadlines db)" "cd_id a = cd_id a0" "cd_materialization_key a = cd_materialization_key a0"
      "b0 \<in> set (dl_deadlines db)" "cd_id b = cd_id b0" "cd_materialization_key b = cd_materialization_key b0"
      using old [OF ab(1)] old [OF ab(2)] ab(3,4) by metis
    then show "cd_id a = cd_id b" using inv ab(3,4) unfolding deadline_inv_def keys_unique_def by metis
  qed
  moreover have "deadline_ok (deadline_history (dl_events db') (cd_id d')) d'" if "d' \<in> set (dl_deadlines db')" for d'
    using old [OF that] by auto
  moreover have "de_deadline_id ev \<in> cd_id ` set (dl_deadlines db')" if "ev \<in> set (dl_events db')" for ev
    using evs [OF that] inv unfolding set_ids by (auto simp: deadline_inv_def)
  ultimately show ?thesis using inv shared ids by (simp add: deadline_inv_def)
qed

lemma put_row_rows:
  "(\<And>s. s \<in> set rows \<Longrightarrow> R s (if key s = key r then r else s)) \<Longrightarrow> list_all2 R rows (put_row key r rows)"
  by (simp add: put_row_def list_all2_map2 list.rel_refl_strong)

text \<open>One row is replaced and one event of it appended.\<close>

lemma deadline_inv_row:
  assumes inv: "deadline_inv db" and d: "get_row cd_id (dl_deadlines db) i = Some d"
    and d': "cd_id d' = cd_id d" "cd_materialization_key d' = None \<or> cd_materialization_key d' = cd_materialization_key d"
    and db': "dl_deadlines db' = put_row cd_id d' (dl_deadlines db)" "dl_events db' = dl_events db @ [ev]" "de_deadline_id ev = cd_id d"
      "notifications (dl_case db') = notifications (dl_case db)" "case_inv (dl_case db')"
    and ok: "\<And>h. deadline_ok h d \<Longrightarrow> deadline_ok (h @ [ev]) d'"
  shows "deadline_inv db'"
proof (rule deadline_inv_update [OF inv])
  have dist: "distinct (map cd_id (dl_deadlines db))" using inv by (simp add: deadline_inv_def)
  have eq: "s = d" if "s \<in> set (dl_deadlines db)" "cd_id s = cd_id d" for s
  proof -
    have "get_row cd_id (dl_deadlines db) i = Some s"
      using get_row_member [OF dist that(1)] that(2) get_row_SomeD [OF d] by metis
    with d show ?thesis by simp
  qed
  show "list_all2 (\<lambda>d d'. cd_id d' = cd_id d \<and>
        (cd_materialization_key d' = None \<or> cd_materialization_key d' = cd_materialization_key d) \<and>
        (deadline_ok (deadline_history (dl_events db) (cd_id d)) d \<longrightarrow>
         deadline_ok (deadline_history (dl_events db') (cd_id d)) d')) (dl_deadlines db) (dl_deadlines db')"
    unfolding db'(1)
  proof (rule put_row_rows)
    fix s
    assume s: "s \<in> set (dl_deadlines db)"
    show "cd_id (if cd_id s = cd_id d' then d' else s) = cd_id s \<and>
        (cd_materialization_key (if cd_id s = cd_id d' then d' else s) = None \<or>
         cd_materialization_key (if cd_id s = cd_id d' then d' else s) = cd_materialization_key s) \<and>
        (deadline_ok (deadline_history (dl_events db) (cd_id s)) s \<longrightarrow>
         deadline_ok (deadline_history (dl_events db') (cd_id s)) (if cd_id s = cd_id d' then d' else s))"
    proof (cases "cd_id s = cd_id d")
      case True
      then have "s = d" by (rule eq [OF s])
      then show ?thesis using d' ok [of "deadline_history (dl_events db) (cd_id d)"] by (simp add: db'(2,3))
    next
      case False
      then show ?thesis by (simp add: d'(1) db'(2,3))
    qed
  qed
  show "notices_ok (notifications (dl_case db'))" using inv db'(4) by (simp add: deadline_inv_def)
  show "case_inv (dl_case db')" by (rule db'(5))
  show "ev' \<in> set (dl_events db) \<or> de_deadline_id ev' \<in> cd_id ` set (dl_deadlines db)" if "ev' \<in> set (dl_events db')" for ev'
    using that db'(2,3) imageI [OF conjunct1 [OF get_row_SomeD [OF d]], of cd_id] by auto
qed

lemma override_inv:
  assumes "override_deadline env str_dt who did due owner reason db = Inr (d', db')" "deadline_inv db"
  shows "deadline_inv db'"
proof -
  obtain d where d: "get_row cd_id (dl_deadlines db) did = Some d"
    using assms(1) by (auto simp: override_deadline_def split: option.splits)
  have inv: "case_inv (dl_case db)" using assms(2) by (simp add: deadline_inv_def)
  let ?ev = "\<lparr>de_deadline_id = cd_id d, de_event_type = (if due \<noteq> None then ''MANUALLY_OVERRIDDEN'' else ''OWNER_CHANGED''),
      de_previous_due_at = Some (cd_due_at d), de_new_due_at = Some (cd_due_at d'), de_actor_id = Some (actor_id who),
      de_reason = Some (take 500 (py_strip reason)), de_occurred_at = dv_now env\<rparr>"
  have db': "dl_deadlines db' = put_row cd_id d' (dl_deadlines db)" "dl_events db' = dl_events db @ [?ev]"
      "notifications (dl_case db') = notifications (dl_case db)" "case_inv (dl_case db')"
    and d': "cd_id d' = cd_id d" "cd_deadline_type d' = cd_deadline_type d" "cd_completed_at d' = cd_completed_at d"
      "cd_last_escalation_level d' = cd_last_escalation_level d"
      "cd_manually_overridden d' = (due \<noteq> None \<or> cd_manually_overridden d)"
      "cd_materialization_key d' = (if due = None then cd_materialization_key d else None)"
      "due = None \<longrightarrow> cd_status d' = cd_status d" "due \<noteq> None \<longrightarrow> is_open d'"
    using assms(1) inv d classify_open
    by (auto simp: override_deadline_def Let_def is_open_def add_licensing_audit_def [of _ "dl_case db"] case_inv_def
        open_cases_def case_history_def split: if_splits option.splits)
  show ?thesis
  proof (rule deadline_inv_row [OF assms(2) d d'(1) _ db'(1,2) _ db'(3,4)])
    fix h
    assume "deadline_ok h d"
    then show "deadline_ok (h @ [?ev]) d'"
      by (rule dated_event_ok) (use d' \<open>deadline_ok h d\<close> in \<open>auto simp: deadline_ok_def split: if_splits\<close>)
  qed (use d'(6) in auto)
qed

lemma complete_inv:
  assumes "complete_deadline env who did note db = Inr (d', db')" "deadline_inv db"
  shows "deadline_inv db'"
proof -
  obtain d where d: "get_row cd_id (dl_deadlines db) did = Some d"
    using assms(1) by (auto simp: complete_deadline_def split: option.splits)
  show ?thesis
  proof (cases "cd_status d = ''COMPLETED''")
    case True
    then show ?thesis using assms d by (simp add: complete_deadline_def)
  next
    case False
    let ?d = "d\<lparr>cd_status := ''COMPLETED'', cd_completed_at := Some (dv_now env), cd_completed_by_actor := Some (actor_id who)\<rparr>"
    have inv: "case_inv (dl_case db)" using assms(2) by (simp add: deadline_inv_def)
    show ?thesis
    proof (rule deadline_inv_row [OF assms(2) d, where d' = ?d])
      fix h
      assume "deadline_ok h d"
      then show "deadline_ok (h @ [\<lparr>de_deadline_id = cd_id d, de_event_type = ''COMPLETED'', de_previous_due_at = None,
          de_new_due_at = None, de_actor_id = Some (actor_id who), de_reason = note, de_occurred_at = dv_now env\<rparr>]) ?d"
        by (rule undated_event_ok) (use \<open>deadline_ok h d\<close> in \<open>auto simp: deadline_ok_def\<close>)
    qed (use assms(1) d False inv in \<open>auto simp: complete_deadline_def Let_def\<close>)
  qed
qed

lemma escalate_all_rows:
  "escalate_all env manager db ds nt = Inr (n, ds', evs, nt') \<Longrightarrow> distinct (map cd_id ds) \<Longrightarrow>
     list_all2 (\<lambda>d d'. (d' = d \<and> deadline_history evs (cd_id d) = []) \<or>
       (\<exists>dec level. ed_level dec = Some level \<and> d' = escalated env dec d \<and>
          deadline_history evs (cd_id d) = [escalated_event env dec d])) ds ds' \<and>
     (\<forall>ev \<in> set evs. de_deadline_id ev \<in> cd_id ` set ds) \<and> (notices_ok nt \<longrightarrow> notices_ok nt')"
proof (induction ds arbitrary: nt n ds' evs)
  case (Cons d ds)
  obtain k d1 ev nt1 m ds1 evs1 where
    one: "k = 0 \<and> d1 = d \<and> ev = [] \<and> nt1 = nt \<or> escalate_one env manager db d nt = Inr (k, d1, ev, nt1)"
    and rest: "escalate_all env manager db ds nt1 = Inr (m, ds1, evs1, nt')" and eq: "ds' = d1 # ds1" "evs = ev @ evs1"
  proof (cases "is_open d")
    case True
    then obtain k d1 ev nt1 m ds1 evs1 where "escalate_one env manager db d nt = Inr (k, d1, ev, nt1)"
      "escalate_all env manager db ds nt1 = Inr (m, ds1, evs1, nt')" "ds' = d1 # ds1" "evs = ev @ evs1"
      using Cons.prems(1) by (auto simp: err_simps)
    then show ?thesis using that by blast
  next
    case False
    then obtain ds1 where "escalate_all env manager db ds nt = Inr (n, ds1, evs, nt')" "ds' = d # ds1"
      using Cons.prems(1) by (auto simp: err_simps)
    then show ?thesis using that [of 0 d "[]" nt n ds1 evs] by simp
  qed
  have IH: "list_all2 (\<lambda>d d'. (d' = d \<and> deadline_history evs1 (cd_id d) = []) \<or>
       (\<exists>dec level. ed_level dec = Some level \<and> d' = escalated env dec d \<and>
          deadline_history evs1 (cd_id d) = [escalated_event env dec d])) ds ds1"
    "\<forall>ev \<in> set evs1. de_deadline_id ev \<in> cd_id ` set ds" "notices_ok nt1 \<longrightarrow> notices_ok nt'"
    using Cons.IH [OF rest] Cons.prems(2) by auto
  have ev: "ev = [] \<and> d1 = d \<or> (\<exists>dec level. ed_level dec = Some level \<and> d1 = escalated env dec d \<and> ev = [escalated_event env dec d])"
    using one by (auto elim!: escalate_one_Inr)
  have nt1: "notices_ok nt \<longrightarrow> notices_ok nt1" using one escalate_one_keys by blast
  have "cd_id d \<notin> cd_id ` set ds" using Cons.prems(2) by simp
  then have "deadline_history evs1 (cd_id d) = []" using IH(2) by (intro history_none) metis
  moreover have "deadline_history evs (cd_id x) = deadline_history evs1 (cd_id x)" if "x \<in> set ds" for x
    using ev that Cons.prems(2) by (auto simp: eq(2) escalated_event_def)
  then have "list_all2 (\<lambda>d d'. (d' = d \<and> deadline_history evs (cd_id d) = []) \<or>
       (\<exists>dec level. ed_level dec = Some level \<and> d' = escalated env dec d \<and>
          deadline_history evs (cd_id d) = [escalated_event env dec d])) ds ds1"
    using IH(1) by (auto elim!: list.rel_mono_strong)
  ultimately show ?case using ev IH(2,3) nt1 by (auto simp: eq escalated_event_def)
qed simp

lemma escalate_inv:
  assumes "run_escalations env manager db = Inr (n, db')" "deadline_inv db"
  shows "deadline_inv db'"
proof -
  obtain ds evs nt where r: "escalate_all env manager db (dl_deadlines db) (notifications (dl_case db)) = Inr (n, ds, evs, nt)"
    "db' = db\<lparr>dl_case := (dl_case db)\<lparr>notifications := nt\<rparr>, dl_deadlines := ds, dl_events := dl_events db @ evs\<rparr>"
    using assms(1) by (auto simp: run_escalations_def err_simps)
  have dist: "distinct (map cd_id (dl_deadlines db))" "notices_ok (notifications (dl_case db))" "case_inv (dl_case db)"
    using assms(2) by (simp_all add: deadline_inv_def)
  note rows = escalate_all_rows [OF r(1) dist(1)]
  show ?thesis
  proof (rule deadline_inv_update [OF assms(2)])
    show "list_all2 (\<lambda>d d'. cd_id d' = cd_id d \<and>
        (cd_materialization_key d' = None \<or> cd_materialization_key d' = cd_materialization_key d) \<and>
        (deadline_ok (deadline_history (dl_events db) (cd_id d)) d \<longrightarrow>
         deadline_ok (deadline_history (dl_events db') (cd_id d)) d')) (dl_deadlines db) (dl_deadlines db')"
      unfolding r(2) by (simp, rule list.rel_mono_strong [OF conjunct1 [OF rows]])
        (auto simp: escalated_ok)
    show "case_inv (dl_case db')" 
      using dist(3) case_inv_cong [of "(dl_case db)\<lparr>notifications := nt\<rparr>" "dl_case db"] by (simp add: r(2))
  qed (use rows dist(2) in \<open>auto simp: r(2)\<close>)
qed

lemma refresh_inv:
  assumes "deadline_inv db"
  shows "deadline_inv (snd (refresh_statuses now db))"
proof (rule deadline_inv_update [OF assms])
  have "list_all2 (\<lambda>d d'. cd_id d' = cd_id d \<and>
        (cd_materialization_key d' = None \<or> cd_materialization_key d' = cd_materialization_key d) \<and>
        (deadline_ok (deadline_history (dl_events db) (cd_id d)) d \<longrightarrow>
         deadline_ok (deadline_history (dl_events db) (cd_id d)) d')) ds (map (refresh_one now) ds)" for ds
    by (induction ds) (simp_all add: refresh_ok)
  then show "list_all2 (\<lambda>d d'. cd_id d' = cd_id d \<and>
        (cd_materialization_key d' = None \<or> cd_materialization_key d' = cd_materialization_key d) \<and>
        (deadline_ok (deadline_history (dl_events db) (cd_id d)) d \<longrightarrow>
         deadline_ok (deadline_history (dl_events (snd (refresh_statuses now db))) (cd_id d)) d'))
      (dl_deadlines db) (dl_deadlines (snd (refresh_statuses now db)))"
    by (simp add: refresh_statuses_def)
qed (use assms in \<open>auto simp: refresh_statuses_def deadline_inv_def\<close>)

lemma filter_key_single: "distinct (map f xs) \<Longrightarrow> x \<in> set xs \<Longrightarrow> filter (\<lambda>y. f y = f x) xs = [x]"
proof (induction xs)
  case (Cons y ys)
  show ?case
  proof (cases "y = x")
    case True
    then have "f z \<noteq> f x" if "z \<in> set ys" for z using Cons.prems(1) imageI [OF that, of f] by auto
    then show ?thesis using True by (simp add: filter_empty_conv)
  next
    case False
    then have "f y \<noteq> f x" using Cons.prems imageI [of x "set ys" f] by auto
    then show ?thesis using False Cons by simp
  qed
qed simp

lemma materialize_inv:
  assumes "materialize_for_obligation env actor h oid db = Inr (created, db')" "deadline_inv db"
  shows "deadline_inv db'"
  using assms(1)
proof (cases rule: materialize_Inr)
  case (planned ob p planned)
  note cp = create_planned_Inr [OF planned(4)]
  have inv: "distinct (map cd_id (dl_deadlines db))" "keys_unique (dl_deadlines db)"
    "\<forall>ev \<in> set (dl_events db). de_deadline_id ev \<in> cd_id ` set (dl_deadlines db)"
    "\<forall>d \<in> set (dl_deadlines db). deadline_ok (deadline_history (dl_events db) (cd_id d)) d"
    "notices_ok (notifications (dl_case db))" "case_inv (dl_case db)"
    using assms(2) by (simp_all add: deadline_inv_def)
  have new: "distinct (map cd_id created)" "distinct (map cd_materialization_key created)"
    "\<And>d. d \<in> set created \<Longrightarrow> cd_id d \<notin> cd_id ` set (dl_deadlines db) \<and>
       cd_materialization_key d \<notin> cd_materialization_key ` set (dl_deadlines db) \<and> cd_deadline_type d \<in> set DeadlineType \<and>
       (\<exists>i q. d = new_deadline env i ob q)"
    using cp by blast+
  have hist: "deadline_history (map (created_event env actor p) ds) i = map (created_event env actor p) (filter (\<lambda>d. cd_id d = i) ds)" for ds i
    by (induction ds) (simp_all add: deadline_history_def created_event_def)
  have old: "deadline_history (dl_events db') (cd_id d) = deadline_history (dl_events db) (cd_id d)"
    if "d \<in> set (dl_deadlines db)" for d
    using new(3) imageI [OF that, of cd_id] by (force simp: planned(5) hist filter_empty_conv)
  have fresh: "deadline_history (dl_events db') (cd_id d) = [created_event env actor p d]" if "d \<in> set created" for d
  proof -
    have "deadline_history (dl_events db) (cd_id d) = []" using inv(3) new(3) [OF that] by (intro history_none) auto
    moreover have "filter (\<lambda>d'. cd_id d' = cd_id d) created = [d]"
      by (rule filter_key_single [OF new(1) that])
    ultimately show ?thesis by (simp add: planned(5) hist)
  qed
  have "deadline_ok [created_event env actor p d] d" if "d \<in> set created" for d
  proof -
    note nd = new(3) [OF that]
    obtain i q where d: "d = new_deadline env i ob q" using nd by blast
    have "is_open d" "\<not> cd_manually_overridden d" "cd_materialization_key d \<noteq> None" "cd_last_escalation_level d = None"
      by (simp_all add: d is_open_def new_deadline_def classify_open)
    then show ?thesis using nd open_not_completed [of d]
      by (simp add: deadline_ok_def history_ok_def dated_def created_event_def)
  qed
  moreover have "keys_unique (dl_deadlines db')"
    unfolding keys_unique_def
  proof (intro ballI impI)
    fix a b
    assume ab: "a \<in> set (dl_deadlines db')" "b \<in> set (dl_deadlines db')" "cd_materialization_key a \<noteq> None"
      "cd_materialization_key a = cd_materialization_key b"
    consider "a \<in> set (dl_deadlines db)" "b \<in> set (dl_deadlines db)" | "a \<in> set created" "b \<in> set created"
      | "a \<in> set (dl_deadlines db)" "b \<in> set created" | "a \<in> set created" "b \<in> set (dl_deadlines db)"
      using ab(1,2) by (auto simp: planned(5))
    then show "cd_id a = cd_id b"
    proof cases
      case 1
      then show ?thesis using inv(2) ab(3,4) unfolding keys_unique_def by blast
    next
      case 2
      have "inj_on cd_materialization_key (set created)" using new(2) by (simp add: distinct_map)
      then have "a = b" by (rule inj_onD [OF _ ab(4) 2])
      then show ?thesis by simp
    next
      case 3
      then show ?thesis using new(3) [OF 3(2)] imageI [OF 3(1), of cd_materialization_key] ab(4) by simp
    next
      case 4
      then show ?thesis using new(3) [OF 4(1)] imageI [OF 4(2), of cd_materialization_key] ab(4) by simp
    qed
  qed
  moreover have "case_inv (dl_case db')"
    by (rule case_inv_obligations [OF inv(6), where obs = "obligations (dl_case db')"])
      (use planned(1) inv(6) in \<open>simp_all add: planned(5) put_obligation_keeps case_inv_def\<close>)
  ultimately show ?thesis
    using inv new(1) materialized_ids [OF inv(1) planned(4)] old fresh
    unfolding deadline_inv_def by (auto simp: planned(5) created_event_def)
qed (use assms(2) in simp)

subsection \<open>The case service keeps the notifications\<close>

lemma create_obligation_notifications:
  "create_obligation env actor f db = Inr (ob, db') \<Longrightarrow> notifications db' = notifications db"
  by (auto simp: create_obligation_def err_simps Let_def add_licensing_audit_def split: if_splits option.splits)

lemma update_obligation_notifications:
  "update_obligation env a oid chs db = Inr (ob, db') \<Longrightarrow> notifications db' = notifications db"
  by (auto simp: update_obligation_def err_simps Let_def add_licensing_audit_def split: if_splits option.splits)

lemma create_next_obligation_notifications:
  "create_next_obligation env actor d oid db = Inr (r, db') \<Longrightarrow> notifications db' = notifications db"
  by (auto simp: create_next_obligation_def err_simps Let_def create_obligation_notifications split: if_splits option.splits)

lemma open_case_notifications:
  "open_case env actor owner prio oid db = Inr (c, db') \<Longrightarrow> notifications db' = notifications db"
  by (auto simp: open_case_def err_simps Let_def add_licensing_audit_def split: if_splits option.splits list.splits)

lemma update_case_notifications:
  "update_case env a cid cchs db = Inr (c, db') \<Longrightarrow> notifications db' = notifications db"
  by (auto simp: update_case_def err_simps Let_def add_licensing_audit_def split: if_splits option.splits)

lemma case_transition_notifications:
  "case_transition env rq db = Inr (c, db') \<Longrightarrow> notifications db' = notifications db"
  by (auto elim!: case_transition_Inr simp: add_licensing_audit_def)

lemma create_request_notifications:
  "create_information_request env a cid q d rf due se vq db = Inr (ir, db') \<Longrightarrow> notices_ok (notifications db) \<Longrightarrow>
     notices_ok (notifications db')"
  by (auto simp: create_information_request_def err_simps Let_def add_licensing_audit_def record_notification_ok
      split: if_splits option.splits)

lemma update_request_notifications:
  "update_information_request env a rid st rf rv n db = Inr (ir, db') \<Longrightarrow> notifications db' = notifications db"
  by (cases "get_row ir_id (info_requests db) rid")
    (auto simp: update_information_request_def err_simps Let_def add_licensing_audit_def)

lemma case_step_notices: "case_step db db' \<Longrightarrow> notices_ok (notifications db) \<Longrightarrow> notices_ok (notifications db')"
  by (induction rule: case_step.induct)
    (auto dest: create_obligation_notifications update_obligation_notifications create_next_obligation_notifications
      open_case_notifications update_case_notifications case_transition_notifications create_request_notifications
      update_request_notifications)

subsection \<open>Reachable states\<close>

lemma deadline_step_inv: "deadline_step db db' \<Longrightarrow> deadline_inv db \<Longrightarrow> deadline_inv db'"
proof (induction rule: deadline_step.induct)
  case (step_case db c)
  then show ?case using case_step_notices [OF step_case(1)] case_step_inv [OF step_case(1)] by (simp add: deadline_inv_def)
next
  case (step_settings db rs tz)
  then show ?case by (simp add: deadline_inv_def)
qed (blast intro: materialize_inv refresh_inv escalate_inv override_inv complete_inv)+

lemma deadline_init_inv: "deadline_init db \<Longrightarrow> deadline_inv db"
  by (auto simp: deadline_init_def deadline_inv_def keys_unique_def notices_ok_def case_init_inv)

interpretation deadline_sys: invariant_system deadline_init deadline_step deadline_inv
  by unfold_locales (blast intro: deadline_init_inv deadline_step_inv)+

text \<open>The sweep over all obligations is a sequence of such steps.\<close>

lemma materialize_loop_steps:
  "materialize_loop envs actor i oids db = Inr (n, db') \<Longrightarrow> deadline_step\<^sup>*\<^sup>* db db'"
proof (induction oids arbitrary: i n db)
  case (Cons oid oids)
  then obtain created db1 m where "materialize_for_obligation (envs i) actor None oid db = Inr (created, db1)"
    "materialize_loop envs actor (Suc i) oids db1 = Inr (m, db')" by (auto simp: err_simps)
  then show ?case using Cons.IH converse_rtranclp_into_rtranclp [of deadline_step db db1] step_materialize by metis
qed simp

text \<open>C5. In every state that the calls of the deadline service and of the case service reach, in any
  order, deadlines have unique identifiers and unique materialization keys, and the history of a deadline
  explains it: it starts with the one creation, its dated events are linked from each previous date to the
  next and end at the present due date, the deadline has lost its key exactly if an override is recorded,
  and a completed status or an escalation level is backed by an event. This covers the sweep over all
  obligations.\<close>

theorem deadline_histories_explain_deadlines:
  assumes "reach deadline_init deadline_step db"
    and "db' = db \<or> materialize_all envs actor limit db = Inr (counts, db')"
  shows "distinct (map cd_id (dl_deadlines db')) \<and> keys_unique (dl_deadlines db') \<and>
     (\<forall>d \<in> set (dl_deadlines db'). deadline_ok (deadline_history (dl_events db') (cd_id d)) d)"
proof -
  have "deadline_inv db" using assms(1) by (rule deadline_sys.reach_inv)
  moreover have "deadline_step\<^sup>*\<^sup>* db db'"
    using assms(2) by (auto simp: materialize_all_def err_simps Let_def dest: materialize_loop_steps)
  ultimately have "deadline_inv db'" using deadline_sys.run_inv by blast
  then show ?thesis by (simp add: deadline_inv_def)
qed

lemma ex_reachable: "reach deadline_init deadline_step (snd ex_dl_run)"
proof -
  let ?s = "ex_dl_db\<lparr>dl_case := ex_db0\<rparr>"
  have "deadline_init ?s" by (simp add: deadline_init_def case_init_def ex_dl_db_def ex_db0_def)
  moreover have "case_step (dl_case ?s) (dl_case ex_dl_db)" 
    using case_step.step_create [OF ex_dl_created] by (simp add: ex_dl_fields_def ex_fields_def)
  then have "deadline_step ?s ex_dl_db" using step_case [of ?s "dl_case ex_dl_db"] by simp
  moreover have "deadline_step ex_dl_db (snd ex_dl_run)" using ex_materialized step_materialize by blast
  ultimately show ?thesis by (meson reach_init reach_step)
qed

theorem deadline_histories_explain_deadlines_witness:
  "map cd_id (dl_deadlines (snd ex_dl_run)) = [100, 101] \<and>
   list_all (\<lambda>d. deadline_ok (deadline_history (dl_events (snd ex_dl_run)) (cd_id d)) d) (dl_deadlines (snd ex_dl_run))"
  using deadline_histories_explain_deadlines [OF ex_reachable disjI1 [OF refl]] ex_materialized by (simp add: list_all_iff)

end
