(* ===== verification/Packet_Matching.thy ===== *)
theory Packet_Matching
  imports Conditions Recurrence Prelude
begin

text \<open>
  Selection of documents for the checklist of a packet (\<^verbatim>\<open>app/packets/matching.py\<close>): the
  eligibility checks of one candidate, with a typed rejection for each failed one, the choice among the
  eligible ones by the strategy of the item, and the status reported when there is none. Strings are
  ASCII, so that \<^verbatim>\<open>casefold\<close> is lowering.
\<close>

subsection \<open>UUIDs from text\<close>

text \<open>
  \<^verbatim>\<open>uuid.UUID(s)\<close>: the prefixes, the braces and the dashes are removed, 32 characters must remain and
  \<^verbatim>\<open>int(hex, 16)\<close> must accept them; \<^verbatim>\<open>None\<close> for its \<^verbatim>\<open>ValueError\<close>.
\<close>

fun hex_digits :: "bool \<Rightarrow> int \<Rightarrow> string \<Rightarrow> int option" where
  "hex_digits after_digit acc [] = (if after_digit then Some acc else None)"
| "hex_digits after_digit acc (c # cs) =
     (case hex_val c of
        Some d \<Rightarrow> hex_digits True (16 * acc + d) cs
      | None \<Rightarrow> if c = CHR ''_'' \<and> after_digit then hex_digits False acc cs else None)"

definition parse_hex :: "string \<Rightarrow> int option" where
  "parse_hex s =
     (let t = py_strip s;
          (neg, body) = (case t of
             c # cs \<Rightarrow> if c = CHR ''-'' then (True, cs) else if c = CHR ''+'' then (False, cs) else (False, t)
           | [] \<Rightarrow> (False, t));
          prefixed = (take 2 body = ''0x'' \<or> take 2 body = ''0X'');
          rest = (if prefixed then drop 2 body else body);
          digits = (if prefixed \<and> take 1 rest = ''_'' then drop 1 rest else rest)
      in map_option (\<lambda>n. if neg then - n else n) (hex_digits False 0 digits))"

text \<open>\<^verbatim>\<open>s.replace(old, "")\<close> for a non-empty \<^verbatim>\<open>old\<close>.\<close>

function remove_all :: "string \<Rightarrow> string \<Rightarrow> string" where
  "remove_all old s =
     (case s of
        [] \<Rightarrow> []
      | c # cs \<Rightarrow> if old \<noteq> [] \<and> take (length old) s = old then remove_all old (drop (length old) s)
                 else c # remove_all old cs)"
  by pat_completeness auto

termination
  by (relation "measure (\<lambda>(old, s). length s)") auto

declare remove_all.simps [simp del]

definition strip_chars :: "char list \<Rightarrow> string \<Rightarrow> string" where
  "strip_chars cs s = rev (dropWhile (\<lambda>c. c \<in> set cs) (rev (dropWhile (\<lambda>c. c \<in> set cs) s)))"

definition uuid_of_string :: "string \<Rightarrow> uuid option" where
  "uuid_of_string s =
     (let h = filter (\<lambda>c. c \<noteq> CHR ''-'') (strip_chars ''{}'' (remove_all ''uuid:'' (remove_all ''urn:'' s)))
      in if length h \<noteq> 32 then None
         else case parse_hex h of
           None \<Rightarrow> None
         | Some n \<Rightarrow> if 0 \<le> n \<and> n < 2 ^ 128 then Some (nat n) else None)"

subsection \<open>Data\<close>

record CandidateDocument =
  cand_document_id :: uuid
  cand_document_version_id :: "uuid option"
  cand_document_type :: string
  cand_canonical_title :: string
  cand_filename :: string
  cand_content_sha256 :: "string option"
  cand_version_sha256 :: "string option"
  cand_lifecycle_status :: string
  cand_approval_status :: string
  cand_confidentiality_level :: string
  cand_storage_status :: string
  cand_legal_entity :: "string option"
  cand_jurisdiction :: "string option"
  cand_license_type :: "string option"
  cand_issue_date :: "date option"
  cand_effective_date :: "date option"
  cand_expiry_date :: "date option"
  cand_approved_at :: "datetime option"
  cand_reusable :: bool
  cand_approved_for_reuse :: bool
  cand_is_current_version :: bool
  cand_size_bytes :: int
  cand_storage_uri :: "string option"

record ItemRequirement =
  rq_item_key :: string
  rq_document_type :: string
  rq_required :: bool
  rq_selection_policy :: jdict
  rq_sort_order :: int
  rq_instructions :: "string option"

definition strategy :: "rule_lib \<Rightarrow> ItemRequirement \<Rightarrow> string" where
  "strategy lib r = py_str lib (jget_or (rq_selection_policy r) ''strategy'' (JStr ''LATEST_APPROVED''))"

definition max_age_days :: "ItemRequirement \<Rightarrow> py_error + int option" where
  "max_age_days r =
     (let v = jget_or (rq_selection_policy r) ''max_age_days'' JNull
      in if truthy v then bindE (py_int v) (\<lambda>n. Inr (Some n)) else Inr None)"

definition require_reuse_approval :: "ItemRequirement \<Rightarrow> bool" where
  "require_reuse_approval r = truthy (jget_or (rq_selection_policy r) ''require_reuse_approval'' (JBool False))"

definition max_confidentiality :: "rule_lib \<Rightarrow> ItemRequirement \<Rightarrow> string" where
  "max_confidentiality lib r = py_str lib (jget_or (rq_selection_policy r) ''max_confidentiality'' (JStr ''RESTRICTED''))"

definition explicit_document_id :: "rule_lib \<Rightarrow> ItemRequirement \<Rightarrow> uuid option" where
  "explicit_document_id lib r =
     (let raw = jget_or (rq_selection_policy r) ''document_id'' JNull
      in if truthy raw then uuid_of_string (py_str lib raw) else None)"

record MatchContext =
  mc_legal_entity_key :: string
  mc_legal_entity_name :: "string option"
  mc_jurisdiction_key :: "string option"
  mc_jurisdiction_name :: "string option"
  mc_license_type_key :: "string option"
  mc_license_type_name :: "string option"
  mc_today :: date

record Rejection =
  rj_code :: string
  rj_detail :: string
  rj_item_status :: string

record MatchResult =
  mr_item_key :: string
  mr_document_type :: string
  mr_required :: bool
  mr_sort_order :: int
  mr_status :: string
  mr_document :: "CandidateDocument option"
  mr_inclusion_reason :: "string option"
  mr_rejections :: "Rejection list"
  mr_considered_count :: int

definition is_included :: "MatchResult \<Rightarrow> bool" where
  "is_included r \<longleftrightarrow> mr_status r = ''MATCHED'' \<or> mr_status r = ''INCLUDED''"

definition CONFIDENTIALITY_ORDER :: "string \<Rightarrow> int" where
  "CONFIDENTIALITY_ORDER s =
     (case map_of [(''INTERNAL'', 1), (''CONFIDENTIAL'', 2), (''RESTRICTED'', 3)] s of None \<Rightarrow> 3 | Some n \<Rightarrow> n)"

subsection \<open>Eligibility\<close>

definition matches_scope :: "string option \<Rightarrow> string option list \<Rightarrow> bool" where
  "matches_scope v keys =
     (case v of
        None \<Rightarrow> False
      | Some s \<Rightarrow>
        if py_strip s = [] then False
        else list_ex (\<lambda>key. case key of None \<Rightarrow> False | Some k \<Rightarrow> k \<noteq> [] \<and> lower_ascii (py_strip s) = lower_ascii (py_strip k)) keys)"

text \<open>A string column that is neither NULL nor empty.\<close>

definition str_truthy :: "string option \<Rightarrow> bool" where
  "str_truthy s \<longleftrightarrow> s \<noteq> None \<and> s \<noteq> Some []"

definition rejection :: "string \<Rightarrow> string \<Rightarrow> string \<Rightarrow> Rejection" where
  "rejection code detail item_status = \<lparr>rj_code = code, rj_detail = detail, rj_item_status = item_status\<rparr>"

definition lifecycle_problems :: "CandidateDocument \<Rightarrow> Rejection list" where
  "lifecycle_problems c =
     (let s = cand_lifecycle_status c in
      if s = ''EXPIRED'' then [rejection ''DOCUMENT_EXPIRED'' ''The document lifecycle status is EXPIRED.'' ''EXPIRED'']
      else if s = ''SUPERSEDED'' then [rejection ''DOCUMENT_SUPERSEDED'' ''A newer version supersedes this document.'' ''EXPIRED'']
      else if s = ''QUARANTINED'' then [rejection ''DOCUMENT_QUARANTINED'' ''The document is quarantined.'' ''UNAPPROVED'']
      else if s \<noteq> ''ACTIVE''
      then [rejection ''DOCUMENT_NOT_AVAILABLE'' (''Lifecycle status '' @ s @ '' is not includable.'') ''UNAPPROVED'']
      else [])"

definition age_problems :: "CandidateDocument \<Rightarrow> int option \<Rightarrow> date \<Rightarrow> Rejection list" where
  "age_problems c max_age reference =
     (case max_age of
        None \<Rightarrow> []
      | Some n \<Rightarrow>
        (case cand_effective_date c of
           None \<Rightarrow> []
         | Some e \<Rightarrow>
           (let age = days_between reference e in
            if n \<noteq> 0 \<and> n < age
            then [rejection ''DOCUMENT_EXPIRED''
                    (''The document is '' @ str_int age @ '' days old, beyond the '' @ str_int n @
                     ''-day limit for this item.'') ''EXPIRED'']
            else [])))"

definition hash_problems :: "CandidateDocument \<Rightarrow> Rejection list" where
  "hash_problems c =
     (if str_truthy (cand_content_sha256 c) \<and> str_truthy (cand_version_sha256 c) \<and>
         cand_content_sha256 c \<noteq> cand_version_sha256 c
      then [rejection ''DOCUMENT_HASH_MISMATCH'' ''The catalogue hash does not match the stored version hash.'' ''EXCLUDED'']
      else []) @
     (if \<not> str_truthy (cand_content_sha256 c) \<and> \<not> str_truthy (cand_version_sha256 c)
      then [rejection ''DOCUMENT_HASH_MISMATCH'' ''The document has no recorded content hash.'' ''EXCLUDED'']
      else [])"

definition evaluate_candidate ::
  "rule_lib \<Rightarrow> CandidateDocument \<Rightarrow> ItemRequirement \<Rightarrow> MatchContext \<Rightarrow> py_error + Rejection list" where
  "evaluate_candidate lib c r ctx =
     (let reference = mc_today ctx in
      bindE (max_age_days r) (\<lambda>max_age.
      Inr (
        (if cand_document_type c \<noteq> rq_document_type r
         then [rejection ''REQUIRED_ITEM_MISSING''
                 (''Document type '' @ cand_document_type c @ '' does not satisfy '' @ rq_document_type r @ ''.'') ''MISSING'']
         else []) @
        (if \<not> matches_scope (cand_legal_entity c) [Some (mc_legal_entity_key ctx), mc_legal_entity_name ctx]
         then [rejection ''DOCUMENT_WRONG_ENTITY'' ''The document is not scoped to this legal entity.'' ''WRONG_ENTITY'']
         else []) @
        (if str_truthy (cand_jurisdiction c) \<and> str_truthy (mc_jurisdiction_key ctx) \<and>
            \<not> matches_scope (cand_jurisdiction c) [mc_jurisdiction_key ctx, mc_jurisdiction_name ctx]
         then [rejection ''DOCUMENT_WRONG_JURISDICTION'' ''The document belongs to a different jurisdiction.'' ''WRONG_JURISDICTION'']
         else []) @
        (if cand_approval_status c \<noteq> ''APPROVED''
         then [rejection ''DOCUMENT_NOT_APPROVED'' (''Approval status is '' @ cand_approval_status c @ ''.'') ''UNAPPROVED'']
         else []) @
        lifecycle_problems c @
        (case cand_expiry_date c of
           None \<Rightarrow> []
         | Some e \<Rightarrow>
           if e < reference
           then [rejection ''DOCUMENT_EXPIRED'' (''The document expired on '' @ isoformat e @ ''.'') ''EXPIRED'']
           else []) @
        age_problems c max_age reference @
        (if cand_storage_status c \<noteq> ''AVAILABLE''
         then [rejection ''DOCUMENT_NOT_AVAILABLE'' (''Storage status is '' @ cand_storage_status c @ ''.'') ''MISSING'']
         else []) @
        (if \<not> cand_is_current_version c
         then [rejection ''DOCUMENT_SUPERSEDED'' ''Only the current version of a document may be packaged.'' ''EXPIRED'']
         else []) @
        (if require_reuse_approval r \<and> \<not> cand_approved_for_reuse c
         then [rejection ''DOCUMENT_REUSE_NOT_APPROVED''
                 ''This item requires a document explicitly approved for reuse.'' ''UNAPPROVED'']
         else []) @
        (if CONFIDENTIALITY_ORDER (max_confidentiality lib r) < CONFIDENTIALITY_ORDER (cand_confidentiality_level c)
         then [rejection ''CONFIDENTIALITY_NOT_PERMITTED''
                 (''Confidentiality '' @ cand_confidentiality_level c @ '' exceeds what this item permits.'') ''EXCLUDED'']
         else []) @
        hash_problems c @
        (if cand_document_version_id c = None \<or> \<not> str_truthy (cand_storage_uri c)
         then [rejection ''SOURCE_STORAGE_MISSING'' ''No retrievable stored version is linked to this document.'' ''MISSING'']
         else []))))"

subsection \<open>Choice\<close>

text \<open>
  \<^verbatim>\<open>sorted(eligible, key=_sort_key, reverse=True)[0]\<close>. The key of the default strategy is a pair whose
  first component is the approval time, a \<^verbatim>\<open>datetime\<close>, or \<^verbatim>\<open>date.min\<close>; Python raises
  \<^verbatim>\<open>TypeError\<close> when it orders a \<^verbatim>\<open>datetime\<close> and a \<^verbatim>\<open>date\<close>, and every sort of a list with
  keys of both kinds compares such a pair.
\<close>

definition or_else :: "'a option \<Rightarrow> 'a \<Rightarrow> 'a" where
  "or_else x d = (case x of None \<Rightarrow> d | Some y \<Rightarrow> y)"

definition choose_document :: "string \<Rightarrow> CandidateDocument list \<Rightarrow> py_error + CandidateDocument" where
  "choose_document strat eligible =
     (if strat = ''LONGEST_VALIDITY'' then Inr (hd (sorted_reverse (\<lambda>c. or_else (cand_expiry_date c) date_max) eligible))
      else if strat = ''LATEST_EFFECTIVE''
      then Inr (hd (sorted_reverse (\<lambda>c. or_else (cand_effective_date c) date_min) eligible))
      else if list_all (\<lambda>c. cand_approved_at c \<noteq> None) eligible
      then Inr (hd (sorted_reverse (\<lambda>c. (or_else (cand_approved_at c) 0, or_else (cand_effective_date c) date_min)) eligible))
      else if list_all (\<lambda>c. cand_approved_at c = None) eligible
      then Inr (hd (sorted_reverse (\<lambda>c. or_else (cand_effective_date c) date_min) eligible))
      else Inl TypeError)"

definition STATUS_PRIORITY :: "string list" where
  "STATUS_PRIORITY = [''WRONG_ENTITY'', ''WRONG_JURISDICTION'', ''EXPIRED'', ''UNAPPROVED'', ''EXCLUDED'', ''MISSING'']"

definition blocker_status :: "Rejection list \<Rightarrow> string" where
  "blocker_status rejections =
     (case find (\<lambda>s. list_ex (\<lambda>r. rj_item_status r = s) rejections) STATUS_PRIORITY of
        None \<Rightarrow> ''MISSING'' | Some s \<Rightarrow> s)"

fun evaluate_all ::
  "rule_lib \<Rightarrow> ItemRequirement \<Rightarrow> MatchContext \<Rightarrow> CandidateDocument list \<Rightarrow>
     py_error + (CandidateDocument list \<times> Rejection list)" where
  "evaluate_all lib r ctx [] = Inr ([], [])"
| "evaluate_all lib r ctx (c # cs) =
     bindE (evaluate_candidate lib c r ctx) (\<lambda>problems.
     bindE (evaluate_all lib r ctx cs) (\<lambda>(eligible, rejections).
     Inr (if problems \<noteq> [] then (eligible, problems @ rejections) else (c # eligible, rejections))))"

definition relevant_candidates :: "rule_lib \<Rightarrow> ItemRequirement \<Rightarrow> CandidateDocument list \<Rightarrow> CandidateDocument list" where
  "relevant_candidates lib r candidates =
     (let relevant = filter (\<lambda>c. cand_document_type c = rq_document_type r) candidates
      in case explicit_document_id lib r of
           None \<Rightarrow> relevant
         | Some e \<Rightarrow> filter (\<lambda>c. cand_document_id c = e) relevant)"

definition match_item ::
  "rule_lib \<Rightarrow> ItemRequirement \<Rightarrow> CandidateDocument list \<Rightarrow> MatchContext \<Rightarrow> py_error + MatchResult" where
  "match_item lib r candidates ctx =
     (let base = \<lparr>mr_item_key = rq_item_key r, mr_document_type = rq_document_type r, mr_required = rq_required r,
            mr_sort_order = rq_sort_order r, mr_status = ''MISSING'', mr_document = None, mr_inclusion_reason = None,
            mr_rejections = [], mr_considered_count = 0\<rparr>
      in if strategy lib r = ''MANUAL_ONLY''
         then Inr (base\<lparr>mr_inclusion_reason := Some ''This item is configured for manual selection only.'',
                        mr_considered_count := int (length (filter (\<lambda>c. cand_document_type c = rq_document_type r) candidates))\<rparr>)
         else
           let relevant = relevant_candidates lib r candidates in
           bindE (evaluate_all lib r ctx relevant) (\<lambda>(eligible, rejections).
           if eligible \<noteq> []
           then bindE (choose_document (strategy lib r) eligible) (\<lambda>chosen.
                Inr (base\<lparr>mr_status := ''MATCHED'', mr_document := Some chosen,
                  mr_inclusion_reason := Some (''Selected by '' @ strategy lib r @ '' from '' @ str_int (int (length eligible)) @
                    '' eligible document(s) of '' @ str_int (int (length relevant)) @ '' considered.''),
                  mr_considered_count := int (length relevant)\<rparr>))
           else Inr (base\<lparr>mr_status := blocker_status rejections, mr_rejections := rejections,
                  mr_inclusion_reason := Some (case rejections of
                     [] \<Rightarrow> ''No document of this type exists for this entity.'' | p # _ \<Rightarrow> rj_detail p),
                  mr_considered_count := int (length relevant)\<rparr>)))"

definition match_all ::
  "rule_lib \<Rightarrow> ItemRequirement list \<Rightarrow> CandidateDocument list \<Rightarrow> MatchContext \<Rightarrow> py_error + MatchResult list" where
  "match_all lib requirements candidates ctx =
     mapE (\<lambda>r. match_item lib r candidates ctx) (sort_key (\<lambda>r. (rq_sort_order r, rq_item_key r)) requirements)"

subsection \<open>What a document in a packet satisfies\<close>

text \<open>
  The contract of the gate, independent of the reasons it reports: what must be true of a document for it
  to satisfy an item, and which of two such documents a strategy prefers.
\<close>

definition fits :: "rule_lib \<Rightarrow> ItemRequirement \<Rightarrow> MatchContext \<Rightarrow> CandidateDocument \<Rightarrow> bool" where
  "fits lib r ctx c \<longleftrightarrow>
     cand_document_type c = rq_document_type r \<and>
     matches_scope (cand_legal_entity c) [Some (mc_legal_entity_key ctx), mc_legal_entity_name ctx] \<and>
     (str_truthy (cand_jurisdiction c) \<and> str_truthy (mc_jurisdiction_key ctx) \<longrightarrow>
        matches_scope (cand_jurisdiction c) [mc_jurisdiction_key ctx, mc_jurisdiction_name ctx]) \<and>
     cand_approval_status c = ''APPROVED'' \<and> cand_lifecycle_status c = ''ACTIVE'' \<and>
     (\<forall>e. cand_expiry_date c = Some e \<longrightarrow> mc_today ctx \<le> e) \<and>
     (\<forall>n e. max_age_days r = Inr (Some n) \<and> n \<noteq> 0 \<and> cand_effective_date c = Some e \<longrightarrow> days_between (mc_today ctx) e \<le> n) \<and>
     cand_storage_status c = ''AVAILABLE'' \<and> cand_is_current_version c \<and>
     (require_reuse_approval r \<longrightarrow> cand_approved_for_reuse c) \<and>
     CONFIDENTIALITY_ORDER (cand_confidentiality_level c) \<le> CONFIDENTIALITY_ORDER (max_confidentiality lib r) \<and>
     (str_truthy (cand_content_sha256 c) \<or> str_truthy (cand_version_sha256 c)) \<and>
     (str_truthy (cand_content_sha256 c) \<and> str_truthy (cand_version_sha256 c) \<longrightarrow>
        cand_content_sha256 c = cand_version_sha256 c) \<and>
     cand_document_version_id c \<noteq> None \<and> str_truthy (cand_storage_uri c)"

definition preference :: "string \<Rightarrow> CandidateDocument \<Rightarrow> int \<times> date" where
  "preference strat c =
     (if strat = ''LONGEST_VALIDITY'' then (0, or_else (cand_expiry_date c) date_max)
      else if strat = ''LATEST_EFFECTIVE'' then (0, or_else (cand_effective_date c) date_min)
      else (or_else (cand_approved_at c) 0, or_else (cand_effective_date c) date_min))"

definition pinned :: "rule_lib \<Rightarrow> ItemRequirement \<Rightarrow> CandidateDocument \<Rightarrow> bool" where
  "pinned lib r c \<longleftrightarrow> cand_document_type c = rq_document_type r \<and>
     (case explicit_document_id lib r of None \<Rightarrow> True | Some e \<Rightarrow> cand_document_id c = e)"

subsection \<open>Lemmas\<close>

lemma if_Nil: "(if b then [x] else []) = [] \<longleftrightarrow> \<not> b"
  by simp

lemma lifecycle_problems_Nil: "lifecycle_problems c = [] \<longleftrightarrow> cand_lifecycle_status c = ''ACTIVE''"
  by (simp add: lifecycle_problems_def Let_def)

lemma hash_problems_Nil:
  "hash_problems c = [] \<longleftrightarrow>
     (str_truthy (cand_content_sha256 c) \<or> str_truthy (cand_version_sha256 c)) \<and>
     (str_truthy (cand_content_sha256 c) \<and> str_truthy (cand_version_sha256 c) \<longrightarrow>
        cand_content_sha256 c = cand_version_sha256 c)"
  by (auto simp: hash_problems_def)

lemma age_problems_Nil:
  "age_problems c m reference = [] \<longleftrightarrow>
     (\<forall>n e. m = Some n \<and> n \<noteq> 0 \<and> cand_effective_date c = Some e \<longrightarrow> days_between reference e \<le> n)"
  by (auto simp: age_problems_def Let_def not_less split: option.splits)

lemma expiry_Nil:
  "(case cand_expiry_date c of None \<Rightarrow> [] | Some e \<Rightarrow> if e < reference then [f e] else []) = [] \<longleftrightarrow>
     (\<forall>e. cand_expiry_date c = Some e \<longrightarrow> reference \<le> e)"
  by (auto simp: not_less split: option.splits)

lemma evaluate_candidate_Nil:
  assumes "evaluate_candidate lib c r ctx = Inr ps"
  shows "ps = [] \<longleftrightarrow> fits lib r ctx c"
proof -
  obtain m where m: "max_age_days r = Inr m"
    using assms by (auto simp: evaluate_candidate_def Let_def err_simps)
  have age: "(\<forall>n e. m = Some n \<and> n \<noteq> 0 \<and> cand_effective_date c = Some e \<longrightarrow> days_between (mc_today ctx) e \<le> n) \<longleftrightarrow>
      (\<forall>n e. max_age_days r = Inr (Some n) \<and> n \<noteq> 0 \<and> cand_effective_date c = Some e \<longrightarrow> days_between (mc_today ctx) e \<le> n)"
    by (simp add: m)
  show ?thesis
    using assms unfolding fits_def age [symmetric]
    by (simp only: evaluate_candidate_def Let_def m bindE_simps sum.inject eq_commute [of _ ps]
        if_Nil append_is_Nil_conv lifecycle_problems_Nil hash_problems_Nil age_problems_Nil expiry_Nil not_less not_not
        de_Morgan_conj de_Morgan_disj imp_conv_disj conj_assoc disj_assoc)
qed

lemma evaluate_all_Inr:
  "evaluate_all lib r ctx cs = Inr (el, rj) \<Longrightarrow>
     el = filter (fits lib r ctx) cs \<and> set rj = (\<Union>c \<in> set cs. {p. \<exists>ps. evaluate_candidate lib c r ctx = Inr ps \<and> p \<in> set ps})"
proof (induction cs arbitrary: el rj)
  case (Cons c cs)
  then obtain ps e' r' where c: "evaluate_candidate lib c r ctx = Inr ps" and rest: "evaluate_all lib r ctx cs = Inr (e', r')"
    and res: "(el, rj) = (if ps \<noteq> [] then (e', ps @ r') else (c # e', r'))"
    by (auto simp: err_simps)
  from Cons.IH [OF rest] res c show ?case
    using evaluate_candidate_Nil [OF c] by (cases "ps = []") auto
qed simp

lemma hd_sorted_reverse_in: "xs \<noteq> [] \<Longrightarrow> hd (sorted_reverse f xs) \<in> set xs"
  using hd_in_set [of "sorted_reverse f xs"] by simp

lemma choose_in: "choose_document strat el = Inr d \<Longrightarrow> el \<noteq> [] \<Longrightarrow> d \<in> set el"
  by (auto simp: choose_document_def hd_sorted_reverse_in split: if_splits)

lemma choose_best:
  assumes "choose_document strat el = Inr d" "e \<in> set el"
  shows "preference strat e \<le> preference strat d"
proof -
  have ge: "f e \<le> f (hd (sorted_reverse f el))" for f :: "CandidateDocument \<Rightarrow> 'k::linorder"
    using assms(2) by (rule sorted_reverse_hd_ge)
  consider (validity) "strat = ''LONGEST_VALIDITY''" | (effective) "strat = ''LATEST_EFFECTIVE''"
    | (approved) "strat \<noteq> ''LONGEST_VALIDITY''" "strat \<noteq> ''LATEST_EFFECTIVE''" by blast
  then show ?thesis
  proof cases
    case validity
    then show ?thesis using assms(1) ge [of "\<lambda>c. or_else (cand_expiry_date c) date_max"]
      by (auto simp: choose_document_def preference_def)
  next
    case effective
    then show ?thesis using assms(1) ge [of "\<lambda>c. or_else (cand_effective_date c) date_min"]
      by (auto simp: choose_document_def preference_def)
  next
    case approved
    have d: "d \<in> set el" using choose_in [OF assms(1)] assms(2) by (metis empty_iff list.set(1))
    show ?thesis
    proof (cases "list_all (\<lambda>c. cand_approved_at c \<noteq> None) el")
      case True
      then show ?thesis using approved assms(1)
          ge [of "\<lambda>c. (or_else (cand_approved_at c) 0, or_else (cand_effective_date c) date_min)"]
        by (auto simp: choose_document_def preference_def)
    next
      case False
      then have none: "list_all (\<lambda>c. cand_approved_at c = None) el"
        and h: "d = hd (sorted_reverse (\<lambda>c. or_else (cand_effective_date c) date_min) el)"
        using approved assms(1) by (auto simp: choose_document_def split: if_splits)
      have "cand_approved_at e = None" "cand_approved_at d = None" using none d assms(2) by (auto simp: list_all_iff)
      then show ?thesis using approved h ge [of "\<lambda>c. or_else (cand_effective_date c) date_min"]
        by (simp add: preference_def)
    qed
  qed
qed

lemma relevant_set: "set (relevant_candidates lib r cands) = {c \<in> set cands. pinned lib r c}"
  by (auto simp: relevant_candidates_def pinned_def Let_def split: option.splits)

lemma match_item_cases:
  assumes "match_item lib r cands ctx = Inr res"
  obtains (manual) "strategy lib r = ''MANUAL_ONLY''" "mr_status res = ''MISSING''" "mr_document res = None" "mr_rejections res = []"
  | (chosen) el rj d where "strategy lib r \<noteq> ''MANUAL_ONLY''"
      "evaluate_all lib r ctx (relevant_candidates lib r cands) = Inr (el, rj)" "el \<noteq> []"
      "choose_document (strategy lib r) el = Inr d" "mr_status res = ''MATCHED''" "mr_document res = Some d"
  | (blocked) rj where "strategy lib r \<noteq> ''MANUAL_ONLY''"
      "evaluate_all lib r ctx (relevant_candidates lib r cands) = Inr ([], rj)"
      "mr_status res = blocker_status rj" "mr_document res = None" "mr_rejections res = rj"
  using assms
  by (cases "strategy lib r = ''MANUAL_ONLY''")
     (auto simp: match_item_def Let_def err_simps split: if_splits)

lemma blocker_status_in: "blocker_status rj \<in> set STATUS_PRIORITY"
  by (auto simp: blocker_status_def STATUS_PRIORITY_def split: option.splits)

text \<open>A document matched to an item has passed every check, and no other one that passes is preferred to it.\<close>

lemma match_item_exact:
  assumes "match_item lib r cands ctx = Inr res"
  shows "case mr_document res of
      Some d \<Rightarrow> mr_status res = ''MATCHED'' \<and> d \<in> set cands \<and> pinned lib r d \<and> fits lib r ctx d \<and>
        (\<forall>e \<in> set cands. pinned lib r e \<and> fits lib r ctx e \<longrightarrow> preference (strategy lib r) e \<le> preference (strategy lib r) d)
    | None \<Rightarrow> mr_status res \<noteq> ''MATCHED'' \<and>
        (strategy lib r = ''MANUAL_ONLY'' \<or> (\<forall>e \<in> set cands. pinned lib r e \<longrightarrow> \<not> fits lib r ctx e))"
  using assms
proof (cases rule: match_item_cases)
  case manual
  then show ?thesis by simp
next
  case (chosen el rj d)
  then have el: "el = filter (fits lib r ctx) (relevant_candidates lib r cands)" by (simp add: evaluate_all_Inr)
  have "d \<in> set el" using choose_in chosen(3,4) by blast
  then show ?thesis using chosen(5,6) choose_best [OF chosen(4)] by (simp add: el relevant_set)
next
  case (blocked rj)
  then have "filter (fits lib r ctx) (relevant_candidates lib r cands) = []" using evaluate_all_Inr by metis
  then have "\<forall>e \<in> set cands. pinned lib r e \<longrightarrow> \<not> fits lib r ctx e"
    by (auto simp: filter_empty_conv relevant_set)
  then show ?thesis using blocked(3,4) blocker_status_in [of rj] by (auto simp: STATUS_PRIORITY_def)
qed

text \<open>When the matcher raises, and on what.\<close>

lemma evaluate_candidate_Inl: "evaluate_candidate lib c r ctx = Inl e \<longleftrightarrow> max_age_days r = Inl e"
  by (simp add: evaluate_candidate_def Let_def err_simps)

lemma evaluate_all_Inl: "evaluate_all lib r ctx cs = Inl e \<longleftrightarrow> cs \<noteq> [] \<and> max_age_days r = Inl e"
proof (induction cs)
  case (Cons c cs)
  then show ?case
    by (cases "max_age_days r") (auto simp: err_simps evaluate_candidate_Inl split: prod.splits)
qed simp

lemma evaluate_all_ok:
  assumes "max_age_days r = Inr m"
  shows "\<exists>rj. evaluate_all lib r ctx cs = Inr (filter (fits lib r ctx) cs, rj)"
proof (cases "evaluate_all lib r ctx cs")
  case (Inl e)
  then show ?thesis using assms by (simp add: evaluate_all_Inl)
next
  case (Inr p)
  then show ?thesis using evaluate_all_Inr by (cases p) blast
qed

definition undecided :: "string \<Rightarrow> CandidateDocument list \<Rightarrow> bool" where
  "undecided strat el \<longleftrightarrow> strat \<noteq> ''LONGEST_VALIDITY'' \<and> strat \<noteq> ''LATEST_EFFECTIVE'' \<and>
     (\<exists>c \<in> set el. cand_approved_at c = None) \<and> (\<exists>c \<in> set el. cand_approved_at c \<noteq> None)"

lemma choose_Inl: "choose_document strat el = Inl e \<longleftrightarrow> e = TypeError \<and> undecided strat el"
  by (auto simp: choose_document_def undecided_def list_all_iff)

lemma match_item_Inl:
  "match_item lib r cands ctx = Inl e \<longleftrightarrow>
     strategy lib r \<noteq> ''MANUAL_ONLY'' \<and>
     ((\<exists>c \<in> set cands. pinned lib r c) \<and> max_age_days r = Inl e \<or>
      (\<exists>m. max_age_days r = Inr m) \<and> e = TypeError \<and>
        undecided (strategy lib r) (filter (\<lambda>c. pinned lib r c \<and> fits lib r ctx c) cands))"
proof -
  let ?rel = "relevant_candidates lib r cands"
  have ne: "?rel \<noteq> [] \<longleftrightarrow> (\<exists>c \<in> set cands. pinned lib r c)"
    using relevant_set [of lib r cands] by (metis (mono_tags, lifting) empty_Collect_eq set_empty)
  have und: "undecided s (filter (fits lib r ctx) ?rel) \<longleftrightarrow>
      undecided s (filter (\<lambda>c. pinned lib r c \<and> fits lib r ctx c) cands)" for s
    by (auto simp: undecided_def relevant_set)
  have emp: "\<not> undecided s []" for s by (simp add: undecided_def)
  show ?thesis
  proof (cases "max_age_days r")
    case (Inl e')
    then show ?thesis
    proof (cases "?rel = []")
      case True
      then show ?thesis using ne Inl by (auto simp: match_item_def Let_def)
    next
      case False
      then have "evaluate_all lib r ctx ?rel = Inl e'" using Inl by (simp add: evaluate_all_Inl)
      then show ?thesis using ne False Inl by (auto simp: match_item_def Let_def)
    qed
  next
    case (Inr m)
    then obtain rj where "evaluate_all lib r ctx ?rel = Inr (filter (fits lib r ctx) ?rel, rj)"
      using evaluate_all_ok by blast
    then show ?thesis using Inr emp
      by (auto simp: match_item_def Let_def err_simps choose_Inl und [symmetric] simp del: filter_filter)
  qed
qed

end
