(* ===== verification/Json_Text.thy ===== *)
theory Json_Text
  imports Py_Json Py_Text
begin

text \<open>
  The text \<^verbatim>\<open>json.dumps\<close> produces, compact with sorted keys and indented, over ASCII strings;
  \<^verbatim>\<open>repr\<close> of a float is a parameter. The compact text of a value without floats determines the value up to
  the order of keys, which is what makes a digest of it identify the content.
\<close>

subsection \<open>Printing\<close>

text \<open>\<^verbatim>\<open>json.dumps(v, sort_keys=True, separators=(item, key))\<close> with the default \<^verbatim>\<open>ensure_ascii\<close>.\<close>

definition escape_char :: "char \<Rightarrow> string" where
  "escape_char c =
     (if c = CHR 0x22 then [CHR 0x5C, CHR 0x22]
      else if c = CHR 0x5C then [CHR 0x5C, CHR 0x5C]
      else if c = CHR 0x0A then [CHR 0x5C, CHR ''n'']
      else if c = CHR 0x0D then [CHR 0x5C, CHR ''r'']
      else if c = CHR 0x09 then [CHR 0x5C, CHR ''t'']
      else if c = CHR 0x0C then [CHR 0x5C, CHR ''f'']
      else if c = CHR 0x08 then [CHR 0x5C, CHR ''b'']
      else if 32 \<le> (of_char c :: nat) \<and> (of_char c :: nat) \<le> 126 then [c]
      else CHR 0x5C # CHR ''u'' # digits_base 16 4 (of_char c))"

definition quote :: "string \<Rightarrow> string" where
  "quote s = CHR 0x22 # concat (map escape_char s) @ [CHR 0x22]"

fun json_text :: "(rat \<Rightarrow> string) \<Rightarrow> string \<Rightarrow> string \<Rightarrow> json \<Rightarrow> string" where
  "json_text repr sep ksep JNull = ''null''"
| "json_text repr sep ksep (JBool b) = (if b then ''true'' else ''false'')"
| "json_text repr sep ksep (JInt n) = str_int n"
| "json_text repr sep ksep (JFloat q) = repr q"
| "json_text repr sep ksep (JStr s) = quote s"
| "json_text repr sep ksep (JList xs) = ''['' @ join_str sep (map (json_text repr sep ksep) xs) @ '']''"
| "json_text repr sep ksep (JObj d) =
     ''{'' @ join_str sep (map (\<lambda>kt. quote (fst kt) @ ksep @ snd kt)
        (sort_key fst (map (\<lambda>kv. (fst kv, json_text repr sep ksep (snd kv))) d))) @ ''}''"

text \<open>The same with \<^verbatim>\<open>indent=2\<close>: the nesting level gives the indentation of a line.\<close>

definition new_line :: "nat \<Rightarrow> string" where
  "new_line level = CHR 0x0A # replicate (2 * level) (CHR '' '')"

fun json_pretty :: "(rat \<Rightarrow> string) \<Rightarrow> nat \<Rightarrow> json \<Rightarrow> string" where
  "json_pretty repr level (JList xs) =
     (if xs = [] then ''[]''
      else ''['' @ new_line (Suc level) @
        join_str ('','' @ new_line (Suc level)) (map (json_pretty repr (Suc level)) xs) @ new_line level @ '']'')"
| "json_pretty repr level (JObj d) =
     (if d = [] then ''{}''
      else ''{'' @ new_line (Suc level) @
        join_str ('','' @ new_line (Suc level)) (map (\<lambda>kt. quote (fst kt) @ '': '' @ snd kt)
          (sort_key fst (map (\<lambda>kv. (fst kv, json_pretty repr (Suc level) (snd kv))) d))) @ new_line level @ ''}'')"
| "json_pretty repr level v = json_text repr '','' '': '' v"

subsection \<open>Numerals\<close>

lemma str_nat_digits: "str_nat n \<noteq> []"
  by (subst str_nat.simps) simp

lemma str_nat_inject: "str_nat m = str_nat n \<Longrightarrow> m = n"
proof (induction m arbitrary: n rule: str_nat.induct)
  case (1 m)
  show ?case
  proof (cases "m < 10")
    case True
    then have "n < 10" using "1.prems" str_nat_digits [of "n div 10"] by (cases "n < 10") (auto simp: str_nat.simps [of m] str_nat.simps [of n])
    then show ?thesis using True "1.prems" by (simp add: str_nat.simps [of m] str_nat.simps [of n] digit_char_inject)
  next
    case False
    then have n: "\<not> n < 10" using "1.prems" str_nat_digits [of "m div 10"] by (auto simp: str_nat.simps [of m] str_nat.simps [of n])
    have b: "m mod 10 < 16" "n mod 10 < 16" by (simp_all add: order_less_le_trans [of _ 10 16])
    have "str_nat (m div 10) = str_nat (n div 10)" "m mod 10 = n mod 10"
      using "1.prems" False n b by (simp_all add: str_nat.simps [of m] str_nat.simps [of n] digit_char_inject)
    then show ?thesis using "1.IH" [OF False] by (metis div_mult_mod_eq)
  qed
qed

definition numeral_char :: "char \<Rightarrow> bool" where
  "numeral_char c \<longleftrightarrow> c = CHR ''-'' \<or> digit_val c \<noteq> None"

lemma digit_char_numeral: "n < 10 \<Longrightarrow> digit_val (digit_char n) \<noteq> None"
  by (simp add: digit_val_def digit_char_def)

lemma str_nat_chars: "c \<in> set (str_nat n) \<Longrightarrow> digit_val c \<noteq> None"
proof (induction n rule: str_nat.induct)
  case (1 n)
  then show ?case using digit_char_numeral [of n] digit_char_numeral [of "n mod 10"]
    by (cases "n < 10") (auto simp: str_nat.simps [of n])
qed

lemma minus_no_digit: "digit_val (CHR ''-'') = None"
  by (simp add: digit_val_def)

lemma str_int_chars: "c \<in> set (str_int n) \<Longrightarrow> numeral_char c"
  using str_nat_chars by (auto simp: str_int_def numeral_char_def split: if_splits simp del: not_None_eq)

lemma str_int_inject: "str_int m = str_int n \<Longrightarrow> m = n"
proof -
  assume e: "str_int m = str_int n"
  have no: "CHR ''-'' \<notin> set (str_nat k)" for k using str_nat_chars minus_no_digit by blast
  have "m < 0 \<longleftrightarrow> n < 0" using e no [of "nat m"] no [of "nat n"]
    by (auto simp: str_int_def split: if_splits) (metis list.set_intros(1))+
  then show ?thesis using e str_nat_inject by (cases "m < 0") (auto simp: str_int_def dest!: str_nat_inject)
qed

subsection \<open>Delimiters\<close>

definition delim :: "string \<Rightarrow> bool" where
  "delim r \<longleftrightarrow> (case r of [] \<Rightarrow> True | c # _ \<Rightarrow> c = CHR '','' \<or> c = CHR '']'' \<or> c = CHR ''}'')"

lemma delim_simps [simp]:
  "delim []" "delim (CHR '','' # r)" "delim (CHR '']'' # r)" "delim (CHR ''}'' # r)"
  by (simp_all add: delim_def)

lemma takeWhile_numeral: "delim r \<Longrightarrow> takeWhile numeral_char (str_int n @ r) = str_int n"
proof -
  assume r: "delim r"
  have "takeWhile numeral_char r = []"
    using r by (cases r) (auto simp: delim_def numeral_char_def digit_val_def)
  then show ?thesis using str_int_chars by (simp add: takeWhile_append2)
qed

lemma str_int_prefix: "delim r \<Longrightarrow> delim s \<Longrightarrow> str_int m @ r = str_int n @ s \<Longrightarrow> m = n \<and> r = s"
  by (metis takeWhile_numeral str_int_inject same_append_eq)

subsection \<open>Quoted strings\<close>

definition short_escapes :: "(char \<times> char) list" where
  "short_escapes = [(CHR 0x22, CHR 0x22), (CHR 0x5C, CHR 0x5C), (CHR ''n'', CHR 0x0A), (CHR ''r'', CHR 0x0D),
     (CHR ''t'', CHR 0x09), (CHR ''f'', CHR 0x0C), (CHR ''b'', CHR 0x08)]"

lemma escape_cases:
  obtains (plain) "escape_char c = [c]" "c \<noteq> CHR 0x22" "c \<noteq> CHR 0x5C"
  | (short) k where "escape_char c = [CHR 0x5C, k]" "k \<noteq> CHR ''u''" "map_of short_escapes k = Some c"
  | (long) "escape_char c = CHR 0x5C # CHR ''u'' # digits_base 16 4 (of_char c)"
  by (cases "c = CHR 0x22"; cases "c = CHR 0x5C"; cases "c = CHR 0x0A"; cases "c = CHR 0x0D"; cases "c = CHR 0x09";
      cases "c = CHR 0x0C"; cases "c = CHR 0x08"; cases "32 \<le> (of_char c :: nat) \<and> (of_char c :: nat) \<le> 126")
     (simp_all add: escape_char_def short_escapes_def)

lemma hex_of_char_inject: "digits_base 16 4 (of_char c) = digits_base 16 4 (of_char d) \<Longrightarrow> c = d"
proof -
  assume e: "digits_base 16 4 (of_char c) = digits_base 16 4 (of_char d)"
  have b: "(of_char k :: nat) < 16 ^ 4" for k
    using nat_of_char_less_256 [of k] by (rule order_less_le_trans) simp
  show "c = d" using digits_base_inject [OF _ e b b] by simp
qed

lemma escape_prefix: "escape_char c @ x = escape_char d @ y \<Longrightarrow> c = d \<and> x = y"
proof -
  assume e: "escape_char c @ x = escape_char d @ y"
  show ?thesis
  proof (cases rule: escape_cases [of c])
    case plain
    then show ?thesis using e by (cases rule: escape_cases [of d]) auto
  next
    case (short k)
    then show ?thesis using e by (cases rule: escape_cases [of d]) auto
  next
    case long
    then show ?thesis using e hex_of_char_inject by (cases rule: escape_cases [of d]) auto
  qed
qed

lemma escape_no_quote: "escape_char c @ x \<noteq> CHR 0x22 # y"
  by (cases rule: escape_cases [of c]) auto

lemma quote_prefix: "quote s @ r = quote t @ r' \<Longrightarrow> s = t \<and> r = r'"
proof -
  have "concat (map escape_char s) @ CHR 0x22 # r = concat (map escape_char t) @ CHR 0x22 # r' \<Longrightarrow> s = t \<and> r = r'"
  proof (induction s arbitrary: t)
    case Nil
    then show ?case using escape_no_quote by (cases t) (auto, metis)
  next
    case (Cons c s)
    show ?case
    proof (cases t)
      case Nil
      then show ?thesis using Cons.prems escape_no_quote [of c "concat (map escape_char s) @ CHR 0x22 # r"] by simp
    next
      case (Cons d t')
      then have "c = d \<and> concat (map escape_char s) @ CHR 0x22 # r = concat (map escape_char t') @ CHR 0x22 # r'"
        using Cons.prems by (intro escape_prefix) simp
      then show ?thesis using Cons.IH Cons by blast
    qed
  qed
  then show "quote s @ r = quote t @ r' \<Longrightarrow> s = t \<and> r = r'" by (simp add: quote_def)
qed

subsection \<open>Sequences\<close>

lemma join_Cons: "join_str sep (x # xs) = x @ (if xs = [] then [] else sep @ join_str sep xs)"
  by (cases xs) simp_all

text \<open>
  Items separated by commas and closed by a bracket are determined, item by item, by any printer of items
  that a delimiter ends and that starts with no bracket.
\<close>

lemma join_prefix:
  assumes item: "\<And>x y r s. x \<in> set xs \<Longrightarrow> y \<in> set ys \<Longrightarrow> delim r \<Longrightarrow> delim s \<Longrightarrow> f x @ r = f y @ s \<Longrightarrow> g x = g y \<and> r = s"
    and start: "\<And>x r s. x \<in> set xs \<union> set ys \<Longrightarrow> f x @ r \<noteq> close # s"
    and close: "\<And>r. delim (close # r)" "close \<noteq> CHR '',''"
    and eq: "join_str '','' (map f xs) @ close # r = join_str '','' (map f ys) @ close # s"
  shows "map g xs = map g ys \<and> r = s"
  using item start eq
proof (induction xs arbitrary: ys)
  case Nil
  show ?case
  proof (cases ys)
    case Nil
    then show ?thesis using Nil.prems by simp
  next
    case (Cons y ys')
    then show ?thesis using Nil.prems(2) [of y] Nil.prems(3) by (simp add: join_Cons) metis
  qed
next
  case (Cons x xs)
  show ?case
  proof (cases ys)
    case Nil
    then show ?thesis using Cons.prems(2) [of x] Cons.prems(3) by (simp add: join_Cons)
  next
    case (Cons y ys')
    let ?r = "(if xs = [] then [] else '','' @ join_str '','' (map f xs)) @ close # r"
    let ?s = "(if ys' = [] then [] else '','' @ join_str '','' (map f ys')) @ close # s"
    have d: "delim ?r" "delim ?s" using close(1) by auto
    have e: "f x @ ?r = f y @ ?s" using Cons.prems(3) Cons by (simp add: join_Cons)
    have xy: "g x = g y" "?r = ?s" using Cons.prems(1) [OF _ _ d e] Cons by auto
    have "join_str '','' (map f xs) @ close # r = join_str '','' (map f ys') @ close # s"
      using xy(2) close(2) by (auto split: if_splits)
    then have "map g xs = map g ys' \<and> r = s"
      using Cons.prems(1,2) Cons by (intro Cons.IH) auto
    then show ?thesis using xy(1) Cons by simp
  qed
qed

subsection \<open>Values\<close>

fun float_free :: "json \<Rightarrow> bool" where
  "float_free (JFloat q) = False"
| "float_free (JList xs) = list_all float_free xs"
| "float_free (JObj d) = list_all (\<lambda>kv. float_free (snd kv)) d"
| "float_free _ = True"

text \<open>The value with the keys of every object in order.\<close>

fun canon :: "json \<Rightarrow> json" where
  "canon (JList xs) = JList (map canon xs)"
| "canon (JObj d) = JObj (sort_key fst (map (\<lambda>kv. (fst kv, canon (snd kv))) d))"
| "canon v = v"

lemma insort_map: "insort_key fst (fst x, f (snd x)) (map (\<lambda>kv. (fst kv, f (snd kv))) xs) =
    map (\<lambda>kv. (fst kv, f (snd kv))) (insort_key fst x xs)"
  by (induction xs) auto

lemma sort_map: "sort_key fst (map (\<lambda>kv. (fst kv, f (snd kv))) xs) = map (\<lambda>kv. (fst kv, f (snd kv))) (sort_key fst xs)"
  by (induction xs) (simp_all add: insort_map)

abbreviation compact :: "json \<Rightarrow> string" where
  "compact \<equiv> json_text (\<lambda>_. []) '','' '':''"

lemma compact_obj:
  "compact (JObj d) = ''{'' @ join_str '','' (map (\<lambda>kv. quote (fst kv) @ '':'' @ compact (snd kv)) (sort_key fst d)) @ ''}''"
  by (simp add: sort_map comp_def)

lemma str_int_hd: "\<exists>c t. str_int n = c # t \<and> numeral_char c"
proof -
  have "str_int n \<noteq> []" by (simp add: str_int_def str_nat_digits)
  then obtain c t where "str_int n = c # t" by (cases "str_int n") auto
  then show ?thesis using str_int_chars [of c n] by simp
qed

definition kind_char :: "json \<Rightarrow> char \<Rightarrow> bool" where
  "kind_char v c \<longleftrightarrow>
     (case v of JNull \<Rightarrow> c = CHR ''n'' | JBool b \<Rightarrow> c = (if b then CHR ''t'' else CHR ''f'') | JInt n \<Rightarrow> numeral_char c
      | JFloat q \<Rightarrow> False | JStr s \<Rightarrow> c = CHR 0x22 | JList xs \<Rightarrow> c = CHR ''['' | JObj d \<Rightarrow> c = CHR ''{'')"

lemma compact_hd: "float_free v \<Longrightarrow> \<exists>c t. compact v = c # t \<and> kind_char v c"
  using str_int_hd by (cases v) (auto simp: kind_char_def quote_def)

lemma compact_start: "float_free v \<Longrightarrow> compact v @ r \<noteq> CHR '']'' # s"
  using compact_hd [of v] by (cases v) (auto simp: kind_char_def numeral_char_def digit_val_def)

lemma same_kind:
  assumes "float_free v" "float_free w" "compact v @ r = compact w @ s"
  obtains "v = JNull" "w = JNull" | b where "v = JBool b" "w = JBool b" | m n where "v = JInt m" "w = JInt n"
  | x y where "v = JStr x" "w = JStr y" | xs ys where "v = JList xs" "w = JList ys" | d e where "v = JObj d" "w = JObj e"
proof -
  obtain c where "kind_char v c" "kind_char w c"
    using compact_hd [OF assms(1)] compact_hd [OF assms(2)] assms(3) by auto
  then show thesis using that
    by (cases v; cases w) (auto simp: kind_char_def numeral_char_def digit_val_def split: if_splits)
qed

lemma compact_prefix:
  "float_free v \<Longrightarrow> float_free w \<Longrightarrow> delim r \<Longrightarrow> delim s \<Longrightarrow> compact v @ r = compact w @ s \<Longrightarrow> canon v = canon w \<and> r = s"
proof (induction v arbitrary: w r s)
  case JNull
  from JNull(1,2,5) show ?case by (cases rule: same_kind) (use JNull in auto)
next
  case (JBool b)
  from JBool(1,2,5) show ?case by (cases rule: same_kind) (use JBool in auto)
next
  case (JInt n)
  from JInt(1,2,5) obtain m where w: "w = JInt m" by (cases rule: same_kind) auto
  have "n = m \<and> r = s" using JInt(3-5) w by (intro str_int_prefix) simp_all
  then show ?case by (simp add: w)
next
  case (JFloat q)
  then show ?case by simp
next
  case (JStr t)
  from JStr(1,2,5) obtain u where w: "w = JStr u" by (cases rule: same_kind) auto
  have "t = u \<and> r = s" using JStr(5) w by (intro quote_prefix) simp
  then show ?case by (simp add: w)
next
  case (JList xs)
  from JList.prems(1,2,5) obtain ys where w: "w = JList ys" by (cases rule: same_kind) auto
  have ff: "list_all float_free xs" "list_all float_free ys" using JList.prems(1,2) w by simp_all
  have "map canon xs = map canon ys \<and> r = s"
  proof (rule join_prefix [where f = compact and close = "CHR '']''"])
    fix x y r s assume "x \<in> set xs" "y \<in> set ys" "delim r" "delim s" "compact x @ r = compact y @ s"
    then show "canon x = canon y \<and> r = s" using JList.IH ff by (auto simp: list_all_iff)
  next
    fix x r s assume "x \<in> set xs \<union> set ys"
    then show "compact x @ r \<noteq> CHR '']'' # s" using compact_start ff by (auto simp: list_all_iff)
  qed (use JList.prems(5) w in simp_all)
  then show ?case by (simp add: w)
next
  case (JObj d)
  from JObj.prems(1,2,5) obtain e where w: "w = JObj e" by (cases rule: same_kind) auto
  have ff: "list_all (\<lambda>kv. float_free (snd kv)) d" "list_all (\<lambda>kv. float_free (snd kv)) e" using JObj.prems(1,2) w by simp_all
  let ?f = "\<lambda>kv. quote (fst kv) @ '':'' @ compact (snd kv)"
  let ?g = "\<lambda>kv. (fst kv, canon (snd kv))"
  have "map ?g (sort_key fst d) = map ?g (sort_key fst e) \<and> r = s"
  proof (rule join_prefix [where f = ?f and close = "CHR ''}''"])
    fix x y r s assume x: "x \<in> set (sort_key fst d)" and y: "y \<in> set (sort_key fst e)" and dl: "delim r" "delim s"
      and eq: "?f x @ r = ?f y @ s"
    have k: "fst x = fst y \<and> '':'' @ compact (snd x) @ r = '':'' @ compact (snd y) @ s"
      using eq by (intro quote_prefix) simp
    have "canon (snd x) = canon (snd y) \<and> r = s"
    proof (rule JObj.IH [of x])
      show "x \<in> set d" "snd x \<in> Basic_BNFs.snds x" using x by (simp_all add: snds.simps)
    qed (use x y ff dl k in \<open>auto simp: list_all_iff\<close>)
    then show "?g x = ?g y \<and> r = s" using k by simp
  next
    fix x :: "string \<times> json" and r s assume "x \<in> set (sort_key fst d) \<union> set (sort_key fst e)"
    then show "?f x @ r \<noteq> CHR ''}'' # s" by (simp add: quote_def)
  next
    show "join_str '','' (map ?f (sort_key fst d)) @ CHR ''}'' # r = join_str '','' (map ?f (sort_key fst e)) @ CHR ''}'' # s"
      using JObj.prems(5) by (simp add: w compact_obj del: json_text.simps)
  qed simp_all
  then show ?case by (simp add: w sort_map)
qed

lemma compact_inject: "float_free v \<Longrightarrow> float_free w \<Longrightarrow> compact v = compact w \<Longrightarrow> canon v = canon w"
  using compact_prefix [of v w "[]" "[]"] by simp

lemma json_text_float_free: "float_free v \<Longrightarrow> json_text repr sep ksep v = json_text repr' sep ksep v"
proof (induction v)
  case (JList xs)
  then have "map (json_text repr sep ksep) xs = map (json_text repr' sep ksep) xs" by (auto simp: list_all_iff)
  then show ?case by (simp only: json_text.simps)
next
  case (JObj d)
  have "json_text repr sep ksep (snd kv) = json_text repr' sep ksep (snd kv)" if "kv \<in> set d" for kv
    using that JObj.prems by (intro JObj.IH [OF that]) (auto simp: snds.simps list_all_iff)
  then have "map (\<lambda>kv. (fst kv, json_text repr sep ksep (snd kv))) d = map (\<lambda>kv. (fst kv, json_text repr' sep ksep (snd kv))) d"
    by simp
  then show ?case by (simp only: json_text.simps)
qed simp_all

text \<open>Equal canonical objects have equal canonical members.\<close>

lemma map_of_sorted: "distinct (map fst xs) \<Longrightarrow> map_of (sort_key fst xs) = map_of xs"
proof -
  assume d: "distinct (map fst xs)"
  then have "distinct (map fst (sort_key fst xs))" by (simp add: distinct_map)
  then show ?thesis using d by (simp add: map_of_inject_set)
qed

lemma canon_members:
  assumes "canon (JObj d) = canon (JObj e)" "distinct (map fst d)" "distinct (map fst e)"
  shows "map_option canon (map_of d k) = map_option canon (map_of e k)"
proof -
  have m: "map_of (map (\<lambda>kv. (fst kv, canon (snd kv))) xs) k = map_option canon (map_of xs k)" for xs
    by (induction xs) auto
  have "map_of (sort_key fst (map (\<lambda>kv. (fst kv, canon (snd kv))) d)) = map_of (sort_key fst (map (\<lambda>kv. (fst kv, canon (snd kv))) e))"
    using assms(1) by simp
  then show ?thesis using assms(2,3) m by (simp add: map_of_sorted comp_def) metis
qed

end
