(* ===== verification/Packet_Manifest.thy ===== *)
theory Packet_Manifest
  imports Packet_Matching Json_Text Escalation Alerts
begin

text \<open>
  Packet manifests, cover sheets and archives (\<^verbatim>\<open>app/packets/manifests.py\<close>): safe and unique file
  names, the manifest and its digest, the cover sheet and the entries of the archive. Strings are ASCII, on
  which \<^verbatim>\<open>unicodedata.normalize\<close> and \<^verbatim>\<open>encode\<close> are the identity. SHA-256, the ZIP container and
  \<^verbatim>\<open>repr\<close> of a float are parameters.
\<close>

subsection \<open>File names\<close>

definition MAX_FILENAME_LENGTH :: int where
  "MAX_FILENAME_LENGTH = 120"

definition RESERVED_NAMES :: "string list" where
  "RESERVED_NAMES = [''CON'', ''PRN'', ''AUX'', ''NUL'', ''COM1'', ''COM2'', ''COM3'', ''COM4'', ''COM5'', ''COM6'', ''COM7'',
     ''COM8'', ''COM9'', ''LPT1'', ''LPT2'', ''LPT3'', ''LPT4'', ''LPT5'', ''LPT6'', ''LPT7'', ''LPT8'', ''LPT9'']"

definition unsafe_char :: "char \<Rightarrow> bool" where
  "unsafe_char c \<longleftrightarrow> c \<in> set [CHR ''<'', CHR ''>'', CHR '':'', CHR 0x22, CHR ''/'', CHR 0x5C, CHR ''|'', CHR ''?'', CHR ''*''] \<or>
     (of_char c :: nat) \<le> 31"

text \<open>\<^verbatim>\<open>_COLLAPSE.sub(" ", s)\<close>: a run of white space and underscores becomes one space.\<close>

definition blank :: "char \<Rightarrow> bool" where
  "blank c \<longleftrightarrow> is_space c \<or> c = CHR ''_''"

fun collapse :: "bool \<Rightarrow> string \<Rightarrow> string" where
  "collapse in_run [] = []"
| "collapse in_run (c # cs) =
     (if blank c then (if in_run then collapse True cs else CHR '' '' # collapse True cs)
      else c # collapse False cs)"

text \<open>\<^verbatim>\<open>s.rpartition(".")\<close>.\<close>

definition rpartition_dot :: "string \<Rightarrow> string \<times> bool \<times> string" where
  "rpartition_dot s =
     (if CHR ''.'' \<in> set s
      then let after = rev (takeWhile (\<lambda>c. c \<noteq> CHR ''.'') (rev s))
           in (take (length s - length after - 1) s, True, after)
      else ([], False, s))"

definition is_alnum :: "char \<Rightarrow> bool" where
  "is_alnum c \<longleftrightarrow> is_alpha c \<or> digit_val c \<noteq> None"

definition basename :: "string \<Rightarrow> string" where
  "basename s = rev (takeWhile (\<lambda>c. c \<noteq> CHR ''/'') (rev (map (\<lambda>c. if c = CHR 0x5C then CHR ''/'' else c) s)))"

text \<open>\<^verbatim>\<open>s[:n]\<close>.\<close>

definition py_take :: "int \<Rightarrow> string \<Rightarrow> string" where
  "py_take n s = (if 0 \<le> n then take (nat n) s else take (length s - nat (- n)) s)"

definition cleaned_name :: "string \<Rightarrow> string" where
  "cleaned_name name =
     py_strip (collapse False (strip_chars ''.'' (py_strip (filter (\<lambda>c. \<not> unsafe_char c) (basename name)))))"

definition safe_filename :: "string \<Rightarrow> string \<Rightarrow> string option \<Rightarrow> string" where
  "safe_filename name fallback extension =
     (let cleaned = cleaned_name name;
          (stem, dot, ext) = rpartition_dot cleaned;
          (base0, suffix0) = (if dot \<and> 1 \<le> length ext \<and> length ext \<le> 8 \<and> list_all is_alnum ext
                              then (stem, CHR ''.'' # lower_ascii ext) else (cleaned, []));
          suffix = (case extension of
             Some (c # e) \<Rightarrow> if c = CHR ''.'' then c # e else CHR ''.'' # c # e
           | _ \<Rightarrow> suffix0);
          base1 = (if base0 = [] then fallback else base0);
          base = (if map upper_char base1 \<in> set RESERVED_NAMES then base1 @ ''-file'' else base1);
          allowed = MAX_FILENAME_LENGTH - int (length suffix);
          cut = py_strip (py_take allowed base)
      in (if cut = [] then fallback else cut) @ suffix)"

definition suffix_numbers :: "nat list" where
  "suffix_numbers = [2..<1000]"

definition numbered :: "string \<Rightarrow> string \<Rightarrow> nat \<Rightarrow> string" where
  "numbered base suffix index = base @ '' ('' @ str_nat index @ '')'' @ suffix"

text \<open>The set of names taken so far is passed on; the first free number of 2 to 999 is used.\<close>

definition unique_filename :: "string \<Rightarrow> string list \<Rightarrow> string \<times> string list" where
  "unique_filename name taken =
     (if name \<notin> set taken then (name, List.insert name taken)
      else
        let (stem, dot, ext) = rpartition_dot name;
            (base, suffix) = (if dot then (stem, CHR ''.'' # ext) else (name, []));
            chosen = (case find (\<lambda>i. numbered base suffix i \<notin> set taken) suffix_numbers of
                Some i \<Rightarrow> numbered base suffix i
              | None \<Rightarrow> base @ ''-'' @ str_nat (length taken) @ suffix)
        in (chosen, List.insert chosen taken))"

subsection \<open>Manifest\<close>

record ManifestEntry =
  me_item_key :: string
  me_document_type :: string
  me_document_id :: string
  me_document_version_id :: "string option"
  me_filename_in_archive :: string
  me_source_filename :: string
  me_sha256 :: "string option"
  me_size_bytes :: int
  me_effective_date :: "string option"
  me_expiry_date :: "string option"
  me_sort_order :: int

definition entry_payload :: "ManifestEntry \<Rightarrow> jdict" where
  "entry_payload e =
     [(''item_key'', JStr (me_item_key e)), (''document_type'', JStr (me_document_type e)),
      (''document_id'', JStr (me_document_id e)), (''document_version_id'', json_opt (me_document_version_id e)),
      (''filename_in_archive'', JStr (me_filename_in_archive e)), (''source_filename'', JStr (me_source_filename e)),
      (''sha256'', json_opt (me_sha256 e)), (''size_bytes'', JInt (me_size_bytes e)),
      (''effective_date'', json_opt (me_effective_date e)), (''expiry_date'', json_opt (me_expiry_date e)),
      (''sort_order'', JInt (me_sort_order e))]"

record OmittedEntry =
  oe_item_key :: string
  oe_document_type :: string
  oe_required :: bool
  oe_status :: string
  oe_reason :: string

definition omitted_payload :: "OmittedEntry \<Rightarrow> jdict" where
  "omitted_payload e =
     [(''item_key'', JStr (oe_item_key e)), (''document_type'', JStr (oe_document_type e)),
      (''required'', JBool (oe_required e)), (''status'', JStr (oe_status e)), (''reason'', JStr (oe_reason e))]"

text \<open>\<^verbatim>\<open>moment.isoformat()\<close> of an instant in UTC.\<close>

definition iso_instant :: "datetime \<Rightarrow> string" where
  "iso_instant t =
     (let us = t mod day_us; s = us div 1000000; frac = us mod 1000000
      in isoformat (utc_date t) @ ''T'' @ digits_base 10 2 (nat (s div 3600)) @ '':'' @ digits_base 10 2 (nat (s div 60 mod 60)) @
         '':'' @ digits_base 10 2 (nat (s mod 60)) @ (if frac = 0 then [] else ''.'' @ digits_base 10 6 (nat frac)) @ ''+00:00'')"

record manifest_head =
  mh_packet_key :: string
  mh_version :: int
  mh_case_key :: string
  mh_legal_entity_name :: string
  mh_jurisdiction_name :: "string option"
  mh_license_type_name :: "string option"
  mh_template_key :: "string option"
  mh_created_by_actor :: "string option"

definition build_manifest ::
  "manifest_head \<Rightarrow> ManifestEntry list \<Rightarrow> OmittedEntry list \<Rightarrow> OmittedEntry list \<Rightarrow> datetime \<Rightarrow> jdict" where
  "build_manifest h included omitted missing moment =
     [(''manifest_version'', JInt 1), (''packet_key'', JStr (mh_packet_key h)), (''packet_version'', JInt (mh_version h)),
      (''case_key'', JStr (mh_case_key h)), (''legal_entity'', JStr (mh_legal_entity_name h)),
      (''jurisdiction'', json_opt (mh_jurisdiction_name h)), (''license_type'', json_opt (mh_license_type_name h)),
      (''packet_template_key'', json_opt (mh_template_key h)), (''generated_at'', JStr (iso_instant moment)),
      (''created_by_actor'', json_opt (mh_created_by_actor h)), (''included_count'', JInt (int (length included))),
      (''omitted_count'', JInt (int (length omitted))), (''missing_count'', JInt (int (length missing))),
      (''included'', JList (map (JObj \<circ> entry_payload) (sort_key (\<lambda>e. (me_sort_order e, me_item_key e)) included))),
      (''omitted'', JList (map (JObj \<circ> omitted_payload) (sort_key oe_item_key omitted))),
      (''missing'', JList (map (JObj \<circ> omitted_payload) (sort_key oe_item_key missing)))]"

definition stable_manifest :: "jdict \<Rightarrow> jdict" where
  "stable_manifest m = filter (\<lambda>kv. fst kv \<noteq> ''generated_at'') m"

definition manifest_sha256 :: "(rat \<Rightarrow> string) \<Rightarrow> (string \<Rightarrow> string) \<Rightarrow> jdict \<Rightarrow> string" where
  "manifest_sha256 repr sha256 m = sha256 (json_text repr '','' '':'' (JObj (stable_manifest m)))"

subsection \<open>Cover sheet\<close>

definition item_of :: "jdict \<Rightarrow> string \<Rightarrow> py_error + json" where
  "item_of d k = (case jget d k of None \<Rightarrow> Inl KeyError | Some v \<Rightarrow> Inr v)"

definition text_of :: "rule_lib \<Rightarrow> jdict \<Rightarrow> string \<Rightarrow> py_error + string" where
  "text_of lib d k = bindE (item_of d k) (\<lambda>v. Inr (py_str lib v))"

definition text_or :: "rule_lib \<Rightarrow> jdict \<Rightarrow> string \<Rightarrow> string \<Rightarrow> string" where
  "text_or lib d k alt = (let v = jget_or d k JNull in if truthy v then py_str lib v else alt)"

definition entries_of :: "jdict \<Rightarrow> string \<Rightarrow> py_error + jdict list" where
  "entries_of d k =
     bindE (item_of d k) (\<lambda>v. case v of
        JList xs \<Rightarrow> mapE (\<lambda>x. case x of JObj e \<Rightarrow> Inr e | _ \<Rightarrow> Inl TypeError) xs
      | _ \<Rightarrow> Inl TypeError)"

text \<open>\<^verbatim>\<open>f"{v:>4}"\<close>.\<close>

definition right_align :: "rule_lib \<Rightarrow> json \<Rightarrow> py_error + string" where
  "right_align lib v =
     (let pad = (\<lambda>s. replicate (4 - length s) (CHR '' '') @ s) in
      case v of
        JInt n \<Rightarrow> Inr (pad (str_int n))
      | JBool b \<Rightarrow> Inr (pad (if b then ''1'' else ''0''))
      | JStr s \<Rightarrow> Inr (pad s)
      | JFloat q \<Rightarrow> Inr (pad (py_str lib v))
      | _ \<Rightarrow> Inl TypeError)"

definition included_lines :: "rule_lib \<Rightarrow> jdict \<Rightarrow> py_error + string list" where
  "included_lines lib e =
     bindE (item_of e ''sort_order'') (\<lambda>so.
     bindE (right_align lib so) (\<lambda>order.
     bindE (text_of lib e ''filename_in_archive'') (\<lambda>name.
     bindE (text_of lib e ''document_type'') (\<lambda>dtype.
     bindE (text_of lib e ''sha256'') (\<lambda>sha.
     Inr ([order @ ''. '' @ name, ''      type:    '' @ dtype, ''      sha256:  '' @ sha] @
       (if truthy (jget_or e ''effective_date'' JNull) \<or> truthy (jget_or e ''expiry_date'' JNull)
        then [''      valid:   '' @ text_or lib e ''effective_date'' ''n/a'' @ '' to '' @ text_or lib e ''expiry_date'' ''no expiry'']
        else [])))))))"

definition missing_lines :: "rule_lib \<Rightarrow> jdict \<Rightarrow> py_error + string list" where
  "missing_lines lib e =
     bindE (item_of e ''required'') (\<lambda>req.
     bindE (text_of lib e ''document_type'') (\<lambda>dtype.
     bindE (text_of lib e ''item_key'') (\<lambda>key.
     bindE (text_of lib e ''reason'') (\<lambda>reason.
     Inr [''  - ['' @ (if truthy req then ''REQUIRED'' else ''optional'') @ ''] '' @ dtype @ '' ('' @ key @ '')'',
          ''      reason: '' @ reason]))))"

definition omitted_lines :: "rule_lib \<Rightarrow> jdict \<Rightarrow> py_error + string list" where
  "omitted_lines lib e =
     bindE (text_of lib e ''document_type'') (\<lambda>dtype.
     bindE (text_of lib e ''item_key'') (\<lambda>key.
     bindE (text_of lib e ''reason'') (\<lambda>reason.
     Inr [''  - '' @ dtype @ '' ('' @ key @ ''): '' @ reason])))"

definition section_lines ::
  "rule_lib \<Rightarrow> jdict \<Rightarrow> string \<Rightarrow> string \<Rightarrow> string \<Rightarrow> (rule_lib \<Rightarrow> jdict \<Rightarrow> py_error + string list) \<Rightarrow> py_error + string list" where
  "section_lines lib m count_key title list_key lines_of =
     bindE (item_of m count_key) (\<lambda>n.
     if truthy n
     then bindE (entries_of m list_key) (\<lambda>es.
          bindE (mapE (lines_of lib) es) (\<lambda>ls.
          Inr ([[], title @ '' ('' @ py_str lib n @ '')'', replicate 60 (CHR ''-'')] @ concat ls)))
     else Inr [])"

definition render_cover_sheet :: "rule_lib \<Rightarrow> jdict \<Rightarrow> string option \<Rightarrow> py_error + string" where
  "render_cover_sheet lib m instructions =
     bindE (text_of lib m ''packet_key'') (\<lambda>packet_key.
     bindE (text_of lib m ''packet_version'') (\<lambda>version.
     bindE (text_of lib m ''case_key'') (\<lambda>case_key.
     bindE (text_of lib m ''legal_entity'') (\<lambda>entity.
     bindE (text_of lib m ''generated_at'') (\<lambda>generated.
     bindE (text_of lib m ''included_count'') (\<lambda>count.
     bindE (entries_of m ''included'') (\<lambda>included.
     bindE (mapE (included_lines lib) included) (\<lambda>inc.
     bindE (section_lines lib m ''missing_count'' ''MISSING ITEMS'' ''missing'' missing_lines) (\<lambda>mis.
     bindE (section_lines lib m ''omitted_count'' ''DELIBERATELY OMITTED'' ''omitted'' omitted_lines) (\<lambda>omi.
     Inr (join_str [CHR 0x0A] (
       [''DOCUMENT PACKET COVER SHEET'', replicate 60 (CHR ''=''),
        ''Packet:         '' @ packet_key @ '' (version '' @ version @ '')'',
        ''Case:           '' @ case_key, ''Legal entity:   '' @ entity,
        ''Jurisdiction:   '' @ text_or lib m ''jurisdiction'' ''Not jurisdiction-specific'',
        ''Licence type:   '' @ text_or lib m ''license_type'' ''Not licence-specific'',
        ''Template:       '' @ text_or lib m ''packet_template_key'' ''Ad hoc'',
        ''Generated:      '' @ generated,
        ''Prepared by:    '' @ text_or lib m ''created_by_actor'' ''system'', [],
        ''This packet was assembled from approved, in-date documents belonging to the'',
        ''legal entity named above. Approval of this packet confirms readiness for the'',
        ''next operational step only; it does not transmit or submit anything.'', [],
        ''INCLUDED DOCUMENTS ('' @ count @ '')'', replicate 60 (CHR ''-'')] @
       concat inc @ mis @ omi @
       (case instructions of
          Some (c # t) \<Rightarrow> [[], ''INSTRUCTIONS'', replicate 60 (CHR ''-''), c # t]
        | _ \<Rightarrow> []) @
       [[], replicate 60 (CHR ''=''), ''End of cover sheet.'']))))))))))))"

subsection \<open>Archive\<close>

text \<open>The entries written to the container, in their order: the cover sheet, the manifest, the sorted files.\<close>

definition archive_entries ::
  "(rat \<Rightarrow> string) \<Rightarrow> jdict \<Rightarrow> (string \<times> string) list \<Rightarrow> string option \<Rightarrow> bool \<Rightarrow> (string \<times> string) list" where
  "archive_entries repr manifest files cover_sheet include_manifest_json =
     (case cover_sheet of None \<Rightarrow> [] | Some t \<Rightarrow> [(''00-cover-sheet.txt'', t)]) @
     (if include_manifest_json then [(''00-manifest.json'', json_pretty repr 0 (JObj manifest))] else []) @
     sort_key fst files"

definition build_archive ::
  "(rat \<Rightarrow> string) \<Rightarrow> ((string \<times> string) list \<Rightarrow> string) \<Rightarrow> (string \<Rightarrow> string) \<Rightarrow> jdict \<Rightarrow> (string \<times> string) list \<Rightarrow>
     string option \<Rightarrow> bool \<Rightarrow> string \<times> string" where
  "build_archive repr zip_file sha256 manifest files cover_sheet include_manifest_json =
     (let raw = zip_file (archive_entries repr manifest files cover_sheet include_manifest_json)
      in (raw, sha256 raw))"

definition verify_entry_hash :: "(string \<Rightarrow> string) \<Rightarrow> string \<Rightarrow> string option \<Rightarrow> bool" where
  "verify_entry_hash sha256 content expected =
     (case expected of Some (c # e) \<Rightarrow> sha256 content = lower_ascii (c # e) | _ \<Rightarrow> False)"

subsection \<open>Safe names\<close>

lemma set_py_strip: "set (py_strip s) \<subseteq> set s"
  unfolding py_strip_def by (metis set_rev set_dropWhileD subsetI)

lemma set_strip_chars: "set (strip_chars cs s) \<subseteq> set s"
  unfolding strip_chars_def by (metis set_rev set_dropWhileD subsetI)

lemma set_collapse: "set (collapse b s) \<subseteq> insert (CHR '' '') (set s)"
  by (induction b s rule: collapse.induct) auto

lemma set_py_take: "set (py_take n s) \<subseteq> set s"
  by (auto simp: py_take_def dest: in_set_takeD)

lemma length_py_take: "0 \<le> n \<Longrightarrow> int (length (py_take n s)) \<le> n"
  by (simp add: py_take_def)

lemma length_py_strip: "length (py_strip s) \<le> length s"
  unfolding py_strip_def by (metis length_dropWhile_le length_rev order_trans)

lemma space_safe: "\<not> unsafe_char (CHR '' '')"
  by (simp add: unsafe_char_def)

lemma cleaned_safe: "c \<in> set (cleaned_name name) \<Longrightarrow> \<not> unsafe_char c"
proof -
  assume "c \<in> set (cleaned_name name)"
  then have "c = CHR '' '' \<or> c \<in> set (filter (\<lambda>c. \<not> unsafe_char c) (basename name))"
    unfolding cleaned_name_def using set_py_strip set_collapse set_strip_chars by blast
  then show ?thesis using space_safe by auto
qed

lemma rpartition_dot_parts: "rpartition_dot s = (stem, dot, ext) \<Longrightarrow> set stem \<subseteq> set s \<and> set ext \<subseteq> set s"
  by (auto simp: rpartition_dot_def Let_def split: if_splits dest: in_set_takeD dest!: set_takeWhileD)

lemma rpartition_dot_split:
  assumes "rpartition_dot s = (stem, True, ext)"
  shows "s = stem @ CHR ''.'' # ext \<and> CHR ''.'' \<notin> set ext"
proof -
  have "CHR ''.'' \<in> set s" using assms by (simp add: rpartition_dot_def split: if_splits)
  then obtain a b where s: "s = a @ CHR ''.'' # b" "CHR ''.'' \<notin> set b" by (meson split_list_last)
  have "takeWhile (\<lambda>c. c \<noteq> CHR ''.'') (rev b @ CHR ''.'' # rev a) = rev b"
    using s(2) by (subst takeWhile_append2) auto
  then show ?thesis using assms s by (auto simp: rpartition_dot_def Let_def)
qed

lemma dot_safe: "\<not> unsafe_char (CHR ''.'')"
  by (simp add: unsafe_char_def)

lemma unsafe_code: "unsafe_char c \<Longrightarrow> (of_char c :: nat) \<in> {34, 42, 47, 58, 60, 62, 63, 92, 124} \<or> (of_char c :: nat) \<le> 31"
  by (auto simp: unsafe_char_def)

lemma lower_code:
  "(of_char (lower_char c) :: nat) = (if 65 \<le> (of_char c :: nat) \<and> (of_char c :: nat) \<le> 90 then of_char c + 32 else of_char c)"
  by (simp add: lower_char_def)

lemma alnum_lower_safe: "is_alnum c \<Longrightarrow> \<not> unsafe_char (lower_char c)"
  using unsafe_code [of "lower_char c"]
  by (auto simp: is_alnum_def is_alpha_def digit_val_def lower_code simp del: of_char_eq_iff split: if_splits)

text \<open>Without an extension of its own the suffix is a dot and at most eight letters or digits, or empty.\<close>

definition suffix_of :: "string \<Rightarrow> string \<times> string" where
  "suffix_of cleaned =
     (case rpartition_dot cleaned of (stem, dot, ext) \<Rightarrow>
        if dot \<and> 1 \<le> length ext \<and> length ext \<le> 8 \<and> list_all is_alnum ext
        then (stem, CHR ''.'' # lower_ascii ext) else (cleaned, []))"

lemma suffix_of_bounds:
  assumes "suffix_of s = (base, suffix)"
  shows "length suffix \<le> 9" "set base \<subseteq> set s" "\<And>c. c \<in> set suffix \<Longrightarrow> \<not> unsafe_char c"
proof -
  obtain stem dot ext where r: "rpartition_dot s = (stem, dot, ext)" by (cases "rpartition_dot s")
  show "length suffix \<le> 9" "set base \<subseteq> set s" "\<And>c. c \<in> set suffix \<Longrightarrow> \<not> unsafe_char c"
    using assms r rpartition_dot_parts [OF r]
    by (auto simp: suffix_of_def lower_ascii_def list_all_iff alnum_lower_safe dot_safe split: if_splits)
qed

lemma safe_filename_default:
  "safe_filename name fallback None =
     (let (base0, suffix) = suffix_of (cleaned_name name);
          base1 = (if base0 = [] then fallback else base0);
          base = (if map upper_char base1 \<in> set RESERVED_NAMES then base1 @ ''-file'' else base1);
          cut = py_strip (py_take (MAX_FILENAME_LENGTH - int (length suffix)) base)
      in (if cut = [] then fallback else cut) @ suffix)"
  by (simp add: safe_filename_def suffix_of_def Let_def case_prod_beta)

lemma safe_filename_ok:
  "safe_filename name ''document'' None \<noteq> [] \<and> length (safe_filename name ''document'' None) \<le> 120 \<and>
     (\<forall>c \<in> set (safe_filename name ''document'' None). \<not> unsafe_char c)"
proof -
  obtain base0 suffix where s: "suffix_of (cleaned_name name) = (base0, suffix)" by (cases "suffix_of (cleaned_name name)")
  define base1 where "base1 = (if base0 = [] then ''document'' else base0)"
  define base where "base = (if map upper_char base1 \<in> set RESERVED_NAMES then base1 @ ''-file'' else base1)"
  define cut where "cut = py_strip (py_take (MAX_FILENAME_LENGTH - int (length suffix)) base)"
  have f: "safe_filename name ''document'' None = (if cut = [] then ''document'' else cut) @ suffix"
    unfolding safe_filename_default s by (simp add: Let_def base1_def base_def cut_def)
  note b = suffix_of_bounds [OF s]
  have safe0: "\<not> unsafe_char c" if "c \<in> set base1" for c
    using that b(2) cleaned_safe by (auto simp: base1_def unsafe_char_def split: if_splits)
  have "\<not> unsafe_char c" if "c \<in> set base" for c
    using that safe0 by (auto simp: base_def unsafe_char_def split: if_splits)
  then have "\<not> unsafe_char c" if "c \<in> set cut" for c
    using that set_py_strip set_py_take unfolding cut_def by blast
  moreover have "int (length cut) + int (length suffix) \<le> 120"
    using length_py_take [of "MAX_FILENAME_LENGTH - int (length suffix)" base]
      length_py_strip [of "py_take (MAX_FILENAME_LENGTH - int (length suffix)) base"] b(1)
    unfolding cut_def MAX_FILENAME_LENGTH_def by linarith
  ultimately show ?thesis using b(1,3) by (auto simp: f unsafe_char_def)
qed

subsection \<open>Unique names\<close>

lemma numbered_inject: "numbered b s i = numbered b s j \<Longrightarrow> i = j"
  by (auto simp: numbered_def intro: str_nat_inject)

lemma card_suffix_numbers: "card (set suffix_numbers) = 998"
  unfolding suffix_numbers_def by (simp only: set_upt card_atLeastLessThan)

lemma find_fresh: "\<exists>x \<in> set xs. P x \<Longrightarrow> \<exists>x. find P xs = Some x \<and> P x"
  by (induction xs) auto

lemma unique_filename_fresh:
  assumes "length taken < 999"
  shows "fst (unique_filename name taken) \<notin> set taken"
proof (cases "name \<in> set taken")
  case False
  then show ?thesis by (simp add: unique_filename_def)
next
  case True
  obtain stem dot ext where r: "rpartition_dot name = (stem, dot, ext)" by (cases "rpartition_dot name")
  define b where "b = (if dot then stem else name)"
  define s where "s = (if dot then CHR ''.'' # ext else [])"
  have "\<exists>i \<in> set suffix_numbers. numbered b s i \<notin> set taken"
  proof (rule ccontr)
    assume "\<not> ?thesis"
    then have sub: "insert name (numbered b s ` set suffix_numbers) \<subseteq> set taken" using True by blast
    have notin: "name \<notin> numbered b s ` set suffix_numbers"
    proof
      assume "name \<in> numbered b s ` set suffix_numbers"
      then obtain i where i: "name = numbered b s i" by blast
      have "length name = length b + length s"
        using r rpartition_dot_split [of name stem ext] by (cases dot) (auto simp: b_def s_def)
      moreover have "length name > length b + length s" by (simp add: i numbered_def)
      ultimately show False by linarith
    qed
    have "inj_on (numbered b s) (set suffix_numbers)" using numbered_inject by (meson inj_onI)
    then have "card (numbered b s ` set suffix_numbers) = 998" by (simp add: card_image card_suffix_numbers)
    then have "card (insert name (numbered b s ` set suffix_numbers)) = 999" using notin by simp
    then have "999 \<le> card (set taken)" using card_mono [OF finite_set sub] by simp
    then show False using assms card_length [of taken] by linarith
  qed
  then obtain i where "find (\<lambda>i. numbered b s i \<notin> set taken) suffix_numbers = Some i" "numbered b s i \<notin> set taken"
    using find_fresh [of suffix_numbers "\<lambda>i. numbered b s i \<notin> set taken"] by blast
  then show ?thesis using True by (cases dot) (simp_all add: unique_filename_def Let_def r b_def s_def)
qed

text \<open>A series of names made unique one after the other, as the builder of a packet does.\<close>

fun unique_names :: "string list \<Rightarrow> string list \<Rightarrow> string list" where
  "unique_names [] taken = []"
| "unique_names (n # ns) taken = (case unique_filename n taken of (m, taken') \<Rightarrow> m # unique_names ns taken')"

lemma unique_filename_taken: "unique_filename name taken = (m, taken') \<Longrightarrow> taken' = List.insert m taken"
  by (auto simp: unique_filename_def Let_def split: if_splits prod.splits)

lemma unique_names_distinct:
  "length taken + length ns \<le> 999 \<Longrightarrow> distinct (unique_names ns taken) \<and> set (unique_names ns taken) \<inter> set taken = {}"
proof (induction ns arbitrary: taken)
  case (Cons n ns)
  obtain m taken' where m: "unique_filename n taken = (m, taken')" by (cases "unique_filename n taken")
  have t: "taken' = List.insert m taken" using unique_filename_taken [OF m] .
  have "m \<notin> set taken" using unique_filename_fresh [of taken n] Cons.prems m by simp
  moreover have "length taken' + length ns \<le> 999" using Cons.prems by (simp add: t List.insert_def)
  ultimately show ?case using Cons.IH [of taken'] m t by auto
qed simp

subsection \<open>The digest\<close>

lemma stable_time: "stable_manifest (build_manifest h inc om mi t) = stable_manifest (build_manifest h inc om mi t')"
  by (simp add: stable_manifest_def build_manifest_def)

lemma manifest_sha256_time:
  "manifest_sha256 repr sha (build_manifest h inc om mi t) = manifest_sha256 repr sha (build_manifest h inc om mi t')"
  using stable_time [of h inc om mi t t'] by (simp add: manifest_sha256_def)

lemma float_free_opt: "float_free (json_opt s)" "canon (json_opt s) = json_opt s"
  by (simp_all add: json_opt_def split: option.splits)

lemma json_opt_inject: "json_opt a = json_opt b \<longleftrightarrow> a = b"
  by (auto simp: json_opt_def split: option.splits)

lemma payload_float_free:
  "float_free (JObj (entry_payload e))" "float_free (JObj (omitted_payload m))"
  by (simp_all add: entry_payload_def omitted_payload_def float_free_opt)

lemma manifest_float_free: "float_free (JObj (stable_manifest (build_manifest h inc om mi t)))"
  using payload_float_free by (simp add: stable_manifest_def build_manifest_def float_free_opt list_all_iff)

lemma payload_keys: "distinct (map fst (entry_payload e))" "distinct (map fst (omitted_payload m))"
  by (simp_all add: entry_payload_def omitted_payload_def)

lemma entry_payload_inject:
  assumes "canon (JObj (entry_payload a)) = canon (JObj (entry_payload b))"
  shows "a = (b :: ManifestEntry)"
proof -
  note m = canon_members [OF assms payload_keys(1) payload_keys(1)]
  show ?thesis
    using m [of "''item_key''"] m [of "''document_type''"] m [of "''document_id''"] m [of "''document_version_id''"]
      m [of "''filename_in_archive''"] m [of "''source_filename''"] m [of "''sha256''"] m [of "''size_bytes''"]
      m [of "''effective_date''"] m [of "''expiry_date''"] m [of "''sort_order''"]
    by (intro ManifestEntry.equality) (simp_all add: entry_payload_def float_free_opt json_opt_inject)
qed

lemma omitted_payload_inject:
  assumes "canon (JObj (omitted_payload a)) = canon (JObj (omitted_payload b))"
  shows "a = (b :: OmittedEntry)"
proof -
  note m = canon_members [OF assms payload_keys(2) payload_keys(2)]
  show ?thesis
    using m [of "''item_key''"] m [of "''document_type''"] m [of "''required''"] m [of "''status''"] m [of "''reason''"]
    by (intro OmittedEntry.equality) (simp_all add: omitted_payload_def)
qed

lemma map_inject_list: "map f xs = map f ys \<Longrightarrow> (\<And>x y. f x = f y \<Longrightarrow> x = y) \<Longrightarrow> xs = ys"
  by (metis inj_map_eq_map inj_onI)

lemma payload_lists_inject:
  "map (canon \<circ> JObj \<circ> entry_payload) es = map (canon \<circ> JObj \<circ> entry_payload) es' \<Longrightarrow> es = es'"
  "map (canon \<circ> JObj \<circ> omitted_payload) os = map (canon \<circ> JObj \<circ> omitted_payload) os' \<Longrightarrow> os = os'"
  by (erule map_inject_list, simp only: comp_apply, erule entry_payload_inject)
     (erule map_inject_list, simp only: comp_apply, erule omitted_payload_inject)

text \<open>What a manifest says, apart from the time it was generated.\<close>

definition manifest_content ::
  "manifest_head \<Rightarrow> ManifestEntry list \<Rightarrow> OmittedEntry list \<Rightarrow> OmittedEntry list \<Rightarrow>
     manifest_head \<times> ManifestEntry list \<times> OmittedEntry list \<times> OmittedEntry list" where
  "manifest_content h inc om mi =
     (h, sort_key (\<lambda>e. (me_sort_order e, me_item_key e)) inc, sort_key oe_item_key om, sort_key oe_item_key mi)"

lemma stable_keys: "distinct (map fst (stable_manifest (build_manifest h inc om mi t)))"
  by (simp add: stable_manifest_def build_manifest_def)

lemma manifest_text_inject:
  assumes "json_text repr '','' '':'' (JObj (stable_manifest (build_manifest h inc om mi t))) =
           json_text repr '','' '':'' (JObj (stable_manifest (build_manifest h' inc' om' mi' t')))"
  shows "manifest_content h inc om mi = manifest_content h' inc' om' mi'"
proof -
  let ?m = "stable_manifest (build_manifest h inc om mi t)" and ?n = "stable_manifest (build_manifest h' inc' om' mi' t')"
  have "compact (JObj ?m) = compact (JObj ?n)"
    using assms json_text_float_free [OF manifest_float_free] by metis
  then have c: "canon (JObj ?m) = canon (JObj ?n)"
    using compact_inject [OF manifest_float_free manifest_float_free] by blast
  note g = canon_members [OF c stable_keys stable_keys]
  have "h = h'"
    using g [of "''packet_key''"] g [of "''packet_version''"] g [of "''case_key''"] g [of "''legal_entity''"]
      g [of "''jurisdiction''"] g [of "''license_type''"] g [of "''packet_template_key''"] g [of "''created_by_actor''"]
    by (intro manifest_head.equality) (simp_all add: stable_manifest_def build_manifest_def float_free_opt json_opt_inject)
  moreover have "map (canon \<circ> JObj \<circ> entry_payload) (sort_key (\<lambda>e. (me_sort_order e, me_item_key e)) inc) =
      map (canon \<circ> JObj \<circ> entry_payload) (sort_key (\<lambda>e. (me_sort_order e, me_item_key e)) inc')"
    using g [of "''included''"] by (simp add: stable_manifest_def build_manifest_def comp_def del: canon.simps(2))
  moreover have "map (canon \<circ> JObj \<circ> omitted_payload) (sort_key oe_item_key om) = map (canon \<circ> JObj \<circ> omitted_payload) (sort_key oe_item_key om')"
    using g [of "''omitted''"] by (simp add: stable_manifest_def build_manifest_def comp_def del: canon.simps(2))
  moreover have "map (canon \<circ> JObj \<circ> omitted_payload) (sort_key oe_item_key mi) = map (canon \<circ> JObj \<circ> omitted_payload) (sort_key oe_item_key mi')"
    using g [of "''missing''"] by (simp add: stable_manifest_def build_manifest_def comp_def del: canon.simps(2))
  ultimately show ?thesis
    unfolding manifest_content_def using payload_lists_inject by blast
qed

subsection \<open>Properties\<close>

text \<open>C26. The digest of a manifest identifies what it lists: for a collision-free hash, two builds have
  the same digest exactly when packet, case, entity, template and author agree and the same documents,
  versions, hashes and names are included and the same items are omitted and missing; the time of the build
  does not matter.\<close>

theorem manifest_digest_identifies_content:
  assumes "inj sha"
  shows "manifest_sha256 repr sha (build_manifest h inc om mi t) = manifest_sha256 repr sha (build_manifest h' inc' om' mi' t') \<longleftrightarrow>
    manifest_content h inc om mi = manifest_content h' inc' om' mi'"
proof
  assume "manifest_sha256 repr sha (build_manifest h inc om mi t) = manifest_sha256 repr sha (build_manifest h' inc' om' mi' t')"
  then show "manifest_content h inc om mi = manifest_content h' inc' om' mi'"
    using assms by (intro manifest_text_inject) (auto simp: manifest_sha256_def dest: injD)
next
  assume c: "manifest_content h inc om mi = manifest_content h' inc' om' mi'"
  then have "length inc = length inc'" "length om = length om'" "length mi = length mi'"
    by (simp_all add: manifest_content_def) (metis length_sort)+
  then have "stable_manifest (build_manifest h inc om mi t) = stable_manifest (build_manifest h' inc' om' mi' t')"
    using c by (simp add: manifest_content_def stable_manifest_def build_manifest_def)
  then show "manifest_sha256 repr sha (build_manifest h inc om mi t) = manifest_sha256 repr sha (build_manifest h' inc' om' mi' t')"
    by (simp add: manifest_sha256_def)
qed

definition ex_head :: manifest_head where
  "ex_head = \<lparr>mh_packet_key = ''p'', mh_version = 1, mh_case_key = ''c'', mh_legal_entity_name = ''Acme'',
     mh_jurisdiction_name = None, mh_license_type_name = None, mh_template_key = None, mh_created_by_actor = Some ''ann''\<rparr>"

definition ex_entry :: "string \<Rightarrow> ManifestEntry" where
  "ex_entry sha = \<lparr>me_item_key = ''bond'', me_document_type = ''SURETY_BOND'', me_document_id = ''d'',
     me_document_version_id = Some ''v'', me_filename_in_archive = ''01-bond.pdf'', me_source_filename = ''bond.pdf'',
     me_sha256 = Some sha, me_size_bytes = 10, me_effective_date = None, me_expiry_date = None, me_sort_order = 1\<rparr>"

theorem manifest_digest_identifies_content_witness:
  "manifest_sha256 (\<lambda>_. []) id (build_manifest ex_head [ex_entry ''aa''] [] [] 0) \<noteq>
   manifest_sha256 (\<lambda>_. []) id (build_manifest ex_head [ex_entry ''ab''] [] [] 0)"
  using manifest_digest_identifies_content [of id "\<lambda>_. []" ex_head "[ex_entry ''aa'']" "[]" "[]" 0 ex_head "[ex_entry ''ab'']" "[]" "[]" 0]
  by (simp add: manifest_content_def ex_entry_def)


text \<open>The sanitiser does not prevent directory traversal: white space and underscores are collapsed
  after the dots were stripped, so that a name such as \<^verbatim>\<open>_.._\<close> becomes \<^verbatim>\<open>..\<close>, and a base name is
  compared with the reserved device names before its trailing space is removed, so that
  \<^verbatim>\<open>CON .pdf\<close> becomes \<^verbatim>\<open>CON.pdf\<close>.\<close>

theorem safe_filename_can_be_parent_directory:
  "safe_filename ''_.._'' ''document'' None = ''..'' \<and> safe_filename ''CON .pdf'' ''document'' None = ''CON.pdf''"
  by code_simp

end
