(* ===== verification/Document_Catalog.thy ===== *)
theory Document_Catalog
  imports Case_Service Escalation
begin

text \<open>
  The governed document catalogue: rows of \<^verbatim>\<open>app/models/document.py\<close>, approval, reuse and expiry
  (\<^verbatim>\<open>app/services/document_catalog.py\<close> with \<^verbatim>\<open>app/documents/policies.py\<close>), the integrity check
  (\<^verbatim>\<open>app/services/document_integrity.py\<close>) and the SharePoint delta reconciliation
  (\<^verbatim>\<open>app/services/document_reconciliation.py\<close>). The Graph client is a parameter: the pages of a delta and
  the drive item of a version are arguments.
\<close>

subsection \<open>Rows\<close>

record document =
  doc_id :: uuid
  document_key :: string
  current_version_id :: "uuid option"
  canonical_title :: string
  original_filename :: "string option"
  current_filename :: string
  document_type :: string
  lifecycle_status :: string
  approval_status :: string
  confidentiality_level :: string
  doc_legal_entity :: "string option"
  doc_jurisdiction :: "string option"
  doc_license_type :: "string option"
  doc_license_number :: "string option"
  doc_vendor :: "string option"
  issue_date :: "date option"
  effective_date :: "date option"
  expiry_date :: "date option"
  renewal_due_date :: "date option"
  reusable :: bool
  approved_for_reuse :: bool
  doc_content_sha256 :: string
  doc_mime_type :: "string option"
  doc_size_bytes :: int
  doc_source_type :: string
  doc_created_by_actor :: "string option"
  doc_approved_by_actor :: "string option"
  doc_approved_at :: "datetime option"
  superseded_at :: "datetime option"
  updated_at :: datetime

record document_version =
  ver_id :: uuid
  ver_document_id :: uuid
  version_number :: int
  graph_site_id :: string
  graph_drive_id :: string
  graph_drive_item_id :: string
  graph_list_id :: "string option"
  graph_list_item_id :: "string option"
  parent_graph_drive_item_id :: "string option"
  ver_filename :: string
  web_url :: "string option"
  ver_mime_type :: "string option"
  ver_size_bytes :: int
  ver_content_sha256 :: string
  graph_etag :: "string option"
  graph_ctag :: "string option"
  storage_status :: string
  uploaded_by_actor :: "string option"
  uploaded_at :: datetime
  discovered_at :: "datetime option"

record document_event =
  dev_document_id :: uuid
  dev_event_type :: string
  dev_before :: "attrs option"
  dev_after :: "attrs option"
  dev_actor_type :: string
  dev_actor_id :: "string option"
  dev_occurred_at :: datetime

record sync_state =
  ss_drive_id :: uuid
  delta_link :: "string option"
  needs_rebaseline :: bool
  last_started_at :: "datetime option"
  last_completed_at :: "datetime option"
  last_page_count :: "int option"
  last_change_count :: "int option"
  last_error_code :: "string option"

record sharepoint_drive =
  sd_id :: uuid
  sd_graph_drive_id :: string
  sd_graph_list_id :: "string option"
  sd_site :: "string option"

text \<open>The site of a drive is kept with it: the Graph id of its row, when the row exists.\<close>

record document_db =
  documents :: "document list"
  versions :: "document_version list"
  doc_events :: "document_event list"
  sync_states :: "sync_state list"
  drives :: "sharepoint_drive list"

definition LifecycleStatus :: "string list" where
  "LifecycleStatus = [''ACTIVE'', ''EXPIRED'', ''SUPERSEDED'', ''ARCHIVED'', ''QUARANTINED'', ''MISSING'', ''DELETED_EXTERNALLY'']"

definition ApprovalStatus :: "string list" where
  "ApprovalStatus = [''UNREVIEWED'', ''PENDING_REVIEW'', ''APPROVED'', ''REJECTED'']"

definition ConfidentialityLevel :: "string list" where
  "ConfidentialityLevel = [''INTERNAL'', ''CONFIDENTIAL'', ''RESTRICTED'']"

subsection \<open>Policies (app/documents/policies.py)\<close>

definition MIME_EXTENSIONS :: "(string \<times> string list) list" where
  "MIME_EXTENSIONS =
     [(''application/pdf'', [''.pdf'']), (''image/png'', [''.png'']), (''image/jpeg'', [''.jpg'', ''.jpeg'']),
      (''text/plain'', [''.txt'']), (''text/csv'', [''.csv'']), (''application/msword'', [''.doc'']),
      (''application/vnd.ms-excel'', [''.xls'']),
      (''application/vnd.openxmlformats-officedocument.wordprocessingml.document'', [''.docx'']),
      (''application/vnd.openxmlformats-officedocument.spreadsheetml.sheet'', [''.xlsx''])]"

text \<open>
  \<^verbatim>\<open>PurePath(name).name\<close> and \<^verbatim>\<open>.suffix\<close> with \<^verbatim>\<open>/\<close> separators: empty and \<^verbatim>\<open>.\<close> parts are
  dropped, and a dot that starts or ends the last part begins no suffix.
\<close>

definition path_name :: "string \<Rightarrow> string" where
  "path_name s =
     (case rev (filter (\<lambda>p. p \<noteq> [] \<and> p \<noteq> ''.'') (split_on (CHR ''/'') s)) of [] \<Rightarrow> [] | p # _ \<Rightarrow> p)"

definition name_suffix :: "string \<Rightarrow> string" where
  "name_suffix name =
     (let after = rev (takeWhile (\<lambda>c. c \<noteq> CHR ''.'') (rev name));
          stem_len = length name - length after - 1
      in if CHR ''.'' \<in> set name \<and> 0 < stem_len \<and> after \<noteq> [] then CHR ''.'' # after else [])"

definition slashes :: "string \<Rightarrow> string" where
  "slashes s = map (\<lambda>c. if c = CHR 0x5C then CHR ''/'' else c) s"

definition dotted :: "string \<Rightarrow> string" where
  "dotted item = (if take 1 item = ''.'' then lower_ascii item else CHR ''.'' # lower_ascii item)"

definition validate_content ::
  "string \<Rightarrow> string \<Rightarrow> int \<Rightarrow> int \<Rightarrow> string list \<Rightarrow> string list \<Rightarrow> string + unit" where
  "validate_content filename mime_type size_bytes max_bytes allowed_mime_types allowed_extensions =
     (let extension = lower_ascii (name_suffix (path_name (slashes filename))) in
      if size_bytes < 0 \<or> max_bytes < size_bytes then Inl ''Document size violates repository policy.''
      else if lower_ascii mime_type \<notin> lower_ascii ` set allowed_mime_types then Inl ''Document MIME type is not approved.''
      else if extension \<notin> dotted ` set allowed_extensions then Inl ''Document extension is not approved.''
      else case map_of MIME_EXTENSIONS (lower_ascii mime_type) of
        None \<Rightarrow> Inr ()
      | Some expected \<Rightarrow>
        if extension \<notin> set expected then Inl ''Document MIME type and extension do not match.'' else Inr ())"

definition can_approve_for_reuse ::
  "string \<Rightarrow> string \<Rightarrow> string \<Rightarrow> string \<Rightarrow> date option \<Rightarrow> bool \<Rightarrow> bool \<Rightarrow> date \<Rightarrow> bool \<times> string option" where
  "can_approve_for_reuse lifecycle approval storage confidentiality expiry hash_verified metadata_complete today =
     (if lifecycle \<noteq> ''ACTIVE'' then (False, Some ''document is not active'')
      else if approval \<noteq> ''APPROVED'' then (False, Some ''document is not approved'')
      else if storage \<noteq> ''AVAILABLE'' then (False, Some ''current version is not available'')
      else if confidentiality = ''RESTRICTED'' then (False, Some ''restricted documents require a separate reuse policy'')
      else if (case expiry of None \<Rightarrow> False | Some e \<Rightarrow> e < today) then (False, Some ''document is expired'')
      else if \<not> hash_verified then (False, Some ''content hash is not verified'')
      else if \<not> metadata_complete then (False, Some ''required metadata is incomplete'')
      else (True, None))"

subsection \<open>Repository\<close>

definition version_of :: "document_db \<Rightarrow> uuid \<Rightarrow> uuid \<Rightarrow> document_version option" where
  "version_of db document_id version_id =
     find (\<lambda>v. ver_document_id v = document_id \<and> ver_id v = version_id) (versions db)"

definition require_doc :: "document_db \<Rightarrow> uuid \<Rightarrow> domain_error + document" where
  "require_doc db i = (case get_row doc_id (documents db) i of
     None \<Rightarrow> Inl (NotFoundError ''Document not found.'') | Some d \<Rightarrow> Inr d)"

definition event_row ::
  "datetime \<Rightarrow> uuid \<Rightarrow> string \<Rightarrow> string \<Rightarrow> string option \<Rightarrow> attrs option \<Rightarrow> attrs option \<Rightarrow> document_event" where
  "event_row now i event_type kind who before after =
     \<lparr>dev_document_id = i, dev_event_type = event_type, dev_before = before, dev_after = after,
      dev_actor_type = kind, dev_actor_id = who, dev_occurred_at = now\<rparr>"

definition add_event :: "document_event \<Rightarrow> document_db \<Rightarrow> document_db" where
  "add_event e db = db\<lparr>doc_events := doc_events db @ [e]\<rparr>"

text \<open>A changed row is written back with \<^verbatim>\<open>onupdate=utcnow\<close>; a row without a net change is not updated.\<close>

definition save_doc :: "datetime \<Rightarrow> document \<Rightarrow> document_db \<Rightarrow> document_db" where
  "save_doc now d db =
     (if get_row doc_id (documents db) (doc_id d) = Some d then db
      else db\<lparr>documents := put_row doc_id (d\<lparr>updated_at := now\<rparr>) (documents db)\<rparr>)"

subsection \<open>Metadata\<close>

definition opt_str :: "string option \<Rightarrow> attr" where
  "opt_str s = (case s of None \<Rightarrow> ANone | Some t \<Rightarrow> AStr t)"

definition opt_date :: "date option \<Rightarrow> attr" where
  "opt_date d = (case d of None \<Rightarrow> ANone | Some e \<Rightarrow> ADate e)"

definition as_str :: "attr \<Rightarrow> string option option" where
  "as_str a = (case a of ANone \<Rightarrow> Some None | AStr s \<Rightarrow> Some (Some s) | _ \<Rightarrow> None)"

definition as_date :: "attr \<Rightarrow> date option option" where
  "as_date a = (case a of ANone \<Rightarrow> Some None | ADate d \<Rightarrow> Some (Some d) | _ \<Rightarrow> None)"

definition METADATA_FIELDS :: "string list" where
  "METADATA_FIELDS = [''canonical_title'', ''document_type'', ''confidentiality_level'', ''legal_entity'',
     ''jurisdiction'', ''license_type'', ''license_number'', ''vendor'', ''issue_date'', ''effective_date'',
     ''expiry_date'', ''renewal_due_date'', ''reusable'']"

definition doc_attr :: "string \<Rightarrow> document \<Rightarrow> attr" where
  "doc_attr key d =
     (if key = ''canonical_title'' then AStr (canonical_title d)
      else if key = ''document_type'' then AStr (document_type d)
      else if key = ''confidentiality_level'' then AStr (confidentiality_level d)
      else if key = ''legal_entity'' then opt_str (doc_legal_entity d)
      else if key = ''jurisdiction'' then opt_str (doc_jurisdiction d)
      else if key = ''license_type'' then opt_str (doc_license_type d)
      else if key = ''license_number'' then opt_str (doc_license_number d)
      else if key = ''vendor'' then opt_str (doc_vendor d)
      else if key = ''issue_date'' then opt_date (issue_date d)
      else if key = ''effective_date'' then opt_date (effective_date d)
      else if key = ''expiry_date'' then opt_date (expiry_date d)
      else if key = ''renewal_due_date'' then opt_date (renewal_due_date d)
      else AJson (JBool (reusable d)))"

text \<open>
  \<^verbatim>\<open>setattr\<close> of one column; no value means that the database refuses it at the flush (a NULL in a
  required column, a value outside the CHECK constraint or of another type).
\<close>

definition set_attr :: "string \<Rightarrow> attr \<Rightarrow> document \<Rightarrow> document option" where
  "set_attr key a d =
     (if key = ''canonical_title'' then (case a of AStr s \<Rightarrow> Some (d\<lparr>canonical_title := s\<rparr>) | _ \<Rightarrow> None)
      else if key = ''document_type'' then (case a of AStr s \<Rightarrow> Some (d\<lparr>document_type := s\<rparr>) | _ \<Rightarrow> None)
      else if key = ''confidentiality_level'' then
        (case a of AStr s \<Rightarrow> if s \<in> set ConfidentialityLevel then Some (d\<lparr>confidentiality_level := s\<rparr>) else None | _ \<Rightarrow> None)
      else if key = ''legal_entity'' then map_option (\<lambda>v. d\<lparr>doc_legal_entity := v\<rparr>) (as_str a)
      else if key = ''jurisdiction'' then map_option (\<lambda>v. d\<lparr>doc_jurisdiction := v\<rparr>) (as_str a)
      else if key = ''license_type'' then map_option (\<lambda>v. d\<lparr>doc_license_type := v\<rparr>) (as_str a)
      else if key = ''license_number'' then map_option (\<lambda>v. d\<lparr>doc_license_number := v\<rparr>) (as_str a)
      else if key = ''vendor'' then map_option (\<lambda>v. d\<lparr>doc_vendor := v\<rparr>) (as_str a)
      else if key = ''issue_date'' then map_option (\<lambda>v. d\<lparr>issue_date := v\<rparr>) (as_date a)
      else if key = ''effective_date'' then map_option (\<lambda>v. d\<lparr>effective_date := v\<rparr>) (as_date a)
      else if key = ''expiry_date'' then map_option (\<lambda>v. d\<lparr>expiry_date := v\<rparr>) (as_date a)
      else if key = ''renewal_due_date'' then map_option (\<lambda>v. d\<lparr>renewal_due_date := v\<rparr>) (as_date a)
      else (case a of AJson (JBool b) \<Rightarrow> Some (d\<lparr>reusable := b\<rparr>) | _ \<Rightarrow> None))"

fun set_attrs :: "attrs \<Rightarrow> document \<Rightarrow> document option" where
  "set_attrs [] d = Some d"
| "set_attrs ((key, a) # changes) d =
     (if key \<in> set METADATA_FIELDS
      then case set_attr key a d of None \<Rightarrow> None | Some d' \<Rightarrow> set_attrs changes d'
      else set_attrs changes d)"

definition jsonable :: "attrs \<Rightarrow> attrs" where
  "jsonable vs = map (\<lambda>(k, a). (k, case a of ADate d \<Rightarrow> AStr (isoformat d) | _ \<Rightarrow> a)) vs"

definition update_metadata ::
  "datetime \<Rightarrow> uuid \<Rightarrow> attrs \<Rightarrow> datetime \<Rightarrow> string \<Rightarrow> document_db \<Rightarrow> domain_error + (document \<times> document_db)" where
  "update_metadata now i changes expected_updated_at who db =
     bindE (require_doc db i) (\<lambda>d.
     bindE (check (updated_at d = expected_updated_at)
              (StateConflictError ''Document metadata changed since it was retrieved.'')) (\<lambda>_.
     let keys = filter (\<lambda>k. k \<in> set METADATA_FIELDS) (map fst changes)
     in case set_attrs changes d of
          None \<Rightarrow> Inl IntegrityError
        | Some d1 \<Rightarrow>
          let d2 = d1\<lparr>updated_at := now\<rparr> in
          Inr (d2, add_event (event_row now i ''METADATA_UPDATED'' ''HUMAN'' (Some who)
                     (Some (jsonable (map (\<lambda>k. (k, doc_attr k d)) keys)))
                     (Some (jsonable (map (\<lambda>k. (k, doc_attr k d2)) keys))))
                   (db\<lparr>documents := put_row doc_id d2 (documents db)\<rparr>))))"

subsection \<open>Approval and reuse\<close>

definition approval_event ::
  "datetime \<Rightarrow> document \<Rightarrow> document \<Rightarrow> string \<Rightarrow> string \<Rightarrow> string \<Rightarrow> document_db \<Rightarrow> document \<times> document_db" where
  "approval_event now old d status who event db =
     (let d' = d\<lparr>approval_status := status\<rparr>
      in (d', add_event (event_row now (doc_id d) event ''HUMAN'' (Some who)
                (Some [(''approval_status'', AStr (approval_status old))])
                (Some [(''approval_status'', AStr status)]))
              (save_doc now d' db)))"

definition submit_for_review ::
  "datetime \<Rightarrow> uuid \<Rightarrow> string \<Rightarrow> document_db \<Rightarrow> domain_error + (document \<times> document_db)" where
  "submit_for_review now i who db =
     bindE (require_doc db i) (\<lambda>d.
     bindE (check (approval_status d \<in> {''UNREVIEWED'', ''REJECTED''})
              (InvalidStateTransitionError ''Document cannot be submitted from its current state.'')) (\<lambda>_.
     Inr (approval_event now d d ''PENDING_REVIEW'' who ''SUBMITTED_FOR_REVIEW'' db)))"

definition approve_doc ::
  "datetime \<Rightarrow> uuid \<Rightarrow> string \<Rightarrow> document_db \<Rightarrow> domain_error + (document \<times> document_db)" where
  "approve_doc now i who db =
     bindE (require_doc db i) (\<lambda>d.
     bindE (check (approval_status d \<in> {''PENDING_REVIEW'', ''UNREVIEWED''})
              (InvalidStateTransitionError ''Document cannot be approved from its current state.'')) (\<lambda>_.
     Inr (approval_event now d (d\<lparr>doc_approved_at := Some now, doc_approved_by_actor := Some who\<rparr>)
            ''APPROVED'' who ''APPROVED'' db)))"

definition reject_doc ::
  "datetime \<Rightarrow> uuid \<Rightarrow> string \<Rightarrow> document_db \<Rightarrow> domain_error + (document \<times> document_db)" where
  "reject_doc now i who db =
     bindE (require_doc db i) (\<lambda>d.
     Inr (approval_event now d (d\<lparr>approved_for_reuse := False\<rparr>) ''REJECTED'' who ''REJECTED'' db))"

definition approve_reuse ::
  "datetime \<Rightarrow> date \<Rightarrow> uuid \<Rightarrow> string \<Rightarrow> document_db \<Rightarrow> domain_error + (document \<times> document_db)" where
  "approve_reuse now today i who db =
     bindE (require_doc db i) (\<lambda>d.
     let version = (case current_version_id d of None \<Rightarrow> None | Some v \<Rightarrow> version_of db (doc_id d) v);
         (allowed, reason) = can_approve_for_reuse (lifecycle_status d) (approval_status d)
            (case version of None \<Rightarrow> ''MISSING'' | Some v \<Rightarrow> storage_status v) (confidentiality_level d) (expiry_date d)
            (case version of None \<Rightarrow> False | Some v \<Rightarrow> ver_content_sha256 v = doc_content_sha256 d)
            (document_type d \<noteq> [] \<and> canonical_title d \<noteq> []) today
     in bindE (check allowed (InvalidStateTransitionError ''Document cannot be approved for reuse'')) (\<lambda>_.
        let d' = d\<lparr>reusable := True, approved_for_reuse := True\<rparr>
        in Inr (d', add_event (event_row now (doc_id d) ''REUSE_APPROVED'' ''HUMAN'' (Some who) None None)
                    (save_doc now d' db))))"

definition revoke_reuse ::
  "datetime \<Rightarrow> uuid \<Rightarrow> string \<Rightarrow> document_db \<Rightarrow> domain_error + (document \<times> document_db)" where
  "revoke_reuse now i who db =
     bindE (require_doc db i) (\<lambda>d.
     let d' = d\<lparr>approved_for_reuse := False\<rparr>
     in Inr (d', add_event (event_row now (doc_id d) ''REUSE_REVOKED'' ''HUMAN'' (Some who) None None)
                 (save_doc now d' db)))"

definition supersede_doc ::
  "datetime \<Rightarrow> uuid \<Rightarrow> string \<Rightarrow> document_db \<Rightarrow> domain_error + (document \<times> document_db)" where
  "supersede_doc now i who db =
     bindE (require_doc db i) (\<lambda>d.
     let d' = d\<lparr>lifecycle_status := ''SUPERSEDED'', superseded_at := Some now, approved_for_reuse := False\<rparr>
     in Inr (d', add_event (event_row now (doc_id d) ''SUPERSEDED'' ''HUMAN'' (Some who) None None)
                 (save_doc now d' db)))"

definition expired_on :: "date \<Rightarrow> document \<Rightarrow> bool" where
  "expired_on today d \<longleftrightarrow> lifecycle_status d = ''ACTIVE'' \<and> (case expiry_date d of None \<Rightarrow> False | Some e \<Rightarrow> e < today)"

definition mark_expired :: "datetime \<Rightarrow> date \<Rightarrow> document_db \<Rightarrow> int \<times> document_db" where
  "mark_expired now today db =
     (let found = filter (expired_on today) (documents db)
      in (int (length found),
          foldl (\<lambda>db d. add_event (event_row now (doc_id d) ''EXPIRED'' ''SYSTEM'' None None None)
                   (save_doc now (d\<lparr>lifecycle_status := ''EXPIRED'', approved_for_reuse := False\<rparr>) db)) db found))"

subsection \<open>Integrity (app/services/document_integrity.py)\<close>

record drive_item =
  di_size :: int
  di_etag :: "string option"

definition verify_document ::
  "datetime \<Rightarrow> (string \<Rightarrow> string \<Rightarrow> drive_item) \<Rightarrow> uuid \<Rightarrow> document_db \<Rightarrow> (bool \<times> (string \<times> bool) list) \<times> document_db" where
  "verify_document now get_drive_item i db =
     (case get_row doc_id (documents db) i of
        None \<Rightarrow> ((False, [(''catalog'', False)]), db)
      | Some d \<Rightarrow>
        (case current_version_id d of
           None \<Rightarrow> ((False, [(''catalog'', False)]), db)
         | Some vid \<Rightarrow>
           (case version_of db (doc_id d) vid of
              None \<Rightarrow> ((False, [(''current_version'', False)]), db)
            | Some v \<Rightarrow>
              let item = get_drive_item (graph_drive_id v) (graph_drive_item_id v);
                  checks = [(''drive_item_exists'', True), (''size_matches'', di_size item = ver_size_bytes v),
                    (''current_version_pointer'', Some (ver_id v) = current_version_id d),
                    (''etag_matches'', graph_etag v = None \<or> graph_etag v = Some [] \<or> graph_etag v = di_etag item)];
                  ok = list_all snd checks
              in ((ok, checks),
                  if ok then db
                  else add_event (event_row now (doc_id d) ''INTEGRITY_MISMATCH'' ''SYSTEM'' (Some ''document-integrity'') None
                         (Some (map (\<lambda>(k, b). (k, AJson (JBool b))) checks)))
                       (save_doc now (d\<lparr>approved_for_reuse := False\<rparr>) db)))))"

subsection \<open>Reconciliation (app/services/document_reconciliation.py)\<close>

text \<open>
  An entry of a delta page, with the fields the code reads; an empty string and an absent field are the
  same to it.
\<close>

record delta_item =
  it_id :: "string option"
  it_folder :: bool
  it_deleted :: bool
  it_name :: "string option"
  it_parent_id :: "string option"
  it_web_url :: "string option"
  it_etag :: "string option"
  it_ctag :: "string option"
  it_document_key :: "string option"
  it_list_item_id :: "string option"
  it_mime_type :: "string option"
  it_size :: "int option"

definition or_str :: "string option \<Rightarrow> string option \<Rightarrow> string option" where
  "or_str a b = (case a of Some (c # s) \<Rightarrow> Some (c # s) | _ \<Rightarrow> b)"

definition or_text :: "string option \<Rightarrow> string \<Rightarrow> string" where
  "or_text a b = (case a of Some (c # s) \<Rightarrow> c # s | _ \<Rightarrow> b)"

definition save_version :: "document_version \<Rightarrow> document_db \<Rightarrow> document_db" where
  "save_version v db = db\<lparr>versions := put_row ver_id v (versions db)\<rparr>"

text \<open>What an import takes from its surroundings: the new identifiers and SHA-256.\<close>

record import_env =
  im_now :: datetime
  im_document_id :: uuid
  im_version_id :: uuid
  im_key_hex :: string
  im_sha256 :: "string \<Rightarrow> string"

definition imported_document :: "import_env \<Rightarrow> sharepoint_drive \<Rightarrow> string \<Rightarrow> delta_item \<Rightarrow> document" where
  "imported_document env drive item_id item =
     \<lparr>doc_id = im_document_id env, document_key = or_text (it_document_key item) (''SP-'' @ im_key_hex env),
      current_version_id = Some (im_version_id env),
      canonical_title = or_text (it_name item) ''Unreviewed SharePoint document'', original_filename = None,
      current_filename = or_text (it_name item) ''unknown'', document_type = ''OTHER'', lifecycle_status = ''ACTIVE'',
      approval_status = ''UNREVIEWED'', confidentiality_level = ''INTERNAL'', doc_legal_entity = None,
      doc_jurisdiction = None, doc_license_type = None, doc_license_number = None, doc_vendor = None,
      issue_date = None, effective_date = None, expiry_date = None, renewal_due_date = None, reusable = False,
      approved_for_reuse = False,
      doc_content_sha256 = im_sha256 env (''unverified:'' @ sd_graph_drive_id drive @ '':'' @ item_id),
      doc_mime_type = it_mime_type item, doc_size_bytes = (case it_size item of None \<Rightarrow> 0 | Some n \<Rightarrow> n),
      doc_source_type = ''SHAREPOINT_EXISTING'', doc_created_by_actor = Some ''sharepoint-reconciliation'',
      doc_approved_by_actor = None, doc_approved_at = None, superseded_at = None, updated_at = im_now env\<rparr>"

definition imported_version ::
  "import_env \<Rightarrow> sharepoint_drive \<Rightarrow> string \<Rightarrow> string \<Rightarrow> delta_item \<Rightarrow> document_version" where
  "imported_version env drive site item_id item =
     (let d = imported_document env drive item_id item in
      \<lparr>ver_id = im_version_id env, ver_document_id = im_document_id env, version_number = 1, graph_site_id = site,
       graph_drive_id = sd_graph_drive_id drive, graph_drive_item_id = item_id, graph_list_id = sd_graph_list_id drive,
       graph_list_item_id = or_str (it_list_item_id item) None, parent_graph_drive_item_id = it_parent_id item,
       ver_filename = current_filename d, web_url = it_web_url item, ver_mime_type = doc_mime_type d,
       ver_size_bytes = doc_size_bytes d, ver_content_sha256 = doc_content_sha256 d, graph_etag = it_etag item,
       graph_ctag = it_ctag item, storage_status = ''AVAILABLE'', uploaded_by_actor = Some ''sharepoint-existing'',
       uploaded_at = im_now env, discovered_at = Some (im_now env)\<rparr>)"

definition import_unknown ::
  "import_env \<Rightarrow> sharepoint_drive \<Rightarrow> string \<Rightarrow> delta_item \<Rightarrow> document_db \<Rightarrow> domain_error + document_db" where
  "import_unknown env drive item_id item db =
     (case sd_site drive of
        None \<Rightarrow> Inr db
      | Some site \<Rightarrow>
        let d = imported_document env drive item_id item; v = imported_version env drive site item_id item
        in bindE (check (doc_id d \<notin> doc_id ` set (documents db) \<and> document_key d \<notin> document_key ` set (documents db) \<and>
                         ver_id v \<notin> ver_id ` set (versions db)) IntegrityError) (\<lambda>_.
           Inr (add_event (event_row (im_now env) (doc_id d) ''IMPORTED_EXISTING'' ''SYSTEM'' None None None)
                 (db\<lparr>documents := documents db @ [d], versions := versions db @ [v]\<rparr>))))"

definition apply_item ::
  "import_env \<Rightarrow> sharepoint_drive \<Rightarrow> delta_item \<Rightarrow> document_db \<Rightarrow> domain_error + document_db" where
  "apply_item env drive item db =
     (let now = im_now env; item_id = or_text (it_id item) [] in
      if item_id = [] then Inr db
      else case find (\<lambda>v. graph_drive_id v = sd_graph_drive_id drive \<and> graph_drive_item_id v = item_id) (versions db) of
        None \<Rightarrow> if it_deleted item then Inr db else import_unknown env drive item_id item db
      | Some v \<Rightarrow>
        (case get_row doc_id (documents db) (ver_document_id v) of
           None \<Rightarrow> Inr db
         | Some d \<Rightarrow>
           if it_deleted item
           then Inr (add_event (event_row now (doc_id d) ''DELETED_EXTERNALLY'' ''SYSTEM'' None None None)
                  (save_version (v\<lparr>storage_status := ''DELETED_EXTERNALLY''\<rparr>)
                  (save_doc now (d\<lparr>lifecycle_status := ''DELETED_EXTERNALLY'', approved_for_reuse := False\<rparr>) db)))
           else
             let new_name = or_text (it_name item) (ver_filename v);
                 (v1, db1) =
                   (if new_name \<noteq> ver_filename v
                    then (v\<lparr>ver_filename := new_name\<rparr>,
                          add_event (event_row now (doc_id d) ''RENAMED_EXTERNALLY'' ''SYSTEM'' None
                              (Some [(''filename'', AStr (ver_filename v))]) (Some [(''filename'', AStr new_name)]))
                            (save_doc now (d\<lparr>current_filename := new_name\<rparr>) db))
                    else (v, db));
                 (v2, db2) =
                   (case it_parent_id item of
                      Some (c # p) \<Rightarrow>
                        if Some (c # p) \<noteq> parent_graph_drive_item_id v1
                        then (v1\<lparr>parent_graph_drive_item_id := Some (c # p)\<rparr>,
                              add_event (event_row now (doc_id d) ''MOVED_EXTERNALLY'' ''SYSTEM'' None
                                (Some [(''parent_graph_drive_item_id'', opt_str (parent_graph_drive_item_id v1))])
                                (Some [(''parent_graph_drive_item_id'', AStr (c # p))])) db1)
                        else (v1, db1)
                    | _ \<Rightarrow> (v1, db1));
                 v3 = v2\<lparr>web_url := or_str (it_web_url item) (web_url v2), graph_etag := or_str (it_etag item) (graph_etag v2),
                         graph_ctag := or_str (it_ctag item) (graph_ctag v2)\<rparr>
             in Inr (save_version v3 db2)))"

text \<open>
  An answer of the delta endpoint, or the status of its API error. The loop follows the next links; it is
  bounded by fuel, and running out of it is no result.
\<close>

datatype delta_payload =
    Page "(import_env \<times> delta_item) list" "string option" "string option"
  | Graph_Error int

datatype delta_outcome = Checkpoint "(import_env \<times> delta_item) list list" string | No_Checkpoint | Api_Error int

fun fetch_pages ::
  "nat \<Rightarrow> (string option \<Rightarrow> delta_payload) \<Rightarrow> (import_env \<times> delta_item) list list \<Rightarrow> string option \<Rightarrow> delta_outcome option" where
  "fetch_pages 0 drive_delta pages next_url = None"
| "fetch_pages (Suc fuel) drive_delta pages next_url =
     (case drive_delta next_url of
        Graph_Error status \<Rightarrow> Some (Api_Error status)
      | Page items next_link delta_url \<Rightarrow>
        (case or_str next_link None of
           Some url \<Rightarrow> fetch_pages fuel drive_delta (pages @ [items]) (Some url)
         | None \<Rightarrow>
           (case or_str delta_url None of
              None \<Rightarrow> Some No_Checkpoint
            | Some final_delta \<Rightarrow> Some (Checkpoint (pages @ [items]) final_delta))))"

definition open_state :: "uuid \<Rightarrow> document_db \<Rightarrow> sync_state \<times> document_db" where
  "open_state drive_id db =
     (case get_row ss_drive_id (sync_states db) drive_id of
        Some s \<Rightarrow> (s, db)
      | None \<Rightarrow>
        let s = \<lparr>ss_drive_id = drive_id, delta_link = None, needs_rebaseline = False, last_started_at = None,
                 last_completed_at = None, last_page_count = None, last_change_count = None, last_error_code = None\<rparr>
        in (s, db\<lparr>sync_states := sync_states db @ [s]\<rparr>))"

definition save_state :: "sync_state \<Rightarrow> document_db \<Rightarrow> document_db" where
  "save_state s db = db\<lparr>sync_states := put_row ss_drive_id s (sync_states db)\<rparr>"

fun apply_items ::
  "sharepoint_drive \<Rightarrow> (import_env \<times> delta_item) list \<Rightarrow> int \<Rightarrow> document_db \<Rightarrow> domain_error + (int \<times> document_db)" where
  "apply_items drive [] changes db = Inr (changes, db)"
| "apply_items drive ((env, item) # items) changes db =
     (if it_folder item then apply_items drive items changes db
      else bindE (apply_item env drive item db) (\<lambda>db'. apply_items drive items (changes + 1) db'))"

datatype reconcile_result =
    Reconciled int int document_db
  | Rebaseline_Requested int document_db
  | Api_Failure int
  | Failed domain_error

text \<open>
  \<^verbatim>\<open>reconcile\<close>: a failure before the commit leaves the database as it was, except that an invalid token
  commits the request for a new baseline.
\<close>

definition reconcile_drive ::
  "nat \<Rightarrow> datetime \<Rightarrow> (string option \<Rightarrow> delta_payload) \<Rightarrow> uuid \<Rightarrow> document_db \<Rightarrow> reconcile_result option" where
  "reconcile_drive fuel now drive_delta drive_id db =
     (case get_row sd_id (drives db) drive_id of
        None \<Rightarrow> Some (Failed (Raised ValueError))
      | Some drive \<Rightarrow>
        let (s0, db0) = open_state drive_id db;
            s = s0\<lparr>last_started_at := Some now\<rparr>;
            checkpoint = (if needs_rebaseline s then None else delta_link s)
        in map_option (\<lambda>outcome. case outcome of
             Api_Error status \<Rightarrow>
               (if status = 400 \<or> status = 410
                then Rebaseline_Requested status
                       (save_state (s\<lparr>needs_rebaseline := True, last_error_code := Some ''invalid_delta_token''\<rparr>) db0)
                else Api_Failure status)
           | No_Checkpoint \<Rightarrow> Failed (Raised ValueError)
           | Checkpoint pages final_delta \<Rightarrow>
               (case apply_items drive (concat pages) 0 db0 of
                  Inl e \<Rightarrow> Failed e
                | Inr (changes, db1) \<Rightarrow>
                  Reconciled (int (length pages)) changes
                    (save_state (s\<lparr>delta_link := Some final_delta, needs_rebaseline := False, last_completed_at := Some now,
                       last_page_count := Some (int (length pages)), last_change_count := Some changes,
                       last_error_code := None\<rparr>) db1)))
           (fetch_pages fuel drive_delta [] checkpoint))"

subsection \<open>Invariant\<close>

text \<open>
  Approval is always attributed and dated, and a document approved for reuse is approved and active.
\<close>

definition doc_ok :: "document \<Rightarrow> bool" where
  "doc_ok d \<longleftrightarrow>
     (approval_status d = ''APPROVED'' \<longrightarrow> doc_approved_at d \<noteq> None \<and> doc_approved_by_actor d \<noteq> None) \<and>
     (approved_for_reuse d \<longrightarrow> approval_status d = ''APPROVED'' \<and> lifecycle_status d = ''ACTIVE'')"

definition catalog_ok :: "document_db \<Rightarrow> bool" where
  "catalog_ok db \<longleftrightarrow> distinct (map doc_id (documents db)) \<and> list_all doc_ok (documents db)"

text \<open>A row inserted by the upload service: active, unreviewed, not approved for reuse.\<close>

definition fresh_upload :: "document \<Rightarrow> bool" where
  "fresh_upload d \<longleftrightarrow> lifecycle_status d = ''ACTIVE'' \<and> approval_status d = ''UNREVIEWED'' \<and> \<not> approved_for_reuse d \<and>
     doc_approved_at d = None \<and> current_version_id d = None"

inductive doc_step :: "document_db \<Rightarrow> document_db \<Rightarrow> bool" where
  step_upload: "fresh_upload d \<Longrightarrow> doc_id d \<notin> doc_id ` set (documents db) \<Longrightarrow>
     doc_step db (db\<lparr>documents := documents db @ [d]\<rparr>)"
| step_update: "update_metadata now i changes expected who db = Inr (d, db') \<Longrightarrow> doc_step db db'"
| step_submit: "submit_for_review now i who db = Inr (d, db') \<Longrightarrow> doc_step db db'"
| step_approve: "approve_doc now i who db = Inr (d, db') \<Longrightarrow> doc_step db db'"
| step_reject: "reject_doc now i who db = Inr (d, db') \<Longrightarrow> doc_step db db'"
| step_reuse: "approve_reuse now today i who db = Inr (d, db') \<Longrightarrow> doc_step db db'"
| step_revoke: "revoke_reuse now i who db = Inr (d, db') \<Longrightarrow> doc_step db db'"
| step_supersede: "supersede_doc now i who db = Inr (d, db') \<Longrightarrow> doc_step db db'"
| step_expire: "mark_expired now today db = (n, db') \<Longrightarrow> doc_step db db'"
| step_verify: "verify_document now get_item i db = (r, db') \<Longrightarrow> doc_step db db'"
| step_reconcile: "reconcile_drive fuel now delta i db = Some (Reconciled pages changes db') \<Longrightarrow> doc_step db db'"
| step_rebaseline: "reconcile_drive fuel now delta i db = Some (Rebaseline_Requested status db') \<Longrightarrow> doc_step db db'"

definition doc_init :: "document_db \<Rightarrow> bool" where
  "doc_init db \<longleftrightarrow> documents db = [] \<and> versions db = [] \<and> doc_events db = []"

subsection \<open>Preservation\<close>

lemma require_Inr: "require_doc db i = Inr d \<longleftrightarrow> get_row doc_id (documents db) i = Some d"
  by (auto simp: require_doc_def split: option.splits)

lemma require_ok: "catalog_ok db \<Longrightarrow> get_row doc_id (documents db) i = Some d \<Longrightarrow> doc_ok d \<and> doc_id d = i"
  by (auto simp: catalog_ok_def list_all_iff dest: get_row_SomeD)

lemma put_ok: "catalog_ok db \<Longrightarrow> doc_ok d \<Longrightarrow> catalog_ok (db\<lparr>documents := put_row doc_id d (documents db)\<rparr>)"
  by (auto simp: catalog_ok_def list_all_iff dest!: set_put_row)

lemma touch_ok: "doc_ok (d\<lparr>updated_at := now\<rparr>) = doc_ok d"
  by (simp add: doc_ok_def)

lemma save_ok: "catalog_ok db \<Longrightarrow> doc_ok d \<Longrightarrow> catalog_ok (save_doc now d db)"
  by (simp add: save_doc_def put_ok touch_ok)

lemma other_tables_ok [simp]:
  "catalog_ok (add_event e db) = catalog_ok db"
  "catalog_ok (save_version v db) = catalog_ok db"
  "catalog_ok (save_state s db) = catalog_ok db"
  "catalog_ok (db\<lparr>versions := vs\<rparr>) = catalog_ok db"
  "catalog_ok (db\<lparr>sync_states := ss\<rparr>) = catalog_ok db"
  by (simp_all add: catalog_ok_def add_event_def save_version_def save_state_def)

lemma append_ok:
  "catalog_ok db \<Longrightarrow> doc_ok d \<Longrightarrow> doc_id d \<notin> doc_id ` set (documents db) \<Longrightarrow>
     catalog_ok (db\<lparr>documents := documents db @ [d]\<rparr>)"
  by (auto simp: catalog_ok_def)

lemma set_attr_keeps:
  "set_attr key a d = Some d' \<Longrightarrow> doc_id d' = doc_id d \<and> approval_status d' = approval_status d \<and>
     approved_for_reuse d' = approved_for_reuse d \<and> lifecycle_status d' = lifecycle_status d \<and>
     doc_approved_at d' = doc_approved_at d \<and> doc_approved_by_actor d' = doc_approved_by_actor d \<and>
     doc_content_sha256 d' = doc_content_sha256 d \<and> current_version_id d' = current_version_id d"
  unfolding set_attr_def
  by (auto split: if_splits attr.splits json.splits)

lemma set_attrs_keeps:
  "set_attrs changes d = Some d' \<Longrightarrow> doc_id d' = doc_id d \<and> approval_status d' = approval_status d \<and>
     approved_for_reuse d' = approved_for_reuse d \<and> lifecycle_status d' = lifecycle_status d \<and>
     doc_approved_at d' = doc_approved_at d \<and> doc_approved_by_actor d' = doc_approved_by_actor d"
proof (induction changes d rule: set_attrs.induct)
  case (2 key a changes d)
  show ?case
  proof (cases "key \<in> set METADATA_FIELDS")
    case True
    then obtain d1 where "set_attr key a d = Some d1" "set_attrs changes d1 = Some d'"
      using "2.prems" by (auto split: option.splits)
    then show ?thesis using "2.IH"(1) [OF True] set_attr_keeps by metis
  next
    case False
    then show ?thesis using 2 by simp
  qed
qed simp

lemma update_metadata_ok:
  assumes "catalog_ok db" "update_metadata now i changes expected who db = Inr (d, db')"
  shows "catalog_ok db'"
proof -
  obtain d0 d1 where d0: "get_row doc_id (documents db) i = Some d0" and d1: "set_attrs changes d0 = Some d1"
    and db': "catalog_ok db' = catalog_ok (db\<lparr>documents := put_row doc_id (d1\<lparr>updated_at := now\<rparr>) (documents db)\<rparr>)"
    using assms(2) by (auto simp: update_metadata_def err_simps require_Inr Let_def split: option.splits)
  have "doc_ok d1" using require_ok [OF assms(1) d0] set_attrs_keeps [OF d1] by (simp add: doc_ok_def)
  then show ?thesis using assms(1) by (simp add: db' put_ok touch_ok)
qed

lemma approval_event_ok:
  "catalog_ok db \<Longrightarrow> doc_ok (d\<lparr>approval_status := status\<rparr>) \<Longrightarrow> catalog_ok (snd (approval_event now old d status who event db))"
  by (simp add: approval_event_def Let_def save_ok)

lemma submit_ok: "catalog_ok db \<Longrightarrow> submit_for_review now i who db = Inr (d, db') \<Longrightarrow> catalog_ok db'"
proof -
  assume ok: "catalog_ok db" and s: "submit_for_review now i who db = Inr (d, db')"
  obtain d0 where d0: "get_row doc_id (documents db) i = Some d0" "approval_status d0 \<in> {''UNREVIEWED'', ''REJECTED''}"
    and db': "(d, db') = approval_event now d0 d0 ''PENDING_REVIEW'' who ''SUBMITTED_FOR_REVIEW'' db"
    using s by (auto simp: submit_for_review_def err_simps require_Inr)
  have "doc_ok (d0\<lparr>approval_status := ''PENDING_REVIEW''\<rparr>)" using require_ok [OF ok d0(1)] d0(2) by (auto simp: doc_ok_def)
  then show ?thesis using approval_event_ok [OF ok] db' by (metis snd_conv)
qed

lemma approve_ok: "catalog_ok db \<Longrightarrow> approve_doc now i who db = Inr (d, db') \<Longrightarrow> catalog_ok db'"
proof -
  assume ok: "catalog_ok db" and s: "approve_doc now i who db = Inr (d, db')"
  obtain d0 where d0: "get_row doc_id (documents db) i = Some d0" "approval_status d0 \<in> {''PENDING_REVIEW'', ''UNREVIEWED''}"
    and db': "(d, db') = approval_event now d0 (d0\<lparr>doc_approved_at := Some now, doc_approved_by_actor := Some who\<rparr>)
        ''APPROVED'' who ''APPROVED'' db"
    using s by (auto simp: approve_doc_def err_simps require_Inr)
  have "doc_ok (d0\<lparr>doc_approved_at := Some now, doc_approved_by_actor := Some who, approval_status := ''APPROVED''\<rparr>)"
    using require_ok [OF ok d0(1)] d0(2) by (auto simp: doc_ok_def)
  then show ?thesis using approval_event_ok [OF ok] db' by (metis snd_conv)
qed

lemma reject_ok: "catalog_ok db \<Longrightarrow> reject_doc now i who db = Inr (d, db') \<Longrightarrow> catalog_ok db'"
  by (auto simp: reject_doc_def err_simps approval_event_def Let_def doc_ok_def intro!: save_ok)

lemma can_approve_iff:
  "fst (can_approve_for_reuse lifecycle approval storage confidentiality expiry hash_verified metadata_complete today) \<longleftrightarrow>
     lifecycle = ''ACTIVE'' \<and> approval = ''APPROVED'' \<and> storage = ''AVAILABLE'' \<and> confidentiality \<noteq> ''RESTRICTED'' \<and>
     (\<forall>e. expiry = Some e \<longrightarrow> today \<le> e) \<and> hash_verified \<and> metadata_complete"
  by (auto simp: can_approve_for_reuse_def not_less split: option.splits)

lemma approve_reuse_Inr:
  assumes "approve_reuse now today i who db = Inr (d, db')"
  obtains d0 where "get_row doc_id (documents db) i = Some d0" "lifecycle_status d0 = ''ACTIVE''"
    "approval_status d0 = ''APPROVED''" "confidentiality_level d0 \<noteq> ''RESTRICTED''"
    "d = d0\<lparr>reusable := True, approved_for_reuse := True\<rparr>" "catalog_ok db' = catalog_ok (save_doc now d db)"
  using assms
  by (auto simp: approve_reuse_def err_simps require_Inr Let_def case_prod_beta can_approve_iff)

lemma approve_reuse_ok: "catalog_ok db \<Longrightarrow> approve_reuse now today i who db = Inr (d, db') \<Longrightarrow> catalog_ok db'"
proof -
  assume ok: "catalog_ok db" and "approve_reuse now today i who db = Inr (d, db')"
  then obtain d0 where d0: "get_row doc_id (documents db) i = Some d0" "lifecycle_status d0 = ''ACTIVE''"
    "approval_status d0 = ''APPROVED''" "d = d0\<lparr>reusable := True, approved_for_reuse := True\<rparr>"
    and db': "catalog_ok db' = catalog_ok (save_doc now d db)" by (elim approve_reuse_Inr)
  have "doc_ok d" using require_ok [OF ok d0(1)] d0(2-4) by (simp add: doc_ok_def)
  then show ?thesis using ok db' by (simp add: save_ok)
qed

text \<open>Withdrawing the reuse approval, alone or with a change of the lifecycle, is always allowed.\<close>

lemma withdraw_ok:
  "doc_ok d \<Longrightarrow> doc_ok (d\<lparr>approved_for_reuse := False\<rparr>)"
  "doc_ok d \<Longrightarrow> doc_ok (d\<lparr>lifecycle_status := s, approved_for_reuse := False\<rparr>)"
  "doc_ok d \<Longrightarrow> doc_ok (d\<lparr>lifecycle_status := s, superseded_at := t, approved_for_reuse := False\<rparr>)"
  "doc_ok d \<Longrightarrow> doc_ok (d\<lparr>current_filename := n\<rparr>)"
  by (simp_all add: doc_ok_def)

lemma found_ok: "catalog_ok db \<Longrightarrow> get_row doc_id (documents db) i = Some d \<Longrightarrow> doc_ok d"
  using require_ok by blast

lemma revoke_ok: "catalog_ok db \<Longrightarrow> revoke_reuse now i who db = Inr (d, db') \<Longrightarrow> catalog_ok db'"
  by (auto simp: revoke_reuse_def err_simps require_Inr Let_def intro!: save_ok withdraw_ok intro: found_ok)

lemma supersede_ok: "catalog_ok db \<Longrightarrow> supersede_doc now i who db = Inr (d, db') \<Longrightarrow> catalog_ok db'"
  by (auto simp: supersede_doc_def err_simps require_Inr Let_def intro!: save_ok withdraw_ok intro: found_ok)

lemma expire_fold_ok:
  "catalog_ok db \<Longrightarrow> list_all doc_ok ds \<Longrightarrow>
     catalog_ok (foldl (\<lambda>db d. add_event (event_row now (doc_id d) ''EXPIRED'' ''SYSTEM'' None None None)
       (save_doc now (d\<lparr>lifecycle_status := ''EXPIRED'', approved_for_reuse := False\<rparr>) db)) db ds)"
  by (induction ds arbitrary: db) (simp_all add: save_ok withdraw_ok)

lemma expire_ok: "catalog_ok db \<Longrightarrow> mark_expired now today db = (n, db') \<Longrightarrow> catalog_ok db'"
  using expire_fold_ok [of db "filter (expired_on today) (documents db)" now]
  by (auto simp: mark_expired_def Let_def catalog_ok_def list_all_iff)

lemma verify_ok: "catalog_ok db \<Longrightarrow> verify_document now get_item i db = (r, db') \<Longrightarrow> catalog_ok db'"
  by (auto simp: verify_document_def Let_def intro!: save_ok withdraw_ok intro: found_ok split: option.splits if_splits)

lemma import_ok: "catalog_ok db \<Longrightarrow> import_unknown env drive item_id item db = Inr db' \<Longrightarrow> catalog_ok db'"
proof -
  assume ok: "catalog_ok db" and imp: "import_unknown env drive item_id item db = Inr db'"
  have d: "doc_ok (imported_document env drive item_id item)" by (simp add: doc_ok_def imported_document_def)
  show ?thesis
  proof (cases "sd_site drive")
    case None
    then show ?thesis using ok imp by (simp add: import_unknown_def)
  next
    case (Some site)
    then show ?thesis using ok imp append_ok [OF ok d]
      by (auto simp: import_unknown_def Let_def err_simps catalog_ok_def add_event_def)
  qed
qed

lemma apply_item_ok: "catalog_ok db \<Longrightarrow> apply_item env drive item db = Inr db' \<Longrightarrow> catalog_ok db'"
  by (auto simp: apply_item_def Let_def intro!: save_ok withdraw_ok intro: found_ok import_ok
      split: if_splits option.splits prod.splits list.splits)

lemma apply_items_ok:
  "catalog_ok db \<Longrightarrow> apply_items drive items n db = Inr (m, db') \<Longrightarrow> catalog_ok db'"
  by (induction drive items n db rule: apply_items.induct) (auto simp: err_simps intro: apply_item_ok split: if_splits)

lemma open_state_ok: "open_state i db = (s, db') \<Longrightarrow> catalog_ok db' = catalog_ok db"
  by (auto simp: open_state_def Let_def split: option.splits)

lemma reconcile_ok:
  assumes ok: "catalog_ok db" and res: "reconcile_drive fuel now delta i db = Some res"
  shows "(res = Reconciled pages changes db' \<longrightarrow> catalog_ok db') \<and> (res = Rebaseline_Requested status db' \<longrightarrow> catalog_ok db')"
proof (cases "get_row sd_id (drives db) i")
  case None
  then show ?thesis using res by (auto simp: reconcile_drive_def)
next
  case (Some drive)
  obtain s0 db0 where o: "open_state i db = (s0, db0)" by (cases "open_state i db")
  then have ok0: "catalog_ok db0" using ok open_state_ok by blast
  let ?cp = "if needs_rebaseline s0 then None else delta_link (s0\<lparr>last_started_at := Some now\<rparr>)"
  obtain out where f: "fetch_pages fuel delta [] ?cp = Some out"
    using res Some o by (auto simp: reconcile_drive_def Let_def)
  show ?thesis
  proof (cases out)
    case (Checkpoint ps fd)
    then show ?thesis
      using res Some o f ok0 apply_items_ok
      by (cases "apply_items drive (concat ps) 0 db0") (auto simp: reconcile_drive_def Let_def)
  next
    case No_Checkpoint
    then show ?thesis using res Some o f by (auto simp: reconcile_drive_def Let_def)
  next
    case (Api_Error st)
    then show ?thesis using res Some o f ok0 by (auto simp: reconcile_drive_def Let_def split: if_splits)
  qed
qed

interpretation doc_sys: invariant_system doc_init doc_step catalog_ok
proof unfold_locales
  fix db assume "doc_init db"
  then show "catalog_ok db" by (simp add: doc_init_def catalog_ok_def)
next
  fix db db' assume "catalog_ok db" "doc_step db db'"
  from \<open>doc_step db db'\<close> \<open>catalog_ok db\<close> show "catalog_ok db'"
  proof (induction rule: doc_step.induct)
    case (step_upload d db)
    then show ?case by (auto simp: fresh_upload_def doc_ok_def intro!: append_ok)
  next
    case (step_reconcile fuel now delta i db pages changes db')
    then show ?case using reconcile_ok by blast
  next
    case (step_rebaseline fuel now delta i db status db')
    then show ?case using reconcile_ok by blast
  qed (rule update_metadata_ok submit_ok approve_ok reject_ok approve_reuse_ok revoke_ok supersede_ok expire_ok verify_ok;
       assumption)+
qed

subsection \<open>Properties\<close>

definition ex_document :: document where
  "ex_document =
     \<lparr>doc_id = 1, document_key = ''ASTRA-1'', current_version_id = None, canonical_title = ''Bond'', original_filename = None,
      current_filename = ''bond.pdf'', document_type = ''SURETY_BOND'', lifecycle_status = ''ACTIVE'',
      approval_status = ''UNREVIEWED'', confidentiality_level = ''INTERNAL'', doc_legal_entity = Some ''acme'',
      doc_jurisdiction = None, doc_license_type = None, doc_license_number = None, doc_vendor = None,
      issue_date = None, effective_date = None, expiry_date = None, renewal_due_date = None, reusable = False,
      approved_for_reuse = False, doc_content_sha256 = ''abc'', doc_mime_type = None, doc_size_bytes = 10,
      doc_source_type = ''MANUAL_UPLOAD'', doc_created_by_actor = None, doc_approved_by_actor = None,
      doc_approved_at = None, superseded_at = None, updated_at = 0\<rparr>"

definition ex_doc_db :: document_db where
  "ex_doc_db = \<lparr>documents = [], versions = [], doc_events = [], sync_states = [], drives = []\<rparr>"

definition ex_doc_approved :: document_db where
  "ex_doc_approved = (case approve_doc 5 1 ''ann'' (ex_doc_db\<lparr>documents := [ex_document]\<rparr>) of Inr (d, db) \<Rightarrow> db | Inl _ \<Rightarrow> ex_doc_db)"

lemma ex_doc_approved_reach: "reach doc_init doc_step ex_doc_approved"
proof -
  have "reach doc_init doc_step ex_doc_db" by (rule reach_init) (simp add: doc_init_def ex_doc_db_def)
  moreover have "doc_step ex_doc_db (ex_doc_db\<lparr>documents := [ex_document]\<rparr>)"
    using step_upload [of ex_document ex_doc_db] by (simp add: fresh_upload_def ex_document_def ex_doc_db_def)
  moreover have "approve_doc 5 1 ''ann'' (ex_doc_db\<lparr>documents := [ex_document]\<rparr>) = Inr (hd (documents ex_doc_approved)\<lparr>updated_at := 0\<rparr>, ex_doc_approved)"
    by (simp add: ex_doc_approved_def approve_doc_def require_doc_def approval_event_def save_doc_def put_row_def
        ex_doc_db_def ex_document_def Let_def add_event_def)
  ultimately show ?thesis by (meson reach_step step_approve)
qed



text \<open>
  A document imported from SharePoint carries a placeholder in place of the digest of its content, in the
  row and in its version alike.
\<close>

lemma imported_hashes_agree:
  "ver_content_sha256 (imported_version env drive site item_id item) =
     doc_content_sha256 (imported_document env drive item_id item) \<and>
   doc_content_sha256 (imported_document env drive item_id item) =
     im_sha256 env (''unverified:'' @ sd_graph_drive_id drive @ '':'' @ item_id)"
  by (simp add: imported_version_def imported_document_def Let_def)

lemma find_past:
  "list_all (\<lambda>v. ver_document_id v \<noteq> i) vs \<Longrightarrow>
    find (\<lambda>w. ver_document_id w = i \<and> P w) (vs @ ws) = find (\<lambda>w. ver_document_id w = i \<and> P w) ws"
  by (induction vs) auto

text \<open>A document that the reconciliation imported, whose bytes were never read, is approved for reuse
  as soon as it is approved: the check that its content hash is verified compares the placeholder digest
  with itself.\<close>

theorem unverified_import_is_approved_for_reuse:
  assumes "import_unknown env drive item_id item db = Inr db1" "sd_site drive = Some site"
    and "catalog_ok db" "list_all (\<lambda>v. ver_document_id v \<noteq> im_document_id env) (versions db)"
    and "approve_doc now (im_document_id env) who db1 = Inr (d1, db2)"
  shows "\<exists>d db3. approve_reuse now' today (im_document_id env) who db2 = Inr (d, db3) \<and> approved_for_reuse d \<and>
    doc_content_sha256 d = im_sha256 env (''unverified:'' @ sd_graph_drive_id drive @ '':'' @ item_id)"
proof -
  let ?d = "imported_document env drive item_id item" and ?v = "imported_version env drive site item_id item"
  have fields: "doc_id ?d = im_document_id env" "approval_status ?d = ''UNREVIEWED''" "lifecycle_status ?d = ''ACTIVE''"
    "confidentiality_level ?d = ''INTERNAL''" "expiry_date ?d = None" "document_type ?d = ''OTHER''"
    "current_version_id ?d = Some (im_version_id env)" "canonical_title ?d \<noteq> []"
    by (simp_all add: imported_document_def or_text_def split: option.splits list.splits)
  have v: "ver_document_id ?v = im_document_id env" "ver_id ?v = im_version_id env" "storage_status ?v = ''AVAILABLE''"
    by (simp_all add: imported_version_def Let_def)
  have new: "im_document_id env \<notin> doc_id ` set (documents db)"
    and db1: "documents db1 = documents db @ [?d]" "versions db1 = versions db @ [?v]"
    using assms(1,2) fields(1) by (auto simp: import_unknown_def Let_def err_simps add_event_def)
  have get1: "get_row doc_id (documents db1) (im_document_id env) = Some ?d"
    using new fields(1) by (simp add: db1 get_row_append get_row_None_iff [THEN iffD2])
  let ?d2 = "?d\<lparr>doc_approved_at := Some now, doc_approved_by_actor := Some who, approval_status := ''APPROVED'', updated_at := now\<rparr>"
  have "db2 = snd (approval_event now ?d (?d\<lparr>doc_approved_at := Some now, doc_approved_by_actor := Some who\<rparr>) ''APPROVED'' who ''APPROVED'' db1)"
    using assms(5) get1 fields(2) by (simp add: approve_doc_def require_doc_def)
  then have db2: "documents db2 = put_row doc_id ?d2 (documents db1)" "versions db2 = versions db1"
    using get1 fields(1,2) by (auto simp: approval_event_def save_doc_def add_event_def Let_def dest: arg_cong [of _ _ approval_status])
  have get2: "get_row doc_id (documents db2) (im_document_id env) = Some ?d2"
    using get1 fields(1) by (simp add: db2 get_put_row)
  have "find (\<lambda>w. ver_document_id w = im_document_id env \<and> ver_id w = im_version_id env) (versions db2) = Some ?v"
    using v by (simp add: db2 db1 find_past [OF assms(4)])
  then have ver: "version_of db2 (doc_id ?d2) (im_version_id env) = Some ?v"
    using fields(1) by (simp add: version_of_def)
  show ?thesis
    using get2 ver fields v imported_hashes_agree [of env drive site item_id item]
    by (simp add: approve_reuse_def require_doc_def Let_def can_approve_for_reuse_def)
qed

definition ex_drive :: sharepoint_drive where
  "ex_drive = \<lparr>sd_id = 3, sd_graph_drive_id = ''d'', sd_graph_list_id = None, sd_site = Some ''s''\<rparr>"

definition ex_import_env :: import_env where
  "ex_import_env = \<lparr>im_now = 1, im_document_id = 7, im_version_id = 8, im_key_hex = ''AB'', im_sha256 = id\<rparr>"

definition ex_item :: delta_item where
  "ex_item = \<lparr>it_id = Some ''i'', it_folder = False, it_deleted = False, it_name = Some ''a.pdf'', it_parent_id = None,
     it_web_url = None, it_etag = None, it_ctag = None, it_document_key = None, it_list_item_id = None,
     it_mime_type = None, it_size = None\<rparr>"

theorem unverified_import_is_approved_for_reuse_witness:
  "\<exists>db1 d1 db2 d db3. import_unknown ex_import_env ex_drive ''i'' ex_item ex_doc_db = Inr db1 \<and>
     approve_doc 2 7 ''ann'' db1 = Inr (d1, db2) \<and> approve_reuse 3 (Date 2025 1 1) 7 ''ann'' db2 = Inr (d, db3) \<and>
     doc_content_sha256 d = ''unverified:d:i''"
proof -
  let ?d = "imported_document ex_import_env ex_drive ''i'' ex_item"
  obtain db1 where i: "import_unknown ex_import_env ex_drive ''i'' ex_item ex_doc_db = Inr db1"
    and db1: "documents db1 = [?d]"
    by (simp add: import_unknown_def ex_drive_def ex_doc_db_def add_event_def Let_def)
  have d: "doc_id ?d = 7" "approval_status ?d = ''UNREVIEWED''"
    by (simp_all add: imported_document_def ex_import_env_def)
  obtain d1 db2 where a: "approve_doc 2 7 ''ann'' db1 = Inr (d1, db2)"
    using d by (cases "approve_doc 2 7 ''ann'' db1") (auto simp: approve_doc_def require_doc_def db1)
  show ?thesis
    using unverified_import_is_approved_for_reuse [OF i, of "''s''" 2 "''ann''" d1 db2 3 "Date 2025 1 1"] i a
    by (simp add: ex_drive_def ex_doc_db_def catalog_ok_def ex_import_env_def) blast
qed

end
