(* ===== verification/Packet_Service.thy ===== *)
theory Packet_Service
  imports Packet_Manifest Document_Catalog
begin

text \<open>
  Document packets: \<^verbatim>\<open>app/services/document_packet_service.py\<close> over the tables of
  \<^verbatim>\<open>app/models/packets.py\<close>. A packet is created for a case, built by matching the checklist of its
  template against the catalogue, archived by a worker, and approved or rejected; an approved packet is a
  frozen snapshot. The SharePoint download, the evidence store and the ZIP container are parameters.
\<close>

subsection \<open>Rows\<close>

record packet_template =
  pt_id :: uuid
  pt_template_key :: string
  pt_jurisdiction_id :: "uuid option"
  pt_license_type_id :: "uuid option"
  pt_case_type :: "string option"
  pt_status :: string

record packet_template_item =
  pti_template_id :: uuid
  pti_item_key :: string
  pti_document_type :: string
  pti_required :: bool
  pti_selection_policy :: jdict
  pti_sort_order :: int
  pti_instructions :: "string option"

record packet_row =
  pkt_id :: uuid
  pkt_key :: string
  pkt_case_id :: uuid
  pkt_template_id :: "uuid option"
  pkt_version :: int
  pkt_status :: string
  pkt_manifest_sha256 :: "string option"
  pkt_manifest :: jdict
  pkt_archive_storage_uri :: "string option"
  pkt_archive_sha256 :: "string option"
  pkt_archive_size_bytes :: "int option"
  pkt_missing_items :: "jdict list"
  pkt_validation_results :: "jdict list"
  pkt_created_by_actor :: "string option"
  pkt_reviewed_by_actor :: "string option"
  pkt_approved_at :: "datetime option"
  pkt_built_at :: "datetime option"
  pkt_superseded_by :: "uuid option"
  pkt_rejection_reason :: "string option"

record packet_item =
  pki_packet_id :: uuid
  pki_item_key :: string
  pki_document_type :: "string option"
  pki_document_id :: "uuid option"
  pki_version_id :: "uuid option"
  pki_status :: string
  pki_inclusion_reason :: "string option"
  pki_document_sha256 :: "string option"
  pki_filename :: "string option"
  pki_required :: bool
  pki_override_by_actor :: "string option"
  pki_sort_order :: int

text \<open>The rows of a legal entity, a jurisdiction and a licence type that are read: their key and their name.\<close>

record packet_db =
  pk_packets :: "packet_row list"
  pk_items :: "packet_item list"
  pk_templates :: "packet_template list"
  pk_template_items :: "packet_template_item list"
  pk_cases :: "uuid \<rightharpoonup> compliance_case"
  pk_entities :: "uuid \<rightharpoonup> string \<times> string"
  pk_licenses :: "uuid \<rightharpoonup> license_row"
  pk_jurisdictions :: "uuid \<rightharpoonup> string \<times> string"
  pk_license_types :: "uuid \<rightharpoonup> string \<times> string"
  pk_catalog :: document_db
  pk_notices :: notice_db
  pk_audits :: "lic_audit list"

record packet_settings =
  packet_generation_enabled :: bool
  packet_max_documents :: int
  packet_max_total_bytes :: int
  packet_include_cover_sheet :: bool
  packet_archive_format :: string
  document_download_max_bytes :: int

text \<open>
  The surroundings of a call: the clock, a new identifier and SHA-256, the text of values that are not
  strings, and the float printer of \<^verbatim>\<open>json.dumps\<close>.
\<close>

record packet_env =
  pe_case :: case_env
  pe_lib :: rule_lib
  pe_repr :: "rat \<Rightarrow> string"

definition pe_now :: "packet_env \<Rightarrow> datetime" where
  "pe_now env = ce_now (pe_case env)"

definition pe_sha :: "packet_env \<Rightarrow> string \<Rightarrow> string" where
  "pe_sha env = ce_sha256 (pe_case env)"

definition IMMUTABLE_PACKET_STATUSES :: "string list" where
  "IMMUTABLE_PACKET_STATUSES = [''APPROVED'', ''SUPERSEDED'']"

definition packet_audit ::
  "packet_env \<Rightarrow> case_actor \<Rightarrow> uuid \<Rightarrow> string \<Rightarrow> attrs \<Rightarrow> packet_db \<Rightarrow> packet_db" where
  "packet_audit env actor i action after db =
     db\<lparr>pk_audits := pk_audits db @ [licensing_audit (pe_case env) (Some actor) ''document_packet'' i action None (Some after)]\<rparr>"

definition save_packet :: "packet_row \<Rightarrow> packet_db \<Rightarrow> packet_db" where
  "save_packet p db = db\<lparr>pk_packets := put_row pkt_id p (pk_packets db)\<rparr>"

definition get_packet :: "packet_db \<Rightarrow> uuid \<Rightarrow> domain_error + packet_row" where
  "get_packet db i = (case get_row pkt_id (pk_packets db) i of
     None \<Rightarrow> Inl (NotFoundError ''Packet not found.'') | Some p \<Rightarrow> Inr p)"

subsection \<open>Candidates\<close>

definition candidate_of :: "document_db \<Rightarrow> document \<Rightarrow> CandidateDocument" where
  "candidate_of db d =
     (let version = (case current_version_id d of None \<Rightarrow> None | Some v \<Rightarrow> get_row ver_id (versions db) v) in
      \<lparr>cand_document_id = doc_id d, cand_document_version_id = map_option ver_id version,
       cand_document_type = document_type d, cand_canonical_title = canonical_title d, cand_filename = current_filename d,
       cand_content_sha256 = Some (doc_content_sha256 d), cand_version_sha256 = map_option ver_content_sha256 version,
       cand_lifecycle_status = lifecycle_status d, cand_approval_status = approval_status d,
       cand_confidentiality_level = confidentiality_level d,
       cand_storage_status = (case version of None \<Rightarrow> ''MISSING'' | Some v \<Rightarrow> storage_status v),
       cand_legal_entity = doc_legal_entity d, cand_jurisdiction = doc_jurisdiction d, cand_license_type = doc_license_type d,
       cand_issue_date = issue_date d, cand_effective_date = effective_date d, cand_expiry_date = expiry_date d,
       cand_approved_at = doc_approved_at d, cand_reusable = reusable d, cand_approved_for_reuse = approved_for_reuse d,
       cand_is_current_version = (version \<noteq> None), cand_size_bytes = doc_size_bytes d,
       cand_storage_uri = map_option (\<lambda>v. ''graph://'' @ graph_drive_id v @ ''/'' @ graph_drive_item_id v) version\<rparr>)"

definition packet_candidates :: "document_db \<Rightarrow> CandidateDocument list" where
  "packet_candidates db = map (candidate_of db) (documents db)"

subsection \<open>Creation\<close>

definition highest_version :: "packet_db \<Rightarrow> uuid \<Rightarrow> int" where
  "highest_version db case_id' = foldl max 0 (map pkt_version (filter (\<lambda>p. pkt_case_id p = case_id') (pk_packets db)))"

definition opt_conflict :: "'a option \<Rightarrow> 'a \<Rightarrow> bool" where
  "opt_conflict x y \<longleftrightarrow> x \<noteq> None \<and> x \<noteq> Some y"

definition create_packet ::
  "packet_settings \<Rightarrow> packet_env \<Rightarrow> case_actor \<Rightarrow> uuid \<Rightarrow> uuid option \<Rightarrow> packet_db \<Rightarrow> domain_error + (packet_row \<times> packet_db)" where
  "create_packet st env actor cid template_id db =
     (case pk_cases db cid of
        None \<Rightarrow> Inl (NotFoundError ''Compliance case not found.'')
      | Some c \<Rightarrow>
        bindE (check (packet_generation_enabled st) (StateConflictError ''Packet generation is disabled by configuration.'')) (\<lambda>_.
        let template = (case template_id of None \<Rightarrow> None | Some t \<Rightarrow> get_row pt_id (pk_templates db) t);
            licence = lookup_opt (pk_licenses db) (case_license_id c)
        in
        bindE (check (template_id = None \<or> template \<noteq> None) (NotFoundError ''Packet template not found.'')) (\<lambda>_.
        bindE (check (opt_all (\<lambda>t. pt_status t = ''ACTIVE'') template)
                 (StateConflictError ''Only an active packet template can create a packet.'')) (\<lambda>_.
        bindE (check (opt_all (\<lambda>t. opt_all (\<lambda>l. \<not> opt_conflict (pt_jurisdiction_id t) (lic_jurisdiction_id l)) licence) template)
                 (StateConflictError ''The packet template belongs to a different jurisdiction.'')) (\<lambda>_.
        bindE (check (opt_all (\<lambda>t. opt_all (\<lambda>l. \<not> opt_conflict (pt_license_type_id t) (lic_license_type_id l)) licence) template)
                 (StateConflictError ''The packet template belongs to a different license type.'')) (\<lambda>_.
        bindE (check (opt_all (\<lambda>t. pt_case_type t = Some [] \<or> \<not> opt_conflict (pt_case_type t) (case_type c)) template)
                 (StateConflictError ''The packet template belongs to a different case type.'')) (\<lambda>_.
        let version = highest_version db cid + 1;
            p = \<lparr>pkt_id = ce_new_id (pe_case env), pkt_key = case_key c @ ''-packet-'' @ str_int version, pkt_case_id = cid,
                 pkt_template_id = template_id, pkt_version = version, pkt_status = ''DRAFT'', pkt_manifest_sha256 = None,
                 pkt_manifest = [], pkt_archive_storage_uri = None, pkt_archive_sha256 = None, pkt_archive_size_bytes = None,
                 pkt_missing_items = [], pkt_validation_results = [], pkt_created_by_actor = Some (actor_id actor),
                 pkt_reviewed_by_actor = None, pkt_approved_at = None, pkt_built_at = None, pkt_superseded_by = None,
                 pkt_rejection_reason = None\<rparr>
        in bindE (check (pkt_id p \<notin> pkt_id ` set (pk_packets db) \<and> pkt_key p \<notin> pkt_key ` set (pk_packets db) \<and>
                         (pkt_case_id p, pkt_version p) \<notin> (\<lambda>q. (pkt_case_id q, pkt_version q)) ` set (pk_packets db))
                    IntegrityError) (\<lambda>_.
           Inr (p, packet_audit env actor (pkt_id p) ''packet_created'' [(''version'', AJson (JInt version))]
                    (db\<lparr>pk_packets := pk_packets db @ [p]\<rparr>))))))))))"

subsection \<open>Build\<close>

definition requirement_of :: "packet_template_item \<Rightarrow> ItemRequirement" where
  "requirement_of t =
     \<lparr>rq_item_key = pti_item_key t, rq_document_type = pti_document_type t, rq_required = pti_required t,
      rq_selection_policy = pti_selection_policy t, rq_sort_order = pti_sort_order t, rq_instructions = pti_instructions t\<rparr>"

definition override_requirement :: "(string \<times> uuid) list \<Rightarrow> ItemRequirement \<Rightarrow> ItemRequirement" where
  "override_requirement overrides r =
     (case map_of overrides (rq_item_key r) of
        None \<Rightarrow> r
      | Some d \<Rightarrow> r\<lparr>rq_selection_policy := jset (rq_selection_policy r) ''document_id'' (JStr (str_uuid d))\<rparr>)"

definition packet_requirements :: "packet_db \<Rightarrow> packet_row \<Rightarrow> (string \<times> uuid) list \<Rightarrow> ItemRequirement list" where
  "packet_requirements db p overrides =
     map (override_requirement overrides \<circ> requirement_of)
       (case pkt_template_id p of
          None \<Rightarrow> []
        | Some t \<Rightarrow> sort_key pti_sort_order (filter (\<lambda>i. pti_template_id i = t) (pk_template_items db)))"

definition packet_licence :: "packet_db \<Rightarrow> compliance_case \<Rightarrow> license_row option" where
  "packet_licence db c = lookup_opt (pk_licenses db) (case_license_id c)"

definition packet_jurisdiction :: "packet_db \<Rightarrow> compliance_case \<Rightarrow> (string \<times> string) option" where
  "packet_jurisdiction db c = (case packet_licence db c of None \<Rightarrow> None | Some l \<Rightarrow> pk_jurisdictions db (lic_jurisdiction_id l))"

definition packet_license_type :: "packet_db \<Rightarrow> compliance_case \<Rightarrow> (string \<times> string) option" where
  "packet_license_type db c = (case packet_licence db c of None \<Rightarrow> None | Some l \<Rightarrow> pk_license_types db (lic_license_type_id l))"

definition packet_context :: "packet_env \<Rightarrow> packet_db \<Rightarrow> compliance_case \<Rightarrow> string \<times> string \<Rightarrow> MatchContext" where
  "packet_context env db c entity =
     \<lparr>mc_legal_entity_key = fst entity, mc_legal_entity_name = Some (snd entity),
      mc_jurisdiction_key = map_option fst (packet_jurisdiction db c),
      mc_jurisdiction_name = map_option snd (packet_jurisdiction db c),
      mc_license_type_key = map_option fst (packet_license_type db c),
      mc_license_type_name = map_option snd (packet_license_type db c),
      mc_today = utc_date (pe_now env)\<rparr>"

text \<open>\<^verbatim>\<open>f"{index:02d}"\<close>.\<close>

definition two_digits :: "nat \<Rightarrow> string" where
  "two_digits n = (if n < 10 then ''0'' @ str_nat n else str_nat n)"

record assembly =
  as_included :: "ManifestEntry list"
  as_missing :: "OmittedEntry list"
  as_omitted :: "OmittedEntry list"
  as_validations :: "jdict list"
  as_taken :: "string list"
  as_total_bytes :: int
  as_items :: "packet_item list"

definition included_document :: "MatchResult \<Rightarrow> CandidateDocument option" where
  "included_document r = (if is_included r then mr_document r else None)"

definition manifest_entry :: "MatchResult \<Rightarrow> CandidateDocument \<Rightarrow> string \<Rightarrow> ManifestEntry" where
  "manifest_entry r d filename =
     \<lparr>me_item_key = mr_item_key r, me_document_type = mr_document_type r, me_document_id = str_uuid (cand_document_id d),
      me_document_version_id = map_option str_uuid (cand_document_version_id d), me_filename_in_archive = filename,
      me_source_filename = cand_filename d, me_sha256 = cand_content_sha256 d, me_size_bytes = cand_size_bytes d,
      me_effective_date = map_option isoformat (cand_effective_date d), me_expiry_date = map_option isoformat (cand_expiry_date d),
      me_sort_order = mr_sort_order r\<rparr>"

definition omitted_entry :: "MatchResult \<Rightarrow> OmittedEntry" where
  "omitted_entry r =
     \<lparr>oe_item_key = mr_item_key r, oe_document_type = mr_document_type r, oe_required = mr_required r, oe_status = mr_status r,
      oe_reason = (case mr_inclusion_reason r of Some (c # s) \<Rightarrow> c # s | _ \<Rightarrow> ''No eligible document.'')\<rparr>"

definition item_row ::
  "uuid \<Rightarrow> string \<Rightarrow> (string \<times> uuid) list \<Rightarrow> MatchResult \<Rightarrow> string option \<Rightarrow> packet_item" where
  "item_row packet_id who overrides r filename =
     (let d = included_document r in
      \<lparr>pki_packet_id = packet_id, pki_item_key = mr_item_key r, pki_document_type = Some (mr_document_type r),
       pki_document_id = map_option cand_document_id d,
       pki_version_id = (case d of None \<Rightarrow> None | Some c \<Rightarrow> cand_document_version_id c),
       pki_status = (if is_included r then ''MATCHED'' else mr_status r), pki_inclusion_reason = mr_inclusion_reason r,
       pki_document_sha256 = (case d of None \<Rightarrow> None | Some c \<Rightarrow> cand_content_sha256 c), pki_filename = filename,
       pki_required = mr_required r,
       pki_override_by_actor = (if map_of overrides (mr_item_key r) \<noteq> None then Some who else None),
       pki_sort_order = mr_sort_order r\<rparr>)"

definition validation :: "string option \<Rightarrow> string \<Rightarrow> string \<Rightarrow> jdict" where
  "validation item_key code detail =
     (case item_key of None \<Rightarrow> [] | Some k \<Rightarrow> [(''item_key'', JStr k)]) @ [(''code'', JStr code), (''detail'', JStr detail)]"

definition assemble_one ::
  "uuid \<Rightarrow> string \<Rightarrow> (string \<times> uuid) list \<Rightarrow> nat \<Rightarrow> MatchResult \<Rightarrow> assembly \<Rightarrow> assembly" where
  "assemble_one packet_id who overrides index r a =
     (case included_document r of
        Some d \<Rightarrow>
          let (filename, taken) = unique_filename (safe_filename (two_digits index @ ''-'' @ cand_filename d) ''document'' None) (as_taken a)
          in a\<lparr>as_included := as_included a @ [manifest_entry r d filename], as_taken := taken,
               as_total_bytes := as_total_bytes a + cand_size_bytes d,
               as_items := as_items a @ [item_row packet_id who overrides r (Some filename)]\<rparr>
      | None \<Rightarrow>
          let e = omitted_entry r;
              a1 = (if mr_required r then a\<lparr>as_missing := as_missing a @ [e]\<rparr> else a\<lparr>as_omitted := as_omitted a @ [e]\<rparr>)
          in a1\<lparr>as_validations := as_validations a1 @
                  map (\<lambda>j. validation (Some (mr_item_key r)) (rj_code j) (rj_detail j)) (mr_rejections r),
                as_items := as_items a1 @ [item_row packet_id who overrides r None]\<rparr>)"

fun assemble ::
  "uuid \<Rightarrow> string \<Rightarrow> (string \<times> uuid) list \<Rightarrow> nat \<Rightarrow> MatchResult list \<Rightarrow> assembly \<Rightarrow> assembly" where
  "assemble packet_id who overrides index [] a = a"
| "assemble packet_id who overrides index (r # rs) a =
     assemble packet_id who overrides (Suc index) rs (assemble_one packet_id who overrides index r a)"

definition empty_assembly :: assembly where
  "empty_assembly = \<lparr>as_included = [], as_missing = [], as_omitted = [], as_validations = [], as_taken = [],
     as_total_bytes = 0, as_items = []\<rparr>"

definition limit_validations :: "packet_settings \<Rightarrow> assembly \<Rightarrow> jdict list" where
  "limit_validations st a =
     (if packet_max_documents st < int (length (as_included a))
      then [validation None ''PACKET_TOO_MANY_DOCUMENTS'' (str_int (int (length (as_included a))) @ '' documents exceeds the configured maximum.'')]
      else []) @
     (if packet_max_total_bytes st < as_total_bytes a
      then [validation None ''PACKET_TOO_LARGE'' (str_int (as_total_bytes a) @ '' bytes exceeds the configured maximum.'')]
      else [])"

definition code_of :: "jdict \<Rightarrow> string" where
  "code_of v = (case jget v ''code'' of Some (JStr s) \<Rightarrow> s | _ \<Rightarrow> [])"

definition packet_code :: "jdict \<Rightarrow> bool" where
  "packet_code v \<longleftrightarrow> take 7 (code_of v) = ''PACKET_''"

definition build_packet ::
  "packet_settings \<Rightarrow> packet_env \<Rightarrow> case_actor \<Rightarrow> uuid \<Rightarrow> (string \<times> uuid) list \<Rightarrow> packet_db \<Rightarrow> domain_error + (packet_row \<times> packet_db)" where
  "build_packet st env actor i overrides db =
     bindE (get_packet db i) (\<lambda>p.
     bindE (check (pkt_status p \<notin> set IMMUTABLE_PACKET_STATUSES)
              (StateConflictError ''The packet is immutable. Create a new packet version instead.'')) (\<lambda>_.
     case pk_cases db (pkt_case_id p) of
       None \<Rightarrow> Inl (NotFoundError ''Compliance case not found.'')
     | Some c \<Rightarrow>
     (case pk_entities db (case_legal_entity_id c) of
       None \<Rightarrow> Inl (NotFoundError ''Legal entity not found.'')
     | Some entity \<Rightarrow>
       let template = (case pkt_template_id p of None \<Rightarrow> None | Some t \<Rightarrow> get_row pt_id (pk_templates db) t);
           requirements = packet_requirements db p overrides
       in
       bindE (check (requirements \<noteq> [])
                (StateConflictError ''The packet has no checklist. Attach a packet template with items first.'')) (\<lambda>_.
       case match_all (pe_lib env) requirements (packet_candidates (pk_catalog db)) (packet_context env db c entity) of
         Inl e \<Rightarrow> Inl (Raised e)
       | Inr results \<Rightarrow>
         let a = assemble (pkt_id p) (actor_id actor) overrides 1 results empty_assembly;
             validations = as_validations a @ limit_validations st a;
             head = \<lparr>mh_packet_key = pkt_key p, mh_version = pkt_version p, mh_case_key = case_key c,
               mh_legal_entity_name = snd entity, mh_jurisdiction_name = map_option snd (packet_jurisdiction db c),
               mh_license_type_name = map_option snd (packet_license_type db c),
               mh_template_key = map_option pt_template_key template, mh_created_by_actor = Some (actor_id actor)\<rparr>;
             manifest = build_manifest head (as_included a) (as_omitted a) (as_missing a) (pe_now env);
             digest = manifest_sha256 (pe_repr env) (pe_sha env) manifest;
             p' = p\<lparr>pkt_manifest := manifest, pkt_manifest_sha256 := Some digest,
                    pkt_missing_items := map omitted_payload (as_missing a), pkt_validation_results := validations,
                    pkt_built_at := Some (pe_now env),
                    pkt_status := (if as_missing a \<noteq> [] \<or> list_ex packet_code validations then ''MISSING_ITEMS'' else ''READY_FOR_REVIEW'')\<rparr>;
             db1 = save_packet p' (db\<lparr>pk_items := filter (\<lambda>it. pki_packet_id it \<noteq> pkt_id p) (pk_items db) @ as_items a\<rparr>);
             db2 = (case assigned_owner c of
                      Some (ch # owner) \<Rightarrow>
                        if as_missing a \<noteq> []
                        then db1\<lparr>pk_notices := snd (record_notification (pe_now env)
                               (missing_document_alert (pe_sha env) (pkt_id p) (case_id c) (ch # owner) (int (length (as_missing a))))
                               (pk_notices db1))\<rparr>
                        else db1
                    | _ \<Rightarrow> db1)
         in bindE (check (distinct (map pki_item_key (as_items a))) IntegrityError) (\<lambda>_.
            Inr (p', packet_audit env actor (pkt_id p) ''packet_built''
                   [(''status'', AStr (pkt_status p')), (''included'', AJson (JInt (int (length (as_included a))))),
                    (''missing'', AJson (JInt (int (length (as_missing a))))), (''manifest_sha256'', AStr digest)] db2))))))"

subsection \<open>Review\<close>

definition BLOCKING_CODES :: "string list" where
  "BLOCKING_CODES = [''PACKET_TOO_LARGE'', ''PACKET_TOO_MANY_DOCUMENTS'', ''DOCUMENT_HASH_MISMATCH'']"

definition supersede_previous :: "packet_row \<Rightarrow> packet_row \<Rightarrow> packet_row" where
  "supersede_previous p q =
     (if pkt_case_id q = pkt_case_id p \<and> pkt_id q \<noteq> pkt_id p \<and> pkt_status q = ''APPROVED''
      then q\<lparr>pkt_status := ''SUPERSEDED'', pkt_superseded_by := Some (pkt_id p)\<rparr> else q)"

definition include_item :: "uuid \<Rightarrow> packet_item \<Rightarrow> packet_item" where
  "include_item i it = (if pki_packet_id it = i \<and> pki_status it = ''MATCHED'' then it\<lparr>pki_status := ''INCLUDED''\<rparr> else it)"

definition approve_packet ::
  "packet_settings \<Rightarrow> packet_env \<Rightarrow> case_actor \<Rightarrow> uuid \<Rightarrow> packet_db \<Rightarrow> domain_error + (packet_row \<times> packet_db)" where
  "approve_packet st env actor i db =
     bindE (get_packet db i) (\<lambda>p.
     bindE (check (pkt_status p \<notin> set IMMUTABLE_PACKET_STATUSES) (StateConflictError ''The packet is already approved or superseded.'')) (\<lambda>_.
     bindE (check (pkt_status p \<noteq> ''DRAFT'') (StateConflictError ''Build the packet before approving it.'')) (\<lambda>_.
     bindE (check (pkt_missing_items p = [])
              (StateConflictError ''Required items are missing. Supply them or override the item first.'')) (\<lambda>_.
     bindE (check (packet_archive_format st = ''ZIP'' \<longrightarrow> str_truthy (pkt_archive_storage_uri p) \<and> str_truthy (pkt_archive_sha256 p))
              (StateConflictError ''The governed packet archive has not finished generating.'')) (\<lambda>_.
     bindE (check (list_all (\<lambda>v. code_of v \<notin> set BLOCKING_CODES) (pkt_validation_results p))
              (StateConflictError ''The packet has blocking validation findings.'')) (\<lambda>_.
     let p' = p\<lparr>pkt_status := ''APPROVED'', pkt_reviewed_by_actor := Some (actor_id actor), pkt_approved_at := Some (pe_now env)\<rparr>;
         db1 = save_packet p' db;
         db2 = db1\<lparr>pk_packets := map (supersede_previous p') (pk_packets db1),
                   pk_items := map (include_item (pkt_id p)) (pk_items db1)\<rparr>
     in Inr (p', packet_audit env actor (pkt_id p) ''packet_approved''
              [(''manifest_sha256'', opt_str (pkt_manifest_sha256 p)), (''version'', AJson (JInt (pkt_version p)))] db2)))))))"

definition reject_packet ::
  "case_actor \<Rightarrow> uuid \<Rightarrow> string \<Rightarrow> packet_db \<Rightarrow> domain_error + (packet_row \<times> packet_db)" where
  "reject_packet actor i reason db =
     bindE (get_packet db i) (\<lambda>p.
     bindE (check (pkt_status p \<notin> set IMMUTABLE_PACKET_STATUSES) (StateConflictError ''The packet cannot be rejected.'')) (\<lambda>_.
     let p' = p\<lparr>pkt_status := ''REJECTED'', pkt_rejection_reason := Some (take 1000 reason),
                pkt_reviewed_by_actor := Some (actor_id actor)\<rparr>
     in Inr (p', save_packet p' db)))"

subsection \<open>Archive\<close>

record archive_services =
  download_to_store :: "string \<Rightarrow> string \<Rightarrow> int \<Rightarrow> domain_error + string"
  put_bytes :: "string \<Rightarrow> string \<Rightarrow> domain_error + string"
  zip_file :: "(string \<times> string) list \<Rightarrow> string"

definition archive_items :: "packet_db \<Rightarrow> uuid \<Rightarrow> packet_item list" where
  "archive_items db i =
     sort_key pki_sort_order (filter (\<lambda>it. pki_packet_id it = i \<and> pki_status it \<in> {''MATCHED'', ''INCLUDED''}) (pk_items db))"

definition governed :: "document option \<Rightarrow> document_version option \<Rightarrow> bool" where
  "governed d v \<longleftrightarrow>
     (case d of None \<Rightarrow> False | Some doc \<Rightarrow>
       (case v of None \<Rightarrow> False | Some ver \<Rightarrow>
          ver_document_id ver = doc_id doc \<and> lifecycle_status doc = ''ACTIVE'' \<and> approval_status doc = ''APPROVED'' \<and>
          storage_status ver = ''AVAILABLE''))"

definition fetch_item ::
  "packet_settings \<Rightarrow> packet_env \<Rightarrow> archive_services \<Rightarrow> packet_db \<Rightarrow> packet_item \<Rightarrow> domain_error + (string \<times> string)" where
  "fetch_item st env svc db it =
     (case (pki_document_id it, pki_version_id it) of
        (Some di, Some vi) \<Rightarrow>
          let d = get_row doc_id (documents (pk_catalog db)) di; v = get_row ver_id (versions (pk_catalog db)) vi in
          bindE (check (governed d v) (StateConflictError ''The packet item is no longer an approved, active, available governed version.'')) (\<lambda>_.
          (case v of
             None \<Rightarrow> Inl (Raised AttributeError)
           | Some ver \<Rightarrow>
             bindE (download_to_store svc (graph_drive_id ver) (graph_drive_item_id ver)
                      (min (document_download_max_bytes st) (packet_max_total_bytes st))) (\<lambda>content.
             let digest = pe_sha env content;
                 expected = lower_ascii (case pki_document_sha256 it of None \<Rightarrow> [] | Some s \<Rightarrow> s)
             in bindE (check (expected \<noteq> [] \<and> digest = expected \<and> digest = lower_ascii (ver_content_sha256 ver))
                         (StateConflictError ''Hash verification failed for the packet item.'')) (\<lambda>_.
                (case pki_filename it of
                   Some (c # n) \<Rightarrow> Inr (c # n, content)
                 | _ \<Rightarrow> Inl (StateConflictError ''The packet item has no safe archive filename.''))))))
      | _ \<Rightarrow> Inl (StateConflictError ''The packet item has no pinned document version.''))"

fun fetch_files ::
  "packet_settings \<Rightarrow> packet_env \<Rightarrow> archive_services \<Rightarrow> packet_db \<Rightarrow> packet_item list \<Rightarrow> (string \<times> string) list \<Rightarrow>
     domain_error + (string \<times> string) list" where
  "fetch_files st env svc db [] files = Inr files"
| "fetch_files st env svc db (it # its) files =
     bindE (fetch_item st env svc db it) (\<lambda>(name, content). fetch_files st env svc db its (dict_set files name content))"

definition py_raise :: "py_error + 'a \<Rightarrow> domain_error + 'a" where
  "py_raise m = (case m of Inl e \<Rightarrow> Inl (Raised e) | Inr x \<Rightarrow> Inr x)"

definition generate_archive ::
  "packet_settings \<Rightarrow> packet_env \<Rightarrow> archive_services \<Rightarrow> case_actor \<Rightarrow> uuid \<Rightarrow> packet_db \<Rightarrow> domain_error + (packet_row \<times> packet_db)" where
  "generate_archive st env svc actor i db =
     bindE (get_packet db i) (\<lambda>p.
     bindE (check (pkt_manifest p \<noteq> [] \<and> str_truthy (pkt_manifest_sha256 p))
              (StateConflictError ''Build the packet manifest before generating its archive.'')) (\<lambda>_.
     bindE (check (pkt_status p \<in> {''READY_FOR_REVIEW'', ''APPROVED''})
              (StateConflictError ''A packet in this status cannot produce an archive.'')) (\<lambda>_.
     let items = archive_items db (pkt_id p) in
     bindE (check (items \<noteq> []) (StateConflictError ''The packet contains no included documents.'')) (\<lambda>_.
     bindE (fetch_files st env svc db items []) (\<lambda>files.
     bindE (if packet_include_cover_sheet st
            then bindE (py_raise (render_cover_sheet (pe_lib env) (pkt_manifest p) None)) (\<lambda>t. Inr (Some t)) else Inr None) (\<lambda>cover.
     let (archive, archive_sha) = build_archive (pe_repr env) (zip_file svc) (pe_sha env) (pkt_manifest p) files cover True in
     bindE (check (int (length archive) \<le> packet_max_total_bytes st)
              (StateConflictError ''Generated packet archive exceeds the configured limit.'')) (\<lambda>_.
     bindE (put_bytes svc (''licensing/packets/'' @ pkt_key p @ ''/'' @ (case pkt_manifest_sha256 p of None \<Rightarrow> [] | Some s \<Rightarrow> s) @ ''.zip'') archive) (\<lambda>uri.
     let p' = p\<lparr>pkt_archive_storage_uri := Some uri, pkt_archive_sha256 := Some archive_sha,
                pkt_archive_size_bytes := Some (int (length archive))\<rparr>
     in Inr (p', packet_audit env actor (pkt_id p) ''packet_archive_generated''
              [(''manifest_sha256'', opt_str (pkt_manifest_sha256 p)), (''archive_sha256'', AStr archive_sha),
               (''archive_size_bytes'', AJson (JInt (int (length archive))))] (save_packet p' db))))))))))"

definition packet_cover_sheet :: "packet_env \<Rightarrow> uuid \<Rightarrow> packet_db \<Rightarrow> domain_error + string" where
  "packet_cover_sheet env i db =
     bindE (get_packet db i) (\<lambda>p.
     bindE (check (pkt_manifest p \<noteq> []) (StateConflictError ''Build the packet before rendering a cover sheet.'')) (\<lambda>_.
     py_raise (render_cover_sheet (pe_lib env) (pkt_manifest p) None)))"

end
