(* ===== verification/Packet_Invariant.thy ===== *)
theory Packet_Invariant
  imports Packet_Service
begin

text \<open>
  What holds of the packets in every reachable state, that an approved packet is frozen, and what a built
  packet contains.
\<close>

subsection \<open>Steps\<close>

text \<open>
  The calls of the service under fixed settings and a fixed hash; between them other services may change
  every table but the two that this one owns.
\<close>

inductive packet_step ::
  "packet_settings \<Rightarrow> (string \<Rightarrow> string) \<Rightarrow> (rat \<Rightarrow> string) \<Rightarrow> packet_db \<Rightarrow> packet_db \<Rightarrow> bool"
  for st :: packet_settings and sha :: "string \<Rightarrow> string" and repr :: "rat \<Rightarrow> string" where
  step_create: "create_packet st env actor cid t db = Inr (p, db') \<Longrightarrow> packet_step st sha repr db db'"
| step_build: "pe_sha env = sha \<Longrightarrow> pe_repr env = repr \<Longrightarrow> build_packet st env actor i overrides db = Inr (p, db') \<Longrightarrow>
     packet_step st sha repr db db'"
| step_approve: "approve_packet st env actor i db = Inr (p, db') \<Longrightarrow> packet_step st sha repr db db'"
| step_reject: "reject_packet actor i reason db = Inr (p, db') \<Longrightarrow> packet_step st sha repr db db'"
| step_archive: "pe_sha env = sha \<Longrightarrow> generate_archive st env svc actor i db = Inr (p, db') \<Longrightarrow> packet_step st sha repr db db'"
| step_world: "pk_packets db' = pk_packets db \<Longrightarrow> pk_items db' = pk_items db \<Longrightarrow> packet_step st sha repr db db'"

definition packet_init :: "packet_db \<Rightarrow> bool" where
  "packet_init db \<longleftrightarrow> pk_packets db = [] \<and> pk_items db = []"

subsection \<open>Invariant\<close>

definition immutable :: "packet_row \<Rightarrow> bool" where
  "immutable p \<longleftrightarrow> pkt_status p \<in> set IMMUTABLE_PACKET_STATUSES"

definition row_ok :: "packet_settings \<Rightarrow> (string \<Rightarrow> string) \<Rightarrow> (rat \<Rightarrow> string) \<Rightarrow> packet_row \<Rightarrow> bool" where
  "row_ok st sha repr p \<longleftrightarrow>
     1 \<le> pkt_version p \<and>
     (pkt_manifest_sha256 p = None \<and> pkt_manifest p = [] \<or> pkt_manifest_sha256 p = Some (manifest_sha256 repr sha (pkt_manifest p))) \<and>
     (pkt_status p = ''READY_FOR_REVIEW'' \<longrightarrow> pkt_missing_items p = [] \<and> pkt_manifest_sha256 p \<noteq> None) \<and>
     (immutable p \<longrightarrow> pkt_missing_items p = [] \<and>
        list_all (\<lambda>v. code_of v \<notin> set BLOCKING_CODES) (pkt_validation_results p) \<and>
        (packet_archive_format st = ''ZIP'' \<longrightarrow> pkt_archive_storage_uri p \<noteq> None \<and> pkt_archive_sha256 p \<noteq> None))"

definition one_approved :: "packet_row list \<Rightarrow> bool" where
  "one_approved ps \<longleftrightarrow> (\<forall>p \<in> set ps. \<forall>q \<in> set ps.
     pkt_status p = ''APPROVED'' \<and> pkt_status q = ''APPROVED'' \<and> pkt_case_id p = pkt_case_id q \<longrightarrow> pkt_id p = pkt_id q)"

definition packets_ok :: "packet_settings \<Rightarrow> (string \<Rightarrow> string) \<Rightarrow> (rat \<Rightarrow> string) \<Rightarrow> packet_db \<Rightarrow> bool" where
  "packets_ok st sha repr db \<longleftrightarrow>
     distinct (map pkt_id (pk_packets db)) \<and>
     distinct (map (\<lambda>p. (pkt_case_id p, pkt_version p)) (pk_packets db)) \<and>
     one_approved (pk_packets db) \<and> list_all (row_ok st sha repr) (pk_packets db)"

subsection \<open>Effects of the calls on the rows\<close>

lemma get_packet_Inr: "get_packet db i = Inr p \<longleftrightarrow> get_row pkt_id (pk_packets db) i = Some p"
  by (auto simp: get_packet_def split: option.splits)

lemma audit_tables [simp]:
  "pk_packets (packet_audit env actor i action after db) = pk_packets db"
  "pk_items (packet_audit env actor i action after db) = pk_items db"
  by (simp_all add: packet_audit_def)

lemma save_tables [simp]:
  "pk_packets (save_packet p db) = put_row pkt_id p (pk_packets db)"
  "pk_items (save_packet p db) = pk_items db"
  by (simp_all add: save_packet_def)

lemma highest_ge: "0 \<le> highest_version db cid"
proof -
  have "a \<le> foldl max a xs" for a :: int and xs
    by (induction xs arbitrary: a) (simp, metis foldl_Cons max.cobounded1 order_trans)
  then show ?thesis by (simp add: highest_version_def)
qed

lemma create_effect:
  assumes "create_packet st env actor cid t db = Inr (p, db')"
  shows "pk_packets db' = pk_packets db @ [p] \<and> pk_items db' = pk_items db \<and> pkt_id p \<notin> pkt_id ` set (pk_packets db) \<and>
    (pkt_case_id p, pkt_version p) \<notin> (\<lambda>q. (pkt_case_id q, pkt_version q)) ` set (pk_packets db) \<and>
    pkt_status p = ''DRAFT'' \<and> pkt_manifest_sha256 p = None \<and> pkt_manifest p = [] \<and> 1 \<le> pkt_version p"
proof (cases "pk_cases db cid")
  case None
  then show ?thesis using assms by (simp add: create_packet_def)
next
  case (Some c)
  then show ?thesis using assms highest_ge [of db cid]
    by (simp add: create_packet_def Let_def err_simps) auto
qed

lemma notices_tables: "pk_packets (db\<lparr>pk_notices := n\<rparr>) = pk_packets db" "pk_items (db\<lparr>pk_notices := n\<rparr>) = pk_items db"
  by simp_all

text \<open>What a build computed: the case, the entity, the results and the assembled packet.\<close>

lemma build_cases:
  assumes "build_packet st env actor i overrides db = Inr (p', db')"
  obtains p c entity results a where
    "get_row pkt_id (pk_packets db) i = Some p" "\<not> immutable p" "pk_cases db (pkt_case_id p) = Some c"
    "pk_entities db (case_legal_entity_id c) = Some entity"
    "match_all (pe_lib env) (packet_requirements db p overrides) (packet_candidates (pk_catalog db)) (packet_context env db c entity) = Inr results"
    "a = assemble (pkt_id p) (actor_id actor) overrides 1 results empty_assembly"
    "distinct (map pki_item_key (as_items a))"
    "p' = p\<lparr>pkt_manifest := pkt_manifest p', pkt_manifest_sha256 := Some (manifest_sha256 (pe_repr env) (pe_sha env) (pkt_manifest p')),
       pkt_missing_items := map omitted_payload (as_missing a),
       pkt_validation_results := as_validations a @ limit_validations st a, pkt_built_at := Some (pe_now env),
       pkt_status := (if as_missing a \<noteq> [] \<or> list_ex packet_code (as_validations a @ limit_validations st a)
                      then ''MISSING_ITEMS'' else ''READY_FOR_REVIEW'')\<rparr>"
    "\<exists>h. pkt_manifest p' = build_manifest h (as_included a) (as_omitted a) (as_missing a) (pe_now env)"
    "pk_packets db' = put_row pkt_id p' (pk_packets db)"
    "pk_items db' = filter (\<lambda>it. pki_packet_id it \<noteq> pkt_id p) (pk_items db) @ as_items a"
proof -
  obtain p where p: "get_row pkt_id (pk_packets db) i = Some p" "\<not> immutable p"
    using assms by (auto simp: build_packet_def err_simps get_packet_Inr immutable_def)
  have imm: "pkt_status p \<notin> set IMMUTABLE_PACKET_STATUSES" using p(2) by (simp add: immutable_def)
  have gp: "get_packet db i = Inr p" using p(1) by (simp add: get_packet_Inr)
  obtain c where c: "pk_cases db (pkt_case_id p) = Some c"
    using assms gp imm by (cases "pk_cases db (pkt_case_id p)") (simp_all add: build_packet_def)
  obtain entity where e: "pk_entities db (case_legal_entity_id c) = Some entity"
    using assms gp imm c by (cases "pk_entities db (case_legal_entity_id c)") (simp_all add: build_packet_def)
  let ?m = "match_all (pe_lib env) (packet_requirements db p overrides) (packet_candidates (pk_catalog db)) (packet_context env db c entity)"
  obtain results where r: "?m = Inr results"
    using assms gp imm c e by (cases ?m) (auto simp: build_packet_def Let_def err_simps)
  let ?a = "assemble (pkt_id p) (actor_id actor) overrides 1 results empty_assembly"
  show thesis
    by (rule that [OF p c e r refl])
       (use assms gp imm c e r in \<open>auto simp: build_packet_def Let_def err_simps split: option.splits list.splits\<close>)
qed

lemma approve_effect:
  assumes "approve_packet st env actor i db = Inr (p', db')"
  obtains p where "get_row pkt_id (pk_packets db) i = Some p" "\<not> immutable p" "pkt_status p \<noteq> ''DRAFT''" "pkt_missing_items p = []"
    "packet_archive_format st = ''ZIP'' \<longrightarrow> str_truthy (pkt_archive_storage_uri p) \<and> str_truthy (pkt_archive_sha256 p)"
    "list_all (\<lambda>v. code_of v \<notin> set BLOCKING_CODES) (pkt_validation_results p)"
    "p' = p\<lparr>pkt_status := ''APPROVED'', pkt_reviewed_by_actor := Some (actor_id actor), pkt_approved_at := Some (pe_now env)\<rparr>"
    "pk_packets db' = map (supersede_previous p') (put_row pkt_id p' (pk_packets db))"
    "pk_items db' = map (include_item (pkt_id p)) (pk_items db)"
  using assms by (auto simp: approve_packet_def Let_def err_simps get_packet_Inr immutable_def)

lemma reject_effect:
  assumes "reject_packet actor i reason db = Inr (p', db')"
  obtains p where "get_row pkt_id (pk_packets db) i = Some p" "\<not> immutable p"
    "p' = p\<lparr>pkt_status := ''REJECTED'', pkt_rejection_reason := Some (take 1000 reason), pkt_reviewed_by_actor := Some (actor_id actor)\<rparr>"
    "pk_packets db' = put_row pkt_id p' (pk_packets db)" "pk_items db' = pk_items db"
  using assms by (auto simp: reject_packet_def Let_def err_simps get_packet_Inr immutable_def)

lemma archive_cases:
  assumes "generate_archive st env svc actor i db = Inr (p', db')"
  obtains p files cover uri where "get_row pkt_id (pk_packets db) i = Some p"
    "pkt_status p \<in> {''READY_FOR_REVIEW'', ''APPROVED''}" "archive_items db (pkt_id p) \<noteq> []"
    "fetch_files st env svc db (archive_items db (pkt_id p)) [] = Inr files"
    "p' = p\<lparr>pkt_archive_storage_uri := Some uri,
       pkt_archive_sha256 := Some (pe_sha env (zip_file svc (archive_entries (pe_repr env) (pkt_manifest p) files cover True))),
       pkt_archive_size_bytes := Some (int (length (zip_file svc (archive_entries (pe_repr env) (pkt_manifest p) files cover True))))\<rparr>"
    "pk_packets db' = put_row pkt_id p' (pk_packets db)" "pk_items db' = pk_items db"
proof -
  obtain p where p: "get_packet db i = Inr p" "pkt_manifest p \<noteq> [] \<and> str_truthy (pkt_manifest_sha256 p)"
    "pkt_status p \<in> {''READY_FOR_REVIEW'', ''APPROVED''}" "archive_items db (pkt_id p) \<noteq> []"
    using assms unfolding generate_archive_def by (auto simp: bindE_Inr_iff check_Inr Let_def)
  obtain files where f: "fetch_files st env svc db (archive_items db (pkt_id p)) [] = Inr files"
    using assms p unfolding generate_archive_def
    by (cases "fetch_files st env svc db (archive_items db (pkt_id p)) []") (simp_all add: Let_def)
  obtain cover where c: "(if packet_include_cover_sheet st
      then bindE (py_raise (render_cover_sheet (pe_lib env) (pkt_manifest p) None)) (\<lambda>t. Inr (Some t)) else Inr None) = Inr cover"
    using assms p f unfolding generate_archive_def by (simp only: p f bindE_simps check_simps Let_def simp_thms) (auto simp: bindE_Inr_iff)
  define arch where "arch = zip_file svc (archive_entries (pe_repr env) (pkt_manifest p) files cover True)"
  define key where "key = ''licensing/packets/'' @ pkt_key p @ ''/'' @ (case pkt_manifest_sha256 p of None \<Rightarrow> [] | Some s \<Rightarrow> s) @ ''.zip''"
  define q where "q = (\<lambda>uri. p\<lparr>pkt_archive_storage_uri := Some uri, pkt_archive_sha256 := Some (pe_sha env arch),
      pkt_archive_size_bytes := Some (int (length arch))\<rparr>)"
  have res: "bindE (check (int (length arch) \<le> packet_max_total_bytes st)
        (StateConflictError ''Generated packet archive exceeds the configured limit.'')) (\<lambda>_.
      bindE (put_bytes svc key arch) (\<lambda>uri.
      Inr (q uri, packet_audit env actor (pkt_id p) ''packet_archive_generated''
              [(''manifest_sha256'', opt_str (pkt_manifest_sha256 p)), (''archive_sha256'', AStr (pe_sha env arch)),
               (''archive_size_bytes'', AJson (JInt (int (length arch))))] (save_packet (q uri) db)))) = Inr (p', db')"
    using assms unfolding generate_archive_def arch_def key_def q_def
    by (simp only: p f c bindE_simps check_simps Let_def simp_thms build_archive_def prod.case)
  then obtain uri where u: "put_bytes svc key arch = Inr uri"
    by (cases "put_bytes svc key arch") (simp_all add: bindE_Inr_iff)
  have "p' = q uri" "pk_packets db' = put_row pkt_id p' (pk_packets db)" "pk_items db' = pk_items db"
    using res u by (cases "int (length arch) \<le> packet_max_total_bytes st"; force)+
  then show thesis using that [OF _ p(3,4) f, of cover uri] p(1) unfolding get_packet_Inr q_def arch_def by blast
qed

subsection \<open>Preservation\<close>

lemma one_approved_put:
  assumes "one_approved ps" "get_row pkt_id ps i = Some p" "pkt_id p' = pkt_id p" "pkt_case_id p' = pkt_case_id p"
    "pkt_status p' = ''APPROVED'' \<longrightarrow> pkt_status p = ''APPROVED''"
  shows "one_approved (put_row pkt_id p' ps)"
proof -
  have p: "p \<in> set ps" using assms(2) get_row_SomeD by metis
  have old: "\<exists>y \<in> set ps. pkt_id y = pkt_id x \<and> pkt_case_id y = pkt_case_id x \<and>
      (pkt_status x = ''APPROVED'' \<longrightarrow> pkt_status y = ''APPROVED'')" if "x \<in> set (put_row pkt_id p' ps)" for x
    using set_put_row [OF that] p assms(3-5) by metis
  show ?thesis unfolding one_approved_def using old assms(1) unfolding one_approved_def by metis
qed

lemma keys_put:
  assumes "distinct (map pkt_id ps)" "get_row pkt_id ps i = Some p" "pkt_id p' = pkt_id p"
    "pkt_case_id p' = pkt_case_id p" "pkt_version p' = pkt_version p"
  shows "map (\<lambda>p. (pkt_case_id p, pkt_version p)) (put_row pkt_id p' ps) = map (\<lambda>p. (pkt_case_id p, pkt_version p)) ps"
proof -
  have p: "p \<in> set ps" using assms(2) get_row_SomeD by metis
  have "q = p" if "q \<in> set ps" "pkt_id q = pkt_id p'" for q
    using that p assms(1,3) by (metis distinct_map inj_onD)
  then show ?thesis using assms(4,5) by (auto simp: put_row_def)
qed

lemma packets_ok_put:
  assumes "packets_ok st sha repr db" "get_row pkt_id (pk_packets db) i = Some p" "pkt_id p' = pkt_id p"
    "pkt_case_id p' = pkt_case_id p" "pkt_version p' = pkt_version p" "row_ok st sha repr p'"
    "pkt_status p' = ''APPROVED'' \<longrightarrow> pkt_status p = ''APPROVED''" "pk_packets db' = put_row pkt_id p' (pk_packets db)"
  shows "packets_ok st sha repr db'"
  unfolding packets_ok_def assms(8)
proof (intro conjI)
  have ok: "distinct (map pkt_id (pk_packets db))" "one_approved (pk_packets db)" "list_all (row_ok st sha repr) (pk_packets db)"
    "distinct (map (\<lambda>p. (pkt_case_id p, pkt_version p)) (pk_packets db))"
    using assms(1) by (simp_all add: packets_ok_def)
  show "distinct (map pkt_id (put_row pkt_id p' (pk_packets db)))" using ok(1) by simp
  show "distinct (map (\<lambda>p. (pkt_case_id p, pkt_version p)) (put_row pkt_id p' (pk_packets db)))"
    using ok(4) keys_put [OF ok(1) assms(2-5)] by simp
  show "one_approved (put_row pkt_id p' (pk_packets db))" by (rule one_approved_put [OF ok(2) assms(2,3,4,7)])
  show "list_all (row_ok st sha repr) (put_row pkt_id p' (pk_packets db))"
    using ok(3) assms(6) by (auto simp: list_all_iff dest: set_put_row)
qed

lemma found_row_ok: "packets_ok st sha repr db \<Longrightarrow> get_row pkt_id (pk_packets db) i = Some p \<Longrightarrow> row_ok st sha repr p"
  by (auto simp: packets_ok_def list_all_iff dest: get_row_SomeD)

lemma one_approved_append: "one_approved ps \<Longrightarrow> pkt_status p \<noteq> ''APPROVED'' \<Longrightarrow> one_approved (ps @ [p])"
  unfolding one_approved_def by (simp only: set_append list.set ball_Un ball_simps) blast

lemma create_ok:
  assumes "packets_ok st sha repr db" "create_packet st env actor cid t db = Inr (p, db')"
  shows "packets_ok st sha repr db'"
proof -
  note e = create_effect [OF assms(2)]
  have "row_ok st sha repr p" using e by (simp add: row_ok_def immutable_def IMMUTABLE_PACKET_STATUSES_def)
  moreover have "one_approved (pk_packets db @ [p])"
    using assms(1) e by (intro one_approved_append) (simp_all add: packets_ok_def)
  ultimately show ?thesis using assms(1) e by (auto simp: packets_ok_def)
qed

lemma build_ok:
  assumes "packets_ok st sha repr db" "pe_sha env = sha" "pe_repr env = repr"
    "build_packet st env actor i overrides db = Inr (p', db')"
  shows "packets_ok st sha repr db'"
  using assms(4)
proof (cases rule: build_cases)
  case (1 p c entity results a)
  have st: "pkt_status p' = (if as_missing a \<noteq> [] \<or> list_ex packet_code (as_validations a @ limit_validations st a)
      then ''MISSING_ITEMS'' else ''READY_FOR_REVIEW'')"
    "pkt_id p' = pkt_id p" "pkt_case_id p' = pkt_case_id p" "pkt_version p' = pkt_version p"
    "pkt_missing_items p' = map omitted_payload (as_missing a)"
    "pkt_manifest_sha256 p' = Some (manifest_sha256 repr sha (pkt_manifest p'))"
    by (subst 1(8), simp add: assms(2,3))+
  have "1 \<le> pkt_version p" using found_row_ok [OF assms(1) 1(1)] by (simp add: row_ok_def)
  then have "row_ok st sha repr p'"
    by (simp add: row_ok_def st immutable_def IMMUTABLE_PACKET_STATUSES_def)
  then show ?thesis using st packets_ok_put [OF assms(1) 1(1)] 1(10) by simp
qed

lemma packet_reject_ok:
  assumes "packets_ok st sha repr db" "reject_packet actor i reason db = Inr (p', db')"
  shows "packets_ok st sha repr db'"
  using assms(2)
proof (cases rule: reject_effect)
  case (1 p)
  have "row_ok st sha repr p'" using found_row_ok [OF assms(1) 1(1)]
    by (simp add: 1(3) row_ok_def immutable_def IMMUTABLE_PACKET_STATUSES_def)
  then show ?thesis using packets_ok_put [OF assms(1) 1(1), of p' db'] 1(3,4) by simp
qed

lemma archive_ok:
  assumes "packets_ok st sha repr db" "generate_archive st env svc actor i db = Inr (p', db')"
  shows "packets_ok st sha repr db'"
  using assms(2)
proof (cases rule: archive_cases)
  case (1 p files cover uri)
  have "row_ok st sha repr p'" using found_row_ok [OF assms(1) 1(1)]
    by (simp add: 1(5) row_ok_def immutable_def)
  then show ?thesis using packets_ok_put [OF assms(1) 1(1), of p' db'] 1(5,6) by simp
qed

lemma supersede_previous_fields [simp]:
  "pkt_id (supersede_previous p q) = pkt_id q" "pkt_case_id (supersede_previous p q) = pkt_case_id q"
  "pkt_version (supersede_previous p q) = pkt_version q"
  by (simp_all add: supersede_previous_def)

lemma supersede_row_ok: "row_ok st sha repr q \<Longrightarrow> row_ok st sha repr (supersede_previous p q)"
  by (simp add: supersede_previous_def row_ok_def immutable_def IMMUTABLE_PACKET_STATUSES_def)

lemma supersede_approved:
  "pkt_status (supersede_previous p q) = ''APPROVED'' \<Longrightarrow>
     supersede_previous p q = q \<and> (pkt_case_id q = pkt_case_id p \<longrightarrow> pkt_id q = pkt_id p)"
  by (auto simp: supersede_previous_def)

lemma packet_approve_ok:
  assumes ok: "packets_ok st sha repr db" and step: "approve_packet st env actor i db = Inr (p', db')"
  shows "packets_ok st sha repr db'"
  using step
proof (cases rule: approve_effect)
  case (1 p)
  let ?ps = "put_row pkt_id p' (pk_packets db)"
  have id: "pkt_id p' = pkt_id p" "pkt_case_id p' = pkt_case_id p" "pkt_version p' = pkt_version p" by (simp_all add: 1(7))
  have "row_ok st sha repr p'" using found_row_ok [OF ok 1(1)] 1(4-6)
    by (auto simp: 1(7) row_ok_def str_truthy_def)
  moreover have "list_all (row_ok st sha repr) (pk_packets db)" using ok by (simp add: packets_ok_def)
  ultimately have rows: "list_all (row_ok st sha repr) (map (supersede_previous p') ?ps)"
    by (auto simp: list_all_iff intro: supersede_row_ok dest!: set_put_row)
  have ids: "distinct (map pkt_id (pk_packets db))" using ok by (simp add: packets_ok_def)
  have "map (\<lambda>p. (pkt_case_id p, pkt_version p)) ?ps = map (\<lambda>p. (pkt_case_id p, pkt_version p)) (pk_packets db)"
    by (rule keys_put [OF ids 1(1) id])
  then have keys: "distinct (map (\<lambda>p. (pkt_case_id p, pkt_version p)) (map (supersede_previous p') ?ps))"
    using ok by (simp add: packets_ok_def comp_def)
  have one: "one_approved (map (supersede_previous p') ?ps)"
    unfolding one_approved_def
  proof (intro ballI impI)
    fix x y assume x: "x \<in> set (map (supersede_previous p') ?ps)" and y: "y \<in> set (map (supersede_previous p') ?ps)"
      and xy: "pkt_status x = ''APPROVED'' \<and> pkt_status y = ''APPROVED'' \<and> pkt_case_id x = pkt_case_id y"
    have keep: "z = p' \<or> (z \<in> set (pk_packets db) \<and> (pkt_case_id z = pkt_case_id p' \<longrightarrow> pkt_id z = pkt_id p'))"
      if z: "z \<in> set (map (supersede_previous p') ?ps)" "pkt_status z = ''APPROVED''" for z
    proof -
      obtain w where w: "w \<in> set ?ps" "z = supersede_previous p' w" using z(1) by auto
      have "z = w" "pkt_case_id w = pkt_case_id p' \<longrightarrow> pkt_id w = pkt_id p'"
        using supersede_approved [of p' w] z(2) unfolding w(2) by blast+
      then show ?thesis using set_put_row [OF w(1)] by blast
    qed
    have "one_approved (pk_packets db)" using ok by (simp add: packets_ok_def)
    then show "pkt_id x = pkt_id y" using keep [OF x] keep [OF y] xy unfolding one_approved_def by metis
  qed
  show ?thesis using rows keys one ids by (simp add: packets_ok_def 1(8) comp_def)
qed

interpretation packet_sys: invariant_system packet_init "packet_step st sha repr" "packets_ok st sha repr"
  for st :: packet_settings and sha :: "string \<Rightarrow> string" and repr :: "rat \<Rightarrow> string"
proof unfold_locales
  fix db assume "packet_init db"
  then show "packets_ok st sha repr db" by (simp add: packet_init_def packets_ok_def one_approved_def)
next
  fix db db' assume ok: "packets_ok st sha repr db" and "packet_step st sha repr db db'"
  from this(2) show "packets_ok st sha repr db'"
  proof cases
    case step_create
    then show ?thesis using ok create_ok by blast
  next
    case step_build
    then show ?thesis using ok build_ok by blast
  next
    case step_approve
    then show ?thesis using ok packet_approve_ok by blast
  next
    case step_reject
    then show ?thesis using ok packet_reject_ok by blast
  next
    case step_archive
    then show ?thesis using ok archive_ok by blast
  next
    case step_world
    then show ?thesis using ok by (simp add: packets_ok_def)
  qed
qed

subsection \<open>Assembly\<close>

definition item_for :: "uuid \<Rightarrow> string \<Rightarrow> (string \<times> uuid) list \<Rightarrow> MatchResult \<Rightarrow> packet_item \<Rightarrow> bool" where
  "item_for packet_id who overrides r it \<longleftrightarrow>
     (\<exists>filename. it = item_row packet_id who overrides r filename \<and> (filename = None \<longleftrightarrow> included_document r = None))"

lemma assemble_one_items:
  "\<exists>it. as_items (assemble_one packet_id who overrides n r a) = as_items a @ [it] \<and> item_for packet_id who overrides r it"
  by (cases "included_document r") (auto simp: assemble_one_def item_for_def Let_def case_prod_beta)

lemma assemble_items:
  "\<exists>its. as_items (assemble packet_id who overrides n rs a) = as_items a @ its \<and> list_all2 (item_for packet_id who overrides) rs its"
proof (induction rs arbitrary: n a)
  case (Cons r rs)
  let ?a = "assemble_one packet_id who overrides n r a"
  obtain it where it: "as_items ?a = as_items a @ [it]" "item_for packet_id who overrides r it"
    using assemble_one_items by blast
  obtain its where "as_items (assemble packet_id who overrides (Suc n) rs ?a) = as_items ?a @ its"
    "list_all2 (item_for packet_id who overrides) rs its" using Cons.IH by blast
  then show ?case using it by (intro exI [of _ "it # its"]) simp
qed simp

definition file_names :: "packet_item list \<Rightarrow> string list" where
  "file_names its = map (the \<circ> pki_filename) (filter (\<lambda>it. pki_filename it \<noteq> None) its)"

lemma item_row_filename [simp]: "pki_filename (item_row i who ov r f) = f" "pki_packet_id (item_row i who ov r f) = i"
  by (simp_all add: item_row_def Let_def)

lemma file_names_snoc:
  "file_names (its @ [it]) = file_names its @ (case pki_filename it of None \<Rightarrow> [] | Some f \<Rightarrow> [f])"
  by (auto simp: file_names_def split: option.splits)

lemma assemble_names:
  "distinct (file_names (as_items a)) \<Longrightarrow> set (file_names (as_items a)) = set (as_taken a) \<Longrightarrow> length (as_taken a) + length rs \<le> 999 \<Longrightarrow>
     distinct (file_names (as_items (assemble i who ov n rs a)))"
proof (induction rs arbitrary: n a)
  case (Cons r rs)
  let ?a = "assemble_one i who ov n r a"
  have "distinct (file_names (as_items ?a)) \<and> set (file_names (as_items ?a)) = set (as_taken ?a) \<and>
      length (as_taken ?a) \<le> Suc (length (as_taken a))"
  proof (cases "included_document r")
    case None
    then show ?thesis using Cons.prems by (auto simp: assemble_one_def Let_def file_names_snoc)
  next
    case (Some d)
    obtain m taken where u: "unique_filename (safe_filename (two_digits n @ ''-'' @ cand_filename d) ''document'' None) (as_taken a) = (m, taken)"
      by (metis surj_pair)
    have t: "taken = List.insert m (as_taken a)" by (rule unique_filename_taken [OF u])
    have "length (as_taken a) < 999" using Cons.prems(3) by simp
    then have "m \<notin> set (as_taken a)" using unique_filename_fresh u by (metis fst_conv)
    moreover have "?a = a\<lparr>as_included := as_included a @ [manifest_entry r d m], as_taken := List.insert m (as_taken a),
        as_total_bytes := as_total_bytes a + cand_size_bytes d, as_items := as_items a @ [item_row i who ov r (Some m)]\<rparr>"
      by (simp only: assemble_one_def Some option.case u t Let_def prod.case)
    ultimately show ?thesis using Cons.prems(1,2) by (simp add: file_names_snoc)
  qed
  then show ?case using Cons.IH [of ?a "Suc n"] Cons.prems(3) by simp
qed simp

subsection \<open>Frozen packets\<close>

text \<open>What a manifest says and what its items pin, apart from the status of the review.\<close>

definition snapshot :: "packet_row \<Rightarrow> uuid \<times> int \<times> string option \<times> jdict \<times> jdict list \<times> jdict list \<times> datetime option" where
  "snapshot p = (pkt_case_id p, pkt_version p, pkt_manifest_sha256 p, pkt_manifest p, pkt_missing_items p,
     pkt_validation_results p, pkt_approved_at p)"

definition pins :: "packet_db \<Rightarrow> uuid \<Rightarrow> (string \<times> uuid option \<times> uuid option \<times> string option \<times> string option) list" where
  "pins db i = map (\<lambda>it. (pki_item_key it, pki_document_id it, pki_version_id it, pki_document_sha256 it, pki_filename it))
     (filter (\<lambda>it. pki_packet_id it = i) (pk_items db))"

definition frozen :: "packet_db \<Rightarrow> packet_db \<Rightarrow> uuid \<Rightarrow> packet_row \<Rightarrow> bool" where
  "frozen db db' i p \<longleftrightarrow>
     (\<exists>p'. get_row pkt_id (pk_packets db') i = Some p' \<and> immutable p' \<and> snapshot p' = snapshot p \<and> pins db' i = pins db i)"

lemma frozen_same: "pk_packets db' = pk_packets db \<Longrightarrow> pk_items db' = pk_items db \<Longrightarrow>
    get_row pkt_id (pk_packets db) i = Some p \<Longrightarrow> immutable p \<Longrightarrow> frozen db db' i p"
  by (simp add: frozen_def pins_def)

lemma build_frozen:
  assumes "build_packet st env actor j ov db = Inr (q', db')" "get_row pkt_id (pk_packets db) i = Some p" "immutable p"
  shows "frozen db db' i p"
  using assms(1)
proof (cases rule: build_cases)
  case (1 q c entity results a)
  have ids: "pkt_id p = i" "pkt_id q = j" using 1(1) assms(2) get_row_SomeD by metis+
  have ne: "i \<noteq> j" using 1(1,2) assms(2,3) by auto
  have "pkt_id q' = j" by (subst 1(8)) (simp add: ids)
  then have row: "get_row pkt_id (pk_packets db') i = Some p" using ne assms(2) by (simp add: 1(10) get_put_row)
  obtain its where its: "as_items a = its" "list_all2 (item_for (pkt_id q) (actor_id actor) ov) results its"
    using assemble_items [of "pkt_id q" "actor_id actor" ov 1 results empty_assembly] 1(6) by (auto simp: empty_assembly_def)
  have "pki_packet_id it = j" if "it \<in> set its" for it
    using that its(2) ids(2) by (auto simp: item_for_def list_all2_conv_all_nth in_set_conv_nth)
  then have none: "filter (\<lambda>it. pki_packet_id it = i) its = []" using ne by (auto simp: filter_empty_conv)
  have "filter (\<lambda>it. pki_packet_id it = i) (pk_items db') = filter (\<lambda>it. pki_packet_id it = i) (pk_items db)"
    using ne none ids(2) by (auto simp: 1(11) its(1) intro!: filter_cong)
  then show ?thesis using row assms(3) by (simp add: frozen_def pins_def)
qed

lemma approve_frozen:
  assumes "approve_packet st env actor j db = Inr (q', db')" "get_row pkt_id (pk_packets db) i = Some p" "immutable p"
  shows "frozen db db' i p"
  using assms(1)
proof (cases rule: approve_effect)
  case (1 q)
  have ids: "pkt_id p = i" "pkt_id q = j" using 1(1) assms(2) get_row_SomeD by metis+
  have ne: "i \<noteq> j" using 1(1,2) assms(2,3) by auto
  have map_get: "get_row pkt_id (map (supersede_previous q') ps) i = map_option (supersede_previous q') (get_row pkt_id ps i)" for ps
    by (induction ps) auto
  have "pkt_id q' = j" by (simp add: 1(7) ids)
  then have row: "get_row pkt_id (pk_packets db') i = Some (supersede_previous q' p)"
    using ne assms(2) by (simp add: 1(8) map_get get_put_row)
  have imm: "immutable (supersede_previous q' p) \<and> snapshot (supersede_previous q' p) = snapshot p"
    using assms(3) by (simp add: supersede_previous_def immutable_def IMMUTABLE_PACKET_STATUSES_def snapshot_def)
  have "filter (\<lambda>it. pki_packet_id it = i) (pk_items db') = filter (\<lambda>it. pki_packet_id it = i) (pk_items db)"
  proof -
    have "filter (\<lambda>it. pki_packet_id it = i) (map (include_item j) its) = filter (\<lambda>it. pki_packet_id it = i) its" for its
      using ne by (induction its) (auto simp: include_item_def)
    then show ?thesis by (simp add: 1(9) ids)
  qed
  then show ?thesis using row imm by (simp add: frozen_def pins_def)
qed

lemma reject_frozen:
  assumes "reject_packet actor j reason db = Inr (q', db')" "get_row pkt_id (pk_packets db) i = Some p" "immutable p"
  shows "frozen db db' i p"
  using assms(1)
proof (cases rule: reject_effect)
  case (1 q)
  have ids: "pkt_id q = j" using 1(1) get_row_SomeD by metis
  have ne: "i \<noteq> j" using 1(1,2) assms(2,3) by auto
  have "pkt_id q' = j" by (simp add: 1(3) ids)
  then have "get_row pkt_id (pk_packets db') i = Some p" using ne assms(2) by (simp add: 1(4) get_put_row)
  then show ?thesis using assms(3) 1(5) by (simp add: frozen_def pins_def)
qed

lemma archive_frozen:
  assumes "generate_archive st env svc actor j db = Inr (q', db')" "get_row pkt_id (pk_packets db) i = Some p" "immutable p"
  shows "frozen db db' i p"
  using assms(1)
proof (cases rule: archive_cases)
  case (1 q files cover uri)
  have ids: "pkt_id q = j" "pkt_id p = i" using 1(1) assms(2) get_row_SomeD by metis+
  have q': "pkt_id q' = j" "immutable q' = immutable q" "snapshot q' = snapshot q" by (simp_all add: 1(5) ids immutable_def snapshot_def)
  show ?thesis
  proof (cases "i = j")
    case True
    then have "q = p" using 1(1) assms(2) by simp
    then show ?thesis using True q' assms(2,3) 1(7) by (simp add: frozen_def pins_def 1(6) get_put_row)
  next
    case False
    then have "get_row pkt_id (pk_packets db') i = Some p" using assms(2) q'(1) by (simp add: 1(6) get_put_row)
    then show ?thesis using assms(3) 1(7) by (simp add: frozen_def pins_def)
  qed
qed

lemma step_frozen:
  assumes "packet_step st sha repr db db'" "get_row pkt_id (pk_packets db) i = Some p" "immutable p"
  shows "frozen db db' i p"
  using assms(1)
proof cases
  case (step_create env actor cid t q)
  then show ?thesis using create_effect [OF step_create] assms(2,3) by (auto simp: frozen_def pins_def get_row_append)
next
  case step_build
  then show ?thesis using build_frozen assms(2,3) by blast
next
  case step_approve
  then show ?thesis using approve_frozen assms(2,3) by blast
next
  case step_reject
  then show ?thesis using reject_frozen assms(2,3) by blast
next
  case step_archive
  then show ?thesis using archive_frozen assms(2,3) by blast
next
  case step_world
  then show ?thesis using frozen_same assms(2,3) by blast
qed

lemma run_frozen:
  assumes "(packet_step st sha repr)\<^sup>*\<^sup>* db db'" "get_row pkt_id (pk_packets db) i = Some p" "immutable p"
  shows "frozen db db' i p"
  using assms(1)
proof (induction rule: rtranclp_induct)
  case base
  then show ?case using frozen_same assms(2,3) by blast
next
  case (step y z)
  then obtain q where q: "get_row pkt_id (pk_packets y) i = Some q" "immutable q" "snapshot q = snapshot p" "pins y i = pins db i"
    by (auto simp: frozen_def)
  show ?case using step_frozen [OF step(2) q(1,2)] q(3,4) by (auto simp: frozen_def)
qed

end
