(* ===== verification/Packet_Properties.thy ===== *)
theory Packet_Properties
  imports Packet_Invariant
begin

text \<open>
  The properties of document packets, from the choice of a document to the archive: what is selected, when the
  matcher fails, what a built packet and its archive contain, and what approval freezes.
\<close>

subsection \<open>Examples\<close>

definition ex_packet_env :: packet_env where
  "ex_packet_env = \<lparr>pe_case = \<lparr>ce_now = 1735732800000000, ce_today = Date 2025 1 1, ce_new_id = 9, ce_suffix = ''ab'', ce_sha256 = (\<lambda>_. ''abc'')\<rparr>,
     pe_lib = ex_lib, pe_repr = (\<lambda>_. [])\<rparr>"

definition ex_packet_settings :: "string \<Rightarrow> packet_settings" where
  "ex_packet_settings fmt = \<lparr>packet_generation_enabled = True, packet_max_documents = 100, packet_max_total_bytes = 100000,
     packet_include_cover_sheet = False, packet_archive_format = fmt, document_download_max_bytes = 100000\<rparr>"

definition ex_packet_case :: compliance_case where
  "ex_packet_case =
     \<lparr>case_id = 1, case_key = ''case-1'', case_obligation_id = 2, case_legal_entity_id = 3, case_license_id = None,
      case_bond_id = None, case_type = ''LICENSE_RENEWAL'', current_stage = PACKET_BUILDING, case_status = IN_PROGRESS,
      case_priority = ''NORMAL'', case_statutory_due_date = None, internal_target_date = None, assigned_owner = Some ''ann'',
      case_vendor = None, case_regulator = None, primary_conversation_id = None, close_reason = None, blocked_reason = None,
      created_by_actor = None, stage_entered_at = None, case_completed_at = None, case_created_at = 0\<rparr>"

definition ex_bond :: document where
  "ex_bond = ex_document\<lparr>approval_status := ''APPROVED'', doc_approved_at := Some 5, doc_approved_by_actor := Some ''ann'',
     current_version_id := Some 4, doc_legal_entity := Some '' ACME '', current_filename := ''bond.pdf''\<rparr>"

definition ex_bond_version :: document_version where
  "ex_bond_version =
     \<lparr>ver_id = 4, ver_document_id = 1, version_number = 1, graph_site_id = ''s'', graph_drive_id = ''d'',
      graph_drive_item_id = ''i'', graph_list_id = None, graph_list_item_id = None, parent_graph_drive_item_id = None,
      ver_filename = ''bond.pdf'', web_url = None, ver_mime_type = None, ver_size_bytes = 10, ver_content_sha256 = ''abc'',
      graph_etag = None, graph_ctag = None, storage_status = ''AVAILABLE'', uploaded_by_actor = None, uploaded_at = 0,
      discovered_at = None\<rparr>"

definition ex_packet_catalog :: document_db where
  "ex_packet_catalog = \<lparr>documents = [ex_bond], versions = [ex_bond_version], doc_events = [], sync_states = [], drives = []\<rparr>"

definition ex_template_item :: packet_template_item where
  "ex_template_item = \<lparr>pti_template_id = 5, pti_item_key = ''bond'', pti_document_type = ''SURETY_BOND'', pti_required = True,
     pti_selection_policy = [], pti_sort_order = 1, pti_instructions = None\<rparr>"

definition ex_packet_db :: packet_db where
  "ex_packet_db = \<lparr>pk_packets = [], pk_items = [],
     pk_templates = [\<lparr>pt_id = 5, pt_template_key = ''tmpl'', pt_jurisdiction_id = None, pt_license_type_id = None,
       pt_case_type = None, pt_status = ''ACTIVE''\<rparr>],
     pk_template_items = [ex_template_item], pk_cases = [1 \<mapsto> ex_packet_case], pk_entities = [3 \<mapsto> (''acme'', ''Acme Inc'')],
     pk_licenses = Map.empty, pk_jurisdictions = Map.empty, pk_license_types = Map.empty, pk_catalog = ex_packet_catalog,
     pk_notices = \<lparr>notices = [], notice_outbox = []\<rparr>, pk_audits = []\<rparr>"

definition ex_reviewer :: case_actor where
  "ex_reviewer = \<lparr>actor_type = ''HUMAN'', actor_id = ''ann''\<rparr>"

definition ex_services :: archive_services where
  "ex_services = \<lparr>download_to_store = (\<lambda>drive item n. Inr ''abc''), put_bytes = (\<lambda>key x. Inr ''uri''), zip_file = (\<lambda>_. ''zip'')\<rparr>"

definition ex_matched :: MatchResult where
  "ex_matched = \<lparr>mr_item_key = ''bond'', mr_document_type = ''SURETY_BOND'', mr_required = True, mr_sort_order = 1,
     mr_status = ''MATCHED'', mr_document = Some (candidate_of ex_packet_catalog ex_bond),
     mr_inclusion_reason = Some ''Selected by LATEST_APPROVED from 1 eligible document(s) of 1 considered.'',
     mr_rejections = [], mr_considered_count = 1\<rparr>"

definition ex_packet :: packet_row where
  "ex_packet = \<lparr>pkt_id = 9, pkt_key = ''case-1-packet-1'', pkt_case_id = 1, pkt_template_id = Some 5, pkt_version = 1,
     pkt_status = ''DRAFT'', pkt_manifest_sha256 = None, pkt_manifest = [], pkt_archive_storage_uri = None,
     pkt_archive_sha256 = None, pkt_archive_size_bytes = None, pkt_missing_items = [], pkt_validation_results = [],
     pkt_created_by_actor = Some ''ann'', pkt_reviewed_by_actor = None, pkt_approved_at = None, pkt_built_at = None,
     pkt_superseded_by = None, pkt_rejection_reason = None\<rparr>"

definition ex_with :: "packet_row \<Rightarrow> packet_item list \<Rightarrow> lic_audit list \<Rightarrow> packet_db" where
  "ex_with p its a = ex_packet_db\<lparr>pk_packets := [p], pk_items := its, pk_audits := a\<rparr>"

lemma ex_create:
  "\<exists>a. create_packet (ex_packet_settings fmt) ex_packet_env ex_reviewer 1 (Some 5) ex_packet_db = Inr (ex_packet, ex_with ex_packet [] a)"
proof -
  have one: "str_int 1 = ''1''" by code_simp
  have t: "pk_cases ex_packet_db 1 = Some ex_packet_case" "pk_packets ex_packet_db = []" "highest_version ex_packet_db 1 = 0"
    "get_row pt_id (pk_templates ex_packet_db) 5 = Some \<lparr>pt_id = 5, pt_template_key = ''tmpl'', pt_jurisdiction_id = None,
       pt_license_type_id = None, pt_case_type = None, pt_status = ''ACTIVE''\<rparr>"
    "case_license_id ex_packet_case = None" "case_key ex_packet_case = ''case-1''"
    by (simp_all add: ex_packet_db_def highest_version_def ex_packet_case_def)
  have p: "ex_packet = \<lparr>pkt_id = 9, pkt_key = ''case-1'' @ ''-packet-'' @ ''1'', pkt_case_id = 1, pkt_template_id = Some 5, pkt_version = 1,
     pkt_status = ''DRAFT'', pkt_manifest_sha256 = None, pkt_manifest = [], pkt_archive_storage_uri = None,
     pkt_archive_sha256 = None, pkt_archive_size_bytes = None, pkt_missing_items = [], pkt_validation_results = [],
     pkt_created_by_actor = Some ''ann'', pkt_reviewed_by_actor = None, pkt_approved_at = None, pkt_built_at = None,
     pkt_superseded_by = None, pkt_rejection_reason = None\<rparr>" by (simp add: ex_packet_def)
  have e: "ce_new_id (pe_case ex_packet_env) = 9" "actor_id ex_reviewer = ''ann''" "packet_generation_enabled (ex_packet_settings fmt)"
    by (simp_all add: ex_packet_env_def ex_reviewer_def ex_packet_settings_def)
  have x: "ex_packet_db\<lparr>pk_packets := [q], pk_audits := z\<rparr> = ex_with q [] z" for q z
    by (simp add: ex_with_def ex_packet_db_def)
  show ?thesis unfolding p
    by (simp add: create_packet_def t one e Let_def lookup_opt_def opt_conflict_def packet_audit_def x del: One_nat_def) blast
qed

lemma ex_match: "match_all ex_lib [requirement_of ex_template_item] (packet_candidates ex_packet_catalog)
    (packet_context ex_packet_env db ex_packet_case (''acme'', ''Acme Inc'')) = Inr [ex_matched]"
proof -
  have c: "packet_context ex_packet_env db ex_packet_case (''acme'', ''Acme Inc'') =
     \<lparr>mc_legal_entity_key = ''acme'', mc_legal_entity_name = Some ''Acme Inc'', mc_jurisdiction_key = None,
      mc_jurisdiction_name = None, mc_license_type_key = None, mc_license_type_name = None, mc_today = Date 2025 1 1\<rparr>"
    unfolding packet_context_def packet_jurisdiction_def packet_license_type_def packet_licence_def
    by (simp add: ex_packet_case_def lookup_opt_def ex_packet_env_def pe_now_def) code_simp
  show ?thesis unfolding c by code_simp
qed

definition ex_pinned :: packet_item where
  "ex_pinned = item_row 9 ''ann'' [] ex_matched (Some ''01-bond.pdf'')"

lemma ex_assembly:
  "assemble 9 ''ann'' [] 1 [ex_matched] empty_assembly =
     \<lparr>as_included = [manifest_entry ex_matched (candidate_of ex_packet_catalog ex_bond) ''01-bond.pdf''], as_missing = [],
      as_omitted = [], as_validations = [], as_taken = [''01-bond.pdf''], as_total_bytes = 10, as_items = [ex_pinned]\<rparr>"
proof -
  have d: "included_document ex_matched = Some (candidate_of ex_packet_catalog ex_bond)"
    by (simp add: included_document_def is_included_def ex_matched_def)
  have f: "cand_filename (candidate_of ex_packet_catalog ex_bond) = ''bond.pdf''" "cand_size_bytes (candidate_of ex_packet_catalog ex_bond) = 10"
    by (simp_all add: candidate_of_def Let_def ex_bond_def ex_document_def)
  have s: "safe_filename (two_digits 1 @ ''-'' @ ''bond.pdf'') ''document'' None = ''01-bond.pdf''" by code_simp
  show ?thesis
    unfolding assemble.simps assemble_one_def d option.case f s
    by (simp add: unique_filename_def Let_def empty_assembly_def ex_pinned_def f)
qed

lemma ex_build:
  assumes "pkt_id p = 9" "pkt_case_id p = 1" "pkt_template_id p = Some 5" "pkt_status p \<notin> {''APPROVED'', ''SUPERSEDED''}"
  shows "\<exists>a m. build_packet (ex_packet_settings fmt) ex_packet_env ex_reviewer 9 [] (ex_with p its0 a0) =
    Inr (p\<lparr>pkt_manifest := m, pkt_manifest_sha256 := Some ''abc'', pkt_missing_items := [], pkt_validation_results := [],
           pkt_built_at := Some 1735732800000000, pkt_status := ''READY_FOR_REVIEW''\<rparr>,
         ex_with (p\<lparr>pkt_manifest := m, pkt_manifest_sha256 := Some ''abc'', pkt_missing_items := [], pkt_validation_results := [],
           pkt_built_at := Some 1735732800000000, pkt_status := ''READY_FOR_REVIEW''\<rparr>)
           (filter (\<lambda>it. pki_packet_id it \<noteq> 9) its0 @ [ex_pinned]) a)"
proof -
  have g: "get_packet (ex_with p its0 a0) 9 = Inr p" by (simp add: get_packet_def ex_with_def assms)
  have r: "packet_requirements (ex_with p its0 a0) p [] = [requirement_of ex_template_item]"
    by (simp add: packet_requirements_def assms ex_with_def ex_packet_db_def ex_template_item_def override_requirement_def requirement_of_def)
  have m: "match_all (pe_lib ex_packet_env) [requirement_of ex_template_item] (packet_candidates (pk_catalog (ex_with p its0 a0)))
      (packet_context ex_packet_env (ex_with p its0 a0) ex_packet_case (''acme'', ''Acme Inc'')) = Inr [ex_matched]"
    using ex_match [of "ex_with p its0 a0"] by (simp add: ex_packet_env_def ex_with_def ex_packet_db_def)
  have c: "pk_cases (ex_with p its0 a0) (pkt_case_id p) = Some ex_packet_case"
    "pk_entities (ex_with p its0 a0) (case_legal_entity_id ex_packet_case) = Some (''acme'', ''Acme Inc'')"
    by (simp_all add: ex_with_def ex_packet_db_def assms ex_packet_case_def)
  have e: "pe_sha ex_packet_env x = ''abc''" "pe_now ex_packet_env = 1735732800000000" "actor_id ex_reviewer = ''ann''"
    "assigned_owner ex_packet_case = Some ''ann''" for x
    by (simp_all add: pe_sha_def pe_now_def ex_packet_env_def ex_reviewer_def ex_packet_case_def)
  have l: "limit_validations (ex_packet_settings fmt) \<lparr>as_included = [x], as_missing = [], as_omitted = [], as_validations = [],
      as_taken = t, as_total_bytes = 10, as_items = its\<rparr> = []" for x t its
    by (simp add: limit_validations_def ex_packet_settings_def)
  have x: "pk_items (ex_with p its0 a0) = its0" "pk_packets (ex_with p its0 a0) = [p]"
    "(ex_with p its0 a0)\<lparr>pk_items := x, pk_packets := [q], pk_audits := z\<rparr> = ex_with q x z" for q x z
    by (simp_all add: ex_with_def)
  show ?thesis
    using assms(4)
    by (simp add: build_packet_def g c m r assms(1) e ex_assembly l IMMUTABLE_PACKET_STATUSES_def Let_def manifest_sha256_def
        save_packet_def packet_audit_def put_row_def x del: assemble.simps One_nat_def) blast
qed

definition built_packet :: "packet_row \<Rightarrow> jdict \<Rightarrow> packet_row" where
  "built_packet p m = p\<lparr>pkt_manifest := m, pkt_manifest_sha256 := Some ''abc'', pkt_missing_items := [], pkt_validation_results := [],
     pkt_built_at := Some 1735732800000000, pkt_status := ''READY_FOR_REVIEW''\<rparr>"

definition archived_packet :: "packet_row \<Rightarrow> packet_row" where
  "archived_packet p = p\<lparr>pkt_archive_storage_uri := Some ''uri'', pkt_archive_sha256 := Some ''abc'', pkt_archive_size_bytes := Some 3\<rparr>"

definition approved_packet :: "packet_row \<Rightarrow> packet_row" where
  "approved_packet p = p\<lparr>pkt_status := ''APPROVED'', pkt_reviewed_by_actor := Some ''ann'', pkt_approved_at := Some 1735732800000000\<rparr>"

lemma ex_pinned_fields:
  "pki_packet_id ex_pinned = 9" "pki_status ex_pinned = ''MATCHED''" "pki_document_id ex_pinned = Some 1" "pki_version_id ex_pinned = Some 4"
  "pki_document_sha256 ex_pinned = Some ''abc''" "pki_filename ex_pinned = Some ''01-bond.pdf''"
  by (simp_all add: ex_pinned_def item_row_def Let_def included_document_def is_included_def ex_matched_def candidate_of_def
      ex_bond_def ex_document_def ex_packet_catalog_def ex_bond_version_def)

lemma ex_fetch: "fetch_item st ex_packet_env ex_services (ex_with p its a) ex_pinned = Inr (''01-bond.pdf'', ''abc'')"
  by (simp add: fetch_item_def ex_pinned_fields Let_def ex_with_def ex_packet_db_def ex_packet_catalog_def governed_def
      ex_bond_def ex_document_def ex_bond_version_def ex_services_def pe_sha_def ex_packet_env_def lower_ascii_def lower_char_def)

lemma ex_archive:
  assumes "pkt_id p = 9" "pkt_status p = ''READY_FOR_REVIEW''" "pkt_manifest p \<noteq> []" "pkt_manifest_sha256 p = Some ''abc''"
  shows "\<exists>a'. generate_archive (ex_packet_settings fmt) ex_packet_env ex_services ex_reviewer 9 (ex_with p [ex_pinned] a) =
    Inr (archived_packet p, ex_with (archived_packet p) [ex_pinned] a')"
proof -
  have g: "get_packet (ex_with p [ex_pinned] a) 9 = Inr p" by (simp add: get_packet_def ex_with_def assms)
  have i: "archive_items (ex_with p [ex_pinned] a) 9 = [ex_pinned]"
    by (simp add: archive_items_def ex_with_def ex_pinned_fields)
  have s: "pe_sha ex_packet_env y = ''abc''" "zip_file ex_services z = ''zip''" "put_bytes ex_services k y = Inr ''uri''"
    "\<not> packet_include_cover_sheet (ex_packet_settings fmt)" "packet_max_total_bytes (ex_packet_settings fmt) = 100000" for y z k
    by (simp_all add: pe_sha_def ex_packet_env_def ex_services_def ex_packet_settings_def)
  have x: "pk_packets (ex_with p [ex_pinned] a) = [p]" "(ex_with p [ex_pinned] a)\<lparr>pk_packets := [q], pk_audits := w\<rparr> = ex_with q [ex_pinned] w" for q w
    by (simp_all add: ex_with_def)
  show ?thesis
    by (simp add: generate_archive_def g i assms ex_fetch s x Let_def build_archive_def save_packet_def packet_audit_def put_row_def
        archived_packet_def str_truthy_def) blast
qed

lemma ex_approve:
  assumes "pkt_id p = 9" "pkt_status p \<notin> {''APPROVED'', ''SUPERSEDED'', ''DRAFT''}" "pkt_missing_items p = []" "pkt_validation_results p = []"
    "fmt = ''ZIP'' \<longrightarrow> str_truthy (pkt_archive_storage_uri p) \<and> str_truthy (pkt_archive_sha256 p)"
  shows "\<exists>a'. approve_packet (ex_packet_settings fmt) ex_packet_env ex_reviewer 9 (ex_with p its a) =
    Inr (approved_packet p, ex_with (approved_packet p) (map (include_item 9) its) a')"
proof -
  have g: "get_packet (ex_with p its a) 9 = Inr p" by (simp add: get_packet_def ex_with_def assms)
  have x: "pk_packets (ex_with p its a) = [p]" "pk_items (ex_with p its a) = its"
    "(ex_with p its a)\<lparr>pk_packets := [q], pk_items := j, pk_audits := w\<rparr> = ex_with q j w" for q j w
    by (simp_all add: ex_with_def)
  have e: "pe_now ex_packet_env = 1735732800000000" "actor_id ex_reviewer = ''ann''" "packet_archive_format (ex_packet_settings fmt) = fmt"
    by (simp_all add: pe_now_def ex_packet_env_def ex_reviewer_def ex_packet_settings_def)
  show ?thesis using assms(2,5)
    by (simp add: approve_packet_def g assms e x Let_def save_packet_def packet_audit_def put_row_def approved_packet_def
        supersede_previous_def IMMUTABLE_PACKET_STATUSES_def) blast
qed

lemma manifest_nonempty: "build_manifest h inc om mi t \<noteq> []"
  by (simp add: build_manifest_def)

text \<open>The packet of the example is created, built, archived and approved.\<close>

lemma ex_run:
  obtains m a0 a1 a2 a3 where
    "create_packet (ex_packet_settings ''ZIP'') ex_packet_env ex_reviewer 1 (Some 5) ex_packet_db = Inr (ex_packet, ex_with ex_packet [] a0)"
    "build_packet (ex_packet_settings ''ZIP'') ex_packet_env ex_reviewer 9 [] (ex_with ex_packet [] a0) =
       Inr (built_packet ex_packet m, ex_with (built_packet ex_packet m) [ex_pinned] a1)"
    "generate_archive (ex_packet_settings ''ZIP'') ex_packet_env ex_services ex_reviewer 9 (ex_with (built_packet ex_packet m) [ex_pinned] a1) =
       Inr (archived_packet (built_packet ex_packet m), ex_with (archived_packet (built_packet ex_packet m)) [ex_pinned] a2)"
    "approve_packet (ex_packet_settings ''ZIP'') ex_packet_env ex_reviewer 9 (ex_with (archived_packet (built_packet ex_packet m)) [ex_pinned] a2) =
       Inr (approved_packet (archived_packet (built_packet ex_packet m)),
            ex_with (approved_packet (archived_packet (built_packet ex_packet m))) (map (include_item 9) [ex_pinned]) a3)"
proof -
  obtain a0 where c: "create_packet (ex_packet_settings ''ZIP'') ex_packet_env ex_reviewer 1 (Some 5) ex_packet_db =
      Inr (ex_packet, ex_with ex_packet [] a0)" using ex_create by blast
  have "pkt_id ex_packet = 9" "pkt_case_id ex_packet = 1" "pkt_template_id ex_packet = Some 5" "pkt_status ex_packet \<notin> {''APPROVED'', ''SUPERSEDED''}"
    by (simp_all add: ex_packet_def)
  from ex_build [OF this, of "''ZIP''" "[]" a0] obtain m a1 where
    b: "build_packet (ex_packet_settings ''ZIP'') ex_packet_env ex_reviewer 9 [] (ex_with ex_packet [] a0) =
       Inr (built_packet ex_packet m, ex_with (built_packet ex_packet m) [ex_pinned] a1)"
    by (auto simp: built_packet_def)
  have "m \<noteq> []" using b by (cases rule: build_cases) (auto simp: built_packet_def manifest_nonempty)
  then obtain a2 where g: "generate_archive (ex_packet_settings ''ZIP'') ex_packet_env ex_services ex_reviewer 9 (ex_with (built_packet ex_packet m) [ex_pinned] a1) =
       Inr (archived_packet (built_packet ex_packet m), ex_with (archived_packet (built_packet ex_packet m)) [ex_pinned] a2)"
    using ex_archive [of "built_packet ex_packet m" "''ZIP''" a1] by (auto simp: built_packet_def ex_packet_def)
  obtain a3 where "approve_packet (ex_packet_settings ''ZIP'') ex_packet_env ex_reviewer 9 (ex_with (archived_packet (built_packet ex_packet m)) [ex_pinned] a2) =
       Inr (approved_packet (archived_packet (built_packet ex_packet m)),
            ex_with (approved_packet (archived_packet (built_packet ex_packet m))) (map (include_item 9) [ex_pinned]) a3)"
    using ex_approve [of "archived_packet (built_packet ex_packet m)" "''ZIP''" "[ex_pinned]" a2]
    by (auto simp: built_packet_def archived_packet_def ex_packet_def str_truthy_def)
  then show thesis using that [OF c b g] by blast
qed

subsection \<open>Selection\<close>

lemma match_all_results:
  "match_all lib rs cands ctx = Inr results \<Longrightarrow> r \<in> set results \<Longrightarrow> \<exists>q \<in> set rs. match_item lib q cands ctx = Inr r"
  using mapE_Inr_set [of "\<lambda>q. match_item lib q cands ctx" "sort_key (\<lambda>q. (rq_sort_order q, rq_item_key q)) rs" results r]
  by (simp add: match_all_def)

lemma match_all_length: "match_all lib rs cands ctx = Inr results \<Longrightarrow> length results = length rs"
  unfolding match_all_def by (drule mapE_Inr_length) simp

lemma list_all2_right: "list_all2 P xs ys \<Longrightarrow> y \<in> set ys \<Longrightarrow> \<exists>x \<in> set xs. P x y"
  by (induction rule: list_all2_induct) auto

lemma match_item_keys: "match_item lib q cands ctx = Inr r \<Longrightarrow> mr_item_key r = rq_item_key q \<and> mr_required r = rq_required q"
  by (auto simp: match_item_def Let_def err_simps split: if_splits)



text \<open>Matching an item raises exactly when its maximum age is not a number and some candidate is
  considered for it, or when the eligible candidates of an item ordered by approval time contain one with
  and one without an approval time, whose sort keys Python cannot compare.\<close>

theorem match_item_fails_iff:
  "match_item lib r cands ctx = Inl e \<longleftrightarrow>
     strategy lib r \<noteq> ''MANUAL_ONLY'' \<and>
     ((\<exists>c. c \<in> set cands \<and> pinned lib r c) \<and> max_age_days r = Inl e \<or>
      (\<exists>m. max_age_days r = Inr m) \<and> e = TypeError \<and> strategy lib r \<notin> {''LONGEST_VALIDITY'', ''LATEST_EFFECTIVE''} \<and>
        (\<exists>c. c \<in> set cands \<and> pinned lib r c \<and> fits lib r ctx c \<and> cand_approved_at c = None) \<and>
        (\<exists>c. c \<in> set cands \<and> pinned lib r c \<and> fits lib r ctx c \<and> cand_approved_at c \<noteq> None))"
  unfolding match_item_Inl undecided_def by auto

subsection \<open>Composition with the catalogue\<close>

text \<open>Over a catalogue in a reachable state the matcher never compares an approved document without
  an approval time: an item can fail only on its own maximum age.\<close>

theorem catalogued_documents_always_match:
  assumes "reach doc_init doc_step cat" "match_item lib r (packet_candidates cat) ctx = Inl e"
  shows "max_age_days r = Inl e"
proof (rule ccontr)
  assume "max_age_days r \<noteq> Inl e"
  then obtain c where c: "c \<in> set (packet_candidates cat)" "fits lib r ctx c" "cand_approved_at c = None"
    using assms(2) by (auto simp: match_item_Inl undecided_def)
  then obtain d where d: "d \<in> set (documents cat)" "c = candidate_of cat d" by (auto simp: packet_candidates_def)
  have "catalog_ok cat" by (rule doc_sys.reach_inv [OF assms(1)])
  then have "doc_ok d" using d(1) by (simp add: catalog_ok_def list_all_iff)
  moreover have "approval_status d = ''APPROVED''" "doc_approved_at d = None"
    using c(2,3) by (simp_all add: fits_def d(2) candidate_of_def Let_def)
  ultimately show False by (simp add: doc_ok_def)
qed

theorem catalogued_documents_always_match_witness:
  "\<exists>e. match_item ex_lib ((requirement_of ex_template_item)\<lparr>rq_selection_policy := [(''max_age_days'', JStr ''soon'')]\<rparr>)
     (packet_candidates ex_doc_approved) (packet_context ex_packet_env ex_packet_db ex_packet_case (''acme'', ''Acme Inc'')) = Inl e \<and>
   max_age_days ((requirement_of ex_template_item)\<lparr>rq_selection_policy := [(''max_age_days'', JStr ''soon'')]\<rparr>) = Inl e"
proof -
  let ?r = "(requirement_of ex_template_item)\<lparr>rq_selection_policy := [(''max_age_days'', JStr ''soon'')]\<rparr>"
  have m: "max_age_days ?r = Inl ValueError" by code_simp
  have s: "strategy ex_lib ?r \<noteq> ''MANUAL_ONLY''" by code_simp
  have p: "list_ex (pinned ex_lib ?r) (packet_candidates ex_doc_approved)" by code_simp
  have "match_item ex_lib ?r (packet_candidates ex_doc_approved)
      (packet_context ex_packet_env ex_packet_db ex_packet_case (''acme'', ''Acme Inc'')) = Inl ValueError"
    using m s p by (auto simp: match_item_Inl list_ex_iff)
  then show ?thesis using catalogued_documents_always_match [OF ex_doc_approved_reach] by blast
qed

subsection \<open>Built packets\<close>

lemma item_row_document:
  "pki_document_id (item_row i who ov r f) = map_option cand_document_id (included_document r)"
  "pki_document_sha256 (item_row i who ov r f) = (case included_document r of None \<Rightarrow> None | Some c \<Rightarrow> cand_content_sha256 c)"
  "pki_version_id (item_row i who ov r f) = (case included_document r of None \<Rightarrow> None | Some c \<Rightarrow> cand_document_version_id c)"
  "pki_item_key (item_row i who ov r f) = mr_item_key r"
  by (simp_all add: item_row_def Let_def)

lemma candidate_fields:
  "cand_document_id (candidate_of cat d) = doc_id d" "cand_content_sha256 (candidate_of cat d) = Some (doc_content_sha256 d)"
  "cand_legal_entity (candidate_of cat d) = doc_legal_entity d" "cand_approval_status (candidate_of cat d) = approval_status d"
  "cand_lifecycle_status (candidate_of cat d) = lifecycle_status d" "cand_expiry_date (candidate_of cat d) = expiry_date d"
  by (simp_all add: candidate_of_def Let_def)

lemma candidate_version: "cand_document_version_id (candidate_of cat d) = Some v \<Longrightarrow> current_version_id d = Some v"
  by (auto simp: candidate_of_def Let_def split: option.splits dest!: get_row_SomeD)

lemma built_items:
  assumes "build_packet st env actor i ov db = Inr (p', db')" "it \<in> set (pk_items db')" "pki_packet_id it = i" "pki_document_id it = Some d"
  shows "\<exists>c entity r doc. pk_cases db (pkt_case_id p') = Some c \<and> pk_entities db (case_legal_entity_id c) = Some entity \<and>
    r \<in> set (packet_requirements db p' ov) \<and> rq_item_key r = pki_item_key it \<and>
    doc \<in> set (documents (pk_catalog db)) \<and> doc_id doc = d \<and>
    fits (pe_lib env) r (packet_context env db c entity) (candidate_of (pk_catalog db) doc) \<and>
    pki_document_sha256 it = Some (doc_content_sha256 doc) \<and> pki_version_id it = current_version_id doc"
  using assms(1)
proof (cases rule: build_cases)
  case (1 p c entity results a)
  have ids: "pkt_id p = i" using 1(1) get_row_SomeD by metis
  have same: "pkt_case_id p' = pkt_case_id p" "packet_requirements db p' ov = packet_requirements db p ov"
    by (subst 1(8), simp add: packet_requirements_def)+
  have all: "list_all2 (item_for (pkt_id p) (actor_id actor) ov) results (as_items a)"
    using assemble_items [of "pkt_id p" "actor_id actor" ov 1 results empty_assembly] 1(6) by (auto simp: empty_assembly_def)
  have "it \<in> set (as_items a)" using assms(2,3) ids by (auto simp: 1(11))
  from list_all2_right [OF all this] obtain r f where r: "r \<in> set results" "it = item_row (pkt_id p) (actor_id actor) ov r f"
    by (auto simp: item_for_def)
  obtain cand where cand: "included_document r = Some cand" "cand_document_id cand = d"
    using assms(4) by (auto simp: r(2) item_row_document)
  then have md: "mr_document r = Some cand" by (simp add: included_document_def split: if_splits)
  obtain q where q: "q \<in> set (packet_requirements db p ov)"
    "match_item (pe_lib env) q (packet_candidates (pk_catalog db)) (packet_context env db c entity) = Inr r"
    using match_all_results [OF 1(5) r(1)] by blast
  have fit: "cand \<in> set (packet_candidates (pk_catalog db))" "fits (pe_lib env) q (packet_context env db c entity) cand"
    using match_item_exact [OF q(2)] md by simp_all
  then obtain doc where doc: "doc \<in> set (documents (pk_catalog db))" "cand = candidate_of (pk_catalog db) doc"
    by (auto simp: packet_candidates_def)
  have key: "rq_item_key q = pki_item_key it" using match_item_keys [OF q(2)] by (simp add: r(2) item_row_document)
  obtain v where v: "cand_document_version_id cand = Some v" using fit(2) by (auto simp: fits_def)
  have "pki_version_id it = current_version_id doc"
    using v candidate_version [of "pk_catalog db" doc v] by (simp add: r(2) item_row_document cand(1) doc(2))
  then show ?thesis
    using 1(3,4) q(1) fit(2) doc cand key unfolding same
    by (intro exI [of _ c] exI [of _ entity] exI [of _ q] exI [of _ doc]) (simp add: r(2) item_row_document candidate_fields)
qed



subsection \<open>Reachable packets\<close>

lemma ex_packet_reach:
  obtains m a1 a2 a3 where
    "packet_step (ex_packet_settings ''ZIP'') (pe_sha ex_packet_env) (pe_repr ex_packet_env)
       (ex_with (archived_packet (built_packet ex_packet m)) [ex_pinned] a2)
       (ex_with (approved_packet (archived_packet (built_packet ex_packet m))) (map (include_item 9) [ex_pinned]) a3)"
    "reach packet_init (packet_step (ex_packet_settings ''ZIP'') (pe_sha ex_packet_env) (pe_repr ex_packet_env))
       (ex_with (approved_packet (archived_packet (built_packet ex_packet m))) (map (include_item 9) [ex_pinned]) a3)"
proof -
  let ?S = "packet_step (ex_packet_settings ''ZIP'') (pe_sha ex_packet_env) (pe_repr ex_packet_env)"
  obtain m a0 a1 a2 a3 where r:
    "create_packet (ex_packet_settings ''ZIP'') ex_packet_env ex_reviewer 1 (Some 5) ex_packet_db = Inr (ex_packet, ex_with ex_packet [] a0)"
    "build_packet (ex_packet_settings ''ZIP'') ex_packet_env ex_reviewer 9 [] (ex_with ex_packet [] a0) =
       Inr (built_packet ex_packet m, ex_with (built_packet ex_packet m) [ex_pinned] a1)"
    "generate_archive (ex_packet_settings ''ZIP'') ex_packet_env ex_services ex_reviewer 9 (ex_with (built_packet ex_packet m) [ex_pinned] a1) =
       Inr (archived_packet (built_packet ex_packet m), ex_with (archived_packet (built_packet ex_packet m)) [ex_pinned] a2)"
    "approve_packet (ex_packet_settings ''ZIP'') ex_packet_env ex_reviewer 9 (ex_with (archived_packet (built_packet ex_packet m)) [ex_pinned] a2) =
       Inr (approved_packet (archived_packet (built_packet ex_packet m)),
            ex_with (approved_packet (archived_packet (built_packet ex_packet m))) (map (include_item 9) [ex_pinned]) a3)"
    by (rule ex_run)
  have "reach packet_init ?S ex_packet_db" by (rule reach_init) (simp add: packet_init_def ex_packet_db_def)
  moreover have "?S ex_packet_db (ex_with ex_packet [] a0)" by (rule step_create) (rule r(1))
  ultimately have 1: "reach packet_init ?S (ex_with ex_packet [] a0)" by (rule reach_step)
  have "?S (ex_with ex_packet [] a0) (ex_with (built_packet ex_packet m) [ex_pinned] a1)"
    by (rule step_build) (rule refl, rule refl, rule r(2))
  with 1 have 2: "reach packet_init ?S (ex_with (built_packet ex_packet m) [ex_pinned] a1)" by (rule reach_step)
  have "?S (ex_with (built_packet ex_packet m) [ex_pinned] a1) (ex_with (archived_packet (built_packet ex_packet m)) [ex_pinned] a2)"
    by (rule step_archive) (rule refl, rule r(3))
  with 2 have 3: "reach packet_init ?S (ex_with (archived_packet (built_packet ex_packet m)) [ex_pinned] a2)" by (rule reach_step)
  have 4: "?S (ex_with (archived_packet (built_packet ex_packet m)) [ex_pinned] a2)
      (ex_with (approved_packet (archived_packet (built_packet ex_packet m))) (map (include_item 9) [ex_pinned]) a3)"
    by (rule step_approve) (rule r(4))
  from 3 4 have "reach packet_init ?S
      (ex_with (approved_packet (archived_packet (built_packet ex_packet m))) (map (include_item 9) [ex_pinned]) a3)" by (rule reach_step)
  with 4 show thesis by (rule that)
qed

text \<open>C12. In every reachable state a case has at most one approved packet and no two packets of the same
  version; an approved or superseded packet has no missing item and no blocking finding, and with ZIP archives
  enabled has its archive; the recorded digest is the digest of the recorded manifest.\<close>

theorem packet_reachable_invariant:
  assumes "reach packet_init (packet_step st sha repr) db" "p \<in> set (pk_packets db)"
  shows "(q \<in> set (pk_packets db) \<and> pkt_case_id q = pkt_case_id p \<and>
       (pkt_status p = ''APPROVED'' \<and> pkt_status q = ''APPROVED'' \<or> pkt_version q = pkt_version p) \<longrightarrow> q = p) \<and>
    (pkt_status p \<in> {''APPROVED'', ''SUPERSEDED''} \<longrightarrow> pkt_missing_items p = [] \<and>
       list_all (\<lambda>v. code_of v \<notin> set BLOCKING_CODES) (pkt_validation_results p) \<and>
       (packet_archive_format st = ''ZIP'' \<longrightarrow> pkt_archive_sha256 p \<noteq> None)) \<and>
    (pkt_manifest_sha256 p = None \<and> pkt_manifest p = [] \<or> pkt_manifest_sha256 p = Some (manifest_sha256 repr sha (pkt_manifest p)))"
proof -
  have ok: "packets_ok st sha repr db" by (rule packet_sys.reach_inv [OF assms(1)])
  have row: "row_ok st sha repr p" using ok assms(2) by (simp add: packets_ok_def list_all_iff)
  have "q = p" if q: "q \<in> set (pk_packets db)" "pkt_case_id q = pkt_case_id p"
    and or: "pkt_status p = ''APPROVED'' \<and> pkt_status q = ''APPROVED'' \<or> pkt_version q = pkt_version p"
    using or
  proof
    assume "pkt_status p = ''APPROVED'' \<and> pkt_status q = ''APPROVED''"
    then have "pkt_id q = pkt_id p" using ok q assms(2) unfolding packets_ok_def one_approved_def by blast
    moreover have "inj_on pkt_id (set (pk_packets db))" using ok by (simp add: packets_ok_def distinct_map)
    ultimately show "q = p" using q(1) assms(2) by (meson inj_onD)
  next
    assume v: "pkt_version q = pkt_version p"
    have "inj_on (\<lambda>p. (pkt_case_id p, pkt_version p)) (set (pk_packets db))" using ok by (simp add: packets_ok_def distinct_map)
    from inj_onD [OF this _ q(1) assms(2)] v q(2) show "q = p" by simp
  qed
  then show ?thesis using row by (auto simp: row_ok_def immutable_def IMMUTABLE_PACKET_STATUSES_def)
qed

theorem packet_reachable_invariant_witness:
  "\<exists>p db. reach packet_init (packet_step (ex_packet_settings ''ZIP'') (pe_sha ex_packet_env) (pe_repr ex_packet_env)) db \<and>
     pk_packets db = [p] \<and> pkt_status p = ''APPROVED'' \<and> pkt_missing_items p = [] \<and> pkt_archive_sha256 p \<noteq> None"
proof -
  obtain m a3 where r: "reach packet_init (packet_step (ex_packet_settings ''ZIP'') (pe_sha ex_packet_env) (pe_repr ex_packet_env))
       (ex_with (approved_packet (archived_packet (built_packet ex_packet m))) (map (include_item 9) [ex_pinned]) a3)"
    by (rule ex_packet_reach)
  let ?p = "approved_packet (archived_packet (built_packet ex_packet m))"
  have p: "?p \<in> set (pk_packets (ex_with ?p (map (include_item 9) [ex_pinned]) a3))"
    "pk_packets (ex_with ?p (map (include_item 9) [ex_pinned]) a3) = [?p]" "pkt_status ?p = ''APPROVED''"
    by (simp_all add: ex_with_def approved_packet_def)
  show ?thesis using packet_reachable_invariant [OF r p(1)] r p(2,3) by (auto simp: ex_packet_settings_def)
qed

text \<open>C13. An approved packet is frozen: whatever calls follow, by this service or by others, it stays
  approved or superseded, with the case, version, manifest, digest, findings and approval time it had, and its
  items keep the documents, versions, hashes and file names they pinned.\<close>

theorem approved_packet_is_frozen:
  assumes "(packet_step st sha repr)\<^sup>*\<^sup>* db db'" "get_row pkt_id (pk_packets db) i = Some p"
    and "pkt_status p \<in> {''APPROVED'', ''SUPERSEDED''}"
  shows "\<exists>p'. get_row pkt_id (pk_packets db') i = Some p' \<and> pkt_status p' \<in> {''APPROVED'', ''SUPERSEDED''} \<and>
    snapshot p' = snapshot p \<and> pins db' i = pins db i"
  using run_frozen [OF assms(1,2)] assms(3) by (auto simp: frozen_def immutable_def IMMUTABLE_PACKET_STATUSES_def)

theorem approved_packet_is_frozen_witness:
  "\<exists>m a a' p'. let p = approved_packet (archived_packet (built_packet ex_packet m));
      db = ex_with p [ex_pinned] a; db' = db\<lparr>pk_catalog := ex_doc_db\<rparr> in
     (packet_step (ex_packet_settings ''ZIP'') (pe_sha ex_packet_env) (pe_repr ex_packet_env))\<^sup>*\<^sup>* db db' \<and>
     get_row pkt_id (pk_packets db') 9 = Some p' \<and> snapshot p' = snapshot p \<and> pins db' 9 = pins db 9"
proof -
  let ?p = "approved_packet (archived_packet (built_packet ex_packet []))"
  let ?db = "ex_with ?p [ex_pinned] []"
  let ?db' = "?db\<lparr>pk_catalog := ex_doc_db\<rparr>"
  have s: "(packet_step (ex_packet_settings ''ZIP'') (pe_sha ex_packet_env) (pe_repr ex_packet_env))\<^sup>*\<^sup>* ?db ?db'"
    by (rule r_into_rtranclp, rule step_world) simp_all
  have g: "get_row pkt_id (pk_packets ?db) 9 = Some ?p" "pkt_status ?p \<in> {''APPROVED'', ''SUPERSEDED''}"
    by (simp_all add: ex_with_def approved_packet_def archived_packet_def built_packet_def ex_packet_def)
  show ?thesis using approved_packet_is_frozen [OF s g] s unfolding Let_def by blast
qed

subsection \<open>Archives\<close>

definition fetched :: "packet_env \<Rightarrow> packet_db \<Rightarrow> packet_item \<Rightarrow> string \<Rightarrow> string \<Rightarrow> bool" where
  "fetched env db it name content \<longleftrightarrow> pki_filename it = Some name \<and>
     (\<exists>doc ver h. pki_document_id it = Some (doc_id doc) \<and> pki_version_id it = Some (ver_id ver) \<and>
        doc \<in> set (documents (pk_catalog db)) \<and> ver \<in> set (versions (pk_catalog db)) \<and> ver_document_id ver = doc_id doc \<and>
        lifecycle_status doc = ''ACTIVE'' \<and> approval_status doc = ''APPROVED'' \<and> storage_status ver = ''AVAILABLE'' \<and>
        pki_document_sha256 it = Some h \<and> pe_sha env content = lower_ascii h \<and> pe_sha env content = lower_ascii (ver_content_sha256 ver))"

lemma fetch_item_fetched:
  assumes "fetch_item st env svc db it = Inr (name, content)"
  shows "fetched env db it name content"
proof -
  obtain di vi where ids: "pki_document_id it = Some di" "pki_version_id it = Some vi"
    using assms by (auto simp: fetch_item_def split: option.splits)
  let ?d = "get_row doc_id (documents (pk_catalog db)) di" and ?v = "get_row ver_id (versions (pk_catalog db)) vi"
  have "governed ?d ?v" using assms by (auto simp: fetch_item_def ids Let_def err_simps)
  then obtain doc ver where dv: "?d = Some doc" "?v = Some ver" "ver_document_id ver = doc_id doc"
    "lifecycle_status doc = ''ACTIVE''" "approval_status doc = ''APPROVED''" "storage_status ver = ''AVAILABLE''"
    by (auto simp: governed_def split: option.splits)
  obtain h where h: "pki_document_sha256 it = Some h" "pe_sha env content = lower_ascii h"
    "pe_sha env content = lower_ascii (ver_content_sha256 ver)" "pki_filename it = Some name"
    using assms by (cases "pki_filename it"; cases "the (pki_filename it)")
      (auto simp: fetch_item_def ids Let_def err_simps dv lower_ascii_def split: option.splits)
  have "doc_id doc = di" "doc \<in> set (documents (pk_catalog db))" "ver_id ver = vi" "ver \<in> set (versions (pk_catalog db))"
    using get_row_SomeD [OF dv(1)] get_row_SomeD [OF dv(2)] by simp_all
  then show ?thesis using ids dv(3-6) h unfolding fetched_def by blast
qed

lemma fetch_files_sound:
  "fetch_files st env svc db its files0 = Inr files \<Longrightarrow> (n, c) \<in> set files \<Longrightarrow>
     (n, c) \<in> set files0 \<or> (\<exists>it \<in> set its. fetched env db it n c)"
proof (induction its arbitrary: files0)
  case (Cons it its)
  then obtain n0 c0 where f: "fetch_item st env svc db it = Inr (n0, c0)"
    and r: "fetch_files st env svc db its (dict_set files0 n0 c0) = Inr files" by (auto simp: err_simps)
  have "(n, c) \<in> set (dict_set files0 n0 c0) \<Longrightarrow> (n, c) \<in> set files0 \<or> (n = n0 \<and> c = c0)"
    by (induction files0 n0 c0 rule: dict_set.induct) (auto split: if_splits)
  then show ?case using Cons.IH [OF r Cons.prems(2)] fetch_item_fetched [OF f] by auto
qed simp

lemma fetch_files_complete:
  "fetch_files st env svc db its files0 = Inr files \<Longrightarrow>
     fst ` set files = fst ` set files0 \<union> (\<lambda>it. the (pki_filename it)) ` set its"
proof (induction its arbitrary: files0)
  case (Cons it its)
  then obtain n0 c0 where f: "fetch_item st env svc db it = Inr (n0, c0)"
    and r: "fetch_files st env svc db its (dict_set files0 n0 c0) = Inr files" by (auto simp: err_simps)
  then show ?case using Cons.IH [OF r] fetch_item_fetched [OF f] by (auto simp: fetched_def)
qed simp

lemma archive_items_set:
  "set (archive_items db i) = {it \<in> set (pk_items db). pki_packet_id it = i \<and> pki_status it \<in> {''MATCHED'', ''INCLUDED''}}"
  by (auto simp: archive_items_def)

text \<open>C15. When the worker has generated an archive, its files are those of the items included in the packet
  and no others; each holds bytes whose hash is the one the item pinned and the one of the stored version, and
  its document was still approved, active and available.\<close>

theorem archive_holds_pinned_bytes:
  assumes "generate_archive st env svc actor i db = Inr (p', db')"
  shows "\<exists>files cover. pkt_archive_sha256 p' = Some (pe_sha env (zip_file svc (archive_entries (pe_repr env) (pkt_manifest p') files cover True))) \<and>
    fst ` set files = (\<lambda>it. the (pki_filename it)) ` set (archive_items db i) \<and>
    (\<forall>n c. (n, c) \<in> set files \<longrightarrow> (\<exists>it. it \<in> set (archive_items db i) \<and> fetched env db it n c))"
  using assms
proof (cases rule: archive_cases)
  case (1 p files cover uri)
  have i: "pkt_id p = i" using 1(1) get_row_SomeD by metis
  have "pkt_manifest p' = pkt_manifest p" "pkt_archive_sha256 p' =
      Some (pe_sha env (zip_file svc (archive_entries (pe_repr env) (pkt_manifest p) files cover True)))" by (simp_all add: 1(5))
  moreover have "fst ` set files = (\<lambda>it. the (pki_filename it)) ` set (archive_items db i)"
    using fetch_files_complete [OF 1(4)] by (simp add: i)
  moreover have "\<exists>it. it \<in> set (archive_items db i) \<and> fetched env db it n c" if "(n, c) \<in> set files" for n c
    using fetch_files_sound [OF 1(4) that] by (auto simp: i)
  ultimately show ?thesis by (intro exI [of _ files] exI [of _ cover]) simp
qed

theorem archive_holds_pinned_bytes_witness:
  "\<exists>db p' db' files cover. generate_archive (ex_packet_settings ''ZIP'') ex_packet_env ex_services ex_reviewer 9 db = Inr (p', db') \<and>
     pkt_archive_sha256 p' = Some (pe_sha ex_packet_env (zip_file ex_services
       (archive_entries (pe_repr ex_packet_env) (pkt_manifest p') files cover True))) \<and>
     fst ` set files = {''01-bond.pdf''}"
proof -
  obtain m a1 a2 where g: "generate_archive (ex_packet_settings ''ZIP'') ex_packet_env ex_services ex_reviewer 9
      (ex_with (built_packet ex_packet m) [ex_pinned] a1) =
       Inr (archived_packet (built_packet ex_packet m), ex_with (archived_packet (built_packet ex_packet m)) [ex_pinned] a2)"
    by (rule ex_run)
  have n: "(\<lambda>it. the (pki_filename it)) ` set (archive_items (ex_with (built_packet ex_packet m) [ex_pinned] a1) 9) = {''01-bond.pdf''}"
    by (simp add: archive_items_def ex_with_def ex_pinned_fields)
  obtain files cover where f: "pkt_archive_sha256 (archived_packet (built_packet ex_packet m)) = Some (pe_sha ex_packet_env (zip_file ex_services
       (archive_entries (pe_repr ex_packet_env) (pkt_manifest (archived_packet (built_packet ex_packet m))) files cover True)))"
    "fst ` set files = {''01-bond.pdf''}"
    using archive_holds_pinned_bytes [OF g] unfolding n by (elim exE conjE) (rule that)
  show ?thesis by (intro exI conjI) (rule g f)+
qed

text \<open>Rebuilding a packet keeps the archive of the earlier build: when the rebuilt packet is ready, the
  approval accepts that archive, so that a packet can be approved with an archive that was generated from
  another manifest.\<close>

theorem rebuilt_packet_is_approved_with_old_archive:
  assumes "build_packet st env actor i ov db = Inr (p', db')" "get_row pkt_id (pk_packets db) i = Some p"
    and "str_truthy (pkt_archive_storage_uri p)" "str_truthy (pkt_archive_sha256 p)"
    and "pkt_status p' = ''READY_FOR_REVIEW''" "list_all (\<lambda>v. code_of v \<notin> set BLOCKING_CODES) (pkt_validation_results p')"
  shows "\<exists>p'' db''. approve_packet st env' actor' i db' = Inr (p'', db'') \<and> pkt_status p'' = ''APPROVED'' \<and>
    pkt_manifest p'' = pkt_manifest p' \<and> pkt_archive_sha256 p'' = pkt_archive_sha256 p \<and>
    pkt_archive_storage_uri p'' = pkt_archive_storage_uri p"
  using assms(1)
proof (cases rule: build_cases)
  case (1 q c entity results a)
  have q: "q = p" using 1(1) assms(2) by simp
  have id: "pkt_id p = i" using assms(2) get_row_SomeD by metis
  have f: "pkt_id p' = i" "pkt_archive_storage_uri p' = pkt_archive_storage_uri p" "pkt_archive_sha256 p' = pkt_archive_sha256 p"
    "pkt_missing_items p' = map omitted_payload (as_missing a)"
    "pkt_status p' = (if as_missing a \<noteq> [] \<or> list_ex packet_code (as_validations a @ limit_validations st a)
       then ''MISSING_ITEMS'' else ''READY_FOR_REVIEW'')"
    by (subst 1(8), simp add: q id)+
  have "as_missing a = []" using assms(5) f(5) by (simp split: if_splits)
  then have miss: "pkt_missing_items p' = []" by (simp add: f(4))
  have "get_packet db' i = Inr p'" using assms(2) f(1) by (simp add: get_packet_Inr 1(10) get_put_row)
  then show ?thesis
    using assms(3-6) f(2,3) miss by (simp add: approve_packet_def Let_def IMMUTABLE_PACKET_STATUSES_def)
qed

theorem rebuilt_packet_is_approved_with_old_archive_witness:
  "\<exists>db p' db' p'' db''. build_packet (ex_packet_settings ''ZIP'') ex_packet_env ex_reviewer 9 [] db = Inr (p', db') \<and>
     approve_packet (ex_packet_settings ''ZIP'') ex_packet_env ex_reviewer 9 db' = Inr (p'', db'') \<and>
     pkt_archive_sha256 p'' = Some ''stale'' \<and> pkt_manifest p'' = pkt_manifest p'"
proof -
  let ?p = "ex_packet\<lparr>pkt_archive_storage_uri := Some ''old'', pkt_archive_sha256 := Some ''stale''\<rparr>"
  have "pkt_id ?p = 9" "pkt_case_id ?p = 1" "pkt_template_id ?p = Some 5" "pkt_status ?p \<notin> {''APPROVED'', ''SUPERSEDED''}"
    by (simp_all add: ex_packet_def)
  from ex_build [OF this, of "''ZIP''" "[]" "[]"] obtain a m where
    b: "build_packet (ex_packet_settings ''ZIP'') ex_packet_env ex_reviewer 9 [] (ex_with ?p [] []) =
       Inr (built_packet ?p m, ex_with (built_packet ?p m) [ex_pinned] a)" by (auto simp: built_packet_def)
  have g: "get_row pkt_id (pk_packets (ex_with ?p [] [])) 9 = Some ?p" by (simp add: ex_with_def ex_packet_def)
  have h: "str_truthy (pkt_archive_storage_uri ?p)" "str_truthy (pkt_archive_sha256 ?p)" "pkt_archive_sha256 ?p = Some ''stale''"
    by (simp_all add: str_truthy_def)
  have r: "pkt_status (built_packet ?p m) = ''READY_FOR_REVIEW''"
    "list_all (\<lambda>v. code_of v \<notin> set BLOCKING_CODES) (pkt_validation_results (built_packet ?p m))"
    by (simp_all add: built_packet_def)
  show ?thesis using rebuilt_packet_is_approved_with_old_archive [OF b g h(1,2) r] b unfolding h(3) by blast
qed

text \<open>
  A packet that was rejected before it was ever built can be approved when archives are disabled, with an
  empty manifest: only the status \<^verbatim>\<open>DRAFT\<close> is refused.
\<close>

lemma rejected_draft_can_be_approved:
  assumes "create_packet st env actor cid t db = Inr (p, db1)" "packet_archive_format st \<noteq> ''ZIP''"
  shows "\<exists>q db2 r db3. reject_packet actor (pkt_id p) reason db1 = Inr (q, db2) \<and>
    approve_packet st env actor (pkt_id p) db2 = Inr (r, db3) \<and> pkt_status r = ''APPROVED'' \<and> pkt_manifest r = []"
proof -
  have e: "pk_packets db1 = pk_packets db @ [p]" "pkt_id p \<notin> pkt_id ` set (pk_packets db)" "pkt_status p = ''DRAFT''" "pkt_manifest p = []"
    using create_effect [OF assms(1)] by blast+
  have f: "pkt_missing_items p = []" "pkt_validation_results p = []"
    using assms(1) by (auto simp: create_packet_def Let_def err_simps split: option.splits)
  have g: "get_packet db1 (pkt_id p) = Inr p"
    using e(1,2) by (simp add: get_packet_def get_row_append get_row_None_iff [THEN iffD2])
  let ?q = "p\<lparr>pkt_status := ''REJECTED'', pkt_rejection_reason := Some (take 1000 reason), pkt_reviewed_by_actor := Some (actor_id actor)\<rparr>"
  have r: "reject_packet actor (pkt_id p) reason db1 = Inr (?q, save_packet ?q db1)"
    using e(3) by (simp add: reject_packet_def g IMMUTABLE_PACKET_STATUSES_def Let_def)
  have "get_packet (save_packet ?q db1) (pkt_id p) = Inr ?q"
    using g by (simp add: get_packet_Inr get_put_row)
  then show ?thesis using r assms(2) e(4) f by (simp add: approve_packet_def Let_def IMMUTABLE_PACKET_STATUSES_def)
qed

end
