(* ===== verification/Information_Scoping.thy ===== *)
theory Information_Scoping
  imports Py_Date Py_Float Prelude
begin

text \<open>
  Scope and freshness of reusable answers (\<^verbatim>\<open>app/information_registry/scoping.py\<close>) and the roles of
  actors (\<^verbatim>\<open>app/auth/roles.py\<close>): whether a stored value may be used in a context, with every reason
  against it.
\<close>

subsection \<open>Roles\<close>

definition ROLE_LEVEL :: "(string \<times> int) list" where
  "ROLE_LEVEL = [(''Licensing.Reader'', 1), (''Licensing.Analyst'', 2), (''Licensing.Reviewer'', 3),
     (''Licensing.Manager'', 4), (''Licensing.Admin'', 5)]"

definition STANDALONE_ROLES :: "string list" where
  "STANDALONE_ROLES = [''Licensing.Sender'', ''Licensing.Counsel'', ''Information.Owner'', ''Authorized.Signatory'',
     ''Portal.Operator'', ''Payment.Approver'', ''Portal.FinalSubmitter'']"

definition role_level :: "string \<Rightarrow> int" where
  "role_level r = (case map_of ROLE_LEVEL r of None \<Rightarrow> 0 | Some n \<Rightarrow> n)"

definition has_role :: "string list \<Rightarrow> string \<Rightarrow> bool" where
  "has_role actual required =
     (if required = ''Licensing.Sender''
      then ''Licensing.Sender'' \<in> set actual \<or> ''Licensing.Manager'' \<in> set actual
      else if required \<in> set STANDALONE_ROLES then required \<in> set actual
      else list_ex (\<lambda>v. role_level required \<le> role_level v)
             (filter (\<lambda>v. v \<in> fst ` set ROLE_LEVEL \<or> v \<in> set STANDALONE_ROLES) actual))"

definition has_any_role :: "string list \<Rightarrow> string list \<Rightarrow> bool" where
  "has_any_role actual required = list_ex (has_role actual) required"

subsection \<open>Scopes\<close>

record ValueScope =
  vs_legal_entity_id :: "uuid option"
  vs_jurisdiction_id :: "uuid option"
  vs_license_id :: "uuid option"
  vs_vendor_organization_id :: "uuid option"
  vs_compliance_case_id :: "uuid option"

record UsageContext =
  uc_legal_entity_id :: uuid
  uc_jurisdiction_id :: "uuid option"
  uc_license_id :: "uuid option"
  uc_vendor_organization_id :: "uuid option"
  uc_compliance_case_id :: "uuid option"
  uc_max_sensitivity :: string

record ReuseDecision =
  rd_usable :: bool
  rd_reasons :: "string list"
  rd_freshness :: string

definition primary_reason :: "ReuseDecision \<Rightarrow> string option" where
  "primary_reason d = (case rd_reasons d of [] \<Rightarrow> None | r # _ \<Rightarrow> Some r)"

definition SENSITIVITY_ORDER :: "(string \<times> int) list" where
  "SENSITIVITY_ORDER = [(''INTERNAL'', 1), (''CONFIDENTIAL'', 2), (''RESTRICTED'', 3), (''HIGHLY_RESTRICTED'', 4)]"

definition sensitivity_rank :: "string \<Rightarrow> int" where
  "sensitivity_rank s = (case map_of SENSITIVITY_ORDER s of None \<Rightarrow> 4 | Some n \<Rightarrow> n)"

definition requires_encryption :: "string \<Rightarrow> bool" where
  "requires_encryption sensitivity \<longleftrightarrow> 3 \<le> sensitivity_rank sensitivity"

definition permitted_for_ai :: "string \<Rightarrow> bool" where
  "permitted_for_ai sensitivity \<longleftrightarrow> sensitivity = ''INTERNAL''"

subsection \<open>Freshness\<close>

text \<open>\<^verbatim>\<open>int(freshness_days * 0.8)\<close> in double precision.\<close>

definition review_age :: "int \<Rightarrow> int" where
  "review_age freshness_days = py_trunc (fl (of_int freshness_days * fl (8 / 10)))"

definition assess_freshness ::
  "datetime option \<Rightarrow> date option \<Rightarrow> int option \<Rightarrow> date \<Rightarrow> datetime \<Rightarrow> string" where
  "assess_freshness approved_at valid_to freshness_days reference moment =
     (if (case valid_to of None \<Rightarrow> False | Some e \<Rightarrow> e < reference) then ''EXPIRED''
      else case freshness_days of
        None \<Rightarrow> ''NOT_TRACKED''
      | Some n \<Rightarrow>
        (if n \<le> 0 then ''NOT_TRACKED''
         else case approved_at of
           None \<Rightarrow> ''STALE''
         | Some a \<Rightarrow>
           (let age = td_days (moment - a) in
            if n \<le> age then ''STALE''
            else if review_age n \<le> age then ''DUE_FOR_REVIEW''
            else ''FRESH'')))"

subsection \<open>Reuse\<close>

definition out_of_scope :: "uuid option \<Rightarrow> uuid option \<Rightarrow> bool" where
  "out_of_scope own used \<longleftrightarrow> own \<noteq> None \<and> own \<noteq> used"

definition entity_reasons :: "string \<Rightarrow> bool \<Rightarrow> ValueScope \<Rightarrow> UsageContext \<Rightarrow> string list" where
  "entity_reasons reusable_policy cross_entity_approved scope context =
     (let org_wide_permitted = (reusable_policy = ''ALL_ENTITIES_APPROVED'') in
      case vs_legal_entity_id scope of
        None \<Rightarrow> (if \<not> org_wide_permitted \<or> \<not> cross_entity_approved then [''CROSS_ENTITY_NOT_APPROVED''] else [])
      | Some e \<Rightarrow>
        (if e \<noteq> uc_legal_entity_id context
         then [if org_wide_permitted then ''CROSS_ENTITY_NOT_APPROVED'' else ''WRONG_ENTITY''] else []))"

definition evaluate_reuse ::
  "string \<Rightarrow> string \<Rightarrow> string \<Rightarrow> ValueScope \<Rightarrow> UsageContext \<Rightarrow> string option \<Rightarrow> datetime option \<Rightarrow> date option \<Rightarrow>
     date option \<Rightarrow> int option \<Rightarrow> bool \<Rightarrow> date \<Rightarrow> datetime \<Rightarrow> bool \<Rightarrow> ReuseDecision" where
  "evaluate_reuse status reusable_policy sensitivity scope context owner approved_at valid_from valid_to freshness_days
       cross_entity_approved reference moment allow_stale =
     (let freshness = assess_freshness approved_at valid_to freshness_days reference moment;
          reasons =
            (if status \<noteq> ''APPROVED'' then [''NOT_APPROVED''] else []) @
            (if owner = None \<or> owner = Some [] then [''NO_OWNER''] else []) @
            (if reusable_policy = ''NOT_REUSABLE'' then [''NOT_REUSABLE''] else []) @
            entity_reasons reusable_policy cross_entity_approved scope context @
            (if out_of_scope (vs_jurisdiction_id scope) (uc_jurisdiction_id context) then [''WRONG_JURISDICTION''] else []) @
            (if out_of_scope (vs_license_id scope) (uc_license_id context) then [''WRONG_LICENSE''] else []) @
            (if out_of_scope (vs_vendor_organization_id scope) (uc_vendor_organization_id context) then [''WRONG_VENDOR''] else []) @
            (if (reusable_policy = ''CASE_SPECIFIC'' \<or> vs_compliance_case_id scope \<noteq> None) \<and>
                vs_compliance_case_id scope \<noteq> uc_compliance_case_id context then [''WRONG_CASE''] else []) @
            (if reusable_policy = ''ENTITY_AND_JURISDICTION'' \<and> uc_jurisdiction_id context = None
             then [''WRONG_JURISDICTION''] else []) @
            (case valid_from of None \<Rightarrow> [] | Some f \<Rightarrow> if reference < f then [''NOT_YET_VALID''] else []) @
            (if freshness = ''EXPIRED'' then [''EXPIRED'']
             else if freshness = ''STALE'' \<and> \<not> allow_stale then [''STALE''] else []) @
            (if sensitivity_rank (uc_max_sensitivity context) < sensitivity_rank sensitivity
             then [''SENSITIVITY_NOT_PERMITTED''] else []);
          ordered = dict_fromkeys reasons
      in \<lparr>rd_usable = (ordered = []), rd_reasons = ordered, rd_freshness = freshness\<rparr>)"

subsection \<open>Lemmas\<close>

lemma role_level_manager: "4 \<le> role_level v \<longleftrightarrow> v = ''Licensing.Manager'' \<or> v = ''Licensing.Admin''"
  by (simp add: role_level_def ROLE_LEVEL_def)

lemma manager_role: "has_role roles ''Licensing.Manager'' \<longleftrightarrow> ''Licensing.Manager'' \<in> set roles \<or> ''Licensing.Admin'' \<in> set roles"
proof -
  have "role_level ''Licensing.Manager'' = 4" by (simp add: role_level_def ROLE_LEVEL_def)
  moreover have "''Licensing.Manager'' \<in> fst ` set ROLE_LEVEL" "''Licensing.Admin'' \<in> fst ` set ROLE_LEVEL"
    by (simp_all add: ROLE_LEVEL_def)
  moreover have "''Licensing.Manager'' \<notin> set STANDALONE_ROLES" by (simp add: STANDALONE_ROLES_def)
  ultimately show ?thesis unfolding has_role_def list_ex_iff by (auto simp: role_level_manager)
qed

lemma expired_iff: "assess_freshness a valid_to n reference moment = ''EXPIRED'' \<longleftrightarrow> (\<exists>e. valid_to = Some e \<and> e < reference)"
  by (auto simp: assess_freshness_def Let_def split: option.splits)

lemma reason_Nil: "(if c then [x] else []) = [] \<longleftrightarrow> \<not> c"
  by simp

lemma entity_Nil:
  "entity_reasons policy cross scope ctx = [] \<longleftrightarrow>
     vs_legal_entity_id scope = Some (uc_legal_entity_id ctx) \<or>
     vs_legal_entity_id scope = None \<and> policy = ''ALL_ENTITIES_APPROVED'' \<and> cross"
  by (auto simp: entity_reasons_def Let_def split: option.splits)

lemma from_Nil:
  "(case valid_from of None \<Rightarrow> [] | Some f \<Rightarrow> if (reference :: date) < f then [x] else []) = [] \<longleftrightarrow>
     (\<forall>f. valid_from = Some f \<longrightarrow> f \<le> reference)"
  by (auto simp: not_less split: option.splits)

lemma fresh_Nil:
  "(if assess_freshness a valid_to days reference moment = ''EXPIRED'' then [x]
    else if assess_freshness a valid_to days reference moment = ''STALE'' \<and> \<not> allow_stale then [y] else []) = [] \<longleftrightarrow>
     (\<forall>e. valid_to = Some e \<longrightarrow> reference \<le> e) \<and>
     (allow_stale \<or> assess_freshness a valid_to days reference moment \<noteq> ''STALE'')"
  using expired_iff [of a valid_to days reference moment] by (cases valid_to) (auto simp: not_less)

text \<open>What usability means.\<close>

lemma usable_iff:
  "rd_usable (evaluate_reuse status policy sens scope ctx owner approved_at valid_from valid_to days cross reference moment allow_stale) \<longleftrightarrow>
     status = ''APPROVED'' \<and> \<not> (owner = None \<or> owner = Some []) \<and> policy \<noteq> ''NOT_REUSABLE'' \<and>
     (vs_legal_entity_id scope = Some (uc_legal_entity_id ctx) \<or>
      vs_legal_entity_id scope = None \<and> policy = ''ALL_ENTITIES_APPROVED'' \<and> cross) \<and>
     \<not> out_of_scope (vs_jurisdiction_id scope) (uc_jurisdiction_id ctx) \<and>
     \<not> out_of_scope (vs_license_id scope) (uc_license_id ctx) \<and>
     \<not> out_of_scope (vs_vendor_organization_id scope) (uc_vendor_organization_id ctx) \<and>
     \<not> ((policy = ''CASE_SPECIFIC'' \<or> vs_compliance_case_id scope \<noteq> None) \<and>
        vs_compliance_case_id scope \<noteq> uc_compliance_case_id ctx) \<and>
     \<not> (policy = ''ENTITY_AND_JURISDICTION'' \<and> uc_jurisdiction_id ctx = None) \<and>
     (\<forall>f. valid_from = Some f \<longrightarrow> f \<le> reference) \<and> (\<forall>e. valid_to = Some e \<longrightarrow> reference \<le> e) \<and>
     (allow_stale \<or> assess_freshness approved_at valid_to days reference moment \<noteq> ''STALE'') \<and>
     sensitivity_rank sens \<le> sensitivity_rank (uc_max_sensitivity ctx)"
  unfolding evaluate_reuse_def Let_def
  by (simp only: ReuseDecision.simps dict_fromkeys_Nil_iff append_is_Nil_conv reason_Nil entity_Nil from_Nil fresh_Nil
      not_less not_not conj_assoc)

lemma reasons_usable: "rd_usable (evaluate_reuse st p s sc ctx ow a f t d c r m al) \<longleftrightarrow>
    rd_reasons (evaluate_reuse st p s sc ctx ow a f t d c r m al) = []"
  by (simp add: evaluate_reuse_def Let_def)

end
