(* ===== verification/Information_Validation.thy ===== *)
theory Information_Validation
  imports Recurrence Py_Float Conditions
begin

text \<open>
  Declarative validation of proposed answers (\<^verbatim>\<open>app/information_registry/validation.py\<close>): the type of
  the value, the limits and the patterns of its definition. An issue carries its code and, for an address,
  the field; the message texts are not modelled.
\<close>

subsection \<open>Numbers\<close>

text \<open>A Python float with the values that are not finite; reading one from text is a parameter.\<close>

datatype pyfloat = Fin rat | PosInf | NegInf | NotANumber

record value_lib =
  vl_rules :: rule_lib
  vl_float :: "string \<Rightarrow> pyfloat option"

definition float_of_int :: "int \<Rightarrow> py_error + pyfloat" where
  "float_of_int n = (if \<bar>fl (of_int n)\<bar> < 2 ^ 1024 then Inr (Fin (fl (of_int n))) else Inl OverflowError)"

text \<open>\<^verbatim>\<open>float(v)\<close>.\<close>

definition py_float :: "value_lib \<Rightarrow> json \<Rightarrow> py_error + pyfloat" where
  "py_float lib v =
     (case v of
        JBool b \<Rightarrow> Inr (Fin (if b then 1 else 0))
      | JInt n \<Rightarrow> float_of_int n
      | JFloat q \<Rightarrow> Inr (Fin q)
      | JStr s \<Rightarrow> (case vl_float lib s of None \<Rightarrow> Inl ValueError | Some x \<Rightarrow> Inr x)
      | _ \<Rightarrow> Inl TypeError)"

definition float_less :: "pyfloat \<Rightarrow> pyfloat \<Rightarrow> bool" where
  "float_less x y =
     (case (x, y) of
        (Fin p, Fin q) \<Rightarrow> p < q
      | (Fin _, PosInf) \<Rightarrow> True
      | (NegInf, Fin _) \<Rightarrow> True
      | (NegInf, PosInf) \<Rightarrow> True
      | _ \<Rightarrow> False)"

text \<open>\<^verbatim>\<open>number != int(number)\<close>.\<close>

definition not_whole :: "pyfloat \<Rightarrow> py_error + bool" where
  "not_whole x =
     (case x of
        Fin q \<Rightarrow> Inr (q \<noteq> of_int (py_trunc q))
      | NotANumber \<Rightarrow> Inl ValueError
      | _ \<Rightarrow> Inl OverflowError)"

definition coerce_number :: "value_lib \<Rightarrow> json \<Rightarrow> py_error + pyfloat option" where
  "coerce_number lib v =
     (case v of
        JInt n \<Rightarrow> bindE (float_of_int n) (\<lambda>x. Inr (Some x))
      | JFloat q \<Rightarrow> Inr (Some (Fin q))
      | JStr s \<Rightarrow> Inr (vl_float lib (py_strip (filter (\<lambda>c. c \<noteq> CHR '','' \<and> c \<noteq> CHR ''$'') s)))
      | _ \<Rightarrow> Inr None)"

subsection \<open>Formats\<close>

definition is_letter :: "char \<Rightarrow> bool" where
  "is_letter c \<longleftrightarrow> is_lower c \<or> (65 \<le> (of_char c :: nat) \<and> (of_char c :: nat) \<le> 90)"

text \<open>
  The three fixed patterns, on stripped text: the last dot of the domain starts a run of at least two
  letters; between 7 and 32 characters of a telephone number; a scheme and a rest without spaces.
\<close>

definition email_ok :: "string \<Rightarrow> bool" where
  "email_ok s =
     (let local' = takeWhile (\<lambda>c. c \<noteq> CHR ''@'') s; rest = drop (length local') s; domain = drop 1 rest;
          tld = rev (takeWhile (\<lambda>c. c \<noteq> CHR ''.'') (rev domain)); host = take (length domain - length tld - 1) domain
      in local' \<noteq> [] \<and> rest \<noteq> [] \<and> list_all (\<lambda>c. \<not> is_space c) s \<and> CHR ''@'' \<notin> set domain \<and>
         CHR ''.'' \<in> set domain \<and> host \<noteq> [] \<and> 2 \<le> length tld \<and> list_all is_letter tld)"

definition phone_ok :: "string \<Rightarrow> bool" where
  "phone_ok s \<longleftrightarrow> 7 \<le> length s \<and> length s \<le> 32 \<and>
     list_all (\<lambda>c. is_digit c \<or> is_space c \<or> c \<in> set ''().+x/-'') s"

definition url_ok :: "string \<Rightarrow> bool" where
  "url_ok s =
     (let rest = (if take 8 s = ''https://'' then drop 8 s else drop 7 s)
      in (take 8 s = ''https://'' \<or> take 7 s = ''http://'') \<and> rest \<noteq> [] \<and> list_all (\<lambda>c. \<not> is_space c) rest)"

subsection \<open>Issues\<close>

record ValidationIssue =
  vi_code :: string
  vi_field :: "json option"

definition issue :: "string \<Rightarrow> ValidationIssue" where
  "issue code = \<lparr>vi_code = code, vi_field = None\<rparr>"

definition issue_if :: "bool \<Rightarrow> string \<Rightarrow> ValidationIssue list" where
  "issue_if b code = (if b then [issue code] else [])"

definition MAX_TEXT_LENGTH :: int where
  "MAX_TEXT_LENGTH = 4000"

definition SUPPORTED_RULES :: "string list" where
  "SUPPORTED_RULES = [''required'', ''min_length'', ''max_length'', ''minimum'', ''maximum'', ''pattern'', ''allowed_values'',
     ''required_address_fields'', ''max_decimal_places'']"

definition ADDRESS_DEFAULT_FIELDS :: "json list" where
  "ADDRESS_DEFAULT_FIELDS = map JStr [''line1'', ''city'', ''region'', ''postal_code'', ''country'']"

text \<open>\<^verbatim>\<open>value in allowed\<close> for the container the rule holds.\<close>

definition json_member :: "json \<Rightarrow> json \<Rightarrow> py_error + bool" where
  "json_member v container =
     (case container of
        JList xs \<Rightarrow> Inr (list_ex (json_eq v) xs)
      | JStr s \<Rightarrow> (case v of JStr t \<Rightarrow> Inr (is_substr t s) | _ \<Rightarrow> Inl TypeError)
      | JObj d \<Rightarrow> (case v of JList _ \<Rightarrow> Inl TypeError | JObj _ \<Rightarrow> Inl TypeError
                   | JStr t \<Rightarrow> Inr (t \<in> set (map fst d)) | _ \<Rightarrow> Inr False)
      | _ \<Rightarrow> Inl TypeError)"

definition not_allowed :: "json \<Rightarrow> jdict \<Rightarrow> py_error + ValidationIssue list" where
  "not_allowed v config =
     (let allowed = jget_or config ''allowed_values'' JNull in
      if truthy allowed then bindE (json_member v allowed) (\<lambda>b. Inr (issue_if (\<not> b) ''NOT_IN_ALLOWED_VALUES''))
      else Inr [])"

text \<open>\<^verbatim>\<open>for part in required_fields\<close>: what iterating over the rule's value yields.\<close>

definition iterate :: "json \<Rightarrow> py_error + json list" where
  "iterate v =
     (case v of
        JList xs \<Rightarrow> Inr xs
      | JStr s \<Rightarrow> Inr (map (\<lambda>c. JStr [c]) s)
      | JObj d \<Rightarrow> Inr (map (\<lambda>kv. JStr (fst kv)) d)
      | _ \<Rightarrow> Inl TypeError)"

definition address_part :: "value_lib \<Rightarrow> jdict \<Rightarrow> json \<Rightarrow> py_error + ValidationIssue list" where
  "address_part lib address part =
     (case part of
        JList _ \<Rightarrow> Inl TypeError
      | JObj _ \<Rightarrow> Inl TypeError
      | _ \<Rightarrow>
        (let v = (case part of JStr k \<Rightarrow> jget_or address k (JStr []) | _ \<Rightarrow> JStr [])
         in Inr (if py_strip (py_str (vl_rules lib) v) = []
                 then [\<lparr>vi_code = ''MISSING_ADDRESS_FIELD'', vi_field = Some part\<rparr>] else [])))"

subsection \<open>Validation\<close>

definition text_issues :: "json \<Rightarrow> jdict \<Rightarrow> py_error + ValidationIssue list" where
  "text_issues v config =
     (case v of
        JStr s \<Rightarrow>
          bindE (py_int (jget_or config ''max_length'' (JInt MAX_TEXT_LENGTH))) (\<lambda>limit.
          bindE (case jget config ''min_length'' of
                   None \<Rightarrow> Inr False
                 | Some m \<Rightarrow> bindE (py_int m) (\<lambda>least. Inr (int (length s) < least))) (\<lambda>short.
          Inr (issue_if (limit < int (length s)) ''TOO_LONG'' @ issue_if short ''TOO_SHORT'')))
      | _ \<Rightarrow> Inr [issue ''WRONG_TYPE''])"

definition bound_issue :: "value_lib \<Rightarrow> jdict \<Rightarrow> string \<Rightarrow> (pyfloat \<Rightarrow> bool) \<Rightarrow> py_error + ValidationIssue list" where
  "bound_issue lib config key outside =
     (case jget config key of
        None \<Rightarrow> Inr []
      | Some b \<Rightarrow> bindE (py_float lib b) (\<lambda>x. Inr (issue_if (outside x) ''OUT_OF_RANGE'')))"

definition number_issues :: "value_lib \<Rightarrow> json \<Rightarrow> string \<Rightarrow> jdict \<Rightarrow> py_error + ValidationIssue list" where
  "number_issues lib v data_type config =
     bindE (coerce_number lib v) (\<lambda>number.
     (case number of
        None \<Rightarrow> Inr [issue ''WRONG_TYPE'']
      | Some x \<Rightarrow>
        bindE (if data_type = ''INTEGER'' then not_whole x else Inr False) (\<lambda>fraction.
        bindE (bound_issue lib config ''minimum'' (float_less x)) (\<lambda>low.
        bindE (bound_issue lib config ''maximum'' (\<lambda>b. float_less b x)) (\<lambda>high.
        Inr (issue_if fraction ''WRONG_TYPE'' @ low @ high))))))"

definition format_issue :: "json \<Rightarrow> (string \<Rightarrow> bool) \<Rightarrow> string \<Rightarrow> ValidationIssue list" where
  "format_issue v ok code =
     (case v of JStr s \<Rightarrow> issue_if (\<not> ok (py_strip s)) code | _ \<Rightarrow> [issue code])"

definition address_issues :: "value_lib \<Rightarrow> json \<Rightarrow> jdict \<Rightarrow> py_error + ValidationIssue list" where
  "address_issues lib v config =
     (case v of
        JObj address \<Rightarrow>
          (let declared = jget_or config ''required_address_fields'' JNull in
           bindE (if truthy declared then iterate declared else Inr ADDRESS_DEFAULT_FIELDS) (\<lambda>parts.
           bindE (mapE (address_part lib address) parts) (\<lambda>iss. Inr (concat iss))))
      | _ \<Rightarrow> Inr [issue ''WRONG_TYPE''])"

definition type_issues :: "value_lib \<Rightarrow> json \<Rightarrow> string \<Rightarrow> jdict \<Rightarrow> py_error + ValidationIssue list" where
  "type_issues lib v data_type config =
     (if data_type \<in> {''TEXT'', ''LONG_TEXT''} then text_issues v config
      else if data_type \<in> {''INTEGER'', ''DECIMAL'', ''CURRENCY''} then number_issues lib v data_type config
      else if data_type = ''BOOLEAN'' then
        Inr (case v of JBool _ \<Rightarrow> [] | _ \<Rightarrow> [issue ''WRONG_TYPE''])
      else if data_type = ''DATE'' then
        Inr (case v of JStr s \<Rightarrow> issue_if (fromisoformat s = None) ''INVALID_DATE'' | _ \<Rightarrow> [issue ''INVALID_DATE''])
      else if data_type = ''EMAIL'' then Inr (format_issue v email_ok ''INVALID_EMAIL'')
      else if data_type = ''PHONE'' then Inr (format_issue v phone_ok ''INVALID_PHONE'')
      else if data_type = ''URL'' then Inr (format_issue v url_ok ''INVALID_URL'')
      else if data_type = ''ADDRESS'' then address_issues lib v config
      else if data_type = ''ENUM'' then not_allowed v config
      else Inr [])"

definition pattern_issues :: "value_lib \<Rightarrow> json \<Rightarrow> jdict \<Rightarrow> ValidationIssue list" where
  "pattern_issues lib v config =
     (case (jget config ''pattern'', v) of
        (Some p, JStr s) \<Rightarrow>
          (let pattern = py_str (vl_rules lib) p in
           if \<not> re_compiles (vl_rules lib) pattern then [issue ''UNSUPPORTED_RULE'']
           else issue_if (\<not> re_search (vl_rules lib) pattern s True) ''PATTERN_MISMATCH'')
      | _ \<Rightarrow> [])"

definition is_empty_value :: "json \<Rightarrow> bool" where
  "is_empty_value v = (case v of JNull \<Rightarrow> True | JStr s \<Rightarrow> py_strip s = [] | _ \<Rightarrow> False)"

definition validate_value :: "value_lib \<Rightarrow> json \<Rightarrow> string \<Rightarrow> jdict \<Rightarrow> py_error + ValidationIssue list" where
  "validate_value lib v data_type config =
     (let unsupported = concat (map (\<lambda>kv. issue_if (fst kv \<notin> set SUPPORTED_RULES) ''UNSUPPORTED_RULE'') config) in
      if is_empty_value v
      then Inr (unsupported @ issue_if (truthy (jget_or config ''required'' JNull)) ''REQUIRED'')
      else
        bindE (type_issues lib v data_type config) (\<lambda>typed.
        bindE (if data_type = ''ENUM'' then Inr [] else not_allowed v config) (\<lambda>listed.
        Inr (unsupported @ typed @ pattern_issues lib v config @ listed))))"

end
