(* ===== verification/Json_Parse.thy ===== *)
theory Json_Parse
  imports Json_Text Conditions
begin

text \<open>
  \<^verbatim>\<open>json.loads\<close> of the standard library, as the code uses it on decrypted bytes and on the key
  configuration: the scanner of strings, numbers, arrays and objects, with the fuel that nested values need.
  Reading a float literal is a parameter. Values the model has no representation for (characters beyond the
  256 of HOL, infinities, not-a-number) are reported apart from the decoder's own error.
\<close>

datatype json_error = JSONDecodeError | Unrepresentable | Exhausted

subsection \<open>Strings\<close>

definition json_space :: "char \<Rightarrow> bool" where
  "json_space c \<longleftrightarrow> c = CHR '' '' \<or> c = CHR 0x09 \<or> c = CHR 0x0A \<or> c = CHR 0x0D"

definition skip_ws :: "string \<Rightarrow> string" where
  "skip_ws s = dropWhile json_space s"

definition hex4 :: "string \<Rightarrow> nat option" where
  "hex4 s =
     (if length s < 4 then None
      else case (hex_val (s ! 0), hex_val (s ! 1), hex_val (s ! 2), hex_val (s ! 3)) of
        (Some a, Some b, Some c, Some d) \<Rightarrow> Some (nat (((a * 16 + b) * 16 + c) * 16 + d))
      | _ \<Rightarrow> None)"

definition json_escapes :: "(char \<times> char) list" where
  "json_escapes = (CHR ''/'', CHR ''/'') # short_escapes"

text \<open>The rest of a string after its opening quote.\<close>

fun scan_string :: "string \<Rightarrow> string \<Rightarrow> json_error + (string \<times> string)" where
  "scan_string acc [] = Inl JSONDecodeError"
| "scan_string acc (c # cs) =
     (if c = CHR 0x22 then Inr (rev acc, cs)
      else if c \<noteq> CHR 0x5C then
        (if (of_char c :: nat) < 32 then Inl JSONDecodeError else scan_string (c # acc) cs)
      else case cs of
        [] \<Rightarrow> Inl JSONDecodeError
      | k # ks \<Rightarrow>
        (if k = CHR ''u'' then
           (case hex4 ks of
              None \<Rightarrow> Inl JSONDecodeError
            | Some n \<Rightarrow> if n < 256 then scan_string (char_of n # acc) (drop 4 ks) else Inl Unrepresentable)
         else case map_of json_escapes k of
             None \<Rightarrow> Inl JSONDecodeError
           | Some e \<Rightarrow> scan_string (e # acc) ks))"

subsection \<open>Numbers\<close>

text \<open>
  The scanner's pattern: an optional minus, zero or a numeral without leading zero, then an optional
  fraction and an optional exponent; with either of the two the literal is a float.
\<close>

definition scan_frac :: "string \<Rightarrow> string \<times> string" where
  "scan_frac s =
     (case s of
        c # ds \<Rightarrow> if c = CHR ''.'' \<and> takeWhile is_digit ds \<noteq> [] then (c # takeWhile is_digit ds, dropWhile is_digit ds) else ([], s)
      | [] \<Rightarrow> ([], s))"

definition scan_exp :: "string \<Rightarrow> string \<times> string" where
  "scan_exp s =
     (case s of
        c # ds \<Rightarrow>
          (let sign = (case ds of d # _ \<Rightarrow> if d = CHR ''+'' \<or> d = CHR ''-'' then [d] else [] | [] \<Rightarrow> []);
               es = drop (length sign) ds
           in if (c = CHR ''e'' \<or> c = CHR ''E'') \<and> takeWhile is_digit es \<noteq> []
              then (c # sign @ takeWhile is_digit es, dropWhile is_digit es) else ([], s))
      | [] \<Rightarrow> ([], s))"

definition scan_number :: "(string \<Rightarrow> rat option) \<Rightarrow> string \<Rightarrow> json_error + (json \<times> string)" where
  "scan_number flt s =
     (let sign = (case s of c # _ \<Rightarrow> if c = CHR ''-'' then [c] else [] | [] \<Rightarrow> []);
          body = drop (length sign) s;
          ip = (case body of c # _ \<Rightarrow> if c = CHR ''0'' then [c] else takeWhile is_digit body | [] \<Rightarrow> []);
          (frac, r1) = scan_frac (drop (length ip) body);
          (ex, r2) = scan_exp r1
      in if ip = [] then Inl JSONDecodeError
         else if frac = [] \<and> ex = [] then
           (case digits_acc 0 ip of
              None \<Rightarrow> Inl JSONDecodeError
            | Some n \<Rightarrow> Inr (JInt (if sign = [] then n else - n), r2))
         else case flt (sign @ ip @ frac @ ex) of
             None \<Rightarrow> Inl Unrepresentable
           | Some q \<Rightarrow> Inr (JFloat q, r2))"

subsection \<open>Values\<close>

fun scan_value :: "(string \<Rightarrow> rat option) \<Rightarrow> nat \<Rightarrow> string \<Rightarrow> json_error + (json \<times> string)"
and scan_items :: "(string \<Rightarrow> rat option) \<Rightarrow> nat \<Rightarrow> json list \<Rightarrow> string \<Rightarrow> json_error + (json \<times> string)"
and scan_members :: "(string \<Rightarrow> rat option) \<Rightarrow> nat \<Rightarrow> jdict \<Rightarrow> string \<Rightarrow> json_error + (json \<times> string)" where
  "scan_value flt 0 s = Inl Exhausted"
| "scan_value flt (Suc n) s =
     (case s of
        [] \<Rightarrow> Inl JSONDecodeError
      | c # cs \<Rightarrow>
        (if c = CHR 0x22 then bindE (scan_string [] cs) (\<lambda>(t, r). Inr (JStr t, r))
         else if c = CHR ''{'' then
           (case skip_ws cs of
              [] \<Rightarrow> Inl JSONDecodeError
            | k # ks \<Rightarrow> if k = CHR 0x22 then scan_members flt n [] ks
                       else if k = CHR ''}'' then Inr (JObj [], ks) else Inl JSONDecodeError)
         else if c = CHR ''['' then
           (case skip_ws cs of
              [] \<Rightarrow> Inl JSONDecodeError
            | k # ks \<Rightarrow> if k = CHR '']'' then Inr (JList [], ks) else scan_items flt n [] (k # ks))
         else if take 4 s = ''null'' then Inr (JNull, drop 4 s)
         else if take 4 s = ''true'' then Inr (JBool True, drop 4 s)
         else if take 5 s = ''false'' then Inr (JBool False, drop 5 s)
         else if take 3 s = ''NaN'' \<or> take 8 s = ''Infinity'' \<or> take 9 s = ''-Infinity'' then Inl Unrepresentable
         else scan_number flt s))"
| "scan_items flt 0 acc s = Inl Exhausted"
| "scan_items flt (Suc n) acc s =
     bindE (scan_value flt n s) (\<lambda>(v, r).
       case skip_ws r of
         [] \<Rightarrow> Inl JSONDecodeError
       | k # ks \<Rightarrow> if k = CHR '']'' then Inr (JList (rev (v # acc)), ks)
                  else if k = CHR '','' then scan_items flt n (v # acc) (skip_ws ks)
                  else Inl JSONDecodeError)"
| "scan_members flt 0 acc s = Inl Exhausted"
| "scan_members flt (Suc n) acc s =
     bindE (scan_string [] s) (\<lambda>(key, r).
       case skip_ws r of
         [] \<Rightarrow> Inl JSONDecodeError
       | k # ks \<Rightarrow> if k \<noteq> CHR '':'' then Inl JSONDecodeError
                  else bindE (scan_value flt n (skip_ws ks)) (\<lambda>(v, r').
                    case skip_ws r' of
                      [] \<Rightarrow> Inl JSONDecodeError
                    | m # ms \<Rightarrow> if m = CHR ''}'' then Inr (JObj (jset acc key v), ms)
                               else if m \<noteq> CHR '','' then Inl JSONDecodeError
                               else case skip_ws ms of
                                 [] \<Rightarrow> Inl JSONDecodeError
                               | q # qs \<Rightarrow> if q = CHR 0x22 then scan_members flt n (jset acc key v) qs
                                          else Inl JSONDecodeError))"

definition json_loads :: "(string \<Rightarrow> rat option) \<Rightarrow> string \<Rightarrow> json_error + json" where
  "json_loads flt s =
     bindE (scan_value flt (2 * length s + 1) (skip_ws s)) (\<lambda>(v, r).
       if skip_ws r = [] then Inr v else Inl JSONDecodeError)"

subsection \<open>The fuel is enough\<close>

lemma skip_ws_length: "length (skip_ws s) \<le> length s"
  by (simp add: skip_ws_def length_dropWhile_le)

lemma skip_ws_Cons: "skip_ws s = c # cs \<Longrightarrow> length cs < length s"
  using skip_ws_length [of s] by simp

lemma scan_string_length: "scan_string acc s = Inr (t, r) \<Longrightarrow> length r < length s"
proof (induction acc s rule: scan_string.induct)
  case (2 acc c cs)
  show ?case
  proof (cases cs)
    case Nil
    then show ?thesis using 2 by (auto split: if_splits)
  next
    case (Cons k ks)
    then show ?thesis using 2 by (fastforce split: if_splits option.splits)
  qed
qed simp

lemma scan_frac_length: "scan_frac s = (f, r) \<Longrightarrow> length r \<le> length s"
  by (auto simp: scan_frac_def split: list.splits if_splits intro: le_SucI length_dropWhile_le)

lemma scan_exp_length: "scan_exp s = (f, r) \<Longrightarrow> length r \<le> length s"
proof (cases s)
  case (Cons c ds)
  assume "scan_exp s = (f, r)"
  moreover have "length (dropWhile is_digit (drop n ds)) \<le> Suc (length ds)" for n
    by (rule order_trans [OF length_dropWhile_le]) simp
  ultimately show ?thesis by (auto simp: scan_exp_def Cons Let_def split: if_splits)
qed (simp add: scan_exp_def)

lemma scan_number_length: "scan_number flt s = Inr (v, r) \<Longrightarrow> length r < length s"
proof -
  assume a: "scan_number flt s = Inr (v, r)"
  define sign where "sign = (case s of c # _ \<Rightarrow> if c = CHR ''-'' then [c] else [] | [] \<Rightarrow> [])"
  define body where "body = drop (length sign) s"
  define ip where "ip = (case body of c # _ \<Rightarrow> if c = CHR ''0'' then [c] else takeWhile is_digit body | [] \<Rightarrow> [])"
  obtain frac r1 where f: "scan_frac (drop (length ip) body) = (frac, r1)" by fastforce
  obtain ex r2 where e: "scan_exp r1 = (ex, r2)" by fastforce
  have ip: "ip \<noteq> []" and r: "r = r2"
    using a unfolding scan_number_def Let_def sign_def [symmetric] body_def [symmetric] ip_def [symmetric] f
    by (auto simp: e split: if_splits option.splits)
  have "body \<noteq> []" using ip by (auto simp: ip_def)
  then have "length (drop (length ip) body) < length body" using ip by (cases ip) simp_all
  moreover have "length body \<le> length s" by (simp add: body_def)
  ultimately show ?thesis using scan_frac_length [OF f] scan_exp_length [OF e] unfolding r by linarith
qed

lemma scan_value_length:
  "scan_value flt n s = Inr (v, r) \<Longrightarrow> length r < length s"
  "scan_items flt n acc s = Inr (v, r) \<Longrightarrow> length r < length s"
  "scan_members flt n mem s = Inr (v, r) \<Longrightarrow> length r < length s"
proof (induction flt n s and flt n acc s and flt n mem s arbitrary: v r and v r and v r
    rule: scan_value_scan_items_scan_members.induct)
  case (2 flt n s)
  show ?case
  proof (cases s)
    case (Cons c cs)
    consider "c = CHR 0x22" | "c = CHR ''{''" | "c = CHR ''[''" | "c \<notin> {CHR 0x22, CHR ''{'', CHR ''[''}" by blast
    then show ?thesis
    proof cases
      case 1
      then show ?thesis using 2 Cons by (auto simp: err_simps dest: scan_string_length)
    next
      case 22: 2
      then obtain k ks where k: "skip_ws cs = k # ks" using "2.prems" Cons by (auto split: list.splits)
      have l: "length ks < length cs" by (rule skip_ws_Cons [OF k])
      have "length r < length ks" if "k = CHR 0x22"
        using "2.prems" "2.IH"(1) 22 Cons k that by simp
      then show ?thesis using "2.prems" 22 Cons k l by (cases "k = CHR 0x22") (auto split: if_splits)
    next
      case 3
      then obtain k ks where k: "skip_ws cs = k # ks" using "2.prems" Cons by (auto split: list.splits)
      have l: "length (k # ks) \<le> length cs" using skip_ws_length [of cs] by (simp add: k)
      have "length r < length (k # ks)" if "k \<noteq> CHR '']''"
        using "2.prems" "2.IH" 3 Cons k that by simp
      then show ?thesis using "2.prems" 3 Cons k l by (cases "k = CHR '']''") auto
    next
      case 4
      then show ?thesis using "2.prems" Cons scan_number_length [of flt s v r] by (auto split: if_splits)
    qed
  qed (use 2 in simp)
next
  case (4 flt n acc s)
  from "4.prems" obtain v' r' where a1: "scan_value flt n s = Inr (v', r')" by (auto simp: err_simps)
  from "4.prems" obtain k ks where "skip_ws r' = k # ks" by (cases "skip_ws r'") (auto simp: a1)
  note a = a1 this
  have l: "length r' < length s" "length ks < length r'" using "4.IH"(1) [OF a(1)] skip_ws_Cons [OF a(2)] by simp_all
  show ?case
  proof (cases "k = CHR '']''")
    case True
    then show ?thesis using "4.prems" a l by auto
  next
    case False
    then have "k = CHR '',''" and i: "scan_items flt n (v' # acc) (skip_ws ks) = Inr (v, r)"
      using "4.prems" a by (auto split: if_splits)
    have "length r < length (skip_ws ks)" by (rule "4.IH"(2) [OF a1 refl a(2) False \<open>k = CHR '',''\<close> i])
    then show ?thesis using l skip_ws_length [of ks] by linarith
  qed
next
  case (6 flt n mem s)
  from "6.prems" obtain key r0 where a1: "scan_string [] s = Inr (key, r0)" by (auto simp: err_simps)
  from "6.prems" obtain ks where a2: "skip_ws r0 = CHR '':'' # ks" by (cases "skip_ws r0") (auto simp: a1 split: if_splits)
  from "6.prems" obtain v' r' where a3: "scan_value flt n (skip_ws ks) = Inr (v', r')" by (auto simp: a1 a2 err_simps)
  from "6.prems" obtain m ms where "skip_ws r' = m # ms" by (cases "skip_ws r'") (auto simp: a1 a2 a3)
  note a = a1 a2 a3 this
  have l: "length r0 < length s" "length ks < length r0" "length r' < length (skip_ws ks)" "length (skip_ws ks) \<le> length ks"
    "length ms < length r'"
    using scan_string_length [OF a(1)] skip_ws_Cons [OF a(2)] "6.IH"(1) [OF a(1) refl a(2) _ a(3)] skip_ws_length [of ks] skip_ws_Cons [OF a(4)]
    by simp_all
  show ?case
  proof (cases "m = CHR ''}''")
    case True
    then show ?thesis using "6.prems" a l by auto
  next
    case False
    then obtain qs where q: "skip_ws ms = CHR 0x22 # qs" "scan_members flt n (jset mem key v') qs = Inr (v, r)"
      using "6.prems" a by (auto split: if_splits list.splits)
    have "length r < length qs" using "6.IH"(2) a q False "6.prems" by (auto split: if_splits)
    then show ?thesis using l skip_ws_Cons [OF q(1)] by linarith
  qed
qed simp_all

lemma scan_string_fuel: "scan_string acc s \<noteq> Inl Exhausted"
proof (induction acc s rule: scan_string.induct)
  case (2 acc c cs)
  then show ?case by (auto split: list.splits option.splits)
qed simp

lemma scan_number_fuel: "scan_number flt s \<noteq> Inl Exhausted"
  unfolding scan_number_def Let_def by (auto split: prod.splits option.splits)

lemma scan_value_fuel:
  "2 * length s < n \<Longrightarrow> scan_value flt n s \<noteq> Inl Exhausted"
  "2 * length s + 1 < n \<Longrightarrow> scan_items flt n acc s \<noteq> Inl Exhausted"
  "2 * length s + 1 < n \<Longrightarrow> scan_members flt n mem s \<noteq> Inl Exhausted"
proof (induction flt n s and flt n acc s and flt n mem s rule: scan_value_scan_items_scan_members.induct)
  case (2 flt n s)
  show ?case
  proof (cases s)
    case (Cons c cs)
    show ?thesis
    proof (cases "skip_ws cs")
      case Nil
      then show ?thesis using Cons scan_string_fuel [of "[]" cs] scan_number_fuel [of flt s] by (auto simp: err_simps)
    next
      case k: (Cons k ks)
      have l: "length (k # ks) \<le> length cs" using skip_ws_length [of cs] by (simp add: k)
      have "scan_members flt n [] ks \<noteq> Inl Exhausted" if "c = CHR ''{''" "k = CHR 0x22"
        using "2.IH"(1) 2(3) Cons k l that by simp
      moreover have "scan_items flt n [] (k # ks) \<noteq> Inl Exhausted" if "c = CHR ''[''" "k \<noteq> CHR '']''"
        using "2.IH"(2) 2(3) Cons k l that by simp
      ultimately show ?thesis using Cons k scan_string_fuel [of "[]" cs] scan_number_fuel [of flt s] by (auto simp: err_simps)
    qed
  qed simp
next
  case (4 flt n acc s)
  have v: "scan_value flt n s \<noteq> Inl Exhausted" using 4 by simp
  have "scan_items flt n (v # acc) (skip_ws ks) \<noteq> Inl Exhausted"
    if "scan_value flt n s = Inr (v, r)" "skip_ws r = CHR '','' # ks" for v r ks
  proof (rule "4.IH"(2) [OF that(1) refl that(2)])
    have "length ks < length r" "length r < length s" using skip_ws_Cons [OF that(2)] scan_value_length(1) [OF that(1)] by simp_all
    then show "2 * length (skip_ws ks) + 1 < n" using "4.prems" skip_ws_length [of ks] by linarith
  qed simp_all
  then show ?case using v by (auto simp: err_simps split: list.splits)
next
  case (6 flt n mem s)
  have v: "scan_value flt n (skip_ws ks) \<noteq> Inl Exhausted"
    if "scan_string [] s = Inr (key, r)" "skip_ws r = CHR '':'' # ks" for key r ks
  proof (rule "6.IH"(1) [OF that(1) refl that(2)])
    have "length ks < length r" "length r < length s" using skip_ws_Cons [OF that(2)] scan_string_length [OF that(1)] by simp_all
    then show "2 * length (skip_ws ks) < n" using "6.prems" skip_ws_length [of ks] by linarith
  qed simp
  have m: "scan_members flt n (jset mem key w) qs \<noteq> Inl Exhausted"
    if "scan_string [] s = Inr (key, r)" "skip_ws r = CHR '':'' # ks" "scan_value flt n (skip_ws ks) = Inr (w, r')"
      "skip_ws r' = CHR '','' # ms" "skip_ws ms = CHR 0x22 # qs" for key r ks w r' ms qs
  proof (rule "6.IH"(2) [OF that(1) refl that(2) _ that(3) refl that(4) _ _ that(5)])
    have "length ks < length r" "length r < length s" "length r' < length (skip_ws ks)" "length ms < length r'" "length qs < length ms"
      using skip_ws_Cons [OF that(2)] scan_string_length [OF that(1)] scan_value_length(1) [OF that(3)]
        skip_ws_Cons [OF that(4)] skip_ws_Cons [OF that(5)] by simp_all
    then show "2 * length qs + 1 < n" using "6.prems" skip_ws_length [of ks] by linarith
  qed simp_all
  show ?case using v m scan_string_fuel [of "[]" s] by (auto simp: err_simps split: list.splits)
qed simp_all

declare scan_value.simps [simp del] scan_items.simps [simp del] scan_members.simps [simp del]

lemma json_loads_fuel: "json_loads flt s \<noteq> Inl Exhausted"
proof -
  have "2 * length (skip_ws s) < 2 * length s + 1" using skip_ws_length [of s] by simp
  then show ?thesis using scan_value_fuel(1) by (auto simp: json_loads_def err_simps)
qed

subsection \<open>Reading what was printed\<close>

lemma digit_char_hex: "d < 16 \<Longrightarrow> hex_val (digit_char d) = Some (int d)"
proof -
  assume d: "d < 16"
  show ?thesis
  proof (cases "d < 10")
    case True
    then have "(of_char (digit_char d) :: nat) = 48 + d" by (simp add: digit_char_def)
    then show ?thesis using True by (simp add: hex_val_def)
  next
    case False
    then have "(of_char (digit_char d) :: nat) = 87 + d" using d by (simp add: digit_char_def)
    then show ?thesis using False d by (simp add: hex_val_def)
  qed
qed

lemma hex4_digits: "n < 16 ^ 4 \<Longrightarrow> hex4 (digits_base 16 4 n @ r) = Some n"
proof -
  assume n: "n < 16 ^ 4"
  have d: "digits_base 16 4 n @ r = digit_char (n div 16 div 16 div 16 mod 16) # digit_char (n div 16 div 16 mod 16) #
      digit_char (n div 16 mod 16) # digit_char (n mod 16) # r"
  proof -
    have "(4::nat) = Suc (Suc (Suc (Suc 0)))" by simp
    then show ?thesis by (simp only: digits_base.simps append.simps append_assoc)
  qed
  have m: "n div 16 div 16 div 16 mod 16 = n div 16 div 16 div 16"
    using n by (simp add: div_mult2_eq [symmetric] less_mult_imp_div_less)
  let ?a = "n div 16 div 16 div 16" and ?b = "n div 16 div 16 mod 16" and ?c = "n div 16 mod 16" and ?d = "n mod 16"
  have "((?a * 16 + ?b) * 16 + ?c) * 16 + ?d = n" by (simp add: div_mult_mod_eq)
  moreover have "((int ?a * 16 + int ?b) * 16 + int ?c) * 16 + int ?d = int (((?a * 16 + ?b) * 16 + ?c) * 16 + ?d)"
    by (simp only: of_nat_add of_nat_mult of_nat_numeral)
  ultimately have "nat (((int ?a * 16 + int ?b) * 16 + int ?c) * 16 + int ?d) = n" by (simp only: nat_int)
  moreover have "hex_val (digit_char ?a) = Some (int ?a)" 
    using digit_char_hex [of "?a mod 16", OF mod_less_divisor] unfolding m by simp
  ultimately show ?thesis unfolding hex4_def d by (simp add: digit_char_hex m)
qed

lemma escape_plain: "escape_char c = [c] \<Longrightarrow> 32 \<le> (of_char c :: nat)"
  by (auto simp: escape_char_def split: if_splits)

lemma short_json: "map_of short_escapes k = Some c \<Longrightarrow> map_of json_escapes k = Some c"
  by (auto simp: json_escapes_def short_escapes_def split: if_splits)

lemma scan_quoted: "scan_string acc (concat (map escape_char s) @ CHR 0x22 # r) = Inr (rev acc @ s, r)"
proof (induction s arbitrary: acc)
  case (Cons c s)
  show ?case
  proof (cases rule: escape_cases [of c])
    case plain
    then show ?thesis using escape_plain [of c] Cons by simp
  next
    case (short k)
    then show ?thesis using short_json [of k c] Cons by simp
  next
    case long
    have b: "(of_char c :: nat) < 256" by (rule nat_of_char_less_256)
    let ?t = "concat (map escape_char s) @ CHR 0x22 # r"
    have "hex4 (digits_base 16 4 (of_char c) @ ?t) = Some (of_char c)" by (rule hex4_digits, rule order_less_le_trans [OF b]) simp
    moreover have "drop 4 (digits_base 16 4 (of_char c) @ ?t) = ?t" by simp
    ultimately show ?thesis using long Cons b by simp
  qed
qed simp

lemma skip_delim: "delim r \<Longrightarrow> skip_ws r = r"
  by (auto simp: skip_ws_def delim_def json_space_def split: list.splits)

lemma digit_is_digit: "digit_val c \<noteq> None \<longleftrightarrow> is_digit c"
  by (simp add: digit_val_def is_digit_def)

lemma digits_acc_append: "digits_acc a (s @ [digit_char d]) = map_option (\<lambda>n. n * 10 + int d) (digits_acc a s)" if "d < 10"
  using that by (induction s arbitrary: a) (auto simp: digit_val_def digit_char_def split: option.splits)

lemma digits_str_nat: "digits_acc 0 (str_nat n) = Some (int n)"
proof (induction n rule: str_nat.induct)
  case (1 n)
  show ?case
  proof (cases "n < 10")
    case True
    then show ?thesis using digits_acc_append [of n 0 "[]"] by (simp add: str_nat.simps [of n])
  next
    case False
    then show ?thesis using 1 digits_acc_append [of "n mod 10" 0 "str_nat (n div 10)"]
      by (simp add: str_nat.simps [of n]) (metis of_nat_add of_nat_mult of_nat_numeral div_mult_mod_eq)
  qed
qed

lemma str_nat_hd: "str_nat n = CHR ''0'' # t \<Longrightarrow> t = []"
proof (induction n arbitrary: t rule: str_nat.induct)
  case (1 n)
  show ?case
  proof (cases "n < 10")
    case True
    then show ?thesis using 1 by (simp add: str_nat.simps [of n])
  next
    case False
    then obtain u where u: "str_nat (n div 10) = CHR ''0'' # u" using "1.prems" str_nat_digits [of "n div 10"]
      by (cases "str_nat (n div 10)") (auto simp: str_nat.simps [of n])
    then have "u = []" using "1.IH" False by blast
    then have "digits_acc 0 ''0'' = Some (int (n div 10))" using digits_str_nat [of "n div 10"] u by simp
    then have "n div 10 = 0" by (simp add: digit_val_def)
    then show ?thesis using False by simp
  qed
qed

lemma takeWhile_digits: "delim r \<Longrightarrow> takeWhile is_digit (str_nat n @ r) = str_nat n"
proof -
  assume "delim r"
  then have "takeWhile is_digit r = []" by (cases r) (auto simp: delim_def is_digit_def)
  moreover have "\<forall>c \<in> set (str_nat n). is_digit c" using str_nat_chars [of _ n] digit_is_digit by blast
  ultimately show ?thesis by (simp add: takeWhile_append)
qed

lemma scan_number_int:
  assumes sign: "sign = [] \<or> sign = ''-''" and body: "body = c # cs" "c \<noteq> CHR ''-''"
    and ip: "ip = (if c = CHR ''0'' then [c] else takeWhile is_digit body)" "ip \<noteq> []" "digits_acc 0 ip = Some m"
    and rest: "drop (length ip) body = r" "scan_frac r = ([], r)" "scan_exp r = ([], r)"
  shows "scan_number flt (sign @ body) = Inr (JInt (if sign = [] then m else - m), r)"
proof -
  have s: "(case sign @ body of c # _ \<Rightarrow> if c = CHR ''-'' then [c] else [] | [] \<Rightarrow> []) = sign" using sign body by auto
  have b: "drop (length sign) (sign @ body) = body" by simp
  have i: "(case body of c # _ \<Rightarrow> if c = CHR ''0'' then [c] else takeWhile is_digit body | [] \<Rightarrow> []) = ip"
    using ip(1) body(1) by simp
  show ?thesis unfolding scan_number_def Let_def s b i rest(1) rest(2) prod.case using ip(2,3) rest(3) by simp
qed

lemma scan_int: "delim r \<Longrightarrow> scan_number flt (str_int n @ r) = Inr (JInt n, r)"
proof -
  assume r: "delim r"
  have fe: "scan_frac r = ([], r)" "scan_exp r = ([], r)"
    using r by (auto simp: scan_frac_def scan_exp_def delim_def Let_def split: list.splits)
  define k where "k = nat \<bar>n\<bar>"
  obtain c t where c: "str_nat k = c # t" using str_nat_digits [of k] by (cases "str_nat k") auto
  have dc: "is_digit c" using str_nat_chars [of c k] digit_is_digit c by simp
  have ip: "str_nat k = (if c = CHR ''0'' then [c] else takeWhile is_digit (str_nat k @ r))"
  proof (cases "c = CHR ''0''")
    case True
    then show ?thesis using c str_nat_hd [of k t] by simp
  next
    case False
    then show ?thesis using takeWhile_digits [OF r, of k] by (simp only: if_False)
  qed
  have "str_nat k @ r = c # (t @ r)" "c \<noteq> CHR ''-''" using c dc by (auto simp: is_digit_def)
  from scan_number_int [OF _ this ip str_nat_digits digits_str_nat _ fe]
  have "scan_number flt ((if n < 0 then ''-'' else []) @ str_nat k @ r) = Inr (JInt (if n < 0 then - int k else int k), r)" by simp
  then show ?thesis by (auto simp: str_int_def k_def)
qed

lemma skip_compact: "float_free v \<Longrightarrow> skip_ws (compact v @ r) = compact v @ r"
  using compact_hd [of v]
  by (cases v) (auto simp: skip_ws_def kind_char_def json_space_def numeral_char_def digit_val_def)

lemma scan_word:
  "scan_value flt (Suc n) (''null'' @ r) = Inr (JNull, r)"
  "scan_value flt (Suc n) (''true'' @ r) = Inr (JBool True, r)"
  "scan_value flt (Suc n) (''false'' @ r) = Inr (JBool False, r)"
  by (simp_all add: scan_value.simps)

lemma scan_value_int: "delim r \<Longrightarrow> scan_value flt (Suc n) (str_int i @ r) = Inr (JInt i, r)"
proof -
  assume r: "delim r"
  obtain c t where c: "str_int i = c # t" "numeral_char c" using str_int_hd by blast
  have ne: "c \<noteq> CHR 0x22" "c \<noteq> CHR ''{''" "c \<noteq> CHR ''[''" "c \<noteq> CHR ''n''" "c \<noteq> CHR ''t''" "c \<noteq> CHR ''f''" "c \<noteq> CHR ''N''" "c \<noteq> CHR ''I''"
    using c(2) by (auto simp: numeral_char_def digit_val_def)
  have "take 9 (str_int i @ r) \<noteq> ''-Infinity''"
  proof
    assume a: "take 9 (str_int i @ r) = ''-Infinity''"
    then have m: "c = CHR ''-''" by (simp add: c take_Cons' split: if_splits)
    have "t \<noteq> []" using c(1) m str_nat_digits [of "nat (- i)"] minus_no_digit str_nat_chars [of c "nat i"]
      by (auto simp: str_int_def split: if_splits)
    then obtain d u where t: "t = d # u" by (cases t) auto
    then have "d = CHR ''I''" using a by (simp add: c(1) take_Cons')
    then show False using str_int_chars [of d i] c(1) t by (simp add: numeral_char_def digit_val_def)
  qed
  then show ?thesis using ne scan_int [OF r, of flt i] c(1) by (simp add: scan_value.simps take_Cons')
qed

lemma scan_sequence:
  assumes item: "\<And>x r n. x \<in> set xs \<Longrightarrow> delim r \<Longrightarrow> 2 * length (compact x) \<le> n \<Longrightarrow> scan_value flt n (compact x @ r) = Inr (canon x, r)"
    and ff: "list_all float_free xs"
    and fuel: "2 * length (join_str '','' (map compact xs)) < n" and ne: "xs \<noteq> []"
  shows "scan_items flt n acc (join_str '','' (map compact xs) @ CHR '']'' # r) = Inr (JList (rev acc @ map canon xs), r)"
  using item ff fuel ne
proof (induction xs arbitrary: acc n)
  case (Cons x xs)
  obtain m where n: "n = Suc m" using Cons.prems(3) by (cases n) auto
  show ?case
  proof (cases xs)
    case Nil
    have "scan_value flt m (compact x @ CHR '']'' # r) = Inr (canon x, CHR '']'' # r)"
      using Cons.prems(1,3) Nil n by simp
    then show ?thesis by (simp add: n Nil scan_items.simps skip_delim)
  next
    case (Cons y ys)
    let ?rest = "join_str '','' (map compact xs) @ CHR '']'' # r"
    have j: "join_str '','' (map compact (x # xs)) = compact x @ '','' @ join_str '','' (map compact xs)"
      using Cons by simp
    have "float_free y" using Cons.prems(2) Cons by simp
    then have sk: "skip_ws ?rest = ?rest" using skip_compact [of y] Cons by (simp add: join_Cons)
    have "scan_value flt m (compact x @ CHR '','' # ?rest) = Inr (canon x, CHR '','' # ?rest)"
      by (rule Cons.prems(1)) (use Cons.prems(3) n j in simp_all)
    moreover have "scan_items flt m (canon x # acc) ?rest = Inr (JList (rev (canon x # acc) @ map canon xs), r)"
      by (rule Cons.IH) (use Cons.prems Cons n j in auto)
    ultimately show ?thesis unfolding n j scan_items.simps by (simp add: skip_delim sk)
  qed
qed simp

lemma jset_append: "k \<notin> fst ` set acc \<Longrightarrow> jset acc k v = acc @ [(k, v)]"
  by (induction acc k v rule: jset.induct) auto

lemma scan_object:
  assumes item: "\<And>kv r n. kv \<in> set d \<Longrightarrow> delim r \<Longrightarrow> 2 * length (compact (snd kv)) \<le> n \<Longrightarrow>
        scan_value flt n (compact (snd kv) @ r) = Inr (canon (snd kv), r)"
    and ff: "list_all (\<lambda>kv. float_free (snd kv)) d" and dist: "distinct (map fst acc @ map fst d)"
    and fuel: "2 * length (join_str '','' (map (\<lambda>kv. quote (fst kv) @ '':'' @ compact (snd kv)) d)) < n" and ne: "d \<noteq> []"
  shows "\<exists>t. join_str '','' (map (\<lambda>kv. quote (fst kv) @ '':'' @ compact (snd kv)) d) @ CHR ''}'' # r = CHR 0x22 # t \<and>
    scan_members flt n acc t = Inr (JObj (acc @ map (\<lambda>kv. (fst kv, canon (snd kv))) d), r)"
  using item ff dist fuel ne
proof (induction d arbitrary: acc n)
  case (Cons x d)
  let ?f = "\<lambda>kv. quote (fst kv) @ '':'' @ compact (snd kv)"
  obtain m where n: "n = Suc m" using Cons.prems(4) by (cases n) auto
  have sv: "skip_ws (compact (snd x) @ q) = compact (snd x) @ q" for q
    using Cons.prems(2) by (intro skip_compact) simp
  have js: "jset acc (fst x) (canon (snd x)) = acc @ [(fst x, canon (snd x))]"
    using Cons.prems(3) by (intro jset_append) auto
  have colon: "skip_ws (CHR '':'' # q) = CHR '':'' # q" for q by (simp add: skip_ws_def json_space_def)
  show ?case
  proof (cases d)
    case Nil
    have "scan_value flt m (compact (snd x) @ CHR ''}'' # r) = Inr (canon (snd x), CHR ''}'' # r)"
      by (rule Cons.prems(1)) (use Cons.prems(4) Nil n in simp_all)
    then show ?thesis using sv [of "CHR ''}'' # r"] js
      by (simp add: n Nil quote_def scan_members.simps scan_quoted colon skip_delim)
  next
    case (Cons y ys)
    let ?rest = "join_str '','' (map ?f d) @ CHR ''}'' # r"
    have j: "join_str '','' (map ?f (x # d)) = ?f x @ '','' @ join_str '','' (map ?f d)" using Cons by simp
    have fuel: "2 * length (join_str '','' (map ?f d)) < m" "2 * length (compact (snd x)) \<le> m"
      using Cons.prems(4) unfolding j n by simp_all
    have "\<exists>t. ?rest = CHR 0x22 # t \<and> scan_members flt m (acc @ [(fst x, canon (snd x))]) t =
        Inr (JObj ((acc @ [(fst x, canon (snd x))]) @ map (\<lambda>kv. (fst kv, canon (snd kv))) d), r)"
      by (rule Cons.IH) (use Cons.prems Cons fuel in auto)
    then obtain t where t: "?rest = CHR 0x22 # t" "scan_members flt m (acc @ [(fst x, canon (snd x))]) t =
        Inr (JObj ((acc @ [(fst x, canon (snd x))]) @ map (\<lambda>kv. (fst kv, canon (snd kv))) d), r)" by blast
    have v: "scan_value flt m (compact (snd x) @ CHR '','' # CHR 0x22 # t) = Inr (canon (snd x), CHR '','' # CHR 0x22 # t)"
      by (rule Cons.prems(1)) (use fuel in simp_all)
    have q: "skip_ws (CHR 0x22 # t) = CHR 0x22 # t" by (simp add: skip_ws_def json_space_def)
    have "join_str '','' (map ?f (x # d)) @ CHR ''}'' # r = CHR 0x22 # concat (map escape_char (fst x)) @ CHR 0x22 # CHR '':'' #
        compact (snd x) @ CHR '','' # CHR 0x22 # t"
      unfolding j using t(1) by (simp add: quote_def)
    then show ?thesis using sv js t(2) v q
      by (simp add: n scan_members.simps scan_quoted colon skip_delim)
  qed
qed simp

lemma scan_compact:
  "float_free v \<Longrightarrow> wf_json v \<Longrightarrow> delim r \<Longrightarrow> 2 * length (compact v) \<le> n \<Longrightarrow> scan_value flt n (compact v @ r) = Inr (canon v, r)"
proof (induction v arbitrary: r n)
  case JNull
  then obtain m where "n = Suc m" by (cases n) auto
  then show ?case using scan_word(1) [of flt m r] by simp
next
  case (JBool b)
  then obtain m where "n = Suc m" by (cases n) (auto split: if_splits)
  then show ?case using scan_word(2,3) [of flt m r] by simp
next
  case (JInt i)
  then obtain m where "n = Suc m" using str_int_hd [of i] by (cases n) auto
  then show ?case using scan_value_int JInt.prems(3) by simp
next
  case (JFloat q)
  then show ?case by simp
next
  case (JStr t)
  then obtain m where "n = Suc m" by (cases n) (auto simp: quote_def)
  then show ?case using scan_quoted [of "[]" t r] by (simp add: scan_value.simps quote_def)
next
  case (JList xs)
  then obtain m where n: "n = Suc m" by (cases n) auto
  have c: "compact (JList xs) @ r = CHR ''['' # join_str '','' (map compact xs) @ CHR '']'' # r" by simp
  show ?case
  proof (cases xs)
    case Nil
    then show ?thesis unfolding n c by (simp add: scan_value.simps skip_ws_def json_space_def)
  next
    case (Cons x ys)
    have "float_free x" using JList.prems(1) Cons by simp
    then have sk: "skip_ws (join_str '','' (map compact xs) @ CHR '']'' # r) = join_str '','' (map compact xs) @ CHR '']'' # r"
      using skip_compact [of x] Cons by (simp add: join_Cons)
    have nb: "join_str '','' (map compact xs) @ CHR '']'' # r \<noteq> CHR '']'' # q" for q
      using compact_start [OF \<open>float_free x\<close>] Cons by (simp add: join_Cons)
    have "scan_items flt m [] (join_str '','' (map compact xs) @ CHR '']'' # r) = Inr (JList (rev [] @ map canon xs), r)"
    proof (rule scan_sequence)
      fix x r n assume "x \<in> set xs" "delim r" "2 * length (compact x) \<le> n"
      then show "scan_value flt n (compact x @ r) = Inr (canon x, r)" using JList by (auto simp: list_all_iff)
    qed (use JList.prems Cons n c in auto)
    then show ?thesis using nb unfolding n c by (auto simp: scan_value.simps sk split: list.splits)
  qed
next
  case (JObj d)
  then obtain m where n: "n = Suc m" by (cases n) auto
  let ?f = "\<lambda>kv. quote (fst kv) @ '':'' @ compact (snd kv)" and ?d = "sort_key fst d"
  have c: "compact (JObj d) @ r = CHR ''{'' # join_str '','' (map ?f ?d) @ CHR ''}'' # r" unfolding compact_obj by simp
  have l: "length (compact (JObj d)) = length (join_str '','' (map ?f ?d)) + 2" unfolding compact_obj by simp
  show ?case
  proof (cases "d = []")
    case True
    then show ?thesis unfolding n c by (simp add: scan_value.simps skip_ws_def json_space_def)
  next
    case False
    have "\<exists>t. join_str '','' (map ?f ?d) @ CHR ''}'' # r = CHR 0x22 # t \<and>
        scan_members flt m [] t = Inr (JObj ([] @ map (\<lambda>kv. (fst kv, canon (snd kv))) ?d), r)"
    proof (rule scan_object)
      fix kv r n assume kv: "kv \<in> set ?d" "delim r" "2 * length (compact (snd kv)) \<le> n"
      show "scan_value flt n (compact (snd kv) @ r) = Inr (canon (snd kv), r)"
        by (rule JObj.IH [of kv]) (use kv JObj.prems in \<open>auto simp: list_all_iff snds.simps\<close>)
    next
      show "distinct (map fst [] @ map fst ?d)" using JObj.prems(2) by (simp add: distinct_map)
      show "?d \<noteq> []" using False by (metis set_empty set_sort)
      show "2 * length (join_str '','' (map ?f ?d)) < m" using JObj.prems(4) l n by simp
    qed (use JObj.prems in \<open>simp add: list_all_iff\<close>)
    then obtain t where t: "join_str '','' (map ?f ?d) @ CHR ''}'' # r = CHR 0x22 # t"
      "scan_members flt m [] t = Inr (JObj (map (\<lambda>kv. (fst kv, canon (snd kv))) ?d), r)" by auto
    show ?thesis unfolding n c t(1) using t(2) by (simp add: scan_value.simps skip_ws_def json_space_def sort_map)
  qed
qed

lemma json_loads_compact:
  assumes "float_free v" "wf_json v"
  shows "json_loads flt (compact v) = Inr (canon v)"
proof -
  have "skip_ws (compact v @ []) = compact v @ []" by (rule skip_compact [OF assms(1)])
  moreover have "scan_value flt (2 * length (compact v) + 1) (compact v @ []) = Inr (canon v, [])"
    by (rule scan_compact [OF assms]) simp_all
  ultimately show ?thesis by (simp add: json_loads_def skip_ws_def)
qed

end
