(* ===== verification/Crypto.thy ===== *)
theory Crypto
  imports Json_Parse
begin

text \<open>
  Envelope encryption of sensitive values (\<^verbatim>\<open>app/core/crypto.py\<close>): URL-safe base64, the keyring and
  its checks, the self-describing envelope bound to the row that owns it, fingerprints and redaction.
  AES-GCM, SHA-256 and HMAC are parameters. Strings are ASCII, so that encoding and decoding them is the
  identity, and a byte string is a string of HOL characters.
\<close>

subsection \<open>Base64\<close>

definition b64_char :: "nat \<Rightarrow> char" where
  "b64_char n =
     (if n < 26 then char_of (65 + n) else if n < 52 then char_of (71 + n)
      else if n < 62 then char_of (n - 4) else if n = 62 then CHR ''-'' else CHR ''_'')"

text \<open>The decoder translates \<^verbatim>\<open>-_\<close> to \<^verbatim>\<open>+/\<close> and then accepts the standard alphabet.\<close>

definition b64_val :: "char \<Rightarrow> nat option" where
  "b64_val c =
     (let n = (of_char c :: nat) in
      if 65 \<le> n \<and> n \<le> 90 then Some (n - 65)
      else if 97 \<le> n \<and> n \<le> 122 then Some (n - 71)
      else if 48 \<le> n \<and> n \<le> 57 then Some (n + 4)
      else if c = CHR ''-'' \<or> c = CHR ''+'' then Some 62
      else if c = CHR ''_'' \<or> c = CHR ''/'' then Some 63 else None)"

fun urlsafe_b64encode :: "string \<Rightarrow> string" where
  "urlsafe_b64encode [] = []"
| "urlsafe_b64encode [a] =
     [b64_char (of_char a div 4), b64_char (of_char a mod 4 * 16), CHR ''='', CHR ''='']"
| "urlsafe_b64encode [a, b] =
     [b64_char (of_char a div 4), b64_char (of_char a mod 4 * 16 + of_char b div 16), b64_char (of_char b mod 16 * 4), CHR ''='']"
| "urlsafe_b64encode (a # b # c # s) =
     b64_char (of_char a div 4) # b64_char (of_char a mod 4 * 16 + of_char b div 16) #
     b64_char (of_char b mod 16 * 4 + of_char c div 64) # b64_char (of_char c mod 64) # urlsafe_b64encode s"

text \<open>
  \<^verbatim>\<open>binascii.a2b_base64\<close> in its lenient mode: the position in the quad, the bits carried over, the pads
  seen. Characters outside the alphabet are skipped; its error is a \<^verbatim>\<open>ValueError\<close>.
\<close>

fun a2b :: "nat \<Rightarrow> nat \<Rightarrow> nat \<Rightarrow> string \<Rightarrow> string \<Rightarrow> py_error + string" where
  "a2b pos left pads out [] = (if pos = 0 then Inr (rev out) else Inl ValueError)"
| "a2b pos left pads out (c # cs) =
     (if c = CHR ''='' then
        (if 2 \<le> pos then
           (if 4 \<le> pos + (pads + 1) then Inr (rev out) else a2b pos left (pads + 1) out cs)
         else a2b pos left pads out cs)
      else case b64_val c of
        None \<Rightarrow> a2b pos left pads out cs
      | Some v \<Rightarrow>
        (if pos = 0 then a2b 1 v 0 out cs
         else if pos = 1 then a2b 2 (v mod 16) 0 (char_of (left * 4 + v div 16) # out) cs
         else if pos = 2 then a2b 3 (v mod 4) 0 (char_of (left * 16 + v div 4) # out) cs
         else a2b 0 0 0 (char_of (left * 64 + v) # out) cs))"

definition ascii :: "string \<Rightarrow> bool" where
  "ascii s \<longleftrightarrow> list_all (\<lambda>c. (of_char c :: nat) < 128) s"

definition b64e :: "string \<Rightarrow> string" where
  "b64e raw = rev (dropWhile (\<lambda>c. c = CHR ''='') (rev (urlsafe_b64encode raw)))"

definition b64d :: "string \<Rightarrow> py_error + string" where
  "b64d value =
     (let padded = value @ replicate (nat (- int (length value) mod 4)) (CHR ''='')
      in if ascii padded then a2b 0 0 0 [] padded else Inl ValueError)"

subsection \<open>Parameters and errors\<close>

datatype aead_error = InvalidTag | AeadValueError

datatype crypto_error =
    SensitiveDataError
  | EncryptionUnavailableError
  | DecryptionError
  | StopIteration
  | CryptoRaised py_error
  | Outside_Model

text \<open>
  AES-GCM of the \<^verbatim>\<open>cryptography\<close> package (key, nonce, data, associated data), the digests, the reader
  and printer of floats, and \<^verbatim>\<open>str\<close> of compound values.
\<close>

record crypto_lib =
  seal :: "string \<Rightarrow> string \<Rightarrow> string \<Rightarrow> string \<Rightarrow> string"
  unseal :: "string \<Rightarrow> string \<Rightarrow> string \<Rightarrow> string \<Rightarrow> aead_error + string"
  sha_digest :: "string \<Rightarrow> string"
  sha_hex :: "string \<Rightarrow> string"
  hmac_hex :: "string \<Rightarrow> string \<Rightarrow> string"
  float_text :: "rat \<Rightarrow> string"
  text_float :: "string \<Rightarrow> rat option"
  value_str :: "json \<Rightarrow> string"

definition CIPHER_VERSION :: string where
  "CIPHER_VERSION = ''v1''"

definition NONCE_BYTES :: nat where
  "NONCE_BYTES = 12"

definition KEY_BYTES :: nat where
  "KEY_BYTES = 32"

definition canonical_bytes :: "crypto_lib \<Rightarrow> json \<Rightarrow> string" where
  "canonical_bytes lib v = (case v of JStr s \<Rightarrow> s | _ \<Rightarrow> json_text (float_text lib) '','' '':'' v)"

definition content_sha256 :: "crypto_lib \<Rightarrow> json \<Rightarrow> string" where
  "content_sha256 lib v = sha_hex lib (canonical_bytes lib v)"

subsection \<open>Keyring\<close>

record Keyring =
  kr_keys :: "(string \<times> string) list"
  kr_active_key_id :: string

text \<open>\<^verbatim>\<open>$\<close> also matches before a final newline.\<close>

definition key_id_char :: "char \<Rightarrow> bool" where
  "key_id_char c \<longleftrightarrow> is_lower c \<or> (65 \<le> (of_char c :: nat) \<and> (of_char c :: nat) \<le> 90) \<or> is_digit c \<or>
     c = CHR ''.'' \<or> c = CHR ''_'' \<or> c = CHR ''-''"

definition key_id_ok :: "string \<Rightarrow> bool" where
  "key_id_ok s =
     (let core = (if s \<noteq> [] \<and> last s = CHR 0x0A then butlast s else s)
      in 1 \<le> length core \<and> length core \<le> 64 \<and>
         list_all key_id_char core)"

definition make_keyring :: "(string \<times> string) list \<Rightarrow> string \<Rightarrow> crypto_error + Keyring" where
  "make_keyring keys active =
     (if keys = [] then Inl EncryptionUnavailableError
      else if active \<notin> set (map fst keys) then Inl EncryptionUnavailableError
      else if list_all (\<lambda>(k, m). key_id_ok k \<and> length m = KEY_BYTES) keys
      then Inr \<lparr>kr_keys = keys, kr_active_key_id = active\<rparr>
      else Inl EncryptionUnavailableError)"

definition keyring_key :: "Keyring \<Rightarrow> string \<Rightarrow> crypto_error + string" where
  "keyring_key kr i = (case map_of (kr_keys kr) i of None \<Rightarrow> Inl DecryptionError | Some m \<Rightarrow> Inr m)"

definition crypto_py :: "py_error + 'a \<Rightarrow> crypto_error + 'a" where
  "crypto_py m = (case m of Inl e \<Rightarrow> Inl (CryptoRaised e) | Inr a \<Rightarrow> Inr a)"

definition from_mapping :: "(string \<times> string) list \<Rightarrow> string option \<Rightarrow> crypto_error + Keyring" where
  "from_mapping mapping active =
     bindE (mapE (\<lambda>(k, m). bindE (crypto_py (b64d m)) (\<lambda>raw. Inr (k, raw))) mapping) (\<lambda>decoded.
     (case active of
        Some (c # cs) \<Rightarrow> make_keyring decoded (c # cs)
      | _ \<Rightarrow> (case decoded of [] \<Rightarrow> Inl StopIteration | (k, _) # _ \<Rightarrow> make_keyring decoded k)))"

definition KEYS_ENV_VAR :: string where
  "KEYS_ENV_VAR = ''INFORMATION_ENCRYPTION_KEYS''"

definition ACTIVE_KEY_ENV_VAR :: string where
  "ACTIVE_KEY_ENV_VAR = ''INFORMATION_ENCRYPTION_ACTIVE_KEY''"

definition str_of :: "crypto_lib \<Rightarrow> json \<Rightarrow> string" where
  "str_of lib v = py_str \<lparr>re_search = (\<lambda>_ _ _. False), re_compiles = (\<lambda>_. False), str_other = value_str lib\<rparr> v"

definition from_environment :: "crypto_lib \<Rightarrow> (string \<rightharpoonup> string) \<Rightarrow> crypto_error + Keyring" where
  "from_environment lib source =
     (let raw = py_strip (case source KEYS_ENV_VAR of None \<Rightarrow> [] | Some s \<Rightarrow> s) in
      if raw = [] then Inl EncryptionUnavailableError
      else case json_loads (text_float lib) raw of
        Inl Unrepresentable \<Rightarrow> Inl Outside_Model
      | Inl _ \<Rightarrow> Inl EncryptionUnavailableError
      | Inr (JObj (kv # d)) \<Rightarrow> from_mapping (map (\<lambda>(k, v). (k, str_of lib v)) (kv # d)) (source ACTIVE_KEY_ENV_VAR)
      | Inr _ \<Rightarrow> Inl EncryptionUnavailableError)"

subsection \<open>Cipher\<close>

definition aad :: "string \<Rightarrow> string \<Rightarrow> string" where
  "aad entity_type entity_id = entity_type @ '':'' @ entity_id"

definition encrypt :: "crypto_lib \<Rightarrow> Keyring \<Rightarrow> string \<Rightarrow> json \<Rightarrow> string \<Rightarrow> string \<Rightarrow> crypto_error + string" where
  "encrypt lib kr nonce plaintext entity_type entity_id =
     (if entity_type = [] \<or> entity_id = [] then Inl SensitiveDataError
      else bindE (keyring_key kr (kr_active_key_id kr)) (\<lambda>key.
        let sealed = seal lib key nonce (canonical_bytes lib plaintext) (aad entity_type entity_id)
        in Inr (CIPHER_VERSION @ '':'' @ kr_active_key_id kr @ '':'' @ b64e nonce @ '':'' @ b64e sealed)))"

definition decrypt :: "crypto_lib \<Rightarrow> Keyring \<Rightarrow> string \<Rightarrow> string \<Rightarrow> string \<Rightarrow> crypto_error + string" where
  "decrypt lib kr ciphertext entity_type entity_id =
     (case split_on (CHR '':'') ciphertext of
        [version, key_id, nonce_b64, payload_b64] \<Rightarrow>
          (if version \<noteq> CIPHER_VERSION then Inl DecryptionError
           else case (b64d nonce_b64, b64d payload_b64) of
             (Inr nonce, Inr payload) \<Rightarrow>
               bindE (keyring_key kr key_id) (\<lambda>key.
               (case unseal lib key nonce payload (aad entity_type entity_id) of
                  Inr plain \<Rightarrow> Inr plain
                | Inl InvalidTag \<Rightarrow> Inl DecryptionError
                | Inl AeadValueError \<Rightarrow> Inl (CryptoRaised ValueError)))
           | _ \<Rightarrow> Inl DecryptionError)
      | _ \<Rightarrow> Inl DecryptionError)"

definition decrypt_json :: "crypto_lib \<Rightarrow> Keyring \<Rightarrow> string \<Rightarrow> string \<Rightarrow> string \<Rightarrow> crypto_error + json" where
  "decrypt_json lib kr ciphertext entity_type entity_id =
     bindE (decrypt lib kr ciphertext entity_type entity_id) (\<lambda>raw.
       case json_loads (text_float lib) raw of
         Inr v \<Rightarrow> Inr v
       | Inl Unrepresentable \<Rightarrow> Inl Outside_Model
       | Inl _ \<Rightarrow> Inr (JStr raw))"

definition fingerprint :: "crypto_lib \<Rightarrow> Keyring \<Rightarrow> json \<Rightarrow> crypto_error + string" where
  "fingerprint lib kr plaintext =
     bindE (keyring_key kr (kr_active_key_id kr)) (\<lambda>key.
       Inr (hmac_hex lib (sha_digest lib (''astra-fingerprint-v1:'' @ key)) (canonical_bytes lib plaintext)))"

subsection \<open>Redaction\<close>

definition dump_text :: "crypto_lib \<Rightarrow> json \<Rightarrow> string" where
  "dump_text lib v = (case v of JStr s \<Rightarrow> s | _ \<Rightarrow> json_text (float_text lib) '', '' '': '' v)"

definition redact :: "crypto_lib \<Rightarrow> json \<Rightarrow> int \<Rightarrow> string \<Rightarrow> string" where
  "redact lib v keep_last placeholder =
     (let t = dump_text lib v in
      if t = [] then []
      else if 0 < keep_last \<and> keep_last < int (length t)
      then concat (replicate 4 placeholder) @ drop (length t - nat keep_last) t
      else concat (replicate (if length t \<le> 8 then 4 else if length t \<le> 32 then 8 else 12) placeholder))"

definition mask_for_sensitivity :: "crypto_lib \<Rightarrow> json \<Rightarrow> string \<Rightarrow> int \<Rightarrow> string option" where
  "mask_for_sensitivity lib v sensitivity keep_last =
     (if v = JNull then None
      else if sensitivity = ''INTERNAL'' then Some (take 200 (dump_text lib v))
      else Some (redact lib v keep_last ''*''))"

subsection \<open>Base64 reads back what it wrote\<close>

lemma b64_val_char: "n < 64 \<Longrightarrow> b64_val (b64_char n) = Some n"
proof -
  assume n: "n < 64"
  consider "n < 26" | "26 \<le> n" "n < 52" | "52 \<le> n" "n < 62" | "n = 62" | "n = 63" using n by linarith
  then show ?thesis
  proof cases
    case 1
    then have "(of_char (b64_char n) :: nat) = 65 + n" by (simp add: b64_char_def)
    then show ?thesis using 1 by (simp add: b64_val_def)
  next
    case 2
    then have "(of_char (b64_char n) :: nat) = 71 + n" by (simp add: b64_char_def)
    then show ?thesis using 2 by (simp add: b64_val_def)
  next
    case 3
    then have "(of_char (b64_char n) :: nat) = n - 4" by (simp add: b64_char_def)
    moreover have "48 \<le> n - 4" "n - 4 \<le> 57" "\<not> 65 \<le> n - 4" "\<not> 97 \<le> n - 4" "n - 4 + 4 = n" using 3 by arith+
    ultimately show ?thesis by (simp add: b64_val_def Let_def)
  qed (simp_all add: b64_char_def b64_val_def)
qed

lemma b64_char_noteq: "n < 64 \<Longrightarrow> b64_char n \<noteq> CHR ''=''"
  using b64_val_char [of n] by (auto simp: b64_val_def)

lemma b64_val_ascii: "b64_val c \<noteq> None \<Longrightarrow> (of_char c :: nat) < 128 \<and> c \<noteq> CHR '':''"
  by (auto simp: b64_val_def Let_def split: if_splits)

lemma quad_bounds [simp]:
  "(of_char a :: nat) div 4 < 64" "(of_char a :: nat) mod 4 * 16 + of_char b div 16 < 64" "(of_char a :: nat) mod 4 * 16 < 64"
  "(of_char b :: nat) mod 16 * 4 + of_char c div 64 < 64" "(of_char b :: nat) mod 16 * 4 < 64" "(of_char c :: nat) mod 64 < 64"
proof -
  have b: "(of_char k :: nat) < 256" for k by (rule nat_of_char_less_256)
  show "(of_char a :: nat) div 4 < 64" using b [of a] by (simp add: less_mult_imp_div_less)
  have "(of_char b :: nat) div 16 < 16" using b [of b] by (simp add: less_mult_imp_div_less)
  moreover have "(of_char a :: nat) mod 4 < 4" by simp
  ultimately show "(of_char a :: nat) mod 4 * 16 + of_char b div 16 < 64" by linarith
  show "(of_char a :: nat) mod 4 * 16 < 64" by simp
  have "(of_char c :: nat) div 64 < 4" using b [of c] by (simp add: less_mult_imp_div_less)
  moreover have "(of_char b :: nat) mod 16 < 16" by simp
  ultimately show "(of_char b :: nat) mod 16 * 4 + of_char c div 64 < 64" by linarith
  show "(of_char b :: nat) mod 16 * 4 < 64" "(of_char c :: nat) mod 64 < 64" by simp_all
qed

lemma byte_again:
  "char_of ((of_char a :: nat) div 4 * 4 + (of_char a mod 4 * 16 + of_char b div 16) div 16) = a"
  "char_of ((of_char a :: nat) div 4 * 4 + of_char a mod 4 * 16 div 16) = a"
  "char_of ((of_char a mod 4 * 16 + (of_char b :: nat) div 16) mod 16 * 16 + (of_char b mod 16 * 4 + of_char c div 64) div 4) = b"
  "char_of ((of_char a mod 4 * 16 + (of_char b :: nat) div 16) mod 16 * 16 + of_char b mod 16 * 4 div 4) = b"
  "char_of ((of_char b mod 16 * 4 + (of_char c :: nat) div 64) mod 4 * 64 + of_char c mod 64) = c"
proof -
  have k: "(of_char k :: nat) < 256" for k by (rule nat_of_char_less_256)
  have b: "(of_char b :: nat) div 16 < 16" and c: "(of_char c :: nat) div 64 < 4"
    using k [of b] k [of c] by (simp_all add: less_mult_imp_div_less)
  have "((of_char a :: nat) mod 4 * 16 + of_char b div 16) div 16 = of_char a mod 4" using b by simp
  then show "char_of ((of_char a :: nat) div 4 * 4 + (of_char a mod 4 * 16 + of_char b div 16) div 16) = a"
    by (simp add: div_mult_mod_eq)
  show "char_of ((of_char a :: nat) div 4 * 4 + of_char a mod 4 * 16 div 16) = a" by (simp add: div_mult_mod_eq)
  have b16: "(of_char a mod 4 * 16 + (of_char b :: nat) div 16) mod 16 = of_char b div 16" using b by simp
  have c4: "(of_char b mod 16 * 4 + (of_char c :: nat) div 64) div 4 = of_char b mod 16" using c by simp
  show "char_of ((of_char a mod 4 * 16 + (of_char b :: nat) div 16) mod 16 * 16 + (of_char b mod 16 * 4 + of_char c div 64) div 4) = b"
    unfolding b16 c4 by (simp add: div_mult_mod_eq)
  show "char_of ((of_char a mod 4 * 16 + (of_char b :: nat) div 16) mod 16 * 16 + of_char b mod 16 * 4 div 4) = b"
    unfolding b16 by (simp add: div_mult_mod_eq)
  have "(of_char b mod 16 * 4 + (of_char c :: nat) div 64) mod 4 = of_char c div 64" using c by simp
  then show "char_of ((of_char b mod 16 * 4 + (of_char c :: nat) div 64) mod 4 * 64 + of_char c mod 64) = c"
    by (simp add: div_mult_mod_eq)
qed

lemma a2b_step:
  "v < 64 \<Longrightarrow> a2b 0 left pads out (b64_char v # cs) = a2b 1 v 0 out cs"
  "v < 64 \<Longrightarrow> a2b 1 left pads out (b64_char v # cs) = a2b 2 (v mod 16) 0 (char_of (left * 4 + v div 16) # out) cs"
  "v < 64 \<Longrightarrow> a2b 2 left pads out (b64_char v # cs) = a2b 3 (v mod 4) 0 (char_of (left * 16 + v div 4) # out) cs"
  "v < 64 \<Longrightarrow> a2b 3 left pads out (b64_char v # cs) = a2b 0 0 0 (char_of (left * 64 + v) # out) cs"
  by (simp_all add: b64_char_noteq b64_val_char)

lemma a2b_pads: "a2b 2 l 0 out ''=='' = Inr (rev out)" "a2b 3 l 0 out ''='' = Inr (rev out)"
  by simp_all

lemma a2b_encode: "a2b 0 0 0 out (urlsafe_b64encode raw) = Inr (rev out @ raw)"
proof (induction raw arbitrary: out rule: urlsafe_b64encode.induct)
  case (2 a)
  show ?case unfolding urlsafe_b64encode.simps
    by (simp only: a2b_step quad_bounds byte_again a2b_pads rev.simps append_assoc append.simps)
next
  case (3 a b)
  show ?case unfolding urlsafe_b64encode.simps
    by (simp only: a2b_step quad_bounds byte_again a2b_pads rev.simps append_assoc append.simps)
next
  case (4 a b c s)
  then show ?case unfolding urlsafe_b64encode.simps by (simp only: a2b_step quad_bounds byte_again rev.simps append_assoc append.simps)
qed simp

text \<open>Stripping the padding and adding it again gives the encoder's text.\<close>

lemma encode_length: "length (urlsafe_b64encode raw) mod 4 = 0"
  by (induction raw rule: urlsafe_b64encode.induct) simp_all

lemma encode_shape:
  "\<exists>body pad. urlsafe_b64encode raw = body @ replicate pad (CHR ''='') \<and> pad \<le> 2 \<and> list_all (\<lambda>c. b64_val c \<noteq> None) body"
proof (induction raw rule: urlsafe_b64encode.induct)
  case 1
  then show ?case by (intro exI [of _ "[]"] exI [of _ 0]) simp
next
  case (2 a)
  show ?case
    by (intro exI [of _ "[b64_char (of_char a div 4), b64_char (of_char a mod 4 * 16)]"] exI [of _ 2])
       (simp add: b64_val_char numeral_2_eq_2)
next
  case (3 a b)
  show ?case
    by (intro exI [of _ "[b64_char (of_char a div 4), b64_char (of_char a mod 4 * 16 + of_char b div 16), b64_char (of_char b mod 16 * 4)]"] exI [of _ 1])
       (simp add: b64_val_char)
next
  case (4 a b c s)
  then obtain body pad where b: "urlsafe_b64encode s = body @ replicate pad (CHR ''='')" "pad \<le> 2" "list_all (\<lambda>c. b64_val c \<noteq> None) body"
    by blast
  then show ?case
    by (intro exI [of _ "b64_char (of_char a div 4) # b64_char (of_char a mod 4 * 16 + of_char b div 16) #
         b64_char (of_char b mod 16 * 4 + of_char c div 64) # b64_char (of_char c mod 64) # body"] exI [of _ pad])
       (simp add: b64_val_char)
qed

lemma no_pad_char: "b64_val c \<noteq> None \<Longrightarrow> c \<noteq> CHR ''=''"
  by (auto simp: b64_val_def)

lemma b64e_shape:
  obtains pad where "urlsafe_b64encode raw = b64e raw @ replicate pad (CHR ''='')" "pad \<le> 2"
    "list_all (\<lambda>c. b64_val c \<noteq> None) (b64e raw)"
proof -
  obtain body pad where b: "urlsafe_b64encode raw = body @ replicate pad (CHR ''='')" "pad \<le> 2" "list_all (\<lambda>c. b64_val c \<noteq> None) body"
    using encode_shape [of raw] by blast
  have d: "dropWhile (\<lambda>c. c = CHR ''='') (replicate n (CHR ''='') @ xs) = dropWhile (\<lambda>c. c = CHR ''='') xs" for n xs
    by (induction n) simp_all
  have "dropWhile (\<lambda>c. c = CHR ''='') (rev body) = rev body"
    using b(3) no_pad_char by (cases "rev body") (auto simp: list_all_iff dest: arg_cong [of _ _ set])
  then have "b64e raw = body" by (simp add: b64e_def b(1) d)
  then show thesis using b that by blast
qed

lemma b64d_b64e: "b64d (b64e raw) = Inr raw"
proof -
  obtain pad where p: "urlsafe_b64encode raw = b64e raw @ replicate pad (CHR ''='')" "pad \<le> 2"
    "list_all (\<lambda>c. b64_val c \<noteq> None) (b64e raw)" by (rule b64e_shape)
  have "(length (b64e raw) + pad) mod 4 = 0" using encode_length [of raw] by (simp add: p(1))
  then obtain q where "length (b64e raw) + pad = 4 * q" using mult_div_mod_eq [of 4 "length (b64e raw) + pad"] by auto
  then have "- int (length (b64e raw)) = int pad + 4 * (- int q)" by linarith
  then have "- int (length (b64e raw)) mod 4 = int pad mod 4" by (simp only: mod_mult_self2)
  then have "- int (length (b64e raw)) mod 4 = int pad" using p(2) by simp
  then have e: "b64e raw @ replicate (nat (- int (length (b64e raw)) mod 4)) (CHR ''='') = urlsafe_b64encode raw" by (simp add: p(1))
  have "ascii (urlsafe_b64encode raw)"
    unfolding ascii_def list_all_iff
  proof
    fix c assume "c \<in> set (urlsafe_b64encode raw)"
    then consider "c \<in> set (b64e raw)" | "c = CHR ''=''" unfolding p(1) set_append by (auto split: if_splits)
    then show "(of_char c :: nat) < 128"
    proof cases
      case 1
      then have "b64_val c \<noteq> None" using p(3) unfolding list_all_iff by blast
      then show ?thesis using b64_val_ascii by blast
    qed simp
  qed
  then show ?thesis using a2b_encode [of "[]" raw] by (simp add: b64d_def e Let_def)
qed

lemma b64e_no_colon: "CHR '':'' \<notin> set (b64e raw)"
proof (rule b64e_shape [of raw])
  fix pad assume "list_all (\<lambda>c. b64_val c \<noteq> None) (b64e raw)"
  then show ?thesis using b64_val_ascii by (auto simp: list_all_iff)
qed

subsection \<open>Envelopes\<close>

lemma split_on_none: "c \<notin> set s \<Longrightarrow> split_on c s = [s]"
  by (induction s) auto

lemma split_on_append: "c \<notin> set s \<Longrightarrow> split_on c (s @ c # t) = s # split_on c t"
  by (induction s) auto

lemma key_id_no_colon: "key_id_ok k \<Longrightarrow> CHR '':'' \<notin> set k"
proof
  assume k: "key_id_ok k" and c: "CHR '':'' \<in> set k"
  have nk: "\<not> key_id_char (CHR '':'')" by (simp add: key_id_char_def is_lower_def is_digit_def)
  show False
  proof (cases "k \<noteq> [] \<and> last k = CHR 0x0A")
    case True
    then have "set k = insert (CHR 0x0A) (set (butlast k))" by (metis append_butlast_last_id list.set(1) list.set(2) set_append Un_commute insert_is_Un)
    then show ?thesis using k c nk True by (auto simp: key_id_ok_def Let_def list_all_iff)
  next
    case False
    then show ?thesis using k c nk by (auto simp: key_id_ok_def Let_def list_all_iff)
  qed
qed

text \<open>A keyring as the constructor leaves it.\<close>

definition keyring_ok :: "Keyring \<Rightarrow> bool" where
  "keyring_ok kr \<longleftrightarrow> kr_active_key_id kr \<in> set (map fst (kr_keys kr)) \<and>
     list_all (\<lambda>(k, m). key_id_ok k \<and> length m = KEY_BYTES) (kr_keys kr)"

lemma make_keyring_ok: "make_keyring keys active = Inr kr \<Longrightarrow> keyring_ok kr \<and> kr_keys kr = keys \<and> kr_active_key_id kr = active"
  by (auto simp: make_keyring_def keyring_ok_def intro: rev_image_eqI split: if_splits)

lemma from_mapping_ok: "from_mapping mapping active = Inr kr \<Longrightarrow> keyring_ok kr"
proof -
  assume "from_mapping mapping active = Inr kr"
  then obtain decoded where "(case active of Some (c # cs) \<Rightarrow> make_keyring decoded (c # cs)
      | _ \<Rightarrow> (case decoded of [] \<Rightarrow> Inl StopIteration | (k, _) # _ \<Rightarrow> make_keyring decoded k)) = Inr kr"
    unfolding from_mapping_def bindE_Inr_iff by blast
  then obtain k where "make_keyring decoded k = Inr kr"
    by (cases active; cases "the active"; cases decoded) auto
  then show ?thesis using make_keyring_ok by blast
qed

lemma from_environment_ok: "from_environment lib source = Inr kr \<Longrightarrow> keyring_ok kr"
  by (auto simp: from_environment_def Let_def dest: from_mapping_ok
      split: if_splits sum.splits json_error.splits json.splits list.splits)

text \<open>What the cipher is relied on for: it opens what it sealed, and only under the associated data it was sealed with.\<close>

definition aead_opens :: "crypto_lib \<Rightarrow> bool" where
  "aead_opens lib \<longleftrightarrow> (\<forall>k n p a. length k = 32 \<and> length n = 12 \<longrightarrow> unseal lib k n (seal lib k n p a) a = Inr p)"

definition aead_binds :: "crypto_lib \<Rightarrow> bool" where
  "aead_binds lib \<longleftrightarrow> (\<forall>k n p a b. length k = 32 \<and> length n = 12 \<and> b \<noteq> a \<longrightarrow> unseal lib k n (seal lib k n p a) b = Inl InvalidTag)"

lemma encrypt_Inr:
  assumes "encrypt lib kr nonce v ty i = Inr c" "keyring_ok kr"
  obtains key where "map_of (kr_keys kr) (kr_active_key_id kr) = Some key" "length key = 32" "ty \<noteq> []" "i \<noteq> []"
    "c = CIPHER_VERSION @ '':'' @ kr_active_key_id kr @ '':'' @ b64e nonce @ '':'' @ b64e (seal lib key nonce (canonical_bytes lib v) (aad ty i))"
    "split_on (CHR '':'') c = [CIPHER_VERSION, kr_active_key_id kr, b64e nonce, b64e (seal lib key nonce (canonical_bytes lib v) (aad ty i))]"
proof -
  obtain key where k: "map_of (kr_keys kr) (kr_active_key_id kr) = Some key" "ty \<noteq> []" "i \<noteq> []"
    and c: "c = CIPHER_VERSION @ '':'' @ kr_active_key_id kr @ '':'' @ b64e nonce @ '':'' @ b64e (seal lib key nonce (canonical_bytes lib v) (aad ty i))"
    using assms(1) by (auto simp: encrypt_def keyring_key_def err_simps Let_def split: if_splits option.splits)
  have m: "(kr_active_key_id kr, key) \<in> set (kr_keys kr)" using k(1) by (rule map_of_SomeD)
  then have ok: "key_id_ok (kr_active_key_id kr)" "length key = 32"
    using assms(2) by (auto simp: keyring_ok_def list_all_iff KEY_BYTES_def)
  have "split_on (CHR '':'') c = [CIPHER_VERSION, kr_active_key_id kr, b64e nonce, b64e (seal lib key nonce (canonical_bytes lib v) (aad ty i))]"
    using key_id_no_colon [OF ok(1)] by (simp add: c CIPHER_VERSION_def split_on_append split_on_none b64e_no_colon)
  then show thesis using that k ok(2) c by blast
qed

lemma decrypt_encrypt:
  assumes "encrypt lib kr nonce v ty i = Inr c" "keyring_ok kr" "length nonce = 12"
    and "map_of (kr_keys kr') (kr_active_key_id kr) = map_of (kr_keys kr) (kr_active_key_id kr)"
  shows "aead_opens lib \<Longrightarrow> decrypt lib kr' c ty i = Inr (canonical_bytes lib v)"
    and "aead_binds lib \<Longrightarrow> aad ty' i' \<noteq> aad ty i \<Longrightarrow> decrypt lib kr' c ty' i' = Inl DecryptionError"
proof -
  obtain key where k: "map_of (kr_keys kr) (kr_active_key_id kr) = Some key" "length key = 32"
    "split_on (CHR '':'') c = [CIPHER_VERSION, kr_active_key_id kr, b64e nonce, b64e (seal lib key nonce (canonical_bytes lib v) (aad ty i))]"
    using encrypt_Inr [OF assms(1,2)] by metis
  have d: "decrypt lib kr' c ty'' i'' =
      (case unseal lib key nonce (seal lib key nonce (canonical_bytes lib v) (aad ty i)) (aad ty'' i'') of
         Inr plain \<Rightarrow> Inr plain | Inl InvalidTag \<Rightarrow> Inl DecryptionError | Inl AeadValueError \<Rightarrow> Inl (CryptoRaised ValueError))" for ty'' i''
    by (simp add: decrypt_def k assms(4) b64d_b64e keyring_key_def)
  show "aead_opens lib \<Longrightarrow> decrypt lib kr' c ty i = Inr (canonical_bytes lib v)"
    using k(2) assms(3) by (simp add: d aead_opens_def)
  show "aead_binds lib \<Longrightarrow> aad ty' i' \<noteq> aad ty i \<Longrightarrow> decrypt lib kr' c ty' i' = Inl DecryptionError"
    using k(2) assms(3) by (simp add: d aead_binds_def)
qed

end
