(* ===== verification/Information_Registry.thy ===== *)
theory Information_Registry
  imports Case_Service Escalation Information_Scoping Information_Validation Crypto
begin

text \<open>
  The registry of reusable answers (\<^verbatim>\<open>app/services/information_registry_service.py\<close> over the tables of
  \<^verbatim>\<open>app/models/information.py\<close>): definitions, versioned values, their approval, their use and the reveal
  of encrypted ones. A call is a function from the database to an error or a result with the new database.
\<close>

subsection \<open>Tables\<close>

record information_definition =
  def_id :: uuid
  information_key :: string
  def_name :: string
  def_category :: string
  def_description :: "string option"
  def_data_type :: string
  def_sensitivity :: string
  default_owner_role :: "string option"
  validation_rules :: jdict
  reusable_policy :: string
  freshness_days :: "int option"
  display_keep_last :: int

record information_value =
  val_id :: uuid
  val_definition_id :: uuid
  val_legal_entity_id :: "uuid option"
  val_jurisdiction_id :: "uuid option"
  val_license_id :: "uuid option"
  val_vendor_organization_id :: "uuid option"
  val_compliance_case_id :: "uuid option"
  value_version :: int
  value_encrypted :: "string option"
  value_plain :: "jdict option"
  value_fingerprint :: string
  display_value_redacted :: "string option"
  val_status :: string
  valid_from :: "date option"
  valid_to :: "date option"
  owner_actor :: "string option"
  source_document_id :: "uuid option"
  source_reference :: "string option"
  val_created_by_actor :: "string option"
  approved_by_actor :: "string option"
  val_approved_at :: "datetime option"
  cross_entity_approved_by_actor :: "string option"
  cross_entity_approved_at :: "datetime option"
  superseded_by_value_id :: "uuid option"
  val_rejection_reason :: "string option"
  last_used_at :: "datetime option"

record value_usage =
  us_value_id :: uuid
  us_compliance_case_id :: "uuid option"
  us_form_instance_id :: "uuid option"
  us_packet_id :: "uuid option"
  used_by_actor :: string
  us_purpose :: string
  used_value_version :: int
  used_at :: datetime

record owner_assignment =
  oa_definition_id :: uuid
  oa_legal_entity_id :: "uuid option"
  oa_owner_actor :: string
  oa_is_primary :: bool
  oa_is_active :: bool
  oa_assigned_by_actor :: string

text \<open>
  \<^verbatim>\<open>rg_exists\<close> tells the rows of the other tables that foreign keys may refer to; an audit row comes with
  its metadata.
\<close>

record registry_db =
  definitions :: "information_definition list"
  reg_values :: "information_value list"
  usages :: "value_usage list"
  owners :: "owner_assignment list"
  reg_audits :: "(lic_audit \<times> jdict) list"
  rg_exists :: "string \<Rightarrow> uuid \<Rightarrow> bool"

record registry_settings =
  highly_restricted_enabled :: bool
  default_freshness_days :: "int option"

record registry_actor =
  ra_actor :: case_actor
  ra_roles :: "string list"

record registry_env =
  re_case :: case_env
  re_crypto :: crypto_lib
  re_values :: value_lib
  re_environ :: "string \<rightharpoonup> string"
  re_nonce :: string

text \<open>
  Errors: the application's own (\<^verbatim>\<open>SensitiveAccessDeniedError\<close> among them), and what escapes from the
  cipher.
\<close>

datatype registry_error = Refused domain_error | SensitiveAccessDenied | CipherFailure crypto_error

definition ensure :: "bool \<Rightarrow> registry_error \<Rightarrow> registry_error + unit" where
  "ensure ok e = (if ok then Inr () else Inl e)"

lemma ensure_simps [simp]: "ensure True e = Inr ()" "ensure False e = Inl e"
  by (simp_all add: ensure_def)

lemma ensure_Inr [err_simps]: "ensure ok e = Inr u \<longleftrightarrow> ok"
  by (simp add: ensure_def)

definition from_cipher :: "crypto_error + 'a \<Rightarrow> registry_error + 'a" where
  "from_cipher m = (case m of Inl e \<Rightarrow> Inl (CipherFailure e) | Inr a \<Rightarrow> Inr a)"

definition from_py :: "py_error + 'a \<Rightarrow> registry_error + 'a" where
  "from_py m = (case m of Inl e \<Rightarrow> Inl (Refused (Raised e)) | Inr a \<Rightarrow> Inr a)"

lemma from_cipher_Inr [err_simps]: "from_cipher m = Inr a \<longleftrightarrow> m = Inr a"
  by (cases m) (simp_all add: from_cipher_def)

lemma from_py_Inr [err_simps]: "from_py m = Inr a \<longleftrightarrow> m = Inr a"
  by (cases m) (simp_all add: from_py_def)

definition get_cipher :: "registry_env \<Rightarrow> registry_error + Keyring" where
  "get_cipher env =
     (case from_environment (re_crypto env) (re_environ env) of
        Inl EncryptionUnavailableError \<Rightarrow> Inl (Refused (StateConflictError ''Sensitive information cannot be stored because no encryption key material is configured.''))
      | Inl e \<Rightarrow> Inl (CipherFailure e)
      | Inr kr \<Rightarrow> Inr kr)"

definition get_value :: "registry_db \<Rightarrow> uuid \<Rightarrow> registry_error + information_value" where
  "get_value db i =
     (case get_row val_id (reg_values db) i of
        None \<Rightarrow> Inl (Refused (NotFoundError ''Information value not found.'')) | Some v \<Rightarrow> Inr v)"

definition get_definition :: "registry_db \<Rightarrow> uuid \<Rightarrow> registry_error + information_definition" where
  "get_definition db i =
     (case get_row def_id (definitions db) i of
        None \<Rightarrow> Inl (Refused (NotFoundError ''Information definition not found.'')) | Some d \<Rightarrow> Inr d)"

definition save_value :: "information_value \<Rightarrow> registry_db \<Rightarrow> registry_db" where
  "save_value v db = db\<lparr>reg_values := put_row val_id v (reg_values db)\<rparr>"

definition reg_audit ::
  "registry_env \<Rightarrow> registry_actor \<Rightarrow> string \<Rightarrow> uuid \<Rightarrow> string \<Rightarrow> attrs option \<Rightarrow> jdict \<Rightarrow> registry_db \<Rightarrow> registry_db" where
  "reg_audit env actor entity_type i action after metadata db =
     db\<lparr>reg_audits := reg_audits db @ [(licensing_audit (re_case env) (Some (ra_actor actor)) entity_type i action None after, metadata)]\<rparr>"

subsection \<open>Constraints\<close>

definition CATEGORIES :: "string list" where
  "CATEGORIES = [''CONTACT_INFORMATION'', ''CORPORATE_INFORMATION'', ''OFFICER_INFORMATION'', ''OWNERSHIP_INFORMATION'',
     ''POLICY_INFORMATION'', ''FINANCIAL_INFORMATION'', ''LICENSING_INFORMATION'', ''BOND_INFORMATION'',
     ''OPERATIONAL_INFORMATION'', ''ATTESTATION'', ''SIGNATURE_INFORMATION'']"

definition DATA_TYPES :: "string list" where
  "DATA_TYPES = [''TEXT'', ''LONG_TEXT'', ''INTEGER'', ''DECIMAL'', ''BOOLEAN'', ''DATE'', ''EMAIL'', ''PHONE'', ''URL'',
     ''ADDRESS'', ''CURRENCY'', ''ENUM'', ''JSON'', ''DOCUMENT_REFERENCE'']"

definition REUSABLE_POLICIES :: "string list" where
  "REUSABLE_POLICIES = [''ENTITY_ONLY'', ''ENTITY_AND_JURISDICTION'', ''LICENSE_SPECIFIC'', ''VENDOR_SPECIFIC'',
     ''CASE_SPECIFIC'', ''ALL_ENTITIES_APPROVED'', ''NOT_REUSABLE'']"

definition USAGE_PURPOSES :: "string list" where
  "USAGE_PURPOSES = [''FORM_PREFILL'', ''PACKET_ASSEMBLY'', ''VENDOR_ANSWER'', ''CASE_REFERENCE'', ''WORKSHEET_EXPORT'', ''MANUAL_LOOKUP'']"

definition definition_constraints :: "information_definition \<Rightarrow> bool" where
  "definition_constraints d \<longleftrightarrow>
     (case freshness_days d of None \<Rightarrow> True | Some n \<Rightarrow> 0 < n) \<and> def_category d \<in> set CATEGORIES \<and>
     def_data_type d \<in> set DATA_TYPES \<and> def_sensitivity d \<in> fst ` set SENSITIVITY_ORDER \<and> reusable_policy d \<in> set REUSABLE_POLICIES"

text \<open>The unique indexes take a missing entity or jurisdiction as the nil UUID.\<close>

definition scope_key :: "information_value \<Rightarrow> uuid \<times> uuid \<times> uuid" where
  "scope_key v = (val_definition_id v, case val_legal_entity_id v of None \<Rightarrow> 0 | Some u \<Rightarrow> u,
     case val_jurisdiction_id v of None \<Rightarrow> 0 | Some u \<Rightarrow> u)"

definition approved_index :: "information_value list \<Rightarrow> bool" where
  "approved_index vs \<longleftrightarrow> distinct (map scope_key (filter (\<lambda>v. val_status v = ''APPROVED'') vs))"

definition value_refs_ok :: "registry_db \<Rightarrow> information_value \<Rightarrow> bool" where
  "value_refs_ok db v \<longleftrightarrow>
     opt_all (rg_exists db ''legal_entities'') (val_legal_entity_id v) \<and> opt_all (rg_exists db ''jurisdictions'') (val_jurisdiction_id v) \<and>
     opt_all (rg_exists db ''license_inventory'') (val_license_id v) \<and> opt_all (rg_exists db ''organizations'') (val_vendor_organization_id v) \<and>
     opt_all (rg_exists db ''compliance_cases'') (val_compliance_case_id v) \<and> opt_all (rg_exists db ''documents'') (source_document_id v)"

definition value_insertable :: "registry_db \<Rightarrow> information_value \<Rightarrow> bool" where
  "value_insertable db v \<longleftrightarrow>
     val_id v \<notin> val_id ` set (reg_values db) \<and> 1 \<le> value_version v \<and>
     (case (valid_from v, valid_to v) of (Some f, Some t) \<Rightarrow> f \<le> t | _ \<Rightarrow> True) \<and> value_refs_ok db v \<and>
     (scope_key v, value_version v) \<notin> (\<lambda>w. (scope_key w, value_version w)) ` set (reg_values db)"

subsection \<open>Definitions and owners\<close>

record definition_fields =
  df_information_key :: string
  df_name :: string
  df_category :: string
  df_description :: "string option"
  df_data_type :: string
  df_sensitivity :: "string option"
  df_default_owner_role :: "string option"
  df_validation_rules :: "jdict option"
  df_reusable_policy :: "string option"
  df_freshness_days :: "int option"
  df_display_keep_last :: "int option"

definition text_default :: "string option \<Rightarrow> string \<Rightarrow> string" where
  "text_default x d = (case x of None \<Rightarrow> d | Some [] \<Rightarrow> d | Some s \<Rightarrow> s)"

definition create_definition ::
  "registry_settings \<Rightarrow> registry_env \<Rightarrow> registry_actor \<Rightarrow> definition_fields \<Rightarrow> registry_db \<Rightarrow>
     registry_error + (information_definition \<times> registry_db)" where
  "create_definition st env actor f db =
     (let key = df_information_key f; sensitivity = text_default (df_sensitivity f) ''INTERNAL'';
          d = \<lparr>def_id = ce_new_id (re_case env), information_key = key, def_name = df_name f, def_category = df_category f,
               def_description = df_description f, def_data_type = df_data_type f, def_sensitivity = sensitivity,
               default_owner_role = df_default_owner_role f,
               validation_rules = (case df_validation_rules f of None \<Rightarrow> [] | Some r \<Rightarrow> r),
               reusable_policy = text_default (df_reusable_policy f) ''ENTITY_ONLY'',
               freshness_days = (case df_freshness_days f of Some n \<Rightarrow> if n \<noteq> 0 then Some n else default_freshness_days st
                                 | None \<Rightarrow> default_freshness_days st),
               display_keep_last = (case df_display_keep_last f of None \<Rightarrow> 0 | Some n \<Rightarrow> n)\<rparr>
      in bindE (ensure (key \<notin> information_key ` set (definitions db))
                  (Refused (StateConflictError ''Information key already exists.''))) (\<lambda>_.
         bindE (ensure (sensitivity = ''HIGHLY_RESTRICTED'' \<longrightarrow> highly_restricted_enabled st)
                  (Refused (StateConflictError ''HIGHLY_RESTRICTED definitions require INFORMATION_HIGHLY_RESTRICTED_ENABLED.''))) (\<lambda>_.
         bindE (ensure (definition_constraints d \<and> def_id d \<notin> def_id ` set (definitions db)) (Refused IntegrityError)) (\<lambda>_.
         Inr (d, reg_audit env actor ''information_definition'' (def_id d) ''information_definition_created''
                   (Some [(''information_key'', AStr key), (''sensitivity'', AStr sensitivity)]) []
                   (db\<lparr>definitions := definitions db @ [d]\<rparr>))))))"

definition assignment_matches :: "uuid \<Rightarrow> uuid option \<Rightarrow> string \<Rightarrow> owner_assignment \<Rightarrow> bool" where
  "assignment_matches di entity owner a \<longleftrightarrow> oa_definition_id a = di \<and> oa_legal_entity_id a = entity \<and> oa_owner_actor a = owner"

fun reactivate_first :: "(owner_assignment \<Rightarrow> bool) \<Rightarrow> bool \<Rightarrow> owner_assignment list \<Rightarrow> owner_assignment list" where
  "reactivate_first P primary [] = []"
| "reactivate_first P primary (a # as) =
     (if P a then a\<lparr>oa_is_active := True, oa_is_primary := primary\<rparr> # as else a # reactivate_first P primary as)"

definition assign_owner ::
  "registry_actor \<Rightarrow> uuid \<Rightarrow> string \<Rightarrow> uuid option \<Rightarrow> bool \<Rightarrow> registry_db \<Rightarrow> registry_error + registry_db" where
  "assign_owner actor di owner entity primary db =
     bindE (get_definition db di) (\<lambda>d.
       if list_ex (assignment_matches di entity owner) (owners db)
       then Inr (db\<lparr>owners := reactivate_first (assignment_matches di entity owner) primary (owners db)\<rparr>)
       else bindE (ensure (opt_all (rg_exists db ''legal_entities'') entity) (Refused IntegrityError)) (\<lambda>_.
         Inr (db\<lparr>owners := owners db @ [\<lparr>oa_definition_id = di, oa_legal_entity_id = entity, oa_owner_actor = owner,
                  oa_is_primary = primary, oa_is_active = True, oa_assigned_by_actor = actor_id (ra_actor actor)\<rparr>]\<rparr>)))"

subsection \<open>Values\<close>

record value_request =
  vr_definition_id :: uuid
  vr_value :: json
  vr_scope :: ValueScope
  vr_valid_from :: "date option"
  vr_valid_to :: "date option"
  vr_owner_actor :: "string option"
  vr_source_document_id :: "uuid option"
  vr_source_reference :: "string option"

definition in_scope :: "uuid \<Rightarrow> uuid option \<Rightarrow> uuid option \<Rightarrow> information_value \<Rightarrow> bool" where
  "in_scope di entity jurisdiction v \<longleftrightarrow>
     val_definition_id v = di \<and> val_legal_entity_id v = entity \<and> val_jurisdiction_id v = jurisdiction"

definition highest_version_in :: "uuid \<Rightarrow> uuid option \<Rightarrow> uuid option \<Rightarrow> registry_db \<Rightarrow> int" where
  "highest_version_in di entity jurisdiction db =
     (case map value_version (filter (in_scope di entity jurisdiction) (reg_values db)) of [] \<Rightarrow> 0 | x # xs \<Rightarrow> foldl max x xs)"

definition draft_value :: "registry_env \<Rightarrow> registry_actor \<Rightarrow> value_request \<Rightarrow> registry_db \<Rightarrow> information_value" where
  "draft_value env actor r db =
     (let sc = vr_scope r in
      \<lparr>val_id = ce_new_id (re_case env), val_definition_id = vr_definition_id r, val_legal_entity_id = vs_legal_entity_id sc,
       val_jurisdiction_id = vs_jurisdiction_id sc, val_license_id = vs_license_id sc,
       val_vendor_organization_id = vs_vendor_organization_id sc, val_compliance_case_id = vs_compliance_case_id sc,
       value_version = highest_version_in (vr_definition_id r) (vs_legal_entity_id sc) (vs_jurisdiction_id sc) db + 1,
       value_encrypted = None, value_plain = None, value_fingerprint = [], display_value_redacted = None,
       val_status = ''DRAFT'', valid_from = vr_valid_from r, valid_to = vr_valid_to r,
       owner_actor = Some (text_default (vr_owner_actor r) (actor_id (ra_actor actor))),
       source_document_id = vr_source_document_id r, source_reference = vr_source_reference r,
       val_created_by_actor = Some (actor_id (ra_actor actor)), approved_by_actor = None, val_approved_at = None,
       cross_entity_approved_by_actor = None, cross_entity_approved_at = None, superseded_by_value_id = None,
       val_rejection_reason = None, last_used_at = None\<rparr>)"

definition protect ::
  "registry_env \<Rightarrow> information_definition \<Rightarrow> json \<Rightarrow> information_value \<Rightarrow> registry_error + information_value" where
  "protect env d v rec =
     (if requires_encryption (def_sensitivity d) then
        bindE (get_cipher env) (\<lambda>kr.
        bindE (from_cipher (encrypt (re_crypto env) kr (re_nonce env) v ''information_value'' (str_uuid (val_id rec)))) (\<lambda>c.
        bindE (from_cipher (fingerprint (re_crypto env) kr v)) (\<lambda>p.
        Inr (rec\<lparr>value_encrypted := Some c, value_fingerprint := p\<rparr>))))
      else Inr (rec\<lparr>value_plain := Some [(''value'', v)], value_fingerprint := content_sha256 (re_crypto env) v\<rparr>))"

definition display_text :: "registry_env \<Rightarrow> information_definition \<Rightarrow> json \<Rightarrow> string" where
  "display_text env d v =
     (if def_sensitivity d = ''INTERNAL'' then take 200 (str_of (re_crypto env) v)
      else redact (re_crypto env) v (display_keep_last d) ''*'')"

definition propose_value ::
  "registry_env \<Rightarrow> registry_actor \<Rightarrow> value_request \<Rightarrow> registry_db \<Rightarrow> registry_error + (information_value \<times> registry_db)" where
  "propose_value env actor r db =
     bindE (get_definition db (vr_definition_id r)) (\<lambda>d.
     bindE (from_py (validate_value (re_values env) (vr_value r) (def_data_type d) (validation_rules d))) (\<lambda>issues.
     bindE (ensure (issues = []) (Refused (StateConflictError ''The proposed value failed validation.''))) (\<lambda>_.
     bindE (ensure (vs_legal_entity_id (vr_scope r) = None \<longrightarrow> reusable_policy d = ''ALL_ENTITIES_APPROVED'')
              (Refused (StateConflictError ''A value must be scoped to a legal entity unless the definition is explicitly approved for all entities.''))) (\<lambda>_.
     bindE (protect env d (vr_value r) (draft_value env actor r db)) (\<lambda>rec.
     let rec' = rec\<lparr>display_value_redacted := Some (display_text env d (vr_value r))\<rparr> in
     bindE (ensure (value_insertable db rec') (Refused IntegrityError)) (\<lambda>_.
     Inr (rec', reg_audit env actor ''information_value'' (val_id rec') ''information_value_proposed''
            (Some [(''information_key'', AStr (information_key d)), (''version'', AJson (JInt (value_version rec'))),
                   (''sensitivity'', AStr (def_sensitivity d))]) []
            (db\<lparr>reg_values := reg_values db @ [rec']\<rparr>))))))))"

definition submit_for_approval :: "uuid \<Rightarrow> registry_db \<Rightarrow> registry_error + (information_value \<times> registry_db)" where
  "submit_for_approval i db =
     bindE (get_value db i) (\<lambda>v.
     bindE (ensure (val_status v = ''DRAFT'') (Refused (StateConflictError ''Only a DRAFT value can be submitted for approval.''))) (\<lambda>_.
     let v' = v\<lparr>val_status := ''PENDING_APPROVAL''\<rparr> in Inr (v', save_value v' db)))"

definition current_approved :: "information_value \<Rightarrow> registry_db \<Rightarrow> information_value option" where
  "current_approved v db =
     (case filter (\<lambda>w. val_id w \<noteq> val_id v \<and> in_scope (val_definition_id v) (val_legal_entity_id v) (val_jurisdiction_id v) w \<and>
                      val_status w = ''APPROVED'') (reg_values db) of [] \<Rightarrow> None | w # _ \<Rightarrow> Some w)"

definition grant_cross_entity ::
  "registry_env \<Rightarrow> registry_actor \<Rightarrow> information_definition \<Rightarrow> bool \<Rightarrow> information_value \<Rightarrow> registry_error + information_value" where
  "grant_cross_entity env actor d cross v =
     (if cross then
        bindE (ensure (has_role (ra_roles actor) ''Licensing.Manager'') SensitiveAccessDenied) (\<lambda>_.
        bindE (ensure (reusable_policy d = ''ALL_ENTITIES_APPROVED'')
                 (Refused (StateConflictError ''This definition is not marked ALL_ENTITIES_APPROVED.''))) (\<lambda>_.
        Inr (v\<lparr>cross_entity_approved_by_actor := Some (actor_id (ra_actor actor)),
               cross_entity_approved_at := Some (ce_now (re_case env))\<rparr>)))
      else Inr v)"

definition approve_value ::
  "registry_env \<Rightarrow> registry_actor \<Rightarrow> uuid \<Rightarrow> bool \<Rightarrow> registry_db \<Rightarrow> registry_error + (information_value \<times> registry_db)" where
  "approve_value env actor i cross db =
     bindE (get_value db i) (\<lambda>v.
     bindE (ensure (val_status v = ''DRAFT'' \<or> val_status v = ''PENDING_APPROVAL'')
              (Refused (StateConflictError ''A value in this status cannot be approved.''))) (\<lambda>_.
     bindE (get_definition db (val_definition_id v)) (\<lambda>d.
     bindE (ensure (\<not> (owner_actor v = None \<or> owner_actor v = Some []))
              (Refused (StateConflictError ''An approved value must have an accountable owner.''))) (\<lambda>_.
     bindE (grant_cross_entity env actor d cross v) (\<lambda>v1.
     let current = current_approved v db;
         db1 = (case current of None \<Rightarrow> db
                | Some c \<Rightarrow> save_value (c\<lparr>val_status := ''SUPERSEDED'', superseded_by_value_id := Some i\<rparr>) db);
         v2 = v1\<lparr>val_status := ''APPROVED'', approved_by_actor := Some (actor_id (ra_actor actor)),
                 val_approved_at := Some (ce_now (re_case env))\<rparr>;
         db2 = save_value v2 db1
     in bindE (ensure (approved_index (reg_values db2)) (Refused IntegrityError)) (\<lambda>_.
        Inr (v2, reg_audit env actor ''information_value'' i ''information_value_approved''
               (Some [(''version'', AJson (JInt (value_version v))),
                      (''superseded_version'', case current of None \<Rightarrow> ANone | Some c \<Rightarrow> AJson (JInt (value_version c))),
                      (''cross_entity'', AJson (JBool cross))]) [] db2)))))))"

definition reject_value :: "uuid \<Rightarrow> string \<Rightarrow> registry_db \<Rightarrow> registry_error + (information_value \<times> registry_db)" where
  "reject_value i reason db =
     bindE (get_value db i) (\<lambda>v.
     let v' = v\<lparr>val_status := ''REJECTED'', val_rejection_reason := Some (take 1000 reason)\<rparr> in Inr (v', save_value v' db))"

definition supersede_value ::
  "registry_env \<Rightarrow> registry_actor \<Rightarrow> uuid \<Rightarrow> registry_db \<Rightarrow> registry_error + (information_value \<times> registry_db)" where
  "supersede_value env actor i db =
     bindE (get_value db i) (\<lambda>v.
     let v' = v\<lparr>val_status := ''SUPERSEDED''\<rparr> in
     Inr (v', reg_audit env actor ''information_value'' i ''information_value_superseded'' None [] (save_value v' db)))"

subsection \<open>Use\<close>

definition value_scope :: "information_value \<Rightarrow> ValueScope" where
  "value_scope v = \<lparr>vs_legal_entity_id = val_legal_entity_id v, vs_jurisdiction_id = val_jurisdiction_id v,
     vs_license_id = val_license_id v, vs_vendor_organization_id = val_vendor_organization_id v,
     vs_compliance_case_id = val_compliance_case_id v\<rparr>"

definition reuse_decision ::
  "registry_env \<Rightarrow> information_definition \<Rightarrow> UsageContext \<Rightarrow> bool \<Rightarrow> information_value \<Rightarrow> ReuseDecision" where
  "reuse_decision env d context allow_stale v =
     evaluate_reuse (val_status v) (reusable_policy d) (def_sensitivity d) (value_scope v) context (owner_actor v)
       (val_approved_at v) (valid_from v) (valid_to v) (freshness_days d) (cross_entity_approved_by_actor v \<noteq> None)
       (ce_today (re_case env)) (ce_now (re_case env)) allow_stale"

text \<open>Approved values of a definition, the highest version first; rows of equal version keep the order of the table.\<close>

definition approved_candidates :: "uuid \<Rightarrow> registry_db \<Rightarrow> information_value list" where
  "approved_candidates di db =
     sorted_reverse value_version (filter (\<lambda>v. val_definition_id v = di \<and> val_status v = ''APPROVED'') (reg_values db))"

datatype resolution =
    DefinitionNotFound
  | NotResolved string "string list" information_definition
  | Resolved information_value information_definition string

fun first_usable ::
  "registry_env \<Rightarrow> information_definition \<Rightarrow> UsageContext \<Rightarrow> bool \<Rightarrow> string list \<Rightarrow> information_value list \<Rightarrow> resolution" where
  "first_usable env d context allow_stale rejections [] =
     NotResolved (case rejections of [] \<Rightarrow> ''NO_APPROVED_VALUE'' | r # _ \<Rightarrow> r) (sort (remdups rejections)) d"
| "first_usable env d context allow_stale rejections (v # vs) =
     (let decision = reuse_decision env d context allow_stale v in
      if rd_usable decision then Resolved v d (rd_freshness decision)
      else first_usable env d context allow_stale (rejections @ rd_reasons decision) vs)"

definition resolve_for_use ::
  "registry_env \<Rightarrow> string \<Rightarrow> UsageContext \<Rightarrow> bool \<Rightarrow> registry_db \<Rightarrow> resolution" where
  "resolve_for_use env key context allow_stale db =
     (case get_row information_key (definitions db) key of
        None \<Rightarrow> DefinitionNotFound
      | Some d \<Rightarrow> first_usable env d context allow_stale [] (approved_candidates (def_id d) db))"

definition reveal_value ::
  "registry_settings \<Rightarrow> registry_env \<Rightarrow> registry_actor \<Rightarrow> uuid \<Rightarrow> string \<Rightarrow> registry_db \<Rightarrow> registry_error + (json \<times> registry_db)" where
  "reveal_value st env actor i purpose db =
     bindE (get_value db i) (\<lambda>v.
     bindE (get_definition db (val_definition_id v)) (\<lambda>d.
     bindE (ensure (requires_encryption (def_sensitivity d) \<longrightarrow>
                      has_role (ra_roles actor) ''Licensing.Manager'' \<or> owner_actor v = Some (actor_id (ra_actor actor)))
              SensitiveAccessDenied) (\<lambda>_.
     bindE (ensure (def_sensitivity d = ''HIGHLY_RESTRICTED'' \<longrightarrow> highly_restricted_enabled st) SensitiveAccessDenied) (\<lambda>_.
     bindE (case (value_encrypted v, value_plain v) of
              (Some (c # cs), _) \<Rightarrow>
                bindE (get_cipher env) (\<lambda>kr.
                from_cipher (decrypt_json (re_crypto env) kr (c # cs) ''information_value'' (str_uuid (val_id v))))
            | (_, Some (kv # kvs)) \<Rightarrow>
                (if requires_encryption (def_sensitivity d)
                 then Inl (Refused (StateConflictError ''This value has no protected stored representation.''))
                 else Inr (JObj (kv # kvs)))
            | _ \<Rightarrow> Inl (Refused (StateConflictError ''This value has no protected stored representation.''))) (\<lambda>plaintext.
     Inr (case plaintext of JObj p \<Rightarrow> jget_or p ''value'' JNull | _ \<Rightarrow> plaintext,
          reg_audit env actor ''information_value'' i ''information_value_revealed'' None
            [(''purpose'', JStr purpose), (''sensitivity'', JStr (def_sensitivity d))] db))))))"

definition record_usage ::
  "registry_env \<Rightarrow> registry_actor option \<Rightarrow> uuid \<Rightarrow> string \<Rightarrow> uuid option \<Rightarrow> uuid option \<Rightarrow> uuid option \<Rightarrow> registry_db \<Rightarrow>
     registry_error + (value_usage \<times> registry_db)" where
  "record_usage env actor i purpose case' form packet db =
     bindE (get_value db i) (\<lambda>v.
     let u = \<lparr>us_value_id = i, us_compliance_case_id = case', us_form_instance_id = form, us_packet_id = packet,
              used_by_actor = (case actor of None \<Rightarrow> ''licensing-worker'' | Some a \<Rightarrow> actor_id (ra_actor a)),
              us_purpose = purpose, used_value_version = value_version v, used_at = ce_now (re_case env)\<rparr>
     in bindE (ensure (purpose \<in> set USAGE_PURPOSES \<and> opt_all (rg_exists db ''compliance_cases'') case' \<and>
                 opt_all (rg_exists db ''form_instances'') form \<and> opt_all (rg_exists db ''document_packets'') packet)
                 (Refused IntegrityError)) (\<lambda>_.
        Inr (u, save_value (v\<lparr>last_used_at := Some (ce_now (re_case env))\<rparr>) (db\<lparr>usages := usages db @ [u]\<rparr>))))"

definition past_validity :: "date \<Rightarrow> information_value \<Rightarrow> bool" where
  "past_validity today v \<longleftrightarrow> val_status v = ''APPROVED'' \<and> (case valid_to v of None \<Rightarrow> False | Some e \<Rightarrow> e < today)"

definition is_stale :: "registry_env \<Rightarrow> date \<Rightarrow> registry_db \<Rightarrow> information_value \<Rightarrow> bool" where
  "is_stale env today db v \<longleftrightarrow> val_status v = ''APPROVED'' \<and>
     (case get_row def_id (definitions db) (val_definition_id v) of
        None \<Rightarrow> False
      | Some d \<Rightarrow> assess_freshness (val_approved_at v) (valid_to v) (freshness_days d) today (ce_now (re_case env)) \<in> {''STALE'', ''EXPIRED''})"

definition expire_stale_values :: "registry_env \<Rightarrow> registry_db \<Rightarrow> (nat \<times> nat) \<times> registry_db" where
  "expire_stale_values env db =
     (let today = utc_date (ce_now (re_case env));
          vs = map (\<lambda>v. if past_validity today v then v\<lparr>val_status := ''EXPIRED''\<rparr> else v) (reg_values db);
          db' = db\<lparr>reg_values := vs\<rparr>
      in ((length (filter (past_validity today) (reg_values db)), length (filter (is_stale env today db') vs)), db'))"

end
