(* ===== verification/Registry_Invariant.thy ===== *)
theory Registry_Invariant
  imports Information_Registry
begin

text \<open>
  The invariant of the information registry under every sequence of its calls, and what it gives: one
  approved value per scope, sensitive values stored only as envelopes sealed to their own row, approvals with
  an owner and an approver, and organisation-wide values only where the definition allows them.
\<close>

subsection \<open>Steps\<close>

inductive registry_step :: "crypto_lib \<Rightarrow> registry_db \<Rightarrow> registry_db \<Rightarrow> bool" for lib :: crypto_lib where
  rstep_define: "create_definition st env actor f db = Inr (d, db') \<Longrightarrow> registry_step lib db db'"
| rstep_assign: "assign_owner actor di owner entity primary db = Inr db' \<Longrightarrow> registry_step lib db db'"
| rstep_propose: "re_crypto env = lib \<Longrightarrow> propose_value env actor r db = Inr (v, db') \<Longrightarrow> registry_step lib db db'"
| rstep_submit: "submit_for_approval i db = Inr (v, db') \<Longrightarrow> registry_step lib db db'"
| rstep_approve: "approve_value env actor i cross db = Inr (v, db') \<Longrightarrow> registry_step lib db db'"
| rstep_reject: "reject_value i reason db = Inr (v, db') \<Longrightarrow> registry_step lib db db'"
| rstep_supersede: "supersede_value env actor i db = Inr (v, db') \<Longrightarrow> registry_step lib db db'"
| rstep_reveal: "reveal_value st env actor i purpose db = Inr (x, db') \<Longrightarrow> registry_step lib db db'"
| rstep_use: "record_usage env who i purpose cs form packet db = Inr (u, db') \<Longrightarrow> registry_step lib db db'"
| rstep_expire: "expire_stale_values env db = (n, db') \<Longrightarrow> registry_step lib db db'"
| rstep_world: "definitions db' = definitions db \<Longrightarrow> reg_values db' = reg_values db \<Longrightarrow> registry_step lib db db'"

definition registry_init :: "registry_db \<Rightarrow> bool" where
  "registry_init db \<longleftrightarrow> definitions db = [] \<and> reg_values db = []"

subsection \<open>Invariant\<close>

definition sealed_for :: "crypto_lib \<Rightarrow> uuid \<Rightarrow> string \<Rightarrow> bool" where
  "sealed_for lib i c \<longleftrightarrow>
     (\<exists>kr nonce x. keyring_ok kr \<and> encrypt lib kr nonce x ''information_value'' (str_uuid i) = Inr c)"

definition stored_ok :: "crypto_lib \<Rightarrow> information_definition \<Rightarrow> information_value \<Rightarrow> bool" where
  "stored_ok lib d v \<longleftrightarrow>
     (if requires_encryption (def_sensitivity d)
      then value_plain v = None \<and> (\<exists>c. value_encrypted v = Some c \<and> sealed_for lib (val_id v) c)
      else value_encrypted v = None \<and> value_plain v \<noteq> None)"

definition approval_ok :: "information_value \<Rightarrow> bool" where
  "approval_ok v \<longleftrightarrow> (val_status v = ''APPROVED'' \<longrightarrow>
     (\<exists>c cs. owner_actor v = Some (c # cs)) \<and> approved_by_actor v \<noteq> None \<and> val_approved_at v \<noteq> None)"

definition reach_ok :: "information_definition \<Rightarrow> information_value \<Rightarrow> bool" where
  "reach_ok d v \<longleftrightarrow> (val_legal_entity_id v = None \<or> cross_entity_approved_by_actor v \<noteq> None \<longrightarrow>
     reusable_policy d = ''ALL_ENTITIES_APPROVED'')"

definition value_ok :: "crypto_lib \<Rightarrow> information_definition list \<Rightarrow> information_value \<Rightarrow> bool" where
  "value_ok lib ds v \<longleftrightarrow> 1 \<le> value_version v \<and> approval_ok v \<and>
     (\<exists>d. get_row def_id ds (val_definition_id v) = Some d \<and> stored_ok lib d v \<and> reach_ok d v)"

definition registry_ok :: "crypto_lib \<Rightarrow> registry_db \<Rightarrow> bool" where
  "registry_ok lib db \<longleftrightarrow>
     distinct (map def_id (definitions db)) \<and> distinct (map information_key (definitions db)) \<and>
     distinct (map val_id (reg_values db)) \<and> distinct (map (\<lambda>w. (scope_key w, value_version w)) (reg_values db)) \<and>
     approved_index (reg_values db) \<and> list_all (value_ok lib (definitions db)) (reg_values db)"

subsection \<open>Updates of a row\<close>

lemma reg_audit_tables [simp]:
  "definitions (reg_audit env actor t i action after meta db) = definitions db"
  "reg_values (reg_audit env actor t i action after meta db) = reg_values db"
  by (simp_all add: reg_audit_def)

lemma save_value_tables [simp]:
  "definitions (save_value v db) = definitions db" "reg_values (save_value v db) = put_row val_id v (reg_values db)"
  by (simp_all add: save_value_def)

lemma get_value_Inr: "get_value db i = Inr v \<longleftrightarrow> get_row val_id (reg_values db) i = Some v"
  by (auto simp: get_value_def split: option.splits)

lemma get_definition_Inr: "get_definition db i = Inr d \<longleftrightarrow> get_row def_id (definitions db) i = Some d"
  by (auto simp: get_definition_def split: option.splits)

lemmas row_reads [err_simps] = get_value_Inr get_definition_Inr

lemma map_put_row:
  assumes "distinct (map key vs)" "v \<in> set vs" "key v' = key v" "f v' = f v"
  shows "map f (put_row key v' vs) = map f vs"
proof -
  have "f (if key s = key v' then v' else s) = f s" if "s \<in> set vs" for s
  proof -
    have "key s = key v \<Longrightarrow> s = v" using assms(1,2) that by (meson distinct_map inj_onD)
    then show ?thesis using assms(3,4) by auto
  qed
  then show ?thesis by (simp add: put_row_def)
qed

lemma approved_index_put:
  assumes "approved_index vs" "val_status v' \<noteq> ''APPROVED''"
  shows "approved_index (put_row val_id v' vs)"
proof -
  have "filter (\<lambda>v. val_status v = ''APPROVED'') (put_row val_id v' vs) =
      filter (\<lambda>v. val_id v \<noteq> val_id v') (filter (\<lambda>v. val_status v = ''APPROVED'') vs)"
    using assms(2) by (induction vs) (auto simp: put_row_def)
  then show ?thesis using assms(1) unfolding approved_index_def by (simp only: distinct_map_filter)
qed

lemma registry_ok_put:
  assumes ok: "registry_ok lib db" and v: "v \<in> set (reg_values db)" "val_id v' = val_id v" "scope_key v' = scope_key v" "value_version v' = value_version v"
    and v': "value_ok lib (definitions db) v'" "approved_index (put_row val_id v' (reg_values db))"
    and db': "definitions db' = definitions db" "reg_values db' = put_row val_id v' (reg_values db)"
  shows "registry_ok lib db'"
proof -
  have d: "distinct (map val_id (reg_values db))" using ok by (simp add: registry_ok_def)
  have "map (\<lambda>w. (scope_key w, value_version w)) (put_row val_id v' (reg_values db)) = map (\<lambda>w. (scope_key w, value_version w)) (reg_values db)"
    by (rule map_put_row [OF d v(1,2)]) (simp add: v)
  moreover have "list_all (value_ok lib (definitions db)) (put_row val_id v' (reg_values db))"
    using ok v'(1) by (auto simp: registry_ok_def list_all_iff dest: set_put_row)
  ultimately show ?thesis using ok v'(2) by (simp add: registry_ok_def db')
qed

text \<open>The columns that the invariant reads are kept by every change of a status other than an approval.\<close>

lemma value_ok_status:
  assumes "value_ok lib ds v" "s \<noteq> ''APPROVED''"
  shows "value_ok lib ds (v\<lparr>val_status := s\<rparr>)"
  using assms by (auto simp: value_ok_def approval_ok_def stored_ok_def reach_ok_def)

lemma value_ok_cong:
  assumes "value_ok lib ds v" "val_id v' = val_id v" "val_definition_id v' = val_definition_id v" "value_version v' = value_version v"
    "value_encrypted v' = value_encrypted v" "value_plain v' = value_plain v" "val_legal_entity_id v' = val_legal_entity_id v"
    "cross_entity_approved_by_actor v' = cross_entity_approved_by_actor v" "approval_ok v'"
  shows "value_ok lib ds v'"
  using assms by (auto simp: value_ok_def stored_ok_def reach_ok_def)

lemma status_step:
  assumes ok: "registry_ok lib db" and g: "get_row val_id (reg_values db) i = Some v"
    and v': "val_id v' = val_id v" "val_definition_id v' = val_definition_id v" "value_version v' = value_version v"
    "value_encrypted v' = value_encrypted v" "value_plain v' = value_plain v" "val_legal_entity_id v' = val_legal_entity_id v"
    "val_jurisdiction_id v' = val_jurisdiction_id v" "cross_entity_approved_by_actor v' = cross_entity_approved_by_actor v"
    "val_status v' \<noteq> ''APPROVED''"
    and db': "definitions db' = definitions db" "reg_values db' = put_row val_id v' (reg_values db)"
  shows "registry_ok lib db'"
proof (rule registry_ok_put [OF ok _ v'(1) _ v'(3) _ _ db'])
  show m: "v \<in> set (reg_values db)" using get_row_SomeD [OF g] by simp
  show "scope_key v' = scope_key v" by (simp add: scope_key_def v')
  have "value_ok lib (definitions db) v" using ok m by (simp add: registry_ok_def list_all_iff)
  then show "value_ok lib (definitions db) v'"
    by (rule value_ok_cong [OF _ v'(1-6,8)]) (simp add: approval_ok_def v')
  show "approved_index (put_row val_id v' (reg_values db))"
    by (rule approved_index_put) (use ok v' in \<open>simp_all add: registry_ok_def\<close>)
qed

subsection \<open>The calls keep the invariant\<close>

lemma define_ok: "registry_ok lib db \<Longrightarrow> create_definition st env actor f db = Inr (d, db') \<Longrightarrow> registry_ok lib db'"
proof -
  assume ok: "registry_ok lib db" and c: "create_definition st env actor f db = Inr (d, db')"
  have e: "definitions db' = definitions db @ [d]" "reg_values db' = reg_values db"
    "information_key d \<notin> information_key ` set (definitions db)" "def_id d \<notin> def_id ` set (definitions db)"
    using c by (auto simp: create_definition_def Let_def err_simps)
  have "value_ok lib (definitions db @ [d]) v" if "value_ok lib (definitions db) v" for v
    using that by (auto simp: value_ok_def get_row_append split: option.splits)
  then show ?thesis using ok e by (auto simp: registry_ok_def list_all_iff)
qed

lemma assign_ok: "registry_ok lib db \<Longrightarrow> assign_owner actor di owner entity primary db = Inr db' \<Longrightarrow> registry_ok lib db'"
  by (auto simp: assign_owner_def err_simps registry_ok_def split: if_splits)

lemma submit_ok': "registry_ok lib db \<Longrightarrow> submit_for_approval i db = Inr (v, db') \<Longrightarrow> registry_ok lib db'"
proof -
  assume ok: "registry_ok lib db" and c: "submit_for_approval i db = Inr (v, db')"
  obtain w where g: "get_row val_id (reg_values db) i = Some w" and v: "v = w\<lparr>val_status := ''PENDING_APPROVAL''\<rparr>"
    and db': "definitions db' = definitions db" "reg_values db' = put_row val_id v (reg_values db)"
    using c by (auto simp: submit_for_approval_def err_simps Let_def)
  show ?thesis by (rule status_step [OF ok g, where v' = v]) (simp_all add: v db')
qed

lemma reject_ok': "registry_ok lib db \<Longrightarrow> reject_value i reason db = Inr (v, db') \<Longrightarrow> registry_ok lib db'"
proof -
  assume ok: "registry_ok lib db" and c: "reject_value i reason db = Inr (v, db')"
  obtain w where g: "get_row val_id (reg_values db) i = Some w" and v: "v = w\<lparr>val_status := ''REJECTED'', val_rejection_reason := Some (take 1000 reason)\<rparr>"
    and db': "definitions db' = definitions db" "reg_values db' = put_row val_id v (reg_values db)"
    using c by (auto simp: reject_value_def err_simps Let_def)
  show ?thesis by (rule status_step [OF ok g, where v' = v]) (simp_all add: v db')
qed

lemma supersede_ok': "registry_ok lib db \<Longrightarrow> supersede_value env actor i db = Inr (v, db') \<Longrightarrow> registry_ok lib db'"
proof -
  assume ok: "registry_ok lib db" and c: "supersede_value env actor i db = Inr (v, db')"
  obtain w where g: "get_row val_id (reg_values db) i = Some w" and v: "v = w\<lparr>val_status := ''SUPERSEDED''\<rparr>"
    and db': "definitions db' = definitions db" "reg_values db' = put_row val_id v (reg_values db)"
    using c by (auto simp: supersede_value_def err_simps Let_def)
  show ?thesis by (rule status_step [OF ok g, where v' = v]) (simp_all add: v db')
qed

lemma reveal_tables:
  "reveal_value st env actor i purpose db = Inr (x, db') \<Longrightarrow> definitions db' = definitions db \<and> reg_values db' = reg_values db"
  by (auto simp: reveal_value_def err_simps)

lemma use_ok: "registry_ok lib db \<Longrightarrow> record_usage env who i purpose cs form packet db = Inr (u, db') \<Longrightarrow> registry_ok lib db'"
proof -
  assume ok: "registry_ok lib db" and r: "record_usage env who i purpose cs form packet db = Inr (u, db')"
  obtain v t where g: "get_row val_id (reg_values db) i = Some v"
    and db': "definitions db' = definitions db" "reg_values db' = put_row val_id (v\<lparr>last_used_at := t\<rparr>) (reg_values db)"
    using r by (auto simp: record_usage_def err_simps Let_def)
  have m: "v \<in> set (reg_values db)" using get_row_SomeD [OF g] by simp
  have d: "distinct (map val_id (reg_values db))" using ok by (simp add: registry_ok_def)
  show ?thesis
  proof (rule registry_ok_put [OF ok m _ _ _ _ _ db'])
    have "value_ok lib (definitions db) v" using ok m by (simp add: registry_ok_def list_all_iff)
    then show "value_ok lib (definitions db) (v\<lparr>last_used_at := t\<rparr>)"
      by (rule value_ok_cong) (use \<open>value_ok lib (definitions db) v\<close> in \<open>simp_all add: value_ok_def approval_ok_def\<close>)
    have "map (\<lambda>w. (val_status w, scope_key w)) (put_row val_id (v\<lparr>last_used_at := t\<rparr>) (reg_values db)) =
        map (\<lambda>w. (val_status w, scope_key w)) (reg_values db)"
      by (rule map_put_row [OF d m]) (simp_all add: scope_key_def)
    moreover have "map scope_key (filter (\<lambda>v. val_status v = ''APPROVED'') vs) =
        map snd (filter (\<lambda>p. fst p = ''APPROVED'') (map (\<lambda>w. (val_status w, scope_key w)) vs))" for vs
      by (induction vs) auto
    ultimately show "approved_index (put_row val_id (v\<lparr>last_used_at := t\<rparr>) (reg_values db))"
      using ok by (simp add: registry_ok_def approved_index_def)
  qed (simp_all add: scope_key_def)
qed

lemma expire_ok': "registry_ok lib db \<Longrightarrow> expire_stale_values env db = (n, db') \<Longrightarrow> registry_ok lib db'"
proof -
  assume ok: "registry_ok lib db" and x: "expire_stale_values env db = (n, db')"
  define f where "f = (\<lambda>v. if past_validity (utc_date (ce_now (re_case env))) v then v\<lparr>val_status := ''EXPIRED''\<rparr> else v)"
  have db': "definitions db' = definitions db" "reg_values db' = map f (reg_values db)"
    using x by (auto simp: expire_stale_values_def Let_def f_def)
  have k: "val_id (f v) = val_id v" "scope_key (f v) = scope_key v" "value_version (f v) = value_version v" for v
    by (simp_all add: f_def scope_key_def)
  have "filter (\<lambda>v. val_status v = ''APPROVED'') (map f vs) =
      filter (\<lambda>v. \<not> past_validity (utc_date (ce_now (re_case env))) v) (filter (\<lambda>v. val_status v = ''APPROVED'') vs)" for vs
    by (induction vs) (auto simp: f_def)
  then have "approved_index (map f (reg_values db))"
    using ok unfolding registry_ok_def approved_index_def by (simp only: distinct_map_filter)
  moreover have "value_ok lib (definitions db) (f v)" if "v \<in> set (reg_values db)" for v
    using ok that value_ok_status by (auto simp: registry_ok_def list_all_iff f_def)
  ultimately show ?thesis using ok by (simp add: registry_ok_def db' k comp_def list_all_iff)
qed

subsection \<open>Proposals and approvals\<close>

lemma get_cipher_ok: "get_cipher env = Inr kr \<Longrightarrow> keyring_ok kr"
  by (auto simp: get_cipher_def dest: from_environment_ok split: sum.splits crypto_error.splits)

definition same_head :: "information_value \<Rightarrow> information_value \<Rightarrow> bool" where
  "same_head v w \<longleftrightarrow> val_id v = val_id w \<and> val_definition_id v = val_definition_id w \<and> value_version v = value_version w \<and>
     val_legal_entity_id v = val_legal_entity_id w \<and> val_jurisdiction_id v = val_jurisdiction_id w \<and> owner_actor v = owner_actor w"

lemma protect_head:
  "protect env d x rec = Inr v \<Longrightarrow> same_head v rec \<and> val_status v = val_status rec \<and>
     cross_entity_approved_by_actor v = cross_entity_approved_by_actor rec"
  by (auto simp: protect_def err_simps same_head_def split: if_splits)

lemma protect_stored:
  assumes "protect env d x rec = Inr v" "value_encrypted rec = None" "value_plain rec = None"
  shows "stored_ok (re_crypto env) d v"
proof (cases "requires_encryption (def_sensitivity d)")
  case True
  obtain kr c p where e: "get_cipher env = Inr kr"
    "encrypt (re_crypto env) kr (re_nonce env) x ''information_value'' (str_uuid (val_id rec)) = Inr c"
    "v = rec\<lparr>value_encrypted := Some c, value_fingerprint := p\<rparr>"
    using assms(1) True by (auto simp: protect_def err_simps)
  have "sealed_for (re_crypto env) (val_id v) c" using e get_cipher_ok by (auto simp: sealed_for_def)
  then show ?thesis using True e(3) assms(3) by (simp add: stored_ok_def)
next
  case False
  then show ?thesis using assms by (auto simp: protect_def stored_ok_def)
qed

lemma propose_cases:
  assumes "propose_value env actor r db = Inr (v, db')"
  obtains d rec where "get_row def_id (definitions db) (vr_definition_id r) = Some d"
    "validate_value (re_values env) (vr_value r) (def_data_type d) (validation_rules d) = Inr []"
    "vs_legal_entity_id (vr_scope r) = None \<longrightarrow> reusable_policy d = ''ALL_ENTITIES_APPROVED''"
    "protect env d (vr_value r) (draft_value env actor r db) = Inr rec"
    "v = rec\<lparr>display_value_redacted := Some (display_text env d (vr_value r))\<rparr>"
    "value_insertable db v" "definitions db' = definitions db" "reg_values db' = reg_values db @ [v]"
  using assms by (auto simp: propose_value_def err_simps Let_def)

lemma draft_fields [simp]:
  "val_status (draft_value env actor r db) = ''DRAFT''" "val_definition_id (draft_value env actor r db) = vr_definition_id r"
  "val_legal_entity_id (draft_value env actor r db) = vs_legal_entity_id (vr_scope r)"
  "val_jurisdiction_id (draft_value env actor r db) = vs_jurisdiction_id (vr_scope r)"
  "cross_entity_approved_by_actor (draft_value env actor r db) = None" "value_encrypted (draft_value env actor r db) = None"
  "value_plain (draft_value env actor r db) = None" "val_id (draft_value env actor r db) = ce_new_id (re_case env)"
  "owner_actor (draft_value env actor r db) = Some (text_default (vr_owner_actor r) (actor_id (ra_actor actor)))"
  by (simp_all add: draft_value_def Let_def)

lemma propose_ok:
  assumes ok: "registry_ok (re_crypto env) db" and p: "propose_value env actor r db = Inr (v, db')"
  shows "registry_ok (re_crypto env) db'"
  using p
proof (cases rule: propose_cases)
  case (1 d rec)
  have s: "stored_ok (re_crypto env) d rec" using protect_stored [OF 1(4)] by simp
  have f: "val_status v = ''DRAFT''" "val_definition_id v = vr_definition_id r" "val_legal_entity_id v = vs_legal_entity_id (vr_scope r)"
    "cross_entity_approved_by_actor v = None" using protect_head [OF 1(4)] unfolding 1(5) by (simp_all add: same_head_def)
  have "stored_ok (re_crypto env) d v" using s unfolding 1(5) by (simp add: stored_ok_def)
  then have "value_ok (re_crypto env) (definitions db) v"
    using 1(1,3,6) f by (auto simp: value_ok_def approval_ok_def reach_ok_def value_insertable_def)
  moreover have "val_id v \<notin> val_id ` set (reg_values db)"
    "(scope_key v, value_version v) \<notin> (\<lambda>w. (scope_key w, value_version w)) ` set (reg_values db)"
    using 1(6) by (simp_all add: value_insertable_def)
  moreover have "approved_index (reg_values db @ [v]) \<longleftrightarrow> approved_index (reg_values db)" by (simp add: approved_index_def f)
  ultimately show ?thesis using ok by (auto simp: registry_ok_def 1(7,8))
qed

lemma approve_cases:
  assumes "approve_value env actor i cross db = Inr (v2, db')"
  obtains v d v1 db1 where "get_row val_id (reg_values db) i = Some v" "val_status v = ''DRAFT'' \<or> val_status v = ''PENDING_APPROVAL''"
    "get_row def_id (definitions db) (val_definition_id v) = Some d" "\<exists>c cs. owner_actor v = Some (c # cs)"
    "grant_cross_entity env actor d cross v = Inr v1"
    "db1 = (case current_approved v db of None \<Rightarrow> db
              | Some c \<Rightarrow> save_value (c\<lparr>val_status := ''SUPERSEDED'', superseded_by_value_id := Some i\<rparr>) db)"
    "v2 = v1\<lparr>val_status := ''APPROVED'', approved_by_actor := Some (actor_id (ra_actor actor)), val_approved_at := Some (ce_now (re_case env))\<rparr>"
    "approved_index (put_row val_id v2 (reg_values db1))" "definitions db' = definitions db" "reg_values db' = put_row val_id v2 (reg_values db1)"
proof -
  have owner: "\<not> (x = None \<or> x = Some []) \<longleftrightarrow> (\<exists>c cs. x = Some (c # cs))" for x :: "string option"
    by (cases x) (auto simp: neq_Nil_conv)
  show thesis using assms that unfolding approve_value_def bindE_Inr_iff get_value_Inr get_definition_Inr ensure_Inr Let_def owner
    by (auto split: option.splits)
qed

lemma grant_fields:
  assumes "grant_cross_entity env actor d cross v = Inr v1"
  shows "same_head v1 v" "value_encrypted v1 = value_encrypted v" "value_plain v1 = value_plain v"
    "cross_entity_approved_by_actor v1 = cross_entity_approved_by_actor v \<or>
     reusable_policy d = ''ALL_ENTITIES_APPROVED'' \<and> has_role (ra_roles actor) ''Licensing.Manager''"
  using assms by (auto simp: grant_cross_entity_def err_simps same_head_def split: if_splits)

lemma current_approved_row:
  "current_approved v db = Some c \<Longrightarrow> c \<in> set (reg_values db) \<and> val_id c \<noteq> val_id v \<and> val_status c = ''APPROVED'' \<and>
     in_scope (val_definition_id v) (val_legal_entity_id v) (val_jurisdiction_id v) c"
proof -
  assume "current_approved v db = Some c"
  then obtain ws where "filter (\<lambda>w. val_id w \<noteq> val_id v \<and> in_scope (val_definition_id v) (val_legal_entity_id v) (val_jurisdiction_id v) w \<and>
      val_status w = ''APPROVED'') (reg_values db) = c # ws" by (auto simp: current_approved_def split: list.splits)
  then have "c \<in> set (filter (\<lambda>w. val_id w \<noteq> val_id v \<and> in_scope (val_definition_id v) (val_legal_entity_id v) (val_jurisdiction_id v) w \<and>
      val_status w = ''APPROVED'') (reg_values db))" by simp
  then show ?thesis by simp
qed

lemma approve_ok':
  assumes ok: "registry_ok lib db" and a: "approve_value env actor i cross db = Inr (v2, db')"
  shows "registry_ok lib db'"
  using a
proof (cases rule: approve_cases)
  case (1 v d v1 db1)
  have "registry_ok lib db1 \<and> definitions db1 = definitions db \<and> get_row val_id (reg_values db1) i = Some v"
  proof (cases "current_approved v db")
    case None
    then show ?thesis using ok 1(1,6) by simp
  next
    case (Some c)
    let ?c = "c\<lparr>val_status := ''SUPERSEDED'', superseded_by_value_id := Some i\<rparr>"
    have c: "c \<in> set (reg_values db)" "val_id c \<noteq> val_id v" using current_approved_row [OF Some] by simp_all
    have d1: "db1 = save_value ?c db" using 1(6) Some by simp
    have "distinct (map val_id (reg_values db))" using ok by (simp add: registry_ok_def)
    then have g: "get_row val_id (reg_values db) (val_id c) = Some c" using c(1) by (rule get_row_member)
    have "registry_ok lib db1" by (rule status_step [OF ok g, where v' = ?c]) (simp_all add: d1)
    then show ?thesis using 1(1) c(2) get_row_SomeD [OF 1(1)] by (auto simp: d1 get_put_row)
  qed
  then have db1: "registry_ok lib db1" "definitions db1 = definitions db" "get_row val_id (reg_values db1) i = Some v" by simp_all
  have m: "v \<in> set (reg_values db1)" using get_row_SomeD [OF db1(3)] by simp
  have ok1: "value_ok lib (definitions db) v" using db1(1,2) m by (simp add: registry_ok_def list_all_iff)
  have h: "same_head v2 v" "value_encrypted v2 = value_encrypted v" "value_plain v2 = value_plain v"
    "cross_entity_approved_by_actor v2 = cross_entity_approved_by_actor v1" "approval_ok v2"
    using grant_fields(1-3) [OF 1(5)] 1(4) by (simp_all add: 1(7) same_head_def approval_ok_def)
  have "value_ok lib (definitions db) v2"
    using ok1 h grant_fields(4) [OF 1(5)] 1(3) by (auto simp: value_ok_def same_head_def stored_ok_def reach_ok_def)
  moreover have "val_id v2 = val_id v" "scope_key v2 = scope_key v" "value_version v2 = value_version v"
    using h(1) by (simp_all add: same_head_def scope_key_def)
  ultimately show ?thesis
    using registry_ok_put [OF db1(1) m, of v2 db'] 1(8,9,10) db1(2) by simp
qed

interpretation registry_sys: invariant_system registry_init "registry_step lib" "registry_ok lib"
proof unfold_locales
  fix db assume "registry_init db"
  then show "registry_ok lib db" by (simp add: registry_init_def registry_ok_def approved_index_def)
next
  fix db db' assume ok: "registry_ok lib db" and "registry_step lib db db'"
  from this(2) show "registry_ok lib db'"
  proof cases
    case (rstep_propose env actor r v)
    then show ?thesis using ok propose_ok by blast
  next
    case (rstep_reveal st env actor i purpose x)
    then show ?thesis using ok reveal_tables [OF rstep_reveal] by (simp add: registry_ok_def)
  next
    case rstep_world
    then show ?thesis using ok by (simp add: registry_ok_def)
  qed (rule define_ok [OF ok] assign_ok [OF ok] submit_ok' [OF ok] approve_ok' [OF ok] reject_ok' [OF ok] supersede_ok' [OF ok]
      use_ok [OF ok] expire_ok' [OF ok]; assumption)+
qed

end
