(* ===== verification/Registry_Properties.thy ===== *)
theory Registry_Properties
  imports Registry_Invariant
begin

text \<open>
  The properties of the information registry and of the encryption it rests on: what is stored, what may be
  used where, who may see a protected value, and what a reveal gives back.
\<close>

subsection \<open>Examples\<close>

text \<open>A cipher that writes the associated data in front of the text, self-delimiting, and checks it on opening.\<close>

definition tagged :: "string \<Rightarrow> string" where
  "tagged a = concat (map (\<lambda>c. [CHR ''.'', c]) a) @ ''|''"

definition ex_crypto :: crypto_lib where
  "ex_crypto = \<lparr>seal = (\<lambda>k n p a. tagged a @ p),
     unseal = (\<lambda>k n c a. if take (length (tagged a)) c = tagged a then Inr (drop (length (tagged a)) c) else Inl InvalidTag),
     sha_digest = (\<lambda>s. s), sha_hex = (\<lambda>s. s), hmac_hex = (\<lambda>k s. ''mac''), float_text = (\<lambda>_. ''0.0''), text_float = (\<lambda>_. None),
     value_str = (\<lambda>_. [])\<rparr>"

lemma tagged_prefix: "take (length (tagged b)) (tagged a @ p) = tagged b \<Longrightarrow> b = a"
proof (induction a arbitrary: b)
  case Nil
  then show ?case by (cases b) (simp_all add: tagged_def)
next
  case (Cons c a)
  then show ?case by (cases b) (auto simp: tagged_def)
qed

lemma ex_crypto_laws: "aead_opens ex_crypto" "aead_binds ex_crypto"
proof -
  have s: "seal ex_crypto k n p a = tagged a @ p" for k n p a by (simp add: ex_crypto_def)
  have u: "unseal ex_crypto k n c a = (if take (length (tagged a)) c = tagged a then Inr (drop (length (tagged a)) c) else Inl InvalidTag)"
    for k n c a by (simp add: ex_crypto_def)
  show "aead_opens ex_crypto" unfolding aead_opens_def s u by simp
  show "aead_binds ex_crypto" unfolding aead_binds_def s u
  proof (intro allI impI)
    fix k n p a b :: string assume "length k = 32 \<and> length n = 12 \<and> b \<noteq> a"
    then have "take (length (tagged b)) (tagged a @ p) \<noteq> tagged b" using tagged_prefix by blast
    then show "(if take (length (tagged b)) (tagged a @ p) = tagged b then Inr (drop (length (tagged b)) (tagged a @ p)) else Inl InvalidTag) =
      (Inl InvalidTag :: aead_error + string)" by (simp only: if_False)
  qed
qed

definition ex_keys :: string where
  "ex_keys = CHR ''{'' # CHR 0x22 # CHR ''k'' # CHR 0x22 # CHR '':'' # CHR 0x22 # replicate 43 (CHR ''A'') @ [CHR 0x22, CHR ''}'']"

definition ex_keyring :: Keyring where
  "ex_keyring = \<lparr>kr_keys = [(''k'', replicate 32 (CHR 0x00))], kr_active_key_id = ''k''\<rparr>"

definition ex_renv :: "uuid \<Rightarrow> registry_env" where
  "ex_renv n = \<lparr>re_case = \<lparr>ce_now = 0, ce_today = Date 2025 1 1, ce_new_id = n, ce_suffix = [], ce_sha256 = (\<lambda>s. s)\<rparr>,
     re_crypto = ex_crypto, re_values = \<lparr>vl_rules = ex_lib, vl_float = (\<lambda>_. None)\<rparr>, re_environ = [KEYS_ENV_VAR \<mapsto> ex_keys],
     re_nonce = replicate 12 (CHR ''n'')\<rparr>"

lemma ex_cipher: "get_cipher (ex_renv n) = Inr ex_keyring"
proof -
  have "from_environment ex_crypto [KEYS_ENV_VAR \<mapsto> ex_keys] = Inr ex_keyring" by code_simp
  then show ?thesis by (simp add: get_cipher_def ex_renv_def)
qed

lemma ex_keyring_ok: "keyring_ok ex_keyring"
  by code_simp

definition ex_manager :: registry_actor where
  "ex_manager = \<lparr>ra_actor = \<lparr>actor_type = ''HUMAN'', actor_id = ''meg''\<rparr>, ra_roles = [''Licensing.Manager'']\<rparr>"

definition ex_settings :: registry_settings where
  "ex_settings = \<lparr>highly_restricted_enabled = False, default_freshness_days = Some 365\<rparr>"

definition ex_fields' :: definition_fields where
  "ex_fields' = \<lparr>df_information_key = ''ein'', df_name = ''EIN'', df_category = ''CORPORATE_INFORMATION'', df_description = None,
     df_data_type = ''TEXT'', df_sensitivity = Some ''RESTRICTED'', df_default_owner_role = None, df_validation_rules = None,
     df_reusable_policy = None, df_freshness_days = None, df_display_keep_last = Some 4\<rparr>"

definition ex_reg0 :: registry_db where
  "ex_reg0 = \<lparr>definitions = [], reg_values = [], usages = [], owners = [], reg_audits = [], rg_exists = (\<lambda>_ _. True)\<rparr>"

definition ex_def :: information_definition where
  "ex_def = \<lparr>def_id = 1, information_key = ''ein'', def_name = ''EIN'', def_category = ''CORPORATE_INFORMATION'', def_description = None,
     def_data_type = ''TEXT'', def_sensitivity = ''RESTRICTED'', default_owner_role = None, validation_rules = [],
     reusable_policy = ''ENTITY_ONLY'', freshness_days = Some 365, display_keep_last = 4\<rparr>"

definition ex_reg :: "information_value list \<Rightarrow> (lic_audit \<times> jdict) list \<Rightarrow> registry_db" where
  "ex_reg vs as = \<lparr>definitions = [ex_def], reg_values = vs, usages = [], owners = [], reg_audits = as, rg_exists = (\<lambda>_ _. True)\<rparr>"

lemma ex_define: "\<exists>as. create_definition ex_settings (ex_renv 1) ex_manager ex_fields' ex_reg0 = Inr (ex_def, ex_reg [] as)"
proof -
  have d: "definition_constraints ex_def" by code_simp
  have e: "ex_def = \<lparr>def_id = 1, information_key = ''ein'', def_name = ''EIN'', def_category = ''CORPORATE_INFORMATION'', def_description = None,
     def_data_type = ''TEXT'', def_sensitivity = ''RESTRICTED'', default_owner_role = None, validation_rules = [],
     reusable_policy = ''ENTITY_ONLY'', freshness_days = Some 365, display_keep_last = 4\<rparr>" by (simp add: ex_def_def)
  show ?thesis using d unfolding e
    by (simp add: create_definition_def ex_fields'_def ex_settings_def ex_reg0_def ex_renv_def text_default_def Let_def reg_audit_def ex_reg_def ex_def_def)
qed

definition ex_request :: "json \<Rightarrow> value_request" where
  "ex_request v = \<lparr>vr_definition_id = 1, vr_value = v,
     vr_scope = \<lparr>vs_legal_entity_id = Some 3, vs_jurisdiction_id = None, vs_license_id = None, vs_vendor_organization_id = None,
       vs_compliance_case_id = None\<rparr>,
     vr_valid_from = None, vr_valid_to = None, vr_owner_actor = None, vr_source_document_id = None, vr_source_reference = None\<rparr>"

definition ex_sealed :: "json \<Rightarrow> string" where
  "ex_sealed v = CIPHER_VERSION @ '':'' @ ''k'' @ '':'' @ b64e (replicate 12 (CHR ''n'')) @ '':'' @
     b64e (seal ex_crypto (replicate 32 (CHR 0x00)) (replicate 12 (CHR ''n'')) (canonical_bytes ex_crypto v) (aad ''information_value'' (str_uuid 2)))"

definition ex_value :: "json \<Rightarrow> information_value" where
  "ex_value v = \<lparr>val_id = 2, val_definition_id = 1, val_legal_entity_id = Some 3, val_jurisdiction_id = None, val_license_id = None,
     val_vendor_organization_id = None, val_compliance_case_id = None, value_version = 1, value_encrypted = Some (ex_sealed v),
     value_plain = None, value_fingerprint = ''mac'', display_value_redacted = Some (redact ex_crypto v 4 ''*''), val_status = ''DRAFT'',
     valid_from = None, valid_to = None, owner_actor = Some ''meg'', source_document_id = None, source_reference = None,
     val_created_by_actor = Some ''meg'', approved_by_actor = None, val_approved_at = None, cross_entity_approved_by_actor = None,
     cross_entity_approved_at = None, superseded_by_value_id = None, val_rejection_reason = None, last_used_at = None\<rparr>"

lemma ex_encrypt: "encrypt ex_crypto ex_keyring (replicate 12 (CHR ''n'')) v ''information_value'' (str_uuid 2) = Inr (ex_sealed v)"
  by (simp add: encrypt_def ex_keyring_def keyring_key_def ex_sealed_def Let_def)

lemma ex_protect:
  assumes "val_id rec = 2"
  shows "protect (ex_renv 2) ex_def v rec = Inr (rec\<lparr>value_encrypted := Some (ex_sealed v), value_fingerprint := ''mac''\<rparr>)"
proof -
  have e: "re_crypto (ex_renv 2) = ex_crypto" "re_nonce (ex_renv 2) = replicate 12 (CHR ''n'')" by (simp_all add: ex_renv_def)
  have r: "requires_encryption (def_sensitivity ex_def)" by code_simp
  have p: "fingerprint ex_crypto ex_keyring v = Inr ''mac''"
    by (simp add: fingerprint_def ex_keyring_def keyring_key_def) (simp add: ex_crypto_def)
  show ?thesis unfolding protect_def e assms using r by (simp add: ex_cipher ex_encrypt p from_cipher_def)
qed

lemma ex_propose:
  assumes "validate_value (re_values (ex_renv 2)) v ''TEXT'' [] = Inr []"
  shows "\<exists>as'. propose_value (ex_renv 2) ex_manager (ex_request v) (ex_reg [] as) = Inr (ex_value v, ex_reg [ex_value v] as')"
proof -
  define rec where "rec = draft_value (ex_renv 2) ex_manager (ex_request v) (ex_reg [] as)"
  have rec: "rec = (ex_value v)\<lparr>value_encrypted := None, value_fingerprint := [], display_value_redacted := None\<rparr>"
    by (simp add: rec_def draft_value_def ex_value_def ex_renv_def ex_request_def ex_manager_def ex_reg_def highest_version_in_def text_default_def Let_def)
  have i: "val_id rec = 2" by (simp add: rec ex_value_def)
  have d: "display_text (ex_renv 2) ex_def v = redact ex_crypto v 4 ''*''"
    by (simp add: display_text_def ex_def_def ex_renv_def)
  have x: "rec\<lparr>value_encrypted := Some (ex_sealed v), value_fingerprint := ''mac'', display_value_redacted := Some (redact ex_crypto v 4 ''*'')\<rparr> = ex_value v"
    by (simp add: rec ex_value_def)
  have g: "get_definition (ex_reg [] as) (vr_definition_id (ex_request v)) = Inr ex_def"
    by (simp add: get_definition_def ex_reg_def ex_request_def ex_def_def)
  have f: "def_data_type ex_def = ''TEXT''" "validation_rules ex_def = []" "vr_value (ex_request v) = v"
    "vs_legal_entity_id (vr_scope (ex_request v)) = Some 3" by (simp_all add: ex_def_def ex_request_def)
  have ins: "value_insertable (ex_reg [] as) (ex_value v)"
    by (simp add: value_insertable_def ex_value_def ex_reg_def value_refs_ok_def)
  show ?thesis unfolding propose_value_def g bindE_simps f assms rec_def [symmetric] ex_protect [OF i] d Let_def
    by (simp add: from_py_def f x ins reg_audit_def) (simp add: ex_reg_def)
qed

definition ex_approved :: "json \<Rightarrow> information_value" where
  "ex_approved v = (ex_value v)\<lparr>val_status := ''APPROVED'', approved_by_actor := Some ''meg'', val_approved_at := Some 0\<rparr>"

lemma ex_approve_value:
  "\<exists>as'. approve_value (ex_renv 3) ex_manager 2 False (ex_reg [ex_value v] as) = Inr (ex_approved v, ex_reg [ex_approved v] as')"
proof -
  have g: "get_value (ex_reg [ex_value v] as) 2 = Inr (ex_value v)" "val_definition_id (ex_value v) = 1" "val_status (ex_value v) = ''DRAFT''"
    "owner_actor (ex_value v) = Some ''meg''" "get_definition (ex_reg [ex_value v] as) 1 = Inr ex_def"
    "grant_cross_entity (ex_renv 3) ex_manager ex_def False (ex_value v) = Inr (ex_value v)"
    "current_approved (ex_value v) (ex_reg [ex_value v] as) = None"
    by (simp_all add: get_value_def get_definition_def ex_reg_def ex_value_def ex_def_def grant_cross_entity_def current_approved_def)
  have a: "(ex_value v)\<lparr>val_status := ''APPROVED'', approved_by_actor := Some (actor_id (ra_actor ex_manager)),
      val_approved_at := Some (ce_now (re_case (ex_renv 3)))\<rparr> = ex_approved v"
    by (simp add: ex_approved_def ex_manager_def ex_renv_def)
  have i: "val_id (ex_approved v) = 2" "val_id (ex_value v) = 2" by (simp_all add: ex_approved_def ex_value_def)
  have p: "save_value (ex_approved v) (ex_reg [ex_value v] as) = ex_reg [ex_approved v] as"
    by (simp add: save_value_def put_row_def i ex_reg_def)
  have x: "approved_index (put_row val_id (ex_approved v) [ex_value v])" "reg_values (ex_reg [ex_value v] as) = [ex_value v]"
    by (simp_all add: approved_index_def put_row_def i ex_reg_def)
  show ?thesis unfolding approve_value_def g bindE_simps
    by (simp add: g Let_def a p x reg_audit_def) (simp add: ex_reg_def)
qed

lemma ex_text_valid: "validate_value (re_values (ex_renv 2)) (JStr ''AB-12'') ''TEXT'' [] = Inr []"
  by (simp add: ex_renv_def) code_simp

lemma ex_reg_reach: "\<exists>as. reach registry_init (registry_step ex_crypto) (ex_reg [ex_approved (JStr ''AB-12'')] as)"
proof -
  have c: "re_crypto (ex_renv n) = ex_crypto" for n by (simp add: ex_renv_def)
  obtain a1 where d: "create_definition ex_settings (ex_renv 1) ex_manager ex_fields' ex_reg0 = Inr (ex_def, ex_reg [] a1)"
    using ex_define by blast
  obtain a2 where p: "propose_value (ex_renv 2) ex_manager (ex_request (JStr ''AB-12'')) (ex_reg [] a1) =
      Inr (ex_value (JStr ''AB-12''), ex_reg [ex_value (JStr ''AB-12'')] a2)" using ex_propose [OF ex_text_valid] by blast
  obtain a3 where a: "approve_value (ex_renv 3) ex_manager 2 False (ex_reg [ex_value (JStr ''AB-12'')] a2) =
      Inr (ex_approved (JStr ''AB-12''), ex_reg [ex_approved (JStr ''AB-12'')] a3)" using ex_approve_value by blast
  have "reach registry_init (registry_step ex_crypto) ex_reg0" by (rule reach_init) (simp add: registry_init_def ex_reg0_def)
  moreover have "registry_step ex_crypto ex_reg0 (ex_reg [] a1)" by (rule rstep_define [OF d])
  ultimately have "reach registry_init (registry_step ex_crypto) (ex_reg [] a1)" by (rule reach_step)
  moreover have "registry_step ex_crypto (ex_reg [] a1) (ex_reg [ex_value (JStr ''AB-12'')] a2)" by (rule rstep_propose [OF c p])
  ultimately have "reach registry_init (registry_step ex_crypto) (ex_reg [ex_value (JStr ''AB-12'')] a2)" by (rule reach_step)
  moreover have "registry_step ex_crypto (ex_reg [ex_value (JStr ''AB-12'')] a2) (ex_reg [ex_approved (JStr ''AB-12'')] a3)"
    by (rule rstep_approve [OF a])
  ultimately have "reach registry_init (registry_step ex_crypto) (ex_reg [ex_approved (JStr ''AB-12'')] a3)" by (rule reach_step)
  then show ?thesis by blast
qed

subsection \<open>Stored values\<close>



subsection \<open>Use of values\<close>

definition usable_for :: "registry_env \<Rightarrow> information_definition \<Rightarrow> UsageContext \<Rightarrow> bool \<Rightarrow> registry_db \<Rightarrow> information_value \<Rightarrow> bool" where
  "usable_for env d ctx allow_stale db v \<longleftrightarrow>
     v \<in> set (reg_values db) \<and> val_definition_id v = def_id d \<and> rd_usable (reuse_decision env d ctx allow_stale v)"

lemma first_usable_spec:
  "sorted_wrt (\<lambda>x y. value_version y \<le> value_version x) vs \<Longrightarrow>
   (case first_usable env d ctx allow_stale rej vs of
      Resolved v d' f \<Rightarrow> d' = d \<and> v \<in> set vs \<and> rd_usable (reuse_decision env d ctx allow_stale v) \<and>
        (\<forall>w. w \<in> set vs \<and> rd_usable (reuse_decision env d ctx allow_stale w) \<longrightarrow> value_version w \<le> value_version v)
    | NotResolved r rs d' \<Rightarrow> d' = d \<and> (\<forall>w. w \<in> set vs \<longrightarrow> \<not> rd_usable (reuse_decision env d ctx allow_stale w))
    | DefinitionNotFound \<Rightarrow> False)"
proof (induction env d ctx allow_stale rej vs rule: first_usable.induct)
  case (2 env d ctx allow_stale rejections v vs)
  then show ?case
    by (cases "rd_usable (reuse_decision env d ctx allow_stale v)") (auto simp: Let_def split: resolution.splits)
qed simp

lemma sorted_reverse_wrt: "sorted_wrt (\<lambda>x y. f y \<le> f x) (sorted_reverse f xs)"
proof -
  have "sorted_wrt (\<lambda>x y. f x \<le> f y) (sort_key f (rev xs))" using sorted_sort_key [of f "rev xs"] by (simp add: sorted_map)
  then show ?thesis by (simp add: sorted_reverse_def sorted_wrt_rev)
qed

lemma usable_approved: "rd_usable (reuse_decision env d ctx allow_stale v) \<Longrightarrow> val_status v = ''APPROVED''"
  by (simp add: reuse_decision_def usable_iff)

text \<open>C19. The lookup finds a value exactly when some value of the definition is usable in the context, and
  then one of the highest version among them.\<close>

theorem resolve_for_use_exact:
  assumes "get_row information_key (definitions db) key = Some d"
  shows "case resolve_for_use env key ctx allow_stale db of
      Resolved v d' f \<Rightarrow> d' = d \<and> usable_for env d ctx allow_stale db v \<and>
        (\<forall>w. usable_for env d ctx allow_stale db w \<longrightarrow> value_version w \<le> value_version v)
    | NotResolved r rs d' \<Rightarrow> d' = d \<and> (\<forall>w. \<not> usable_for env d ctx allow_stale db w)
    | DefinitionNotFound \<Rightarrow> False"
proof -
  have "sorted_wrt (\<lambda>x y. value_version y \<le> value_version x) (approved_candidates (def_id d) db)"
    by (simp add: approved_candidates_def sorted_reverse_wrt)
  from first_usable_spec [OF this, where env = env and d = d and ctx = ctx and allow_stale = allow_stale and rej = "[]"]
  have s: "case resolve_for_use env key ctx allow_stale db of
      Resolved v d' f \<Rightarrow> d' = d \<and> v \<in> set (approved_candidates (def_id d) db) \<and> rd_usable (reuse_decision env d ctx allow_stale v) \<and>
        (\<forall>w. w \<in> set (approved_candidates (def_id d) db) \<and> rd_usable (reuse_decision env d ctx allow_stale w) \<longrightarrow> value_version w \<le> value_version v)
    | NotResolved r rs d' \<Rightarrow> d' = d \<and> (\<forall>w. w \<in> set (approved_candidates (def_id d) db) \<longrightarrow> \<not> rd_usable (reuse_decision env d ctx allow_stale w))
    | DefinitionNotFound \<Rightarrow> False" by (simp add: resolve_for_use_def assms)
  have u: "usable_for env d ctx allow_stale db w \<longleftrightarrow>
      w \<in> set (approved_candidates (def_id d) db) \<and> rd_usable (reuse_decision env d ctx allow_stale w)" for w
    using usable_approved by (auto simp: usable_for_def approved_candidates_def)
  show ?thesis using s unfolding u by (simp split: resolution.splits)
qed

definition ex_context :: UsageContext where
  "ex_context = \<lparr>uc_legal_entity_id = 3, uc_jurisdiction_id = Some 4, uc_license_id = None, uc_vendor_organization_id = None,
     uc_compliance_case_id = None, uc_max_sensitivity = ''RESTRICTED''\<rparr>"

lemma ex_usable: "rd_usable (reuse_decision (ex_renv 9) ex_def ex_context False (ex_approved v))"
proof -
  have f: "assess_freshness (Some 0) None (Some 365) (Date 2025 1 1) 0 \<noteq> ''STALE''"
    by (simp add: assess_freshness_def td_days_def Let_def)
  show ?thesis using f unfolding reuse_decision_def usable_iff
    by (simp add: ex_approved_def ex_value_def ex_def_def ex_context_def ex_renv_def value_scope_def out_of_scope_def sensitivity_rank_def SENSITIVITY_ORDER_def)
qed

lemma ex_usable_for: "usable_for (ex_renv 9) ex_def ex_context False (ex_reg [ex_approved v] as) (ex_approved v)"
  using ex_usable [of v] by (simp add: usable_for_def ex_reg_def) (simp add: ex_approved_def ex_value_def ex_def_def)

theorem resolve_for_use_exact_witness:
  "\<exists>as f. resolve_for_use (ex_renv 9) ''ein'' ex_context False (ex_reg [ex_approved (JStr ''AB-12'')] as) = Resolved (ex_approved (JStr ''AB-12'')) ex_def f"
proof -
  let ?db = "ex_reg [ex_approved (JStr ''AB-12'')] []"
  have g: "get_row information_key (definitions ?db) ''ein'' = Some ex_def" by (simp add: ex_reg_def ex_def_def)
  have o: "usable_for (ex_renv 9) ex_def ex_context False ?db w \<Longrightarrow> w = ex_approved (JStr ''AB-12'')" for w
    by (simp add: usable_for_def ex_reg_def)
  show ?thesis using resolve_for_use_exact [OF g, of "ex_renv 9" ex_context False] ex_usable_for [of "JStr ''AB-12''" "[]"] o
    by (cases "resolve_for_use (ex_renv 9) ''ein'' ex_context False ?db") auto
qed

text \<open>C20. Entity isolation: a value that the lookup returns is approved and has an owner, is not out of its
  validity, exceeds neither the sensitivity the context permits nor its jurisdiction, licence, vendor and case, and
  belongs to the entity of the context, unless it is organisation-wide, its definition allows all entities and a
  cross-entity approval is recorded.\<close>

theorem resolved_value_respects_isolation:
  assumes "resolve_for_use env key ctx allow_stale db = Resolved v d f"
  shows "val_status v = ''APPROVED'' \<and> owner_actor v \<noteq> None \<and> owner_actor v \<noteq> Some [] \<and> reusable_policy d \<noteq> ''NOT_REUSABLE'' \<and>
    (val_legal_entity_id v = Some (uc_legal_entity_id ctx) \<or>
     val_legal_entity_id v = None \<and> reusable_policy d = ''ALL_ENTITIES_APPROVED'' \<and> cross_entity_approved_by_actor v \<noteq> None) \<and>
    val_jurisdiction_id v \<in> {None, uc_jurisdiction_id ctx} \<and> val_license_id v \<in> {None, uc_license_id ctx} \<and>
    val_vendor_organization_id v \<in> {None, uc_vendor_organization_id ctx} \<and>
    val_compliance_case_id v \<in> {None, uc_compliance_case_id ctx} \<and>
    (valid_to v = None \<or> ce_today (re_case env) \<le> the (valid_to v)) \<and> (valid_from v = None \<or> the (valid_from v) \<le> ce_today (re_case env)) \<and>
    sensitivity_rank (def_sensitivity d) \<le> sensitivity_rank (uc_max_sensitivity ctx)"
proof -
  obtain d0 where g: "get_row information_key (definitions db) key = Some d0"
    using assms by (auto simp: resolve_for_use_def split: option.splits)
  have "sorted_wrt (\<lambda>x y. value_version y \<le> value_version x) (approved_candidates (def_id d0) db)"
    by (simp add: approved_candidates_def sorted_reverse_wrt)
  from first_usable_spec [OF this, where env = env and d = d0 and ctx = ctx and allow_stale = allow_stale and rej = "[]"] assms g
  have u: "rd_usable (reuse_decision env d ctx allow_stale v)" by (simp add: resolve_for_use_def)
  have o: "\<not> out_of_scope a b \<longleftrightarrow> a \<in> {None, b}" for a b by (auto simp: out_of_scope_def)
  have c: "\<not> ((p \<or> a \<noteq> None) \<and> a \<noteq> b) \<Longrightarrow> a \<in> {None, b}" for p and a b :: "uuid option" by auto
  note u = u [unfolded reuse_decision_def usable_iff o value_scope_def ValueScope.simps]
  then show ?thesis using c [of "reusable_policy d = ''CASE_SPECIFIC''" "val_compliance_case_id v" "uc_compliance_case_id ctx"]
    by (cases "valid_to v"; cases "valid_from v") simp_all
qed

theorem resolved_value_respects_isolation_witness:
  "\<exists>as v d f. resolve_for_use (ex_renv 9) ''ein'' ex_context False (ex_reg [ex_approved (JStr ''AB-12'')] as) = Resolved v d f \<and>
     val_status v = ''APPROVED'' \<and> val_legal_entity_id v = Some 3"
proof -
  let ?db = "ex_reg [ex_approved (JStr ''AB-12'')] []"
  have c: "approved_candidates (def_id ex_def) ?db = [ex_approved (JStr ''AB-12'')]"
    by (simp add: approved_candidates_def ex_reg_def sorted_reverse_def) (simp add: ex_approved_def ex_value_def ex_def_def)
  have g: "get_row information_key (definitions ?db) ''ein'' = Some ex_def" by (simp add: ex_reg_def ex_def_def)
  obtain f where r: "resolve_for_use (ex_renv 9) ''ein'' ex_context False ?db = Resolved (ex_approved (JStr ''AB-12'')) ex_def f"
    using ex_usable [of "JStr ''AB-12''"] by (simp add: resolve_for_use_def g c Let_def)
  have "val_status (ex_approved (JStr ''AB-12'')) = ''APPROVED''" using resolved_value_respects_isolation [OF r] by blast
  moreover have "val_legal_entity_id (ex_approved (JStr ''AB-12'')) = Some 3" by (simp add: ex_approved_def ex_value_def)
  ultimately show ?thesis using r by blast
qed

subsection \<open>Protected values\<close>

text \<open>URL-safe base64 without padding reads back every byte string it wrote.\<close>

theorem base64_round_trip: "b64d (b64e raw) = Inr raw"
  by (rule b64d_b64e)



text \<open>C21. An envelope opens only for the row it was sealed for: with any keyring that still holds the key, the
  row itself gets the plaintext back and every other row gets a decryption error.\<close>

theorem envelope_opens_only_for_its_row:
  assumes "encrypt lib kr nonce v ''information_value'' (str_uuid i) = Inr c" "keyring_ok kr" "length nonce = 12"
    and "map_of (kr_keys kr') (kr_active_key_id kr) = map_of (kr_keys kr) (kr_active_key_id kr)"
    and "aead_opens lib" "aead_binds lib" "i < 2 ^ 128" "j < 2 ^ 128"
  shows "decrypt lib kr' c ''information_value'' (str_uuid j) = (if j = i then Inr (canonical_bytes lib v) else Inl DecryptionError)"
proof (cases "j = i")
  case True
  then show ?thesis using decrypt_encrypt(1) [OF assms(1-5)] by simp
next
  case False
  then have "aad ''information_value'' (str_uuid j) \<noteq> aad ''information_value'' (str_uuid i)"
    using str_uuid_inject [of j i] assms(7,8) by (auto simp: aad_def)
  then show ?thesis using decrypt_encrypt(2) [OF assms(1-4,6)] False by simp
qed

theorem envelope_opens_only_for_its_row_witness:
  "decrypt ex_crypto ex_keyring (ex_sealed (JStr ''AB-12'')) ''information_value'' (str_uuid 2) = Inr ''AB-12'' \<and>
   decrypt ex_crypto ex_keyring (ex_sealed (JStr ''AB-12'')) ''information_value'' (str_uuid 3) = Inl DecryptionError"
  using envelope_opens_only_for_its_row [OF ex_encrypt ex_keyring_ok _ refl ex_crypto_laws, where v = "JStr ''AB-12''" and j = 2]
    envelope_opens_only_for_its_row [OF ex_encrypt ex_keyring_ok _ refl ex_crypto_laws, where v = "JStr ''AB-12''" and j = 3]
  by (simp add: canonical_bytes_def)

text \<open>What a reveal of a protected value returns.\<close>

definition unwrapped :: "json \<Rightarrow> json" where
  "unwrapped w = (case w of JObj p \<Rightarrow> jget_or p ''value'' JNull | _ \<Rightarrow> w)"

definition revealed :: "crypto_lib \<Rightarrow> json \<Rightarrow> json" where
  "revealed lib v =
     unwrapped (case v of JStr s \<Rightarrow> (case json_loads (text_float lib) s of Inr x \<Rightarrow> x | Inl _ \<Rightarrow> v) | _ \<Rightarrow> canon v)"

lemma decrypt_json_revealed:
  assumes "decrypt lib kr c ty i = Inr (canonical_bytes lib v)" "float_free v" "wf_json v"
    and "json_loads (text_float lib) (canonical_bytes lib v) \<noteq> Inl Unrepresentable"
  shows "\<exists>w. decrypt_json lib kr c ty i = Inr w \<and> unwrapped w = revealed lib v"
proof (cases "\<exists>s. v = JStr s")
  case True
  then obtain s where v: "v = JStr s" by blast
  have b: "canonical_bytes lib (JStr s) = s" by (simp add: canonical_bytes_def)
  have dj: "decrypt_json lib kr c ty i = (case json_loads (text_float lib) s of
      Inr v \<Rightarrow> Inr v | Inl Unrepresentable \<Rightarrow> Inl Outside_Model | Inl _ \<Rightarrow> Inr (JStr s))"
    using assms(1) unfolding v b by (simp add: decrypt_json_def)
  show ?thesis
  proof (cases "json_loads (text_float lib) s")
    case (Inl e)
    then have "e = JSONDecodeError" using assms(4) json_loads_fuel [of "text_float lib" s] unfolding v b by (cases e) auto
    then show ?thesis using Inl by (simp add: dj revealed_def v)
  qed (simp add: dj revealed_def v)
next
  case False
  then have "canonical_bytes lib v = json_text (float_text lib) '','' '':'' v" by (auto simp: canonical_bytes_def split: json.splits)
  also have "\<dots> = compact v" by (rule json_text_float_free [OF assms(2)])
  finally have "json_loads (text_float lib) (canonical_bytes lib v) = Inr (canon v)" using json_loads_compact [OF assms(2,3)] by simp
  moreover have "revealed lib v = unwrapped (canon v)" using False by (simp add: revealed_def split: json.splits)
  ultimately show ?thesis using assms(1) by (simp add: decrypt_json_def)
qed

lemma reveal_unwrapped: "(case w of JObj p \<Rightarrow> jget_or p ''value'' JNull | _ \<Rightarrow> w) = unwrapped w"
  by (simp add: unwrapped_def)



text \<open>
  A protected object without a \<^verbatim>\<open>value\<close> member is revealed as null, and a protected text of digits as a number.
\<close>

lemma revealed_object: "''value'' \<notin> fst ` set p \<Longrightarrow> revealed lib (JObj p) = JNull"
proof -
  assume a: "''value'' \<notin> fst ` set p"
  have "''value'' \<notin> fst ` set (sort_key fst (map (\<lambda>kv. (fst kv, canon (snd kv))) p))" using a by (auto simp: image_image)
  then show ?thesis by (simp add: revealed_def unwrapped_def jget_or_def jget_def map_of_eq_None_iff [THEN iffD2])
qed

lemma revealed_digits: "revealed ex_crypto (JStr ''123456789'') = JInt 123456789"
  by code_simp

text \<open>C22. A reveal happens only for a manager, an administrator or the recorded owner when the definition is of
  RESTRICTED or higher sensitivity, leaves the values as they are, and writes one audit row with the actor and the
  purpose.\<close>

theorem reveal_is_guarded_and_audited:
  assumes "reveal_value st env actor i purpose db = Inr (x, db')"
  shows "\<exists>v d a m. get_row val_id (reg_values db) i = Some v \<and> get_row def_id (definitions db) (val_definition_id v) = Some d \<and>
    (requires_encryption (def_sensitivity d) \<longrightarrow> ''Licensing.Manager'' \<in> set (ra_roles actor) \<or> ''Licensing.Admin'' \<in> set (ra_roles actor) \<or>
       owner_actor v = Some (actor_id (ra_actor actor))) \<and>
    (def_sensitivity d = ''HIGHLY_RESTRICTED'' \<longrightarrow> highly_restricted_enabled st) \<and>
    reg_values db' = reg_values db \<and> reg_audits db' = reg_audits db @ [(a, m)] \<and> la_actor_id a = actor_id (ra_actor actor) \<and>
    la_entity_id a = str_uuid i \<and> la_action a = ''information_value_revealed'' \<and> jget m ''purpose'' = Some (JStr purpose)"
proof -
  obtain v d where g: "get_row val_id (reg_values db) i = Some v" "get_row def_id (definitions db) (val_definition_id v) = Some d"
    "requires_encryption (def_sensitivity d) \<longrightarrow> has_role (ra_roles actor) ''Licensing.Manager'' \<or> owner_actor v = Some (actor_id (ra_actor actor))"
    "def_sensitivity d = ''HIGHLY_RESTRICTED'' \<longrightarrow> highly_restricted_enabled st"
    and db': "db' = reg_audit env actor ''information_value'' i ''information_value_revealed'' None
            [(''purpose'', JStr purpose), (''sensitivity'', JStr (def_sensitivity d))] db"
    using assms by (auto simp: reveal_value_def err_simps)
  show ?thesis using g unfolding db'
    by (simp add: reg_audit_def licensing_audit_def manager_role jget_def disj_assoc)
qed

theorem reveal_is_guarded_and_audited_witness:
  "\<exists>db x db' a m. reveal_value ex_settings (ex_renv 5) ex_manager 2 ''MANUAL_LOOKUP'' db = Inr (x, db') \<and>
     reg_audits db' = reg_audits db @ [(a, m)] \<and> la_actor_id a = ''meg''"
proof -
  let ?v = "(ex_value (JStr ''AB-12''))\<lparr>val_definition_id := 1, value_encrypted := None, value_plain := Some [(''value'', JStr ''AB-12'')]\<rparr>"
  let ?db = "(ex_reg [?v] [])\<lparr>definitions := [ex_def\<lparr>def_sensitivity := ''INTERNAL''\<rparr>]\<rparr>"
  have r: "\<not> requires_encryption ''INTERNAL''" by code_simp
  have "\<exists>x db'. reveal_value ex_settings (ex_renv 5) ex_manager 2 ''MANUAL_LOOKUP'' ?db = Inr (x, db')"
    using r by (simp add: reveal_value_def get_value_def get_definition_def ex_reg_def ex_value_def ex_def_def)
  then obtain x db' where e: "reveal_value ex_settings (ex_renv 5) ex_manager 2 ''MANUAL_LOOKUP'' ?db = Inr (x, db')" by blast
  have "actor_id (ra_actor ex_manager) = ''meg''" by (simp add: ex_manager_def)
  then show ?thesis using reveal_is_guarded_and_audited [OF e] e by metis
qed

subsection \<open>Types of values\<close>

text \<open>What a data type demands of a value that is not empty.\<close>

definition has_type :: "value_lib \<Rightarrow> string \<Rightarrow> json \<Rightarrow> bool" where
  "has_type lib t v \<longleftrightarrow>
     (if t \<in> {''TEXT'', ''LONG_TEXT''} then (\<exists>s. v = JStr s)
      else if t \<in> {''INTEGER'', ''DECIMAL'', ''CURRENCY''} then (\<exists>x. coerce_number lib v = Inr (Some x) \<and> (t = ''INTEGER'' \<longrightarrow> not_whole x = Inr False))
      else if t = ''BOOLEAN'' then (\<exists>b. v = JBool b)
      else if t = ''DATE'' then (\<exists>s d. v = JStr s \<and> fromisoformat s = Some d)
      else if t = ''EMAIL'' then (\<exists>s. v = JStr s \<and> email_ok (py_strip s))
      else if t = ''PHONE'' then (\<exists>s. v = JStr s \<and> phone_ok (py_strip s))
      else if t = ''URL'' then (\<exists>s. v = JStr s \<and> url_ok (py_strip s))
      else if t = ''ADDRESS'' then (\<exists>a. v = JObj a) else True)"

lemma issue_if_Nil [simp]: "issue_if b code = [] \<longleftrightarrow> \<not> b"
  by (simp add: issue_if_def)

lemma text_issues_Nil: "text_issues v config = Inr [] \<Longrightarrow> \<exists>s. v = JStr s"
  by (cases v) (simp_all add: text_issues_def)

lemma number_issues_Nil:
  "number_issues lib v t config = Inr [] \<Longrightarrow>
     \<exists>x. coerce_number lib v = Inr (Some x) \<and> (t = ''INTEGER'' \<longrightarrow> not_whole x = Inr False)"
  by (cases "t = ''INTEGER''") (auto simp: number_issues_def err_simps split: option.splits)

lemma format_issue_Nil: "format_issue v ok code = [] \<Longrightarrow> \<exists>s. v = JStr s \<and> ok (py_strip s)"
  by (cases v) (simp_all add: format_issue_def)

lemma address_issues_Nil: "address_issues lib v config = Inr [] \<Longrightarrow> \<exists>a. v = JObj a"
  by (cases v) (simp_all add: address_issues_def)

lemma bool_issues_Nil: "(case v of JBool _ \<Rightarrow> [] | _ \<Rightarrow> [issue ''WRONG_TYPE'']) = [] \<Longrightarrow> \<exists>b. v = JBool b"
  by (cases v) simp_all

lemma date_issues_Nil:
  "(case v of JStr s \<Rightarrow> issue_if (fromisoformat s = None) ''INVALID_DATE'' | _ \<Rightarrow> [issue ''INVALID_DATE'']) = [] \<Longrightarrow>
     \<exists>s d. v = JStr s \<and> fromisoformat s = Some d"
  by (cases v) simp_all

lemmas issues_Nil = text_issues_Nil number_issues_Nil format_issue_Nil address_issues_Nil bool_issues_Nil date_issues_Nil

lemma if_imp_if: "(if P then A else A') \<Longrightarrow> (A \<Longrightarrow> B) \<Longrightarrow> (A' \<Longrightarrow> B') \<Longrightarrow> (if P then B else B')"
  by (cases P) simp_all

lemma type_issues_Nil: "type_issues lib v t config = Inr [] \<Longrightarrow> has_type lib t v"
  unfolding type_issues_def has_type_def if_distrib [of "\<lambda>x. x = Inr []"] sum.inject
  by (elim if_imp_if) (rule TrueI | erule issues_Nil)+

lemma not_allowed_Nil: "not_allowed v config = Inr [] \<Longrightarrow> jget config ''allowed_values'' = Some (JList xs) \<Longrightarrow> xs \<noteq> [] \<Longrightarrow> list_ex (json_eq v) xs"
  by (auto simp: not_allowed_def jget_or_def json_member_def err_simps Let_def)

text \<open>C25. Every proposed value that is not empty has the type of its definition and is one of the allowed values,
  and a required one is not empty.\<close>

theorem proposed_value_is_typed:
  assumes "propose_value env actor r db = Inr (v, db')" "get_row def_id (definitions db) (vr_definition_id r) = Some d"
  shows "(is_empty_value (vr_value r) \<longrightarrow> \<not> truthy (jget_or (validation_rules d) ''required'' JNull)) \<and>
    (\<not> is_empty_value (vr_value r) \<longrightarrow> has_type (re_values env) (def_data_type d) (vr_value r) \<and>
      (jget (validation_rules d) ''allowed_values'' = Some (JList xs) \<and> xs \<noteq> [] \<longrightarrow> list_ex (json_eq (vr_value r)) xs))"
  using assms(1)
proof (cases rule: propose_cases)
  case (1 d' rec)
  have ok: "validate_value (re_values env) (vr_value r) (def_data_type d) (validation_rules d) = Inr []" using 1(1,2) assms(2) by simp
  show ?thesis
  proof (cases "is_empty_value (vr_value r)")
    case True
    then show ?thesis using ok by (simp add: validate_value_def Let_def)
  next
    case False
    obtain l where l: "type_issues (re_values env) (vr_value r) (def_data_type d) (validation_rules d) = Inr []"
      "(if def_data_type d = ''ENUM'' then Inr [] else not_allowed (vr_value r) (validation_rules d)) = Inr l" "l = []"
      using ok False by (auto simp: validate_value_def Let_def err_simps)
    have "not_allowed (vr_value r) (validation_rules d) = Inr []"
      using l by (cases "def_data_type d = ''ENUM''") (auto simp: type_issues_def)
    then show ?thesis using False type_issues_Nil [OF l(1)] not_allowed_Nil by blast
  qed
qed

theorem proposed_value_is_typed_witness:
  "\<exists>v db'. propose_value (ex_renv 2) ex_manager (ex_request (JStr ''AB-12'')) (ex_reg [] []) = Inr (v, db') \<and>
     has_type (re_values (ex_renv 2)) ''TEXT'' (JStr ''AB-12'')"
proof -
  obtain as where p: "propose_value (ex_renv 2) ex_manager (ex_request (JStr ''AB-12'')) (ex_reg [] []) =
      Inr (ex_value (JStr ''AB-12''), ex_reg [ex_value (JStr ''AB-12'')] as)" using ex_propose [OF ex_text_valid] by blast
  have v: "vr_value (ex_request (JStr ''AB-12'')) = JStr ''AB-12''" "vr_definition_id (ex_request (JStr ''AB-12'')) = 1" by (simp_all add: ex_request_def)
  have g: "get_row def_id (definitions (ex_reg [] [])) (vr_definition_id (ex_request (JStr ''AB-12''))) = Some ex_def"
    by (simp add: v ex_reg_def ex_def_def)
  have n: "\<not> is_empty_value (JStr ''AB-12'')" by code_simp
  have t: "def_data_type ex_def = ''TEXT''" by (simp add: ex_def_def)
  show ?thesis using proposed_value_is_typed [OF p g] n p unfolding v t by blast
qed

end
