(* ===== verification/Outbound_Policy.thy ===== *)
theory Outbound_Policy
  imports Document_Catalog Json_Text Alerts Conditions Recurrence
begin

text \<open>
  The policies of outbound mail (\<^verbatim>\<open>app/communications\<close>): the digests that bind an approval to what was
  reviewed (\<^verbatim>\<open>hashes.py\<close>), the recipients (\<^verbatim>\<open>recipients.py\<close>), the attachments
  (\<^verbatim>\<open>attachments.py\<close>), the content (\<^verbatim>\<open>validation.py\<close>) and the readiness of a response plan
  (\<^verbatim>\<open>readiness.py\<close>). SHA-256 of a text and the regular expression library are parameters.
\<close>

record mail_lib =
  ml_sha256 :: "string \<Rightarrow> string"
  ml_rules :: rule_lib

subsection \<open>Digests (hashes.py)\<close>

text \<open>\<^verbatim>\<open>re.sub(r"\r\n?", "\n", value)\<close>: the flag says that the last character read was a carriage return.\<close>

fun newlines :: "bool \<Rightarrow> string \<Rightarrow> string" where
  "newlines cr [] = []"
| "newlines cr (c # cs) =
     (if c = CHR 0x0D then CHR 0x0A # newlines True cs
      else if cr \<and> c = CHR 0x0A then newlines False cs
      else c # newlines False cs)"

definition sha256_text :: "mail_lib \<Rightarrow> string \<Rightarrow> string" where
  "sha256_text lib value = ml_sha256 lib (py_strip (newlines False value))"

text \<open>
  \<^verbatim>\<open>json.dumps(v, sort_keys=True, separators=(",", ":"), ensure_ascii=False)\<close>: only quotes, backslashes and
  control characters are escaped.
\<close>

definition escape_raw :: "char \<Rightarrow> string" where
  "escape_raw c = (if 127 \<le> (of_char c :: nat) then [c] else escape_char c)"

definition quote_raw :: "string \<Rightarrow> string" where
  "quote_raw s = CHR 0x22 # concat (map escape_raw s) @ [CHR 0x22]"

fun json_raw :: "rule_lib \<Rightarrow> json \<Rightarrow> string" where
  "json_raw lib JNull = ''null''"
| "json_raw lib (JBool b) = (if b then ''true'' else ''false'')"
| "json_raw lib (JInt n) = str_int n"
| "json_raw lib (JFloat q) = str_other lib (JFloat q)"
| "json_raw lib (JStr s) = quote_raw s"
| "json_raw lib (JList xs) = ''['' @ join_str '','' (map (json_raw lib) xs) @ '']''"
| "json_raw lib (JObj d) =
     ''{'' @ join_str '','' (map (\<lambda>kt. quote_raw (fst kt) @ '':'' @ snd kt)
        (sort_key fst (map (\<lambda>kv. (fst kv, json_raw lib (snd kv))) d))) @ ''}''"

definition canonical_sha256 :: "mail_lib \<Rightarrow> json \<Rightarrow> string" where
  "canonical_sha256 lib v = ml_sha256 lib (json_raw (ml_rules lib) v)"

text \<open>\<^verbatim>\<open>str(d.get(k) or "")\<close>.\<close>

definition str_or :: "rule_lib \<Rightarrow> jdict \<Rightarrow> string \<Rightarrow> string" where
  "str_or lib d k = (let v = jget_or d k JNull in if truthy v then py_str lib v else [])"

definition recipient_address :: "rule_lib \<Rightarrow> jdict \<Rightarrow> string" where
  "recipient_address lib r = lower_ascii (py_strip (str_or lib r ''address''))"

text \<open>The list is sorted by address and then by name: a stable sort by name, then one by address.\<close>

definition normalize_recipients :: "rule_lib \<Rightarrow> jdict list \<Rightarrow> (string \<times> string) list" where
  "normalize_recipients lib rs =
     sort_key fst (sort_key snd (map (\<lambda>r. (recipient_address lib r, py_strip (str_or lib r ''name''))) rs))"

definition recipient_payload :: "string \<times> string \<Rightarrow> json" where
  "recipient_payload an = JObj [(''address'', JStr (fst an)), (''name'', JStr (snd an))]"

definition recipient_set_hash :: "mail_lib \<Rightarrow> jdict list \<Rightarrow> jdict list \<Rightarrow> jdict list \<Rightarrow> string" where
  "recipient_set_hash lib to_recipients cc_recipients bcc_recipients =
     (let payload = (\<lambda>rs. JList (map recipient_payload (normalize_recipients (ml_rules lib) rs)))
      in canonical_sha256 lib
           (JObj [(''to'', payload to_recipients), (''cc'', payload cc_recipients), (''bcc'', payload bcc_recipients)]))"

record ApprovalSnapshot =
  sn_subject :: string
  sn_body_sha256 :: string
  sn_recipient_sha256 :: string
  sn_attachment_sha256 :: string
  sn_revision :: int
  sn_graph_draft_message_id :: string
  sn_graph_change_key :: "string option"
  sn_graph_etag :: "string option"
  sn_response_plan_id :: string
  sn_template_version_id :: "string option"

definition json_maybe :: "string option \<Rightarrow> json" where
  "json_maybe x = (case x of None \<Rightarrow> JNull | Some s \<Rightarrow> JStr s)"

definition snapshot_payload :: "ApprovalSnapshot \<Rightarrow> jdict" where
  "snapshot_payload s =
     [(''subject'', JStr (py_strip (sn_subject s))), (''body_sha256'', JStr (sn_body_sha256 s)),
      (''recipient_set_sha256'', JStr (sn_recipient_sha256 s)), (''attachment_set_sha256'', JStr (sn_attachment_sha256 s)),
      (''revision'', JInt (sn_revision s)), (''graph_draft_message_id'', JStr (sn_graph_draft_message_id s)),
      (''graph_change_key'', json_maybe (sn_graph_change_key s)), (''graph_etag'', json_maybe (sn_graph_etag s)),
      (''response_plan_id'', JStr (sn_response_plan_id s)), (''template_version_id'', json_maybe (sn_template_version_id s))]"

definition approval_snapshot_hash :: "mail_lib \<Rightarrow> ApprovalSnapshot \<Rightarrow> string" where
  "approval_snapshot_hash lib s = canonical_sha256 lib (JObj (snapshot_payload s))"

subsection \<open>Recipients (recipients.py)\<close>

record mail_settings =
  max_to_recipients :: int
  max_cc_recipients :: int
  max_total_recipients :: int
  reply_all_enabled :: bool
  bcc_enabled :: bool
  require_separate_send_approver :: bool
  allow_self_approval :: bool
  require_two_person_approval :: bool
  external_recipient_requires_manager :: bool
  expected_mailbox_address :: "string option"
  communications_enabled :: bool
  graph_send_enabled :: bool
  max_body_chars :: int
  send_job_max_attempts :: int
  move_job_max_attempts :: int
  reconciliation_max_attempts :: int
  reconciliation_initial_delay :: int
  reconciliation_max_seconds :: int
  attachments_enabled :: bool
  total_attachment_max_bytes :: int
  large_attachment_max_bytes :: int
  simple_attachment_max_bytes :: int
  large_attachments_enabled :: bool
  large_attachment_accepted :: bool

text \<open>\<^verbatim>\<open>EMAIL.fullmatch\<close>: one at sign, no blanks, and a dot inside the domain.\<close>

definition after_last_at :: "string \<Rightarrow> string" where
  "after_last_at s = rev (takeWhile (\<lambda>c. c \<noteq> CHR ''@'') (rev s))"

definition address_ok :: "string \<Rightarrow> bool" where
  "address_ok s =
     (let user = takeWhile (\<lambda>c. c \<noteq> CHR ''@'') s; domain = drop (length user + 1) s
      in CHR ''@'' \<in> set s \<and> user \<noteq> [] \<and> CHR ''@'' \<notin> set domain \<and> list_all (\<lambda>c. \<not> is_space c) s \<and>
         CHR ''.'' \<in> set (butlast (drop 1 domain)))"

record RecipientPolicyRule =
  pr_rule_key :: string
  pr_rule_type :: string
  pr_priority :: int
  pr_conditions :: json
  pr_action :: string
  pr_enabled :: bool

record RecipientPolicyResult =
  rp_allowed :: bool
  rp_blockers :: "string list"
  rp_warnings :: "string list"

record recipient_request =
  rq_mode :: string
  rq_to :: "jdict list"
  rq_cc :: "jdict list"
  rq_bcc :: "jdict list"
  rq_reply_all_reviewed :: bool
  rq_bcc_authorized :: bool
  rq_blocked_domains :: "string list"
  rq_internal_domains :: "string list option"
  rq_policy_rules :: "RecipientPolicyRule list"
  rq_manager_approved :: bool
  rq_enforce_manager_rules :: bool

definition rule_conditions :: "RecipientPolicyRule \<Rightarrow> jdict" where
  "rule_conditions r = (case pr_conditions r of JObj d \<Rightarrow> d | _ \<Rightarrow> [])"

definition rule_values :: "rule_lib \<Rightarrow> RecipientPolicyRule \<Rightarrow> string list" where
  "rule_values lib r =
     (let c = rule_conditions r in
      case jget_or c ''values'' (jget_or c ''domains'' (JList [])) of
        JList vs \<Rightarrow> filter (\<lambda>s. s \<noteq> []) (map (\<lambda>v. lower_ascii (py_strip (py_str lib v))) vs)
      | _ \<Rightarrow> [])"

definition rule_maximum :: "RecipientPolicyRule \<Rightarrow> int" where
  "rule_maximum r =
     (let c = rule_conditions r; v = jget_or c ''maximum'' (jget_or c ''max'' (JInt 0))
      in case py_int (if truthy v then v else JInt 0) of Inl _ \<Rightarrow> 0 | Inr n \<Rightarrow> n)"

definition all_recipients :: "recipient_request \<Rightarrow> jdict list" where
  "all_recipients q = rq_to q @ rq_cc q @ rq_bcc q"

definition addresses :: "rule_lib \<Rightarrow> recipient_request \<Rightarrow> string list" where
  "addresses lib q = map (recipient_address lib) (all_recipients q)"

definition domains :: "rule_lib \<Rightarrow> recipient_request \<Rightarrow> string list" where
  "domains lib q = map after_last_at (filter (\<lambda>a. CHR ''@'' \<in> set a) (addresses lib q))"

definition external_domains :: "rule_lib \<Rightarrow> recipient_request \<Rightarrow> string list" where
  "external_domains lib q =
     (case rq_internal_domains q of
        None \<Rightarrow> [] | Some is \<Rightarrow> filter (\<lambda>d. d \<notin> lower_ascii ` set is) (domains lib q))"

definition rule_matches :: "rule_lib \<Rightarrow> recipient_request \<Rightarrow> RecipientPolicyRule \<Rightarrow> bool" where
  "rule_matches lib q r =
     (let ds = set (domains lib q); as = set (addresses lib q); values = set (rule_values lib r); t = pr_rule_type r in
      if t = ''BLOCKED_DOMAIN'' then ds \<inter> values \<noteq> {}
      else if t = ''BLOCKED_ADDRESS'' then as \<inter> values \<noteq> {}
      else if t = ''ALLOWED_DOMAIN'' \<and> values \<noteq> {} then \<not> ds \<subseteq> values
      else if t = ''ALLOWED_ADDRESS'' \<and> values \<noteq> {} then \<not> as \<subseteq> values
      else if t = ''INTERNAL_ONLY'' then
        \<not> ds \<subseteq> (if values \<noteq> {} then values
                else lower_ascii ` set (case rq_internal_domains q of None \<Rightarrow> [] | Some is \<Rightarrow> is))
      else if t = ''EXTERNAL_REQUIRES_MANAGER'' then
        external_domains lib q \<noteq> [] \<and> rq_enforce_manager_rules q \<and> \<not> rq_manager_approved q
      else if t = ''MAX_RECIPIENTS'' then 0 < rule_maximum r \<and> rule_maximum r < int (length (all_recipients q))
      else if t = ''BCC_DISABLED'' then rq_bcc q \<noteq> []
      else if t = ''REPLY_ALL_REQUIRES_APPROVAL'' then rq_mode q = ''REPLY_ALL'' \<and> \<not> rq_reply_all_reviewed q
      else False)"

definition warns_only :: "RecipientPolicyRule \<Rightarrow> bool" where
  "warns_only r \<longleftrightarrow> map upper_char (pr_action r) = ''WARN'' \<or> map upper_char (pr_action r) = ''FLAG''"

definition matching_rules :: "rule_lib \<Rightarrow> recipient_request \<Rightarrow> RecipientPolicyRule list" where
  "matching_rules lib q = filter (rule_matches lib q) (sort_key pr_priority (filter pr_enabled (rq_policy_rules q)))"

definition block_if :: "bool \<Rightarrow> string \<Rightarrow> string list" where
  "block_if b code = (if b then [code] else [])"

definition evaluate_recipients :: "mail_settings \<Rightarrow> rule_lib \<Rightarrow> recipient_request \<Rightarrow> RecipientPolicyResult" where
  "evaluate_recipients st lib q =
     (let rules = matching_rules lib q;
          blockers =
            block_if (rq_to q = []) ''RECIPIENT_MISSING'' @
            block_if (\<not> list_all address_ok (addresses lib q)) ''RECIPIENT_POLICY_BLOCK'' @
            block_if (max_to_recipients st < int (length (rq_to q))) ''RECIPIENT_POLICY_BLOCK'' @
            block_if (max_cc_recipients st < int (length (rq_cc q))) ''RECIPIENT_POLICY_BLOCK'' @
            block_if (max_total_recipients st < int (length (all_recipients q))) ''RECIPIENT_POLICY_BLOCK'' @
            block_if (set (domains lib q) \<inter> lower_ascii ` set (rq_blocked_domains q) \<noteq> {}) ''RECIPIENT_POLICY_BLOCK'' @
            block_if (rq_mode q = ''REPLY_ALL'' \<and> (\<not> reply_all_enabled st \<or> \<not> rq_reply_all_reviewed q)) ''REPLY_ALL_NOT_APPROVED'' @
            block_if (rq_bcc q \<noteq> [] \<and> (\<not> bcc_enabled st \<or> \<not> rq_bcc_authorized q)) ''BCC_NOT_AUTHORIZED'' @
            map (\<lambda>_. ''RECIPIENT_POLICY_BLOCK'') (filter (\<lambda>r. \<not> warns_only r) rules)
      in \<lparr>rp_allowed = (blockers = []), rp_blockers = dict_fromkeys blockers,
          rp_warnings = block_if (external_domains lib q \<noteq> []) ''EXTERNAL_RECIPIENT'' @ map pr_rule_key (filter warns_only rules)\<rparr>)"

subsection \<open>Attachments (attachments.py)\<close>

record draft_attachment =
  att_id :: uuid
  att_draft_id :: uuid
  att_document_id :: "uuid option"
  att_version_id :: "uuid option"
  att_graph_attachment_id :: "string option"
  att_filename :: string
  att_mime_type :: "string option"
  att_size_bytes :: int
  att_content_sha256 :: string
  att_status :: string
  att_upload_method :: "string option"
  att_added_by_actor :: string
  att_added_at :: datetime
  att_removed_at :: "datetime option"

definition transmission_blockers :: "date \<Rightarrow> document \<Rightarrow> document_version \<Rightarrow> string list" where
  "transmission_blockers today d v =
     dict_fromkeys
       (block_if (lifecycle_status d \<noteq> ''ACTIVE'') ''DOCUMENT_NOT_ACTIVE'' @
        block_if (approval_status d \<noteq> ''APPROVED'' \<or> \<not> approved_for_reuse d) ''DOCUMENT_NOT_APPROVED'' @
        block_if (storage_status v \<noteq> ''AVAILABLE'') ''DOCUMENT_QUARANTINED'' @
        block_if (case expiry_date d of None \<Rightarrow> False | Some e \<Rightarrow> e < today) ''DOCUMENT_EXPIRED'' @
        block_if (current_version_id d \<noteq> Some (ver_id v)) ''DOCUMENT_SUPERSEDED'' @
        block_if (ver_document_id v \<noteq> doc_id d \<or> ver_content_sha256 v \<noteq> doc_content_sha256 d \<or> ver_size_bytes v \<noteq> doc_size_bytes d)
          ''DOCUMENT_HASH_INVALID'' @
        block_if (confidentiality_level d = ''RESTRICTED'') ''DOCUMENT_TRANSMISSION_BLOCKED'')"

definition attachment_blockers ::
  "date \<Rightarrow> document list \<Rightarrow> document_version list \<Rightarrow> bool \<Rightarrow> draft_attachment \<Rightarrow> string list" where
  "attachment_blockers today docs vers require_graph_uploaded a =
     (case (att_document_id a, att_version_id a) of
        (Some di, Some vi) \<Rightarrow>
          (case (get_row doc_id docs di, get_row ver_id vers vi) of
             (Some d, Some v) \<Rightarrow>
               transmission_blockers today d v @
               block_if (att_content_sha256 a \<noteq> ver_content_sha256 v \<or> att_size_bytes a \<noteq> ver_size_bytes v \<or>
                         att_filename a \<noteq> ver_filename v) ''DOCUMENT_HASH_INVALID'' @
               block_if (require_graph_uploaded \<and>
                         (att_status a \<noteq> ''GRAPH_UPLOADED'' \<or> att_graph_attachment_id a = None \<or> att_graph_attachment_id a = Some []))
                 ''GRAPH_ATTACHMENT_MISSING''
           | _ \<Rightarrow> [''DOCUMENT_NOT_FOUND''])
      | _ \<Rightarrow> [''UNCONTROLLED_ATTACHMENT''])"

definition active_attachments :: "uuid \<Rightarrow> draft_attachment list \<Rightarrow> draft_attachment list" where
  "active_attachments i as = filter (\<lambda>a. att_draft_id a = i \<and> att_removed_at a = None) as"

definition validate_draft_attachments ::
  "date \<Rightarrow> document list \<Rightarrow> document_version list \<Rightarrow> draft_attachment list \<Rightarrow> uuid \<Rightarrow> bool \<Rightarrow> string list" where
  "validate_draft_attachments today docs vers as i require_graph_uploaded =
     dict_fromkeys (concat (map (attachment_blockers today docs vers require_graph_uploaded) (active_attachments i as)))"

text \<open>\<^verbatim>\<open>attachment_set_hash\<close> of the manifest that \<^verbatim>\<open>attachment_manifest\<close> builds from the active rows.\<close>

definition attachment_payload :: "draft_attachment \<Rightarrow> json" where
  "attachment_payload a =
     JObj [(''document_version_id'', JStr (case att_version_id a of None \<Rightarrow> [] | Some u \<Rightarrow> str_uuid u)),
           (''filename'', JStr (att_filename a)), (''size_bytes'', JInt (att_size_bytes a)),
           (''content_sha256'', JStr (att_content_sha256 a))]"

definition attachment_set_hash :: "mail_lib \<Rightarrow> draft_attachment list \<Rightarrow> string" where
  "attachment_set_hash lib as =
     canonical_sha256 lib (JList (map attachment_payload (sort_key att_filename (sort_key att_content_sha256 as))))"

subsection \<open>Content and readiness (validation.py, readiness.py)\<close>

text \<open>
  The three patterns are the arguments of the regular expression library, under the names they have in the
  code; \<^verbatim>\<open>ATTACHED\<close> is the one for \<^verbatim>\<open>attached\<close>, \<^verbatim>\<open>attachment\<close> and \<^verbatim>\<open>enclosed\<close> as whole words.
\<close>

record content_patterns =
  cp_placeholder :: "string \<Rightarrow> bool"
  cp_unsafe_html :: "string \<Rightarrow> bool"
  cp_attached :: "string \<Rightarrow> bool"

definition or_empty :: "string option \<Rightarrow> string" where
  "or_empty x = (case x of None \<Rightarrow> [] | Some s \<Rightarrow> s)"

definition message_text :: "string \<Rightarrow> string option \<Rightarrow> string option \<Rightarrow> string" where
  "message_text subject text html = subject @ CHR 0x0A # or_empty text @ CHR 0x0A # or_empty html"

definition validate_draft_content ::
  "content_patterns \<Rightarrow> string \<Rightarrow> string option \<Rightarrow> string option \<Rightarrow> nat \<Rightarrow> string list" where
  "validate_draft_content pats subject text html attachment_count =
     (let combined = message_text subject text html in
      block_if (py_strip subject = [] \<or> (or_empty text = [] \<and> or_empty html = [])) ''DRAFT_CONTENT_MISSING'' @
      block_if (cp_placeholder pats combined) ''UNRESOLVED_PLACEHOLDER'' @
      block_if (or_empty html \<noteq> [] \<and> cp_unsafe_html pats (or_empty html)) ''UNSAFE_HTML'' @
      block_if (cp_attached pats combined \<and> attachment_count = 0) ''ATTACHMENT_REFERENCE_WITHOUT_ATTACHMENT'')"

record readiness_request =
  rr_response_type :: string
  rr_requested_item_statuses :: "string list"
  rr_recipient_count :: nat
  rr_draft_reviewed :: bool
  rr_send_approved :: bool
  rr_graph_draft_exists :: bool
  rr_document_blockers :: "string list"
  rr_unresolved_placeholders :: bool
  rr_task_status :: "string option"
  rr_task_owner :: "string option"
  rr_destination_folder_id :: "string option"
  rr_response_deadline :: "date option"
  rr_check_task_context :: bool

definition evaluate_readiness :: "date \<Rightarrow> readiness_request \<Rightarrow> string \<times> string list" where
  "evaluate_readiness today q =
     (let responds = (rr_response_type q \<noteq> ''NO_RESPONSE_REQUIRED'');
          context_blockers =
            (if rr_check_task_context q then
               block_if (rr_task_status q = Some ''CANCELLED'' \<or> rr_task_status q = Some ''COMPLETED'') ''TASK_NOT_ACTIONABLE'' @
               block_if (or_empty (rr_destination_folder_id q) = []) ''DESTINATION_FOLDER_MISSING'' @
               block_if (responds \<and> or_empty (rr_task_owner q) = []) ''TASK_OWNER_MISSING'' @
               block_if (responds \<and> (case rr_response_deadline q of None \<Rightarrow> False | Some d \<Rightarrow> d < today)) ''RESPONSE_DEADLINE_PASSED''
             else []);
          blockers = rr_document_blockers q @ context_blockers;
          all_blockers = blockers @ block_if (rr_recipient_count q = 0) ''RECIPIENT_MISSING'' @
            block_if (rr_unresolved_placeholders q) ''UNRESOLVED_PLACEHOLDER'' @
            block_if (rr_response_type q \<in> {''INFORMATION_RESPONSE'', ''DOCUMENT_RESPONSE'', ''REGULATOR_RESPONSE'', ''BOND_RESPONSE''} \<and>
                      list_ex (\<lambda>s. s \<noteq> ''VERIFIED'' \<and> s \<noteq> ''NOT_APPLICABLE'') (rr_requested_item_statuses q))
              ''REQUESTED_ITEM_NOT_VERIFIED''
      in if \<not> responds then (if blockers \<noteq> [] then ''BLOCKED'' else ''NOT_REQUIRED'', dict_fromkeys blockers)
         else if all_blockers \<noteq> [] then (''NOT_READY'', dict_fromkeys all_blockers)
         else if \<not> rr_graph_draft_exists q then (''READY_FOR_DRAFT'', [])
         else if \<not> rr_draft_reviewed q then (''READY_FOR_APPROVAL'', [''DRAFT_NOT_REVIEWED''])
         else if \<not> rr_send_approved q then (''READY_FOR_APPROVAL'', [''SEND_APPROVAL_MISSING''])
         else (''READY_TO_SEND'', []))"

end
