(* ===== verification/Outbound_Drafts.thy ===== *)
theory Outbound_Drafts
  imports Outbound_Policy Information_Scoping
begin

text \<open>
  Outbound drafts, their revisions, the withdrawal of approvals and the edits that cause it
  (\<^verbatim>\<open>models/draft.py\<close>, \<^verbatim>\<open>models/communication.py\<close>, \<^verbatim>\<open>communications/snapshots.py\<close>,
  \<^verbatim>\<open>communications/audit.py\<close>, \<^verbatim>\<open>repositories/communication_jobs.py\<close> (enqueueing),
  \<^verbatim>\<open>services/draft_generation_service.py\<close> (editing), \<^verbatim>\<open>services/draft_attachment_service.py\<close>). A call that raises without a commit leaves the database
  as it was; a call that commits before it raises returns the database and the error.
\<close>

subsection \<open>Tables\<close>

record outbound_draft =
  od_id :: uuid
  od_response_plan_id :: "uuid option"
  od_task_id :: uuid
  od_email_id :: "uuid option"
  od_mailbox_id :: uuid
  od_current_version_id :: "uuid option"
  od_graph_draft_message_id :: "string option"
  od_graph_change_key :: "string option"
  od_graph_etag :: "string option"
  od_subject :: string
  od_body_text :: "string option"
  od_body_html :: "string option"
  od_to :: "jdict list"
  od_cc :: "jdict list"
  od_bcc :: "jdict list"
  od_status :: string
  od_local_revision :: int
  od_body_sha256 :: string
  od_recipient_set_sha256 :: string
  od_attachment_set_sha256 :: string
  od_approval_snapshot_sha256 :: "string option"
  od_created_by_actor :: "string option"
  od_last_edited_by_actor :: "string option"
  od_submitted_at :: "datetime option"
  od_graph_last_synced_at :: "datetime option"
  od_approved_at :: "datetime option"
  od_send_queued_at :: "datetime option"
  od_sent_at :: "datetime option"
  od_delivery_status :: string

record draft_version =
  dv_id :: uuid
  dv_draft_id :: uuid
  dv_revision :: int
  dv_subject :: string
  dv_body_text :: "string option"
  dv_body_html :: "string option"
  dv_to :: "jdict list"
  dv_cc :: "jdict list"
  dv_bcc :: "jdict list"
  dv_attachment_manifest :: "draft_attachment list"
  dv_body_sha256 :: string
  dv_recipient_set_sha256 :: string
  dv_attachment_set_sha256 :: string
  dv_snapshot_sha256 :: string
  dv_change_reason :: "string option"
  dv_created_by_actor :: string

record response_plan =
  rsp_id :: uuid
  rsp_response_type :: string
  rsp_readiness_status :: string
  rsp_readiness_blockers :: "string list"
  rsp_template_version_id :: "uuid option"
  rsp_recipient_mode :: string
  rsp_reply_all_reviewed :: bool
  rsp_bcc_authorized :: bool

record send_approval =
  ap_id :: uuid
  ap_draft_id :: uuid
  ap_version_id :: uuid
  ap_decision :: string
  ap_approver_actor :: string
  ap_snapshot_sha256 :: string
  ap_body_sha256 :: string
  ap_recipient_set_sha256 :: string
  ap_attachment_set_sha256 :: string
  ap_graph_draft_message_id :: string
  ap_graph_change_key :: "string option"
  ap_graph_etag :: "string option"
  ap_notes :: "string option"
  ap_approved_at :: "datetime option"
  ap_rejected_at :: "datetime option"
  ap_invalidated_at :: "datetime option"
  ap_invalidation_reason :: "string option"

record send_attempt =
  sa_id :: uuid
  sa_draft_id :: uuid
  sa_approval_id :: uuid
  sa_job_id :: "uuid option"
  sa_number :: nat
  sa_idempotency_key :: string
  sa_pre_send_snapshot :: string
  sa_graph_draft_message_id :: string
  sa_status :: string
  sa_http_status :: "int option"
  sa_graph_request_id :: "string option"
  sa_client_request_id :: "string option"
  sa_started_at :: datetime
  sa_accepted_at :: "datetime option"
  sa_reconciled_at :: "datetime option"
  sa_verified_at :: "datetime option"
  sa_sent_graph_message_id :: "string option"
  sa_sent_internet_message_id :: "string option"
  sa_sent_parent_folder_id :: "string option"
  sa_sent_body_sha256 :: "string option"
  sa_sent_recipient_sha256 :: "string option"
  sa_sent_attachment_sha256 :: "string option"
  sa_error_code :: "string option"
  sa_error_message :: "string option"

record comm_job =
  cj_id :: uuid
  cj_job_type :: string
  cj_draft_id :: "uuid option"
  cj_email_id :: "uuid option"
  cj_task_id :: "uuid option"
  cj_status :: string
  cj_priority :: int
  cj_idempotency_key :: string
  cj_payload :: jdict
  cj_attempts :: int
  cj_max_attempts :: int
  cj_available_at :: datetime
  cj_lease_owner :: "string option"
  cj_lease_expires_at :: "datetime option"

record mailbox =
  mb_id :: uuid
  mb_address :: string
  mb_graph_user_id :: "string option"

record mail_task =
  mt_id :: uuid
  mt_status :: string
  mt_assigned_to :: "string option"
  mt_destination_folder_id :: "string option"
  mt_due_date :: "date option"

record task_event =
  te_task_id :: uuid
  te_event_type :: string
  te_actor_id :: string
  te_metadata :: jdict
  te_occurred_at :: datetime

text \<open>
  \<^verbatim>\<open>md_sent_folders\<close> gives the Graph id of the folder "Sent Items" of a mailbox, \<^verbatim>\<open>md_item_statuses\<close> the
  statuses of the items requested by a task.
\<close>

record mail_db =
  md_drafts :: "outbound_draft list"
  md_versions :: "draft_version list"
  md_plans :: "response_plan list"
  md_mailboxes :: "mailbox list"
  md_tasks :: "mail_task list"
  md_item_statuses :: "(uuid \<times> string) list"
  md_attachments :: "draft_attachment list"
  md_documents :: "document list"
  md_document_versions :: "document_version list"
  md_rules :: "RecipientPolicyRule list"
  md_sent_folders :: "uuid \<rightharpoonup> string"
  md_approvals :: "send_approval list"
  md_attempts :: "send_attempt list"
  md_jobs :: "comm_job list"
  md_events :: "task_event list"
  md_audits :: "(lic_audit \<times> jdict) list"

record mail_actor =
  ma_actor :: case_actor
  ma_roles :: "string list"

text \<open>The clock, the primary keys of the rows a call inserts, and the libraries.\<close>

record mail_env =
  me_now :: datetime
  me_today :: date
  me_new_id :: uuid
  me_new_version_id :: uuid
  me_new_job_id :: uuid
  me_lib :: mail_lib
  me_patterns :: content_patterns

definition save_draft :: "outbound_draft \<Rightarrow> mail_db \<Rightarrow> mail_db" where
  "save_draft d db = db\<lparr>md_drafts := put_row od_id d (md_drafts db)\<rparr>"

definition comm_audit ::
  "mail_env \<Rightarrow> case_actor option \<Rightarrow> string \<Rightarrow> uuid \<Rightarrow> string \<Rightarrow> attrs option \<Rightarrow> attrs option \<Rightarrow> jdict \<Rightarrow> mail_db \<Rightarrow> mail_db" where
  "comm_audit env actor entity_type entity_id action before after metadata db =
     db\<lparr>md_audits := md_audits db @
       [(\<lparr>la_actor_type = (case actor of None \<Rightarrow> ''SYSTEM'' | Some a \<Rightarrow> actor_type a),
          la_actor_id = (case actor of None \<Rightarrow> ''communications-worker'' | Some a \<Rightarrow> actor_id a),
          la_entity_type = entity_type, la_entity_id = str_uuid entity_id, la_action = action,
          la_before = before, la_after = after, la_occurred_at = me_now env\<rparr>, metadata)]\<rparr>"

definition task_event_row :: "mail_env \<Rightarrow> mail_actor \<Rightarrow> outbound_draft \<Rightarrow> string \<Rightarrow> jdict \<Rightarrow> mail_db \<Rightarrow> mail_db" where
  "task_event_row env actor d event_type metadata db =
     db\<lparr>md_events := md_events db @ [\<lparr>te_task_id = od_task_id d, te_event_type = event_type,
          te_actor_id = actor_id (ma_actor actor), te_metadata = metadata, te_occurred_at = me_now env\<rparr>]\<rparr>"

definition get_draft :: "mail_db \<Rightarrow> uuid \<Rightarrow> domain_error + outbound_draft" where
  "get_draft db i =
     (case get_row od_id (md_drafts db) i of None \<Rightarrow> Inl (NotFoundError ''Draft does not exist.'') | Some d \<Rightarrow> Inr d)"

subsection \<open>Snapshots (snapshots.py)\<close>

definition create_version ::
  "mail_env \<Rightarrow> string \<Rightarrow> string option \<Rightarrow> outbound_draft \<Rightarrow> mail_db \<Rightarrow> domain_error + (outbound_draft \<times> mail_db)" where
  "create_version env actor reason d db =
     (let lib = me_lib env; manifest = active_attachments (od_id d) (md_attachments db);
          d1 = d\<lparr>od_local_revision := od_local_revision d + 1,
                 od_body_sha256 := sha256_text lib (message_text (od_subject d) (od_body_text d) (od_body_html d)),
                 od_recipient_set_sha256 := recipient_set_hash lib (od_to d) (od_cc d) (od_bcc d),
                 od_attachment_set_sha256 := attachment_set_hash lib manifest\<rparr>;
          snapshot = canonical_sha256 lib
            (JObj [(''subject'', JStr (od_subject d1)), (''body'', JStr (od_body_sha256 d1)),
                   (''recipients'', JStr (od_recipient_set_sha256 d1)), (''attachments'', JStr (od_attachment_set_sha256 d1)),
                   (''revision'', JInt (od_local_revision d1))]);
          v = \<lparr>dv_id = me_new_version_id env, dv_draft_id = od_id d1, dv_revision = od_local_revision d1, dv_subject = od_subject d1,
               dv_body_text = od_body_text d1, dv_body_html = od_body_html d1, dv_to = od_to d1, dv_cc = od_cc d1, dv_bcc = od_bcc d1,
               dv_attachment_manifest = manifest, dv_body_sha256 = od_body_sha256 d1,
               dv_recipient_set_sha256 = od_recipient_set_sha256 d1, dv_attachment_set_sha256 = od_attachment_set_sha256 d1,
               dv_snapshot_sha256 = snapshot, dv_change_reason = reason, dv_created_by_actor = actor\<rparr>;
          same = filter (\<lambda>w. dv_draft_id w = od_id d1) (md_versions db)
      in bindE (check (dv_id v \<notin> dv_id ` set (md_versions db) \<and> dv_revision v \<notin> dv_revision ` set same \<and>
                       dv_snapshot_sha256 v \<notin> dv_snapshot_sha256 ` set same) IntegrityError) (\<lambda>_.
         Inr (d1\<lparr>od_current_version_id := Some (dv_id v), od_last_edited_by_actor := Some actor\<rparr>,
              db\<lparr>md_versions := md_versions db @ [v]\<rparr>)))"

definition live :: "send_approval \<Rightarrow> bool" where
  "live a \<longleftrightarrow> ap_decision a = ''APPROVED'' \<and> ap_invalidated_at a = None"

definition invalidated :: "mail_env \<Rightarrow> string \<Rightarrow> send_approval \<Rightarrow> send_approval" where
  "invalidated env reason a =
     a\<lparr>ap_decision := ''INVALIDATED'', ap_invalidated_at := Some (me_now env), ap_invalidation_reason := Some reason\<rparr>"

definition invalidate_approval ::
  "mail_env \<Rightarrow> string \<Rightarrow> outbound_draft \<Rightarrow> mail_db \<Rightarrow> outbound_draft \<times> mail_db" where
  "invalidate_approval env reason d db =
     (d\<lparr>od_approval_snapshot_sha256 := None, od_approved_at := None\<rparr>,
      db\<lparr>md_approvals := map (\<lambda>a. if ap_draft_id a = od_id d \<and> ap_invalidated_at a = None \<and>
                                    (ap_decision a = ''APPROVED'' \<or> ap_decision a = ''PENDING_SECOND_APPROVAL'')
                                 then invalidated env reason a else a) (md_approvals db)\<rparr>)"

text \<open>The partial unique index: one live approval per draft.\<close>

definition approvals_index :: "send_approval list \<Rightarrow> bool" where
  "approvals_index as \<longleftrightarrow> distinct (map ap_draft_id (filter live as))"

definition draft_snapshot :: "outbound_draft \<Rightarrow> response_plan \<Rightarrow> ApprovalSnapshot" where
  "draft_snapshot d p =
     \<lparr>sn_subject = od_subject d, sn_body_sha256 = od_body_sha256 d, sn_recipient_sha256 = od_recipient_set_sha256 d,
      sn_attachment_sha256 = od_attachment_set_sha256 d, sn_revision = od_local_revision d,
      sn_graph_draft_message_id = or_empty (od_graph_draft_message_id d), sn_graph_change_key = od_graph_change_key d,
      sn_graph_etag = od_graph_etag d, sn_response_plan_id = str_uuid (rsp_id p),
      sn_template_version_id = map_option str_uuid (rsp_template_version_id p)\<rparr>"

definition recipient_check ::
  "response_plan \<Rightarrow> outbound_draft \<Rightarrow> string list option \<Rightarrow> mail_db \<Rightarrow> bool \<Rightarrow> bool \<Rightarrow> recipient_request" where
  "recipient_check p d internal db manager enforce =
     \<lparr>rq_mode = rsp_recipient_mode p, rq_to = od_to d, rq_cc = od_cc d, rq_bcc = od_bcc d,
      rq_reply_all_reviewed = rsp_reply_all_reviewed p, rq_bcc_authorized = rsp_bcc_authorized p, rq_blocked_domains = [],
      rq_internal_domains = internal, rq_policy_rules = filter pr_enabled (md_rules db),
      rq_manager_approved = manager, rq_enforce_manager_rules = enforce\<rparr>"

definition mailbox_domain :: "mailbox \<Rightarrow> string" where
  "mailbox_domain m = lower_ascii (after_last_at (mb_address m))"

definition draft_attachment_blockers :: "mail_env \<Rightarrow> mail_db \<Rightarrow> uuid \<Rightarrow> string list" where
  "draft_attachment_blockers env db i =
     validate_draft_attachments (me_today env) (md_documents db) (md_document_versions db) (md_attachments db) i True"

subsection \<open>Jobs (repositories/communication\_jobs.py)\<close>

record job_request =
  jr_job_type :: string
  jr_key :: string
  jr_payload :: jdict
  jr_priority :: int
  jr_max_attempts :: int
  jr_delay_seconds :: int

definition enqueue_job :: "mail_env \<Rightarrow> outbound_draft \<Rightarrow> job_request \<Rightarrow> mail_db \<Rightarrow> (uuid \<times> bool) \<times> mail_db" where
  "enqueue_job env d r db =
     (case get_row cj_idempotency_key (md_jobs db) (jr_key r) of
        Some j \<Rightarrow> ((cj_id j, False), db)
      | None \<Rightarrow>
        ((me_new_job_id env, True),
         db\<lparr>md_jobs := md_jobs db @
           [\<lparr>cj_id = me_new_job_id env, cj_job_type = jr_job_type r, cj_draft_id = Some (od_id d), cj_email_id = od_email_id d,
             cj_task_id = Some (od_task_id d), cj_status = ''PENDING'', cj_priority = jr_priority r,
             cj_idempotency_key = jr_key r, cj_payload = jr_payload r, cj_attempts = 0, cj_max_attempts = jr_max_attempts r,
             cj_available_at = me_now env + seconds_us (max 0 (jr_delay_seconds r)), cj_lease_owner = None,
             cj_lease_expires_at = None\<rparr>]\<rparr>))"

subsection \<open>Editing and attachments\<close>

definition SENT_STATUSES :: "string list" where
  "SENT_STATUSES = [''SEND_QUEUED'', ''SENDING'', ''SEND_ACCEPTED'', ''SEND_AMBIGUOUS'', ''SENT_COPY_VERIFIED'']"

record expected =
  ex_revision :: int
  ex_change_key :: "string option"
  ex_etag :: "string option"

definition assert_expected :: "outbound_draft \<Rightarrow> expected \<Rightarrow> domain_error + unit" where
  "assert_expected d x =
     bindE (check (od_local_revision d = ex_revision x) (StateConflictError ''Draft revision changed.'')) (\<lambda>_.
     check (or_empty (od_graph_draft_message_id d) \<noteq> [] \<longrightarrow> od_graph_change_key d = ex_change_key x \<and> od_graph_etag d = ex_etag x)
       (StateConflictError ''Graph draft changed.''))"

record draft_edit =
  de_subject :: string
  de_body_text :: "string option"
  de_body_html :: "string option"
  de_to :: "jdict list"
  de_cc :: "jdict list"
  de_bcc :: "jdict list"
  de_reason :: string

definition edit_draft ::
  "mail_env \<Rightarrow> mail_actor \<Rightarrow> uuid \<Rightarrow> expected \<Rightarrow> draft_edit \<Rightarrow> mail_db \<Rightarrow> domain_error + (outbound_draft \<times> mail_db)" where
  "edit_draft env actor i x e db =
     bindE (get_draft db i) (\<lambda>d.
     bindE (assert_expected d x) (\<lambda>_.
     bindE (check (od_status d \<notin> set SENT_STATUSES) (StateConflictError ''A sending or sent draft cannot be edited.'')) (\<lambda>_.
     bindE (check (validate_draft_content (me_patterns env) (de_subject e) (de_body_text e) (de_body_html e)
                     (length (active_attachments i (md_attachments db))) = [])
              (StateConflictError ''Draft content failed controlled validation.'')) (\<lambda>_.
     let d1 = d\<lparr>od_subject := de_subject e, od_body_text := de_body_text e, od_body_html := de_body_html e,
                od_to := de_to e, od_cc := de_cc e, od_bcc := de_bcc e\<rparr>;
         (d2, db1) = invalidate_approval env ''draft content or recipients changed'' d1 db
     in bindE (create_version env (actor_id (ma_actor actor)) (Some (de_reason e)) d2 db1) (\<lambda>(d3, db2).
        let d4 = d3\<lparr>od_status := ''REVIEW_IN_PROGRESS''\<rparr>
        in Inr (d4, comm_audit env (Some (ma_actor actor)) ''outbound_draft'' i ''draft_revision_created''
             (Some [(''revision'', AJson (JInt (od_local_revision d)))])
             (Some [(''revision'', AJson (JInt (od_local_revision d4))), (''status'', AStr (od_status d4))]) []
             (save_draft d4 db2)))))))"

definition assert_mutable :: "outbound_draft \<Rightarrow> domain_error + unit" where
  "assert_mutable d =
     check (od_status d \<notin> set SENT_STATUSES \<and> od_status d \<noteq> ''CANCELLED'')
       (StateConflictError ''A queued, sending, sent, or cancelled draft cannot change.'')"

definition select_attachment ::
  "mail_settings \<Rightarrow> mail_env \<Rightarrow> mail_actor \<Rightarrow> uuid \<Rightarrow> uuid \<Rightarrow> uuid \<Rightarrow> expected \<Rightarrow> mail_db \<Rightarrow>
     domain_error + (draft_attachment \<times> mail_db)" where
  "select_attachment st env actor i di vi x db =
     bindE (check (attachments_enabled st) (StateConflictError ''Communication attachments are disabled.'')) (\<lambda>_.
     (case (get_row od_id (md_drafts db) i, get_row doc_id (md_documents db) di, get_row ver_id (md_document_versions db) vi) of
        (Some d, Some doc, Some v) \<Rightarrow>
          bindE (check (ver_document_id v = doc_id doc) (NotFoundError ''Controlled document version does not exist.'')) (\<lambda>_.
          bindE (assert_expected d x) (\<lambda>_.
          bindE (assert_mutable d) (\<lambda>_.
          let rows = active_attachments i (md_attachments db); size = ver_size_bytes v in
          bindE (check (Some vi \<notin> att_version_id ` set rows)
                   (StateConflictError ''This controlled document version is already selected.'')) (\<lambda>_.
          bindE (check (transmission_blockers (me_today env) doc v = []) (StateConflictError ''Document cannot be transmitted.'')) (\<lambda>_.
          bindE (check (sum_list (map att_size_bytes rows) + size \<le> total_attachment_max_bytes st)
                   (StateConflictError ''Attachment set exceeds the configured safe size.'')) (\<lambda>_.
          bindE (check (size \<le> large_attachment_max_bytes st)
                   (StateConflictError ''Attachment exceeds the configured per-file size limit.'')) (\<lambda>_.
          bindE (check (size \<le> simple_attachment_max_bytes st \<or> large_attachments_enabled st \<and> large_attachment_accepted st)
                   (StateConflictError ''Large shared-mailbox attachments are not accepted.'')) (\<lambda>_.
          bindE (check (me_new_id env \<notin> att_id ` set (md_attachments db)) IntegrityError) (\<lambda>_.
          let a = \<lparr>att_id = me_new_id env, att_draft_id = i, att_document_id = Some di, att_version_id = Some vi,
                   att_graph_attachment_id = None, att_filename = ver_filename v, att_mime_type = ver_mime_type v,
                   att_size_bytes = size, att_content_sha256 = ver_content_sha256 v, att_status = ''VALIDATED'',
                   att_upload_method = Some (if size \<le> simple_attachment_max_bytes st then ''SIMPLE'' else ''UPLOAD_SESSION''),
                   att_added_by_actor = actor_id (ma_actor actor), att_added_at = me_now env, att_removed_at = None\<rparr>;
              (d1, db1) = invalidate_approval env ''attachment set changed'' d (db\<lparr>md_attachments := md_attachments db @ [a]\<rparr>)
          in bindE (create_version env (actor_id (ma_actor actor)) (Some ''attachment selected'') d1 db1) (\<lambda>(d2, db2).
             Inr (a, comm_audit env (Some (ma_actor actor)) ''outbound_draft_attachment'' (att_id a) ''controlled_attachment_selected'' None
               (Some [(''size_bytes'', AJson (JInt size)), (''status'', AStr (att_status a))])
               [(''draft_id'', JStr (str_uuid i)), (''document_version_id'', JStr (str_uuid vi))]
               (save_draft (d2\<lparr>od_status := ''REVIEW_IN_PROGRESS''\<rparr>) db2))))))))))))
      | _ \<Rightarrow> Inl (NotFoundError ''Controlled document version does not exist.'')))"

definition remove_attachment ::
  "mail_env \<Rightarrow> mail_actor \<Rightarrow> uuid \<Rightarrow> uuid \<Rightarrow> expected \<Rightarrow> mail_db \<Rightarrow> domain_error + mail_db" where
  "remove_attachment env actor i ai x db =
     (case (get_row od_id (md_drafts db) i, get_row att_id (md_attachments db) ai) of
        (Some d, Some a) \<Rightarrow>
          bindE (check (att_draft_id a = od_id d) (NotFoundError ''Draft attachment does not exist.'')) (\<lambda>_.
          bindE (assert_expected d x) (\<lambda>_.
          bindE (assert_mutable d) (\<lambda>_.
          let a' = a\<lparr>att_status := ''REMOVED'', att_removed_at := Some (me_now env)\<rparr>;
              (d1, db1) = invalidate_approval env ''attachment removed'' d
                (db\<lparr>md_attachments := put_row att_id a' (md_attachments db)\<rparr>)
          in bindE (create_version env (actor_id (ma_actor actor)) (Some ''attachment removed'') d1 db1) (\<lambda>(d2, db2).
             Inr (comm_audit env (Some (ma_actor actor)) ''outbound_draft_attachment'' ai ''draft_attachment_removed'' None
               (Some [(''status'', AStr (att_status a'))]) [(''draft_id'', JStr (str_uuid i))]
               (save_draft (d2\<lparr>od_status := ''REVIEW_IN_PROGRESS''\<rparr>) db2))))))
      | _ \<Rightarrow> Inl (NotFoundError ''Draft attachment does not exist.''))"

end
