(* ===== verification/Send_Approval.thy ===== *)
theory Send_Approval
  imports Outbound_Drafts
begin

text \<open>
  Review of a draft, approval of its exact snapshot and the queueing of an approved send
  (\<^verbatim>\<open>services/draft_review_service.py\<close>, \<^verbatim>\<open>services/send_approval_service.py\<close>,
  \<^verbatim>\<open>services/communication_enqueue_service.py\<close>).
\<close>

subsection \<open>Review (draft\_review\_service.py)\<close>

definition save_plan :: "response_plan \<Rightarrow> mail_db \<Rightarrow> mail_db" where
  "save_plan p db = db\<lparr>md_plans := put_row rsp_id p (md_plans db)\<rparr>"

definition readiness_of :: "mail_env \<Rightarrow> mail_db \<Rightarrow> outbound_draft \<Rightarrow> response_plan \<Rightarrow> mail_task \<Rightarrow> string \<times> string list" where
  "readiness_of env db d p t =
     (let count = length (active_attachments (od_id d) (md_attachments db)) in
      evaluate_readiness (me_today env)
        \<lparr>rr_response_type = rsp_response_type p,
         rr_requested_item_statuses = map snd (filter (\<lambda>s. fst s = od_task_id d) (md_item_statuses db)),
         rr_recipient_count = length (od_to d), rr_draft_reviewed = True, rr_send_approved = False,
         rr_graph_draft_exists = True,
         rr_document_blockers = draft_attachment_blockers env db (od_id d) @
           block_if (rsp_response_type p = ''DOCUMENT_RESPONSE'' \<and> count = 0) ''REQUIRED_DOCUMENT_MISSING'',
         rr_unresolved_placeholders = False, rr_task_status = Some (mt_status t), rr_task_owner = mt_assigned_to t,
         rr_destination_folder_id = mt_destination_folder_id t, rr_response_deadline = mt_due_date t,
         rr_check_task_context = True\<rparr>)"

text \<open>The findings that keep a draft from being submitted: its content, its length, its recipients.\<close>

definition submit_findings :: "mail_settings \<Rightarrow> mail_env \<Rightarrow> mail_db \<Rightarrow> outbound_draft \<Rightarrow> response_plan \<Rightarrow> string list" where
  "submit_findings st env db d p =
     validate_draft_content (me_patterns env) (od_subject d) (od_body_text d) (od_body_html d)
       (length (active_attachments (od_id d) (md_attachments db))) @
     block_if (max_body_chars st < int (length (or_empty (od_body_text d) @ or_empty (od_body_html d)))) ''BODY_TOO_LARGE'' @
     rp_blockers (evaluate_recipients st (ml_rules (me_lib env)) (recipient_check p d None db False False))"

definition submit_context :: "mail_db \<Rightarrow> uuid \<Rightarrow> expected \<Rightarrow> domain_error + (outbound_draft \<times> response_plan \<times> mail_task)" where
  "submit_context db i x =
     bindE (get_draft db i) (\<lambda>d.
     bindE (check (od_response_plan_id d \<noteq> None) (NotFoundError ''Draft does not exist.'')) (\<lambda>_.
     bindE (assert_expected d x) (\<lambda>_.
     (case od_response_plan_id d of
        None \<Rightarrow> Inl (NotFoundError ''Draft does not exist.'')
      | Some plan_id \<Rightarrow>
        (case get_row rsp_id (md_plans db) plan_id of
           None \<Rightarrow> Inl (StateConflictError ''A synchronized Graph draft is required.'')
         | Some p \<Rightarrow>
           bindE (check (or_empty (od_graph_draft_message_id d) \<noteq> []) (StateConflictError ''A synchronized Graph draft is required.'')) (\<lambda>_.
           (case get_row mt_id (md_tasks db) (od_task_id d) of
              None \<Rightarrow> Inl (NotFoundError ''Licensing task does not exist.'')
            | Some t \<Rightarrow> Inr (d, p, t))))))))"

text \<open>A refusal after the checks of content or readiness commits the state of the plan before it raises.\<close>

definition submit_draft ::
  "mail_settings \<Rightarrow> mail_env \<Rightarrow> mail_actor \<Rightarrow> uuid \<Rightarrow> expected \<Rightarrow> mail_db \<Rightarrow> mail_db \<times> (domain_error + outbound_draft)" where
  "submit_draft st env actor i x db =
     (case submit_context db i x of
        Inl e \<Rightarrow> (db, Inl e)
      | Inr (d, p, t) \<Rightarrow>
        let findings = submit_findings st env db d p in
        if findings \<noteq> []
        then (save_plan (p\<lparr>rsp_readiness_status := ''BLOCKED'', rsp_readiness_blockers := findings\<rparr>) db,
              Inl (StateConflictError ''Draft is not ready for send approval.''))
        else
          let (status, blockers) = readiness_of env db d p t;
              db1 = save_plan (p\<lparr>rsp_readiness_status := status, rsp_readiness_blockers := blockers\<rparr>) db;
              unexpected = filter (\<lambda>b. b \<noteq> ''SEND_APPROVAL_MISSING'') blockers
          in if status = ''NOT_READY'' \<or> status = ''BLOCKED'' \<or> unexpected \<noteq> []
             then (db1, Inl (StateConflictError ''Response plan is not ready for send approval.''))
             else
               let d1 = d\<lparr>od_status := ''PENDING_SEND_APPROVAL'', od_submitted_at := Some (me_now env),
                          od_last_edited_by_actor := Some (actor_id (ma_actor actor))\<rparr>
               in (comm_audit env (Some (ma_actor actor)) ''outbound_draft'' i ''draft_submitted_for_send_approval'' None
                     (Some [(''revision'', AJson (JInt (od_local_revision d1))), (''status'', AStr (od_status d1))]) []
                     (task_event_row env actor d1 ''DRAFT_SUBMITTED_FOR_SEND_APPROVAL''
                        [(''draft_id'', JStr (str_uuid i)), (''revision'', JInt (od_local_revision d1))] (save_draft d1 db1)),
                   Inr d1))"

definition request_changes ::
  "mail_env \<Rightarrow> mail_actor \<Rightarrow> uuid \<Rightarrow> string \<Rightarrow> expected \<Rightarrow> mail_db \<Rightarrow> domain_error + (outbound_draft \<times> mail_db)" where
  "request_changes env actor i reason x db =
     bindE (check (py_strip reason \<noteq> []) (Raised ValueError)) (\<lambda>_.
     bindE (get_draft db i) (\<lambda>d.
     bindE (assert_expected d x) (\<lambda>_.
     let (d1, db1) = invalidate_approval env reason d db; d2 = d1\<lparr>od_status := ''CHANGES_REQUESTED''\<rparr> in
     Inr (d2, comm_audit env (Some (ma_actor actor)) ''outbound_draft'' i ''draft_changes_requested'' None
            (Some [(''status'', AStr (od_status d2))]) []
            (task_event_row env actor d2 ''DRAFT_CHANGES_REQUESTED'' [(''reason'', JStr reason)] (save_draft d2 db1))))))"

definition reject_draft ::
  "mail_env \<Rightarrow> mail_actor \<Rightarrow> uuid \<Rightarrow> string \<Rightarrow> expected \<Rightarrow> mail_db \<Rightarrow> domain_error + (outbound_draft \<times> mail_db)" where
  "reject_draft env actor i reason x db =
     bindE (request_changes env actor i reason x db) (\<lambda>(d, db1).
     let d' = d\<lparr>od_status := ''CANCELLED''\<rparr> in Inr (d', save_draft d' db1))"

subsection \<open>Approval (send\_approval\_service.py)\<close>

definition approval_row ::
  "mail_env \<Rightarrow> outbound_draft \<Rightarrow> uuid \<Rightarrow> mail_actor \<Rightarrow> string \<Rightarrow> string option \<Rightarrow> string \<Rightarrow> send_approval" where
  "approval_row env d version actor snapshot notes decision =
     \<lparr>ap_id = me_new_id env, ap_draft_id = od_id d, ap_version_id = version, ap_decision = decision,
      ap_approver_actor = actor_id (ma_actor actor), ap_snapshot_sha256 = snapshot, ap_body_sha256 = od_body_sha256 d,
      ap_recipient_set_sha256 = od_recipient_set_sha256 d, ap_attachment_set_sha256 = od_attachment_set_sha256 d,
      ap_graph_draft_message_id = or_empty (od_graph_draft_message_id d), ap_graph_change_key = od_graph_change_key d,
      ap_graph_etag = od_graph_etag d, ap_notes = notes, ap_approved_at = None, ap_rejected_at = None,
      ap_invalidated_at = None, ap_invalidation_reason = None\<rparr>"

definition insert_approval :: "send_approval \<Rightarrow> mail_db \<Rightarrow> domain_error + mail_db" where
  "insert_approval a db =
     bindE (check (ap_id a \<notin> ap_id ` set (md_approvals db) \<and> approvals_index (md_approvals db @ [a])) IntegrityError) (\<lambda>_.
     Inr (db\<lparr>md_approvals := md_approvals db @ [a]\<rparr>))"

definition approval_meta :: "outbound_draft \<Rightarrow> jdict" where
  "approval_meta d = [(''draft_id'', JStr (str_uuid (od_id d))), (''revision'', JInt (od_local_revision d))]"

record review =
  rv_expected :: expected
  rv_snapshot_sha256 :: string
  rv_graph_draft_id :: string

definition separate_approver :: "mail_settings \<Rightarrow> bool" where
  "separate_approver st \<longleftrightarrow> require_separate_send_approver st \<or> \<not> allow_self_approval st"

definition approval_context ::
  "mail_settings \<Rightarrow> mail_db \<Rightarrow> uuid \<Rightarrow> review \<Rightarrow> mail_actor \<Rightarrow>
     domain_error + (outbound_draft \<times> uuid \<times> response_plan \<times> mailbox)" where
  "approval_context st db i r actor =
     (case get_row od_id (md_drafts db) i of
        None \<Rightarrow> Inl (NotFoundError ''Draft or exact revision is missing.'')
      | Some d \<Rightarrow>
        (case (od_response_plan_id d, od_current_version_id d) of
           (Some plan_id, Some vi) \<Rightarrow>
             bindE (check (od_status d = ''PENDING_SEND_APPROVAL'') (StateConflictError ''Draft is not pending send approval.'')) (\<lambda>_.
             bindE (check (od_local_revision d = ex_revision (rv_expected r)) (StateConflictError ''Draft revision changed after review.'')) (\<lambda>_.
             bindE (check (od_graph_draft_message_id d = Some (rv_graph_draft_id r))
                      (StateConflictError ''Graph draft identity changed after review.'')) (\<lambda>_.
             bindE (check (od_graph_change_key d = ex_change_key (rv_expected r) \<and> od_graph_etag d = ex_etag (rv_expected r))
                      (StateConflictError ''Graph draft changed after review.'')) (\<lambda>_.
             bindE (check (separate_approver st \<longrightarrow>
                        Some (actor_id (ma_actor actor)) \<notin> {od_created_by_actor d, od_last_edited_by_actor d})
                      (StateConflictError ''The draft author or last editor cannot approve this send.'')) (\<lambda>_.
             bindE (check (has_role (ma_roles actor) ''Licensing.Sender'')
                      (StateConflictError ''Licensing.Sender role is required for send approval.'')) (\<lambda>_.
             (case (get_row dv_id (md_versions db) vi, get_row rsp_id (md_plans db) plan_id, get_row mb_id (md_mailboxes db) (od_mailbox_id d)) of
                (Some _, Some p, Some m) \<Rightarrow> Inr (d, vi, p, m)
              | _ \<Rightarrow> Inl (NotFoundError ''Draft snapshot context is missing.''))))))))
         | _ \<Rightarrow> Inl (NotFoundError ''Draft or exact revision is missing.'')))"

definition approval_policies ::
  "mail_settings \<Rightarrow> mail_env \<Rightarrow> mail_db \<Rightarrow> mail_actor \<Rightarrow> outbound_draft \<Rightarrow> response_plan \<Rightarrow> mailbox \<Rightarrow> domain_error + unit" where
  "approval_policies st env db actor d p m =
     (let manager = has_role (ma_roles actor) ''Licensing.Manager'';
          result = evaluate_recipients st (ml_rules (me_lib env)) (recipient_check p d (Some [mailbox_domain m]) db manager True)
      in bindE (check (rp_allowed result) (StateConflictError ''Recipient policy blocks send approval.'')) (\<lambda>_.
         bindE (check (external_recipient_requires_manager st \<and> ''EXTERNAL_RECIPIENT'' \<in> set (rp_warnings result) \<longrightarrow> manager)
                  (StateConflictError ''External recipients require Licensing.Manager approval.'')) (\<lambda>_.
         check (draft_attachment_blockers env db (od_id d) = []) (StateConflictError ''Attachment policy blocks send approval.''))))"

definition pending_first :: "uuid \<Rightarrow> send_approval list \<Rightarrow> send_approval option" where
  "pending_first i as =
     find (\<lambda>a. ap_draft_id a = i \<and> ap_decision a = ''PENDING_SECOND_APPROVAL'' \<and> ap_invalidated_at a = None) as"

definition first_approval ::
  "mail_env \<Rightarrow> mail_actor \<Rightarrow> outbound_draft \<Rightarrow> uuid \<Rightarrow> string \<Rightarrow> string option \<Rightarrow> mail_db \<Rightarrow> domain_error + (send_approval \<times> mail_db)" where
  "first_approval env actor d vi computed notes db =
     (let a = approval_row env d vi actor computed notes ''PENDING_SECOND_APPROVAL'' in
      bindE (insert_approval a db) (\<lambda>db1.
      Inr (a, comm_audit env (Some (ma_actor actor)) ''send_approval'' (ap_id a) ''first_send_approval_recorded'' None
                (Some [(''decision'', AStr (ap_decision a))]) (approval_meta d) db1)))"

definition final_approval ::
  "mail_env \<Rightarrow> mail_actor \<Rightarrow> outbound_draft \<Rightarrow> uuid \<Rightarrow> string \<Rightarrow> string option \<Rightarrow> mail_db \<Rightarrow> domain_error + (send_approval \<times> mail_db)" where
  "final_approval env actor d vi computed notes db =
     (let a = (approval_row env d vi actor computed notes ''APPROVED'')\<lparr>ap_approved_at := Some (me_now env)\<rparr>;
          d1 = d\<lparr>od_approval_snapshot_sha256 := Some computed, od_approved_at := Some (me_now env), od_status := ''APPROVED_TO_SEND''\<rparr>
      in bindE (insert_approval a (save_draft d1 db)) (\<lambda>db1.
         Inr (a, comm_audit env (Some (ma_actor actor)) ''send_approval'' (ap_id a) ''exact_snapshot_send_approved'' None
                   (Some [(''decision'', AStr (ap_decision a))]) (approval_meta d)
                   (task_event_row env actor d ''SEND_APPROVED''
                      [(''snapshot_sha256'', JStr computed), (''revision'', JInt (od_local_revision d))] db1))))"

definition approve_send ::
  "mail_settings \<Rightarrow> mail_env \<Rightarrow> mail_actor \<Rightarrow> uuid \<Rightarrow> review \<Rightarrow> string option \<Rightarrow> mail_db \<Rightarrow> domain_error + (send_approval \<times> mail_db)" where
  "approve_send st env actor i r notes db =
     bindE (approval_context st db i r actor) (\<lambda>(d, vi, p, m).
     bindE (approval_policies st env db actor d p m) (\<lambda>_.
     let computed = approval_snapshot_hash (me_lib env) (draft_snapshot d p) in
     bindE (check (computed = rv_snapshot_sha256 r) (StateConflictError ''Approval snapshot does not match the reviewed content.'')) (\<lambda>_.
     if \<not> require_two_person_approval st then final_approval env actor d vi computed notes db
     else
       (case pending_first i (md_approvals db) of
          None \<Rightarrow> first_approval env actor d vi computed notes db
        | Some a \<Rightarrow>
          if ap_snapshot_sha256 a \<noteq> computed \<or> ap_version_id a \<noteq> vi
          then first_approval env actor d vi computed notes
                 (db\<lparr>md_approvals := put_row ap_id (invalidated env ''draft changed before second approval'' a) (md_approvals db)\<rparr>)
          else
            bindE (check (ap_approver_actor a \<noteq> actor_id (ma_actor actor))
                     (StateConflictError ''A different Sender must provide the second approval.'')) (\<lambda>_.
            final_approval env actor d vi computed notes db)))))"

definition invalidate_send :: "mail_env \<Rightarrow> uuid \<Rightarrow> string \<Rightarrow> mail_db \<Rightarrow> domain_error + (outbound_draft \<times> mail_db)" where
  "invalidate_send env i reason db =
     bindE (get_draft db i) (\<lambda>d.
     let (d1, db1) = invalidate_approval env reason d db; d2 = d1\<lparr>od_status := ''CHANGES_REQUESTED''\<rparr>
     in Inr (d2, save_draft d2 db1))"

text \<open>The service's own check of the reviewed revision: the Graph keys are compared even without a Graph draft.\<close>

definition assert_reviewed :: "outbound_draft \<Rightarrow> expected \<Rightarrow> domain_error + unit" where
  "assert_reviewed d x =
     bindE (check (od_local_revision d = ex_revision x) (StateConflictError ''Draft revision changed after review.'')) (\<lambda>_.
     check (od_graph_change_key d = ex_change_key x \<and> od_graph_etag d = ex_etag x) (StateConflictError ''Graph draft changed after review.''))"

definition decline_send ::
  "mail_env \<Rightarrow> mail_actor \<Rightarrow> uuid \<Rightarrow> string \<Rightarrow> string \<Rightarrow> expected \<Rightarrow> mail_db \<Rightarrow> domain_error + (outbound_draft \<times> mail_db)" where
  "decline_send env actor i decision reason x db =
     bindE (check (decision = ''REJECTED'' \<or> decision = ''CHANGES_REQUESTED'') (Raised ValueError)) (\<lambda>_.
     bindE (check (has_role (ma_roles actor) ''Licensing.Sender'') (StateConflictError ''Licensing.Sender role is required.'')) (\<lambda>_.
     (case get_row od_id (md_drafts db) i of
        None \<Rightarrow> Inl (NotFoundError ''Draft or exact revision is missing.'')
      | Some d \<Rightarrow>
        (case (od_response_plan_id d, od_current_version_id d, od_graph_draft_message_id d) of
           (Some plan_id, Some vi, Some (c # cs)) \<Rightarrow>
             bindE (assert_reviewed d x) (\<lambda>_.
             bindE (check (od_status d = ''PENDING_SEND_APPROVAL'' \<or> od_status d = ''APPROVED_TO_SEND'')
                      (StateConflictError ''Draft is not in a send-approval decision state.'')) (\<lambda>_.
             (case (get_row dv_id (md_versions db) vi, get_row rsp_id (md_plans db) plan_id) of
                (Some _, Some p) \<Rightarrow>
                  let snapshot = approval_snapshot_hash (me_lib env) (draft_snapshot d p);
                      (d1, db1) = invalidate_approval env reason d db;
                      a = (approval_row env d1 vi actor snapshot (Some reason) decision)\<lparr>ap_rejected_at := Some (me_now env)\<rparr>;
                      d2 = d1\<lparr>od_status := (if decision = ''REJECTED'' then ''CANCELLED'' else ''CHANGES_REQUESTED'')\<rparr>
                  in bindE (insert_approval a (save_draft d2 db1)) (\<lambda>db2.
                     Inr (d2, comm_audit env (Some (ma_actor actor)) ''send_approval'' (ap_id a) ''send_approval_declined'' None
                            (Some [(''decision'', AStr decision), (''draft_status'', AStr (od_status d2))]) (approval_meta d2)
                            (task_event_row env actor d2 (''SEND_APPROVAL_'' @ decision)
                               [(''draft_id'', JStr (str_uuid i)), (''reason'', JStr reason)] db2)))
              | _ \<Rightarrow> Inl (NotFoundError ''Draft snapshot context is missing.''))))
         | _ \<Rightarrow> Inl (NotFoundError ''Draft or exact revision is missing.'')))))"

definition open_send_job :: "uuid \<Rightarrow> comm_job \<Rightarrow> bool" where
  "open_send_job i j \<longleftrightarrow> cj_draft_id j = Some i \<and> cj_job_type j = ''SEND_DRAFT'' \<and>
     cj_status j \<in> {''PENDING'', ''FAILED_RETRYABLE'', ''RUNNING''}"

definition cancel_unsent ::
  "mail_env \<Rightarrow> mail_actor \<Rightarrow> uuid \<Rightarrow> string \<Rightarrow> expected \<Rightarrow> mail_db \<Rightarrow> domain_error + (outbound_draft \<times> mail_db)" where
  "cancel_unsent env actor i reason x db =
     bindE (check (has_role (ma_roles actor) ''Licensing.Sender'') (StateConflictError ''Licensing.Sender role is required.'')) (\<lambda>_.
     bindE (get_draft db i) (\<lambda>d.
     bindE (assert_reviewed d x) (\<lambda>_.
     bindE (check (od_status d = ''APPROVED_TO_SEND'' \<or> od_status d = ''SEND_QUEUED'')
              (StateConflictError ''Only an approved, unsent draft can be cancelled.'')) (\<lambda>_.
     bindE (check (\<not> list_ex (\<lambda>j. open_send_job i j \<and> cj_status j = ''RUNNING'') (md_jobs db))
              (StateConflictError ''The send worker already holds this draft.'')) (\<lambda>_.
     let db1 = db\<lparr>md_jobs := map (\<lambda>j. if open_send_job i j
                  then j\<lparr>cj_status := ''CANCELLED'', cj_lease_owner := None, cj_lease_expires_at := None\<rparr> else j) (md_jobs db)\<rparr>;
         (d1, db2) = invalidate_approval env reason d db1; d2 = d1\<lparr>od_status := ''CANCELLED''\<rparr>
     in Inr (d2, comm_audit env (Some (ma_actor actor)) ''outbound_draft'' i ''approved_unsent_draft_cancelled'' None
               (Some [(''status'', AStr (od_status d2))])
               [(''cancelled_job_count'', JInt (int (length (filter (open_send_job i) (md_jobs db))))), (''reason'', JStr reason)]
               (save_draft d2 db2)))))))"

subsection \<open>Queueing (communication\_enqueue\_service.py)\<close>

definition live_approval :: "uuid \<Rightarrow> mail_db \<Rightarrow> send_approval option" where
  "live_approval i db = find (\<lambda>a. ap_draft_id a = i \<and> live a) (md_approvals db)"

definition queue_send ::
  "mail_settings \<Rightarrow> mail_env \<Rightarrow> mail_actor \<Rightarrow> uuid \<Rightarrow> string \<Rightarrow> bool \<Rightarrow> mail_db \<Rightarrow> domain_error + ((uuid \<times> bool) \<times> mail_db)" where
  "queue_send st env actor i client_key confirmed db =
     bindE (check confirmed (Raised ValueError)) (\<lambda>_.
     bindE (check (py_strip client_key \<noteq> []) (Raised ValueError)) (\<lambda>_.
     bindE (check (has_role (ma_roles actor) ''Licensing.Sender'')
              (StateConflictError ''Licensing.Sender role is required to queue a send.'')) (\<lambda>_.
     bindE (check (communications_enabled st \<and> graph_send_enabled st) (StateConflictError ''Graph send is disabled.'')) (\<lambda>_.
     (case get_row od_id (md_drafts db) i of
        None \<Rightarrow> Inl (StateConflictError ''Draft is not approved to send.'')
      | Some d \<Rightarrow>
        bindE (check (od_status d = ''APPROVED_TO_SEND'' \<or> od_status d = ''SEND_QUEUED'')
                 (StateConflictError ''Draft is not approved to send.'')) (\<lambda>_.
        (case live_approval i db of
           None \<Rightarrow> Inl (StateConflictError ''Current exact-snapshot send approval is missing.'')
         | Some a \<Rightarrow>
           bindE (check (Some (ap_snapshot_sha256 a) = od_approval_snapshot_sha256 d)
                    (StateConflictError ''Current exact-snapshot send approval is missing.'')) (\<lambda>_.
           let ((j, created), db1) = enqueue_job env d
                 \<lparr>jr_job_type = ''SEND_DRAFT'', jr_key = ''send:'' @ str_uuid i @ '':'' @ ap_snapshot_sha256 a,
                  jr_payload = [(''approval_id'', JStr (str_uuid (ap_id a))), (''queued_by'', JStr (actor_id (ma_actor actor))),
                                (''client_idempotency_key'', JStr client_key)],
                  jr_priority = 10, jr_max_attempts = send_job_max_attempts st, jr_delay_seconds = 0\<rparr> db
           in Inr ((j, created),
                if created
                then comm_audit env (Some (ma_actor actor)) ''outbound_draft'' i ''approved_send_queued''
                       (Some [(''status'', AStr ''APPROVED_TO_SEND'')]) (Some [(''status'', AStr ''SEND_QUEUED'')])
                       [(''communication_job_id'', JStr (str_uuid j))]
                       (save_draft (d\<lparr>od_status := ''SEND_QUEUED'', od_send_queued_at := Some (me_now env)\<rparr>) db1)
                else db1)))))))))"

definition reconciliation_job :: "mail_settings \<Rightarrow> string \<Rightarrow> int \<Rightarrow> int \<Rightarrow> job_request" where
  "reconciliation_job st key priority delay =
     \<lparr>jr_job_type = ''RECONCILE_SEND'', jr_key = key, jr_payload = [], jr_priority = priority,
      jr_max_attempts = reconciliation_max_attempts st, jr_delay_seconds = delay\<rparr>"

definition queue_reconciliation :: "mail_settings \<Rightarrow> mail_env \<Rightarrow> uuid \<Rightarrow> mail_db \<Rightarrow> domain_error + ((uuid \<times> bool) \<times> mail_db)" where
  "queue_reconciliation st env i db =
     bindE (get_draft db i) (\<lambda>d.
     Inr (enqueue_job env d
       (reconciliation_job st (''reconcile-send:'' @ str_uuid i @ '':'' @ str_int (od_local_revision d)) 20 0) db))"

end
