(* ===== verification/Send_Saga.thy ===== *)
theory Send_Saga
  imports Send_Approval
begin

text \<open>
  The send itself (\<^verbatim>\<open>services/outbound_send_service.py\<close>) and the comparison with the draft that Graph holds
  (\<^verbatim>\<open>services/graph_draft_service.py\<close>). What Graph answers is an argument: the message it holds,
  its attachments, and the result of the send request. A send has two transactions: the intent is committed
  before the request is posted, its result afterwards; a process that ends in between leaves the first.
\<close>

subsection \<open>What Graph answers\<close>

record graph_error =
  ge_status :: int
  ge_request_id :: "string option"
  ge_client_request_id :: "string option"
  ge_code :: "string option"
  ge_message :: string

datatype graph_reply = Message jdict | Status int | Broken

text \<open>
  \<^verbatim>\<open>Accepted\<close> is the answer 202, \<^verbatim>\<open>Rejected\<close> a \<^verbatim>\<open>GraphApiError\<close>, \<^verbatim>\<open>NoToken\<close> a \<^verbatim>\<open>GraphAuthError\<close>,
  \<^verbatim>\<open>NoConnection\<close> an \<^verbatim>\<open>httpx.ConnectError\<close>, \<^verbatim>\<open>Interrupted\<close> a timeout or a read or write error; \<^verbatim>\<open>Lost\<close>
  is every other exception, and the end of the process while the request is under way.
\<close>

datatype post_result =
    Accepted "string option" string
  | Rejected graph_error
  | NoToken string
  | NoConnection string
  | Interrupted string
  | Lost

record graph_world =
  gw_message :: graph_reply
  gw_attachments :: "jdict list option"
  gw_first :: post_result
  gw_second :: post_result

datatype send_error = Conflict domain_error | GraphFailure int | Escaped

subsection \<open>Comparison with the Graph draft (graph\_draft\_service.py)\<close>

definition graph_recipient :: "rule_lib \<Rightarrow> json \<Rightarrow> jdict list" where
  "graph_recipient lib item =
     (case (case item of JObj x \<Rightarrow> jget_or x ''emailAddress'' (JObj []) | _ \<Rightarrow> JObj []) of
        JObj email \<Rightarrow>
          (let address = jget_or email ''address'' JNull in
           if truthy address
           then [[(''address'', JStr (lower_ascii (py_str lib address))), (''name'', JStr (str_or lib email ''name''))]] else [])
      | _ \<Rightarrow> [])"

definition graph_recipients :: "rule_lib \<Rightarrow> jdict \<Rightarrow> string \<Rightarrow> jdict list" where
  "graph_recipients lib payload key =
     (case jget_or payload key JNull of JList items \<Rightarrow> concat (map (graph_recipient lib) items) | _ \<Rightarrow> [])"

definition graph_body :: "rule_lib \<Rightarrow> jdict \<Rightarrow> string option \<times> string option" where
  "graph_body lib payload =
     (case jget_or payload ''body'' JNull of
        JObj body \<Rightarrow>
          (let content = str_or lib body ''content'' in
           if lower_ascii (str_or lib body ''contentType'') = ''html'' then (None, Some content) else (Some content, None))
      | _ \<Rightarrow> (None, None))"

definition graph_body_hash :: "mail_lib \<Rightarrow> jdict \<Rightarrow> string" where
  "graph_body_hash lib payload =
     (let (text, html) = graph_body (ml_rules lib) payload
      in sha256_text lib (message_text (str_or (ml_rules lib) payload ''subject'') text html))"

definition graph_recipient_hash :: "mail_lib \<Rightarrow> jdict \<Rightarrow> string" where
  "graph_recipient_hash lib payload =
     recipient_set_hash lib (graph_recipients (ml_rules lib) payload ''toRecipients'')
       (graph_recipients (ml_rules lib) payload ''ccRecipients'') (graph_recipients (ml_rules lib) payload ''bccRecipients'')"

text \<open>\<^verbatim>\<open>str(payload.get(key) or "") or None\<close>.\<close>

definition graph_key :: "rule_lib \<Rightarrow> jdict \<Rightarrow> string \<Rightarrow> string option" where
  "graph_key lib payload key = (case str_or lib payload key of [] \<Rightarrow> None | c # cs \<Rightarrow> Some (c # cs))"

definition is_graph_draft :: "jdict \<Rightarrow> bool" where
  "is_graph_draft payload \<longleftrightarrow> jget payload ''isDraft'' = Some (JBool True)"

definition has_attachments :: "jdict \<Rightarrow> bool" where
  "has_attachments payload \<longleftrightarrow> jget payload ''hasAttachments'' = Some (JBool True)"

definition sort_identities :: "(string \<times> string \<times> int) list \<Rightarrow> (string \<times> string \<times> int) list" where
  "sort_identities xs = sort_key fst (sort_key (\<lambda>x. fst (snd x)) (sort_key (\<lambda>x. snd (snd x)) xs))"

definition attachment_identities :: "rule_lib \<Rightarrow> jdict list \<Rightarrow> py_error + (string \<times> string \<times> int) list" where
  "attachment_identities lib rows =
     bindE (mapE (\<lambda>row. let size = jget_or row ''size'' JNull in
        bindE (py_int (if truthy size then size else JInt 0)) (\<lambda>n. Inr (str_or lib row ''id'', str_or lib row ''name'', n)))
        (filter (\<lambda>row. \<not> truthy (jget_or row ''isInline'' JNull)) rows)) (\<lambda>xs. Inr (sort_identities xs))"

definition graph_attachments_match ::
  "rule_lib \<Rightarrow> mail_db \<Rightarrow> uuid \<Rightarrow> bool \<Rightarrow> jdict list option \<Rightarrow> send_error + bool" where
  "graph_attachments_match lib db i graph_has_attachments reply =
     (let local' = active_attachments i (md_attachments db);
          uploaded = filter (\<lambda>a. att_status a = ''GRAPH_UPLOADED'') local';
          wanted = sort_identities (map (\<lambda>a. (or_empty (att_graph_attachment_id a), att_filename a, att_size_bytes a)) uploaded)
      in if \<not> graph_has_attachments \<and> local' = [] then Inr True
         else case reply of
             None \<Rightarrow> Inl Escaped
           | Some rows \<Rightarrow>
             (case attachment_identities lib rows of
                Inl e \<Rightarrow> Inl (Conflict (Raised e))
              | Inr actual \<Rightarrow> Inr (length wanted = length local' \<and> actual = wanted)))"

subsection \<open>The first transaction\<close>

type_synonym 'a settled = "mail_db \<times> (send_error + 'a)"

definition stop_unless :: "bool \<Rightarrow> 'a settled \<Rightarrow> 'a settled + unit" where
  "stop_unless ok r = (if ok then Inr () else Inl r)"

definition save_attempt :: "send_attempt \<Rightarrow> mail_db \<Rightarrow> mail_db" where
  "save_attempt a db = db\<lparr>md_attempts := put_row sa_id a (md_attempts db)\<rparr>"

definition draft_attempts :: "uuid \<Rightarrow> mail_db \<Rightarrow> send_attempt list" where
  "draft_attempts i db = filter (\<lambda>a. sa_draft_id a = i) (md_attempts db)"

definition latest_attempt :: "uuid \<Rightarrow> mail_db \<Rightarrow> send_attempt option" where
  "latest_attempt i db = (case sorted_reverse sa_number (draft_attempts i db) of [] \<Rightarrow> None | a # _ \<Rightarrow> Some a)"

definition FINISHED_STATUSES :: "string list" where
  "FINISHED_STATUSES = [''SEND_ACCEPTED'', ''SEND_AMBIGUOUS'', ''SENT_COPY_VERIFIED'']"

definition SENDABLE_STATUSES :: "string list" where
  "SENDABLE_STATUSES = [''SEND_QUEUED'', ''APPROVED_TO_SEND'', ''SEND_FAILED_RETRYABLE'']"

definition preflight_failed :: "mail_env \<Rightarrow> outbound_draft \<Rightarrow> string \<Rightarrow> mail_db \<Rightarrow> send_attempt settled" where
  "preflight_failed env d message db =
     (comm_audit env None ''outbound_draft'' (od_id d) ''send_preflight_failed_review'' None
        (Some [(''status'', AStr ''SEND_FAILED_REVIEW'')]) [] (save_draft (d\<lparr>od_status := ''SEND_FAILED_REVIEW''\<rparr>) db),
      Inl (Conflict (StateConflictError message)))"

definition reconcile_later :: "mail_settings \<Rightarrow> mail_env \<Rightarrow> outbound_draft \<Rightarrow> string \<Rightarrow> int \<Rightarrow> mail_db \<Rightarrow> mail_db" where
  "reconcile_later st env d key priority db =
     snd (enqueue_job env d (reconciliation_job st key priority (reconciliation_initial_delay st)) db)"

definition stale_attempt :: "mail_settings \<Rightarrow> mail_env \<Rightarrow> outbound_draft \<Rightarrow> send_attempt \<Rightarrow> mail_db \<Rightarrow> send_attempt settled" where
  "stale_attempt st env d a db =
     (let a' = a\<lparr>sa_status := ''AMBIGUOUS'', sa_error_code := Some ''STALE_SEND_LEASE'',
                 sa_error_message := Some ''The send worker stopped after persisting intent; reconciliation is required.''\<rparr>;
          d' = d\<lparr>od_status := ''SEND_AMBIGUOUS''\<rparr>
      in (reconcile_later st env d' (''stale-send-reconcile:'' @ str_uuid (sa_id a)) 1 (save_attempt a' (save_draft d' db)), Inr a'))"

text \<open>What has to hold before Graph is asked: an approval, the mailbox, the recipients, the snapshot, the attachments.\<close>

definition send_context ::
  "mail_settings \<Rightarrow> mail_env \<Rightarrow> outbound_draft \<Rightarrow> mail_db \<Rightarrow> send_attempt settled + (send_approval \<times> response_plan \<times> mailbox \<times> string)" where
  "send_context st env d db =
     (case (live_approval (od_id d) db, Option.bind (od_response_plan_id d) (get_row rsp_id (md_plans db)),
            get_row mb_id (md_mailboxes db) (od_mailbox_id d)) of
        (Some a, Some p, Some m) \<Rightarrow>
          let mailbox_address = lower_ascii (py_strip (or_empty (expected_mailbox_address st)));
              persisted = approval_snapshot_hash (me_lib env) (draft_snapshot d p)
          in bindE (stop_unless (mailbox_address \<noteq> [] \<and> lower_ascii (py_strip (mb_address m)) = mailbox_address)
                      (preflight_failed env d ''Mail.Send mailbox boundary validation failed.'' db)) (\<lambda>_.
             bindE (stop_unless (rp_allowed (evaluate_recipients st (ml_rules (me_lib env))
                        (recipient_check p d (Some [mailbox_domain m]) db False False)))
                      (preflight_failed env d ''Recipient policy changed after approval.'' db)) (\<lambda>_.
             bindE (stop_unless (persisted = ap_snapshot_sha256 a) (preflight_failed env d ''DRAFT_CHANGED_AFTER_APPROVAL'' db)) (\<lambda>_.
             bindE (stop_unless (draft_attachment_blockers env db (od_id d) = [])
                      (preflight_failed env d ''ATTACHMENT_CHANGED_AFTER_APPROVAL'' db)) (\<lambda>_.
             Inr (a, p, m, persisted)))))
      | _ \<Rightarrow> Inl (preflight_failed env d ''Active approval or mailbox context is missing.'' db))"

text \<open>The draft that Graph holds must still be a draft and must be the approved one.\<close>

definition graph_unchanged :: "mail_env \<Rightarrow> jdict \<Rightarrow> bool \<Rightarrow> send_approval \<Rightarrow> bool" where
  "graph_unchanged env payload attachments_unchanged a \<longleftrightarrow>
     graph_body_hash (me_lib env) payload = ap_body_sha256 a \<and>
     graph_recipient_hash (me_lib env) payload = ap_recipient_set_sha256 a \<and> attachments_unchanged \<and>
     graph_key (ml_rules (me_lib env)) payload ''changeKey'' = ap_graph_change_key a \<and>
     graph_key (ml_rules (me_lib env)) payload ''@odata.etag'' = ap_graph_etag a"

definition check_graph ::
  "mail_settings \<Rightarrow> mail_env \<Rightarrow> graph_world \<Rightarrow> outbound_draft \<Rightarrow> send_approval \<Rightarrow> mail_db \<Rightarrow> send_attempt settled + unit" where
  "check_graph st env gw d a db =
     (case gw_message gw of
        Status s \<Rightarrow>
          Inl (if s = 404 then preflight_failed env d ''Graph draft is missing; explicit review is required.'' db
               else (db, Inl (GraphFailure s)))
      | Broken \<Rightarrow> Inl (db, Inl Escaped)
      | Message payload \<Rightarrow>
        bindE (stop_unless (is_graph_draft payload)
          (let d' = d\<lparr>od_status := ''SEND_AMBIGUOUS''\<rparr> in
           (reconcile_later st env d' (''preflight-no-longer-draft:'' @ str_uuid (od_id d) @ '':'' @ str_int (od_local_revision d)) 1
              (save_draft d' db),
            Inl (Conflict (StateConflictError ''Graph draft is no longer a draft; send reconciliation was queued.''))))) (\<lambda>_.
        (case graph_attachments_match (ml_rules (me_lib env)) db (od_id d) (has_attachments payload) (gw_attachments gw) of
           Inl e \<Rightarrow> Inl (db, Inl e)
         | Inr same \<Rightarrow>
           stop_unless (graph_unchanged env payload same a)
             (let (d1, db1) = invalidate_approval env ''Graph draft changed after send approval'' d db
              in preflight_failed env d1 ''DRAFT_CHANGED_AFTER_APPROVAL'' db1))))"

definition new_attempt ::
  "mail_env \<Rightarrow> uuid option \<Rightarrow> outbound_draft \<Rightarrow> send_approval \<Rightarrow> string \<Rightarrow> nat \<Rightarrow> send_attempt" where
  "new_attempt env job d a persisted n =
     \<lparr>sa_id = me_new_id env, sa_draft_id = od_id d, sa_approval_id = ap_id a, sa_job_id = job, sa_number = n,
      sa_idempotency_key = ''send-attempt:'' @ str_uuid (od_id d) @ '':'' @ ap_snapshot_sha256 a @ '':'' @ str_nat n,
      sa_pre_send_snapshot = persisted, sa_graph_draft_message_id = or_empty (od_graph_draft_message_id d),
      sa_status = ''STARTED'', sa_http_status = None, sa_graph_request_id = None, sa_client_request_id = None,
      sa_started_at = me_now env, sa_accepted_at = None, sa_reconciled_at = None, sa_verified_at = None,
      sa_sent_graph_message_id = None, sa_sent_internet_message_id = None, sa_sent_parent_folder_id = None,
      sa_sent_body_sha256 = None, sa_sent_recipient_sha256 = None, sa_sent_attachment_sha256 = None,
      sa_error_code = None, sa_error_message = None\<rparr>"

definition persist_intent :: "mail_env \<Rightarrow> outbound_draft \<Rightarrow> send_attempt \<Rightarrow> mail_db \<Rightarrow> mail_db" where
  "persist_intent env d t db =
     comm_audit env None ''outbound_send_attempt'' (sa_id t) ''send_intent_persisted'' None
       (Some [(''status'', AStr (sa_status t)), (''attempt_number'', AJson (JInt (int (sa_number t))))])
       [(''draft_id'', JStr (str_uuid (od_id d))), (''job_id'', case sa_job_id t of None \<Rightarrow> JNull | Some j \<Rightarrow> JStr (str_uuid j))]
       (save_draft (d\<lparr>od_status := ''SENDING''\<rparr>) (db\<lparr>md_attempts := md_attempts db @ [t]\<rparr>))"

definition prepare_send ::
  "mail_settings \<Rightarrow> mail_env \<Rightarrow> graph_world \<Rightarrow> uuid \<Rightarrow> uuid option \<Rightarrow> mail_db \<Rightarrow> send_attempt settled + (send_attempt \<times> mail_db)" where
  "prepare_send st env gw i job db =
     (case get_row od_id (md_drafts db) i of
        None \<Rightarrow> Inl (db, Inl (Conflict (NotFoundError ''Sendable Graph draft does not exist.'')))
      | Some d \<Rightarrow>
        if od_response_plan_id d = None \<or> or_empty (od_graph_draft_message_id d) = []
        then Inl (db, Inl (Conflict (NotFoundError ''Sendable Graph draft does not exist.'')))
        else
          (case (od_status d \<in> set FINISHED_STATUSES, latest_attempt i db) of
             (True, Some a) \<Rightarrow> Inl (db, Inr a)
           | (_, latest) \<Rightarrow>
             if od_status d = ''SENDING'' \<and> map_option sa_status latest = Some ''STARTED''
             then Inl (stale_attempt st env d (the latest) db)
             else if od_status d \<notin> set SENDABLE_STATUSES
             then Inl (db, Inl (Conflict (StateConflictError ''Draft is not queued with a safe send state.'')))
             else
               bindE (send_context st env d db) (\<lambda>(a, p, m, persisted).
               bindE (check_graph st env gw d a db) (\<lambda>_.
               let t = new_attempt env job d a persisted (length (draft_attempts i db) + 1) in
               bindE (stop_unless (sa_id t \<notin> sa_id ` set (md_attempts db) \<and>
                          sa_idempotency_key t \<notin> sa_idempotency_key ` set (md_attempts db) \<and>
                          sa_number t \<notin> sa_number ` set (draft_attempts i db))
                        (db, Inl (Conflict IntegrityError))) (\<lambda>_.
               Inr (t, persist_intent env d t db))))))"

subsection \<open>The second transaction\<close>

definition attempt_audit :: "mail_env \<Rightarrow> send_attempt \<Rightarrow> string \<Rightarrow> bool \<Rightarrow> mail_db \<Rightarrow> mail_db" where
  "attempt_audit env t action with_http db =
     comm_audit env None ''outbound_send_attempt'' (sa_id t) action None
       (Some ((''status'', AStr (sa_status t)) #
          (if with_http then [(''http_status'', case sa_http_status t of None \<Rightarrow> ANone | Some s \<Rightarrow> AJson (JInt s))] else []))) [] db"

definition safe_retry ::
  "mail_settings \<Rightarrow> mail_env \<Rightarrow> outbound_draft \<Rightarrow> send_attempt \<Rightarrow> string option \<Rightarrow> string option \<Rightarrow> mail_db \<Rightarrow> send_attempt settled" where
  "safe_retry st env d t code message db =
     (if send_job_max_attempts st \<le> int (sa_number t) then
        let t' = t\<lparr>sa_error_code := code, sa_error_message := message, sa_status := ''FAILED_REVIEW''\<rparr>
        in (attempt_audit env t' ''send_safe_retry_exhausted'' False
              (save_attempt t' (save_draft (d\<lparr>od_status := ''SEND_FAILED_REVIEW''\<rparr>) db)), Inr t')
      else
        let t' = t\<lparr>sa_error_code := code, sa_error_message := message, sa_status := ''FAILED_RETRYABLE''\<rparr>;
            d' = d\<lparr>od_status := ''SEND_FAILED_RETRYABLE''\<rparr>
        in (attempt_audit env t' ''send_safe_retry_queued'' False
              (snd (enqueue_job env d' \<lparr>jr_job_type = ''SEND_DRAFT'', jr_key = ''safe-send-retry:'' @ str_uuid (sa_id t), jr_payload = [],
                      jr_priority = 10, jr_max_attempts = 1, jr_delay_seconds = 0\<rparr> (save_attempt t' (save_draft d' db)))), Inr t'))"

definition AMBIGUOUS_CODES :: "int list" where
  "AMBIGUOUS_CODES = [408, 500, 502, 503, 504]"

definition ambiguous_message :: string where
  "ambiguous_message = ''Send outcome is ambiguous; automatic resend is forbidden.''"

definition send_failed ::
  "mail_settings \<Rightarrow> mail_env \<Rightarrow> outbound_draft \<Rightarrow> send_attempt \<Rightarrow> graph_error \<Rightarrow> mail_db \<Rightarrow> send_attempt settled" where
  "send_failed st env d t e db =
     (let code = (case ge_code e of Some (c # cs) \<Rightarrow> c # cs | _ \<Rightarrow> ''HTTP_'' @ str_int (ge_status e));
          t1 = t\<lparr>sa_http_status := Some (ge_status e), sa_graph_request_id := ge_request_id e,
                 sa_client_request_id := ge_client_request_id e, sa_error_code := Some code, sa_error_message := Some (ge_message e)\<rparr>
      in if ge_status e \<in> set AMBIGUOUS_CODES then
           let t2 = t1\<lparr>sa_status := ''AMBIGUOUS'', sa_error_message := Some ambiguous_message\<rparr>;
               d' = d\<lparr>od_status := ''SEND_AMBIGUOUS''\<rparr>
           in (attempt_audit env t2 ''send_http_outcome_marked_ambiguous'' True
                 (reconcile_later st env d' (''ambiguous-http-reconcile:'' @ str_uuid (sa_id t)) 1
                    (save_attempt t2 (save_draft d' db))), Inr t2)
         else if ge_status e = 429 then safe_retry st env d t1 (sa_error_code t1) (sa_error_message t1) db
         else
           let t2 = t1\<lparr>sa_status := ''FAILED_REVIEW''\<rparr>
           in (attempt_audit env t2 ''send_failed_review'' True
                 (save_attempt t2 (save_draft (d\<lparr>od_status := ''SEND_FAILED_REVIEW''\<rparr>) db)), Inr t2))"

text \<open>A 401 is tried once more with a fresh token; there only a \<^verbatim>\<open>GraphApiError\<close> is handled.\<close>

definition is_unauthorized :: "post_result \<Rightarrow> bool" where
  "is_unauthorized r = (case r of Rejected e \<Rightarrow> ge_status e = 401 | _ \<Rightarrow> False)"

definition settled_post :: "graph_world \<Rightarrow> post_result" where
  "settled_post gw =
     (if is_unauthorized (gw_first gw)
      then (case gw_second gw of Accepted r c \<Rightarrow> Accepted r c | Rejected e \<Rightarrow> Rejected e | _ \<Rightarrow> Lost)
      else gw_first gw)"

definition posts :: "graph_world \<Rightarrow> post_result list" where
  "posts gw = gw_first gw # (if is_unauthorized (gw_first gw) then [gw_second gw] else [])"

definition finish_send ::
  "mail_settings \<Rightarrow> mail_env \<Rightarrow> outbound_draft \<Rightarrow> send_attempt \<Rightarrow> post_result \<Rightarrow> mail_db \<Rightarrow> send_attempt settled" where
  "finish_send st env d t r db =
     (case r of
        Lost \<Rightarrow> (db, Inl Escaped)
      | Rejected e \<Rightarrow> send_failed st env d t e db
      | NoToken code \<Rightarrow> safe_retry st env d t (Some code) (Some ''Token acquisition failed before the send request.'') db
      | NoConnection name \<Rightarrow>
          safe_retry st env d t (Some name) (Some ''Connection failed before the send request was transmitted.'') db
      | Interrupted name \<Rightarrow>
          (let t' = t\<lparr>sa_status := ''AMBIGUOUS'', sa_error_code := Some name, sa_error_message := Some ambiguous_message\<rparr>;
               d' = d\<lparr>od_status := ''SEND_AMBIGUOUS''\<rparr>
           in (attempt_audit env t' ''send_outcome_marked_ambiguous'' False
                 (reconcile_later st env d' (''ambiguous-reconcile:'' @ str_uuid (sa_id t)) 1 (save_attempt t' (save_draft d' db))), Inr t'))
      | Accepted request_id client_request_id \<Rightarrow>
          (let t' = t\<lparr>sa_status := ''ACCEPTED'', sa_http_status := Some 202, sa_graph_request_id := request_id,
                      sa_client_request_id := Some client_request_id, sa_accepted_at := Some (me_now env)\<rparr>;
               d' = d\<lparr>od_status := ''SEND_ACCEPTED'', od_delivery_status := ''UNKNOWN''\<rparr>
           in (attempt_audit env t' ''graph_send_accepted'' True
                 (reconcile_later st env d' (''accepted-reconcile:'' @ str_uuid (sa_id t)) 20 (save_attempt t' (save_draft d' db))), Inr t')))"

text \<open>The whole call: the database and the result, and the requests that were posted with the approval they rest on.\<close>

definition execute_send ::
  "mail_settings \<Rightarrow> mail_env \<Rightarrow> graph_world \<Rightarrow> uuid \<Rightarrow> uuid option \<Rightarrow> mail_db \<Rightarrow>
     send_attempt settled \<times> (uuid \<times> uuid \<times> post_result) list" where
  "execute_send st env gw i job db =
     (case prepare_send st env gw i job db of
        Inl r \<Rightarrow> (r, [])
      | Inr (t, db1) \<Rightarrow>
        (case get_row od_id (md_drafts db1) i of
           None \<Rightarrow> ((db1, Inl Escaped), [])
         | Some d \<Rightarrow> (finish_send st env d t (settled_post gw) db1, map (\<lambda>r. (i, sa_approval_id t, r)) (posts gw))))"

end
