(* ===== verification/Sent_Copies.thy ===== *)
theory Sent_Copies
  imports Send_Saga
begin

text \<open>
  Reconciliation: with the copy in "Sent Items" after a send
  (\<^verbatim>\<open>services/sent_reconciliation_service.py\<close>), with a draft edited in Outlook
  (\<^verbatim>\<open>GraphDraftService.sync\<close>), and the end of a reconciliation job that has used up its attempts
  (\<^verbatim>\<open>workers/communication_jobs.py\<close>).
\<close>

subsection \<open>The sent copy\<close>

definition verified_attempt :: "mail_env \<Rightarrow> outbound_draft \<Rightarrow> jdict \<Rightarrow> bool \<Rightarrow> send_attempt \<Rightarrow> send_attempt" where
  "verified_attempt env d payload attachments_match t =
     t\<lparr>sa_reconciled_at := Some (me_now env), sa_status := ''SENT_COPY_VERIFIED'', sa_verified_at := Some (me_now env),
       sa_sent_graph_message_id :=
         Some (let v = jget_or payload ''id'' JNull in
               if truthy v then py_str (ml_rules (me_lib env)) v else or_empty (od_graph_draft_message_id d)),
       sa_sent_internet_message_id := graph_key (ml_rules (me_lib env)) payload ''internetMessageId'',
       sa_sent_parent_folder_id := Some (str_or (ml_rules (me_lib env)) payload ''parentFolderId''),
       sa_sent_body_sha256 := Some (graph_body_hash (me_lib env) payload),
       sa_sent_recipient_sha256 := Some (graph_recipient_hash (me_lib env) payload),
       sa_sent_attachment_sha256 := (if attachments_match then Some (od_attachment_set_sha256 d) else None)\<rparr>"

definition check_copy :: "mail_settings \<Rightarrow> mail_env \<Rightarrow> outbound_draft \<Rightarrow> jdict \<Rightarrow> bool \<Rightarrow> send_attempt \<Rightarrow> mail_db \<Rightarrow> send_attempt settled" where
  "check_copy st env d payload attachments_match t db =
     (let t1 = verified_attempt env d payload attachments_match t in
      if sa_sent_body_sha256 t1 \<noteq> Some (od_body_sha256 d) \<or> sa_sent_recipient_sha256 t1 \<noteq> Some (od_recipient_set_sha256 d) \<or>
         \<not> attachments_match
      then
        let t2 = t1\<lparr>sa_status := ''FAILED_REVIEW'', sa_error_code := Some ''SENT_COPY_SNAPSHOT_MISMATCH'',
                    sa_error_message := Some ''Sent copy does not match the approved snapshot.''\<rparr>
        in (attempt_audit env t2 ''sent_copy_snapshot_mismatch'' False
              (save_attempt t2 (save_draft (d\<lparr>od_status := ''SEND_FAILED_REVIEW''\<rparr>) db)), Inr t2)
      else
        let d1 = d\<lparr>od_status := ''SENT_COPY_VERIFIED'', od_delivery_status := ''UNKNOWN'', od_sent_at := Some (me_now env)\<rparr>;
            db1 = snd (enqueue_job env d1 \<lparr>jr_job_type = ''MOVE_SOURCE_MESSAGE'', jr_key = ''move-after-send:'' @ str_uuid (sa_id t),
                         jr_payload = [], jr_priority = 30, jr_max_attempts = move_job_max_attempts st, jr_delay_seconds = 0\<rparr>
                         (save_attempt t1 (save_draft d1 db)))
        in (comm_audit env None ''outbound_send_attempt'' (sa_id t) ''sent_copy_verified'' None
              (Some [(''status'', AStr (sa_status t1))]) [(''draft_id'', JStr (str_uuid (od_id d)))] db1, Inr t1))"

definition reconcile_sent ::
  "mail_settings \<Rightarrow> mail_env \<Rightarrow> graph_world \<Rightarrow> uuid \<Rightarrow> mail_db \<Rightarrow> send_attempt settled" where
  "reconcile_sent st env gw i db =
     (case get_row od_id (md_drafts db) i of
        None \<Rightarrow> (db, Inl (Conflict (NotFoundError ''Graph draft identity is missing.'')))
      | Some d \<Rightarrow>
        if or_empty (od_graph_draft_message_id d) = []
        then (db, Inl (Conflict (NotFoundError ''Graph draft identity is missing.'')))
        else
          (case (latest_attempt i db, get_row mb_id (md_mailboxes db) (od_mailbox_id d), md_sent_folders db (od_mailbox_id d)) of
             (Some t, Some m, Some folder) \<Rightarrow>
               if seconds_us (reconciliation_max_seconds st) < max 0 (me_now env - sa_started_at t) then
                 let t' = t\<lparr>sa_status := ''FAILED_REVIEW'', sa_error_code := Some ''SEND_RECONCILIATION_EXHAUSTED'',
                            sa_error_message := Some ''Send outcome requires explicit operator review.''\<rparr>
                 in (attempt_audit env t' ''send_reconciliation_window_exhausted'' False
                       (save_attempt t' (save_draft (d\<lparr>od_status := ''SEND_FAILED_REVIEW''\<rparr>) db)), Inr t')
               else
                 (case gw_message gw of
                    Status s \<Rightarrow> (db, Inl (GraphFailure s))
                  | Broken \<Rightarrow> (db, Inl Escaped)
                  | Message payload \<Rightarrow>
                    if is_graph_draft payload then
                      (if sa_status t = ''AMBIGUOUS''
                       then (save_attempt (t\<lparr>sa_reconciled_at := Some (me_now env)\<rparr>) (save_draft (d\<lparr>od_status := ''SEND_AMBIGUOUS''\<rparr>) db),
                             Inl (Conflict (StateConflictError ''Ambiguous send still appears as a draft; continue bounded reconciliation.'')))
                       else (db, Inl (Conflict (StateConflictError ''Graph still reports a draft; do not resend automatically.''))))
                    else if str_or (ml_rules (me_lib env)) payload ''parentFolderId'' \<noteq> folder
                    then (db, Inl (Conflict (StateConflictError ''Immutable message is not verified in shared Sent Items.'')))
                    else if \<not> truthy (jget_or payload ''sentDateTime'' JNull)
                    then (db, Inl (Conflict (StateConflictError ''Sent copy has no sentDateTime yet.'')))
                    else
                      (case graph_attachments_match (ml_rules (me_lib env)) db i (has_attachments payload) (gw_attachments gw) of
                         Inl e \<Rightarrow> (db, Inl e)
                       | Inr same \<Rightarrow> check_copy st env d payload same t db))
           | _ \<Rightarrow> (db, Inl (Conflict (StateConflictError ''Send attempt or Sent Items folder metadata is missing.'')))))"

text \<open>A reconciliation job that fails for the last time hands the draft to an operator.\<close>

definition give_up_reconciliation :: "uuid \<Rightarrow> mail_db \<Rightarrow> mail_db" where
  "give_up_reconciliation i db =
     (case get_row od_id (md_drafts db) i of
        None \<Rightarrow> db
      | Some d \<Rightarrow>
        if od_status d = ''SEND_ACCEPTED'' \<or> od_status d = ''SEND_AMBIGUOUS''
        then save_draft (d\<lparr>od_status := ''SEND_FAILED_REVIEW''\<rparr>) db else db)"

subsection \<open>Edits made in Outlook\<close>

definition import_edit ::
  "mail_env \<Rightarrow> mail_actor \<Rightarrow> outbound_draft \<Rightarrow> jdict \<Rightarrow> mail_db \<Rightarrow> domain_error + (outbound_draft \<times> mail_db)" where
  "import_edit env actor d payload db =
     (let lib = ml_rules (me_lib env); (text, html) = graph_body lib payload;
          d1 = d\<lparr>od_subject := str_or lib payload ''subject'', od_body_text := text, od_body_html := html,
                 od_to := graph_recipients lib payload ''toRecipients'', od_cc := graph_recipients lib payload ''ccRecipients'',
                 od_bcc := graph_recipients lib payload ''bccRecipients''\<rparr>;
          (d2, db1) = invalidate_approval env ''external Outlook draft edit'' d1 db
      in bindE (create_version env (actor_id (ma_actor actor)) (Some ''EXTERNAL_DRAFT_EDIT'') d2 db1) (\<lambda>(d3, db2).
         let d4 = d3\<lparr>od_status := ''CHANGES_REQUESTED''\<rparr>
         in Inr (d4, comm_audit env (Some (ma_actor actor)) ''outbound_draft'' (od_id d) ''external_graph_draft_edit_detected'' None
              (Some [(''revision'', AJson (JInt (od_local_revision d4))), (''status'', AStr (od_status d4))]) [] (save_draft d4 db2))))"

definition material_change :: "mail_env \<Rightarrow> outbound_draft \<Rightarrow> jdict \<Rightarrow> bool \<Rightarrow> bool" where
  "material_change env d payload attachments_match \<longleftrightarrow>
     str_or (ml_rules (me_lib env)) payload ''subject'' \<noteq> od_subject d \<or>
     graph_body_hash (me_lib env) payload \<noteq> od_body_sha256 d \<or>
     graph_recipient_hash (me_lib env) payload \<noteq> od_recipient_set_sha256 d \<or> \<not> attachments_match"

definition sync_draft ::
  "mail_settings \<Rightarrow> mail_env \<Rightarrow> mail_actor \<Rightarrow> graph_world \<Rightarrow> uuid \<Rightarrow> bool \<Rightarrow> mail_db \<Rightarrow> (outbound_draft \<times> bool) settled" where
  "sync_draft st env actor gw i allow_metadata_change db =
     (case get_row od_id (md_drafts db) i of
        None \<Rightarrow> (db, Inl (Conflict (NotFoundError ''Controlled draft does not exist.'')))
      | Some d \<Rightarrow>
        if od_response_plan_id d = None \<or> od_email_id d = None
        then (db, Inl (Conflict (NotFoundError ''Controlled draft does not exist.'')))
        else
        (case (Option.bind (od_response_plan_id d) (get_row rsp_id (md_plans db)), get_row mb_id (md_mailboxes db) (od_mailbox_id d)) of
           (Some p, Some m) \<Rightarrow>
             if or_empty (od_graph_draft_message_id d) = []
             then (db, Inl (Conflict (StateConflictError ''Graph draft is missing.'')))
             else
               (case gw_message gw of
                  Status s \<Rightarrow>
                    if s = 404 then
                      let (d1, db1) = invalidate_approval env ''Graph draft is missing'' d db
                      in (save_draft (d1\<lparr>od_status := ''SEND_FAILED_REVIEW''\<rparr>) db1,
                          Inl (Conflict (StateConflictError ''Graph draft is missing; explicit operator review is required.'')))
                    else (db, Inl (GraphFailure s))
                | Broken \<Rightarrow> (db, Inl Escaped)
                | Message payload \<Rightarrow>
                  if \<not> is_graph_draft payload then
                    let d' = d\<lparr>od_status := ''SEND_AMBIGUOUS''\<rparr>
                    in (reconcile_later st env d'
                          (''graph-draft-no-longer-draft:'' @ str_uuid i @ '':'' @ str_int (od_local_revision d)) 1 (save_draft d' db),
                        Inr (d', True))
                  else
                    (case graph_attachments_match (ml_rules (me_lib env)) db i (has_attachments payload) (gw_attachments gw) of
                       Inl e \<Rightarrow> (db, Inl e)
                     | Inr same \<Rightarrow>
                       let key = graph_key (ml_rules (me_lib env)) payload ''changeKey'';
                           etag = graph_key (ml_rules (me_lib env)) payload ''@odata.etag'';
                           changed = (material_change env d payload same \<or>
                             (key \<noteq> od_graph_change_key d \<or> etag \<noteq> od_graph_etag d) \<and> \<not> allow_metadata_change);
                           d1 = d\<lparr>od_graph_change_key := key, od_graph_etag := etag, od_graph_last_synced_at := Some (me_now env)\<rparr>
                       in if changed
                          then (case import_edit env actor d1 payload db of
                                  Inl e' \<Rightarrow> (db, Inl (Conflict e')) | Inr (d2, db2) \<Rightarrow> (db2, Inr (d2, True)))
                          else (save_draft d1 db, Inr (d1, False))))
         | _ \<Rightarrow> (db, Inl (Conflict (NotFoundError ''Draft source context is incomplete.'')))))"

end
