(* ===== verification/Send_Invariant.thy ===== *)
theory Send_Invariant
  imports Sent_Copies
begin

text \<open>
  Runs of the outbound services: any sequence of calls by any actors, with whatever Graph answers, including
  worker processes that end between the two transactions of a send. The log records every send request that
  was posted. The invariant ties the log and the status of a draft to the approvals: a request that may have
  been delivered leaves the draft outside the statuses from which it is sent, as long as its approval lives.
\<close>

subsection \<open>Runs\<close>

type_synonym send_log = "(uuid \<times> uuid \<times> post_result) list"

inductive mail_step :: "mail_settings \<Rightarrow> mail_db \<times> send_log \<Rightarrow> mail_db \<times> send_log \<Rightarrow> bool" for st where
  edit: "edit_draft env actor i x e db = Inr (d, db') \<Longrightarrow> mail_step st (db, lg) (db', lg)"
| attach: "select_attachment st env actor i di vi x db = Inr (a, db') \<Longrightarrow> mail_step st (db, lg) (db', lg)"
| detach: "remove_attachment env actor i ai x db = Inr db' \<Longrightarrow> mail_step st (db, lg) (db', lg)"
| submit: "submit_draft st env actor i x db = (db', r) \<Longrightarrow> mail_step st (db, lg) (db', lg)"
| changes: "request_changes env actor i reason x db = Inr (d, db') \<Longrightarrow> mail_step st (db, lg) (db', lg)"
| reject: "reject_draft env actor i reason x db = Inr (d, db') \<Longrightarrow> mail_step st (db, lg) (db', lg)"
| approve: "approve_send st env actor i rv notes db = Inr (a, db') \<Longrightarrow> mail_step st (db, lg) (db', lg)"
| invalidate: "invalidate_send env i reason db = Inr (d, db') \<Longrightarrow> mail_step st (db, lg) (db', lg)"
| decline: "decline_send env actor i decision reason x db = Inr (d, db') \<Longrightarrow> mail_step st (db, lg) (db', lg)"
| cancel: "cancel_unsent env actor i reason x db = Inr (d, db') \<Longrightarrow> mail_step st (db, lg) (db', lg)"
| queue: "queue_send st env actor i key confirmed db = Inr (j, db') \<Longrightarrow> mail_step st (db, lg) (db', lg)"
| requeue: "queue_reconciliation st env i db = Inr (j, db') \<Longrightarrow> mail_step st (db, lg) (db', lg)"
| send: "execute_send st env gw i job db = ((db', r), ps) \<Longrightarrow> mail_step st (db, lg) (db', lg @ ps)"
| reconcile: "reconcile_sent st env gw i db = (db', r) \<Longrightarrow> mail_step st (db, lg) (db', lg)"
| give_up: "mail_step st (db, lg) (give_up_reconciliation i db, lg)"
| sync: "sync_draft st env actor gw i b db = (db', r') \<Longrightarrow> mail_step st (db, lg) (db', lg)"

definition mail_init :: "mail_db \<times> send_log \<Rightarrow> bool" where
  "mail_init s \<longleftrightarrow> md_approvals (fst s) = [] \<and> distinct (map od_id (md_drafts (fst s))) \<and> snd s = []"

text \<open>The answers that exclude a delivery: no token, no connection, unauthorized, throttled.\<close>

definition refused :: "post_result \<Rightarrow> bool" where
  "refused r = (case r of NoToken _ \<Rightarrow> True | NoConnection _ \<Rightarrow> True | Rejected e \<Rightarrow> ge_status e = 401 \<or> ge_status e = 429 | _ \<Rightarrow> False)"

definition no_replay :: "send_log \<Rightarrow> bool" where
  "no_replay lg \<longleftrightarrow> (\<forall>j k. j < k \<and> k < length lg \<and> fst (snd (lg ! j)) = fst (snd (lg ! k)) \<longrightarrow> refused (snd (snd (lg ! j))))"

definition sendable :: "outbound_draft \<Rightarrow> bool" where
  "sendable d \<longleftrightarrow> od_status d \<in> set SENDABLE_STATUSES"

text \<open>The approver is neither author nor last editor, and in two-person mode somebody else approved the same snapshot first.\<close>

definition authorised :: "mail_settings \<Rightarrow> send_approval list \<Rightarrow> outbound_draft \<Rightarrow> send_approval \<Rightarrow> bool" where
  "authorised st as d a \<longleftrightarrow>
     (separate_approver st \<longrightarrow> Some (ap_approver_actor a) \<noteq> od_created_by_actor d \<and> Some (ap_approver_actor a) \<noteq> od_last_edited_by_actor d) \<and>
     (require_two_person_approval st \<longrightarrow>
        (\<exists>b \<in> set as. ap_draft_id b = od_id d \<and> ap_decision b = ''PENDING_SECOND_APPROVAL'' \<and> ap_invalidated_at b = None \<and>
           ap_approver_actor b \<noteq> ap_approver_actor a \<and> ap_snapshot_sha256 b = ap_snapshot_sha256 a))"

definition log_ok :: "mail_db \<Rightarrow> uuid \<times> uuid \<times> post_result \<Rightarrow> bool" where
  "log_ok db e \<longleftrightarrow>
     (fst (snd e), fst e) \<in> (\<lambda>a. (ap_id a, ap_draft_id a)) ` set (md_approvals db) \<and>
     (refused (snd (snd e)) \<or>
      (\<forall>d \<in> set (md_drafts db). \<forall>a \<in> set (md_approvals db). od_id d = fst e \<and> ap_id a = fst (snd e) \<and> live a \<longrightarrow> \<not> sendable d))"

definition mail_ok :: "mail_settings \<Rightarrow> mail_db \<times> send_log \<Rightarrow> bool" where
  "mail_ok st s \<longleftrightarrow>
     distinct (map od_id (md_drafts (fst s))) \<and> distinct (map ap_id (md_approvals (fst s))) \<and>
     approvals_index (md_approvals (fst s)) \<and> no_replay (snd s) \<and> (\<forall>e \<in> set (snd s). log_ok (fst s) e) \<and>
     (\<forall>d \<in> set (md_drafts (fst s)). \<forall>a \<in> set (md_approvals (fst s)).
        sendable d \<and> live a \<and> ap_draft_id a = od_id d \<longrightarrow> authorised st (md_approvals (fst s)) d a)"

subsection \<open>Calls that leave a draft unsendable\<close>

definition shrinks :: "uuid \<Rightarrow> send_approval list \<Rightarrow> send_approval list \<Rightarrow> bool" where
  "shrinks i as as' \<longleftrightarrow>
     distinct (map ap_id as') \<and> approvals_index as' \<and> (\<forall>a' \<in> set as'. live a' \<longrightarrow> a' \<in> set as) \<and>
     (\<lambda>a. (ap_id a, ap_draft_id a)) ` set as \<subseteq> (\<lambda>a. (ap_id a, ap_draft_id a)) ` set as' \<and>
     (\<forall>a \<in> set as. ap_draft_id a \<noteq> i \<longrightarrow> a \<in> set as')"

definition unsends :: "uuid \<Rightarrow> mail_db \<Rightarrow> mail_db \<Rightarrow> bool" where
  "unsends i db db' \<longleftrightarrow>
     map od_id (md_drafts db') = map od_id (md_drafts db) \<and>
     (\<forall>d' \<in> set (md_drafts db'). (od_id d' = i \<and> \<not> sendable d') \<or> (od_id d' \<noteq> i \<and> d' \<in> set (md_drafts db))) \<and>
     shrinks i (md_approvals db) (md_approvals db')"

lemma authorised_mono:
  "authorised st as d a \<Longrightarrow> (\<And>b. b \<in> set as \<Longrightarrow> ap_draft_id b = od_id d \<Longrightarrow> b \<in> set as') \<Longrightarrow> authorised st as' d a"
  unfolding authorised_def by blast

lemma unsends_log_ok:
  assumes "unsends i db db'" "log_ok db e"
  shows "log_ok db' e"
proof -
  have "\<not> sendable d" if "d \<in> set (md_drafts db')" "a \<in> set (md_approvals db')" "od_id d = fst e \<and> ap_id a = fst (snd e) \<and> live a"
    "\<not> refused (snd (snd e))" for d a
    using that assms unfolding unsends_def shrinks_def log_ok_def by blast
  moreover have "(fst (snd e), fst e) \<in> (\<lambda>a. (ap_id a, ap_draft_id a)) ` set (md_approvals db')"
    using assms unfolding unsends_def shrinks_def log_ok_def by blast
  ultimately show ?thesis unfolding log_ok_def by blast
qed

lemma unsends_keeps:
  assumes "unsends i db db'" "mail_ok st (db, lg)"
  shows "mail_ok st (db', lg)"
proof -
  have "authorised st (md_approvals db') d a"
    if "d \<in> set (md_drafts db')" "a \<in> set (md_approvals db')" "sendable d" "live a" "ap_draft_id a = od_id d" for d a
  proof -
    have d: "d \<in> set (md_drafts db)" "od_id d \<noteq> i" and a: "a \<in> set (md_approvals db)"
      using that assms(1) unfolding unsends_def shrinks_def by blast+
    then have "authorised st (md_approvals db) d a" using assms(2) that unfolding mail_ok_def by simp
    then show ?thesis using authorised_mono d(2) assms(1) unfolding unsends_def shrinks_def by metis
  qed
  then show ?thesis using assms unsends_log_ok [OF assms(1)] unfolding mail_ok_def unsends_def shrinks_def by simp
qed

subsection \<open>Calls that keep the approvals\<close>

definition steady :: "mail_db \<Rightarrow> mail_db \<Rightarrow> bool" where
  "steady db db' \<longleftrightarrow>
     map od_id (md_drafts db') = map od_id (md_drafts db) \<and> md_approvals db' = md_approvals db \<and>
     (\<forall>d' \<in> set (md_drafts db'). \<exists>d \<in> set (md_drafts db). od_id d' = od_id d \<and> od_created_by_actor d' = od_created_by_actor d \<and>
        od_last_edited_by_actor d' = od_last_edited_by_actor d \<and> (sendable d' \<longrightarrow> sendable d))"

lemma log_ok_blocked:
  "log_ok db e \<Longrightarrow> \<not> refused (snd (snd e)) \<Longrightarrow> d \<in> set (md_drafts db) \<Longrightarrow> a \<in> set (md_approvals db) \<Longrightarrow> od_id d = fst e \<Longrightarrow>
     ap_id a = fst (snd e) \<Longrightarrow> live a \<Longrightarrow> \<not> sendable d"
  unfolding log_ok_def by blast

lemma steady_log_ok:
  assumes "steady db db'" "log_ok db e"
  shows "log_ok db' e"
proof -
  have as: "md_approvals db' = md_approvals db" using assms(1) by (simp add: steady_def)
  have "\<not> sendable d'" if h: "d' \<in> set (md_drafts db')" "a \<in> set (md_approvals db)" "od_id d' = fst e \<and> ap_id a = fst (snd e) \<and> live a"
    "\<not> refused (snd (snd e))" for d' a
  proof -
    obtain d where d: "d \<in> set (md_drafts db)" "od_id d' = od_id d" "sendable d' \<longrightarrow> sendable d"
      using h(1) assms(1) unfolding steady_def by blast
    show ?thesis using log_ok_blocked [OF assms(2) h(4) d(1) h(2)] d(2,3) h(3) by simp
  qed
  moreover have "(fst (snd e), fst e) \<in> (\<lambda>a. (ap_id a, ap_draft_id a)) ` set (md_approvals db)"
    using assms(2) unfolding log_ok_def by (rule conjunct1)
  ultimately show ?thesis unfolding log_ok_def as by blast
qed

lemma steady_authorised:
  assumes "od_id d' = od_id d" "od_created_by_actor d' = od_created_by_actor d" "od_last_edited_by_actor d' = od_last_edited_by_actor d"
  shows "authorised st as d' a = authorised st as d a"
  unfolding authorised_def assms ..

lemma steady_keeps:
  assumes "steady db db'" "mail_ok st (db, lg)"
  shows "mail_ok st (db', lg)"
proof -
  have "authorised st (md_approvals db') d' a"
    if h: "d' \<in> set (md_drafts db')" "a \<in> set (md_approvals db')" "sendable d'" "live a" "ap_draft_id a = od_id d'" for d' a
  proof -
    obtain d where d: "d \<in> set (md_drafts db)" "od_id d' = od_id d" "od_created_by_actor d' = od_created_by_actor d"
      "od_last_edited_by_actor d' = od_last_edited_by_actor d" "sendable d" using h(1,3) assms(1) unfolding steady_def by blast
    have "authorised st (md_approvals db) d a" using d h(2,4,5) assms by (simp add: mail_ok_def steady_def)
    then show ?thesis using assms(1) steady_authorised [OF d(2-4)] unfolding steady_def by metis
  qed
  then show ?thesis using assms steady_log_ok [OF assms(1)] unfolding mail_ok_def steady_def by simp
qed

lemma steady_refl: "steady db db' \<longleftrightarrow> True" if "md_drafts db' = md_drafts db" "md_approvals db' = md_approvals db"
  using that unfolding steady_def by auto

subsection \<open>What the calls change\<close>

lemma mail_audit_tables [simp]:
  "md_drafts (comm_audit env actor t i action b a m db) = md_drafts db"
  "md_approvals (comm_audit env actor t i action b a m db) = md_approvals db"
  "md_drafts (attempt_audit env t' action h db) = md_drafts db"
  "md_approvals (attempt_audit env t' action h db) = md_approvals db"
  "md_drafts (task_event_row env actor' d ev m db) = md_drafts db"
  "md_approvals (task_event_row env actor' d ev m db) = md_approvals db"
  by (simp_all add: comm_audit_def attempt_audit_def task_event_row_def)

lemma mail_save_tables [simp]:
  "md_drafts (save_draft d db) = put_row od_id d (md_drafts db)" "md_approvals (save_draft d db) = md_approvals db"
  "md_drafts (save_plan p db) = md_drafts db" "md_approvals (save_plan p db) = md_approvals db"
  "md_drafts (save_attempt t db) = md_drafts db" "md_approvals (save_attempt t db) = md_approvals db"
  by (simp_all add: save_draft_def save_plan_def save_attempt_def)

lemma enqueue_tables [simp]:
  "md_drafts (snd (enqueue_job env d r db)) = md_drafts db" "md_approvals (snd (enqueue_job env d r db)) = md_approvals db"
  "md_drafts (reconcile_later st env d key n db) = md_drafts db" "md_approvals (reconcile_later st env d key n db) = md_approvals db"
  by (simp_all add: enqueue_job_def reconcile_later_def split: option.split)

lemma invalidate_draft [simp]:
  "fst (invalidate_approval env reason d db) = d\<lparr>od_approval_snapshot_sha256 := None, od_approved_at := None\<rparr>"
  "md_drafts (snd (invalidate_approval env reason d db)) = md_drafts db"
  by (simp_all add: invalidate_approval_def)

lemma create_version_Inr:
  assumes "create_version env actor reason d db = Inr (d', db')"
  shows "od_id d' = od_id d" "md_drafts db' = md_drafts db" "md_approvals db' = md_approvals db"
  using assms by (auto simp: create_version_def Let_def err_simps)

lemma shrinks_refl: "distinct (map ap_id as) \<Longrightarrow> approvals_index as \<Longrightarrow> shrinks i as as"
  by (simp add: shrinks_def)

lemma shrinks_insert:
  assumes "shrinks i as as'" "\<not> live a" "ap_id a \<notin> ap_id ` set as'"
  shows "shrinks i as (as' @ [a])"
  using assms unfolding shrinks_def by (auto simp: approvals_index_def)

lemma invalidated_simps [simp]:
  "ap_id (invalidated env reason a) = ap_id a" "ap_draft_id (invalidated env reason a) = ap_draft_id a" "\<not> live (invalidated env reason a)"
  by (simp_all add: invalidated_def live_def)

lemma shrinks_map:
  assumes "distinct (map ap_id as)" "approvals_index as"
  shows "shrinks i as (map (\<lambda>a. if ap_draft_id a = i \<and> P a then invalidated env reason a else a) as)" (is "shrinks i as (map ?f as)")
proof -
  have k: "ap_id (?f a) = ap_id a" "ap_draft_id (?f a) = ap_draft_id a" for a by simp_all
  have ids: "distinct (map ap_id (map ?f as))" using assms(1) by (simp add: k o_def cong: map_cong)
  have "set (map ap_draft_id (filter live (map ?f bs))) \<subseteq> set (map ap_draft_id (filter live bs))" for bs by (auto simp: k)
  then have "distinct (map ap_draft_id (filter live (map ?f bs)))" if "distinct (map ap_draft_id (filter live bs))" for bs
    using that by (induction bs) (auto split: if_splits)
  then have index: "approvals_index (map ?f as)" using assms(2) by (simp add: approvals_index_def)
  have pairs: "(\<lambda>a. (ap_id a, ap_draft_id a)) ` set (map ?f as) = (\<lambda>a. (ap_id a, ap_draft_id a)) ` set as"
    by (simp add: image_image k del: if_image_distrib)
  have "a \<in> set as" if "a \<in> set (map ?f as)" "live a" for a using that by (auto split: if_splits)
  moreover have "a \<in> set (map ?f as)" if "a \<in> set as" "ap_draft_id a \<noteq> i" for a
    using that by (simp add: image_iff del: if_image_distrib) (rule bexI [of _ a], simp_all)
  ultimately show ?thesis using ids index pairs unfolding shrinks_def by blast
qed

lemma shrinks_invalidate:
  assumes "distinct (map ap_id (md_approvals db))" "approvals_index (md_approvals db)" "od_id d = i"
  shows "shrinks i (md_approvals db) (md_approvals (snd (invalidate_approval env reason d db)))"
  using shrinks_map [OF assms(1,2)] by (simp add: invalidate_approval_def assms(3))

lemma unsends_put:
  assumes "md_drafts db' = put_row od_id d' (md_drafts db)" "od_id d' = i" "\<not> sendable d'"
    "shrinks i (md_approvals db) (md_approvals db')"
  shows "unsends i db db'"
proof -
  have "(od_id e = i \<and> \<not> sendable e) \<or> (od_id e \<noteq> i \<and> e \<in> set (md_drafts db))" if "e \<in> set (put_row od_id d' (md_drafts db))" for e
    using set_put_row [OF that] assms(2,3) by auto
  then show ?thesis using assms(1,4) unfolding unsends_def by simp
qed

lemma unsends_same:
  assumes "md_drafts db' = md_drafts db" "distinct (map od_id (md_drafts db))" "get_row od_id (md_drafts db) i = Some d" "\<not> sendable d"
    "shrinks i (md_approvals db) (md_approvals db')"
  shows "unsends i db db'"
proof -
  have "\<not> sendable e" if "e \<in> set (md_drafts db)" "od_id e = i" for e
    using get_row_member [OF assms(2) that(1)] that(2) assms(3,4) by simp
  then show ?thesis using assms(1,5) unfolding unsends_def by auto
qed

lemma steady_put:
  assumes "md_drafts db' = put_row od_id d' (md_drafts db)" "md_approvals db' = md_approvals db" "d \<in> set (md_drafts db)"
    "od_id d' = od_id d" "od_created_by_actor d' = od_created_by_actor d" "od_last_edited_by_actor d' = od_last_edited_by_actor d"
    "sendable d' \<longrightarrow> sendable d"
  shows "steady db db'"
proof -
  have "\<exists>c \<in> set (md_drafts db). od_id e = od_id c \<and> od_created_by_actor e = od_created_by_actor c \<and>
      od_last_edited_by_actor e = od_last_edited_by_actor c \<and> (sendable e \<longrightarrow> sendable c)"
    if "e \<in> set (put_row od_id d' (md_drafts db))" for e
    using set_put_row [OF that] assms(3-7) by auto
  then show ?thesis using assms(1,2) unfolding steady_def by simp
qed

lemma mail_ok_basics:
  "mail_ok st (db, lg) \<Longrightarrow> distinct (map od_id (md_drafts db))"
  "mail_ok st (db, lg) \<Longrightarrow> distinct (map ap_id (md_approvals db))"
  "mail_ok st (db, lg) \<Longrightarrow> approvals_index (md_approvals db)"
  by (simp_all add: mail_ok_def)

lemma get_draft_Inr [err_simps]: "get_draft db i = Inr d \<longleftrightarrow> get_row od_id (md_drafts db) i = Some d"
  by (auto simp: get_draft_def split: option.splits)

lemma row_id: "get_row od_id ds i = Some d \<Longrightarrow> od_id d = i \<and> d \<in> set ds"
  using get_row_SomeD by fastforce

lemma check_Inr_iff: "check b e = Inr u \<longleftrightarrow> b"
  by (simp add: check_def)

lemma ex_unit: "(\<exists>u :: unit. P u) \<longleftrightarrow> P ()"
  by (metis old.unit.exhaust)

lemmas unsent = sendable_def SENDABLE_STATUSES_def

lemma revised_unsends:
  assumes "create_version env who r (fst (invalidate_approval env reason d dbx)) (snd (invalidate_approval env reason d dbx)) = Inr (d3, db2)"
    "md_drafts dbx = md_drafts db" "md_approvals dbx = md_approvals db" "od_id d = i"
    "md_drafts db' = put_row od_id (d3\<lparr>od_status := s\<rparr>) (md_drafts db2)" "md_approvals db' = md_approvals db2"
    "s \<notin> set SENDABLE_STATUSES" "mail_ok st (db, lg)"
  shows "unsends i db db'"
proof (rule unsends_put)
  note c = create_version_Inr [OF assms(1)]
  show "md_drafts db' = put_row od_id (d3\<lparr>od_status := s\<rparr>) (md_drafts db)" using assms(2,5) c(2) by simp
  show "od_id (d3\<lparr>od_status := s\<rparr>) = i" using c(1) assms(4) by simp
  show "\<not> sendable (d3\<lparr>od_status := s\<rparr>)" using assms(7) by (simp add: sendable_def)
  show "shrinks i (md_approvals db) (md_approvals db')"
    using shrinks_invalidate [of dbx d i env reason] mail_ok_basics(2,3) [OF assms(8)] assms(3,4,6) c(3) by simp
qed

lemma edit_unsends:
  assumes "edit_draft env actor i x e db = Inr (d, db')" "mail_ok st (db, lg)"
  shows "unsends i db db'"
proof -
  let ?d1 = "\<lambda>d. d\<lparr>od_subject := de_subject e, od_body_text := de_body_text e, od_body_html := de_body_html e,
                od_to := de_to e, od_cc := de_cc e, od_bcc := de_bcc e\<rparr>"
  let ?inv = "\<lambda>d. invalidate_approval env ''draft content or recipients changed'' (?d1 d) db"
  obtain d0 d3 db2 where r: "get_row od_id (md_drafts db) i = Some d0"
    "create_version env (actor_id (ma_actor actor)) (Some (de_reason e)) (fst (?inv d0)) (snd (?inv d0)) = Inr (d3, db2)"
    "md_drafts db' = put_row od_id (d3\<lparr>od_status := ''REVIEW_IN_PROGRESS''\<rparr>) (md_drafts db2)" "md_approvals db' = md_approvals db2"
    using assms(1) unfolding edit_draft_def Let_def case_prod_beta by (auto simp: err_simps case_prod_beta)
  show ?thesis using revised_unsends [OF r(2) refl refl _ r(3,4) _ assms(2)] row_id [OF r(1)] by (simp add: SENDABLE_STATUSES_def)
qed

lemma attach_unsends:
  assumes "select_attachment st' env actor i di vi x db = Inr (a, db')" "mail_ok st (db, lg)"
  shows "unsends i db db'"
proof -
  let ?db1 = "db\<lparr>md_attachments := md_attachments db @ [a]\<rparr>"
  let ?inv = "\<lambda>d. invalidate_approval env ''attachment set changed'' d ?db1"
  obtain d0 d2 db2 where r: "get_row od_id (md_drafts db) i = Some d0"
    "create_version env (actor_id (ma_actor actor)) (Some ''attachment selected'') (fst (?inv d0)) (snd (?inv d0)) = Inr (d2, db2)"
    "md_drafts db' = put_row od_id (d2\<lparr>od_status := ''REVIEW_IN_PROGRESS''\<rparr>) (md_drafts db2)" "md_approvals db' = md_approvals db2"
    using assms(1) unfolding select_attachment_def Let_def case_prod_beta
    by (auto simp: err_simps case_prod_beta split: option.splits)
  show ?thesis using revised_unsends [OF r(2) _ _ _ r(3,4) _ assms(2)] row_id [OF r(1)] by (simp add: SENDABLE_STATUSES_def)
qed

lemma detach_unsends:
  assumes "remove_attachment env actor i ai x db = Inr db'" "mail_ok st (db, lg)"
  shows "unsends i db db'"
proof -
  obtain d0 d2 db2 dbx where r: "get_row od_id (md_drafts db) i = Some d0" "md_drafts dbx = md_drafts db" "md_approvals dbx = md_approvals db"
    "create_version env (actor_id (ma_actor actor)) (Some ''attachment removed'')
       (fst (invalidate_approval env ''attachment removed'' d0 dbx)) (snd (invalidate_approval env ''attachment removed'' d0 dbx)) = Inr (d2, db2)"
    "md_drafts db' = put_row od_id (d2\<lparr>od_status := ''REVIEW_IN_PROGRESS''\<rparr>) (md_drafts db2)" "md_approvals db' = md_approvals db2"
    using assms(1) unfolding remove_attachment_def Let_def case_prod_beta
    by (auto simp: err_simps case_prod_beta split: option.splits) (rule that, assumption, auto)
  show ?thesis using revised_unsends [OF r(4,2,3) _ r(5,6) _ assms(2)] row_id [OF r(1)] by (simp add: SENDABLE_STATUSES_def)
qed

lemma import_unsends:
  assumes "import_edit env actor d payload db = Inr (d', db')" "mail_ok st (db, lg)" "od_id d = i"
  shows "unsends i db db'"
proof -
  obtain d1 d3 db2 where r: "od_id d1 = od_id d"
    "create_version env (actor_id (ma_actor actor)) (Some ''EXTERNAL_DRAFT_EDIT'')
       (fst (invalidate_approval env ''external Outlook draft edit'' d1 db)) (snd (invalidate_approval env ''external Outlook draft edit'' d1 db)) = Inr (d3, db2)"
    "md_drafts db' = put_row od_id (d3\<lparr>od_status := ''CHANGES_REQUESTED''\<rparr>) (md_drafts db2)" "md_approvals db' = md_approvals db2"
    using assms(1) unfolding import_edit_def Let_def case_prod_beta
    by (auto simp: err_simps case_prod_beta) (rule that, auto)
  show ?thesis using revised_unsends [OF r(2) refl refl _ r(3,4) _ assms(2)] r(1) assms(3) by (simp add: SENDABLE_STATUSES_def)
qed

text \<open>Withdrawal of the approvals without a new revision.\<close>

lemma withdrawn_unsends:
  assumes "get_row od_id (md_drafts db) i = Some d" "md_drafts db' = put_row od_id d' (md_drafts db)" "od_id d' = i" "\<not> sendable d'"
    "md_approvals db' = md_approvals (snd (invalidate_approval env reason d dbx))" "md_approvals dbx = md_approvals db" "mail_ok st (db, lg)"
  shows "unsends i db db'"
  using unsends_put [OF assms(2-4)] shrinks_invalidate [of dbx d i env reason] mail_ok_basics(2,3) [OF assms(7)] row_id [OF assms(1)] assms(5,6) by simp

lemma invalidate_again: "od_id d = od_id d' \<Longrightarrow> md_approvals (snd (invalidate_approval env reason d db)) = md_approvals (snd (invalidate_approval env reason d' db))"
  by (simp add: invalidate_approval_def)

lemma changes_unsends:
  assumes "request_changes env actor i reason x db = Inr (d', db')" "mail_ok st (db, lg)"
  shows "unsends i db db'" "od_id d' = i" "md_drafts db' = put_row od_id d' (md_drafts db)"
proof -
  obtain d where r: "get_row od_id (md_drafts db) i = Some d" "md_drafts db' = put_row od_id d' (md_drafts db)"
    "d' = d\<lparr>od_approval_snapshot_sha256 := None, od_approved_at := None, od_status := ''CHANGES_REQUESTED''\<rparr>"
    "md_approvals db' = md_approvals (snd (invalidate_approval env reason d db))"
    using assms(1) unfolding request_changes_def Let_def case_prod_beta by (auto simp: err_simps)
  show "unsends i db db'" using withdrawn_unsends [OF r(1,2) _ _ r(4) refl assms(2)] row_id [OF r(1)] r(3) by (simp add: unsent)
  show "od_id d' = i" using r(3) row_id [OF r(1)] by simp
  show "md_drafts db' = put_row od_id d' (md_drafts db)" by (rule r(2))
qed

lemma put_put: "key r = key r' \<Longrightarrow> put_row key r' (put_row key r rows) = put_row key r' rows"
  by (auto simp: put_row_def)

lemma reject_unsends:
  assumes "reject_draft env actor i reason x db = Inr (d', db')" "mail_ok st (db, lg)"
  shows "unsends i db db'"
proof -
  obtain d db1 where r: "request_changes env actor i reason x db = Inr (d, db1)" "d' = d\<lparr>od_status := ''CANCELLED''\<rparr>" "db' = save_draft d' db1"
    using assms(1) by (auto simp: reject_draft_def Let_def err_simps)
  note c = changes_unsends [OF r(1) assms(2)]
  have "md_drafts db' = put_row od_id d' (md_drafts db)" using r(2,3) c(3) by (simp add: put_put)
  then show ?thesis using unsends_put [of db' d' db i] c r(2,3) by (simp add: unsent unsends_def)
qed

lemma invalidate_unsends:
  assumes "invalidate_send env i reason db = Inr (d', db')" "mail_ok st (db, lg)"
  shows "unsends i db db'"
proof -
  obtain d where r: "get_row od_id (md_drafts db) i = Some d" "md_drafts db' = put_row od_id d' (md_drafts db)"
    "d' = d\<lparr>od_approval_snapshot_sha256 := None, od_approved_at := None, od_status := ''CHANGES_REQUESTED''\<rparr>"
    "md_approvals db' = md_approvals (snd (invalidate_approval env reason d db))"
    using assms(1) unfolding invalidate_send_def Let_def case_prod_beta by (auto simp: err_simps)
  show ?thesis using withdrawn_unsends [OF r(1,2) _ _ r(4) refl assms(2)] row_id [OF r(1)] r(3) by (simp add: unsent)
qed

lemma cancel_unsends:
  assumes "cancel_unsent env actor i reason x db = Inr (d', db')" "mail_ok st (db, lg)"
  shows "unsends i db db'"
proof -
  obtain d dbx where r: "get_row od_id (md_drafts db) i = Some d" "md_drafts db' = put_row od_id d' (md_drafts db)"
    "d' = d\<lparr>od_approval_snapshot_sha256 := None, od_approved_at := None, od_status := ''CANCELLED''\<rparr>"
    "md_approvals db' = md_approvals (snd (invalidate_approval env reason d dbx))" "md_approvals dbx = md_approvals db"
    using assms(1) unfolding cancel_unsent_def Let_def case_prod_beta by (auto simp: err_simps)
  show ?thesis using withdrawn_unsends [OF r(1,2) _ _ r(4,5) assms(2)] row_id [OF r(1)] r(3) by (simp add: unsent)
qed

lemma submit_keeps:
  assumes "submit_draft st' env actor i x db = (db', r)" "mail_ok st (db, lg)"
  shows "mail_ok st (db', lg)"
proof (cases "submit_context db i x")
  case (Inl e)
  then show ?thesis using assms by (simp add: submit_draft_def)
next
  case (Inr dpt)
  obtain d p t where c: "submit_context db i x = Inr (d, p, t)" using Inr by (cases dpt) auto
  have d: "get_row od_id (md_drafts db) i = Some d"
    using c by (auto simp: submit_context_def err_simps split: option.splits)
  let ?d1 = "d\<lparr>od_status := ''PENDING_SEND_APPROVAL'', od_submitted_at := Some (me_now env), od_last_edited_by_actor := Some (actor_id (ma_actor actor))\<rparr>"
  have "md_approvals db' = md_approvals db \<and> (md_drafts db' = md_drafts db \<or> md_drafts db' = put_row od_id ?d1 (md_drafts db))"
    using assms(1) c by (auto simp: submit_draft_def Let_def case_prod_beta split: if_splits)
  then show ?thesis
  proof (elim conjE disjE)
    assume "md_approvals db' = md_approvals db" "md_drafts db' = md_drafts db"
    then show ?thesis using steady_keeps [OF _ assms(2)] steady_refl by blast
  next
    assume h: "md_approvals db' = md_approvals db" "md_drafts db' = put_row od_id ?d1 (md_drafts db)"
    have "unsends i db db'" using unsends_put [OF h(2), of i] row_id [OF d] shrinks_refl [OF mail_ok_basics(2,3) [OF assms(2)]] h(1) by (simp add: unsent)
    then show ?thesis by (rule unsends_keeps [OF _ assms(2)])
  qed
qed

lemma insert_approval_Inr:
  assumes "insert_approval a db = Inr db'"
  shows "md_approvals db' = md_approvals db @ [a]" "ap_id a \<notin> ap_id ` set (md_approvals db)" "approvals_index (md_approvals db @ [a])"
    "md_drafts db' = md_drafts db"
  using assms by (auto simp: insert_approval_def err_simps)

lemma row_live [simp]:
  "live (approval_row env d vi actor snap notes decision) \<longleftrightarrow> decision = ''APPROVED''"
  "live (approval_row env d vi actor snap notes decision\<lparr>ap_rejected_at := r\<rparr>) \<longleftrightarrow> decision = ''APPROVED''"
  "live (approval_row env d vi actor snap notes decision\<lparr>ap_approved_at := r\<rparr>) \<longleftrightarrow> decision = ''APPROVED''"
  by (simp_all add: live_def approval_row_def)

lemma decline_unsends:
  assumes "decline_send env actor i decision reason x db = Inr (d', db')" "mail_ok st (db, lg)"
  shows "unsends i db db'"
proof -
  obtain d vi snap db2 where r: "get_row od_id (md_drafts db) i = Some d" "decision = ''REJECTED'' \<or> decision = ''CHANGES_REQUESTED''"
    "d' = d\<lparr>od_approval_snapshot_sha256 := None, od_approved_at := None,
            od_status := (if decision = ''REJECTED'' then ''CANCELLED'' else ''CHANGES_REQUESTED'')\<rparr>"
    "md_drafts db' = md_drafts db2" "insert_approval (approval_row env (fst (invalidate_approval env reason d db)) vi actor snap (Some reason) decision
        \<lparr>ap_rejected_at := Some (me_now env)\<rparr>) (save_draft d' (snd (invalidate_approval env reason d db))) = Inr db2"
    "md_approvals db' = md_approvals db2"
    using assms(1) unfolding decline_send_def Let_def case_prod_beta
    by (clarsimp simp: err_simps split: option.splits list.splits)
  note n = insert_approval_Inr [OF r(5)]
  have i: "od_id d = i" using row_id [OF r(1)] by simp
  have sh: "shrinks i (md_approvals db) (md_approvals (snd (invalidate_approval env reason d db)))"
    by (rule shrinks_invalidate [OF mail_ok_basics(2,3) [OF assms(2)] i])
  show ?thesis
  proof (rule unsends_put)
    show "md_drafts db' = put_row od_id d' (md_drafts db)" using r(4) n(4) by simp
    have "\<not> live (approval_row env (fst (invalidate_approval env reason d db)) vi actor snap (Some reason) decision\<lparr>ap_rejected_at := Some (me_now env)\<rparr>)"
      using r(2) by (auto simp del: invalidate_draft)
    then show "shrinks i (md_approvals db) (md_approvals db')" using shrinks_insert [OF sh] n(1,2) r(6) by (simp del: invalidate_draft)
    show "od_id d' = i" "\<not> sendable d'" using r(3) i by (simp_all add: unsent)
  qed
qed

lemma queue_keeps:
  assumes "queue_send st' env actor i key confirmed db = Inr (j, db')" "mail_ok st (db, lg)"
  shows "mail_ok st (db', lg)"
proof -
  obtain d where r: "get_row od_id (md_drafts db) i = Some d" "sendable d" "md_approvals db' = md_approvals db"
    "md_drafts db' = md_drafts db \<or> md_drafts db' = put_row od_id (d\<lparr>od_status := ''SEND_QUEUED'', od_send_queued_at := Some (me_now env)\<rparr>) (md_drafts db)"
    using assms(1) unfolding queue_send_def Let_def case_prod_beta
    by (auto simp: err_simps unsent split: option.splits if_splits)
  have "steady db db'" using r(4)
  proof
    assume "md_drafts db' = md_drafts db" then show ?thesis using r(3) steady_refl by blast
  next
    assume "md_drafts db' = put_row od_id (d\<lparr>od_status := ''SEND_QUEUED'', od_send_queued_at := Some (me_now env)\<rparr>) (md_drafts db)"
    then show ?thesis using steady_put [OF _ r(3), of _ d] row_id [OF r(1)] r(2) by simp
  qed
  then show ?thesis by (rule steady_keeps [OF _ assms(2)])
qed

lemma requeue_keeps:
  assumes "queue_reconciliation st' env i db = Inr (j, db')" "mail_ok st (db, lg)"
  shows "mail_ok st (db', lg)"
proof -
  have "\<exists>d r. db' = snd (enqueue_job env d r db)" using assms(1)
    by (auto simp: queue_reconciliation_def err_simps) (metis snd_conv)
  then show ?thesis using steady_keeps [OF _ assms(2)] steady_refl enqueue_tables by metis
qed

subsection \<open>Approval\<close>

lemma pending_first_Some:
  assumes "pending_first i as = Some b"
  shows "b \<in> set as" "ap_draft_id b = i" "ap_decision b = ''PENDING_SECOND_APPROVAL''" "ap_invalidated_at b = None"
  using assms unfolding pending_first_def by (auto simp: find_Some_iff)

lemma approval_context_Inr:
  assumes "approval_context st db i r actor = Inr (d, vi, p, m)"
  shows "get_row od_id (md_drafts db) i = Some d" "od_status d = ''PENDING_SEND_APPROVAL''" "has_role (ma_roles actor) ''Licensing.Sender''"
    "separate_approver st \<Longrightarrow> Some (actor_id (ma_actor actor)) \<noteq> od_created_by_actor d \<and> Some (actor_id (ma_actor actor)) \<noteq> od_last_edited_by_actor d"
    "get_row rsp_id (md_plans db) (rsp_id p) = Some p" "od_response_plan_id d = Some (rsp_id p)" "od_current_version_id d = Some vi"
  using assms unfolding approval_context_def
  by (auto simp: err_simps split: option.splits dest: get_row_SomeD)

lemma approve_send_cases:
  assumes "approve_send st env actor i r notes db = Inr (a, db')"
  obtains (first) d vi p m dbx where "approval_context st db i r actor = Inr (d, vi, p, m)"
      "first_approval env actor d vi (approval_snapshot_hash (me_lib env) (draft_snapshot d p)) notes dbx = Inr (a, db')"
      "dbx = db \<or> (\<exists>b. pending_first i (md_approvals db) = Some b \<and>
         dbx = db\<lparr>md_approvals := put_row ap_id (invalidated env ''draft changed before second approval'' b) (md_approvals db)\<rparr>)"
    | (final) d vi p m where "approval_context st db i r actor = Inr (d, vi, p, m)" "approval_policies st env db actor d p m = Inr ()"
      "approval_snapshot_hash (me_lib env) (draft_snapshot d p) = rv_snapshot_sha256 r"
      "final_approval env actor d vi (approval_snapshot_hash (me_lib env) (draft_snapshot d p)) notes db = Inr (a, db')"
      "require_two_person_approval st \<longrightarrow> (\<exists>b. pending_first i (md_approvals db) = Some b \<and>
         ap_snapshot_sha256 b = approval_snapshot_hash (me_lib env) (draft_snapshot d p) \<and> ap_version_id b = vi \<and>
         ap_approver_actor b \<noteq> actor_id (ma_actor actor))"
proof -
  let ?snap = "\<lambda>d p. approval_snapshot_hash (me_lib env) (draft_snapshot d p)"
  obtain d vi p m where c: "approval_context st db i r actor = Inr (d, vi, p, m)" and q: "approval_policies st env db actor d p m = Inr ()"
    and e: "?snap d p = rv_snapshot_sha256 r"
    and rest: "(if \<not> require_two_person_approval st then final_approval env actor d vi (?snap d p) notes db
     else (case pending_first i (md_approvals db) of
          None \<Rightarrow> first_approval env actor d vi (?snap d p) notes db
        | Some b \<Rightarrow>
          if ap_snapshot_sha256 b \<noteq> ?snap d p \<or> ap_version_id b \<noteq> vi
          then first_approval env actor d vi (?snap d p) notes
                 (db\<lparr>md_approvals := put_row ap_id (invalidated env ''draft changed before second approval'' b) (md_approvals db)\<rparr>)
          else bindE (check (ap_approver_actor b \<noteq> actor_id (ma_actor actor))
                     (StateConflictError ''A different Sender must provide the second approval.'')) (\<lambda>_.
               final_approval env actor d vi (?snap d p) notes db))) = Inr (a, db')"
    using assms unfolding approve_send_def Let_def by (simp only: bindE_Inr_iff split_paired_Ex prod.case check_Inr_iff ex_unit) (elim exE conjE, rule that; assumption)
  show thesis
  proof (cases "require_two_person_approval st")
    case False
    then show thesis using final [OF c q e] rest by simp
  next
    case two: True
    show thesis
    proof (cases "pending_first i (md_approvals db)")
      case None
      then show thesis using first [OF c] rest two by simp
    next
      case (Some b)
      show thesis
      proof (cases "ap_snapshot_sha256 b \<noteq> ?snap d p \<or> ap_version_id b \<noteq> vi")
        case True
        then show thesis using first [OF c] rest two Some by auto
      next
        case False
        then have "final_approval env actor d vi (?snap d p) notes db = Inr (a, db')" "ap_approver_actor b \<noteq> actor_id (ma_actor actor)"
          using rest two Some by (simp_all add: bindE_Inr_iff check_Inr_iff)
        then show thesis using final [OF c q e] Some False by auto
      qed
    qed
  qed
qed

lemma shrinks_pending:
  assumes "pending_first i as = Some b" "distinct (map ap_id as)" "approvals_index as"
  shows "shrinks i as (put_row ap_id (invalidated env reason b) as)"
proof -
  note b = pending_first_Some [OF assms(1)]
  have "a = b" if "a \<in> set as" "ap_id a = ap_id b" for a using that b(1) assms(2) by (simp add: distinct_map inj_on_def)
  then have "put_row ap_id (invalidated env reason b) as = map (\<lambda>a. if ap_draft_id a = i \<and> ap_id a = ap_id b then invalidated env reason a else a) as"
    using b(2) by (auto simp: put_row_def)
  then show ?thesis using shrinks_map [OF assms(2,3), of i "\<lambda>a. ap_id a = ap_id b"] by simp
qed

lemma first_unsends:
  assumes "approval_context st db i r actor = Inr (d, vi, p, m)" "first_approval env actor d vi snap notes dbx = Inr (a, db')"
    "dbx = db \<or> (\<exists>b. pending_first i (md_approvals db) = Some b \<and>
       dbx = db\<lparr>md_approvals := put_row ap_id (invalidated env reason b) (md_approvals db)\<rparr>)" "mail_ok st (db, lg)"
  shows "unsends i db db'"
proof -
  note ok = mail_ok_basics [OF assms(4)] and c = approval_context_Inr [OF assms(1)]
  have x: "md_drafts dbx = md_drafts db" "shrinks i (md_approvals db) (md_approvals dbx)"
    using assms(3) shrinks_refl [OF ok(2,3)] shrinks_pending ok(2,3) by auto
  obtain db1 where n: "insert_approval a dbx = Inr db1" "\<not> live a" "md_drafts db' = md_drafts db1" "md_approvals db' = md_approvals db1"
    using assms(2) by (auto simp: first_approval_def Let_def err_simps)
  note ins = insert_approval_Inr [OF n(1)]
  have s: "shrinks i (md_approvals db) (md_approvals db')" using shrinks_insert [OF x(2) n(2) ins(2)] ins(1) n(4) by simp
  show ?thesis using unsends_same [OF _ ok(1) c(1) _ s] c(2) n(3) ins(4) x(1) by (simp add: unsent)
qed

lemma index_unique:
  "approvals_index (as @ [a]) \<Longrightarrow> live a \<Longrightarrow> b \<in> set as \<Longrightarrow> live b \<Longrightarrow> ap_draft_id b \<noteq> ap_draft_id a"
  unfolding approvals_index_def by (fastforce simp: image_iff)

lemma put_row_cases: "e \<in> set (put_row od_id d' ds) \<Longrightarrow> e = d' \<or> (e \<in> set ds \<and> od_id e \<noteq> od_id d')"
  by (rule set_put_row)

lemma granted_log_ok:
  assumes "log_ok db e" "md_drafts db' = put_row od_id d' (md_drafts db)" "md_approvals db' = md_approvals db @ [a]"
    "distinct (map ap_id (md_approvals db))" "ap_id a \<notin> ap_id ` set (md_approvals db)" "approvals_index (md_approvals db @ [a])" "live a"
    "ap_draft_id a = od_id d'"
  shows "log_ok db' e"
proof -
  obtain c where c: "c \<in> set (md_approvals db)" "ap_id c = fst (snd e)" "ap_draft_id c = fst e"
    using assms(1) unfolding log_ok_def by auto
  have "\<not> sendable g" if h: "\<not> refused (snd (snd e))" "g \<in> set (md_drafts db')" "b \<in> set (md_approvals db')" "od_id g = fst e" "ap_id b = fst (snd e)" "live b" for g b
  proof -
    have "b \<noteq> a" using h(5) c(1,2) assms(5) by force
    then have b: "b \<in> set (md_approvals db)" using h(3) assms(3) by simp
    then have "b = c" using h(5) c(1,2) assms(4) by (simp add: distinct_map inj_on_def)
    then have "fst e \<noteq> od_id d'" using index_unique [OF assms(6,7) b h(6)] c(3) assms(8) by simp
    then have "g \<in> set (md_drafts db)" using put_row_cases h(2,4) assms(2) by metis
    then show ?thesis using log_ok_blocked [OF assms(1) h(1) _ b h(4,5,6)] by simp
  qed
  moreover have "(fst (snd e), fst e) \<in> (\<lambda>a. (ap_id a, ap_draft_id a)) ` set (md_approvals db')"
    using c assms(3) by (force simp: image_iff)
  ultimately show ?thesis unfolding log_ok_def by blast
qed

lemma final_keeps:
  assumes "approval_context st db i r actor = Inr (d, vi, p, m)" "final_approval env actor d vi snap notes db = Inr (a, db')"
    "require_two_person_approval st \<longrightarrow> (\<exists>b. pending_first i (md_approvals db) = Some b \<and> ap_snapshot_sha256 b = snap \<and>
       ap_approver_actor b \<noteq> actor_id (ma_actor actor))" "mail_ok st (db, lg)"
  shows "mail_ok st (db', lg)"
proof -
  note ok = mail_ok_basics [OF assms(4)] and c = approval_context_Inr [OF assms(1)]
  let ?d1 = "d\<lparr>od_approval_snapshot_sha256 := Some snap, od_approved_at := Some (me_now env), od_status := ''APPROVED_TO_SEND''\<rparr>"
  obtain db1 where n: "insert_approval a (save_draft ?d1 db) = Inr db1" "md_drafts db' = md_drafts db1" "md_approvals db' = md_approvals db1"
    "live a" "ap_draft_id a = od_id d" "ap_approver_actor a = actor_id (ma_actor actor)" "ap_snapshot_sha256 a = snap"
    using assms(2) by (auto simp: final_approval_def Let_def err_simps) (auto simp: approval_row_def)
  note ins = insert_approval_Inr [OF n(1)]
  have ds: "md_drafts db' = put_row od_id ?d1 (md_drafts db)" and as: "md_approvals db' = md_approvals db @ [a]"
    using n(2,3) ins(1,4) by simp_all
  have id: "od_id d = i" using row_id [OF c(1)] by simp
  have fresh: "ap_id a \<notin> ap_id ` set (md_approvals db)" "approvals_index (md_approvals db @ [a])" using ins(2,3) by simp_all
  have "log_ok db' e" if "e \<in> set lg" for e
    using granted_log_ok [OF _ ds as ok(2) fresh n(4)] that assms(4) n(5) by (simp add: mail_ok_def)
  moreover have "authorised st (md_approvals db') g b"
    if h: "g \<in> set (md_drafts db')" "b \<in> set (md_approvals db')" "sendable g" "live b" "ap_draft_id b = od_id g" for g b
  proof (cases "od_id g = i")
    case True
    have "g = ?d1" using put_row_cases [of g ?d1 "md_drafts db"] h(1) ds True id by auto
    moreover have "b = a" using index_unique [OF fresh(2) n(4), of b] h(2,4,5) True n(5) id as by auto
    ultimately show ?thesis using c(4) n(6,7) assms(3) id as pending_first_Some unfolding authorised_def by fastforce
  next
    case False
    then have g: "g \<in> set (md_drafts db)" using put_row_cases [of g ?d1 "md_drafts db"] h(1) ds id by auto
    have "b \<noteq> a" using h(5) False n(5) id by auto
    then have b: "b \<in> set (md_approvals db)" using h(2) as by simp
    have "authorised st (md_approvals db) g b" using assms(4) g b h(3-5) by (simp add: mail_ok_def)
    then show ?thesis by (rule authorised_mono) (simp add: as)
  qed
  ultimately show ?thesis using ok fresh assms(4) unfolding mail_ok_def by (simp add: ds as)
qed

lemma approve_keeps:
  assumes "approve_send st env actor i r notes db = Inr (a, db')" "mail_ok st (db, lg)"
  shows "mail_ok st (db', lg)"
  using assms(1)
proof (cases rule: approve_send_cases)
  case (first d vi p m dbx)
  then show ?thesis using unsends_keeps [OF first_unsends [OF first(1,2) first(3) assms(2)] assms(2)] by simp
next
  case (final d vi p m)
  show ?thesis by (rule final_keeps [OF final(1,4) _ assms(2)]) (use final(5) in blast)
qed

subsection \<open>Sending\<close>

lemma stop_Inl: "stop_unless ok r = Inl r' \<longleftrightarrow> \<not> ok \<and> r' = r"
  by (auto simp: stop_unless_def)

lemma stop_Inr: "stop_unless ok r = Inr u \<longleftrightarrow> ok"
  by (simp add: stop_unless_def)

lemmas stop_iffs = stop_Inl stop_Inr bindE_Inl_iff bindE_Inr_iff

lemma preflight_tables:
  "md_drafts (fst (preflight_failed env d msg db)) = put_row od_id (d\<lparr>od_status := ''SEND_FAILED_REVIEW''\<rparr>) (md_drafts db)"
  "md_approvals (fst (preflight_failed env d msg db)) = md_approvals db"
  by (simp_all add: preflight_failed_def)

lemma preflight_unsends:
  assumes "get_row od_id (md_drafts db) i = Some d" "mail_ok st (db, lg)"
  shows "unsends i db (fst (preflight_failed env d msg db))"
  by (rule unsends_put [OF preflight_tables(1)])
    (use row_id [OF assms(1)] shrinks_refl [OF mail_ok_basics(2,3) [OF assms(2)]] in \<open>simp_all add: unsent preflight_tables\<close>)

lemma send_context_Inl: "send_context st env d db = Inl r \<Longrightarrow> \<exists>msg. r = preflight_failed env d msg db"
  unfolding send_context_def Let_def by (auto simp: stop_iffs split: option.splits)

lemma send_context_Inr:
  assumes "send_context st env d db = Inr (a, p, m, persisted)"
  shows "live_approval (od_id d) db = Some a" "Option.bind (od_response_plan_id d) (get_row rsp_id (md_plans db)) = Some p"
    "get_row mb_id (md_mailboxes db) (od_mailbox_id d) = Some m" "persisted = approval_snapshot_hash (me_lib env) (draft_snapshot d p)"
    "ap_snapshot_sha256 a = persisted" "draft_attachment_blockers env db (od_id d) = []"
    "rp_allowed (evaluate_recipients st (ml_rules (me_lib env)) (recipient_check p d (Some [mailbox_domain m]) db False False))"
    "lower_ascii (py_strip (mb_address m)) = lower_ascii (py_strip (or_empty (expected_mailbox_address st)))"
  using assms unfolding send_context_def Let_def by (auto simp: stop_iffs split: option.splits)

lemma live_approval_Some:
  assumes "live_approval i db = Some a"
  shows "a \<in> set (md_approvals db)" "ap_draft_id a = i" "live a"
  using assms unfolding live_approval_def by (auto simp: find_Some_iff)

lemma check_graph_Inl:
  assumes "check_graph st env gw d a db = Inl r" "get_row od_id (md_drafts db) i = Some d" "mail_ok st (db, lg)"
  shows "fst r = db \<or> unsends i db (fst r)"
proof -
  have id: "od_id d = i" using row_id [OF assms(2)] by simp
  let ?inv = "invalidate_approval env ''Graph draft changed after send approval'' d db"
  consider "fst r = db" | msg where "r = preflight_failed env d msg db"
    | "md_drafts (fst r) = put_row od_id (d\<lparr>od_status := ''SEND_AMBIGUOUS''\<rparr>) (md_drafts db)" "md_approvals (fst r) = md_approvals db"
    | msg where "r = preflight_failed env (fst ?inv) msg (snd ?inv)"
    using assms(1) unfolding check_graph_def Let_def case_prod_beta
    by (auto simp: stop_iffs split: graph_reply.splits if_splits sum.splits)
  then show ?thesis
  proof cases
    case 2
    have "unsends i db (fst r)" unfolding 2 by (rule preflight_unsends [OF assms(2,3)])
    then show ?thesis ..
  next
    case 3
    then show ?thesis using unsends_put [OF 3(1), of i] shrinks_refl [OF mail_ok_basics(2,3) [OF assms(3)]] id by (simp add: unsent)
  next
    case 4
    have "unsends i db (fst r)"
      by (rule withdrawn_unsends [where d' = "(fst ?inv)\<lparr>od_status := ''SEND_FAILED_REVIEW''\<rparr>", OF assms(2) _ _ _ _ refl assms(3)]) (use 4 id in \<open>simp_all add: preflight_tables unsent\<close>)
    then show ?thesis ..
  qed simp
qed

lemma check_graph_Inr:
  assumes "check_graph st env gw d a db = Inr u"
  obtains payload where "gw_message gw = Message payload" "is_graph_draft payload" "graph_unchanged env payload True a"
    "graph_attachments_match (ml_rules (me_lib env)) db (od_id d) (has_attachments payload) (gw_attachments gw) = Inr True"
  using assms unfolding check_graph_def Let_def case_prod_beta
  by (auto simp: stop_iffs graph_unchanged_def split: graph_reply.splits if_splits sum.splits)

lemma prepare_Inr:
  assumes "prepare_send st env gw i job db = Inr (t, db1)"
  obtains d a p m persisted where "get_row od_id (md_drafts db) i = Some d" "sendable d" "send_context st env d db = Inr (a, p, m, persisted)"
    "check_graph st env gw d a db = Inr ()" "sa_approval_id t = ap_id a" "sa_draft_id t = i" "sa_pre_send_snapshot t = persisted"
    "db1 = persist_intent env d t db"
proof -
  obtain d where d: "get_row od_id (md_drafts db) i = Some d" using assms by (auto simp: prepare_send_def split: option.splits)
  have core: "sendable d \<and> bindE (send_context st env d db) (\<lambda>(a, p, m, persisted).
       bindE (check_graph st env gw d a db) (\<lambda>_.
       let t = new_attempt env job d a persisted (length (draft_attempts i db) + 1) in
       bindE (stop_unless (sa_id t \<notin> sa_id ` set (md_attempts db) \<and>
                  sa_idempotency_key t \<notin> sa_idempotency_key ` set (md_attempts db) \<and>
                  sa_number t \<notin> sa_number ` set (draft_attempts i db)) (db, Inl (Conflict IntegrityError))) (\<lambda>_.
       Inr (t, persist_intent env d t db)))) = (Inr (t, db1) :: send_attempt settled + send_attempt \<times> mail_db)"
    using assms d unfolding prepare_send_def sendable_def by (simp split: if_splits option.splits bool.splits)
  obtain a p m persisted where r: "send_context st env d db = Inr (a, p, m, persisted)" "check_graph st env gw d a db = Inr ()"
    "t = new_attempt env job d a persisted (length (draft_attempts i db) + 1)" "db1 = persist_intent env d t db"
    using conjunct2 [OF core] unfolding Let_def
    by (simp only: bindE_Inr_iff split_paired_Ex prod.case stop_Inr ex_unit sum.inject prod.inject) (elim exE conjE, rule that, assumption, assumption, erule sym, blast)
  show thesis using that [OF d conjunct1 [OF core] r(1,2)] row_id [OF d] r(3,4) by (simp add: new_attempt_def)
qed

lemma prepare_Inl:
  assumes "prepare_send st env gw i job db = Inl r" "mail_ok st (db, lg)"
  shows "mail_ok st (fst r, lg)"
proof (cases "get_row od_id (md_drafts db) i")
  case None
  then show ?thesis using assms by (auto simp: prepare_send_def)
next
  case (Some d)
  consider "fst r = db" | b where "r = stale_attempt st env d b db" | "send_context st env d db = Inl r"
    | a where "check_graph st env gw d a db = Inl r"
    using assms(1) Some unfolding prepare_send_def Let_def
    by (auto simp: stop_iffs split: if_splits option.splits bool.splits)
  then show ?thesis
  proof cases
    case 1
    then show ?thesis using assms(2) by simp
  next
    case 2
    have "unsends i db (fst r)"
      by (rule unsends_put [of _ "d\<lparr>od_status := ''SEND_AMBIGUOUS''\<rparr>"])
        (use 2 row_id [OF Some] shrinks_refl [OF mail_ok_basics(2,3) [OF assms(2)]] in \<open>simp_all add: stale_attempt_def Let_def unsent\<close>)
    then show ?thesis by (rule unsends_keeps [OF _ assms(2)])
  next
    case 3
    then obtain msg where msg: "r = preflight_failed env d msg db" using send_context_Inl by blast
    show ?thesis unfolding msg by (rule unsends_keeps [OF preflight_unsends [OF Some assms(2)] assms(2)])
  next
    case 4
    then show ?thesis using check_graph_Inl [OF 4 Some assms(2)] unsends_keeps [OF _ assms(2)] assms(2) by (metis prod.collapse)
  qed
qed

lemma safe_retry_effect:
  "md_approvals (fst (safe_retry st env d t code msg db)) = md_approvals db \<and>
   (\<exists>s. md_drafts (fst (safe_retry st env d t code msg db)) = put_row od_id (d\<lparr>od_status := s\<rparr>) (md_drafts db))"
  by (simp add: safe_retry_def Let_def) blast

lemma put_status: "\<exists>d'. put_row od_id (d\<lparr>od_status := s\<rparr>) ds = put_row od_id d' ds \<and> od_id d' = od_id d \<and>
    od_created_by_actor d' = od_created_by_actor d \<and> od_last_edited_by_actor d' = od_last_edited_by_actor d \<and> od_status d' = s"
  by (rule exI [of _ "d\<lparr>od_status := s\<rparr>"]) simp

lemma finish_effect:
  assumes "r \<noteq> Lost"
  shows "md_approvals (fst (finish_send st env d t r db)) = md_approvals db \<and>
    (\<exists>d'. md_drafts (fst (finish_send st env d t r db)) = put_row od_id d' (md_drafts db) \<and> od_id d' = od_id d \<and>
      od_created_by_actor d' = od_created_by_actor d \<and> od_last_edited_by_actor d' = od_last_edited_by_actor d \<and> (sendable d' \<longrightarrow> refused r))"
proof (cases r)
  case (Accepted x y)
  then show ?thesis by (simp add: finish_send_def Let_def unsent)
      (rule exI [of _ "d\<lparr>od_status := ''SEND_ACCEPTED'', od_delivery_status := ''UNKNOWN''\<rparr>"], simp)
next
  case (Rejected e)
  show ?thesis
  proof (cases "ge_status e \<in> set AMBIGUOUS_CODES")
    case True
    then show ?thesis using Rejected
      by (simp add: finish_send_def send_failed_def Let_def unsent) (rule exI [of _ "d\<lparr>od_status := ''SEND_AMBIGUOUS''\<rparr>"], simp)
  next
    case amb: False
    show ?thesis
    proof (cases "ge_status e = 429")
      case True
      then show ?thesis using Rejected amb safe_retry_effect [of st env d] put_status [where d = d]
        by (simp add: finish_send_def send_failed_def Let_def refused_def) metis
    next
      case False
      then show ?thesis using Rejected amb
        by (simp add: finish_send_def send_failed_def Let_def unsent) (rule exI [of _ "d\<lparr>od_status := ''SEND_FAILED_REVIEW''\<rparr>"], simp)
    qed
  qed
next
  case (NoToken x)
  then show ?thesis using safe_retry_effect [of st env d] put_status [where d = d] by (simp add: finish_send_def refused_def) metis
next
  case (NoConnection x)
  then show ?thesis using safe_retry_effect [of st env d] put_status [where d = d] by (simp add: finish_send_def refused_def) metis
next
  case (Interrupted x)
  then show ?thesis by (simp add: finish_send_def Let_def unsent) (rule exI [of _ "d\<lparr>od_status := ''SEND_AMBIGUOUS''\<rparr>"], simp)
qed (use assms in simp)

lemma posts_refused:
  "\<forall>j < length (posts gw) - 1. refused (posts gw ! j)"
  "refused (settled_post gw) \<Longrightarrow> r \<in> set (posts gw) \<Longrightarrow> refused r"
  by (auto simp: posts_def settled_post_def is_unauthorized_def refused_def split: post_result.splits if_splits)

lemma no_replay_append:
  assumes "no_replay lg" "\<forall>e \<in> set lg. fst (snd e) = a \<longrightarrow> refused (snd (snd e))" "\<forall>j < length rs - 1. refused (rs ! j)"
  shows "no_replay (lg @ map (\<lambda>r. (i, a, r)) rs)" (is "no_replay (lg @ ?ps)")
  unfolding no_replay_def
proof (intro allI impI)
  fix j k assume h: "j < k \<and> k < length (lg @ ?ps) \<and> fst (snd ((lg @ ?ps) ! j)) = fst (snd ((lg @ ?ps) ! k))"
  consider "k < length lg" | "j < length lg" "length lg \<le> k" | "length lg \<le> j" by linarith
  then show "refused (snd (snd ((lg @ ?ps) ! j)))"
  proof cases
    case 1
    then have j: "j < length lg" using h by simp
    then have "fst (snd (lg ! j)) = fst (snd (lg ! k))" using 1 h by (metis nth_append)
    then show ?thesis using 1 j h assms(1) unfolding no_replay_def by (metis nth_append)
  next
    case 2
    then have "k - length lg < length rs" using h by auto
    then have "fst (snd (lg ! j)) = a" using h 2 by (simp add: nth_append)
    then show ?thesis using 2 assms(2) by (simp add: nth_append)
  next
    case 3
    then have "j - length lg < length rs - 1" using h by auto
    then show ?thesis using 3 assms(3) by (simp add: nth_append)
  qed
qed

lemma log_extend:
  assumes "mail_ok st (db, lg)" "\<forall>e \<in> set ps. log_ok db e" "no_replay (lg @ ps)"
  shows "mail_ok st (db, lg @ ps)"
  using assms unfolding mail_ok_def by auto

lemma intent_tables [simp]:
  "md_drafts (persist_intent env d t db) = put_row od_id (d\<lparr>od_status := ''SENDING''\<rparr>) (md_drafts db)"
  "md_approvals (persist_intent env d t db) = md_approvals db"
  by (simp_all add: persist_intent_def)

text \<open>The net effect of a send on its draft: the approvals stay, and a draft that is still sendable was refused.\<close>

lemma send_effect:
  assumes "prepare_send st env gw i job db = Inr (t, db1)" "get_row od_id (md_drafts db) i = Some d" "db1 = persist_intent env d t db"
  obtains dS d' where "get_row od_id (md_drafts db1) i = Some dS"
    "md_approvals (fst (finish_send st env dS t (settled_post gw) db1)) = md_approvals db"
    "md_drafts (fst (finish_send st env dS t (settled_post gw) db1)) = put_row od_id d' (md_drafts db)" "od_id d' = i"
    "od_created_by_actor d' = od_created_by_actor d" "od_last_edited_by_actor d' = od_last_edited_by_actor d"
    "sendable d' \<longrightarrow> refused (settled_post gw)"
proof -
  let ?d1 = "d\<lparr>od_status := ''SENDING''\<rparr>"
  note id = row_id [OF assms(2)]
  have g: "get_row od_id (md_drafts db1) i = Some ?d1" using assms(2,3) id by (simp add: get_put_row)
  show thesis
  proof (cases "settled_post gw = Lost")
    case True
    show thesis by (rule that [OF g, of ?d1]) (use True assms(3) id in \<open>simp_all add: finish_send_def unsent\<close>)
  next
    case False
    obtain d' where d': "md_approvals (fst (finish_send st env ?d1 t (settled_post gw) db1)) = md_approvals db1"
      "md_drafts (fst (finish_send st env ?d1 t (settled_post gw) db1)) = put_row od_id d' (md_drafts db1)" "od_id d' = i"
      "od_created_by_actor d' = od_created_by_actor d" "od_last_edited_by_actor d' = od_last_edited_by_actor d"
      "sendable d' \<longrightarrow> refused (settled_post gw)"
      using finish_effect [OF False, of st env ?d1 t db1] id by auto
    show thesis by (rule that [OF g _ _ d'(3-6)]) (use d'(1-3) assms(3) id in \<open>simp_all add: put_put\<close>)
  qed
qed

lemma send_keeps:
  assumes "execute_send st env gw i job db = ((db', r), ps)" "mail_ok st (db, lg)"
  shows "mail_ok st (db', lg @ ps)"
proof (cases "prepare_send st env gw i job db")
  case (Inl x)
  then show ?thesis using assms prepare_Inl [OF Inl assms(2)] by (simp add: execute_send_def)
next
  case (Inr tdb)
  obtain t db1 where p: "prepare_send st env gw i job db = Inr (t, db1)" using Inr by (cases tdb) simp
  obtain d a pl m persisted where q: "get_row od_id (md_drafts db) i = Some d" "sendable d" "send_context st env d db = Inr (a, pl, m, persisted)"
    "sa_approval_id t = ap_id a" "db1 = persist_intent env d t db" by (rule prepare_Inr [OF p])
  obtain dS d' where e: "get_row od_id (md_drafts db1) i = Some dS"
    "md_approvals (fst (finish_send st env dS t (settled_post gw) db1)) = md_approvals db"
    "md_drafts (fst (finish_send st env dS t (settled_post gw) db1)) = put_row od_id d' (md_drafts db)" "od_id d' = i"
    "od_created_by_actor d' = od_created_by_actor d" "od_last_edited_by_actor d' = od_last_edited_by_actor d"
    "sendable d' \<longrightarrow> refused (settled_post gw)" by (rule send_effect [OF p q(1,5)])
  have x: "fst (finish_send st env dS t (settled_post gw) db1) = db'" "ps = map (\<lambda>r. (i, ap_id a, r)) (posts gw)"
    using assms(1) p e(1) q(4) by (simp_all add: execute_send_def)
  note ds = e(3) [unfolded x(1)] and as = e(2) [unfolded x(1)] and id = row_id [OF q(1)] and ok = mail_ok_basics [OF assms(2)]
  note a = live_approval_Some [OF send_context_Inr(1) [OF q(3)]]
  have aid: "ap_draft_id a = i" using a(2) id by simp
  have kept: "mail_ok st (db', lg)"
  proof (cases "sendable d'")
    case True
    show ?thesis by (rule steady_keeps [OF steady_put [OF ds as _ _ e(5,6)] assms(2)]) (use id e(4) q(2) in simp_all)
  next
    case False
    show ?thesis by (rule unsends_keeps [OF unsends_put [OF ds e(4) False] assms(2)]) (use shrinks_refl [OF ok(2,3)] as in simp)
  qed
  have only: "g = d'" if "g \<in> set (md_drafts db')" "od_id g = i" for g
    using put_row_cases [of g d' "md_drafts db"] that ds e(4) by auto
  have "log_ok db' (i, ap_id a, u)" if "u \<in> set (posts gw)" for u
    using only e(7) posts_refused(2) [OF _ that] a(1) aid as unfolding log_ok_def by (fastforce simp: image_iff)
  then have new: "\<forall>e \<in> set ps. log_ok db' e" using x(2) by auto
  have old: "\<forall>e \<in> set lg. fst (snd e) = ap_id a \<longrightarrow> refused (snd (snd e))"
  proof (intro ballI impI)
    fix e assume e: "e \<in> set lg" "fst (snd e) = ap_id a"
    have l: "log_ok db e" using assms(2) e(1) by (simp add: mail_ok_def)
    obtain c where c: "c \<in> set (md_approvals db)" "ap_id c = ap_id a" "ap_draft_id c = fst e" using l e(2) unfolding log_ok_def by auto
    have "c = a" using c(1,2) a(1) ok(2) by (simp add: distinct_map inj_on_def)
    then have "od_id d = fst e" using c(3) a(2) by simp
    then show "refused (snd (snd e))" using log_ok_blocked [OF l _ _ a(1) _ _ a(3)] q(2) id e(2) by metis
  qed
  have "no_replay (lg @ ps)" unfolding x(2)
    by (rule no_replay_append [OF _ old posts_refused(1)]) (use assms(2) in \<open>simp add: mail_ok_def\<close>)
  then show ?thesis by (rule log_extend [OF kept new])
qed

subsection \<open>Reconciliation\<close>

lemma same_tables_keep: "md_drafts db' = md_drafts db \<Longrightarrow> md_approvals db' = md_approvals db \<Longrightarrow> mail_ok st (db, lg) \<Longrightarrow> mail_ok st (db', lg)"
  using steady_keeps steady_refl by blast

lemma status_keeps:
  assumes "md_drafts db' = put_row od_id d' (md_drafts db)" "md_approvals db' = md_approvals db" "od_id d' = i" "\<not> sendable d'" "mail_ok st (db, lg)"
  shows "mail_ok st (db', lg)"
  by (rule unsends_keeps [OF unsends_put [OF assms(1,3,4)] assms(5)]) (use shrinks_refl [OF mail_ok_basics(2,3) [OF assms(5)]] assms(2) in simp)

lemma check_copy_effect:
  "md_approvals (fst (check_copy st env d payload b t db)) = md_approvals db \<and>
   (\<exists>d'. md_drafts (fst (check_copy st env d payload b t db)) = put_row od_id d' (md_drafts db) \<and> od_id d' = od_id d \<and> \<not> sendable d')"
proof (cases "graph_body_hash (me_lib env) payload \<noteq> od_body_sha256 d \<or> graph_recipient_hash (me_lib env) payload \<noteq> od_recipient_set_sha256 d \<or> \<not> b")
  case True
  then show ?thesis
    by (simp add: check_copy_def Let_def verified_attempt_def unsent) (rule exI [of _ "d\<lparr>od_status := ''SEND_FAILED_REVIEW''\<rparr>"], simp)
next
  case False
  then show ?thesis
    by (simp add: check_copy_def Let_def verified_attempt_def unsent)
      (rule exI [of _ "d\<lparr>od_status := ''SENT_COPY_VERIFIED'', od_delivery_status := ''UNKNOWN'', od_sent_at := Some (me_now env)\<rparr>"], simp)
qed

lemma reconcile_keeps:
  assumes "reconcile_sent st' env gw i db = (db', r)" "mail_ok st (db, lg)"
  shows "mail_ok st (db', lg)"
proof (cases "get_row od_id (md_drafts db) i")
  case None
  then show ?thesis using assms by (simp add: reconcile_sent_def)
next
  case (Some d)
  consider "db' = db" | s where "md_drafts db' = put_row od_id (d\<lparr>od_status := s\<rparr>) (md_drafts db)" "md_approvals db' = md_approvals db" "s \<notin> set SENDABLE_STATUSES"
    | payload b t where "db' = fst (check_copy st' env d payload b t db)"
    using assms(1) Some unfolding reconcile_sent_def Let_def
    by (auto simp: SENDABLE_STATUSES_def split: if_splits option.splits graph_reply.splits sum.splits) (metis fst_conv)+
  then show ?thesis
  proof cases
    case 1
    then show ?thesis using assms(2) by simp
  next
    case 2
    show ?thesis by (rule status_keeps [OF 2(1,2) _ _ assms(2)]) (use 2(3) in \<open>simp_all add: sendable_def\<close>)
  next
    case 3
    then show ?thesis using check_copy_effect [of st' env d payload b t db] status_keeps [OF _ _ _ _ assms(2)] by metis
  qed
qed

lemma give_up_keeps:
  assumes "mail_ok st (db, lg)"
  shows "mail_ok st (give_up_reconciliation i db, lg)"
proof (cases "get_row od_id (md_drafts db) i")
  case (Some d)
  show ?thesis
  proof (cases "od_status d = ''SEND_ACCEPTED'' \<or> od_status d = ''SEND_AMBIGUOUS''")
    case True
    show ?thesis by (rule status_keeps [OF _ _ _ _ assms, of _ "d\<lparr>od_status := ''SEND_FAILED_REVIEW''\<rparr>"])
        (use True Some in \<open>simp_all add: give_up_reconciliation_def unsent\<close>)
  qed (use Some assms in \<open>simp add: give_up_reconciliation_def\<close>)
qed (use assms in \<open>simp add: give_up_reconciliation_def\<close>)

lemma sync_keeps:
  assumes "sync_draft st' env actor gw i b db = (db', r)" "mail_ok st (db, lg)"
  shows "mail_ok st (db', lg)"
proof (cases "get_row od_id (md_drafts db) i")
  case None
  then show ?thesis using assms by (simp add: sync_draft_def)
next
  case (Some d)
  note id = row_id [OF Some]
  let ?inv = "invalidate_approval env ''Graph draft is missing'' d db"
  consider "db' = db"
    | "md_drafts db' = put_row od_id (d\<lparr>od_status := ''SEND_AMBIGUOUS''\<rparr>) (md_drafts db)" "md_approvals db' = md_approvals db"
    | "db' = save_draft ((fst ?inv)\<lparr>od_status := ''SEND_FAILED_REVIEW''\<rparr>) (snd ?inv)"
    | d1 payload d2 where "import_edit env actor d1 payload db = Inr (d2, db')" "od_id d1 = od_id d"
    | d1 where "db' = save_draft d1 db" "od_id d1 = od_id d" "od_status d1 = od_status d" "od_created_by_actor d1 = od_created_by_actor d"
      "od_last_edited_by_actor d1 = od_last_edited_by_actor d"
    using assms(1) Some unfolding sync_draft_def Let_def case_prod_beta
    by (auto simp del: invalidate_draft split: if_splits option.splits graph_reply.splits sum.splits)
  then show ?thesis
  proof cases
    case 1
    then show ?thesis using assms(2) by simp
  next
    case 2
    show ?thesis by (rule status_keeps [OF 2 _ _ assms(2)]) (simp_all add: unsent)
  next
    case 3
    have "unsends i db db'"
      by (rule withdrawn_unsends [where d' = "(fst ?inv)\<lparr>od_status := ''SEND_FAILED_REVIEW''\<rparr>", OF Some _ _ _ _ refl assms(2)])
        (use 3 id in \<open>simp_all add: unsent\<close>)
    then show ?thesis by (rule unsends_keeps [OF _ assms(2)])
  next
    case 4
    then show ?thesis using unsends_keeps [OF import_unsends [OF 4(1) assms(2)] assms(2)] id by simp
  next
    case 5
    have "steady db db'"
      by (rule steady_put [where d' = d1 and d = d]) (use 5 id in \<open>simp_all add: sendable_def\<close>)
    then show ?thesis by (rule steady_keeps [OF _ assms(2)])
  qed
qed

lemma step_keeps: "mail_step st s s' \<Longrightarrow> mail_ok st s \<Longrightarrow> mail_ok st s'"
proof (induction rule: mail_step.induct)
  case (edit env actor i x e db d db' lg)
  then show ?case using unsends_keeps [OF edit_unsends] by blast
next
  case (attach env actor i di vi x db a db' lg)
  then show ?case using unsends_keeps [OF attach_unsends] by blast
next
  case (detach env actor i ai x db db' lg)
  then show ?case using unsends_keeps [OF detach_unsends] by blast
next
  case (changes env actor i reason x db d db' lg)
  then show ?case using unsends_keeps [OF changes_unsends(1)] by blast
next
  case (reject env actor i reason x db d db' lg)
  then show ?case using unsends_keeps [OF reject_unsends] by blast
next
  case (invalidate env i reason db d db' lg)
  then show ?case using unsends_keeps [OF invalidate_unsends] by blast
next
  case (decline env actor i decision reason x db d db' lg)
  then show ?case using unsends_keeps [OF decline_unsends] by blast
next
  case (cancel env actor i reason x db d db' lg)
  then show ?case using unsends_keeps [OF cancel_unsends] by blast
qed (rule submit_keeps approve_keeps queue_keeps requeue_keeps send_keeps reconcile_keeps give_up_keeps sync_keeps; assumption)+

interpretation mail_sys: invariant_system mail_init "mail_step st" "mail_ok st"
proof
  show "mail_ok st s" if "mail_init s" for s
    using that by (cases s) (auto simp: mail_init_def mail_ok_def approvals_index_def no_replay_def)
  show "mail_ok st s'" if "mail_ok st s" "mail_step st s s'" for s s' using step_keeps that by blast
qed

end
