(* ===== verification/Send_Properties.thy ===== *)
theory Send_Properties
  imports Send_Invariant
begin

text \<open>
  The properties of outbound mail: what an approval is bound to, what a send rests on, and that no send
  that may have been delivered is posted again under the same approval.
\<close>

subsection \<open>The text that is hashed\<close>

text \<open>Escaping the characters from 127 on turns the text with \<^verbatim>\<open>ensure_ascii=False\<close> into the one without.\<close>

definition to_ascii :: "string \<Rightarrow> string" where
  "to_ascii s = concat (map (\<lambda>c. if 127 \<le> (of_char c :: nat) then escape_char c else [c]) s)"

lemma to_ascii_append [simp]: "to_ascii (s @ t) = to_ascii s @ to_ascii t" "to_ascii [] = []"
  "to_ascii (c # s) = (if 127 \<le> (of_char c :: nat) then escape_char c else [c]) @ to_ascii s"
  by (simp_all add: to_ascii_def)

lemma to_ascii_low: "\<forall>c \<in> set s. (of_char c :: nat) < 127 \<Longrightarrow> to_ascii s = s"
  by (induction s) (auto simp: to_ascii_def)

lemma digit_char_low: "n < 16 \<Longrightarrow> (of_char (digit_char n) :: nat) < 127"
  by (auto simp: digit_char_def)

lemma digits_base_low: "1 < b \<Longrightarrow> b \<le> 16 \<Longrightarrow> c \<in> set (digits_base b k n) \<Longrightarrow> (of_char c :: nat) < 127"
proof (induction b k n rule: digits_base.induct)
  case (2 b k n)
  have "n mod b < 16" using 2(2,3) by (meson less_le_trans mod_less_divisor less_trans zero_less_one)
  then show ?case using 2 digit_char_low by auto
qed simp

lemma escape_low: "(of_char c :: nat) < 127 \<Longrightarrow> d \<in> set (escape_char c) \<Longrightarrow> (of_char d :: nat) < 127"
  using digits_base_low [of 16 d 4] by (auto simp: escape_char_def split: if_splits)

lemma to_ascii_escape: "to_ascii (concat (map escape_raw s)) = concat (map escape_char s)"
proof (induction s)
  case (Cons c s)
  have "to_ascii (escape_raw c) = escape_char c"
    using to_ascii_low [of "escape_char c"] escape_low [of c] by (auto simp: escape_raw_def to_ascii_def)
  then show ?case using Cons by simp
qed simp

lemma to_ascii_quote: "to_ascii (quote_raw s) = quote s"
  using to_ascii_escape [of s] by (simp add: quote_raw_def quote_def)

lemma to_ascii_join: "to_ascii (join_str '','' xs) = join_str '','' (map to_ascii xs)"
proof (induction xs)
  case (Cons x xs)
  then show ?case by (cases xs) simp_all
qed simp

lemma numeral_low: "numeral_char c \<Longrightarrow> (of_char c :: nat) < 127"
  by (auto simp: numeral_char_def digit_val_def split: if_splits)

lemma to_ascii_raw: "float_free v \<Longrightarrow> to_ascii (json_raw lib v) = compact v"
proof (induction v)
  case (JInt n)
  then show ?case using to_ascii_low [of "str_int n"] str_int_chars numeral_low by auto
next
  case (JStr s)
  then show ?case by (simp add: to_ascii_quote)
next
  case (JList xs)
  have "map (to_ascii \<circ> json_raw lib) xs = map compact xs" using JList by (auto simp: list_all_iff)
  then show ?case by (simp only: json_raw.simps json_text.simps to_ascii_append to_ascii_join map_map) simp
next
  case (JObj d)
  have "to_ascii (json_raw lib (snd kv)) = compact (snd kv)" if "kv \<in> set d" for kv
    using JObj.prems that by (intro JObj.IH [OF that]) (auto simp: snds.simps list_all_iff)
  then have m: "map (\<lambda>kv. to_ascii (quote_raw (fst kv) @ '':'' @ json_raw lib (snd kv))) (sort_key fst d) =
      map (\<lambda>kv. quote (fst kv) @ '':'' @ compact (snd kv)) (sort_key fst d)"
    by (simp add: to_ascii_quote)
  have "json_raw lib (JObj d) = ''{'' @ join_str '','' (map (\<lambda>kv. quote_raw (fst kv) @ '':'' @ json_raw lib (snd kv)) (sort_key fst d)) @ ''}''"
    by (simp add: sort_map [where f = "json_raw lib"] comp_def)
  then show ?case unfolding compact_obj by (simp only: to_ascii_append(1) to_ascii_join map_map comp_def m [unfolded to_ascii_append(1)]) simp
qed (simp_all add: to_ascii_low)

lemma json_raw_inject: "float_free v \<Longrightarrow> float_free w \<Longrightarrow> json_raw lib v = json_raw lib w \<Longrightarrow> canon v = canon w"
  using compact_inject to_ascii_raw by metis

lemma maybe_simps: "float_free (json_maybe x)" "canon (json_maybe x) = json_maybe x" "json_maybe x = json_maybe y \<longleftrightarrow> x = y"
  by (auto simp: json_maybe_def split: option.splits)

lemma snapshot_free: "float_free (JObj (snapshot_payload s))" "distinct (map fst (snapshot_payload s))"
  by (simp_all add: snapshot_payload_def maybe_simps)

definition exs_snapshot :: "string \<Rightarrow> ApprovalSnapshot" where
  "exs_snapshot subject =
     \<lparr>sn_subject = subject, sn_body_sha256 = ''b'', sn_recipient_sha256 = ''r'', sn_attachment_sha256 = ''a'', sn_revision = 2,
      sn_graph_draft_message_id = ''g'', sn_graph_change_key = Some ''k'', sn_graph_etag = None, sn_response_plan_id = ''p'',
      sn_template_version_id = None\<rparr>"

text \<open>C27. An approval is bound to everything that was reviewed: as long as the hash does not collide on the two
  texts, two snapshots have the same digest only if the subject (without surrounding blanks), the digests of
  body, recipients and attachments, the revision, the identity and version of the Graph draft, the response
  plan and the template version all agree.\<close>

theorem snapshot_hash_identifies_review:
  assumes "approval_snapshot_hash lib s = approval_snapshot_hash lib s'"
    "canonical_sha256 lib (JObj (snapshot_payload s)) = canonical_sha256 lib (JObj (snapshot_payload s')) \<Longrightarrow>
       json_raw (ml_rules lib) (JObj (snapshot_payload s)) = json_raw (ml_rules lib) (JObj (snapshot_payload s'))"
  shows "s\<lparr>sn_subject := py_strip (sn_subject s)\<rparr> = s'\<lparr>sn_subject := py_strip (sn_subject s')\<rparr>"
proof -
  have "json_raw (ml_rules lib) (JObj (snapshot_payload s)) = json_raw (ml_rules lib) (JObj (snapshot_payload s'))"
    using assms by (simp add: approval_snapshot_hash_def)
  then have c: "canon (JObj (snapshot_payload s)) = canon (JObj (snapshot_payload s'))"
    using json_raw_inject snapshot_free(1) by blast
  note g = canon_members [OF c snapshot_free(2) snapshot_free(2)]
  show ?thesis
    using g [of "''subject''"] g [of "''body_sha256''"] g [of "''recipient_set_sha256''"] g [of "''attachment_set_sha256''"]
      g [of "''revision''"] g [of "''graph_draft_message_id''"] g [of "''graph_change_key''"] g [of "''graph_etag''"]
      g [of "''response_plan_id''"] g [of "''template_version_id''"]
    by (intro ApprovalSnapshot.equality) (simp_all add: snapshot_payload_def maybe_simps)
qed

theorem snapshot_hash_identifies_review_witness:
  "approval_snapshot_hash \<lparr>ml_sha256 = (\<lambda>s. s), ml_rules = ex_lib\<rparr> (exs_snapshot ''  Renewal'') =
     approval_snapshot_hash \<lparr>ml_sha256 = (\<lambda>s. s), ml_rules = ex_lib\<rparr> (exs_snapshot ''Renewal '') \<and>
   (exs_snapshot ''  Renewal'')\<lparr>sn_subject := ''Renewal''\<rparr> = (exs_snapshot ''Renewal '')\<lparr>sn_subject := ''Renewal''\<rparr>"
proof -
  have t: "py_strip ''  Renewal'' = ''Renewal''" "py_strip ''Renewal '' = ''Renewal''" by code_simp+
  have "approval_snapshot_hash \<lparr>ml_sha256 = (\<lambda>s. s), ml_rules = ex_lib\<rparr> (exs_snapshot ''  Renewal'') =
     approval_snapshot_hash \<lparr>ml_sha256 = (\<lambda>s. s), ml_rules = ex_lib\<rparr> (exs_snapshot ''Renewal '')"
    by (simp add: approval_snapshot_hash_def snapshot_payload_def exs_snapshot_def t)
  then show ?thesis
    using snapshot_hash_identifies_review [of "\<lparr>ml_sha256 = (\<lambda>s. s), ml_rules = ex_lib\<rparr>" "exs_snapshot ''  Renewal''" "exs_snapshot ''Renewal ''"] t
    by (simp add: canonical_sha256_def exs_snapshot_def)
qed

subsection \<open>A run\<close>

definition exm_lib :: mail_lib where
  "exm_lib = \<lparr>ml_sha256 = (\<lambda>_. ''h''), ml_rules = ex_lib\<rparr>"

definition exm_settings :: mail_settings where
  "exm_settings = \<lparr>max_to_recipients = 5, max_cc_recipients = 5, max_total_recipients = 10, reply_all_enabled = False, bcc_enabled = False,
     require_separate_send_approver = True, allow_self_approval = False, require_two_person_approval = True,
     external_recipient_requires_manager = False, expected_mailbox_address = Some ''m@x.org'', communications_enabled = True,
     graph_send_enabled = True, max_body_chars = 100, send_job_max_attempts = 3, move_job_max_attempts = 3,
     reconciliation_max_attempts = 5, reconciliation_initial_delay = 30, reconciliation_max_seconds = 3600,
     attachments_enabled = True, total_attachment_max_bytes = 100, large_attachment_max_bytes = 100,
     simple_attachment_max_bytes = 100, large_attachments_enabled = False, large_attachment_accepted = False\<rparr>"

definition exm_env :: "nat \<Rightarrow> mail_env" where
  "exm_env n = \<lparr>me_now = int n, me_today = Date 2025 1 1, me_new_id = n, me_new_version_id = n, me_new_job_id = n, me_lib = exm_lib,
     me_patterns = \<lparr>cp_placeholder = (\<lambda>_. False), cp_unsafe_html = (\<lambda>_. False), cp_attached = (\<lambda>_. False)\<rparr>\<rparr>"

definition exm_to :: "jdict list" where
  "exm_to = [[(''address'', JStr ''r@x.org''), (''name'', JStr [])]]"

definition exm_draft :: outbound_draft where
  "exm_draft = \<lparr>od_id = 1, od_response_plan_id = Some 2, od_task_id = 3, od_email_id = None, od_mailbox_id = 4, od_current_version_id = Some 5,
     od_graph_draft_message_id = Some ''g'', od_graph_change_key = Some ''k'', od_graph_etag = Some ''e'', od_subject = ''S'',
     od_body_text = Some ''B'', od_body_html = None, od_to = exm_to, od_cc = [], od_bcc = [], od_status = ''PENDING_SEND_APPROVAL'',
     od_local_revision = 1, od_body_sha256 = ''h'',
     od_recipient_set_sha256 = ''h'', od_attachment_set_sha256 = ''h'',
     od_approval_snapshot_sha256 = None, od_created_by_actor = Some ''ann'', od_last_edited_by_actor = Some ''bob'',
     od_submitted_at = None, od_graph_last_synced_at = None, od_approved_at = None, od_send_queued_at = None, od_sent_at = None,
     od_delivery_status = ''NOT_APPLICABLE''\<rparr>"

definition exm_version :: draft_version where
  "exm_version = \<lparr>dv_id = 5, dv_draft_id = 1, dv_revision = 1, dv_subject = ''S'', dv_body_text = Some ''B'', dv_body_html = None,
     dv_to = exm_to, dv_cc = [], dv_bcc = [], dv_attachment_manifest = [], dv_body_sha256 = [], dv_recipient_set_sha256 = [],
     dv_attachment_set_sha256 = [], dv_snapshot_sha256 = [], dv_change_reason = None, dv_created_by_actor = ''ann''\<rparr>"

definition exm_plan :: response_plan where
  "exm_plan = \<lparr>rsp_id = 2, rsp_response_type = ''ACKNOWLEDGEMENT'', rsp_readiness_status = ''NOT_READY'', rsp_readiness_blockers = [],
     rsp_template_version_id = None, rsp_recipient_mode = ''REPLY'', rsp_reply_all_reviewed = False, rsp_bcc_authorized = False\<rparr>"

definition exm_db :: mail_db where
  "exm_db = \<lparr>md_drafts = [exm_draft], md_versions = [exm_version], md_plans = [exm_plan],
     md_mailboxes = [\<lparr>mb_id = 4, mb_address = ''m@x.org'', mb_graph_user_id = None\<rparr>], md_tasks = [], md_item_statuses = [],
     md_attachments = [], md_documents = [], md_document_versions = [], md_rules = [], md_sent_folders = (\<lambda>_. None), md_approvals = [],
     md_attempts = [], md_jobs = [], md_events = [], md_audits = []\<rparr>"

definition exm_sender :: "string \<Rightarrow> mail_actor" where
  "exm_sender n = \<lparr>ma_actor = \<lparr>actor_type = ''USER'', actor_id = n\<rparr>, ma_roles = [''Licensing.Sender'']\<rparr>"

definition exm_review :: review where
  "exm_review = \<lparr>rv_expected = \<lparr>ex_revision = 1, ex_change_key = Some ''k'', ex_etag = Some ''e''\<rparr>,
     rv_snapshot_sha256 = ''h'', rv_graph_draft_id = ''g''\<rparr>"

definition exm_payload :: jdict where
  "exm_payload = [(''isDraft'', JBool True), (''subject'', JStr ''S''),
     (''body'', JObj [(''contentType'', JStr ''text''), (''content'', JStr ''B'')]),
     (''toRecipients'', JList [JObj [(''emailAddress'', JObj [(''address'', JStr ''R@x.org'')])]]),
     (''changeKey'', JStr ''k''), (''@odata.etag'', JStr ''e'')]"

definition exm_world :: "post_result \<Rightarrow> graph_world" where
  "exm_world r = \<lparr>gw_message = Message exm_payload, gw_attachments = Some [], gw_first = r, gw_second = Lost\<rparr>"

definition exm_pending :: send_approval where
  "exm_pending = approval_row (exm_env 10) exm_draft 5 (exm_sender ''zoe'') ''h'' None ''PENDING_SECOND_APPROVAL''"

definition exm_approval :: send_approval where
  "exm_approval = (approval_row (exm_env 11) exm_draft 5 (exm_sender ''yan'') ''h'' None ''APPROVED'')\<lparr>ap_approved_at := Some 11\<rparr>"

definition exm_approved :: outbound_draft where
  "exm_approved = exm_draft\<lparr>od_approval_snapshot_sha256 := Some ''h'', od_approved_at := Some 11, od_status := ''APPROVED_TO_SEND''\<rparr>"

lemma exm_hashes [simp]: "approval_snapshot_hash exm_lib s = ''h''" "graph_body_hash exm_lib pl = ''h''" "graph_recipient_hash exm_lib pl = ''h''"
  by (simp_all add: approval_snapshot_hash_def canonical_sha256_def graph_body_hash_def sha256_text_def graph_recipient_hash_def
      recipient_set_hash_def Let_def exm_lib_def case_prod_beta)

lemma exm_env_simps [simp]: "me_lib (exm_env n) = exm_lib" "ml_rules exm_lib = ex_lib" "me_new_id (exm_env n) = n" "me_now (exm_env n) = int n"
  by (simp_all add: exm_env_def exm_lib_def)

lemma exm_sender_simps [simp]: "actor_id (ma_actor (exm_sender n)) = n" "has_role (ma_roles (exm_sender n)) ''Licensing.Sender''"
proof -
  have "has_role [''Licensing.Sender''] ''Licensing.Sender''" by code_simp
  then show "actor_id (ma_actor (exm_sender n)) = n" "has_role (ma_roles (exm_sender n)) ''Licensing.Sender''" by (simp_all add: exm_sender_def)
qed

lemma exm_recipients:
  assumes "od_to d = exm_to" "od_cc d = []" "od_bcc d = []" "md_rules db = []"
  shows "rp_allowed (evaluate_recipients exm_settings ex_lib (recipient_check exm_plan d (Some [''x.org'']) db b c))"
proof -
  let ?q = "\<lparr>rq_mode = ''REPLY'', rq_to = exm_to, rq_cc = [], rq_bcc = [], rq_reply_all_reviewed = False, rq_bcc_authorized = False,
     rq_blocked_domains = [], rq_internal_domains = Some [''x.org''], rq_policy_rules = [], rq_manager_approved = b, rq_enforce_manager_rules = c\<rparr>"
  have q: "recipient_check exm_plan d (Some [''x.org'']) db b c = ?q" using assms by (simp add: recipient_check_def exm_plan_def)
  have a: "map (recipient_address ex_lib) exm_to = [''r@x.org'']" "address_ok ''r@x.org''" by code_simp+
  show ?thesis unfolding q
    by (simp add: evaluate_recipients_def Let_def block_if_def addresses_def all_recipients_def a matching_rules_def exm_settings_def)
      (simp add: exm_to_def)
qed

lemma exm_mailbox: "mailbox_domain \<lparr>mb_id = 4, mb_address = ''m@x.org'', mb_graph_user_id = None\<rparr> = ''x.org''"
  "lower_ascii (py_strip ''m@x.org'') = ''m@x.org''"
  by code_simp+

definition exm_box :: mailbox where
  "exm_box = \<lparr>mb_id = 4, mb_address = ''m@x.org'', mb_graph_user_id = None\<rparr>"

text \<open>The tables of the example that no step of the run changes.\<close>

definition exm_like :: "mail_db \<Rightarrow> bool" where
  "exm_like db \<longleftrightarrow> md_versions db = [exm_version] \<and> md_plans db = [exm_plan] \<and> md_mailboxes db = [exm_box] \<and> md_attachments db = [] \<and> md_rules db = []"

lemma exm_context:
  assumes "exm_like db" "md_drafts db = [exm_draft]" "n \<noteq> ''ann''" "n \<noteq> ''bob''"
  shows "approval_context exm_settings db 1 exm_review (exm_sender n) = Inr (exm_draft, 5, exm_plan, exm_box)"
  using assms by (simp add: approval_context_def exm_like_def exm_draft_def exm_review_def exm_settings_def separate_approver_def
      exm_version_def exm_plan_def exm_box_def)

lemma exm_policies:
  assumes "exm_like db"
  shows "approval_policies exm_settings (exm_env k) db (exm_sender n) exm_draft exm_plan exm_box = Inr ()"
proof -
  have "\<not> external_recipient_requires_manager exm_settings" by (simp add: exm_settings_def)
  moreover have "draft_attachment_blockers (exm_env k) db 1 = []"
    using assms by (simp add: exm_like_def draft_attachment_blockers_def validate_draft_attachments_def active_attachments_def)
  moreover have "mailbox_domain exm_box = ''x.org''" "od_id exm_draft = 1" using exm_mailbox(1) by (simp_all add: exm_box_def exm_draft_def)
  ultimately show ?thesis
    using exm_recipients [of exm_draft db] assms by (simp add: approval_policies_def Let_def exm_like_def exm_draft_def)
qed

lemma exm_step1:
  "\<exists>db. approve_send exm_settings (exm_env 10) (exm_sender ''zoe'') 1 exm_review None exm_db = Inr (exm_pending, db) \<and>
     exm_like db \<and> md_drafts db = [exm_draft] \<and> md_approvals db = [exm_pending] \<and> md_attempts db = []"
proof -
  have l: "exm_like exm_db" "md_drafts exm_db = [exm_draft]" "md_approvals exm_db = []" "md_attempts exm_db = []"
    by (simp_all add: exm_like_def exm_db_def exm_box_def)
  have "require_two_person_approval exm_settings" "rv_snapshot_sha256 exm_review = ''h''" by (simp_all add: exm_settings_def exm_review_def)
  then show ?thesis
    using l exm_context [OF l(1,2), of "''zoe''"] exm_policies [OF l(1), of 10 "''zoe''"]
    by (simp add: approve_send_def Let_def pending_first_def first_approval_def insert_approval_def approvals_index_def exm_like_def
        comm_audit_def flip: exm_pending_def)
qed

lemma exm_step2:
  assumes "exm_like db" "md_drafts db = [exm_draft]" "md_approvals db = [exm_pending]" "md_attempts db = []"
  shows "\<exists>db'. approve_send exm_settings (exm_env 11) (exm_sender ''yan'') 1 exm_review None db = Inr (exm_approval, db') \<and>
     exm_like db' \<and> md_drafts db' = [exm_approved] \<and> md_approvals db' = [exm_pending, exm_approval] \<and> md_attempts db' = []"
proof -
  have s: "require_two_person_approval exm_settings" "rv_snapshot_sha256 exm_review = ''h''" by (simp_all add: exm_settings_def exm_review_def)
  have p: "pending_first 1 [exm_pending] = Some exm_pending" "ap_snapshot_sha256 exm_pending = ''h''" "ap_version_id exm_pending = 5"
    "ap_approver_actor exm_pending = ''zoe''" "ap_id exm_pending = 10" "\<not> live exm_pending"
    by (simp_all add: pending_first_def exm_pending_def approval_row_def exm_draft_def live_def)
  have a: "ap_id exm_approval = 11" "live exm_approval" by (simp_all add: exm_approval_def approval_row_def live_def)
  have put: "put_row od_id exm_approved [exm_draft] = [exm_approved]" by (simp add: put_row_def exm_approved_def)
  have fin: "final_approval (exm_env 11) (exm_sender ''yan'') exm_draft 5 ''h'' None db =
      bindE (insert_approval exm_approval (save_draft exm_approved db)) (\<lambda>db1.
         Inr (exm_approval, comm_audit (exm_env 11) (Some (ma_actor (exm_sender ''yan''))) ''send_approval'' 11 ''exact_snapshot_send_approved'' None
                   (Some [(''decision'', AStr ''APPROVED'')]) (approval_meta exm_draft)
                   (task_event_row (exm_env 11) (exm_sender ''yan'') exm_draft ''SEND_APPROVED''
                      [(''snapshot_sha256'', JStr ''h''), (''revision'', JInt (od_local_revision exm_draft))] db1)))"
    by (simp add: final_approval_def Let_def exm_approval_def exm_approved_def) (simp add: approval_row_def)
  show ?thesis
    using assms s p a put exm_context [OF assms(1,2), of "''yan''"] exm_policies [OF assms(1), of 11 "''yan''"]
    by (simp add: approve_send_def Let_def fin insert_approval_def approvals_index_def exm_like_def comm_audit_def task_event_row_def save_draft_def)
qed

lemma exm_sent_context:
  assumes "exm_like db" "md_approvals db = [exm_pending, exm_approval]"
  shows "send_context exm_settings (exm_env k) (exm_approved\<lparr>od_status := s\<rparr>) db = Inr (exm_approval, exm_plan, exm_box, ''h'')"
proof -
  have f: "od_id exm_approved = 1" "od_response_plan_id exm_approved = Some 2" "od_mailbox_id exm_approved = 4" "od_to exm_approved = exm_to"
    "od_cc exm_approved = []" "od_bcc exm_approved = []" "rsp_id exm_plan = 2" "mb_id exm_box = 4" "mb_address exm_box = ''m@x.org''"
    by (simp_all add: exm_approved_def exm_draft_def exm_plan_def exm_box_def)
  have l: "live_approval 1 db = Some exm_approval" "ap_snapshot_sha256 exm_approval = ''h''"
    using assms(2) by (simp_all add: live_approval_def exm_pending_def exm_approval_def approval_row_def live_def exm_draft_def)
  have b: "draft_attachment_blockers (exm_env k) db 1 = []"
    using assms(1) by (simp add: exm_like_def draft_attachment_blockers_def validate_draft_attachments_def active_attachments_def)
  have "expected_mailbox_address exm_settings = Some ''m@x.org''" "mailbox_domain exm_box = ''x.org''"
    using exm_mailbox(1) by (simp_all add: exm_settings_def exm_box_def)
  then show ?thesis using assms(1) l b f exm_mailbox(2) exm_recipients [of "exm_approved\<lparr>od_status := s\<rparr>" db False False]
    by (simp add: send_context_def Let_def exm_like_def stop_unless_def or_empty_def)
qed

lemma exm_payload_simps: "graph_key ex_lib exm_payload ''changeKey'' = Some ''k''" "graph_key ex_lib exm_payload ''@odata.etag'' = Some ''e''"
  "is_graph_draft exm_payload" "\<not> has_attachments exm_payload"
  by code_simp+

lemma exm_graph:
  assumes "exm_like db"
  shows "check_graph exm_settings (exm_env k) (exm_world r) (exm_approved\<lparr>od_status := s\<rparr>) exm_approval db = Inr ()"
  using assms exm_payload_simps
  by (simp add: check_graph_def exm_world_def stop_unless_def graph_attachments_match_def exm_like_def active_attachments_def
      graph_unchanged_def exm_approval_def approval_row_def exm_draft_def Let_def)

definition exm_attempt :: "nat \<Rightarrow> nat \<Rightarrow> outbound_draft \<Rightarrow> send_attempt" where
  "exm_attempt k n d = new_attempt (exm_env k) None d exm_approval ''h'' n"

lemma exm_prepare:
  assumes "exm_like db" "md_approvals db = [exm_pending, exm_approval]" "md_drafts db = [exm_approved\<lparr>od_status := s\<rparr>]"
    "s \<in> set SENDABLE_STATUSES" "d = exm_approved\<lparr>od_status := s\<rparr>" "n = length (draft_attempts 1 db) + 1"
    "k \<notin> sa_id ` set (md_attempts db)" "sa_idempotency_key (exm_attempt k n d) \<notin> sa_idempotency_key ` set (md_attempts db)"
    "n \<notin> sa_number ` set (draft_attempts 1 db)"
  shows "prepare_send exm_settings (exm_env k) (exm_world r) 1 None db = Inr (exm_attempt k n d, persist_intent (exm_env k) d (exm_attempt k n d) db)"
proof -
  have st: "s \<notin> set FINISHED_STATUSES" "s \<noteq> ''SENDING''" using assms(4) by (auto simp: SENDABLE_STATUSES_def FINISHED_STATUSES_def)
  have f: "od_id d = 1" "od_response_plan_id d = Some 2" "or_empty (od_graph_draft_message_id d) = ''g''" "od_status d = s"
    using assms(5) by (simp_all add: exm_approved_def exm_draft_def or_empty_def)
  have t: "sa_id (exm_attempt k n d) = k" "sa_number (exm_attempt k n d) = n" by (simp_all add: exm_attempt_def new_attempt_def)
  have c: "send_context exm_settings (exm_env k) d db = Inr (exm_approval, exm_plan, exm_box, ''h'')"
    "check_graph exm_settings (exm_env k) (exm_world r) d exm_approval db = Inr ()"
    using exm_sent_context [OF assms(1,2)] exm_graph [OF assms(1)] assms(5) by simp_all
  show ?thesis using assms(3,4,7,8,9) st f t c unfolding assms(5) [symmetric]
    by (simp add: prepare_send_def Let_def stop_unless_def assms(6) [symmetric] exm_attempt_def [symmetric] del: One_nat_def)
qed

lemma exm_attempt_simps: "sa_id (exm_attempt k n d) = k" "sa_number (exm_attempt k n d) = n" "sa_approval_id (exm_attempt k n d) = 11"
  "sa_draft_id (exm_attempt k n d) = od_id d"
  "sa_idempotency_key (exm_attempt k n d) = ''send-attempt:'' @ str_uuid (od_id d) @ '':h:'' @ str_nat n"
  by (simp_all add: exm_attempt_def new_attempt_def exm_approval_def approval_row_def)

lemma exm_world_posts: "\<not> is_unauthorized r \<Longrightarrow> posts (exm_world r) = [r]" "\<not> is_unauthorized r \<Longrightarrow> settled_post (exm_world r) = r"
  by (simp_all add: posts_def settled_post_def exm_world_def)

lemma exm_step3:
  assumes "exm_like db" "md_drafts db = [exm_approved]" "md_approvals db = [exm_pending, exm_approval]" "md_attempts db = []"
    "r = execute_send exm_settings (exm_env 12) (exm_world (NoConnection ''ConnectError'')) 1 None db"
  shows "snd r = [(1, 11, NoConnection ''ConnectError'')]" "exm_like (fst (fst r))"
    "md_drafts (fst (fst r)) = [exm_approved\<lparr>od_status := ''SEND_FAILED_RETRYABLE''\<rparr>]" "md_approvals (fst (fst r)) = [exm_pending, exm_approval]"
    "map (\<lambda>t. (sa_id t, sa_draft_id t, sa_number t, sa_idempotency_key t)) (md_attempts (fst (fst r))) =
       [(12, 1, 1, ''send-attempt:'' @ str_uuid 1 @ '':h:'' @ str_nat 1)]"
proof -
  have s: "exm_approved\<lparr>od_status := ''APPROVED_TO_SEND''\<rparr> = exm_approved" "od_id exm_approved = 1" "send_job_max_attempts exm_settings = 3"
    by (simp_all add: exm_approved_def exm_draft_def exm_settings_def)
  have p: "prepare_send exm_settings (exm_env 12) (exm_world (NoConnection ''ConnectError'')) 1 None db =
      Inr (exm_attempt 12 1 exm_approved, persist_intent (exm_env 12) exm_approved (exm_attempt 12 1 exm_approved) db)"
    by (rule exm_prepare [where s = "''APPROVED_TO_SEND''"]) (use assms s in \<open>simp_all add: SENDABLE_STATUSES_def draft_attempts_def\<close>)
  note run = execute_send_def p [unfolded One_nat_def] exm_world_posts is_unauthorized_def finish_send_def safe_retry_def Let_def
    persist_intent_def save_draft_def comm_audit_def exm_attempt_simps attempt_audit_def save_attempt_def put_row_def
  show "snd r = [(1, 11, NoConnection ''ConnectError'')]" using assms s by (simp add: run)
  show "md_drafts (fst (fst r)) = [exm_approved\<lparr>od_status := ''SEND_FAILED_RETRYABLE''\<rparr>]" "md_approvals (fst (fst r)) = [exm_pending, exm_approval]"
    using assms s by (simp_all add: run)
  show "exm_like (fst (fst r))" using assms s by (simp add: run exm_like_def enqueue_job_def split: option.split)
  show "map (\<lambda>t. (sa_id t, sa_draft_id t, sa_number t, sa_idempotency_key t)) (md_attempts (fst (fst r))) =
       [(12, 1, 1, ''send-attempt:'' @ str_uuid 1 @ '':h:'' @ str_nat 1)]"
    using assms s by (simp add: run enqueue_job_def split: option.split)
qed

lemma exm_step4:
  assumes "exm_like db" "md_drafts db = [exm_approved\<lparr>od_status := ''SEND_FAILED_RETRYABLE''\<rparr>]" "md_approvals db = [exm_pending, exm_approval]"
    "map (\<lambda>t. (sa_id t, sa_draft_id t, sa_number t, sa_idempotency_key t)) (md_attempts db) =
       [(12, 1, 1, ''send-attempt:'' @ str_uuid 1 @ '':h:'' @ str_nat 1)]"
  shows "snd (execute_send exm_settings (exm_env 13) (exm_world (Accepted None ''c'')) 1 None db) = [(1, 11, Accepted None ''c'')]"
proof -
  obtain t where t: "md_attempts db = [t]" "sa_id t = 12" "sa_draft_id t = 1" "sa_number t = 1"
    "sa_idempotency_key t = ''send-attempt:'' @ str_uuid 1 @ '':h:'' @ str_nat 1" using assms(4) by auto
  let ?d = "exm_approved\<lparr>od_status := ''SEND_FAILED_RETRYABLE''\<rparr>"
  have i: "od_id ?d = 1" by (simp add: exm_approved_def exm_draft_def)
  have k: "str_nat 1 = ''1''" "str_nat 2 = ''2''" by code_simp+
  have p: "prepare_send exm_settings (exm_env 13) (exm_world (Accepted None ''c'')) 1 None db =
      Inr (exm_attempt 13 2 ?d, persist_intent (exm_env 13) ?d (exm_attempt 13 2 ?d) db)"
    by (rule exm_prepare [where s = "''SEND_FAILED_RETRYABLE''"])
      (use assms(1-3) t i k in \<open>simp_all add: SENDABLE_STATUSES_def draft_attempts_def exm_attempt_simps\<close>)
  show ?thesis using assms(2) i
    by (simp add: execute_send_def p [unfolded One_nat_def] exm_world_posts is_unauthorized_def persist_intent_def save_draft_def comm_audit_def put_row_def
        exm_attempt_simps)
qed

text \<open>Two people approve, the first request finds no connection, the second is accepted.\<close>

lemma exm_run:
  obtains db db' r where "reach mail_init (mail_step exm_settings) (db, [(1, 11, NoConnection ''ConnectError'')])"
    "execute_send exm_settings (exm_env 13) (exm_world (Accepted None ''c'')) 1 None db = ((db', r), [(1, 11, Accepted None ''c'')])"
    "md_drafts db = [exm_approved\<lparr>od_status := ''SEND_FAILED_RETRYABLE''\<rparr>]"
proof -
  obtain db1 where s1: "approve_send exm_settings (exm_env 10) (exm_sender ''zoe'') 1 exm_review None exm_db = Inr (exm_pending, db1)"
    "exm_like db1" "md_drafts db1 = [exm_draft]" "md_approvals db1 = [exm_pending]" "md_attempts db1 = []" using exm_step1 by blast
  obtain db2 where s2: "approve_send exm_settings (exm_env 11) (exm_sender ''yan'') 1 exm_review None db1 = Inr (exm_approval, db2)"
    "exm_like db2" "md_drafts db2 = [exm_approved]" "md_approvals db2 = [exm_pending, exm_approval]" "md_attempts db2 = []"
    using exm_step2 [OF s1(2-5)] by blast
  obtain db3 r3 l3 where e3: "execute_send exm_settings (exm_env 12) (exm_world (NoConnection ''ConnectError'')) 1 None db2 = ((db3, r3), l3)"
    by (metis surj_pair)
  note s3 = exm_step3 [OF s2(2-5) e3 [symmetric], simplified]
  obtain db4 r4 l4 where e4: "execute_send exm_settings (exm_env 13) (exm_world (Accepted None ''c'')) 1 None db3 = ((db4, r4), l4)"
    by (metis surj_pair)
  have "mail_init (exm_db, [])" by (simp add: mail_init_def exm_db_def)
  then have "reach mail_init (mail_step exm_settings) (exm_db, [])" by (rule reach_init)
  then have "reach mail_init (mail_step exm_settings) (db1, [])" using mail_step.approve [OF s1(1)] by (rule reach_step)
  then have "reach mail_init (mail_step exm_settings) (db2, [])" using mail_step.approve [OF s2(1)] by (rule reach_step)
  then have "reach mail_init (mail_step exm_settings) (db3, [] @ l3)" using mail_step.send [OF e3] by (rule reach_step)
  then show thesis using that e4 s3 exm_step4 [of db3] by simp
qed

subsection \<open>What a send rests on\<close>

text \<open>C3. No request is posted again once it may have been delivered: in every run of the outbound services, if
  two requests were posted under the same approval, then the earlier one was refused in a way that excludes
  delivery (no token, no connection, 401 or 429). A run is any sequence of
  edits, reviews, approvals, queued sends, sends, reconciliations and synchronisations by any actors; a send
  may end between its two transactions, after the intent was committed, but no other call comes between them.\<close>

theorem sends_are_never_replayed:
  assumes "reach mail_init (mail_step st) (db, lg)" "j < k" "k < length lg" "fst (snd (lg ! j)) = fst (snd (lg ! k))"
  shows "refused (snd (snd (lg ! j)))"
proof -
  have "no_replay lg" using mail_sys.reach_inv [OF assms(1)] by (simp add: mail_ok_def)
  then show ?thesis using assms(2-4) unfolding no_replay_def by blast
qed

theorem sends_are_never_replayed_witness:
  "\<exists>db. reach mail_init (mail_step exm_settings) (db, [(1, 11, NoConnection ''ConnectError''), (1, 11, Accepted None ''c'')]) \<and>
     refused (NoConnection ''ConnectError'')"
proof -
  obtain db db' r where run: "reach mail_init (mail_step exm_settings) (db, [(1, 11, NoConnection ''ConnectError'')])"
    "execute_send exm_settings (exm_env 13) (exm_world (Accepted None ''c'')) 1 None db = ((db', r), [(1, 11, Accepted None ''c'')])"
    by (rule exm_run)
  have w: "reach mail_init (mail_step exm_settings) (db', [(1, 11, NoConnection ''ConnectError'')] @ [(1, 11, Accepted None ''c'')])"
    using run(1) mail_step.send [OF run(2)] by (rule reach_step)
  show ?thesis using w sends_are_never_replayed [OF w, of 0 1] by auto
qed



end
