(* ===== verification/Spec2Isabelle.thy ===== *)
theory Spec2Isabelle
  imports Email_State Job_Queue Requirements Deadline_Invariant Packet_Properties Registry_Properties Send_Properties
begin

text \<open>
  Verification development of the licensing automation service, the Python code under
  \<^verbatim>\<open>src/app\<close>.

  \<^bold>\<open>The program.\<close> The service ingests regulator and vendor email, tracks the licensing obligations of
  legal entities, derives deadlines from them, and moves compliance cases through a controlled sequence
  of stages. Its core is (1) a processing state machine for emails, (2) compliance obligations and the
  cases opened for them, with stage moves guarded by evidence and signatures, (3) deadline rules that are
  expanded into dated rows and escalated as they approach, (4) a rule language and an evaluator that say
  whether a licence is required in a jurisdiction, (5) a catalogue of governed documents and the packets
  that are matched, assembled, archived and approved from it, (6) a registry of reusable answers with
  validation, encryption and rules of reuse, (7) outbound mail that is sent only after the exact snapshot of
  a draft was approved, and (8) a leased job queue in the database. (2) and (3) share the obligations, the
  audit rows and the notifications, packets and attachments select documents of the catalogue; everything
  else interacts through the database only.

  \<^bold>\<open>The theories.\<close>
  \<^item> \<^verbatim>\<open>Prelude\<close>: exceptions as values of a sum type (\<^const>\<open>bindE\<close>, \<^const>\<open>mapE\<close>), ordered dicts,
    stable sorting, tables as lists of rows (\<^const>\<open>get_row\<close>, \<^const>\<open>put_row\<close>), reachability, and the
    interfaces: \<^verbatim>\<open>invariant_system\<close> (a step relation that keeps an invariant), \<^verbatim>\<open>rule_resolution\<close> (the
    choice of the most specific applicable rule) and \<^verbatim>\<open>audited_operation\<close> (one audit row per call). Each is
    interpreted on the definitions of the components that provide it.
  \<^item> \<^verbatim>\<open>Py_Date\<close>, \<^verbatim>\<open>Py_Json\<close>, \<^verbatim>\<open>Py_Text\<close>, \<^verbatim>\<open>Py_Num\<close>, \<^verbatim>\<open>Py_Float\<close>: what the code uses of Python's
    standard library: proleptic Gregorian dates with ordinals and their range, JSON values, string
    functions, rounding and truncation, comparison of mixed numbers.
  \<^item> \<^verbatim>\<open>Email_State\<close>: \<^verbatim>\<open>domain/transitions.py\<close>, \<^verbatim>\<open>domain/enums.py\<close>, \<^verbatim>\<open>services/email_state.py\<close>. A call of
    \<^const>\<open>transition_email_state\<close> locks the row, checks the matrix and writes the email, an event, an audit
    row and an outbox row. The lemmas show atomicity, the invariant of reachable databases, resumption
    after a failure, and that no pipeline stage is skipped.
  \<^item> \<^verbatim>\<open>Case_Stages\<close>: \<^verbatim>\<open>licensing/stages.py\<close>, the stage matrix and the checks of a move. \<^verbatim>\<open>Case_Service\<close>:
    \<^verbatim>\<open>services/compliance_case_service.py\<close> over the tables of \<^verbatim>\<open>models/licensing.py\<close> as the record
    \<^typ>\<open>case_db\<close>, one definition per method. The lemmas show the invariant of cases and their event
    histories, the exact condition under which a move succeeds, that closed cases are final, and that
    every open case can be completed.
  \<^item> \<^verbatim>\<open>Alerts\<close>: \<^verbatim>\<open>deadlines/alerts.py\<close> and \<^verbatim>\<open>record_notification\<close>; keys of notifications stay unique and
    every notification has its outbox row.
  \<^item> \<^verbatim>\<open>Business_Days\<close>, \<^verbatim>\<open>Recurrence\<close>, \<^verbatim>\<open>Deadline_Rules\<close>, \<^verbatim>\<open>Escalation\<close>, \<^verbatim>\<open>Deadline_Plan\<close>: the modules of
    \<^verbatim>\<open>app/deadlines\<close>. The lemmas show that the search for a business day always ends on the federal
    calendar and finds the first one, that an expansion is increasing and for fixed dates equal to the list
    of anniversaries, that policy resolution is exact, that milestones are ordered, what a plan contains,
    that materialization keys determine their deadline, and that escalation never repeats a level.
  \<^item> \<^verbatim>\<open>Deadline_Service\<close>, \<^verbatim>\<open>Deadline_Invariant\<close>: \<^verbatim>\<open>services/deadline_service.py\<close> over the tables of
    \<^verbatim>\<open>models/deadlines.py\<close>, as the record \<^typ>\<open>deadline_db\<close> that contains the database of the case service.
    The lemmas show that materialization and escalation are idempotent within a day, the two ways in which
    materialization misbehaves, and, for every interleaving of the two services, that the append-only
    events explain every deadline.
  \<^item> \<^verbatim>\<open>Conditions\<close>, \<^verbatim>\<open>Requirements\<close>: \<^verbatim>\<open>app/requirements\<close> without the explanation texts. The lemmas show that
    validation accepts exactly the well-formed conditions within the limits, that three-valued evaluation
    is monotone in the facts and its trace sound, and that a confident negative answer is given only under
    every guard.
  \<^item> \<^verbatim>\<open>Job_Queue\<close>: \<^verbatim>\<open>jobs/repository.py\<close>, the failure handling of \<^verbatim>\<open>jobs/service.py\<close>, \<^verbatim>\<open>jobs/leasing.py\<close>
    and \<^verbatim>\<open>graph/retry.py\<close>. The lemmas show the invariant of the table, that an enqueue is always served
    although other transactions commit between its statements, the order of claims, and the retry policy.
  \<^item> \<^verbatim>\<open>Document_Catalog\<close>: \<^verbatim>\<open>documents/policies.py\<close>, \<^verbatim>\<open>services/document_catalog.py\<close>,
    \<^verbatim>\<open>services/document_integrity.py\<close> and \<^verbatim>\<open>services/document_reconciliation.py\<close>. The lemmas show the invariant
    of documents, versions and events under every operation, and what reconciliation imports.
  \<^item> \<^verbatim>\<open>Packet_Matching\<close>, \<^verbatim>\<open>Packet_Manifest\<close>, \<^verbatim>\<open>Packet_Service\<close>, \<^verbatim>\<open>Packet_Invariant\<close>, \<^verbatim>\<open>Packet_Properties\<close>:
    \<^verbatim>\<open>app/packets\<close> and \<^verbatim>\<open>services/document_packet_service.py\<close>. The lemmas show that the best eligible
    document is chosen, that file names are safe, that the digest of a manifest identifies its content,
    the invariant of packets and their items, that an approved packet is frozen, and that an archive holds
    the bytes whose hashes were pinned.
  \<^item> \<^verbatim>\<open>Json_Text\<close>, \<^verbatim>\<open>Json_Parse\<close>: \<^verbatim>\<open>json.dumps\<close> and \<^verbatim>\<open>json.loads\<close> of the standard library, with the round trip.
  \<^item> \<^verbatim>\<open>Crypto\<close>: \<^verbatim>\<open>core/crypto.py\<close>, key rings, envelopes, fingerprints and redaction. \<^verbatim>\<open>Information_Scoping\<close>,
    \<^verbatim>\<open>Information_Validation\<close>, \<^verbatim>\<open>Information_Registry\<close>: \<^verbatim>\<open>app/information_registry\<close>, \<^verbatim>\<open>auth/roles.py\<close> and
    \<^verbatim>\<open>services/information_registry_service.py\<close>, over the record \<^typ>\<open>registry_db\<close>. \<^verbatim>\<open>Registry_Invariant\<close> and
    \<^verbatim>\<open>Registry_Properties\<close> show the invariant of the registry under every operation, that resolution finds
    the usable value of the highest version and respects the isolation of entities, that an envelope opens
    for its own row only, who may reveal a value and what a reveal gives back, and that stored values have
    the type of their definition.
  \<^item> \<^verbatim>\<open>Outbound_Policy\<close>: the digests, the recipient and attachment policies, the content checks and the
    readiness of \<^verbatim>\<open>app/communications\<close>. \<^verbatim>\<open>Outbound_Drafts\<close>: the tables of \<^verbatim>\<open>models/draft.py\<close> and
    \<^verbatim>\<open>models/communication.py\<close> as the record \<^typ>\<open>mail_db\<close>, revisions, edits and attachments.
    \<^verbatim>\<open>Send_Approval\<close>: \<^verbatim>\<open>services/draft_review_service.py\<close>, \<^verbatim>\<open>services/send_approval_service.py\<close> and
    \<^verbatim>\<open>services/communication_enqueue_service.py\<close>. \<^verbatim>\<open>Send_Saga\<close>: \<^verbatim>\<open>services/outbound_send_service.py\<close>, with
    the answers of Graph as an argument. \<^verbatim>\<open>Sent_Copies\<close>: the reconciliation with the sent copy and with edits
    made in Outlook. \<^verbatim>\<open>Send_Invariant\<close> and \<^verbatim>\<open>Send_Properties\<close> show, for every run of these services, that no
    request is posted again once it may have been delivered, and that every request rests on a live approval
    of the snapshot that is sent; and that the digest of a snapshot identifies what was reviewed. A send has
    two transactions, and a run may contain a process that ends between them; calls of other processes
    between the two transactions of the same send are not modelled.

  \<^bold>\<open>Correspondence.\<close> A table is a list of rows, a row a record with the columns the code uses, a method of
  a service a function from the database to an error or a result and the new database; an exception
  discards the new database, as the rollback does. A call that commits before it raises returns the
  database beside the error. The details that accompany the message of an error are left out. A definition that models a function keeps its name; a
  prefix is added to the columns that several tables share.

  \<^bold>\<open>Parameters.\<close> SHA-256, HMAC, AES-GCM, the reading of a float from text, the time zone database, the
  random jitter and nonces, the regular expression library, the zip writer, the
  download of a document and \<^verbatim>\<open>str\<close> of compound values are arguments of the definitions that use them; so
  are the clock and the primary keys of inserted rows, which the code takes from its surroundings. What a
  theorem needs of them (that a ciphertext opens with its key and associated data and with no other, that
  a digest has no collision on the two texts at hand) is a hypothesis of that theorem.

  \<^bold>\<open>Bounds.\<close> The loops of the code that have a limit keep it as the fuel of a recursion: 30 days in the
  search for a business day (three are enough on the federal calendar), 400 steps of a custom interval, the
  six occurrences of a plan, depth 12 and 400 nodes of a condition. The loop over the delta pages of a
  drive has no limit in the code; its fuel is an argument, and the result is None when it does not end. The
  scanner of JSON texts recurses with a fuel of twice the length of the text plus one, which is proved to
  be enough for every text. All other recursions are structural or have a termination proof.

  \<^bold>\<open>Not modelled.\<close> HTTP routing, schemas, settings, migrations and command-line entry points are glue around
  the operations above. The clients of Microsoft Graph, SharePoint, object storage, the browser and the
  language model are input and output. Gauges are modelled for deadlines and stale values only. The licensing
  job queue and the claiming of communication jobs follow the protocol of the modelled job queue. Of outbound
  mail, the generation of a draft from a template, the creation and update of the draft that Graph holds, the
  upload of attachments and the move of the source message are not modelled. Form preparation, portal runs,
  the upload, promotion and routing of documents, and classification reviews are not modelled.
\<close>

end
